(* ===== verification/Py_Base.thy ===== *)
theory Py_Base
  imports Complex_Main "HOL-Library.AList" "HOL-Library.Char_ord" "HOL-Library.List_Lexorder"
begin

text \<open>
  The prelude of the development: the Python values, exceptions and library
  functions the modelled scripts share.
  A value decoded from JSON or YAML is a \<open>pyval\<close>; a dictionary is an association
  list with string keys, in insertion order, updated in place as Python does it
  (\<open>AList.update\<close>).  A function that may raise returns \<open>'a res\<close>, with the
  exception on the left.  A Python \<open>str\<close> is a \<open>string\<close> whose characters are the
  code points 0 to 255; \<open>bytes\<close> is the same type.  A finite float carries its
  decimal spelling (what \<open>str\<close> prints) beside its exact rational value.
\<close>

named_theorems py_defs \<open>definitions of the Python library functions, for evaluation\<close>

section \<open>Values and exceptions\<close>

datatype pyfloat = FFin string rat | FInf bool | FNaN

datatype pyval =
    PNone
  | PBool bool
  | PInt int
  | PFloat pyfloat
  | PStr string
  | PList "pyval list"
  | PDict "(string \<times> pyval) list"

type_synonym pydict = "(string \<times> pyval) list"

datatype py_exc =
    ValueError string
  | TypeError
  | KeyError
  | IndexError
  | AttributeError
  | FileNotFoundError
  | OSError
  | OverflowError
  | RuntimeError string
  | ScriptError string string
  | Diverges

type_synonym 'a res = "py_exc + 'a"

text \<open>\<open>ScriptError\<close> is an exception of a class the script declares itself: the name of the
  class and the message.  \<open>Diverges\<close> is not an exception: it stands for a call that never
  returns.\<close>

text \<open>Sequencing: the first exception ends the computation.\<close>

definition bindE :: "'a res \<Rightarrow> ('a \<Rightarrow> 'b res) \<Rightarrow> 'b res" where
  "bindE m f = (case m of Inl e \<Rightarrow> Inl e | Inr x \<Rightarrow> f x)"

definition require :: "bool \<Rightarrow> py_exc \<Rightarrow> unit res" where
  "require b e = (if b then Inr () else Inl e)"

fun mapE :: "('a \<Rightarrow> 'b res) \<Rightarrow> 'a list \<Rightarrow> 'b list res" where
  "mapE f [] = Inr []"
| "mapE f (x # xs) = bindE (f x) (\<lambda>y. bindE (mapE f xs) (\<lambda>ys. Inr (y # ys)))"

fun foldE :: "('a \<Rightarrow> 'b \<Rightarrow> 'b res) \<Rightarrow> 'a list \<Rightarrow> 'b \<Rightarrow> 'b res" where
  "foldE f [] s = Inr s"
| "foldE f (x # xs) s = bindE (f x s) (foldE f xs)"

lemma bindE_simps [simp]:
  "bindE (Inr x) f = f x" "bindE (Inl e) f = Inl e"
  by (simp_all add: bindE_def)

lemma bindE_Inr_iff [simp]: "bindE m f = Inr y \<longleftrightarrow> (\<exists>x. m = Inr x \<and> f x = Inr y)"
  by (cases m) simp_all

lemma bindE_Inl_iff: "bindE m f = Inl e \<longleftrightarrow> m = Inl e \<or> (\<exists>x. m = Inr x \<and> f x = Inl e)"
  by (cases m) simp_all

lemma bindE_assoc: "bindE (bindE m f) g = bindE m (\<lambda>x. bindE (f x) g)"
  by (cases m) simp_all

text \<open>For evaluation: the continuation is looked at once the first result is known.\<close>

lemma bindE_case [code_unfold]: "bindE m f = (case m of Inl e \<Rightarrow> Inl e | Inr x \<Rightarrow> f x)"
  by (rule bindE_def)

lemma bindE_weak_cong: "m = m' \<Longrightarrow> bindE m f = bindE m' f"
  by simp

lemma bindE_cong [fundef_cong]:
  "m = m' \<Longrightarrow> (\<And>x. m' = Inr x \<Longrightarrow> f x = g x) \<Longrightarrow> bindE m f = bindE m' g"
  by (cases m') simp_all

lemma require_simps [simp]:
  "require True e = Inr ()" "require False e = Inl e"
  by (simp_all add: require_def)

lemma require_Inr_iff [simp]: "require b e = Inr u \<longleftrightarrow> b"
  by (simp add: require_def)

lemma require_Inl_iff: "require b e = Inl x \<longleftrightarrow> \<not> b \<and> x = e"
  by (auto simp: require_def)

lemma mapE_Inr_iff: "mapE f xs = Inr ys \<longleftrightarrow> list_all2 (\<lambda>x y. f x = Inr y) xs ys"
  by (induction xs arbitrary: ys) (auto simp: list_all2_Cons1)

lemma mapE_Inr_length: "mapE f xs = Inr ys \<Longrightarrow> length ys = length xs"
  by (auto simp: mapE_Inr_iff dest: list_all2_lengthD)

lemma mapE_Inr_set: "mapE f xs = Inr ys \<Longrightarrow> y \<in> set ys \<Longrightarrow> \<exists>x \<in> set xs. f x = Inr y"
  by (induction xs arbitrary: ys) auto

lemma mapE_unit: "(\<exists>us :: unit list. mapE f xs = Inr us) \<longleftrightarrow> (\<forall>x \<in> set xs. f x = Inr ())"
  by (induction xs) auto

lemma foldE_append: "foldE f (xs @ ys) s = bindE (foldE f xs s) (foldE f ys)"
proof (induction xs arbitrary: s)
  case (Cons a xs)
  then show ?case by (cases "f a s") simp_all
qed simp

text \<open>An invariant of the loop body is an invariant of the loop.\<close>

lemma foldE_invariant:
  assumes "foldE f xs s = Inr t" and "P s"
    and "\<And>x s t. x \<in> set xs \<Longrightarrow> P s \<Longrightarrow> f x s = Inr t \<Longrightarrow> P t"
  shows "P t"
  using assms by (induction xs arbitrary: s) auto

section \<open>Characters and strings\<close>

abbreviation ord_of :: "char \<Rightarrow> nat" where
  "ord_of c \<equiv> of_char c"

text \<open>\<open>str.isspace\<close>, \<open>str.isdigit\<close> and \<open>str.lower\<close> on code points 0 to 255.\<close>

definition py_isspace :: "char \<Rightarrow> bool" where
  [py_defs]: "py_isspace c \<longleftrightarrow>
     (let n = ord_of c in (9 \<le> n \<and> n \<le> 13) \<or> (28 \<le> n \<and> n \<le> 32) \<or> n = 133 \<or> n = 160)"

lemma py_isspace_code [code]:
  "py_isspace c \<longleftrightarrow> c = CHR 0x20 \<or> c = CHR 0x09 \<or> c = CHR 0x0A \<or> c = CHR 0x0B \<or> c = CHR 0x0C
     \<or> c = CHR 0x0D \<or> c = CHR 0x1C \<or> c = CHR 0x1D \<or> c = CHR 0x1E \<or> c = CHR 0x1F
     \<or> c = CHR 0x85 \<or> c = CHR 0xA0"
proof -
  have eq: "c = d \<longleftrightarrow> ord_of c = ord_of d" for d
    by simp
  show ?thesis
    unfolding eq py_isspace_def Let_def by simp arith
qed

definition ascii_digit :: "char \<Rightarrow> bool" where
  [py_defs]: "ascii_digit c \<longleftrightarrow> 48 \<le> ord_of c \<and> ord_of c \<le> 57"

definition is_ascii :: "string \<Rightarrow> bool" where
  [py_defs]: "is_ascii s \<longleftrightarrow> list_all (\<lambda>c. ord_of c < 128) s"

definition py_isdigit :: "string \<Rightarrow> bool" where
  [py_defs]: "py_isdigit s \<longleftrightarrow>
     s \<noteq> [] \<and> list_all (\<lambda>c. ascii_digit c \<or> ord_of c = 178 \<or> ord_of c = 179 \<or> ord_of c = 185) s"

definition py_isdecimal :: "string \<Rightarrow> bool" where
  [py_defs]: "py_isdecimal s \<longleftrightarrow> s \<noteq> [] \<and> list_all ascii_digit s"

definition lower_hex :: "char \<Rightarrow> bool" where
  [py_defs]: "lower_hex c \<longleftrightarrow> ascii_digit c \<or> (97 \<le> ord_of c \<and> ord_of c \<le> 102)"

definition ascii_lower :: "char \<Rightarrow> bool" where
  [py_defs]: "ascii_lower c \<longleftrightarrow> 97 \<le> ord_of c \<and> ord_of c \<le> 122"

definition ascii_upper :: "char \<Rightarrow> bool" where
  [py_defs]: "ascii_upper c \<longleftrightarrow> 65 \<le> ord_of c \<and> ord_of c \<le> 90"

definition ascii_alnum :: "char \<Rightarrow> bool" where
  [py_defs]: "ascii_alnum c \<longleftrightarrow> ascii_digit c \<or> ascii_lower c \<or> ascii_upper c"

definition lower_char :: "char \<Rightarrow> char" where
  [py_defs]: "lower_char c =
     (let n = ord_of c in
      if (65 \<le> n \<and> n \<le> 90) \<or> (192 \<le> n \<and> n \<le> 222 \<and> n \<noteq> 215) then char_of (n + 32) else c)"

definition py_lower :: "string \<Rightarrow> string" where
  [py_defs]: "py_lower s = map lower_char s"

definition py_lstrip :: "string \<Rightarrow> string" where
  [py_defs]: "py_lstrip s = dropWhile py_isspace s"

definition rstrip_by :: "(char \<Rightarrow> bool) \<Rightarrow> string \<Rightarrow> string" where
  [py_defs]: "rstrip_by P s = rev (dropWhile P (rev s))"

definition py_strip :: "string \<Rightarrow> string" where
  [py_defs]: "py_strip s = rstrip_by py_isspace (py_lstrip s)"

definition startswith :: "string \<Rightarrow> string \<Rightarrow> bool" where
  [py_defs]: "startswith s p \<longleftrightarrow> take (length p) s = p"

text \<open>Splitting at every character satisfying a predicate: \<open>n\<close> cuts give \<open>n + 1\<close> pieces.\<close>

fun split_by :: "(char \<Rightarrow> bool) \<Rightarrow> string \<Rightarrow> string list" where
  "split_by P [] = [[]]"
| "split_by P (x # xs) =
     (if P x then [] # split_by P xs
      else (case split_by P xs of [] \<Rightarrow> [[x]] | y # ys \<Rightarrow> (x # y) # ys))"

text \<open>\<open>s.split(c)\<close> with a one-character separator, and \<open>s.split()\<close>.\<close>

definition split_on :: "char \<Rightarrow> string \<Rightarrow> string list" where
  [py_defs]: "split_on c s = split_by (\<lambda>x. x = c) s"

definition split_ws :: "string \<Rightarrow> string list" where
  [py_defs]: "split_ws s = filter (\<lambda>w. w \<noteq> []) (split_by py_isspace s)"

fun py_join :: "string \<Rightarrow> string list \<Rightarrow> string" where
  "py_join sep [] = []"
| "py_join sep [x] = x"
| "py_join sep (x # y # ys) = x @ sep @ py_join sep (y # ys)"

text \<open>\<open>s.split(c, 1)\<close>: the two sides of the first separator, if there is one.\<close>

definition split_once :: "char \<Rightarrow> string \<Rightarrow> (string \<times> string) option" where
  [py_defs]: "split_once c s =
     (if c \<in> set s then Some (takeWhile (\<lambda>x. x \<noteq> c) s, tl (dropWhile (\<lambda>x. x \<noteq> c) s)) else None)"

text \<open>\<open>str.splitlines\<close>: carriage return and newline together are one boundary, and a
  boundary at the very end opens no further line.\<close>

definition is_linebreak :: "char \<Rightarrow> bool" where
  [py_defs]: "is_linebreak c \<longleftrightarrow>
     (let n = ord_of c in (10 \<le> n \<and> n \<le> 13) \<or> (28 \<le> n \<and> n \<le> 30) \<or> n = 133)"

fun drop_cr :: "string \<Rightarrow> string" where
  "drop_cr [] = []"
| "drop_cr [x] = [x]"
| "drop_cr (x # y # ys) =
     (if ord_of x = 13 \<and> ord_of y = 10 then drop_cr (y # ys) else x # drop_cr (y # ys))"

definition py_splitlines :: "string \<Rightarrow> string list" where
  [py_defs]: "py_splitlines s =
     (let ls = split_by is_linebreak (drop_cr s)
      in if last ls = [] then butlast ls else ls)"

text \<open>UTF-8 of the code points the text model has.  A longer sequence stands for a code point
  outside the model, or is invalid: decoding it fails.\<close>

definition utf8_char :: "char \<Rightarrow> string" where
  [py_defs]: "utf8_char c = (if ord_of c < 128 then [c]
     else [char_of (192 + ord_of c div 64), char_of (128 + ord_of c mod 64)])"

definition utf8_encode :: "string \<Rightarrow> string" where
  [py_defs]: "utf8_encode s = concat (map utf8_char s)"

fun utf8_decode :: "string \<Rightarrow> string option" where
  "utf8_decode [] = Some []"
| "utf8_decode (b # s) =
     (if ord_of b < 128 then map_option (\<lambda>t. b # t) (utf8_decode s)
      else if ord_of b = 194 \<or> ord_of b = 195 then
        (case s of
           [] \<Rightarrow> None
         | d # s' \<Rightarrow>
             (if 128 \<le> ord_of d \<and> ord_of d < 192
              then map_option (\<lambda>t. char_of ((ord_of b - 192) * 64 + (ord_of d - 128)) # t) (utf8_decode s')
              else None))
      else None)"

section \<open>Decimal numbers\<close>

definition digit_char :: "nat \<Rightarrow> char" where
  [py_defs]: "digit_char d = char_of (48 + d)"

definition digit_val :: "char \<Rightarrow> nat" where
  [py_defs]: "digit_val c = ord_of c - 48"

fun str_nat :: "nat \<Rightarrow> string" where
  "str_nat n = (if n < 10 then [digit_char n] else str_nat (n div 10) @ [digit_char (n mod 10)])"

declare str_nat.simps [simp del]

definition str_int :: "int \<Rightarrow> string" where
  [py_defs]: "str_int i = (if i < 0 then ''-'' @ str_nat (nat (- i)) else str_nat (nat i))"

text \<open>\<open>int(s)\<close> on a string of ASCII digits.\<close>

definition nat_of_digits :: "string \<Rightarrow> nat" where
  [py_defs]: "nat_of_digits s = foldl (\<lambda>a c. 10 * a + digit_val c) 0 s"

lemma digit_val_digit_char [simp]: "d < 10 \<Longrightarrow> digit_val (digit_char d) = d"
  by (simp add: digit_val_def digit_char_def)

lemma ascii_digit_digit_char [simp]: "d < 10 \<Longrightarrow> ascii_digit (digit_char d)"
  by (simp add: ascii_digit_def digit_char_def)

lemma str_nat_digits: "list_all ascii_digit (str_nat n)"
proof (induction n rule: str_nat.induct)
  case (1 n)
  then show ?case by (subst str_nat.simps) simp
qed

lemma str_nat_nonempty [simp]: "str_nat n \<noteq> []"
  by (subst str_nat.simps) simp

lemma nat_of_digits_str_nat [simp]: "nat_of_digits (str_nat n) = n"
proof (induction n rule: str_nat.induct)
  case (1 n)
  then show ?case by (subst str_nat.simps) (simp add: nat_of_digits_def)
qed

lemma str_nat_inject [simp]: "str_nat m = str_nat n \<longleftrightarrow> m = n"
  by (metis nat_of_digits_str_nat)

section \<open>Facts about text\<close>

lemma char_of_ord: "char_of (ord_of c) = c"
  by simp

lemma char_of_eq: "ord_of c = n \<Longrightarrow> char_of n = c"
  using char_of_ord [of c] by simp

lemma utf8_roundtrip: "utf8_decode (utf8_encode s) = Some s"
proof (induction s)
  case (Cons c s)
  have n: "ord_of c < 256"
    using nat_of_char_less_256 [of c] by (simp add: of_char_def)
  show ?case
  proof (cases "ord_of c < 128")
    case True
    with Cons show ?thesis by (simp add: utf8_encode_def utf8_char_def)
  next
    case False
    with n have "2 \<le> ord_of c div 64 \<and> ord_of c div 64 < 4"
      by (simp add: less_eq_div_iff_mult_less_eq div_less_iff_less_mult)
    then have "ord_of c div 64 = 2 \<or> ord_of c div 64 = 3" by linarith
    moreover have "(ord_of c div 64) * 64 + ord_of c mod 64 = ord_of c" by (rule div_mult_mod_eq)
    moreover have "ord_of c mod 64 < 64" by simp
    ultimately show ?thesis
      using Cons False
      by (elim disjE) (simp_all add: utf8_encode_def utf8_char_def char_of_eq)
  qed
qed (simp add: utf8_encode_def)

lemma utf8_encode_ascii: "list_all (\<lambda>c. ord_of c < 128) s \<Longrightarrow> utf8_encode s = s"
  by (induction s) (simp_all add: utf8_encode_def utf8_char_def)

section \<open>Facts about splitting and joining\<close>

lemma split_by_nonempty [simp]: "split_by P s \<noteq> []"
  by (induction s) (auto split: list.splits)

lemma split_by_no_sep: "list_all (\<lambda>x. \<not> P x) s \<Longrightarrow> split_by P s = [s]"
  by (induction s) auto

lemma split_by_append_sep:
  "list_all (\<lambda>x. \<not> P x) s \<Longrightarrow> P c \<Longrightarrow> split_by P (s @ c # t) = s # split_by P t"
  by (induction s) auto

lemma split_by_pieces: "w \<in> set (split_by P s) \<Longrightarrow> list_all (\<lambda>x. \<not> P x) w"
  by (induction s arbitrary: w) (fastforce split: list.splits if_splits)+

lemma split_by_join:
  assumes "xs \<noteq> []" and "\<forall>x \<in> set xs. c \<notin> set x"
  shows "split_on c (py_join [c] xs) = xs"
  using assms
proof (induction "[c]" xs rule: py_join.induct)
  case (2 x)
  then have "list_all (\<lambda>z. \<not> z = c) x" by (auto simp: list_all_iff)
  then show ?case by (simp add: split_on_def split_by_no_sep)
next
  case (3 x y ys)
  then have "list_all (\<lambda>z. \<not> z = c) x" by (auto simp: list_all_iff)
  with 3 show ?case by (simp add: split_on_def split_by_append_sep)
qed simp

lemma py_join_split: "py_join [c] (split_on c s) = s"
proof (induction s)
  case (Cons a s)
  obtain y ys where "split_by (\<lambda>x. x = c) s = y # ys"
    by (cases "split_by (\<lambda>x. x = c) s") auto
  with Cons show ?case by (cases ys) (auto simp: split_on_def)
qed (simp add: split_on_def)

lemma split_ws_nonempty: "w \<in> set (split_ws s) \<Longrightarrow> w \<noteq> []"
  by (simp add: split_ws_def)

lemma split_ws_no_space: "w \<in> set (split_ws s) \<Longrightarrow> list_all (\<lambda>x. \<not> py_isspace x) w"
  by (auto simp: split_ws_def intro: split_by_pieces)

lemma rstrip_by_last: "rstrip_by P s \<noteq> [] \<Longrightarrow> \<not> P (last (rstrip_by P s))"
  by (metis dropWhile_eq_Nil_conv hd_dropWhile last_rev rev_is_Nil_conv rstrip_by_def set_rev)

lemma set_rstrip_by: "set (rstrip_by P s) \<subseteq> set s"
  unfolding rstrip_by_def by (metis set_dropWhileD set_rev subsetI)

lemma set_py_strip: "set (py_strip s) \<subseteq> set s"
  using set_rstrip_by [of py_isspace "py_lstrip s"] set_dropWhileD
  by (fastforce simp: py_strip_def py_lstrip_def)

lemma set_py_join: "set (py_join sep xs) \<subseteq> set sep \<union> (\<Union>x \<in> set xs. set x)"
  by (induction sep xs rule: py_join.induct) auto

lemma drop_cr_none: "list_all (\<lambda>c. ord_of c \<noteq> 13) s \<Longrightarrow> drop_cr s = s"
  by (induction s rule: drop_cr.induct) auto

lemma split_by_join_pred:
  assumes "xs \<noteq> []" and "\<forall>x \<in> set xs. list_all (\<lambda>z. \<not> P z) x" and "P c"
  shows "split_by P (py_join [c] xs) = xs"
  using assms
  by (induction "[c]" xs rule: py_join.induct) (simp_all add: split_by_no_sep split_by_append_sep)

text \<open>Lines joined by newlines are the lines read back.\<close>

lemma py_splitlines_join:
  assumes "xs \<noteq> []" and "\<forall>x \<in> set xs. x \<noteq> [] \<and> list_all (\<lambda>c. \<not> is_linebreak c) x"
  shows "py_splitlines (py_join [CHR 0x0A] xs) = xs"
proof -
  have "ord_of c \<noteq> 13" if "c \<in> set (py_join [CHR 0x0A] xs)" for c
  proof
    assume "ord_of c = 13"
    then have "is_linebreak c" "c \<noteq> CHR 0x0A" by (auto simp: is_linebreak_def)
    with that assms(2) set_py_join [of "[CHR 0x0A]" xs] show False by (auto simp: list_all_iff)
  qed
  then have "drop_cr (py_join [CHR 0x0A] xs) = py_join [CHR 0x0A] xs"
    by (intro drop_cr_none) (simp add: list_all_iff)
  moreover have "split_by is_linebreak (py_join [CHR 0x0A] xs) = xs"
    using assms by (intro split_by_join_pred) (auto simp: is_linebreak_def)
  ultimately show ?thesis using assms by (simp add: py_splitlines_def)
qed

end
