(* ===== verification/Py_Values.thy ===== *)
theory Py_Values
  imports Py_Base
begin

text \<open>
  Dictionaries and the generic operations on Python values: lookup and update of
  dictionaries (with the interface the rest of the development relies on, as a
  locale), truth value, \<open>str\<close> and \<open>repr\<close>, and Python's \<open>==\<close>, which ignores
  the order of dictionary keys and identifies equal numbers of different types.
\<close>

section \<open>Dictionaries\<close>

text \<open>\<open>k in d\<close>, \<open>d.get(k)\<close>, \<open>d.get(k, x)\<close>, \<open>d[k] = v\<close> and \<open>d.update(e)\<close>.\<close>

definition dhas :: "pydict \<Rightarrow> string \<Rightarrow> bool" where
  [py_defs]: "dhas d k \<longleftrightarrow> map_of d k \<noteq> None"

definition dget_or :: "pydict \<Rightarrow> string \<Rightarrow> pyval \<Rightarrow> pyval" where
  [py_defs]: "dget_or d k x = (case map_of d k of None \<Rightarrow> x | Some v \<Rightarrow> v)"

abbreviation dget :: "pydict \<Rightarrow> string \<Rightarrow> pyval" where
  "dget d k \<equiv> dget_or d k PNone"

definition dput :: "string \<Rightarrow> pyval \<Rightarrow> pydict \<Rightarrow> pydict" where
  [py_defs]: "dput k v d = AList.update k v d"

fun dupdate :: "pydict \<Rightarrow> pydict \<Rightarrow> pydict" where
  "dupdate d [] = d"
| "dupdate d ((k, v) # e) = dupdate (dput k v d) e"

text \<open>\<open>d[k]\<close>, which raises when the key is missing.\<close>

definition dindex :: "pydict \<Rightarrow> string \<Rightarrow> pyval res" where
  [py_defs]: "dindex d k = (case map_of d k of None \<Rightarrow> Inl KeyError | Some v \<Rightarrow> Inr v)"

text \<open>\<open>set(d) == keys\<close>.\<close>

definition keys_are :: "pydict \<Rightarrow> string list \<Rightarrow> bool" where
  [py_defs]: "keys_are d ks \<longleftrightarrow> list_all (dhas d) ks \<and> list_all (\<lambda>(k, v). k \<in> set ks) d"

lemma dhas_iff: "dhas d k \<longleftrightarrow> k \<in> fst ` set d"
  by (simp add: dhas_def map_of_eq_None_iff)

lemma keys_are_iff: "keys_are d ks \<longleftrightarrow> fst ` set d = set ks"
  by (force simp: keys_are_def list_all_iff dhas_iff)

text \<open>
  What the scripts rely on of a dictionary, whatever represents it: reading back a
  stored value, and that storing under one key leaves every other key alone.
\<close>

locale dictionary =
  fixes lookup :: "'d \<Rightarrow> 'k \<Rightarrow> 'v option"
    and put :: "'k \<Rightarrow> 'v \<Rightarrow> 'd \<Rightarrow> 'd"
    and empty :: 'd
  assumes lookup_empty: "lookup empty k = None"
    and lookup_put: "lookup (put k v d) k' = (if k' = k then Some v else lookup d k')"
begin

text \<open>Storing a list of entries in order: the last entry for a key is the one read back.\<close>

lemma lookup_put_all:
  "lookup (foldl (\<lambda>d (k, v). put k v d) d kvs) k =
     (case map_of (rev kvs) k of None \<Rightarrow> lookup d k | Some v \<Rightarrow> Some v)"
  by (induction kvs arbitrary: d) (auto simp: lookup_put map_add_def split: option.splits)

text \<open>Copying the keys of a list that satisfy a guard.\<close>

lemma lookup_put_if:
  "lookup (fold (\<lambda>k d. if P k then put k (f k) d else d) ks d) k =
     (if k \<in> set ks \<and> P k then Some (f k) else lookup d k)"
  by (induction ks arbitrary: d) (auto simp: lookup_put)

end

interpretation pyd: dictionary map_of dput "[]"
  by unfold_locales (simp_all add: dput_def update_conv')

lemmas map_of_dput [simp] = pyd.lookup_put

lemma dget_or_dput [simp]: "dget_or (dput k v d) k' x = (if k' = k then v else dget_or d k' x)"
  by (simp add: dget_or_def)

lemma dhas_dput [simp]: "dhas (dput k v d) k' \<longleftrightarrow> k' = k \<or> dhas d k'"
  by (simp add: dhas_def)

lemma dupdate_foldl: "dupdate d e = foldl (\<lambda>d (k, v). dput k v d) d e"
  by (induction d e rule: dupdate.induct) simp_all

lemma map_of_dupdate:
  "map_of (dupdate d e) k = (case map_of (rev e) k of None \<Rightarrow> map_of d k | Some v \<Rightarrow> Some v)"
  by (simp add: dupdate_foldl pyd.lookup_put_all)

lemma distinct_dput [simp]: "distinct (map fst d) \<Longrightarrow> distinct (map fst (dput k v d))"
  by (simp add: dput_def distinct_update)

lemma dom_dput: "fst ` set (dput k v d) = insert k (fst ` set d)"
  by (simp add: dput_def dom_update)

lemma set_dput: "set (dput k v d) \<subseteq> insert (k, v) (set d)"
  by (induction d) (auto simp: dput_def)

lemma distinct_dupdate [simp]: "distinct (map fst d) \<Longrightarrow> distinct (map fst (dupdate d e))"
  by (induction d e rule: dupdate.induct) simp_all

lemma map_of_rev_distinct: "distinct (map fst xs) \<Longrightarrow> map_of (rev xs) = map_of xs"
  by (rule map_of_eqI) (auto simp: rev_map [symmetric])

lemma map_of_dupdate_distinct:
  "distinct (map fst e) \<Longrightarrow>
     map_of (dupdate d e) k = (case map_of e k of None \<Rightarrow> map_of d k | Some v \<Rightarrow> Some v)"
  by (simp add: map_of_dupdate map_of_rev_distinct)

section \<open>Generic operations on values\<close>

definition py_truthy :: "pyval \<Rightarrow> bool" where
  [py_defs]: "py_truthy v = (case v of
       PNone \<Rightarrow> False
     | PBool b \<Rightarrow> b
     | PInt i \<Rightarrow> i \<noteq> 0
     | PFloat f \<Rightarrow> (case f of FFin r q \<Rightarrow> q \<noteq> 0 | FInf n \<Rightarrow> True | FNaN \<Rightarrow> True)
     | PStr s \<Rightarrow> s \<noteq> []
     | PList xs \<Rightarrow> xs \<noteq> []
     | PDict d \<Rightarrow> d \<noteq> [])"

text \<open>\<open>a or b\<close>.\<close>

definition py_or :: "pyval \<Rightarrow> pyval \<Rightarrow> pyval" where
  [py_defs]: "py_or a b = (if py_truthy a then a else b)"

definition is_str :: "pyval \<Rightarrow> bool" where
  [py_defs]: "is_str v = (case v of PStr s \<Rightarrow> True | _ \<Rightarrow> False)"

definition is_mapping :: "pyval \<Rightarrow> bool" where
  [py_defs]: "is_mapping v = (case v of PDict d \<Rightarrow> True | _ \<Rightarrow> False)"

definition mapping_or_empty :: "pyval \<Rightarrow> pydict" where
  [py_defs]: "mapping_or_empty v = (case v of PDict d \<Rightarrow> d | _ \<Rightarrow> [])"

text \<open>\<open>list(value)\<close>, which raises on a value that is not iterable.\<close>

definition py_list_of :: "pyval \<Rightarrow> pyval list res" where
  [py_defs]: "py_list_of value = (case value of
       PList xs \<Rightarrow> Inr xs
     | PDict d \<Rightarrow> Inr (map (\<lambda>(k, v). PStr k) d)
     | PStr s \<Rightarrow> Inr (map (\<lambda>c. PStr [c]) s)
     | _ \<Rightarrow> Inl TypeError)"

subsection \<open>\<open>repr\<close> and \<open>str\<close>\<close>

definition hex_digit :: "nat \<Rightarrow> char" where
  [py_defs]: "hex_digit n = (if n < 10 then char_of (48 + n) else char_of (87 + n))"

definition repr_char :: "char \<Rightarrow> char \<Rightarrow> string" where
  [py_defs]: "repr_char q c =
     (let n = ord_of c in
      if c = q \<or> n = 92 then [char_of (92::nat), c]
      else if n = 9 then [char_of (92::nat), CHR ''t'']
      else if n = 10 then [char_of (92::nat), CHR ''n'']
      else if n = 13 then [char_of (92::nat), CHR ''r'']
      else if n < 32 \<or> (127 \<le> n \<and> n \<le> 160) \<or> n = 173
        then [char_of (92::nat), CHR ''x'', hex_digit (n div 16), hex_digit (n mod 16)]
      else [c])"

definition repr_str :: "string \<Rightarrow> string" where
  [py_defs]: "repr_str s =
     (let q = (if char_of (39::nat) \<in> set s \<and> char_of (34::nat) \<notin> set s
               then char_of (34::nat) else char_of (39::nat))
      in [q] @ concat (map (repr_char q) s) @ [q])"

definition float_str :: "pyfloat \<Rightarrow> string" where
  [py_defs]: "float_str f = (case f of FFin r q \<Rightarrow> r
     | FInf n \<Rightarrow> (if n then ''-inf'' else ''inf'') | FNaN \<Rightarrow> ''nan'')"

lemma size_pair_item: "(k, v) \<in> set kvs \<Longrightarrow> size v < Suc (size_list (size_prod (\<lambda>_. 0) size) kvs)"
  by (induction kvs) auto

lemma size_pair_item': "(k, v) \<in> set kvs \<Longrightarrow> size v < Suc (size_list (size_prod size size) kvs)"
  by (induction kvs) auto

function py_repr :: "pyval \<Rightarrow> string" where
  "py_repr PNone = ''None''"
| "py_repr (PBool b) = (if b then ''True'' else ''False'')"
| "py_repr (PInt i) = str_int i"
| "py_repr (PFloat f) = float_str f"
| "py_repr (PStr s) = repr_str s"
| "py_repr (PList xs) = ''['' @ py_join '', '' (map py_repr xs) @ '']''"
| "py_repr (PDict kvs) =
     ''{'' @ py_join '', '' (map (\<lambda>(k, v). repr_str k @ '': '' @ py_repr v) kvs) @ ''}''"
  by pat_completeness auto
termination
  by (relation "measure size")
    (auto simp: size_list_estimation' less_Suc_eq_le dest: size_pair_item size_pair_item')

definition py_str :: "pyval \<Rightarrow> string" where
  [py_defs]: "py_str v = (case v of PStr s \<Rightarrow> s | _ \<Rightarrow> py_repr v)"

subsection \<open>Equality\<close>

text \<open>The number a value stands for in a comparison; \<open>True\<close> is 1.\<close>

definition num_val :: "pyval \<Rightarrow> rat option" where
  [py_defs]: "num_val v = (case v of
       PBool b \<Rightarrow> Some (if b then 1 else 0)
     | PInt i \<Rightarrow> Some (of_int i)
     | PFloat f \<Rightarrow> (case f of FFin r q \<Rightarrow> Some q | _ \<Rightarrow> None)
     | _ \<Rightarrow> None)"

definition scalar_eq :: "pyval \<Rightarrow> pyval \<Rightarrow> bool" where
  [py_defs]: "scalar_eq a b = (case (a, b) of
       (PNone, PNone) \<Rightarrow> True
     | (PStr s, PStr t) \<Rightarrow> s = t
     | (PFloat (FInf m), PFloat (FInf n)) \<Rightarrow> m = n
     | _ \<Rightarrow> (case (num_val a, num_val b) of (Some x, Some y) \<Rightarrow> x = y | _ \<Rightarrow> False))"

function py_eq :: "pyval \<Rightarrow> pyval \<Rightarrow> bool" where
  "py_eq (PList xs) b = (case b of
       PList ys \<Rightarrow> length xs = length ys \<and> list_all (\<lambda>(x, y). py_eq x y) (zip xs ys)
     | _ \<Rightarrow> False)"
| "py_eq (PDict d) b = (case b of
       PDict e \<Rightarrow> length d = length e \<and>
         list_all (\<lambda>(k, v). case map_of e k of None \<Rightarrow> False | Some w \<Rightarrow> py_eq v w) d
     | _ \<Rightarrow> False)"
| "py_eq PNone b = scalar_eq PNone b"
| "py_eq (PBool x) b = scalar_eq (PBool x) b"
| "py_eq (PInt i) b = scalar_eq (PInt i) b"
| "py_eq (PFloat f) b = scalar_eq (PFloat f) b"
| "py_eq (PStr s) b = scalar_eq (PStr s) b"
  by pat_completeness auto
termination
  by (relation "measure (size \<circ> fst)")
    (auto simp: size_list_estimation' less_Suc_eq_le dest: set_zip_leftD size_pair_item size_pair_item')

subsection \<open>Well-formed values\<close>

text \<open>A Python dictionary never holds a key twice, at any depth.\<close>

function wf_val :: "pyval \<Rightarrow> bool" where
  "wf_val (PDict d) \<longleftrightarrow> distinct (map fst d) \<and> list_all (\<lambda>(k, v). wf_val v) d"
| "wf_val (PList xs) \<longleftrightarrow> list_all wf_val xs"
| "wf_val PNone \<longleftrightarrow> True"
| "wf_val (PBool b) \<longleftrightarrow> True"
| "wf_val (PInt i) \<longleftrightarrow> True"
| "wf_val (PFloat f) \<longleftrightarrow> True"
| "wf_val (PStr s) \<longleftrightarrow> True"
  by pat_completeness auto
termination
  by (relation "measure size")
    (auto simp: size_list_estimation' less_Suc_eq_le dest: size_pair_item size_pair_item')

lemma wf_val_lookup: "wf_val (PDict d) \<Longrightarrow> map_of d k = Some v \<Longrightarrow> wf_val v"
  by (auto simp: list_all_iff dest: map_of_SomeD)

lemma wf_val_distinct: "wf_val (PDict d) \<Longrightarrow> distinct (map fst d)"
  by simp

lemma is_mapping_iff: "is_mapping v \<longleftrightarrow> (\<exists>d. v = PDict d)"
  by (cases v) (simp_all add: is_mapping_def)

lemma mapping_or_empty_PDict [simp]: "mapping_or_empty (PDict d) = d"
  by (simp add: mapping_or_empty_def)

lemma is_mapping_PDict [simp]: "is_mapping (PDict d)"
  by (simp add: is_mapping_def)

lemma wf_val_sub_mapping:
  "wf_val (PDict d) \<Longrightarrow> map_of d k = Some v \<Longrightarrow> wf_val (PDict (mapping_or_empty v))"
  using wf_val_lookup [of d k v] by (cases v) (simp_all add: mapping_or_empty_def)

text \<open>The value at a path of keys below a value.\<close>

fun lookup_path :: "pyval \<Rightarrow> string list \<Rightarrow> pyval option" where
  "lookup_path v [] = Some v"
| "lookup_path v (k # ks) =
     (case map_of (mapping_or_empty v) k of None \<Rightarrow> None | Some w \<Rightarrow> lookup_path w ks)"

lemma lookup_path_scalar [simp]: "\<not> is_mapping v \<Longrightarrow> lookup_path v (k # ks) = None"
  by (cases v) (simp_all add: mapping_or_empty_def is_mapping_def)

end
