(* ===== verification/Catalog_Values.thy ===== *)
theory Catalog_Values
  imports Py_Values "HOL-Library.Multiset"
begin

text \<open>
  The value helpers of the PXE client catalog (the Ansible filter
  openwrt\_pxe\_client\_catalog.py): reading booleans, lists and strings out of loosely
  typed inventory values, the recursive merge of two nested mappings with its list
  of conflicts, and the comparison of generated items with the legacy ones.
\<close>

section \<open>Reading inventory values\<close>

definition as_bool :: "pyval \<Rightarrow> bool" where
  [py_defs]: "as_bool value = (case value of
       PBool b \<Rightarrow> b
     | PNone \<Rightarrow> False
     | PStr s \<Rightarrow> py_lower (py_strip s) \<in> set [''1'', ''true'', ''yes'', ''on'']
     | _ \<Rightarrow> py_truthy value)"

definition as_list :: "pyval \<Rightarrow> pyval list" where
  [py_defs]: "as_list value = (case value of
       PNone \<Rightarrow> []
     | PStr s \<Rightarrow> map PStr (filter (\<lambda>item. item \<noteq> []) (map py_strip (split_on CHR '','' s)))
     | PList xs \<Rightarrow> xs
     | _ \<Rightarrow> [value])"

definition clean_string :: "pyval \<Rightarrow> string" where
  [py_defs]: "clean_string value = (case value of PNone \<Rightarrow> [] | _ \<Rightarrow> py_strip (py_str value))"

fun first_present :: "pyval list \<Rightarrow> pyval" where
  "first_present [] = PNone"
| "first_present (value # values) = (if value \<noteq> PNone then value else first_present values)"

definition append_clean_unique :: "string list \<Rightarrow> pyval \<Rightarrow> string list" where
  [py_defs]: "append_clean_unique items value =
     (let item = clean_string value
      in if item \<noteq> [] \<and> item \<notin> set items then items @ [item] else items)"

lemma as_bool_simps [simp]:
  "as_bool (PBool b) = b" "as_bool PNone = False"
  by (simp_all add: as_bool_def)

lemma clean_string_PNone [simp]: "clean_string PNone = []"
  by (simp add: clean_string_def)

lemma append_clean_unique_distinct:
  "distinct items \<Longrightarrow> distinct (append_clean_unique items value)"
  by (simp add: append_clean_unique_def Let_def)

lemma append_clean_unique_nonempty:
  "[] \<notin> set items \<Longrightarrow> [] \<notin> set (append_clean_unique items value)"
  by (auto simp: append_clean_unique_def Let_def)

section \<open>Merging nested mappings\<close>

definition merge_conflict :: "string list \<Rightarrow> pyval" where
  [py_defs]: "merge_conflict path = PDict [(''path'', PStr (py_join ''.'' path))]"

abbreviation items_size :: "pydict \<Rightarrow> nat" where
  "items_size d \<equiv> size_list (size_prod (\<lambda>_. 0) size) d"

lemma items_size_mapping: "items_size (mapping_or_empty v) \<le> size v"
  by (cases v) (simp_all add: mapping_or_empty_def)

lemma items_size_mapping_less: "items_size (mapping_or_empty v) < Suc (size v + n)"
    "items_size (mapping_or_empty v) < Suc (Suc (size v + n))"
  using items_size_mapping [of v] by linarith+

function merge_nested_mapping :: "pydict \<Rightarrow> pydict \<Rightarrow> string list \<Rightarrow> pydict \<times> pyval list" where
  "merge_nested_mapping merged [] path = (merged, [])"
| "merge_nested_mapping merged ((key, value) # overlay) path =
     (let current_path = path @ [key] in
      case map_of merged key of
        None \<Rightarrow> merge_nested_mapping (dput key value merged) overlay path
      | Some current \<Rightarrow>
          (if is_mapping current \<and> is_mapping value then
             (let child = merge_nested_mapping (mapping_or_empty current)
                            (mapping_or_empty value) current_path;
                  rest = merge_nested_mapping (dput key (PDict (fst child)) merged) overlay path
              in (fst rest, snd child @ snd rest))
           else
             (let rest = merge_nested_mapping merged overlay path
              in (fst rest,
                  (if \<not> py_eq current value then [merge_conflict current_path] else [])
                    @ snd rest))))"
  by pat_completeness auto

termination
  by (relation "measure (\<lambda>(merged, overlay, path). items_size overlay)")
    (simp_all add: items_size_mapping_less)

text \<open>
  One level of the merge, read through lookups: a key only the overlay has is
  added, two mappings are merged, and in every other case the base value stays.
\<close>

lemma merge_nested_lookup:
  assumes "distinct (map fst overlay)"
  shows "map_of (fst (merge_nested_mapping merged overlay path)) k =
    (case map_of merged k of
       None \<Rightarrow> map_of overlay k
     | Some current \<Rightarrow>
         (case map_of overlay k of
            None \<Rightarrow> Some current
          | Some value \<Rightarrow>
              (if is_mapping current \<and> is_mapping value
               then Some (PDict (fst (merge_nested_mapping (mapping_or_empty current)
                      (mapping_or_empty value) (path @ [k]))))
               else Some current)))"
  using assms
proof (induction merged overlay path rule: merge_nested_mapping.induct)
  case (2 merged key val overlay path)
  have new: "map_of overlay key = None"
    using "2.prems" by (simp add: map_of_eq_None_iff)
  show ?case
  proof (cases "map_of merged key")
    case None
    with 2 new show ?thesis by (auto split: option.splits)
  next
    case (Some current)
    with 2 new show ?thesis by (auto simp: Let_def case_prod_beta split: option.splits)
  qed
qed (simp split: option.split)

lemma merge_nested_distinct:
  "distinct (map fst merged) \<Longrightarrow> distinct (map fst (fst (merge_nested_mapping merged overlay path)))"
  by (induction merged overlay path rule: merge_nested_mapping.induct)
    (auto simp: Let_def case_prod_beta split: option.splits)

section \<open>Comparing generated items with legacy items\<close>

fun mapping_legacy_mismatches :: "pydict \<Rightarrow> pydict \<Rightarrow> pyval list" where
  "mapping_legacy_mismatches [] generated_mapping = []"
| "mapping_legacy_mismatches ((key, legacy_value) # legacy) generated_mapping =
     (case map_of generated_mapping key of
        None \<Rightarrow> PDict [(''key'', PStr key), (''type'', PStr ''missing_generated'')]
                  # mapping_legacy_mismatches legacy generated_mapping
      | Some value \<Rightarrow>
          (if \<not> py_eq value legacy_value
           then PDict [(''key'', PStr key), (''type'', PStr ''different_value'')]
                  # mapping_legacy_mismatches legacy generated_mapping
           else mapping_legacy_mismatches legacy generated_mapping))"

definition sorted_inventory_hosts :: "pyval \<Rightarrow> pydict \<Rightarrow> string list" where
  [py_defs]: "sorted_inventory_hosts groups hostvars =
     (case dget (mapping_or_empty groups) ''all'' of
        PList all_group \<Rightarrow> sort (map py_str all_group)
      | _ \<Rightarrow> sort (map fst hostvars))"

definition normalise_client :: "pydict \<Rightarrow> string list \<Rightarrow> pydict" where
  [py_defs]: "normalise_client client fields =
     fold (\<lambda>field d. if dhas client field then dput field (dget client field) d else d) fields []"

fun item_key :: "pydict \<Rightarrow> string list \<Rightarrow> string" where
  "item_key item [] = []"
| "item_key item (key # keys) =
     (let value = clean_string (dget item key) in if value \<noteq> [] then value else item_key item keys)"

definition non_shadowed_legacy :: "pydict list \<Rightarrow> pydict list \<Rightarrow> string list \<Rightarrow> pydict list" where
  [py_defs]: "non_shadowed_legacy legacy_items generated_items keys =
     (let generated_keys =
            filter (\<lambda>k. k \<noteq> []) (map (\<lambda>item. item_key item keys) generated_items)
      in filter (\<lambda>item. item_key item keys \<notin> set generated_keys) legacy_items)"

definition legacy_by_key :: "pydict list \<Rightarrow> string list \<Rightarrow> string \<Rightarrow> pydict option" where
  [py_defs]: "legacy_by_key legacy_items keys =
     map_of (rev (map (\<lambda>item. (item_key item keys, item))
       (filter (\<lambda>item. item_key item keys \<noteq> []) legacy_items)))"

definition legacy_mismatch ::
    "pydict list \<Rightarrow> string list \<Rightarrow> string list \<Rightarrow> pydict \<Rightarrow> pyval list" where
  [py_defs]: "legacy_mismatch legacy_items fields keys generated =
     (case legacy_by_key legacy_items keys (item_key generated keys) of
        None \<Rightarrow> []
      | Some legacy \<Rightarrow>
          (let generated_norm = normalise_client generated fields;
               legacy_norm = normalise_client legacy fields
           in if \<not> py_eq (PDict generated_norm) (PDict legacy_norm)
              then [PDict [(''key'', PStr (item_key generated keys)),
                     (''fields'', PList (map PStr (sort (filter (\<lambda>field.
                        \<not> py_eq (dget generated_norm field) (dget legacy_norm field)) fields))))]]
              else []))"

definition legacy_mismatches ::
    "pydict list \<Rightarrow> pydict list \<Rightarrow> string list \<Rightarrow> string list \<Rightarrow> pyval list" where
  [py_defs]: "legacy_mismatches legacy_items generated_items fields keys =
     concat (map (legacy_mismatch legacy_items fields keys) generated_items)"

lemma non_shadowed_legacy_iff:
  "item \<in> set (non_shadowed_legacy legacy generated keys) \<longleftrightarrow>
     item \<in> set legacy \<and>
     (item_key item keys = [] \<or> (\<forall>g \<in> set generated. item_key g keys \<noteq> item_key item keys))"
  unfolding non_shadowed_legacy_def by (simp add: Let_def image_iff) metis

lemma map_of_normalise_client:
  "map_of (normalise_client client fields) f =
     (if f \<in> set fields then map_of client f else None)"
  by (simp add: normalise_client_def pyd.lookup_put_if dhas_def dget_or_def split: option.split)

lemma sort_mset_cong: "mset xs = mset ys \<Longrightarrow> sort xs = sort (ys :: 'a::linorder list)"
  by (metis properties_for_sort mset_sort sorted_sort)

lemma sorted_inventory_hosts_perm:
  "mset xs = mset ys \<Longrightarrow>
     sorted_inventory_hosts (PDict [(''all'', PList xs)]) hv =
     sorted_inventory_hosts (PDict [(''all'', PList ys)]) hv"
  by (simp add: sorted_inventory_hosts_def mapping_or_empty_def dget_or_def sort_mset_cong)

end
