(* ===== verification/Catalog_Roles.thy ===== *)
theory Catalog_Roles
  imports Catalog_Values
begin

text \<open>
  The per-role variables of the PXE client catalog: the variables a booted client
  hands to its ansible-pull roles, built out of the host's inventory variables.  The
  builders copy an allow-list of keys, fill in defaults, and refuse combinations
  that would lose node data.
\<close>

section \<open>Allow-lists\<close>

definition TERRAFORM_STG_GROUP_VAR_KEYS :: "string list" where
  [py_defs]: "TERRAFORM_STG_GROUP_VAR_KEYS =
    [''k3s_observability_apply_package_atom'',
     ''k3s_observability_apply_package_accept_keywords'',
     ''k3s_observability_apply_package_licenses'',
     ''k3s_observability_apply_state_mount_src'',
     ''k3s_observability_apply_state_mount_path'',
     ''k3s_observability_apply_state_mount_fstype'',
     ''k3s_observability_apply_state_mount_opts'',
     ''k3s_observability_apply_stage_name'',
     ''k3s_observability_apply_infra_bundle_name'',
     ''k3s_observability_apply_site_input_bundle_name'',
     ''k3s_observability_apply_run_root'',
     ''k3s_observability_apply_work_root'',
     ''k3s_observability_apply_service_name'',
     ''k3s_observability_apply_kubeconfig_path'',
     ''k3s_observability_apply_k3s_data_dir'',
     ''k3s_observability_apply_lock_timeout'',
     ''k3s_observability_apply_parallelism'',
     ''k3s_observability_apply_wait_timeout_secs'',
     ''k3s_observability_apply_retry_secs'',
     ''k3s_observability_apply_post_ready_settle_secs'',
     ''k3s_observability_apply_metallb_crd_wait_timeout_secs'',
     ''k3s_observability_apply_metallb_ready_wait_timeout_secs'',
     ''k3s_observability_apply_cert_manager_ready_wait_timeout_secs'',
     ''k3s_observability_apply_after_units'']"

definition K3S_LOCAL_STORAGE_BOOL_KEYS :: "string list" where
  [py_defs]: "K3S_LOCAL_STORAGE_BOOL_KEYS =
    [''k3s_local_storage_enabled'',
     ''k3s_local_storage_allow_format'',
     ''k3s_local_storage_force_format'',
     ''k3s_local_storage_ephemeral_agent_data'',
     ''k3s_local_storage_wipe_signatures'',
     ''k3s_local_storage_require_partition'',
     ''k3s_local_storage_killall_on_mount_change'',
     ''k3s_local_storage_scrub_containerd_on_boot'',
     ''k3s_local_storage_node_password_sync_enabled'',
     ''k3s_local_storage_reset_identity_when_local_password_missing'']"

definition K3S_LOCAL_STORAGE_VALUE_KEYS :: "string list" where
  [py_defs]: "K3S_LOCAL_STORAGE_VALUE_KEYS =
    [''k3s_local_storage_device'',
     ''k3s_local_storage_mountpoint'',
     ''k3s_local_storage_filesystem_type'',
     ''k3s_local_storage_label'',
     ''k3s_local_storage_mount_options'',
     ''k3s_local_storage_killall_script_path'',
     ''k3s_local_storage_scrub_containerd_confirm'',
     ''k3s_local_storage_scrub_containerd_required_confirm'',
     ''k3s_local_storage_containerd_dir'',
     ''k3s_local_storage_node_password_sync_service_name'',
     ''k3s_local_storage_node_password_sync_script_path'',
     ''k3s_local_storage_node_password_sync_dropin_name'',
     ''k3s_local_storage_state_dir'',
     ''k3s_local_storage_node_password_state_path'',
     ''k3s_local_storage_server_ca_hash_state_path'',
     ''k3s_local_storage_cluster_token_path'']"

definition K3S_ISCSI_SESSION_BOOL_KEYS :: "string list" where
  [py_defs]: "K3S_ISCSI_SESSION_BOOL_KEYS =
    [''k3s_iscsi_session_enabled'',
     ''k3s_iscsi_session_login_enabled'']"

definition K3S_ISCSI_SESSION_VALUE_KEYS :: "string list" where
  [py_defs]: "K3S_ISCSI_SESSION_VALUE_KEYS =
    [''k3s_iscsi_session_portal'',
     ''k3s_iscsi_session_target_iqn'',
     ''k3s_iscsi_session_initiator_iqn'',
     ''k3s_iscsi_session_device_path'',
     ''k3s_iscsi_session_node_startup'',
     ''k3s_iscsi_session_open_iscsi_package'',
     ''k3s_iscsi_session_discovery_timeout'',
     ''k3s_iscsi_session_udev_settle_timeout'']"

definition RPI5_EGPU_LOCAL_LLM_BOOL_KEYS :: "string list" where
  [py_defs]: "RPI5_EGPU_LOCAL_LLM_BOOL_KEYS =
    [''rpi5_egpu_local_llm_enabled'',
     ''rpi5_egpu_local_swap_enabled'',
     ''rpi5_egpu_llama_enabled'',
     ''rpi5_egpu_llama_disable_webui'',
     ''rpi5_egpu_llama_models_storage_enabled'',
     ''rpi5_egpu_llama_models_storage_allow_empty_dir_replace'',
     ''rpi5_egpu_llama_build_enabled'',
     ''rpi5_egpu_llama_validate_runtime'']"

definition RPI5_EGPU_LOCAL_LLM_VALUE_KEYS :: "string list" where
  [py_defs]: "RPI5_EGPU_LOCAL_LLM_VALUE_KEYS =
    [''rpi5_egpu_local_swap_path'',
     ''rpi5_egpu_local_swap_size'',
     ''rpi5_egpu_local_swap_size_bytes'',
     ''rpi5_egpu_local_swap_priority'',
     ''rpi5_egpu_local_swap_swappiness'',
     ''rpi5_egpu_local_swap_mountpoint'',
     ''rpi5_egpu_local_swap_mount_fstype'',
     ''rpi5_egpu_local_swap_mount_source'',
     ''rpi5_egpu_local_swap_service_name'',
     ''rpi5_egpu_llama_user'',
     ''rpi5_egpu_llama_group'',
     ''rpi5_egpu_llama_home'',
     ''rpi5_egpu_llama_models_dir'',
     ''rpi5_egpu_llama_model_path'',
     ''rpi5_egpu_llama_source_dir'',
     ''rpi5_egpu_llama_build_dir'',
     ''rpi5_egpu_llama_build_jobs'',
     ''rpi5_egpu_llama_service_name'',
     ''rpi5_egpu_llama_bind_host'',
     ''rpi5_egpu_llama_port'',
     ''rpi5_egpu_llama_context_size'',
     ''rpi5_egpu_llama_gpu_layers'',
     ''rpi5_egpu_llama_condition_host'',
     ''rpi5_egpu_llama_models_storage_dir'',
     ''rpi5_egpu_llama_models_storage_mountpoint'',
     ''rpi5_egpu_llama_models_storage_fstype'',
     ''rpi5_egpu_llama_models_storage_mount_source'',
     ''rpi5_egpu_llama_health_retries'',
     ''rpi5_egpu_llama_health_delay'']"

definition RPI5_EGPU_LOCAL_LLM_SEQUENCE_KEYS :: "string list" where
  [py_defs]: "RPI5_EGPU_LOCAL_LLM_SEQUENCE_KEYS =
    [''rpi5_egpu_llama_extra_args'']"

text \<open>\<open>for key in keys: if key in hv: result[key] = f(hv[key])\<close>\<close>

definition copy_keys :: "(pyval \<Rightarrow> pyval) \<Rightarrow> string list \<Rightarrow> pydict \<Rightarrow> pydict \<Rightarrow> pydict" where
  [py_defs]: "copy_keys f keys hv result =
     fold (\<lambda>key result. if dhas hv key then dput key (f (dget hv key)) result else result) keys result"

lemma map_of_copy_keys:
  "map_of (copy_keys f keys hv result) k =
     (if k \<in> set keys \<and> dhas hv k then Some (f (dget hv k)) else map_of result k)"
  by (simp add: copy_keys_def pyd.lookup_put_if)

lemma dget_or_copy_keys:
  "dget_or (copy_keys f keys hv result) k x =
     (if k \<in> set keys \<and> dhas hv k then f (dget hv k) else dget_or result k x)"
  by (simp add: dget_or_def map_of_copy_keys)

lemma dhas_copy_keys:
  "dhas (copy_keys f keys hv result) k \<longleftrightarrow> k \<in> set keys \<and> dhas hv k \<or> dhas result k"
  by (auto simp: dhas_def map_of_copy_keys)

section \<open>Small builders\<close>

definition build_base_vars :: "pydict \<Rightarrow> pydict \<Rightarrow> pydict" where
  [py_defs]: "build_base_vars hv cfg =
     (let ansible_pull_cfg = mapping_or_empty (dget cfg ''ansible_pull'') in
      if \<not> as_bool (dget_or ansible_pull_cfg ''distcc_vars_enabled'' (PBool True)) then []
      else (case dget hv ''distcc'' of
          PDict distcc_cfg \<Rightarrow>
            (if \<not> as_bool (dget distcc_cfg ''enabled'') then []
             else (let result = [(''distcc'', PDict distcc_cfg)] in
                   if dhas hv ''distcc_default_allow''
                   then dput ''distcc_default_allow'' (dget hv ''distcc_default_allow'') result
                   else result))
        | _ \<Rightarrow> []))"

definition build_terraform_stg_group_vars :: "pydict \<Rightarrow> pydict" where
  [py_defs]: "build_terraform_stg_group_vars hv =
     map (\<lambda>key. (key, dget hv key)) (filter (dhas hv) TERRAFORM_STG_GROUP_VAR_KEYS)"

definition option_value_for_client :: "pydict \<Rightarrow> pydict \<Rightarrow> string \<Rightarrow> pyval \<Rightarrow> string" where
  [py_defs]: "option_value_for_client cfg overlay_cfg overlay_id role =
     (let option_value = first_present [dget overlay_cfg ''option_value'', dget cfg ''option_value''] in
      if option_value \<noteq> PNone \<and> clean_string option_value \<noteq> [] then clean_string option_value
      else
       (let parts = [''overlay_id='' @ overlay_id];
            role_text = clean_string role;
            parts = (if role_text \<noteq> [] then parts @ [''role='' @ role_text] else parts);
            roles = as_list (first_present [dget cfg ''roles'', dget overlay_cfg ''roles'']);
            roles_text = py_join '','' (filter (\<lambda>t. t \<noteq> []) (map clean_string roles));
            parts = (if roles_text \<noteq> [] then parts @ [''roles='' @ roles_text] else parts);
            stage = clean_string (first_present [dget cfg ''stage'', dget cfg ''tftp_stage'']);
            parts = (if stage \<noteq> [] then parts @ [''stage='' @ stage] else parts)
        in py_join '','' parts))"

definition DESTRUCTIVE_STG_KEYS :: "string list" where
  [py_defs]: "DESTRUCTIVE_STG_KEYS =
    [''k3s_local_storage_allow_format'', ''k3s_local_storage_force_format'',
     ''k3s_local_storage_ephemeral_agent_data'']"

definition persistent_stg_storage_vars :: "pydict \<Rightarrow> pydict res" where
  [py_defs]: "persistent_stg_storage_vars values =
     foldE (\<lambda>key result.
        if as_bool (dget_or result key (PBool False))
        then Inl (ValueError (''persistent staging server cannot enable '' @ key))
        else Inr (dput key (PBool False) result)) DESTRUCTIVE_STG_KEYS values"

definition build_k3s_local_storage_vars :: "pydict \<Rightarrow> bool \<Rightarrow> pyval \<Rightarrow> pydict" where
  [py_defs]: "build_k3s_local_storage_vars hv default_ephemeral_agent_data
       default_node_password_sync_enabled =
     (let result =
        [(''k3s_local_storage_enabled'',
            PBool (as_bool (first_present [dget hv ''k3s_local_storage_enabled'', PBool False]))),
         (''k3s_local_storage_mountpoint'', PStr ''/var/lib/rancher/k3s''),
         (''k3s_local_storage_filesystem_type'', PStr ''ext4''),
         (''k3s_local_storage_mount_options'',
            PStr ''defaults,noatime,lazytime,nodiscard,errors=remount-ro''),
         (''k3s_local_storage_allow_format'', PBool True),
         (''k3s_local_storage_force_format'', PBool False),
         (''k3s_local_storage_ephemeral_agent_data'',
            PBool (as_bool (first_present [dget hv ''k3s_local_storage_ephemeral_agent_data'',
                                           PBool default_ephemeral_agent_data])))];
          result =
            (if default_node_password_sync_enabled \<noteq> PNone
                \<or> dhas hv ''k3s_local_storage_node_password_sync_enabled''
             then dput ''k3s_local_storage_node_password_sync_enabled''
                    (PBool (as_bool (first_present
                      [dget hv ''k3s_local_storage_node_password_sync_enabled'',
                       default_node_password_sync_enabled]))) result
             else result);
          result = copy_keys (\<lambda>v. PBool (as_bool v)) K3S_LOCAL_STORAGE_BOOL_KEYS hv result
      in copy_keys (\<lambda>v. v) K3S_LOCAL_STORAGE_VALUE_KEYS hv result)"

definition build_k3s_iscsi_session_vars :: "pydict \<Rightarrow> pydict" where
  [py_defs]: "build_k3s_iscsi_session_vars hv =
     copy_keys (\<lambda>v. v) K3S_ISCSI_SESSION_VALUE_KEYS hv
       (copy_keys (\<lambda>v. PBool (as_bool v)) K3S_ISCSI_SESSION_BOOL_KEYS hv [])"

definition build_rpi5_egpu_local_llm_vars :: "pydict \<Rightarrow> pydict" where
  [py_defs]: "build_rpi5_egpu_local_llm_vars hv =
     copy_keys (\<lambda>v. PList (as_list v)) RPI5_EGPU_LOCAL_LLM_SEQUENCE_KEYS hv
       (copy_keys (\<lambda>v. v) RPI5_EGPU_LOCAL_LLM_VALUE_KEYS hv
         (copy_keys (\<lambda>v. PBool (as_bool v)) RPI5_EGPU_LOCAL_LLM_BOOL_KEYS hv []))"

section \<open>Agent and server roles\<close>

definition client_node_ip :: "pydict \<Rightarrow> pydict \<Rightarrow> string" where
  [py_defs]: "client_node_ip hv cfg =
     clean_string (first_present [dget hv ''k3s_node_ip'', dget hv ''ansible_host'', dget cfg ''ip''])"

definition agent_labels :: "pydict \<Rightarrow> pydict \<Rightarrow> string list" where
  [py_defs]: "agent_labels k3s_agent_cfg hv =
     (let labels = foldl append_clean_unique [] (as_list (dget k3s_agent_cfg ''node-label''));
          labels = foldl append_clean_unique labels (as_list (dget hv ''k3s_agent_extra_node_labels''))
      in if labels = [] then [''example.com/k3s-workload=true''] else labels)"

definition agent_snapshotter :: "pydict \<Rightarrow> string res" where
  [py_defs]: "agent_snapshotter hv =
     (let text = clean_string (dget hv ''k3s_agent_snapshotter'');
          snapshotter = (if text \<noteq> [] then text else ''native'') in
      if snapshotter \<notin> set [''native'', ''overlayfs'']
      then Inl (ValueError ''k3s_agent_snapshotter must be native or overlayfs'')
      else if snapshotter = ''overlayfs'' \<and>
          (\<not> as_bool (dget hv ''k3s_local_storage_enabled'')
           \<or> clean_string (dget hv ''k3s_local_storage_filesystem_type'') \<noteq> ''ext4'')
      then Inl (ValueError
        ''k3s_agent_snapshotter=overlayfs requires dedicated ext4 k3s local storage'')
      else Inr snapshotter)"

definition build_k3s_stg_agent_vars :: "string \<Rightarrow> pydict \<Rightarrow> pydict \<Rightarrow> string \<Rightarrow> pydict res" where
  [py_defs]: "build_k3s_stg_agent_vars hostname hv cfg overlay_id =
     (let node_ip = client_node_ip hv cfg;
          k3s_agent_cfg = mapping_or_empty (dget hv ''k3s_agent'') in
      bindE (agent_snapshotter hv) (\<lambda>snapshotter.
       (let labels = agent_labels k3s_agent_cfg hv;
            agent = [(''node-ip'', PStr node_ip),
                     (''node-name'', PStr (if overlay_id \<noteq> [] then overlay_id else hostname)),
                     (''node-label'', PList (map PStr labels)),
                     (''snapshotter'', PStr snapshotter),
                     (''data-dir'', PStr ''/var/lib/rancher/k3s'')];
            agent = (if dhas k3s_agent_cfg ''kubelet-arg''
                     then dput ''kubelet-arg'' (dget k3s_agent_cfg ''kubelet-arg'') agent else agent);
            result = [(''k3s_agent'', PDict agent),
                      (''k3s_build_cluster'', PBool True),
                      (''k3s_control_node'', PBool False),
                      (''k3s_primary_control_node'', PBool False),
                      (''k3s_control_delegate'', PStr ''k3s_stg_server''),
                      (''k3s_controller_list'', PList [PStr ''k3s_stg_server''])];
            result = (if dhas hv ''k3s_start_on_boot''
                      then dput ''k3s_start_on_boot'' (PBool (as_bool (dget hv ''k3s_start_on_boot''))) result
                      else result);
            result = dupdate result (build_k3s_local_storage_vars hv True PNone);
            result = dupdate result (build_k3s_iscsi_session_vars hv)
        in Inr (dupdate result (build_rpi5_egpu_local_llm_vars hv)))))"

definition server_node_taints :: "pyval \<Rightarrow> pydict \<Rightarrow> pydict res" where
  [py_defs]: "server_node_taints node_taints server =
     (if py_truthy node_taints
      then bindE (if is_str node_taints then Inr [node_taints] else py_list_of node_taints)
             (\<lambda>taints. Inr (dput ''node-taint'' (PList taints) server))
      else Inr server)"

definition build_k3s_stg_server_vars ::
    "string \<Rightarrow> pydict \<Rightarrow> pydict \<Rightarrow> string \<Rightarrow> string \<Rightarrow> pydict res" where
  [py_defs]: "build_k3s_stg_server_vars hostname hv cfg overlay_id kubeconfig_mode =
     (let node_ip = client_node_ip hv cfg;
          node_name = (if overlay_id \<noteq> [] then overlay_id else hostname);
          server = [(''disable'', PList [PStr ''traefik'', PStr ''servicelb'']),
                    (''node-ip'', PStr node_ip),
                    (''node-name'', PStr node_name),
                    (''node-external-ip'', PList (if node_ip \<noteq> [] then [PStr node_ip] else [])),
                    (''tls-san'', PList (map PStr (filter (\<lambda>item. item \<noteq> []) [node_ip, node_name]))),
                    (''snapshotter'', PStr ''native''),
                    (''data-dir'', PStr ''/var/lib/rancher/k3s''),
                    (''write-kubeconfig-mode'', PStr kubeconfig_mode)] in
      bindE (server_node_taints (dget hv ''k3s_server_node_taints'') server) (\<lambda>server.
       (let result = [(''k3s_server'', PDict server)];
            result = (if dhas hv ''k3s_start_on_boot''
                      then dput ''k3s_start_on_boot'' (PBool (as_bool (dget hv ''k3s_start_on_boot''))) result
                      else result);
            result = dupdate result (build_k3s_local_storage_vars hv False (PBool False))
        in Inr (dupdate result (build_k3s_iscsi_session_vars hv)))))"

end
