(* ===== verification/Pxe_Catalog.thy ===== *)
theory Pxe_Catalog
  imports Catalog_Roles
begin

text \<open>
  The PXE client catalog itself: one generated DHCP host, boot entry, overlay client
  and set of role variables per enabled inventory host, merged with the legacy items
  of the router.  \<open>build_generated_client\<close> builds one host,
  \<open>build_openwrt_pxe_client_catalog\<close> the whole catalog.
\<close>

section \<open>One client: DHCP host, boot entry, overlay\<close>

definition mapping_value :: "pydict \<Rightarrow> pydict \<Rightarrow> string \<Rightarrow> pyval" where
  [py_defs]: "mapping_value cfg nested_cfg key = first_present [dget nested_cfg key, dget cfg key]"

definition client_sections :: "pydict \<Rightarrow> pydict \<times> pydict \<times> pydict" where
  [py_defs]: "client_sections cfg =
     (mapping_or_empty (first_present [dget cfg ''pxe_host'', dget cfg ''host'']),
      mapping_or_empty (first_present [dget cfg ''pxe_boot'', dget cfg ''boot'']),
      mapping_or_empty (first_present [dget cfg ''overlay'', dget cfg ''overlay_client'']))"

definition host_field_candidates ::
    "pydict \<Rightarrow> pydict \<Rightarrow> pydict \<Rightarrow> pyval \<Rightarrow> pyval \<Rightarrow> pydict" where
  [py_defs]: "host_field_candidates cfg pxe_host_cfg hv default_filename default_force =
     (let mv = mapping_value cfg pxe_host_cfg in
      [(''mac'', mv ''mac''),
       (''ip'', first_present [mv ''ip'', dget hv ''ansible_host'']),
       (''filename'', first_present [mv ''filename'', mv ''bootfile'', default_filename]),
       (''force'', first_present [mv ''force'', default_force]),
       (''board_hash'', mv ''board_hash''),
       (''tftp_stage'', first_present [mv ''tftp_stage'', dget cfg ''stage'']),
       (''tftp_release'', mv ''tftp_release''),
       (''rootfs_release'', mv ''rootfs_release''),
       (''cmdline_root_arg'', mv ''cmdline_root_arg''),
       (''cmdline_ip'', mv ''cmdline_ip''),
       (''cmdline_extra_args'', mv ''cmdline_extra_args''),
       (''rpi_kernel_image'', mv ''rpi_kernel_image''),
       (''rpi_initramfs'', mv ''rpi_initramfs''),
       (''rpi_device_tree'', mv ''rpi_device_tree''),
       (''rpi4_kernel_image'', mv ''rpi4_kernel_image''),
       (''rpi4_initramfs'', mv ''rpi4_initramfs''),
       (''rpi4_device_tree'', mv ''rpi4_device_tree''),
       (''rpi5_kernel_image'', mv ''rpi5_kernel_image''),
       (''rpi5_initramfs'', mv ''rpi5_initramfs''),
       (''rpi5_device_tree'', mv ''rpi5_device_tree''),
       (''rpi5_extra_config'', mv ''rpi5_extra_config''),
       (''rpi5_pciex1_enabled'', mv ''rpi5_pciex1_enabled'')])"

definition present_text :: "pyval \<Rightarrow> bool" where
  [py_defs]: "present_text value \<longleftrightarrow> value \<noteq> PNone \<and> clean_string value \<noteq> []"

definition clean_list :: "pyval \<Rightarrow> pyval list" where
  [py_defs]: "clean_list value =
     map PStr (filter (\<lambda>t. t \<noteq> []) (map clean_string (as_list value)))"

definition generated_pxe_host ::
    "pydict \<Rightarrow> pydict \<Rightarrow> pydict \<Rightarrow> string \<Rightarrow> string \<Rightarrow> string \<Rightarrow> pyval \<Rightarrow> pyval \<Rightarrow> pyval \<Rightarrow> pydict" where
  [py_defs]: "generated_pxe_host cfg pxe_host_cfg hv name networkid option_value
       option_code default_filename default_force =
     (let pxe_host = [(''name'', PStr name), (''networkid'', PStr networkid)];
          pxe_host = foldl (\<lambda>h (key, value). if present_text value then dput key value h else h)
            pxe_host (host_field_candidates cfg pxe_host_cfg hv default_filename default_force);
          tags = mapping_value cfg pxe_host_cfg ''tags'';
          tags = (if tags = PNone
                  then (let tag = clean_string (first_present [dget cfg ''stage'', dget pxe_host ''tftp_stage''])
                        in PList (if tag \<noteq> [] then [PStr tag] else []))
                  else tags);
          tags_list = clean_list tags;
          pxe_host = (if tags_list \<noteq> [] then dput ''tags'' (PList tags_list) pxe_host else pxe_host);
          dhcp_options = mapping_value cfg pxe_host_cfg ''dhcp_options'';
          dhcp_options = (if dhcp_options = PNone \<and> option_value \<noteq> []
                          then PList [PStr (clean_string option_code @ '','' @ [CHR 0x22] @ option_value @ [CHR 0x22])]
                          else dhcp_options);
          dhcp_options_list = clean_list dhcp_options
      in if dhcp_options_list \<noteq> []
         then dput ''dhcp_options'' (PList dhcp_options_list) pxe_host else pxe_host)"

definition str_or :: "string \<Rightarrow> string \<Rightarrow> string" where
  [py_defs]: "str_or a b = (if a \<noteq> [] then a else b)"

definition generated_pxe_boot ::
    "pydict \<Rightarrow> pydict \<Rightarrow> pydict \<Rightarrow> string \<Rightarrow> string \<Rightarrow> pyval \<Rightarrow> pyval \<Rightarrow> pyval \<Rightarrow> pydict option" where
  [py_defs]: "generated_pxe_boot cfg boot_cfg pxe_host name networkid
       default_filename default_serveraddress default_servername =
     (if \<not> as_bool (dget_or boot_cfg ''enabled'' (PBool True)) then None
      else
       (let filename = clean_string (first_present
              [dget boot_cfg ''filename'', dget boot_cfg ''bootfile'',
               dget pxe_host ''filename'', default_filename]);
            serveraddress = clean_string (first_present
              [dget boot_cfg ''serveraddress'', dget cfg ''serveraddress'', default_serveraddress]);
            servername = clean_string (first_present
              [dget boot_cfg ''servername'', dget cfg ''servername'', default_servername,
               PStr serveraddress])
        in if filename \<noteq> [] \<or> serveraddress \<noteq> [] \<or> servername \<noteq> []
           then Some [(''name'', PStr (str_or (clean_string (dget boot_cfg ''name'')) name)),
                      (''networkid'', PStr (str_or (clean_string (dget boot_cfg ''networkid'')) networkid)),
                      (''filename'', PStr filename),
                      (''serveraddress'', PStr serveraddress),
                      (''servername'', PStr servername)]
           else None))"

definition generated_overlay_client ::
    "pydict \<Rightarrow> pydict \<Rightarrow> string \<Rightarrow> pyval \<Rightarrow> string \<Rightarrow> pydict option" where
  [py_defs]: "generated_overlay_client cfg overlay_cfg overlay_id role option_value =
     (if as_bool (dget_or overlay_cfg ''enabled'' (PBool True)) \<and> overlay_id \<noteq> [] then
       (let client = [(''id'', PStr overlay_id)];
            client = (if present_text role then dput ''role'' (PStr (clean_string role)) client else client);
            client = (if option_value \<noteq> [] then dput ''option_value'' (PStr option_value) client else client)
        in Some (foldl (\<lambda>client key.
             (let value = first_present [dget overlay_cfg key, dget cfg key]
              in if present_text value then dput key value client else client))
             client [''ansible_extra_vars'', ''mac'']))
      else None)"

section \<open>One client: role variables\<close>

definition role_names_of :: "pyval list \<Rightarrow> string list" where
  [py_defs]: "role_names_of roles = filter (\<lambda>r. r \<noteq> []) (map clean_string roles)"

text \<open>The group variables, with the generated Terraform ones merged under the explicit ones.\<close>

definition terraform_group_vars :: "pydict \<Rightarrow> pydict \<Rightarrow> string list \<Rightarrow> pydict \<Rightarrow> pydict" where
  [py_defs]: "terraform_group_vars hv ansible_pull_cfg role_names ansible_pull_group_vars =
     (if ''terraform_stg'' \<in> set role_names
         \<and> as_bool (dget_or ansible_pull_cfg ''terraform_stg_group_vars_enabled'' (PBool True))
      then
       (let generated_terraform_vars = build_terraform_stg_group_vars hv in
        if generated_terraform_vars = [] then ansible_pull_group_vars
        else (case dget ansible_pull_group_vars ''role_terraform_stg'' of
            PDict explicit_terraform_vars \<Rightarrow>
              dput ''role_terraform_stg''
                (PDict (fst (merge_nested_mapping generated_terraform_vars explicit_terraform_vars [])))
                ansible_pull_group_vars
          | _ \<Rightarrow> dput ''role_terraform_stg'' (PDict generated_terraform_vars) ansible_pull_group_vars))
      else ansible_pull_group_vars)"

definition HOST_TAILSCALE_DESTRUCTIVE :: "string list" where
  [py_defs]: "HOST_TAILSCALE_DESTRUCTIVE =
    [''k3s_local_storage_force_format'', ''k3s_local_storage_ephemeral_agent_data'']"

definition host_tailscale_vars :: "pydict \<Rightarrow> pydict res" where
  [py_defs]: "host_tailscale_vars hv =
     (if as_bool (dget_or hv ''host_tailscale_enabled'' (PBool False)) then
        (if \<not> as_bool (dget_or hv ''k3s_local_storage_enabled'' (PBool False))
            \<or> list_ex (\<lambda>key. as_bool (dget_or hv key (PBool False))) HOST_TAILSCALE_DESTRUCTIVE
         then Inl (ValueError ''host Tailscale requires persistent node storage'')
         else Inr [(''host_tailscale'', PDict
                [(''host_tailscale_enabled'', PBool True),
                 (''host_tailscale_hostname'', dget_or hv ''host_tailscale_hostname'' (PStr [])),
                 (''host_tailscale_storage_device'', dget_or hv ''k3s_local_storage_device'' (PStr []))])])
      else Inr [])"

definition base_role_vars :: "pydict \<Rightarrow> pydict \<Rightarrow> string list \<Rightarrow> pydict \<Rightarrow> pydict" where
  [py_defs]: "base_role_vars hv cfg role_names role_extra_vars =
     (let role_extra_vars =
            (if ''base'' \<in> set role_names \<and> build_base_vars hv cfg \<noteq> []
             then dput ''base'' (PDict (build_base_vars hv cfg)) role_extra_vars
             else role_extra_vars);
          picoclaw_cfg = mapping_or_empty (dget hv ''picoclaw'')
      in if ''base'' \<in> set role_names \<and> picoclaw_cfg \<noteq> []
         then dput ''base'' (PDict (fst (merge_nested_mapping
                (mapping_or_empty (dget role_extra_vars ''base'')) [(''picoclaw'', PDict picoclaw_cfg)] [])))
              role_extra_vars
         else role_extra_vars)"

definition stg_server_role ::
    "string \<Rightarrow> pydict \<Rightarrow> pydict \<Rightarrow> string \<Rightarrow> pydict \<Rightarrow> string list \<Rightarrow> pydict \<Rightarrow> pydict res" where
  [py_defs]: "stg_server_role hostname stg_storage_hv cfg overlay_id ansible_pull_cfg role_names role_extra_vars =
     (if ''k3s_stg_server'' \<in> set role_names
         \<and> as_bool (dget_or ansible_pull_cfg ''k3s_stg_server_vars_enabled'' (PBool True))
      then bindE (build_k3s_stg_server_vars hostname stg_storage_hv cfg overlay_id ''0600'')
             (\<lambda>vars. Inr (dput ''k3s_stg_server'' (PDict vars) role_extra_vars))
      else Inr role_extra_vars)"

definition stg_agent_role ::
    "string \<Rightarrow> pydict \<Rightarrow> pydict \<Rightarrow> string \<Rightarrow> pydict \<Rightarrow> string list \<Rightarrow> pydict \<Rightarrow> pydict res" where
  [py_defs]: "stg_agent_role hostname hv cfg overlay_id ansible_pull_cfg role_names role_extra_vars =
     (if ''k3s_stg_agent'' \<in> set role_names
         \<and> as_bool (dget_or ansible_pull_cfg ''k3s_stg_agent_vars_enabled'' (PBool True))
      then bindE (build_k3s_stg_agent_vars hostname hv cfg overlay_id)
             (\<lambda>vars. Inr (dput ''k3s_stg_agent'' (PDict vars) role_extra_vars))
      else Inr role_extra_vars)"

definition stg_storage_role ::
    "pydict \<Rightarrow> pydict \<Rightarrow> pydict \<Rightarrow> string list \<Rightarrow> pydict \<Rightarrow> pydict" where
  [py_defs]: "stg_storage_role hv stg_storage_hv ansible_pull_cfg role_names role_extra_vars =
     (if ''k3s_stg_storage'' \<in> set role_names
         \<and> as_bool (dget_or ansible_pull_cfg ''k3s_stg_storage_vars_enabled'' (PBool True))
      then dput ''k3s_stg_storage'' (PDict (dupdate
             (build_k3s_local_storage_vars stg_storage_hv False
               (if ''k3s_stg_server'' \<in> set role_names then PBool False else PNone))
             (build_k3s_iscsi_session_vars hv))) role_extra_vars
      else role_extra_vars)"

definition prd_server_role ::
    "string \<Rightarrow> pydict \<Rightarrow> pydict \<Rightarrow> string \<Rightarrow> string list \<Rightarrow> pydict \<Rightarrow> pydict res" where
  [py_defs]: "prd_server_role hostname hv cfg overlay_id role_names role_extra_vars =
     (if ''k3s_prd_server'' \<in> set role_names
      then bindE (build_k3s_stg_server_vars hostname hv cfg overlay_id ''0644'') (\<lambda>vars.
            (let vars = dupdate vars
                   [(''k3s_build_cluster'', PBool False),
                    (''k3s_control_node'', PBool True),
                    (''k3s_flannel_backend'', dget_or hv ''k3s_flannel_backend'' (PStr ''vxlan'')),
                    (''k3s_flannel_mtu'', dget_or hv ''k3s_flannel_mtu'' (PInt 1400))];
                 vars = (if py_truthy (dget hv ''k3s_release_version'')
                         then dput ''k3s_release_version'' (dget hv ''k3s_release_version'') vars else vars)
             in Inr (dput ''k3s_prd_server'' (PDict vars) role_extra_vars)))
      else Inr role_extra_vars)"

definition prd_storage_role :: "pydict \<Rightarrow> string list \<Rightarrow> pydict \<Rightarrow> pydict" where
  [py_defs]: "prd_storage_role hv role_names role_extra_vars =
     (if ''k3s_prd_storage'' \<in> set role_names
      then dput ''k3s_prd_storage'' (PDict (dupdate
             (build_k3s_local_storage_vars hv False (PBool False))
             (build_k3s_iscsi_session_vars hv))) role_extra_vars
      else role_extra_vars)"

text \<open>The explicit per-role variables are merged under the generated ones.\<close>

definition apply_extra_var :: "string \<times> pyval \<Rightarrow> pydict \<Rightarrow> pydict res" where
  [py_defs]: "apply_extra_var role_item role_extra_vars =
     (let role_name_text = clean_string (PStr (fst role_item)); role_vars = snd role_item in
      if role_name_text = ''host_tailscale''
      then Inl (ValueError ''host Tailscale boot configuration must use allow-listed host variables'')
      else if role_name_text = [] \<or> \<not> is_mapping role_vars then Inr role_extra_vars
      else Inr (dput role_name_text (PDict (fst (merge_nested_mapping
             (mapping_or_empty (dget role_extra_vars role_name_text))
             (mapping_or_empty role_vars) []))) role_extra_vars))"

definition apply_extra_vars :: "pydict \<Rightarrow> pydict \<Rightarrow> pydict res" where
  [py_defs]: "apply_extra_vars extra_vars_cfg role_extra_vars =
     foldE apply_extra_var extra_vars_cfg role_extra_vars"

definition enforce_role :: "string list \<Rightarrow> string \<Rightarrow> pydict \<Rightarrow> pydict res" where
  [py_defs]: "enforce_role role_names role_name role_extra_vars =
     (if role_name \<in> set role_names
      then bindE (persistent_stg_storage_vars (mapping_or_empty (dget role_extra_vars role_name)))
             (\<lambda>vars. Inr (dput role_name (PDict vars) role_extra_vars))
      else Inr role_extra_vars)"

definition enforce_persistent_stg :: "bool \<Rightarrow> string list \<Rightarrow> pydict \<Rightarrow> pydict res" where
  [py_defs]: "enforce_persistent_stg persistent_stg_server role_names role_extra_vars =
     (if persistent_stg_server
      then foldE (enforce_role role_names) [''k3s_stg_storage'', ''k3s_stg_server''] role_extra_vars
      else Inr role_extra_vars)"

definition check_host_tailscale :: "pydict \<Rightarrow> unit res" where
  [py_defs]: "check_host_tailscale role_extra_vars =
     (if dhas role_extra_vars ''host_tailscale''
      then foldE (\<lambda>storage_role u.
             (let storage_vars = mapping_or_empty (dget role_extra_vars storage_role) in
              if list_ex (\<lambda>key. as_bool (dget_or storage_vars key (PBool False))) HOST_TAILSCALE_DESTRUCTIVE
              then Inl (ValueError ''host Tailscale cannot use destructive storage overrides'')
              else if storage_vars \<noteq> [] \<and> \<not> py_eq (dget_or storage_vars ''k3s_local_storage_device'' (PStr []))
                  (dget (mapping_or_empty (dget role_extra_vars ''host_tailscale''))
                     ''host_tailscale_storage_device'')
              then Inl (ValueError ''host Tailscale device must match the effective storage role'')
              else Inr ())) [''k3s_stg_storage'', ''k3s_prd_storage''] ()
      else Inr ())"

definition client_vars_items :: "string \<Rightarrow> pydict \<Rightarrow> pyval list" where
  [py_defs]: "client_vars_items overlay_id role_extra_vars =
     map (\<lambda>role_name. PDict [(''overlay_id'', PStr overlay_id), (''role'', PStr role_name),
                              (''vars'', dget role_extra_vars role_name)])
       (filter (\<lambda>role_name. is_mapping (dget role_extra_vars role_name))
         (sort (map fst role_extra_vars)))"

text \<open>The variables of every role, before they are listed: each step sees the previous ones.\<close>

definition role_extra_vars_of ::
    "string \<Rightarrow> pydict \<Rightarrow> pydict \<Rightarrow> string list \<Rightarrow> string \<Rightarrow> pydict res" where
  [py_defs]: "role_extra_vars_of hostname hv cfg role_names overlay_id =
     (let ansible_pull_cfg = mapping_or_empty (dget cfg ''ansible_pull'');
          persistent_stg_server = (''k3s_stg_server'' \<in> set role_names);
          extra_vars_cfg = mapping_or_empty (dget ansible_pull_cfg ''extra_vars'') in
      bindE (if persistent_stg_server then persistent_stg_storage_vars hv else Inr hv) (\<lambda>stg_storage_hv.
      bindE (host_tailscale_vars hv) (\<lambda>vars.
      bindE (stg_server_role hostname stg_storage_hv cfg overlay_id ansible_pull_cfg role_names
               (base_role_vars hv cfg role_names vars)) (\<lambda>vars.
      bindE (stg_agent_role hostname hv cfg overlay_id ansible_pull_cfg role_names vars) (\<lambda>vars.
      bindE (prd_server_role hostname hv cfg overlay_id role_names
               (stg_storage_role hv stg_storage_hv ansible_pull_cfg role_names vars)) (\<lambda>vars.
      bindE (apply_extra_vars extra_vars_cfg (prd_storage_role hv role_names vars)) (\<lambda>vars.
      bindE (enforce_persistent_stg persistent_stg_server role_names vars) (\<lambda>vars.
      bindE (check_host_tailscale vars) (\<lambda>_. Inr vars)))))))))"

definition generated_role_client_vars ::
    "string \<Rightarrow> pydict \<Rightarrow> pydict \<Rightarrow> pyval list \<Rightarrow> string \<Rightarrow> (pydict \<times> pyval list) res" where
  [py_defs]: "generated_role_client_vars hostname hv cfg roles overlay_id =
     (let ansible_pull_cfg = mapping_or_empty (dget cfg ''ansible_pull'');
          role_names = role_names_of roles in
      bindE (role_extra_vars_of hostname hv cfg role_names overlay_id) (\<lambda>role_extra_vars.
        Inr (terraform_group_vars hv ansible_pull_cfg role_names
               (mapping_or_empty (dget ansible_pull_cfg ''group_vars'')),
             client_vars_items overlay_id role_extra_vars)))"

record generated_client =
  gen_pxe_host :: pydict
  gen_pxe_boot :: "pydict option"
  gen_overlay_client :: "pydict option"
  gen_group_vars :: pydict
  gen_client_vars :: "pyval list"

definition build_generated_client ::
    "string \<Rightarrow> pydict \<Rightarrow> pydict \<Rightarrow> pyval \<Rightarrow> pyval \<Rightarrow> pyval \<Rightarrow> pyval \<Rightarrow> pyval \<Rightarrow> generated_client res" where
  [py_defs]: "build_generated_client hostname hv cfg option_code default_filename
       default_serveraddress default_servername default_force =
     (let (pxe_host_cfg, boot_cfg, overlay_cfg) = client_sections cfg;
          name = str_or (clean_string (mapping_value cfg pxe_host_cfg ''name'')) hostname;
          networkid = str_or (clean_string (mapping_value cfg pxe_host_cfg ''networkid'')) name;
          roles = as_list (dget cfg ''roles'');
          role = mapping_value cfg overlay_cfg ''role'';
          role = (if role = PNone \<and> roles \<noteq> [] then hd roles else role);
          overlay_id = clean_string (first_present
            [dget overlay_cfg ''id'', dget cfg ''overlay_id'', dget cfg ''id'', PStr name]);
          option_value = option_value_for_client cfg overlay_cfg overlay_id role;
          pxe_host = generated_pxe_host cfg pxe_host_cfg hv name networkid option_value
                       option_code default_filename default_force;
          pxe_boot = generated_pxe_boot cfg boot_cfg pxe_host name networkid
                       default_filename default_serveraddress default_servername;
          overlay_client = generated_overlay_client cfg overlay_cfg overlay_id role option_value in
      bindE (generated_role_client_vars hostname hv cfg roles overlay_id) (\<lambda>(group_vars, client_vars).
        Inr \<lparr>gen_pxe_host = pxe_host, gen_pxe_boot = pxe_boot, gen_overlay_client = overlay_client,
             gen_group_vars = group_vars, gen_client_vars = client_vars\<rparr>))"

section \<open>The whole catalog\<close>

record catalog_args =
  arg_hostvars :: pydict
  arg_groups :: pyval
  arg_router_name :: string
  arg_legacy_pxe_hosts :: pyval
  arg_legacy_pxe_boots :: pyval
  arg_legacy_overlay_clients :: pyval
  arg_enabled :: pyval
  arg_compare_overlay_fields :: pyval
  arg_compare_pxe_host_fields :: pyval
  arg_compare_pxe_boot_fields :: pyval
  arg_option_code :: pyval
  arg_default_filename :: pyval
  arg_default_serveraddress :: pyval
  arg_default_servername :: pyval
  arg_default_force :: pyval
  arg_static_dhcp_hosts :: pyval
  arg_legacy_ansible_pull_group_vars :: pyval

record catalog =
  cat_pxe_hosts :: "pydict list"
  cat_dhcp_hosts :: "pydict list"
  cat_pxe_boots :: "pydict list"
  cat_overlay_clients :: "pydict list"
  cat_ansible_pull_group_vars :: pydict
  cat_ansible_pull_client_vars :: "pyval list"
  cat_generated_pxe_hosts :: "pydict list"
  cat_generated_pxe_boots :: "pydict list"
  cat_generated_overlay_clients :: "pydict list"
  cat_generated_ansible_pull_group_vars :: pydict
  cat_generated_ansible_pull_client_vars :: "pyval list"
  cat_pxe_host_legacy_mismatches :: "pyval list"
  cat_pxe_boot_legacy_mismatches :: "pyval list"
  cat_overlay_legacy_mismatches :: "pyval list"
  cat_group_var_legacy_mismatches :: "pyval list"
  cat_group_var_conflicts :: "pyval list"

text \<open>\<open>[item for item in _as_list(value) if isinstance(item, Mapping)]\<close>\<close>

definition mapping_items :: "pyval \<Rightarrow> pydict list" where
  [py_defs]: "mapping_items value = map mapping_or_empty (filter is_mapping (as_list value))"

definition compare_fields :: "pyval \<Rightarrow> string list \<Rightarrow> string list" where
  [py_defs]: "compare_fields value default_fields =
     (let fields = map py_str (as_list value) in if fields = [] then default_fields else fields)"

definition DEFAULT_OVERLAY_FIELDS :: "string list" where
  [py_defs]: "DEFAULT_OVERLAY_FIELDS = [''id'', ''role'', ''option_value'', ''ansible_extra_vars'']"

definition DEFAULT_PXE_HOST_FIELDS :: "string list" where
  [py_defs]: "DEFAULT_PXE_HOST_FIELDS =
    [''name'', ''mac'', ''ip'', ''networkid'', ''filename'', ''force'', ''tags'', ''dhcp_options'',
     ''board_hash'', ''tftp_stage'', ''tftp_release'', ''rootfs_release'', ''cmdline_extra_args'',
     ''rpi_kernel_image'', ''rpi_initramfs'', ''rpi_device_tree'',
     ''rpi4_kernel_image'', ''rpi4_initramfs'', ''rpi4_device_tree'',
     ''rpi5_kernel_image'', ''rpi5_initramfs'', ''rpi5_device_tree'',
     ''rpi5_extra_config'', ''rpi5_pciex1_enabled'']"

definition DEFAULT_PXE_BOOT_FIELDS :: "string list" where
  [py_defs]: "DEFAULT_PXE_BOOT_FIELDS =
    [''name'', ''networkid'', ''filename'', ''serveraddress'', ''servername'']"

text \<open>What the loop over the hosts accumulates.\<close>

record catalog_acc =
  acc_pxe_hosts :: "pydict list"
  acc_pxe_boots :: "pydict list"
  acc_overlay :: "pydict list"
  acc_group_vars :: pydict
  acc_conflicts :: "pyval list"
  acc_client_vars :: "pyval list"

definition empty_acc :: catalog_acc where
  [py_defs]: "empty_acc = \<lparr>acc_pxe_hosts = [], acc_pxe_boots = [], acc_overlay = [],
     acc_group_vars = [], acc_conflicts = [], acc_client_vars = []\<rparr>"

definition add_generated :: "generated_client \<Rightarrow> catalog_acc \<Rightarrow> catalog_acc" where
  [py_defs]: "add_generated generated acc =
     (let merged = merge_nested_mapping (acc_group_vars acc) (gen_group_vars generated) []
      in \<lparr>acc_pxe_hosts = acc_pxe_hosts acc @ [gen_pxe_host generated],
          acc_pxe_boots = acc_pxe_boots acc @
            (case gen_pxe_boot generated of None \<Rightarrow> [] | Some boot \<Rightarrow> [boot]),
          acc_overlay = acc_overlay acc @
            (case gen_overlay_client generated of None \<Rightarrow> [] | Some client \<Rightarrow> [client]),
          acc_group_vars = fst merged,
          acc_conflicts = acc_conflicts acc @ snd merged,
          acc_client_vars = acc_client_vars acc @ gen_client_vars generated\<rparr>)"

text \<open>The configuration of a host that takes part: a mapping, enabled, of this router.\<close>

definition client_cfg :: "catalog_args \<Rightarrow> pydict \<Rightarrow> pydict option" where
  [py_defs]: "client_cfg args hv =
     (case dget hv ''openwrt_pxe_client'' of
        PDict cfg \<Rightarrow>
          (if \<not> as_bool (dget cfg ''enabled'') then None
           else if py_strip (py_str (py_or (dget cfg ''router'') (PStr (arg_router_name args))))
               \<noteq> arg_router_name args then None
           else Some cfg)
      | _ \<Rightarrow> None)"

definition catalog_step :: "catalog_args \<Rightarrow> string \<Rightarrow> catalog_acc \<Rightarrow> catalog_acc res" where
  [py_defs]: "catalog_step args hostname acc =
     (case dget (arg_hostvars args) hostname of
        PDict hv \<Rightarrow>
          (case client_cfg args hv of
             None \<Rightarrow> Inr acc
           | Some cfg \<Rightarrow>
               bindE (build_generated_client hostname hv cfg (arg_option_code args)
                        (arg_default_filename args) (arg_default_serveraddress args)
                        (arg_default_servername args) (arg_default_force args))
                 (\<lambda>generated. Inr (add_generated generated acc)))
      | _ \<Rightarrow> Inr acc)"

definition generate_all :: "catalog_args \<Rightarrow> catalog_acc res" where
  [py_defs]: "generate_all args =
     (if as_bool (arg_enabled args)
      then foldE (catalog_step args)
             (sorted_inventory_hosts (arg_groups args) (arg_hostvars args)) empty_acc
      else Inr empty_acc)"

definition finish_catalog :: "catalog_args \<Rightarrow> catalog_acc \<Rightarrow> catalog" where
  [py_defs]: "finish_catalog args acc =
     (let legacy_pxe_host_items = mapping_items (arg_legacy_pxe_hosts args);
          legacy_pxe_boot_items = mapping_items (arg_legacy_pxe_boots args);
          legacy_overlay = mapping_items (arg_legacy_overlay_clients args);
          legacy_group_vars = mapping_or_empty (arg_legacy_ansible_pull_group_vars args);
          pxe_hosts = non_shadowed_legacy legacy_pxe_host_items (acc_pxe_hosts acc)
                        [''name'', ''networkid'', ''mac''] @ acc_pxe_hosts acc;
          pxe_boots = non_shadowed_legacy legacy_pxe_boot_items (acc_pxe_boots acc)
                        [''name'', ''networkid''] @ acc_pxe_boots acc;
          overlay_clients = non_shadowed_legacy legacy_overlay (acc_overlay acc) [''id''] @ acc_overlay acc;
          merged = merge_nested_mapping legacy_group_vars (acc_group_vars acc) []
      in \<lparr>cat_pxe_hosts = pxe_hosts,
          cat_dhcp_hosts = mapping_items (arg_static_dhcp_hosts args) @ pxe_hosts,
          cat_pxe_boots = pxe_boots,
          cat_overlay_clients = overlay_clients,
          cat_ansible_pull_group_vars = fst merged,
          cat_ansible_pull_client_vars = acc_client_vars acc,
          cat_generated_pxe_hosts = acc_pxe_hosts acc,
          cat_generated_pxe_boots = acc_pxe_boots acc,
          cat_generated_overlay_clients = acc_overlay acc,
          cat_generated_ansible_pull_group_vars = acc_group_vars acc,
          cat_generated_ansible_pull_client_vars = acc_client_vars acc,
          cat_pxe_host_legacy_mismatches = legacy_mismatches legacy_pxe_host_items (acc_pxe_hosts acc)
            (compare_fields (arg_compare_pxe_host_fields args) DEFAULT_PXE_HOST_FIELDS)
            [''name'', ''networkid'', ''mac''],
          cat_pxe_boot_legacy_mismatches = legacy_mismatches legacy_pxe_boot_items (acc_pxe_boots acc)
            (compare_fields (arg_compare_pxe_boot_fields args) DEFAULT_PXE_BOOT_FIELDS)
            [''name'', ''networkid''],
          cat_overlay_legacy_mismatches = legacy_mismatches legacy_overlay (acc_overlay acc)
            (compare_fields (arg_compare_overlay_fields args) DEFAULT_OVERLAY_FIELDS) [''id''],
          cat_group_var_legacy_mismatches = mapping_legacy_mismatches legacy_group_vars (acc_group_vars acc),
          cat_group_var_conflicts = acc_conflicts acc @ snd merged\<rparr>)"

definition build_openwrt_pxe_client_catalog :: "catalog_args \<Rightarrow> catalog res" where
  [py_defs]: "build_openwrt_pxe_client_catalog args =
     bindE (generate_all args) (\<lambda>acc. Inr (finish_catalog args acc))"

end
