(* ===== verification/Catalog_Merge.thy ===== *)
theory Catalog_Merge
  imports Catalog_Values
begin

text \<open>
  What the nested merge of the catalog promises, stated over paths of keys: base
  values are never lost, the reported conflicts are exactly the paths where the two
  mappings disagree, and with no conflict every overlay value is in the result.
\<close>

section \<open>Conflicts, one level\<close>

definition key_conflicts :: "pydict \<Rightarrow> string list \<Rightarrow> string \<times> pyval \<Rightarrow> pyval set" where
  "key_conflicts merged path kv = (case map_of merged (fst kv) of
       None \<Rightarrow> {}
     | Some current \<Rightarrow>
         (if is_mapping current \<and> is_mapping (snd kv)
          then set (snd (merge_nested_mapping (mapping_or_empty current)
                 (mapping_or_empty (snd kv)) (path @ [fst kv])))
          else if py_eq current (snd kv) then {} else {merge_conflict (path @ [fst kv])}))"

lemma set_merge_conflicts:
  assumes "distinct (map fst overlay)"
  shows "set (snd (merge_nested_mapping merged overlay path)) =
     (\<Union>kv \<in> set overlay. key_conflicts merged path kv)"
  using assms
proof (induction merged overlay path rule: merge_nested_mapping.induct)
  case (2 merged key val overlay path)
  have other: "key_conflicts (dput key w merged) path kv = key_conflicts merged path kv"
    if "kv \<in> set overlay" for w kv
    using that "2.prems" by (force simp: key_conflicts_def)
  show ?case
  proof (cases "map_of merged key")
    case None
    with 2 other show ?thesis by (simp add: key_conflicts_def [of _ _ "(key, val)"])
  next
    case (Some current)
    with 2 other show ?thesis
      by (auto simp: Let_def key_conflicts_def [of _ _ "(key, val)"])
  qed
qed simp

section \<open>Conflicts, at any depth\<close>

definition disagree_at :: "pydict \<Rightarrow> pydict \<Rightarrow> string list \<Rightarrow> bool" where
  "disagree_at base overlay p \<longleftrightarrow> p \<noteq> [] \<and>
     (\<exists>x y. lookup_path (PDict base) p = Some x \<and> lookup_path (PDict overlay) p = Some y \<and>
        \<not> (is_mapping x \<and> is_mapping y) \<and> \<not> py_eq x y)"

lemma disagree_at_Cons:
  "disagree_at base overlay (k # ks) \<longleftrightarrow>
     (\<exists>x y. map_of base k = Some x \<and> map_of overlay k = Some y \<and>
        (if ks = [] then \<not> (is_mapping x \<and> is_mapping y) \<and> \<not> py_eq x y
         else is_mapping x \<and> is_mapping y \<and>
              disagree_at (mapping_or_empty x) (mapping_or_empty y) ks))"
proof (cases ks)
  case Nil
  then show ?thesis by (auto simp: disagree_at_def split: option.splits)
next
  case (Cons k' ks')
  have "lookup_path v (k' # ks') = lookup_path (PDict (mapping_or_empty v)) (k' # ks')" for v
    by simp
  moreover have "lookup_path v (k' # ks') = Some w \<Longrightarrow> is_mapping v" for v w
    by (metis lookup_path_scalar option.distinct(1))
  ultimately show ?thesis using Cons
    unfolding disagree_at_def by (auto split: option.splits)
qed

lemma merge_conflicts_spec:
  assumes "wf_val (PDict overlay)"
  shows "c \<in> set (snd (merge_nested_mapping base overlay path)) \<longleftrightarrow>
     (\<exists>p. disagree_at base overlay p \<and> c = merge_conflict (path @ p))"
  using assms
proof (induction "items_size overlay" arbitrary: base overlay path rule: less_induct)
  case less
  have step: "c \<in> key_conflicts base path (k, v) \<longleftrightarrow>
      (\<exists>ks. disagree_at base overlay (k # ks) \<and> c = merge_conflict (path @ k # ks))"
    if kv: "(k, v) \<in> set overlay" for k v
  proof -
    from kv less.prems have v: "map_of overlay k = Some v" by simp
    then have wf: "wf_val v" using less.prems by (rule wf_val_lookup [rotated])
    have sub: "c \<in> set (snd (merge_nested_mapping (mapping_or_empty x) (mapping_or_empty v) (path @ [k])))
        \<longleftrightarrow> (\<exists>ks. disagree_at (mapping_or_empty x) (mapping_or_empty v) ks \<and> c = merge_conflict (path @ k # ks))"
      if "is_mapping v" for x
    proof -
      have "items_size (mapping_or_empty v) < items_size overlay"
        using size_pair_item [OF kv] that by (auto simp: is_mapping_iff)
      moreover have "wf_val (PDict (mapping_or_empty v))"
        using that wf by (auto simp: is_mapping_iff)
      ultimately show ?thesis using less.hyps by (metis append_Cons append_Nil append_assoc)
    qed
    have nonempty: "\<not> disagree_at b ov []" for b ov by (simp add: disagree_at_def)
    show ?thesis
    proof (cases "map_of base k")
      case None
      then show ?thesis by (simp add: key_conflicts_def disagree_at_Cons)
    next
      case (Some x)
      show ?thesis
      proof (cases "is_mapping x \<and> is_mapping v")
        case True
        have "disagree_at base overlay (k # ks) \<longleftrightarrow>
            disagree_at (mapping_or_empty x) (mapping_or_empty v) ks" for ks
          using Some v True nonempty by (cases "ks = []") (simp_all add: disagree_at_Cons)
        with Some True sub show ?thesis by (simp add: key_conflicts_def)
      next
        case False
        with Some v show ?thesis by (auto simp: key_conflicts_def disagree_at_Cons)
      qed
    qed
  qed
  have "c \<in> set (snd (merge_nested_mapping base overlay path)) \<longleftrightarrow>
      (\<exists>(k, v) \<in> set overlay. c \<in> key_conflicts base path (k, v))"
    using less.prems by (subst set_merge_conflicts) auto
  also have "\<dots> \<longleftrightarrow> (\<exists>k ks. disagree_at base overlay (k # ks) \<and> c = merge_conflict (path @ k # ks))"
  proof
    assume "\<exists>(k, v) \<in> set overlay. c \<in> key_conflicts base path (k, v)"
    then show "\<exists>k ks. disagree_at base overlay (k # ks) \<and> c = merge_conflict (path @ k # ks)"
      using step by blast
  next
    assume "\<exists>k ks. disagree_at base overlay (k # ks) \<and> c = merge_conflict (path @ k # ks)"
    then obtain k ks where d: "disagree_at base overlay (k # ks)" "c = merge_conflict (path @ k # ks)"
      by blast
    then obtain v where "(k, v) \<in> set overlay"
      by (auto simp: disagree_at_Cons dest: map_of_SomeD)
    with d step show "\<exists>(k, v) \<in> set overlay. c \<in> key_conflicts base path (k, v)" by blast
  qed
  also have "\<dots> \<longleftrightarrow> (\<exists>p. disagree_at base overlay p \<and> c = merge_conflict (path @ p))"
    by (metis disagree_at_def neq_Nil_conv)
  finally show ?case .
qed

section \<open>Contents of the merged mapping\<close>

lemma merge_lookup_path_base:
  assumes "wf_val (PDict overlay)" and "lookup_path (PDict base) p = Some v" and "\<not> is_mapping v"
  shows "lookup_path (PDict (fst (merge_nested_mapping base overlay path))) p = Some v"
  using assms
proof (induction p arbitrary: base overlay path)
  case Nil
  then show ?case by auto
next
  case (Cons k ks)
  then obtain w where w: "map_of base k = Some w" "lookup_path w ks = Some v"
    by (auto split: option.splits)
  have d: "distinct (map fst overlay)" using Cons.prems(1) by (rule wf_val_distinct)
  show ?case
  proof (cases "\<exists>y. map_of overlay k = Some y \<and> is_mapping w \<and> is_mapping y")
    case True
    then obtain y where y: "map_of overlay k = Some y" "is_mapping w" "is_mapping y" by blast
    then have "wf_val (PDict (mapping_or_empty y))"
      using wf_val_sub_mapping [OF Cons.prems(1)] by blast
    then show ?thesis
      using Cons.IH [of "mapping_or_empty y" "mapping_or_empty w"] Cons.prems(3) w y
      by (auto simp: merge_nested_lookup [OF d] is_mapping_iff)
  next
    case False
    with w show ?thesis by (auto simp: merge_nested_lookup [OF d] split: option.splits)
  qed
qed

lemma merge_lookup_path_overlay:
  assumes "wf_val (PDict overlay)" and "\<nexists>q. disagree_at base overlay q"
    and "lookup_path (PDict overlay) p = Some v" and "\<not> is_mapping v"
  shows "\<exists>w. lookup_path (PDict (fst (merge_nested_mapping base overlay path))) p = Some w
           \<and> (w = v \<or> py_eq w v)"
  using assms
proof (induction p arbitrary: base overlay path)
  case Nil
  then show ?case by auto
next
  case (Cons k ks)
  then obtain y where y: "map_of overlay k = Some y" "lookup_path y ks = Some v"
    by (auto split: option.splits)
  have d: "distinct (map fst overlay)" using Cons.prems(1) by (rule wf_val_distinct)
  show ?case
  proof (cases "map_of base k")
    case None
    with y show ?thesis by (simp add: merge_nested_lookup [OF d])
  next
    case (Some x)
    show ?thesis
    proof (cases "is_mapping x \<and> is_mapping y")
      case True
      have "\<nexists>q. disagree_at (mapping_or_empty x) (mapping_or_empty y) q"
      proof
        assume "\<exists>q. disagree_at (mapping_or_empty x) (mapping_or_empty y) q"
        then obtain q where q: "disagree_at (mapping_or_empty x) (mapping_or_empty y) q" by blast
        then have "q \<noteq> []" by (auto simp: disagree_at_def)
        with q Some y True have "disagree_at base overlay (k # q)" by (simp add: disagree_at_Cons)
        with Cons.prems(2) show False by blast
      qed
      moreover have "wf_val (PDict (mapping_or_empty y))"
        using y wf_val_sub_mapping [OF Cons.prems(1)] by blast
      ultimately show ?thesis
        using Cons.IH [of "mapping_or_empty y" "mapping_or_empty x"] Cons.prems(4) Some y True
        by (auto simp: merge_nested_lookup [OF d] is_mapping_iff)
    next
      case False
      then have "py_eq x y"
        using Cons.prems(2) Some y(1) by (metis disagree_at_Cons)
      moreover have "ks = []"
      proof (rule ccontr)
        assume "ks \<noteq> []"
        then have "is_mapping y" using y(2) by (cases ks) (metis lookup_path_scalar option.distinct(1))+
        then have "\<not> is_mapping x" using False by simp
        with \<open>py_eq x y\<close> \<open>is_mapping y\<close> show False
          by (cases x) (auto simp: is_mapping_iff scalar_eq_def num_val_def split: pyfloat.splits)
      qed
      ultimately show ?thesis using Some False y by (auto simp: merge_nested_lookup [OF d])
    qed
  qed
qed

end
