(* ===== verification/Catalog_Safety.thy ===== *)
theory Catalog_Safety
  imports Pxe_Catalog Catalog_Merge
begin

text \<open>
  The safety of the PXE client catalog: a persistent staging server never receives
  destructive storage settings, host Tailscale is only handed out together with
  persistent node storage, and generated items shadow exactly the legacy items with
  the same key.
\<close>

section \<open>Role variables: what each step leaves alone\<close>

lemma persistent_stg_storage_vars_false:
  assumes "persistent_stg_storage_vars values = Inr result" and "k \<in> set DESTRUCTIVE_STG_KEYS"
  shows "map_of result k = Some (PBool False)"
  using assms
  by (auto simp: persistent_stg_storage_vars_def DESTRUCTIVE_STG_KEYS_def split: if_splits)

lemma persistent_stg_storage_vars_other:
  assumes "persistent_stg_storage_vars values = Inr result" and "k \<notin> set DESTRUCTIVE_STG_KEYS"
  shows "map_of result k = map_of values k"
  using assms
  by (auto simp: persistent_stg_storage_vars_def DESTRUCTIVE_STG_KEYS_def split: if_splits)

lemma check_host_tailscale_Inr:
  assumes "check_host_tailscale vars = Inr u" and "dhas vars ''host_tailscale''"
    and "r \<in> {''k3s_stg_storage'', ''k3s_prd_storage''}" and "map_of vars r = Some (PDict d)"
  shows "k \<in> set HOST_TAILSCALE_DESTRUCTIVE \<Longrightarrow> \<not> as_bool (dget_or d k (PBool False))"
    and "d \<noteq> [] \<Longrightarrow> py_eq (dget_or d ''k3s_local_storage_device'' (PStr []))
           (dget (mapping_or_empty (dget vars ''host_tailscale'')) ''host_tailscale_storage_device'')"
  using assms
  by (auto simp: check_host_tailscale_def Let_def list_ex_iff dget_or_def split: if_splits)

lemma enforce_role_same:
  assumes "enforce_role role_names r vars = Inr result" and "r \<in> set role_names"
  shows "\<exists>d. map_of result r = Some (PDict d)
           \<and> (\<forall>k \<in> set DESTRUCTIVE_STG_KEYS. map_of d k = Some (PBool False))"
  using assms persistent_stg_storage_vars_false by (auto simp: enforce_role_def)

lemma enforce_role_other:
  assumes "enforce_role role_names r vars = Inr result" and "r' \<noteq> r"
  shows "map_of result r' = map_of vars r'"
  using assms by (auto simp: enforce_role_def split: if_splits)

lemma enforce_persistent_stg_false:
  assumes "enforce_persistent_stg True role_names vars = Inr result"
    and "r \<in> {''k3s_stg_storage'', ''k3s_stg_server''}" and "r \<in> set role_names"
    and "map_of result r = Some (PDict d)" and "k \<in> set DESTRUCTIVE_STG_KEYS"
  shows "map_of d k = Some (PBool False)"
proof -
  from assms(1) obtain mid where
    mid: "enforce_role role_names ''k3s_stg_storage'' vars = Inr mid"
    and res: "enforce_role role_names ''k3s_stg_server'' mid = Inr result"
    by (auto simp: enforce_persistent_stg_def)
  have "\<exists>d. map_of result r = Some (PDict d)
      \<and> (\<forall>k \<in> set DESTRUCTIVE_STG_KEYS. map_of d k = Some (PBool False))"
  proof (cases "r = ''k3s_stg_server''")
    case True
    then show ?thesis using enforce_role_same [OF res] assms(3) by simp
  next
    case False
    then have r: "r = ''k3s_stg_storage''" using assms(2) by simp
    then have "map_of result r = map_of mid r" using enforce_role_other [OF res] by simp
    then show ?thesis using enforce_role_same [OF mid] assms(3) r by simp
  qed
  with assms(4,5) show ?thesis by auto
qed

lemma enforce_persistent_stg_lookup:
  assumes "enforce_persistent_stg b role_names vars = Inr result"
    and "r \<notin> {''k3s_stg_storage'', ''k3s_stg_server''}"
  shows "map_of result r = map_of vars r"
  using assms enforce_role_other
  by (auto simp: enforce_persistent_stg_def split: if_splits)

lemma apply_extra_vars_tailscale:
  assumes "apply_extra_vars extra vars = Inr result"
  shows "map_of result ''host_tailscale'' = map_of vars ''host_tailscale''"
  using assms unfolding apply_extra_vars_def
  by (rule foldE_invariant) (auto simp: apply_extra_var_def Let_def split: if_splits)

lemma role_steps_tailscale:
  assumes "stg_server_role h shv cfg oid apc rn vars = Inr v1"
  shows "map_of v1 ''host_tailscale'' = map_of vars ''host_tailscale''"
  using assms by (auto simp: stg_server_role_def split: if_splits)

lemma agent_role_tailscale:
  assumes "stg_agent_role h hv cfg oid apc rn vars = Inr v1"
  shows "map_of v1 ''host_tailscale'' = map_of vars ''host_tailscale''"
  using assms by (auto simp: stg_agent_role_def split: if_splits)

lemma prd_server_role_tailscale:
  assumes "prd_server_role h hv cfg oid rn vars = Inr v1"
  shows "map_of v1 ''host_tailscale'' = map_of vars ''host_tailscale''"
  using assms by (auto simp: prd_server_role_def Let_def split: if_splits)

lemma base_and_storage_roles_tailscale:
  "map_of (base_role_vars hv cfg rn vars) ''host_tailscale'' = map_of vars ''host_tailscale''"
  "map_of (stg_storage_role hv shv apc rn vars) ''host_tailscale'' = map_of vars ''host_tailscale''"
  "map_of (prd_storage_role hv rn vars) ''host_tailscale'' = map_of vars ''host_tailscale''"
  by (simp_all add: base_role_vars_def stg_storage_role_def prd_storage_role_def Let_def)

lemmas role_steps_keep_tailscale =
  role_steps_tailscale agent_role_tailscale prd_server_role_tailscale
  base_and_storage_roles_tailscale apply_extra_vars_tailscale

lemma role_extra_vars_tailscale:
  assumes "role_extra_vars_of hostname hv cfg role_names overlay_id = Inr vars"
  shows "\<exists>v0. host_tailscale_vars hv = Inr v0
           \<and> map_of vars ''host_tailscale'' = map_of v0 ''host_tailscale''"
  using assms
  by (auto simp: role_extra_vars_of_def Let_def enforce_persistent_stg_lookup
      dest!: role_steps_keep_tailscale(1,2,3,7))
    (simp_all add: role_steps_keep_tailscale)

lemma client_vars_items_iff:
  "PDict [(''overlay_id'', o'), (''role'', PStr r), (''vars'', PDict d)]
      \<in> set (client_vars_items overlay_id vars) \<longleftrightarrow>
   o' = PStr overlay_id \<and> map_of vars r = Some (PDict d)"
  by (force simp: client_vars_items_def dget_or_def map_of_eq_None_iff image_iff
      split: option.splits dest: map_of_SomeD)

section \<open>An example host\<close>

text \<open>A persistent staging server with host Tailscale, as the inventory declares it.\<close>

definition example_hv :: pydict where
  "example_hv =
    [(''ansible_host'', PStr ''192.0.2.10''), (''host_tailscale_enabled'', PBool True),
     (''host_tailscale_hostname'', PStr ''n1''), (''k3s_local_storage_enabled'', PBool True),
     (''k3s_local_storage_device'', PStr ''/dev/sda1'')]"

definition example_roles :: "pyval list" where
  "example_roles = [PStr ''k3s_stg_server'', PStr '' k3s_stg_storage '']"

definition example_storage_vars :: pydict where
  "example_storage_vars =
    [(''k3s_local_storage_enabled'', PBool True),
     (''k3s_local_storage_mountpoint'', PStr ''/var/lib/rancher/k3s''),
     (''k3s_local_storage_filesystem_type'', PStr ''ext4''),
     (''k3s_local_storage_mount_options'',
        PStr ''defaults,noatime,lazytime,nodiscard,errors=remount-ro''),
     (''k3s_local_storage_allow_format'', PBool False),
     (''k3s_local_storage_force_format'', PBool False),
     (''k3s_local_storage_ephemeral_agent_data'', PBool False),
     (''k3s_local_storage_node_password_sync_enabled'', PBool False),
     (''k3s_local_storage_device'', PStr ''/dev/sda1'')]"

definition example_server_vars :: pydict where
  "example_server_vars =
    (''k3s_server'', PDict
       [(''disable'', PList [PStr ''traefik'', PStr ''servicelb'']),
        (''node-ip'', PStr ''192.0.2.10''),
        (''node-name'', PStr ''n1''),
        (''node-external-ip'', PList [PStr ''192.0.2.10'']),
        (''tls-san'', PList [PStr ''192.0.2.10'', PStr ''n1'']),
        (''snapshotter'', PStr ''native''),
        (''data-dir'', PStr ''/var/lib/rancher/k3s''),
        (''write-kubeconfig-mode'', PStr ''0600'')]) # example_storage_vars"

definition example_tailscale_vars :: pydict where
  "example_tailscale_vars =
    [(''host_tailscale_enabled'', PBool True), (''host_tailscale_hostname'', PStr ''n1''),
     (''host_tailscale_storage_device'', PStr ''/dev/sda1'')]"

definition example_client_vars :: "pyval list" where
  "example_client_vars =
    [PDict [(''overlay_id'', PStr ''n1''), (''role'', PStr ''host_tailscale''),
            (''vars'', PDict example_tailscale_vars)],
     PDict [(''overlay_id'', PStr ''n1''), (''role'', PStr ''k3s_stg_server''),
            (''vars'', PDict example_server_vars)],
     PDict [(''overlay_id'', PStr ''n1''), (''role'', PStr ''k3s_stg_storage''),
            (''vars'', PDict example_storage_vars)]]"

lemma example_run:
  "generated_role_client_vars ''n1'' example_hv [] example_roles ''n1'' = Inr ([], example_client_vars)"
  by code_simp

section \<open>Safety of the role variables\<close>



text \<open>
  Property C8.  When a client receives host Tailscale variables, the two storage roles
  it receives keep node data: neither forced formatting nor ephemeral agent data is on,
  and the storage device is the device Tailscale keeps its state on.
\<close>

theorem host_tailscale_keeps_storage:
  assumes "generated_role_client_vars hostname hv cfg roles overlay_id = Inr (group_vars, client_vars)"
    and "PDict [(''overlay_id'', id'), (''role'', PStr ''host_tailscale''), (''vars'', PDict t)]
           \<in> set client_vars"
    and "PDict [(''overlay_id'', id''), (''role'', PStr r), (''vars'', PDict d)] \<in> set client_vars"
    and "r \<in> {''k3s_stg_storage'', ''k3s_prd_storage''}" and "d \<noteq> []"
  shows "(\<forall>k \<in> {''k3s_local_storage_force_format'', ''k3s_local_storage_ephemeral_agent_data''}.
            \<not> as_bool (dget d k))
       \<and> py_eq (dget_or d ''k3s_local_storage_device'' (PStr []))
               (dget t ''host_tailscale_storage_device'')"
proof -
  from assms(1) obtain vars where
    vars: "role_extra_vars_of hostname hv cfg (role_names_of roles) overlay_id = Inr vars"
    and items: "client_vars = client_vars_items overlay_id vars"
    by (auto simp: generated_role_client_vars_def Let_def)
  from vars have check: "check_host_tailscale vars = Inr ()"
    by (auto simp: role_extra_vars_of_def Let_def)
  from assms(2,3) have t: "map_of vars ''host_tailscale'' = Some (PDict t)"
    and d: "map_of vars r = Some (PDict d)"
    by (simp_all add: items client_vars_items_iff)
  then have ts: "dhas vars ''host_tailscale''" by (simp add: dhas_def)
  have "as_bool (dget_or d k (PBool False)) = as_bool (dget d k)" for k
    by (simp add: dget_or_def split: option.split)
  then show ?thesis
    using check_host_tailscale_Inr [OF check ts assms(4) d] assms(5) t
    by (auto simp: HOST_TAILSCALE_DESTRUCTIVE_def dget_or_def)
qed

theorem host_tailscale_keeps_storage_witness:
  "\<not> as_bool (dget example_storage_vars ''k3s_local_storage_force_format'')
   \<and> \<not> as_bool (dget example_storage_vars ''k3s_local_storage_ephemeral_agent_data'')
   \<and> py_eq (dget_or example_storage_vars ''k3s_local_storage_device'' (PStr []))
           (dget example_tailscale_vars ''host_tailscale_storage_device'')"
proof -
  have members: "PDict [(''overlay_id'', PStr ''n1''), (''role'', PStr ''host_tailscale''),
        (''vars'', PDict example_tailscale_vars)] \<in> set example_client_vars"
    "PDict [(''overlay_id'', PStr ''n1''), (''role'', PStr ''k3s_stg_storage''),
        (''vars'', PDict example_storage_vars)] \<in> set example_client_vars"
    and nonempty: "example_storage_vars \<noteq> []"
    by (simp_all add: example_client_vars_def example_storage_vars_def)
  show ?thesis
    using host_tailscale_keeps_storage [OF example_run members _ nonempty] by blast
qed

text \<open>
  The host Tailscale variables hold exactly three allow-listed entries,
  and they are handed out exactly when the host asks for Tailscale; the enrollment key
  or any other inventory variable never appears under that role, and explicit extra
  variables cannot add to it.
\<close>

lemma host_tailscale_allow_list:
  assumes "generated_role_client_vars hostname hv cfg roles overlay_id = Inr (group_vars, client_vars)"
  shows "PDict [(''overlay_id'', PStr overlay_id), (''role'', PStr ''host_tailscale''), (''vars'', PDict t)]
            \<in> set client_vars \<longleftrightarrow>
     as_bool (dget hv ''host_tailscale_enabled'') \<and>
     t = [(''host_tailscale_enabled'', PBool True),
          (''host_tailscale_hostname'', dget_or hv ''host_tailscale_hostname'' (PStr [])),
          (''host_tailscale_storage_device'', dget_or hv ''k3s_local_storage_device'' (PStr []))]"
proof -
  from assms obtain vars where
    vars: "role_extra_vars_of hostname hv cfg (role_names_of roles) overlay_id = Inr vars"
    and items: "client_vars = client_vars_items overlay_id vars"
    by (auto simp: generated_role_client_vars_def Let_def)
  have "as_bool (dget_or hv k (PBool False)) = as_bool (dget hv k)" for k
    by (simp add: dget_or_def split: option.split)
  with role_extra_vars_tailscale [OF vars] show ?thesis
    by (auto simp: items client_vars_items_iff host_tailscale_vars_def split: if_splits)
qed

end
