(* ===== verification/Catalog_Props.thy ===== *)
theory Catalog_Props
  imports Catalog_Safety
begin

text \<open>
  The functional behaviour of the PXE client catalog: which hosts take part and in
  which order, what the nested merge keeps and reports, how legacy items are shadowed,
  and what the agent and storage builders guarantee.
\<close>

section \<open>The loop over the hosts\<close>

text \<open>What one inventory host contributes: nothing, a generated client, or an exception.\<close>

definition host_result :: "catalog_args \<Rightarrow> string \<Rightarrow> generated_client res option" where
  "host_result args hostname =
     (case dget (arg_hostvars args) hostname of
        PDict hv \<Rightarrow> map_option (\<lambda>cfg. build_generated_client hostname hv cfg (arg_option_code args)
            (arg_default_filename args) (arg_default_serveraddress args)
            (arg_default_servername args) (arg_default_force args)) (client_cfg args hv)
      | _ \<Rightarrow> None)"

lemma catalog_step_result:
  "catalog_step args hostname acc =
     (case host_result args hostname of
        None \<Rightarrow> Inr acc
      | Some r \<Rightarrow> bindE r (\<lambda>generated. Inr (add_generated generated acc)))"
  by (simp add: catalog_step_def host_result_def split: pyval.split option.split)

abbreviation taking_part :: "catalog_args \<Rightarrow> string list \<Rightarrow> generated_client res list" where
  "taking_part args hosts \<equiv> List.map_filter (host_result args) hosts"

lemma fold_catalog_step:
  "foldE (catalog_step args) hosts acc =
     bindE (mapE (\<lambda>r. r) (taking_part args hosts)) (\<lambda>gs. Inr (fold add_generated gs acc))"
proof (induction hosts arbitrary: acc)
  case (Cons h hosts)
  show ?case
  proof (cases "host_result args h")
    case None
    with Cons show ?thesis by (simp add: catalog_step_result List.map_filter_simps)
  next
    case (Some r)
    with Cons show ?thesis
      by (cases r) (simp_all add: catalog_step_result List.map_filter_simps bindE_assoc)
  qed
qed (simp add: List.map_filter_simps)

lemma mapE_id_Inr: "mapE (\<lambda>r. r) rs = Inr gs \<longleftrightarrow> rs = map Inr gs"
  by (induction rs arbitrary: gs) (auto simp: map_eq_Cons_conv)

lemma mapE_id_map_Inr [simp]: "mapE (\<lambda>r. r) (map Inr gs) = Inr gs"
  by (simp add: mapE_id_Inr)

lemma mapE_id_Inl: "mapE (\<lambda>r. r) rs = Inl e \<Longrightarrow> Inl e \<in> set rs"
  by (induction rs) (auto simp: bindE_Inl_iff)

lemma acc_pxe_hosts_fold:
  "acc_pxe_hosts (fold add_generated gs acc) = acc_pxe_hosts acc @ map gen_pxe_host gs"
  by (induction gs arbitrary: acc) (simp_all add: add_generated_def Let_def)

lemma acc_client_vars_fold:
  "acc_client_vars (fold add_generated gs acc) = acc_client_vars acc @ concat (map gen_client_vars gs)"
  by (induction gs arbitrary: acc) (simp_all add: add_generated_def Let_def)

lemma build_catalog_Inr:
  assumes "build_openwrt_pxe_client_catalog args = Inr cat"
  shows "\<exists>acc. generate_all args = Inr acc \<and> cat = finish_catalog args acc"
  using assms by (auto simp: build_openwrt_pxe_client_catalog_def)

lemma finish_catalog_fields:
  "cat_pxe_hosts (finish_catalog args acc) =
     non_shadowed_legacy (mapping_items (arg_legacy_pxe_hosts args)) (acc_pxe_hosts acc)
       [''name'', ''networkid'', ''mac''] @ acc_pxe_hosts acc"
  "cat_dhcp_hosts (finish_catalog args acc) =
     mapping_items (arg_static_dhcp_hosts args) @ cat_pxe_hosts (finish_catalog args acc)"
  "cat_generated_pxe_hosts (finish_catalog args acc) = acc_pxe_hosts acc"
  "cat_ansible_pull_client_vars (finish_catalog args acc) = acc_client_vars acc"
  by (simp_all add: finish_catalog_def Let_def)


definition example_args :: catalog_args where
  "example_args = \<lparr>
     arg_hostvars = [(''n2'', PDict [(''openwrt_pxe_client'', PDict [(''enabled'', PBool True)])]),
                     (''n1'', PDict [(''openwrt_pxe_client'', PDict [(''enabled'', PStr ''yes'')])]),
                     (''n3'', PDict [(''ansible_host'', PStr ''192.0.2.3'')])],
     arg_groups = PDict [(''all'', PList [PStr ''n2'', PStr ''n3'', PStr ''n1''])],
     arg_router_name = ''router'',
     arg_legacy_pxe_hosts = PList [PDict [(''name'', PStr ''n1'')], PDict [(''name'', PStr ''old'')]],
     arg_legacy_pxe_boots = PNone, arg_legacy_overlay_clients = PNone,
     arg_enabled = PBool True,
     arg_compare_overlay_fields = PNone, arg_compare_pxe_host_fields = PNone,
     arg_compare_pxe_boot_fields = PNone,
     arg_option_code = PStr ''224'', arg_default_filename = PStr ''start4.elf'',
     arg_default_serveraddress = PStr [], arg_default_servername = PStr [],
     arg_default_force = PInt 1, arg_static_dhcp_hosts = PNone,
     arg_legacy_ansible_pull_group_vars = PNone\<rparr>"


section \<open>Legacy items\<close>

text \<open>
  A DHCP host of the catalog is a generated one or a legacy one that no
  generated host shadows, and nothing else is lost: a legacy host is missing from the
  catalog only if a generated host has the same non-empty key (name, else network id,
  else MAC address).
\<close>

lemma catalog_pxe_hosts_shadowing:
  assumes "build_openwrt_pxe_client_catalog args = Inr cat"
  shows "item \<in> set (cat_pxe_hosts cat) \<longleftrightarrow>
     item \<in> set (cat_generated_pxe_hosts cat) \<or>
     (item \<in> set (mapping_items (arg_legacy_pxe_hosts args)) \<and>
      (item_key item [''name'', ''networkid'', ''mac''] = [] \<or>
       (\<forall>g \<in> set (cat_generated_pxe_hosts cat).
          item_key g [''name'', ''networkid'', ''mac''] \<noteq> item_key item [''name'', ''networkid'', ''mac''])))"
  using build_catalog_Inr [OF assms]
  by (auto simp: finish_catalog_fields non_shadowed_legacy_iff)

lemma example_catalog:
  "\<exists>cat. build_openwrt_pxe_client_catalog example_args = Inr cat \<and>
     map (\<lambda>h. item_key h [''name'', ''networkid'', ''mac'']) (cat_generated_pxe_hosts cat) = [''n1'', ''n2'']"
proof -
  have "map_sum (\<lambda>e. ()) (\<lambda>cat. map (\<lambda>h. item_key h [''name'', ''networkid'', ''mac''])
      (cat_generated_pxe_hosts cat)) (build_openwrt_pxe_client_catalog example_args) = Inr [''n1'', ''n2'']"
    by code_simp
  then show ?thesis
    by (cases "build_openwrt_pxe_client_catalog example_args") auto
qed

text \<open>
  When the catalog is disabled it adds nothing: the DHCP hosts, boot
  entries, overlay clients and group variables are the legacy ones, no role variables are
  handed out and no conflict is reported.
\<close>

lemma disabled_catalog_is_legacy:
  assumes "\<not> as_bool (arg_enabled args)"
  shows "\<exists>cat. build_openwrt_pxe_client_catalog args = Inr cat
     \<and> cat_pxe_hosts cat = mapping_items (arg_legacy_pxe_hosts args)
     \<and> cat_pxe_boots cat = mapping_items (arg_legacy_pxe_boots args)
     \<and> cat_overlay_clients cat = mapping_items (arg_legacy_overlay_clients args)
     \<and> cat_ansible_pull_group_vars cat = mapping_or_empty (arg_legacy_ansible_pull_group_vars args)
     \<and> cat_ansible_pull_client_vars cat = [] \<and> cat_group_var_conflicts cat = []"
  using assms
  by (simp add: build_openwrt_pxe_client_catalog_def generate_all_def finish_catalog_def empty_acc_def
      Let_def non_shadowed_legacy_def)

text \<open>
  Property C21.  The order in which the inventory lists its hosts does not matter: two
  catalogs whose group of all hosts is permuted are equal.
\<close>

theorem catalog_order_independent:
  assumes "mset xs = mset ys"
  shows "build_openwrt_pxe_client_catalog (args\<lparr>arg_groups := PDict [(''all'', PList xs)]\<rparr>) =
         build_openwrt_pxe_client_catalog (args\<lparr>arg_groups := PDict [(''all'', PList ys)]\<rparr>)"
proof -
  have cfg: "client_cfg (args\<lparr>arg_groups := g\<rparr>) = client_cfg args" for g
  proof -
    have "arg_router_name (args\<lparr>arg_groups := g\<rparr>) = arg_router_name args" by simp
    then show ?thesis unfolding client_cfg_def by presburger
  qed
  have step: "catalog_step (args\<lparr>arg_groups := g\<rparr>) = catalog_step args" for g
    by (intro ext, unfold catalog_step_def cfg, cases args)
      (simp only: catalog_args.select_convs catalog_args.update_convs)
  have finish: "finish_catalog (args\<lparr>arg_groups := g\<rparr>) = finish_catalog args" for g
    by (simp add: finish_catalog_def fun_eq_iff)
  show ?thesis
    by (simp add: build_openwrt_pxe_client_catalog_def generate_all_def step finish
        sorted_inventory_hosts_perm [OF assms])
qed

theorem catalog_order_independent_witness:
  "build_openwrt_pxe_client_catalog (example_args\<lparr>arg_groups := PDict [(''all'', PList [PStr ''n1'', PStr ''n2''])]\<rparr>) =
   build_openwrt_pxe_client_catalog (example_args\<lparr>arg_groups := PDict [(''all'', PList [PStr ''n2'', PStr ''n1''])]\<rparr>)"
  by (rule catalog_order_independent) simp

section \<open>The nested merge\<close>

text \<open>
  The merge of two nested mappings reports exactly the paths at which
  both have a value, the values are not both mappings, and they differ.
\<close>

lemma merge_reports_exactly_conflicts:
  assumes "wf_val (PDict overlay)"
  shows "merge_conflict q \<in> set (snd (merge_nested_mapping base overlay path)) \<longleftrightarrow>
     (\<exists>p. disagree_at base overlay p \<and> merge_conflict q = merge_conflict (path @ p))"
  by (rule merge_conflicts_spec) (rule assms)

text \<open>
  The merge never loses a base value: whatever the base holds at a path,
  short of a mapping, the merged mapping holds at the same path.  And when nothing is
  reported, every overlay value is in the result as well, up to Python equality.
\<close>

lemma merge_keeps_both_sides:
  assumes "wf_val (PDict overlay)" and "\<not> is_mapping v"
  shows "(lookup_path (PDict base) p = Some v \<longrightarrow>
           lookup_path (PDict (fst (merge_nested_mapping base overlay path))) p = Some v)
       \<and> (snd (merge_nested_mapping base overlay path) = [] \<longrightarrow>
           lookup_path (PDict overlay) p = Some v \<longrightarrow>
           (\<exists>w. lookup_path (PDict (fst (merge_nested_mapping base overlay path))) p = Some w
                \<and> (w = v \<or> py_eq w v)))"
proof -
  have "\<nexists>q. disagree_at base overlay q" if "snd (merge_nested_mapping base overlay path) = []"
    using merge_conflicts_spec [OF assms(1), of _ base path] that by auto
  then show ?thesis
    using merge_lookup_path_base [OF assms(1) _ assms(2)] merge_lookup_path_overlay [OF assms(1) _ _ assms(2)]
    by blast
qed

section \<open>Agents and storage\<close>

lemma labels_invariant:
  "distinct ls \<and> [] \<notin> set ls \<Longrightarrow>
     distinct (foldl append_clean_unique ls vs) \<and> [] \<notin> set (foldl append_clean_unique ls vs)"
  by (induction vs arbitrary: ls)
    (simp_all add: append_clean_unique_distinct append_clean_unique_nonempty)

lemma dget_dupdate_storage_agent:
  "map_of (build_k3s_local_storage_vars hv e p) ''k3s_agent'' = None"
  "map_of (build_k3s_iscsi_session_vars hv) ''k3s_agent'' = None"
  "map_of (build_rpi5_egpu_local_llm_vars hv) ''k3s_agent'' = None"
  by (simp_all add: build_k3s_local_storage_vars_def build_k3s_iscsi_session_vars_def Let_def
      build_rpi5_egpu_local_llm_vars_def map_of_copy_keys K3S_LOCAL_STORAGE_BOOL_KEYS_def
      K3S_LOCAL_STORAGE_VALUE_KEYS_def K3S_ISCSI_SESSION_BOOL_KEYS_def K3S_ISCSI_SESSION_VALUE_KEYS_def
      RPI5_EGPU_LOCAL_LLM_BOOL_KEYS_def RPI5_EGPU_LOCAL_LLM_VALUE_KEYS_def
      RPI5_EGPU_LOCAL_LLM_SEQUENCE_KEYS_def)

lemma map_of_dupdate_None: "map_of e k = None \<Longrightarrow> map_of (dupdate d e) k = map_of d k"
  by (simp add: map_of_dupdate map_of_eq_None_iff split: option.split)
    (metis image_eqI map_of_SomeD set_rev fst_conv option.distinct(1) option.exhaust)

lemma agent_vars_parts:
  assumes "build_k3s_stg_agent_vars hostname hv cfg overlay_id = Inr vars"
  shows "\<exists>agent snapshotter. agent_snapshotter hv = Inr snapshotter
     \<and> map_of vars ''k3s_agent'' = Some (PDict agent)
     \<and> map_of agent ''node-label'' =
          Some (PList (map PStr (agent_labels (mapping_or_empty (dget hv ''k3s_agent'')) hv)))
     \<and> map_of agent ''snapshotter'' = Some (PStr snapshotter)"
proof -
  from assms obtain snapshotter where s: "agent_snapshotter hv = Inr snapshotter"
    by (cases "agent_snapshotter hv") (simp_all add: build_k3s_stg_agent_vars_def Let_def)
  show ?thesis
    using assms unfolding build_k3s_stg_agent_vars_def Let_def s bindE_simps sum.inject
    apply (elim subst)
    apply (simp only: map_of_dupdate_None [OF dget_dupdate_storage_agent(1)]
        map_of_dupdate_None [OF dget_dupdate_storage_agent(2)]
        map_of_dupdate_None [OF dget_dupdate_storage_agent(3)])
    apply (cases "dhas hv ''k3s_start_on_boot''"; 
        cases "dhas (mapping_or_empty (dget hv ''k3s_agent'')) ''kubelet-arg''")
    apply (simp_all add: update_conv')
    done
qed

text \<open>
  A generated staging agent has a non-empty, duplicate-free list of
  non-empty node labels and one of the two supported snapshotters; the overlayfs
  snapshotter is only used on enabled local storage with an explicit ext4 filesystem.
\<close>

lemma agent_labels_and_snapshotter:
  assumes "build_k3s_stg_agent_vars hostname hv cfg overlay_id = Inr vars"
  shows "\<exists>agent labels snapshotter.
     map_of vars ''k3s_agent'' = Some (PDict agent)
     \<and> map_of agent ''node-label'' = Some (PList (map PStr labels))
     \<and> labels \<noteq> [] \<and> distinct labels \<and> [] \<notin> set labels
     \<and> map_of agent ''snapshotter'' = Some (PStr snapshotter)
     \<and> (snapshotter = ''native'' \<or>
        snapshotter = ''overlayfs'' \<and> as_bool (dget hv ''k3s_local_storage_enabled'')
          \<and> clean_string (dget hv ''k3s_local_storage_filesystem_type'') = ''ext4'')"
proof -
  let ?labels = "agent_labels (mapping_or_empty (dget hv ''k3s_agent'')) hv"
  have labels: "?labels \<noteq> [] \<and> distinct ?labels \<and> [] \<notin> set ?labels"
    using labels_invariant [of "[]"] labels_invariant
    by (simp add: agent_labels_def Let_def)
  from agent_vars_parts [OF assms] obtain agent s where s: "agent_snapshotter hv = Inr s"
    and agent: "map_of vars ''k3s_agent'' = Some (PDict agent)"
      "map_of agent ''node-label'' = Some (PList (map PStr ?labels))"
      "map_of agent ''snapshotter'' = Some (PStr s)"
    by (elim exE conjE)
  from s have "s = ''native'' \<or> s = ''overlayfs'' \<and> as_bool (dget hv ''k3s_local_storage_enabled'')
      \<and> clean_string (dget hv ''k3s_local_storage_filesystem_type'') = ''ext4''"
    by (auto simp: agent_snapshotter_def Let_def split: if_splits)
  with agent labels show ?thesis
    by (intro exI [of _ agent] exI [of _ ?labels] exI [of _ s]) (intro conjI; simp)
qed

text \<open>
  Property C36.  The defaults of the storage builder apply only to absent keys: a boolean
  storage setting that the inventory names is taken from the inventory, even when it is
  named with an empty value, which counts as false whatever the default is.
\<close>

theorem storage_named_setting_wins:
  assumes "k \<in> set K3S_LOCAL_STORAGE_BOOL_KEYS" and "dhas hv k"
  shows "map_of (build_k3s_local_storage_vars hv default_ephemeral default_sync) k =
     Some (PBool (as_bool (dget hv k)))"
proof -
  have "k \<notin> set K3S_LOCAL_STORAGE_VALUE_KEYS"
    using assms(1) by (auto simp: K3S_LOCAL_STORAGE_BOOL_KEYS_def K3S_LOCAL_STORAGE_VALUE_KEYS_def)
  with assms show ?thesis
    by (simp add: build_k3s_local_storage_vars_def Let_def map_of_copy_keys)
qed

theorem storage_named_setting_wins_witness:
  "map_of (build_k3s_local_storage_vars [(''k3s_local_storage_ephemeral_agent_data'', PNone)] True PNone)
     ''k3s_local_storage_ephemeral_agent_data'' = Some (PBool False)"
  using storage_named_setting_wins [of "''k3s_local_storage_ephemeral_agent_data''"
      "[(''k3s_local_storage_ephemeral_agent_data'', PNone)]" True PNone]
  by (simp add: K3S_LOCAL_STORAGE_BOOL_KEYS_def dhas_def dget_or_def)

end
