(* ===== verification/Py_Json.thy ===== *)
theory Py_Json
  imports Py_Values
begin

text \<open>
  \<open>json.dumps\<close> and \<open>json.loads\<close> on the values of \<open>Py_Values\<close>.  The encoder takes the
  separators and the \<open>ensure_ascii\<close> flag; the decoder is the recursive descent of the
  library, with the length of the text as fuel: a nested value costs two calls and at
  least two characters, its brackets, and an element one call and at least one character.
  Reading a float literal is the C library's work and is the parameter \<open>float_of\<close>.
  Escapes above code point 255 are outside the text model and make the decoder fail; so
  does a nesting or an integer beyond the interpreter's limits, which the model has not.
  \<open>Py_Json_Roundtrip\<close> proves that what is written is read back.
\<close>

section \<open>Encoding\<close>

record json_format =
  fmt_ascii :: bool
  fmt_item_sep :: string
  fmt_key_sep :: string

definition json_default :: json_format where
  [py_defs]: "json_default = \<lparr>fmt_ascii = True, fmt_item_sep = '', '', fmt_key_sep = '': ''\<rparr>"

definition json_compact :: json_format where
  [py_defs]: "json_compact = \<lparr>fmt_ascii = True, fmt_item_sep = '','', fmt_key_sep = '':''\<rparr>"

definition json_compact_unicode :: json_format where
  [py_defs]: "json_compact_unicode = \<lparr>fmt_ascii = False, fmt_item_sep = '','', fmt_key_sep = '':''\<rparr>"

definition json_unicode :: json_format where
  [py_defs]: "json_unicode = \<lparr>fmt_ascii = False, fmt_item_sep = '', '', fmt_key_sep = '': ''\<rparr>"

definition json_escape :: "bool \<Rightarrow> char \<Rightarrow> string" where
  [py_defs]: "json_escape ascii c =
     (let n = ord_of c; esc = (\<lambda>x. [CHR 0x5C, x]) in
      if n = 34 then esc (CHR 0x22)
      else if n = 92 then esc (CHR 0x5C)
      else if n = 10 then esc (CHR ''n'')
      else if n = 13 then esc (CHR ''r'')
      else if n = 9 then esc (CHR ''t'')
      else if n = 12 then esc (CHR ''f'')
      else if n = 8 then esc (CHR ''b'')
      else if n < 32 \<or> (ascii \<and> 127 \<le> n)
        then esc (CHR ''u'') @ ''00'' @ [hex_digit (n div 16), hex_digit (n mod 16)]
      else [c])"

definition json_str :: "bool \<Rightarrow> string \<Rightarrow> string" where
  [py_defs]: "json_str ascii s = [CHR 0x22] @ concat (map (json_escape ascii) s) @ [CHR 0x22]"

definition json_float :: "pyfloat \<Rightarrow> string" where
  [py_defs]: "json_float f = (case f of FFin r q \<Rightarrow> r
     | FInf n \<Rightarrow> (if n then ''-Infinity'' else ''Infinity'') | FNaN \<Rightarrow> ''NaN'')"

function json_enc :: "json_format \<Rightarrow> pyval \<Rightarrow> string" where
  "json_enc fmt PNone = ''null''"
| "json_enc fmt (PBool b) = (if b then ''true'' else ''false'')"
| "json_enc fmt (PInt i) = str_int i"
| "json_enc fmt (PFloat f) = json_float f"
| "json_enc fmt (PStr s) = json_str (fmt_ascii fmt) s"
| "json_enc fmt (PList xs) = ''['' @ py_join (fmt_item_sep fmt) (map (json_enc fmt) xs) @ '']''"
| "json_enc fmt (PDict kvs) =
     ''{'' @ py_join (fmt_item_sep fmt)
       (map (\<lambda>(k, v). json_str (fmt_ascii fmt) k @ fmt_key_sep fmt @ json_enc fmt v) kvs) @ ''}''"
  by pat_completeness auto
termination
  by (relation "measure (size \<circ> snd)")
    (auto simp: size_list_estimation' less_Suc_eq_le dest: size_pair_item size_pair_item')

text \<open>With \<open>allow_nan=False\<close> an infinite or undefined float raises.\<close>

function all_finite :: "pyval \<Rightarrow> bool" where
  "all_finite (PFloat f) = (case f of FFin r q \<Rightarrow> True | _ \<Rightarrow> False)"
| "all_finite (PList xs) = list_all all_finite xs"
| "all_finite (PDict d) = list_all (\<lambda>(k, v). all_finite v) d"
| "all_finite PNone = True"
| "all_finite (PBool b) = True"
| "all_finite (PInt i) = True"
| "all_finite (PStr s) = True"
  by pat_completeness auto
termination
  by (relation "measure size")
    (auto simp: size_list_estimation' less_Suc_eq_le dest: size_pair_item size_pair_item')

definition json_dumps_finite :: "json_format \<Rightarrow> pyval \<Rightarrow> string res" where
  [py_defs]: "json_dumps_finite fmt v =
     (if all_finite v then Inr (json_enc fmt v)
      else Inl (ValueError ''Out of range float values are not JSON compliant''))"

section \<open>Decoding\<close>

definition json_ws :: "char \<Rightarrow> bool" where
  [py_defs]: "json_ws c \<longleftrightarrow> c = CHR 0x20 \<or> c = CHR 0x09 \<or> c = CHR 0x0A \<or> c = CHR 0x0D"

definition skip_ws :: "string \<Rightarrow> string" where
  [py_defs]: "skip_ws s = dropWhile json_ws s"

definition hex_val :: "char \<Rightarrow> nat option" where
  [py_defs]: "hex_val c =
     (let n = ord_of c in
      if 48 \<le> n \<and> n \<le> 57 then Some (n - 48)
      else if 97 \<le> n \<and> n \<le> 102 then Some (n - 87)
      else if 65 \<le> n \<and> n \<le> 70 then Some (n - 55) else None)"

definition hex4 :: "string \<Rightarrow> nat option" where
  [py_defs]: "hex4 s = (case s of
       a # b # c # d # _ \<Rightarrow>
         (case (hex_val a, hex_val b, hex_val c, hex_val d) of
            (Some w, Some x, Some y, Some z) \<Rightarrow> Some (((w * 16 + x) * 16 + y) * 16 + z)
          | _ \<Rightarrow> None)
     | _ \<Rightarrow> None)"

definition json_unescape :: "char \<Rightarrow> char option" where
  [py_defs]: "json_unescape c =
     (if c = CHR 0x22 then Some (CHR 0x22)
      else if c = CHR 0x5C then Some (CHR 0x5C)
      else if c = CHR ''/'' then Some (CHR ''/'')
      else if c = CHR ''b'' then Some (CHR 0x08)
      else if c = CHR ''f'' then Some (CHR 0x0C)
      else if c = CHR ''n'' then Some (CHR 0x0A)
      else if c = CHR ''r'' then Some (CHR 0x0D)
      else if c = CHR ''t'' then Some (CHR 0x09)
      else None)"

definition prepend :: "char \<Rightarrow> (string \<times> string) option \<Rightarrow> (string \<times> string) option" where
  [py_defs]: "prepend c r = map_option (\<lambda>(s, t). (c # s, t)) r"

text \<open>A string literal after its opening quote, and the text behind it.\<close>

fun json_string :: "string \<Rightarrow> (string \<times> string) option" where
  "json_string [] = None"
| "json_string (c # r) =
     (if c = CHR 0x22 then Some ([], r)
      else if c = CHR 0x5C then
        (case r of
           [] \<Rightarrow> None
         | e # r' \<Rightarrow>
             (if e = CHR ''u'' then
                (case hex4 r' of
                   None \<Rightarrow> None
                 | Some n \<Rightarrow> if n < 256 then prepend (char_of n) (json_string (drop 4 r')) else None)
              else (case json_unescape e of
                   None \<Rightarrow> None
                 | Some d \<Rightarrow> prepend d (json_string r'))))
      else if ord_of c < 32 then None
      else prepend c (json_string r))"

text \<open>The parts of a number literal: integer, fraction, exponent, and the text behind.\<close>

definition digits_of :: "string \<Rightarrow> string \<times> string" where
  [py_defs]: "digits_of s = (takeWhile ascii_digit s, dropWhile ascii_digit s)"

definition json_int_part :: "string \<Rightarrow> (string \<times> string) option" where
  [py_defs]: "json_int_part s = (case s of
       [] \<Rightarrow> None
     | c # r \<Rightarrow> if c = CHR ''0'' then Some (''0'', r)
         else if ascii_digit c then Some (digits_of s) else None)"

definition json_frac_part :: "string \<Rightarrow> string \<times> string" where
  [py_defs]: "json_frac_part s = (case s of
       c # r \<Rightarrow> if c = CHR ''.'' \<and> fst (digits_of r) \<noteq> []
         then (c # fst (digits_of r), snd (digits_of r)) else ([], s)
     | [] \<Rightarrow> ([], []))"

definition exp_sign :: "string \<Rightarrow> string \<times> string" where
  [py_defs]: "exp_sign s = (case s of
       c # r \<Rightarrow> if c = CHR ''+'' \<or> c = CHR ''-'' then ([c], r) else ([], s)
     | [] \<Rightarrow> ([], []))"

definition json_exp_part :: "string \<Rightarrow> string \<times> string" where
  [py_defs]: "json_exp_part s = (case s of
       c # r \<Rightarrow>
         (let sign = exp_sign r; ds = digits_of (snd sign) in
          if (c = CHR ''e'' \<or> c = CHR ''E'') \<and> fst ds \<noteq> []
          then (c # fst sign @ fst ds, snd ds) else ([], s))
     | [] \<Rightarrow> ([], []))"

definition json_number :: "(string \<Rightarrow> pyfloat) \<Rightarrow> string \<Rightarrow> (pyval \<times> string) option" where
  [py_defs]: "json_number float_of s =
     (let neg = startswith s ''-''; body = (if neg then tl s else s) in
      case json_int_part body of
        None \<Rightarrow> None
      | Some (i, r) \<Rightarrow>
          (let frac = json_frac_part r; ex = json_exp_part (snd frac) in
           if fst frac = [] \<and> fst ex = []
           then Some (PInt (if neg then - int (nat_of_digits i) else int (nat_of_digits i)), r)
           else Some (PFloat (float_of ((if neg then ''-'' else []) @ i @ fst frac @ fst ex)), snd ex)))"

definition json_word :: "(string \<Rightarrow> pyfloat) \<Rightarrow> string \<Rightarrow> (pyval \<times> string) option" where
  [py_defs]: "json_word float_of s =
     (if startswith s ''null'' then Some (PNone, drop 4 s)
      else if startswith s ''true'' then Some (PBool True, drop 4 s)
      else if startswith s ''false'' then Some (PBool False, drop 5 s)
      else (case json_number float_of s of
         Some r \<Rightarrow> Some r
       | None \<Rightarrow>
         (if startswith s ''NaN'' then Some (PFloat FNaN, drop 3 s)
          else if startswith s ''Infinity'' then Some (PFloat (FInf False), drop 8 s)
          else if startswith s ''-Infinity'' then Some (PFloat (FInf True), drop 9 s)
          else None)))"

fun json_value :: "(string \<Rightarrow> pyfloat) \<Rightarrow> nat \<Rightarrow> string \<Rightarrow> (pyval \<times> string) option"
and json_items :: "(string \<Rightarrow> pyfloat) \<Rightarrow> nat \<Rightarrow> string \<Rightarrow> (pyval list \<times> string) option"
and json_members :: "(string \<Rightarrow> pyfloat) \<Rightarrow> nat \<Rightarrow> string \<Rightarrow> pydict \<Rightarrow> (pydict \<times> string) option" where
  "json_value float_of 0 s = None"
| "json_value float_of (Suc n) s =
     (case s of
        [] \<Rightarrow> None
      | c # r \<Rightarrow>
          (if c = CHR 0x22 then map_option (\<lambda>(x, t). (PStr x, t)) (json_string r)
           else if c = CHR ''['' then
             (if startswith (skip_ws r) '']'' then Some (PList [], tl (skip_ws r))
              else map_option (\<lambda>(xs, t). (PList xs, t)) (json_items float_of n (skip_ws r)))
           else if c = CHR ''{'' then
             (if startswith (skip_ws r) ''}'' then Some (PDict [], tl (skip_ws r))
              else map_option (\<lambda>(d, t). (PDict d, t)) (json_members float_of n (skip_ws r) []))
           else json_word float_of s))"
| "json_items float_of 0 s = None"
| "json_items float_of (Suc n) s =
     (case json_value float_of n s of
        None \<Rightarrow> None
      | Some (v, t) \<Rightarrow>
          (case skip_ws t of
             [] \<Rightarrow> None
           | c # r \<Rightarrow>
               (if c = CHR '']'' then Some ([v], r)
                else if c = CHR '','' then
                  map_option (\<lambda>(vs, u). (v # vs, u)) (json_items float_of n (skip_ws r))
                else None)))"
| "json_members float_of 0 s acc = None"
| "json_members float_of (Suc n) s acc =
     (if \<not> startswith s [CHR 0x22] then None
      else case json_string (tl s) of
        None \<Rightarrow> None
      | Some (k, t) \<Rightarrow>
          (if \<not> startswith (skip_ws t) '':'' then None
           else case json_value float_of n (skip_ws (tl (skip_ws t))) of
             None \<Rightarrow> None
           | Some (v, u) \<Rightarrow>
               (case skip_ws u of
                  [] \<Rightarrow> None
                | c # r \<Rightarrow>
                    (if c = CHR ''}'' then Some (acc @ [(k, v)], r)
                     else if c = CHR '','' then json_members float_of n (skip_ws r) (acc @ [(k, v)])
                     else None))))"

definition json_error :: py_exc where
  "json_error = ValueError ''JSONDecodeError''"

text \<open>The parser keeps the members of an object as they are written.  \<open>json.loads\<close> makes a
  dictionary of each, in which the last member of a key wins; with the scripts'
  \<open>object_pairs_hook\<close> a key that is written twice raises instead.\<close>

definition json_parse :: "(string \<Rightarrow> pyfloat) \<Rightarrow> string \<Rightarrow> pyval res" where
  [py_defs]: "json_parse float_of s =
     (case json_value float_of (Suc (length s)) (skip_ws s) of
        Some (v, t) \<Rightarrow> if skip_ws t = [] then Inr v else Inl json_error
      | None \<Rightarrow> Inl json_error)"

function dicts_of :: "pyval \<Rightarrow> pyval" where
  "dicts_of (PDict d) = PDict (dupdate [] (map (\<lambda>(k, v). (k, dicts_of v)) d))"
| "dicts_of (PList xs) = PList (map dicts_of xs)"
| "dicts_of PNone = PNone"
| "dicts_of (PBool b) = PBool b"
| "dicts_of (PInt i) = PInt i"
| "dicts_of (PFloat f) = PFloat f"
| "dicts_of (PStr s) = PStr s"
  by pat_completeness auto
termination
  by (relation "measure size")
    (auto simp: size_list_estimation' less_Suc_eq_le dest: size_pair_item size_pair_item')

definition json_loads :: "(string \<Rightarrow> pyfloat) \<Rightarrow> string \<Rightarrow> pyval res" where
  [py_defs]: "json_loads float_of s = bindE (json_parse float_of s) (\<lambda>v. Inr (dicts_of v))"

definition json_loads_unique :: "(string \<Rightarrow> pyfloat) \<Rightarrow> string \<Rightarrow> pyval res" where
  [py_defs]: "json_loads_unique float_of s = bindE (json_parse float_of s) (\<lambda>v.
     if wf_val v then Inr v else Inl (ValueError ''duplicate key''))"

definition json_loads_bytes :: "(string \<Rightarrow> pyfloat) \<Rightarrow> string \<Rightarrow> pyval res" where
  [py_defs]: "json_loads_bytes float_of data =
     (case utf8_decode data of None \<Rightarrow> Inl json_error | Some s \<Rightarrow> json_loads float_of s)"

lemma length_json_str: "length (json_str ascii s) \<le> 6 * length s + 2"
  by (induction s) (simp_all add: json_str_def json_escape_def Let_def)

lemma dupdate_new: "distinct (map fst (acc @ d)) \<Longrightarrow> dupdate acc d = acc @ d"
proof (induction acc d rule: dupdate.induct)
  case (2 d k v e)
  have "dput k v d = d @ [(k, v)]" if "k \<notin> fst ` set d" for d :: pydict
    using that by (induction d) (auto simp: dput_def)
  with 2 show ?case by auto
qed simp

lemma dicts_of_wf: "wf_val v \<Longrightarrow> dicts_of v = v"
proof (induction v rule: dicts_of.induct)
  case (1 d)
  then have "map (\<lambda>(k, v). (k, dicts_of v)) d = d"
    by (intro map_idI) (auto simp: list_all_iff)
  with 1 show ?case by (simp add: dupdate_new)
next
  case (2 xs)
  then show ?case by (auto simp: list_all_iff intro: map_idI)
qed simp_all

lemma json_loads_unique: "json_loads_unique float_of s = Inr v \<Longrightarrow> json_loads float_of s = Inr v \<and> wf_val v"
  by (auto simp: json_loads_unique_def json_loads_def dicts_of_wf split: if_splits)

end
