(* ===== verification/Py_Json_Roundtrip.thy ===== *)
theory Py_Json_Roundtrip
  imports Py_Json
begin

text \<open>
  What \<open>json.dumps\<close> writes, in any of the formats the scripts use, \<open>json.loads\<close> reads back:
  \<open>json_roundtrip\<close>.  \<open>json_ok\<close> describes the values it holds for.
\<close>

section \<open>Numbers\<close>

definition ends_number :: "string \<Rightarrow> bool" where
  "ends_number t \<longleftrightarrow> (case t of [] \<Rightarrow> True | c # _ \<Rightarrow> c \<in> {CHR '','', CHR '']'', CHR ''}'', CHR 0x20, CHR 0x0A})"

lemma ends_number_simps [simp]:
  "ends_number []" "ends_number (CHR '','' # t)" "ends_number (CHR '']'' # t)"
  "ends_number (CHR ''}'' # t)" 
  by (simp_all add: ends_number_def)

lemma ends_number_digit: "ends_number t \<Longrightarrow> takeWhile ascii_digit t = []"
  "ends_number t \<Longrightarrow> dropWhile ascii_digit t = t"
  by (cases t; auto simp: ends_number_def ascii_digit_def)+

lemma span_digits_append:
  assumes "ends_number t"
  shows "takeWhile ascii_digit (s @ t) = takeWhile ascii_digit s"
    and "dropWhile ascii_digit (s @ t) = dropWhile ascii_digit s @ t"
  using ends_number_digit [OF assms] by (induction s) auto

lemma digits_of_append:
  "ends_number t \<Longrightarrow> digits_of (s @ t) = (fst (digits_of s), snd (digits_of s) @ t)"
  by (simp add: digits_of_def span_digits_append)

lemma exp_sign_append:
  "ends_number t \<Longrightarrow> exp_sign (s @ t) = (fst (exp_sign s), snd (exp_sign s) @ t)"
  by (cases s; cases t) (auto simp: exp_sign_def ends_number_def)

lemma json_exp_part_append:
  "ends_number t \<Longrightarrow> json_exp_part (s @ t) = (fst (json_exp_part s), snd (json_exp_part s) @ t)"
  by (cases s; cases t)
    (auto simp: json_exp_part_def exp_sign_append digits_of_append Let_def ends_number_def)

lemma json_frac_part_append:
  "ends_number t \<Longrightarrow> json_frac_part (s @ t) = (fst (json_frac_part s), snd (json_frac_part s) @ t)"
  by (cases s; cases t) (auto simp: json_frac_part_def digits_of_append ends_number_def)

lemma json_int_part_append:
  "ends_number t \<Longrightarrow> json_int_part s = Some (i, r) \<Longrightarrow> json_int_part (s @ t) = Some (i, r @ t)"
  by (cases s) (auto simp: json_int_part_def digits_of_append [of t "c # s" for c s, simplified] split: if_splits)

lemma json_number_append:
  assumes "ends_number t" and "json_number float_of s = Some (v, r)"
  shows "json_number float_of (s @ t) = Some (v, r @ t)"
proof -
  let ?body = "if startswith s ''-'' then tl s else s"
  from assms(2) obtain i u where i: "json_int_part ?body = Some (i, u)"
    by (auto simp: json_number_def Let_def split: option.splits)
  then have "?body \<noteq> []" by (auto simp: json_int_part_def)
  then have s: "s \<noteq> []" by (cases s) (auto simp: startswith_def)
  then have neg: "startswith (s @ t) ''-'' = startswith s ''-''"
    and body: "(if startswith s ''-'' then tl (s @ t) else s @ t) = ?body @ t"
    by (auto simp: startswith_def neq_Nil_conv)
  from assms(2) i show ?thesis
    unfolding json_number_def Let_def neg body json_int_part_append [OF assms(1) i]
    by (simp add: json_frac_part_append [OF assms(1)] json_exp_part_append [OF assms(1)] split: if_splits, blast+)
qed

lemma takeWhile_digits: "list_all ascii_digit s \<Longrightarrow> takeWhile ascii_digit s = s"
  "list_all ascii_digit s \<Longrightarrow> dropWhile ascii_digit s = []"
  by (auto simp: list_all_iff)

lemma str_nat_zero_head: "str_nat n = CHR ''0'' # r \<Longrightarrow> n = 0"
proof (induction n arbitrary: r rule: str_nat.induct)
  case (1 n)
  show ?case
  proof (cases "n < 10")
    case True
    with "1.prems" have "digit_char n = CHR ''0''" by (subst (asm) str_nat.simps) simp
    then have "digit_val (digit_char n) = 0" by (simp add: digit_val_def)
    with True show ?thesis by simp
  next
    case False
    with "1.prems" have "str_nat (n div 10) @ [digit_char (n mod 10)] = CHR ''0'' # r"
      by (subst (asm) str_nat.simps) simp
    then obtain r' where "str_nat (n div 10) = CHR ''0'' # r'"
      by (metis append_eq_Cons_conv str_nat_nonempty)
    with "1.IH" [OF False] have "n div 10 = 0" by blast
    with False show ?thesis by simp
  qed
qed

lemma digit_char_0: "digit_char 0 = CHR ''0''"
  unfolding digit_char_def by code_simp

lemma str_nat_Cons: "\<exists>c r. str_nat n = c # r \<and> ascii_digit c"
  using str_nat_digits [of n] str_nat_nonempty [of n] by (cases "str_nat n") auto

lemma json_int_part_str_nat: "json_int_part (str_nat n) = Some (str_nat n, [])"
proof -
  obtain c r where c: "str_nat n = c # r" "ascii_digit c" using str_nat_Cons by blast
  show ?thesis
  proof (cases "c = CHR ''0''")
    case True
    with c have "n = 0" using str_nat_zero_head by blast
    then show ?thesis by (simp add: json_int_part_def str_nat.simps [of 0] digit_char_0)
  next
    case False
    have "list_all ascii_digit (c # r)" using str_nat_digits [of n] c by simp
    from takeWhile_digits [OF this] False c show ?thesis
      by (simp add: json_int_part_def digits_of_def)
  qed
qed

lemma json_number_str_int: "json_number float_of (str_int i) = Some (PInt i, [])"
proof -
  have minus: "\<not> startswith (str_nat n) ''-''" for n
    using str_nat_Cons [of n] by (auto simp: startswith_def ascii_digit_def)
  show ?thesis
    by (cases "i < 0")
      (simp_all add: str_int_def json_number_def Let_def minus json_int_part_str_nat json_frac_part_def
        json_exp_part_def startswith_def [of "CHR ''-'' # x" for x])
qed

lemma json_word_of_number:
  assumes "json_number float_of s = Some r"
  shows "json_word float_of s = Some r"
proof -
  from assms obtain i u where "json_int_part (if startswith s ''-'' then tl s else s) = Some (i, u)"
    by (auto simp: json_number_def Let_def split: option.splits)
  then have "\<not> startswith s ''null'' \<and> \<not> startswith s ''true'' \<and> \<not> startswith s ''false''"
    by (cases s) (auto simp: json_int_part_def startswith_def ascii_digit_def split: if_splits list.splits)
  with assms show ?thesis by (simp add: json_word_def)
qed

section \<open>Strings\<close>

lemma hex_val_hex_digit: "n < 16 \<Longrightarrow> hex_val (hex_digit n) = Some n"
  by (auto simp: hex_val_def hex_digit_def Let_def)

lemma hex4_byte: "n < 256 \<Longrightarrow> hex4 (CHR ''0'' # CHR ''0'' # hex_digit (n div 16) # hex_digit (n mod 16) # t) = Some n"
proof -
  assume "n < 256"
  then have "n div 16 < 16" by simp
  moreover have "hex_val (CHR ''0'') = Some 0" by (simp add: hex_val_def)
  ultimately show ?thesis by (simp add: hex4_def hex_val_hex_digit)
qed

lemma json_string_escape:
  "json_string (json_escape ascii c @ s) = prepend c (json_string s)"
proof -
  have n: "ord_of c < 256"
    using nat_of_char_less_256 [of c] by (simp add: of_char_def)
  have c: "c = d \<longleftrightarrow> ord_of c = ord_of d" for d by simp
  show ?thesis
  proof (cases "ord_of c \<in> {34, 92, 10, 13, 9, 12, 8}")
    case True
    then have "c \<in> {CHR 0x22, CHR 0x5C, CHR 0x0A, CHR 0x0D, CHR 0x09, CHR 0x0C, CHR 0x08}"
      by (auto simp: c)
    then show ?thesis
      by (elim insertE emptyE; simp add: json_escape_def json_unescape_def prepend_def)
  next
    case False
    then have ne: "c \<noteq> CHR 0x22" "c \<noteq> CHR 0x5C"
      and plain: "ord_of c \<notin> {34, 92, 10, 13, 9, 12, 8}"
      by auto
    show ?thesis
    proof (cases "ord_of c < 32 \<or> (ascii \<and> 127 \<le> ord_of c)")
      case True
      with plain have "json_escape ascii c = CHR 0x5C # CHR ''u'' # CHR ''0'' # CHR ''0''
          # [hex_digit (ord_of c div 16), hex_digit (ord_of c mod 16)]"
        by (simp add: json_escape_def Let_def)
      then show ?thesis using hex4_byte [OF n, of s] n by simp
    next
      case False
      with plain have "json_escape ascii c = [c]" by (simp add: json_escape_def Let_def)
      with ne False show ?thesis by simp
    qed
  qed
qed

lemma json_string_str:
  "json_string (concat (map (json_escape ascii) s) @ CHR 0x22 # t) = Some (s, t)"
  by (induction s) (simp_all add: json_string_escape prepend_def)

section \<open>Values\<close>

text \<open>The values a JSON text can hold: unique keys, and finite floats that the reader of
  float literals gives back from their spelling.\<close>

definition float_literal :: "(string \<Rightarrow> pyfloat) \<Rightarrow> string \<Rightarrow> rat \<Rightarrow> bool" where
  "float_literal float_of r q \<longleftrightarrow> json_number float_of r = Some (PFloat (FFin r q), [])"

function json_ok :: "(string \<Rightarrow> pyfloat) \<Rightarrow> pyval \<Rightarrow> bool" where
  "json_ok float_of (PFloat f) = (case f of FFin r q \<Rightarrow> float_literal float_of r q | _ \<Rightarrow> False)"
| "json_ok float_of (PList xs) = list_all (json_ok float_of) xs"
| "json_ok float_of (PDict d) = (distinct (map fst d) \<and> list_all (\<lambda>(k, v). json_ok float_of v) d)"
| "json_ok float_of PNone = True"
| "json_ok float_of (PBool b) = True"
| "json_ok float_of (PInt i) = True"
| "json_ok float_of (PStr s) = True"
  by pat_completeness auto
termination
  by (relation "measure (size \<circ> snd)")
    (auto simp: size_list_estimation' less_Suc_eq_le dest: size_pair_item size_pair_item')

text \<open>The separators: a comma or colon, and at most white space.\<close>

definition format_ok :: "json_format \<Rightarrow> bool" where
  "format_ok fmt \<longleftrightarrow>
     (\<exists>w. fmt_item_sep fmt = CHR '','' # w \<and> list_all json_ws w) \<and>
     (\<exists>w. fmt_key_sep fmt = CHR '':'' # w \<and> list_all json_ws w)"

lemma json_formats_ok [simp]:
  "format_ok json_default" "format_ok json_compact" "format_ok json_compact_unicode"
  "format_ok json_unicode"
  by (simp_all add: format_ok_def json_default_def json_compact_def json_compact_unicode_def
      json_unicode_def json_ws_def)

lemma skip_ws_append: "list_all json_ws w \<Longrightarrow> skip_ws (w @ s) = skip_ws s"
  by (induction w) (simp_all add: skip_ws_def)

definition starts_value :: "string \<Rightarrow> bool" where
  "starts_value s \<longleftrightarrow> (\<exists>c r. s = c # r \<and> \<not> json_ws c \<and> c \<noteq> CHR '']'' \<and> c \<noteq> CHR ''}'')"

lemma starts_value_append: "starts_value s \<Longrightarrow> starts_value (s @ t)"
  by (auto simp: starts_value_def)

lemma starts_value_skip: "starts_value s \<Longrightarrow> skip_ws (s @ t) = s @ t"
  by (auto simp: starts_value_def skip_ws_def)

lemma starts_value_number: "json_number float_of s = Some r \<Longrightarrow> starts_value s"
  by (cases s) (auto simp: json_number_def json_int_part_def Let_def starts_value_def startswith_def
      ascii_digit_def json_ws_def split: if_splits option.splits)

lemma starts_value_enc: "json_ok float_of v \<Longrightarrow> starts_value (json_enc fmt v)"
proof (cases v)
  case (PInt i)
  then show ?thesis using starts_value_number [OF json_number_str_int] by simp
next
  case (PFloat f)
  assume "json_ok float_of v"
  with PFloat show ?thesis
    by (cases f) (auto simp: float_literal_def json_float_def dest: starts_value_number)
qed (auto simp: starts_value_def json_ws_def json_str_def)

lemma json_value_number:
  assumes "json_number float_of s = Some (v, [])" and "ends_number t" and "s \<noteq> []"
  shows "json_value float_of (Suc n) (s @ t) = Some (v, t)"
proof -
  from json_number_append [OF assms(2,1)] have num: "json_number float_of (s @ t) = Some (v, t)"
    by simp
  from assms(3) obtain c r where c: "s @ t = c # r" by (cases s) auto
  from num have "c \<noteq> CHR 0x22 \<and> c \<noteq> CHR ''['' \<and> c \<noteq> CHR ''{''"
    unfolding c by (auto simp: json_number_def json_int_part_def startswith_def ascii_digit_def
        split: if_splits option.splits)
  then show ?thesis
    unfolding c using json_word_of_number [OF num [unfolded c]] by simp
qed

lemma json_value_word:
  "json_value float_of (Suc n) (''null'' @ t) = Some (PNone, t)"
  "json_value float_of (Suc n) (''true'' @ t) = Some (PBool True, t)"
  "json_value float_of (Suc n) (''false'' @ t) = Some (PBool False, t)"
  by (simp_all add: json_word_def startswith_def)

definition reads :: "(string \<Rightarrow> pyfloat) \<Rightarrow> json_format \<Rightarrow> pyval \<Rightarrow> bool" where
  "reads float_of fmt v \<longleftrightarrow> (\<forall>n t. ends_number t \<longrightarrow> length (json_enc fmt v) \<le> n \<longrightarrow>
     json_value float_of n (json_enc fmt v @ t) = Some (v, t))"

lemma readsD:
  "reads float_of fmt v \<Longrightarrow> ends_number t \<Longrightarrow> length (json_enc fmt v) \<le> n \<Longrightarrow>
     json_value float_of n (json_enc fmt v @ t) = Some (v, t)"
  by (simp add: reads_def)

lemma skip_ws_simps [simp]:
  "skip_ws (CHR '','' # t) = CHR '','' # t" "skip_ws (CHR '']'' # t) = CHR '']'' # t"
  "skip_ws (CHR ''}'' # t) = CHR ''}'' # t" "skip_ws (CHR '':'' # t) = CHR '':'' # t"
  "skip_ws (CHR 0x22 # t) = CHR 0x22 # t"
  by (simp_all add: skip_ws_def json_ws_def)

lemma starts_value_join:
  "starts_value (f x) \<Longrightarrow> starts_value (py_join sep (map f (x # xs)))"
  by (cases xs) (simp_all add: starts_value_append)

lemma json_items_enc:
  assumes fmt: "format_ok fmt" and "xs \<noteq> []"
    and "\<forall>x \<in> set xs. reads float_of fmt x \<and> starts_value (json_enc fmt x)"
    and "length (py_join (fmt_item_sep fmt) (map (json_enc fmt) xs)) < n"
  shows "json_items float_of n (py_join (fmt_item_sep fmt) (map (json_enc fmt) xs) @ CHR '']'' # t) = Some (xs, t)"
  using assms(2-)
proof (induction xs arbitrary: n)
  case (Cons x xs)
  then obtain m where n: "n = Suc m" by (cases n) auto
  from Cons.prems have x: "reads float_of fmt x" by simp
  show ?case
  proof (cases xs)
    case Nil
    with Cons.prems n show ?thesis by (simp add: readsD [OF x])
  next
    case (Cons y ys)
    let ?rest = "py_join (fmt_item_sep fmt) (map (json_enc fmt) xs)"
    from fmt obtain w where w: "fmt_item_sep fmt = CHR '','' # w" "list_all json_ws w"
      by (auto simp: format_ok_def)
    have join: "py_join (fmt_item_sep fmt) (map (json_enc fmt) (x # xs)) = json_enc fmt x @ CHR '','' # w @ ?rest"
      by (simp add: Cons w)
    have len: "length (json_enc fmt x) \<le> m" "length ?rest < m"
      using Cons.prems(3) unfolding n join by simp_all
    have "starts_value ?rest"
      unfolding Cons using Cons.prems(2) Cons by (intro starts_value_join) simp
    then have skip: "skip_ws (w @ ?rest @ CHR '']'' # t) = ?rest @ CHR '']'' # t"
      by (simp add: skip_ws_append w starts_value_skip)
    have "json_items float_of m (?rest @ CHR '']'' # t) = Some (xs, t)"
      using Cons.prems len by (intro Cons.IH) (auto simp: Cons)
    then show ?thesis
      unfolding join n by (simp add: readsD [OF x _ len(1)] skip)
  qed
qed simp

lemma json_members_enc:
  assumes fmt: "format_ok fmt" and "kvs \<noteq> []"
    and "\<forall>(k, v) \<in> set kvs. reads float_of fmt v \<and> starts_value (json_enc fmt v)"
    and "distinct (map fst (acc @ kvs))"
    and "length (py_join (fmt_item_sep fmt) (map (\<lambda>(k, v). json_str (fmt_ascii fmt) k @ fmt_key_sep fmt
           @ json_enc fmt v) kvs)) < n"
  shows "json_members float_of n (py_join (fmt_item_sep fmt) (map (\<lambda>(k, v). json_str (fmt_ascii fmt) k
           @ fmt_key_sep fmt @ json_enc fmt v) kvs) @ CHR ''}'' # t) acc = Some (acc @ kvs, t)"
  using assms(2-)
proof (induction kvs arbitrary: n acc)
  case (Cons kv kvs)
  let ?f = "\<lambda>(k, v). json_str (fmt_ascii fmt) k @ fmt_key_sep fmt @ json_enc fmt v"
  obtain k v where kv: "kv = (k, v)" by force
  from Cons.prems obtain m where n: "n = Suc m" by (cases n) auto
  from Cons.prems kv have v: "reads float_of fmt v" "starts_value (json_enc fmt v)" by auto
  from fmt obtain w u where w: "fmt_item_sep fmt = CHR '','' # w" "list_all json_ws w"
    and u: "fmt_key_sep fmt = CHR '':'' # u" "list_all json_ws u"
    by (auto simp: format_ok_def)
  have skipv: "skip_ws (u @ json_enc fmt v @ s) = json_enc fmt v @ s" for s
    by (simp add: skip_ws_append u starts_value_skip v)
  have head: "json_members float_of (Suc m) (?f (k, v) @ s) acc =
      (case json_value float_of m (json_enc fmt v @ s) of None \<Rightarrow> None
       | Some (v, u) \<Rightarrow> (case skip_ws u of [] \<Rightarrow> None | c # r \<Rightarrow>
           (if c = CHR ''}'' then Some (acc @ [(k, v)], r)
            else if c = CHR '','' then json_members float_of m (skip_ws r) (acc @ [(k, v)]) else None)))" for s
    by (simp add: json_str_def startswith_def json_string_str u skipv)
  show ?case
  proof (cases kvs)
    case Nil
    with Cons.prems n kv show ?thesis by (simp add: head [simplified] readsD [OF v(1)])
  next
    case rest: (Cons y ys)
    let ?rest = "py_join (fmt_item_sep fmt) (map ?f kvs)"
    have join: "py_join (fmt_item_sep fmt) (map ?f (kv # kvs)) = ?f (k, v) @ CHR '','' # w @ ?rest"
      by (simp add: rest w kv)
    have len: "length (json_enc fmt v) \<le> m" "length ?rest < m"
      using Cons.prems(4) unfolding n join by simp_all
    have "starts_value ?rest"
      unfolding rest by (intro starts_value_join) (cases y, simp add: starts_value_def json_str_def json_ws_def)
    then have skip: "skip_ws (w @ ?rest @ CHR ''}'' # t) = ?rest @ CHR ''}'' # t"
      by (simp add: skip_ws_append w starts_value_skip)
    have "json_members float_of m (?rest @ CHR ''}'' # t) (acc @ [(k, v)]) = Some ((acc @ [(k, v)]) @ kvs, t)"
      using Cons.prems len by (intro Cons.IH) (auto simp: rest kv)
    then show ?thesis
      unfolding join n append_assoc head by (simp add: readsD [OF v(1) _ len(1)] skip kv)
  qed
qed simp

lemma enc_nonempty: "json_ok float_of v \<Longrightarrow> json_enc fmt v \<noteq> []"
  by (auto dest!: starts_value_enc [of _ _ fmt] simp: starts_value_def)

lemma json_value_number_fuel:
  assumes "json_number float_of s = Some (v, [])" and "ends_number t" and "length s \<le> n"
  shows "json_value float_of n (s @ t) = Some (v, t)"
proof -
  have "s \<noteq> []" using starts_value_number [OF assms(1)] by (auto simp: starts_value_def)
  then obtain m where "n = Suc m" using assms(3) by (cases n) auto
  with json_value_number [OF assms(1,2) \<open>s \<noteq> []\<close>] show ?thesis by simp
qed

lemma json_value_enc: "format_ok fmt \<Longrightarrow> json_ok float_of v \<Longrightarrow> reads float_of fmt v"
proof (induction v)
  case (PList xs)
  show ?case
    unfolding reads_def
  proof (intro allI impI)
    fix n t
    assume len: "length (json_enc fmt (PList xs)) \<le> n"
    then obtain m where m: "n = Suc m" by (cases n) auto
    show "json_value float_of n (json_enc fmt (PList xs) @ t) = Some (PList xs, t)"
    proof (cases "xs = []")
      case True
      then show ?thesis by (simp add: m startswith_def)
    next
      case False
      let ?body = "py_join (fmt_item_sep fmt) (map (json_enc fmt) xs)"
      have all: "\<forall>x \<in> set xs. reads float_of fmt x \<and> starts_value (json_enc fmt x)"
        using PList by (auto simp: list_all_iff intro: starts_value_enc)
      then have "starts_value ?body"
        using False by (cases xs) (auto intro: starts_value_join [of "json_enc fmt", simplified])
      then have body: "skip_ws (?body @ s) = ?body @ s" "\<not> startswith (?body @ s) '']''" for s
        using starts_value_skip by (auto simp: starts_value_def startswith_def)
      have "json_items float_of m (?body @ CHR '']'' # t) = Some (xs, t)"
        using len m by (intro json_items_enc PList.prems(1) False all) simp
      then show ?thesis by (simp add: m body)
    qed
  qed
next
  case (PDict kvs)
  show ?case
    unfolding reads_def
  proof (intro allI impI)
    fix n t
    let ?f = "\<lambda>(k, v). json_str (fmt_ascii fmt) k @ fmt_key_sep fmt @ json_enc fmt v"
    assume len: "length (json_enc fmt (PDict kvs)) \<le> n"
    then obtain m where m: "n = Suc m" by (cases n) auto
    show "json_value float_of n (json_enc fmt (PDict kvs) @ t) = Some (PDict kvs, t)"
    proof (cases "kvs = []")
      case True
      then show ?thesis by (simp add: m startswith_def)
    next
      case False
      let ?body = "py_join (fmt_item_sep fmt) (map ?f kvs)"
      have all: "\<forall>(k, v) \<in> set kvs. reads float_of fmt v \<and> starts_value (json_enc fmt v)"
        using PDict by (fastforce simp: list_all_iff intro: starts_value_enc)
      have quote: "starts_value (?f x) \<and> \<not> startswith (?f x) ''}''" for x
        by (cases x) (simp add: starts_value_def json_str_def json_ws_def startswith_def)
      obtain x xs where x: "kvs = x # xs" using False by (cases kvs) auto
      have "starts_value ?body"
        unfolding x using quote by (intro starts_value_join) blast
      then have body: "skip_ws (?body @ s) = ?body @ s" "\<not> startswith (?body @ s) ''}''" for s
        using starts_value_skip by (auto simp: starts_value_def startswith_def)
      have "json_members float_of m (?body @ CHR ''}'' # t) [] = Some ([] @ kvs, t)"
        using len m PDict.prems(2) by (intro json_members_enc PDict.prems(1) False all) simp_all
      then show ?thesis by (simp add: m body)
    qed
  qed
next
  case (PInt i)
  show ?case
    using json_value_number_fuel [OF json_number_str_int] by (simp add: reads_def)
next
  case (PFloat f)
  then show ?case
    by (cases f) (auto simp: reads_def json_float_def float_literal_def intro: json_value_number_fuel)
next
  case PNone
  show ?case unfolding reads_def
    using json_value_word(1) by (auto simp: Suc_le_D dest!: Suc_le_D)
next
  case (PBool b)
  show ?case unfolding reads_def
    using json_value_word(2,3) by (cases b) (auto dest!: Suc_le_D)
next
  case (PStr s)
  show ?case unfolding reads_def
    by (auto simp: json_str_def json_string_str dest!: Suc_le_D)
qed

text \<open>What is written is read back.\<close>

lemma json_ok_wf: "json_ok float_of v \<Longrightarrow> wf_val v"
  by (induction v rule: wf_val.induct) (auto simp: list_all_iff)

lemma json_parse_enc:
  assumes "format_ok fmt" and "json_ok float_of v"
  shows "json_parse float_of (json_enc fmt v) = Inr v"
proof -
  have "json_value float_of (Suc (length (json_enc fmt v))) (json_enc fmt v @ []) = Some (v, [])"
    using json_value_enc [OF assms] by (intro readsD) auto
  moreover have "skip_ws (json_enc fmt v @ []) = json_enc fmt v @ []"
    by (intro starts_value_skip starts_value_enc [OF assms(2)])
  ultimately show ?thesis by (simp add: json_parse_def skip_ws_def)
qed

theorem json_roundtrip:
  assumes "format_ok fmt" and "json_ok float_of v"
  shows "json_loads float_of (json_enc fmt v) = Inr v"
  using json_parse_enc [OF assms] json_ok_wf [OF assms(2)] by (simp add: json_loads_def dicts_of_wf)

lemma json_roundtrip_unique:
  assumes "format_ok fmt" and "json_ok float_of v"
  shows "json_loads_unique float_of (json_enc fmt v) = Inr v"
  using json_parse_enc [OF assms] json_ok_wf [OF assms(2)] by (simp add: json_loads_unique_def)

end
