(* ===== verification/Py_Regex.thy ===== *)
theory Py_Regex
  imports Py_Base
begin

text \<open>
  The part of Python's \<open>re\<close> the scripts use, as a backtracking matcher.  A matcher state
  holds the text before the position (reversed), the text after it, and the captured
  groups; \<open>rx_run\<close> lists every way to match, in the order the engine tries them, so the
  first one is the match Python returns.  Bodies of repetitions consume at least one
  character in every pattern of the scripts, so \<open>length\<close> iterations are enough fuel.
  \<open>rep_run_iff\<close> reads a repetition declaratively, as an iterated relation.
\<close>

type_synonym rx_state = "string \<times> string \<times> (nat \<times> string) list"

datatype rx =
    Eps
  | Cls "char \<Rightarrow> bool"
  | Cat rx rx
  | Alt rx rx
  | Rep rx nat "nat option"
  | Grp nat rx
  | Ref nat
  | StartOfText
  | EndOfText
  | WordEdge

definition lit_char :: "char \<Rightarrow> rx" where
  [py_defs]: "lit_char c = Cls (\<lambda>x. x = c)"

fun rseq :: "rx list \<Rightarrow> rx" where
  "rseq [] = Eps"
| "rseq [r] = r"
| "rseq (r # q # rs) = Cat r (rseq (q # rs))"

fun ralt :: "rx list \<Rightarrow> rx" where
  "ralt [] = Cls (\<lambda>_. False)"
| "ralt [r] = r"
| "ralt (r # q # rs) = Alt r (ralt (q # rs))"

definition rlit :: "string \<Rightarrow> rx" where
  [py_defs]: "rlit s = rseq (map lit_char s)"

definition rplus :: "rx \<Rightarrow> rx" where [py_defs]: "rplus r = Rep r 1 None"
definition rstar :: "rx \<Rightarrow> rx" where [py_defs]: "rstar r = Rep r 0 None"
definition ropt :: "rx \<Rightarrow> rx" where [py_defs]: "ropt r = Rep r 0 (Some 1)"
definition rtimes :: "nat \<Rightarrow> rx \<Rightarrow> rx" where [py_defs]: "rtimes n r = Rep r n (Some n)"

text \<open>Word characters; \<open>WordEdge\<close> is the zero-width word boundary.\<close>

definition word_char :: "char \<Rightarrow> bool" where
  [py_defs]: "word_char c \<longleftrightarrow> ascii_alnum c \<or> c = CHR ''_''
     \<or> (let n = ord_of c in n = 170 \<or> n = 178 \<or> n = 179 \<or> n = 181 \<or> n = 185 \<or> n = 186
          \<or> (188 \<le> n \<and> n \<le> 190) \<or> (192 \<le> n \<and> n \<noteq> 215 \<and> n \<noteq> 247))"

definition word_at :: "string \<Rightarrow> bool" where
  [py_defs]: "word_at s = (case s of [] \<Rightarrow> False | c # _ \<Rightarrow> word_char c)"

fun rep_run :: "(rx_state \<Rightarrow> rx_state list) \<Rightarrow> nat \<Rightarrow> nat \<Rightarrow> nat option \<Rightarrow> rx_state \<Rightarrow> rx_state list" where
  "rep_run f 0 lo hi st = (if lo = 0 then [st] else [])"
| "rep_run f (Suc fuel) lo hi st =
     (if hi = Some 0 then []
      else concat (map (rep_run f fuel (lo - 1) (map_option (\<lambda>h. h - 1) hi)) (f st)))
     @ (if lo = 0 then [st] else [])"

fun rx_run :: "rx \<Rightarrow> rx_state \<Rightarrow> rx_state list" where
  "rx_run Eps st = [st]"
| "rx_run (Cls P) (b, s, caps) =
     (case s of [] \<Rightarrow> [] | c # t \<Rightarrow> if P c then [(c # b, t, caps)] else [])"
| "rx_run (Cat r q) st = concat (map (rx_run q) (rx_run r st))"
| "rx_run (Alt r q) st = rx_run r st @ rx_run q st"
| "rx_run (Rep r lo hi) (b, s, caps) = rep_run (rx_run r) (lo + length s) lo hi (b, s, caps)"
| "rx_run (Grp i r) (b, s, caps) =
     map (\<lambda>(b', s', caps'). (b', s', (i, take (length s - length s') s) # caps'))
       (rx_run r (b, s, caps))"
| "rx_run (Ref i) (b, s, caps) =
     (case map_of caps i of None \<Rightarrow> []
      | Some t \<Rightarrow> if take (length t) s = t then [(rev t @ b, drop (length t) s, caps)] else [])"
| "rx_run StartOfText (b, s, caps) = (if b = [] then [(b, s, caps)] else [])"
| "rx_run EndOfText (b, s, caps) = (if s = [] \<or> s = [CHR 0x0A] then [(b, s, caps)] else [])"
| "rx_run WordEdge (b, s, caps) = (if word_at b \<noteq> word_at s then [(b, s, caps)] else [])"

text \<open>\<open>match\<close>, \<open>fullmatch\<close> and \<open>search\<close>; the result is the state after the match.\<close>

definition re_match :: "rx \<Rightarrow> string \<Rightarrow> rx_state option" where
  [py_defs]: "re_match r s = (case rx_run r ([], s, []) of [] \<Rightarrow> None | st # _ \<Rightarrow> Some st)"

definition re_fullmatch :: "rx \<Rightarrow> string \<Rightarrow> rx_state option" where
  [py_defs]: "re_fullmatch r s = find (\<lambda>(b, t, caps). t = []) (rx_run r ([], s, []))"

text \<open>A search gives the matched text and the captures of the first position that matches.\<close>

fun search_from :: "rx \<Rightarrow> string \<Rightarrow> string \<Rightarrow> (string \<times> (nat \<times> string) list) option" where
  "search_from r b s =
     (case rx_run r (b, s, []) of
        (b', t, caps) # _ \<Rightarrow> Some (take (length s - length t) s, caps)
      | [] \<Rightarrow> (case s of [] \<Rightarrow> None | c # s' \<Rightarrow> search_from r (c # b) s'))"

declare search_from.simps [simp del]

definition re_search :: "rx \<Rightarrow> string \<Rightarrow> (string \<times> (nat \<times> string) list) option" where
  [py_defs]: "re_search r s = search_from r [] s"

definition group :: "(nat \<times> string) list \<Rightarrow> nat \<Rightarrow> string" where
  [py_defs]: "group caps i = (case map_of caps i of None \<Rightarrow> [] | Some t \<Rightarrow> t)"

text \<open>All matches from left to right without overlap, each with the text before it since the last
  one; no pattern that is searched this way matches the empty string.  The fuel is the length.\<close>

fun scan_all :: "nat \<Rightarrow> rx \<Rightarrow> string \<Rightarrow> string \<Rightarrow> string \<Rightarrow> (string \<times> string \<times> (nat \<times> string) list) list \<times> string" where
  "scan_all 0 r skipped b s = ([], rev skipped @ s)"
| "scan_all (Suc n) r skipped b s =
     (case rx_run r (b, s, []) of
        (b', t, caps) # _ \<Rightarrow>
          (let rest = scan_all n r [] b' t
           in ((rev skipped, take (length s - length t) s, caps) # fst rest, snd rest))
      | [] \<Rightarrow> (case s of [] \<Rightarrow> ([], rev skipped) | c # s' \<Rightarrow> scan_all n r (c # skipped) (c # b) s'))"

definition re_scan :: "rx \<Rightarrow> string \<Rightarrow> (string \<times> string \<times> (nat \<times> string) list) list \<times> string" where
  [py_defs]: "re_scan r s = scan_all (Suc (length s)) r [] [] s"

text \<open>\<open>findall\<close> of a pattern with one group, and \<open>sub\<close> with a function of the match.\<close>

definition re_findall :: "rx \<Rightarrow> string \<Rightarrow> string list" where
  [py_defs]: "re_findall r s = map (\<lambda>(before, m, caps). group caps 1) (fst (re_scan r s))"

definition re_sub :: "rx \<Rightarrow> ((nat \<times> string) list \<Rightarrow> string) \<Rightarrow> string \<Rightarrow> string" where
  [py_defs]: "re_sub r f s =
     (let scan = re_scan r s
      in concat (map (\<lambda>(before, m, caps). before @ f caps) (fst scan)) @ snd scan)"

section \<open>The declarative reading\<close>

text \<open>\<open>iter n R\<close> relates states connected by \<open>n\<close> steps of \<open>R\<close>.\<close>

inductive iter :: "('s \<Rightarrow> 's \<Rightarrow> bool) \<Rightarrow> nat \<Rightarrow> 's \<Rightarrow> 's \<Rightarrow> bool" for R where
  iter_0: "iter R 0 st st"
| iter_Suc: "R st st1 \<Longrightarrow> iter R n st1 st2 \<Longrightarrow> iter R (Suc n) st st2"

inductive_cases iter_0E: "iter R 0 st st'"
inductive_cases iter_SucE: "iter R (Suc n) st st'"

lemma iter_0_iff [simp]: "iter R 0 st st' \<longleftrightarrow> st' = st"
  by (auto elim: iter_0E intro: iter_0)

lemma iter_Suc_iff: "iter R (Suc n) st st' \<longleftrightarrow> (\<exists>st1. R st st1 \<and> iter R n st1 st')"
  by (auto elim: iter_SucE intro: iter_Suc)

text \<open>An upper bound, which may be absent.\<close>

definition at_most :: "nat option \<Rightarrow> nat \<Rightarrow> bool" where
  "at_most hi n \<longleftrightarrow> (case hi of None \<Rightarrow> True | Some h \<Rightarrow> n \<le> h)"

lemma at_most_simps [simp]: "at_most None n" "at_most (Some h) n \<longleftrightarrow> n \<le> h"
  by (simp_all add: at_most_def)

lemma at_most_Suc: "at_most hi (Suc n) \<longleftrightarrow> hi \<noteq> Some 0 \<and> at_most (map_option (\<lambda>h. h - 1) hi) n"
  by (cases hi) auto

lemma at_most_0 [simp]: "at_most hi 0"
  by (cases hi) auto

lemma rep_run_iff:
  "st' \<in> set (rep_run f fuel lo hi st) \<longleftrightarrow>
     (\<exists>n. iter (\<lambda>s t. t \<in> set (f s)) n st st' \<and> n \<le> fuel \<and> lo \<le> n \<and> at_most hi n)"
proof (induction fuel arbitrary: lo hi st)
  case (Suc fuel)
  have split: "(\<exists>n. P n) \<longleftrightarrow> P 0 \<or> (\<exists>n. P (Suc n))" for P :: "nat \<Rightarrow> bool"
    by (metis not0_implies_Suc)
  have pred: "lo \<le> Suc n \<longleftrightarrow> lo - 1 \<le> n" for n by arith
  have "st' \<in> set (rep_run f (Suc fuel) lo hi st) \<longleftrightarrow> (lo = 0 \<and> st' = st) \<or>
      (hi \<noteq> Some 0 \<and> (\<exists>st1 \<in> set (f st). \<exists>n. iter (\<lambda>s t. t \<in> set (f s)) n st1 st' \<and> n \<le> fuel
          \<and> lo - 1 \<le> n \<and> at_most (map_option (\<lambda>h. h - 1) hi) n))"
    by (auto simp: Suc.IH)
  also have "\<dots> \<longleftrightarrow> (\<exists>n. iter (\<lambda>s t. t \<in> set (f s)) n st st' \<and> n \<le> Suc fuel \<and> lo \<le> n \<and> at_most hi n)"
  proof -
    let ?R = "\<lambda>n. iter (\<lambda>s t. t \<in> set (f s)) n st st' \<and> n \<le> Suc fuel \<and> lo \<le> n \<and> at_most hi n"
    have "?R 0 \<longleftrightarrow> lo = 0 \<and> st' = st" by auto
    moreover have "(\<exists>n. ?R (Suc n)) \<longleftrightarrow> hi \<noteq> Some 0 \<and>
        (\<exists>st1 \<in> set (f st). \<exists>n. iter (\<lambda>s t. t \<in> set (f s)) n st1 st' \<and> n \<le> fuel
          \<and> lo - 1 \<le> n \<and> at_most (map_option (\<lambda>h. h - 1) hi) n)"
      unfolding iter_Suc_iff at_most_Suc pred Suc_le_mono by blast
    ultimately show ?thesis using split [of ?R] by argo
  qed
  finally show ?case .
qed simp

section \<open>Repetitions of a character class\<close>

lemma iter_Cls:
  "iter (\<lambda>st st'. st' \<in> set (rx_run (Cls P) st)) n (b, s, caps) st' \<longleftrightarrow>
     n \<le> length s \<and> list_all P (take n s) \<and> st' = (rev (take n s) @ b, drop n s, caps)"
proof (induction n arbitrary: b s)
  case (Suc n)
  then show ?case by (cases s) (auto simp: iter_Suc_iff)
qed auto

lemma rx_run_Rep_Cls:
  "st' \<in> set (rx_run (Rep (Cls P) lo hi) (b, s, caps)) \<longleftrightarrow>
     (\<exists>n. lo \<le> n \<and> at_most hi n \<and> n \<le> length s
        \<and> list_all P (take n s) \<and> st' = (rev (take n s) @ b, drop n s, caps))"
  by (auto simp: rep_run_iff iter_Cls)

lemma find_Some_iff_ex: "find P xs \<noteq> None \<longleftrightarrow> (\<exists>x \<in> set xs. P x)"
  by (auto simp: find_None_iff)

lemma re_fullmatch_iff:
  "re_fullmatch r s \<noteq> None \<longleftrightarrow> (\<exists>b caps. (b, [], caps) \<in> set (rx_run r ([], s, [])))"
  unfolding re_fullmatch_def find_Some_iff_ex by (force simp: case_prod_beta)

lemma fullmatch_Rep_Cls:
  "re_fullmatch (Rep (Cls P) lo hi) s \<noteq> None \<longleftrightarrow>
     lo \<le> length s \<and> at_most hi (length s) \<and> list_all P s"
  unfolding re_fullmatch_iff rx_run_Rep_Cls by auto

lemma fullmatch_rtimes_Cls:
  "re_fullmatch (rtimes n (Cls P)) s \<noteq> None \<longleftrightarrow> length s = n \<and> list_all P s"
  unfolding rtimes_def fullmatch_Rep_Cls by auto

lemma fullmatch_rplus_Cls:
  "re_fullmatch (rplus (Cls P)) s \<noteq> None \<longleftrightarrow> s \<noteq> [] \<and> list_all P s"
  unfolding rplus_def fullmatch_Rep_Cls by (auto simp: Suc_le_eq)

end
