(* ===== verification/Atomic_File.thy ===== *)
theory Atomic_File
  imports Py_Base
begin

text \<open>
  The replace-a-file protocol the collectors share (\<open>save_state\<close> in \<open>nas_smart.py\<close>,
  \<open>atomic_save\<close> in \<open>nas_file_logs_collector.py\<close>): create a temporary file beside the
  target, write and sync it, rename it over the target, sync the directory; on an
  exception the temporary file is removed.

  A file is its contents and whether they have reached the disk; \<open>fs_now\<close> is what
  the running system reads, \<open>fs_disk\<close> the directory as it was last synced.  After a power loss
  every name holds the entry of one of the two, and contents that were not synced may be anything
  (\<open>after_crash\<close>).  The locale \<open>durable_store\<close> is what a client may rely on.
\<close>

section \<open>Files\<close>

type_synonym content = "string \<times> bool"

record fs =
  fs_now :: "string \<Rightarrow> content option"
  fs_disk :: "string \<Rightarrow> content option"
  fs_symlinks :: "string list"

definition read_file :: "fs \<Rightarrow> string \<Rightarrow> string option" where
  [py_defs]: "read_file f path = map_option fst (fs_now f path)"

definition put_file :: "string \<Rightarrow> content option \<Rightarrow> fs \<Rightarrow> fs" where
  [py_defs]: "put_file path c f = f\<lparr>fs_now := (fs_now f)(path := c)\<rparr>"

text \<open>The operations of the protocol, in the order of the code, and the unlink of the
  \<open>finally\<close> clause.  \<open>io_ok\<close> says which of them succeed, \<open>io_written\<close> how much of the
  data a failing write leaves, \<open>io_temp\<close> the name of the temporary file.\<close>

datatype save_op =
  MakeDir | MakeTemp | SetMode | WriteData | FlushData | SyncFile | ReplaceFile | OpenDir | SyncDir
  | RemoveTemp

record save_io =
  io_ok :: "save_op \<Rightarrow> bool"
  io_written :: nat
  io_temp :: string

fun op_effect :: "save_io \<Rightarrow> string \<Rightarrow> string \<Rightarrow> save_op \<Rightarrow> fs \<Rightarrow> fs" where
  "op_effect io path data MakeTemp f = put_file (io_temp io) (Some ([], False)) f"
| "op_effect io path data WriteData f = put_file (io_temp io) (Some (data, False)) f"
| "op_effect io path data SyncFile f =
     put_file (io_temp io) (map_option (\<lambda>(c, s). (c, True)) (fs_now f (io_temp io))) f"
| "op_effect io path data ReplaceFile f =
     put_file (io_temp io) None (put_file path (fs_now f (io_temp io)) f)"
| "op_effect io path data SyncDir f = f\<lparr>fs_disk := fs_now f\<rparr>"
| "op_effect io path data RemoveTemp f = put_file (io_temp io) None f"
| "op_effect io path data op f = f"

definition op_fault :: "save_io \<Rightarrow> string \<Rightarrow> save_op \<Rightarrow> fs \<Rightarrow> fs" where
  [py_defs]: "op_fault io data op f =
     (if op = WriteData then put_file (io_temp io) (Some (take (io_written io) data, False)) f else f)"

definition SAVE_OPS :: "save_op list" where
  [py_defs]: "SAVE_OPS = [MakeDir, MakeTemp, SetMode, WriteData, FlushData, SyncFile, ReplaceFile, OpenDir, SyncDir]"

text \<open>\<open>temporary\<close> is set between the creation of the temporary file and the rename.\<close>

definition temp_after :: "save_op \<Rightarrow> bool \<Rightarrow> bool" where
  [py_defs]: "temp_after op temporary =
     (if op = MakeTemp then True else if op = ReplaceFile then False else temporary)"

definition cleanup :: "save_io \<Rightarrow> string \<Rightarrow> string \<Rightarrow> bool \<Rightarrow> fs \<Rightarrow> fs" where
  [py_defs]: "cleanup io path data temporary f =
     (if temporary \<and> io_ok io RemoveTemp then op_effect io path data RemoveTemp f else f)"

fun run_ops :: "save_io \<Rightarrow> string \<Rightarrow> string \<Rightarrow> save_op list \<Rightarrow> bool \<Rightarrow> fs \<Rightarrow> fs \<times> py_exc option" where
  "run_ops io path data [] temporary f = (f, None)"
| "run_ops io path data (op # ops) temporary f =
     (if io_ok io op
      then run_ops io path data ops (temp_after op temporary) (op_effect io path data op f)
      else (cleanup io path data temporary (op_fault io data op f), Some OSError))"

definition replace_file :: "save_io \<Rightarrow> string \<Rightarrow> string \<Rightarrow> fs \<Rightarrow> fs \<times> py_exc option" where
  [py_defs]: "replace_file io path data f = run_ops io path data SAVE_OPS False f"

section \<open>Power loss\<close>

text \<open>What a name may hold after a power loss.\<close>

definition after_crash :: "fs \<Rightarrow> string \<Rightarrow> string option \<Rightarrow> bool" where
  "after_crash f path c \<longleftrightarrow>
     (\<exists>e \<in> {fs_now f path, fs_disk f path}.
        case e of None \<Rightarrow> c = None | Some (d, synced) \<Rightarrow> c \<noteq> None \<and> (synced \<longrightarrow> c = Some d))"

text \<open>The state after the first \<open>k\<close> operations, where the power may fail.\<close>

definition state_after :: "save_io \<Rightarrow> string \<Rightarrow> string \<Rightarrow> nat \<Rightarrow> fs \<Rightarrow> fs" where
  "state_after io path data k f = fold (op_effect io path data) (take k SAVE_OPS) f"

text \<open>A path at rest: its contents are on disk under this name.\<close>

definition at_rest :: "fs \<Rightarrow> string \<Rightarrow> bool" where
  "at_rest f path \<longleftrightarrow> fs_disk f path = fs_now f path \<and> (\<forall>c s. fs_now f path = Some (c, s) \<longrightarrow> s)"

lemma state_after_cases:
  fixes k :: nat
  assumes "k \<le> 9"
  shows "k \<in> {0, 1, 2, 3, 4, 5, 6, 7, 8, 9}"
  using assms by simp arith

lemma take_state_after:
  "9 \<le> k \<Longrightarrow> state_after io path data k f = state_after io path data 9 f"
  by (simp add: state_after_def SAVE_OPS_def)

lemma crash_old_or_new:
  assumes "at_rest f path" and "io_temp io \<noteq> path"
    and "after_crash (state_after io path data k f) path c"
  shows "c = read_file f path \<or> c = Some data"
proof -
  define j where "j = min k 9"
  have j: "j \<in> {0, 1, 2, 3, 4, 5, 6, 7, 8, 9}"
    unfolding j_def by (rule state_after_cases) simp
  have "after_crash (state_after io path data j f) path c"
    using assms(3) take_state_after [of k] by (cases "k \<le> 9") (simp_all add: j_def min_def)
  then show ?thesis
    using j assms(1,2)
    by (elim insertE emptyE; cases "fs_now f path";
        force simp: state_after_def SAVE_OPS_def after_crash_def at_rest_def read_file_def put_file_def)
qed

section \<open>What a save leaves behind\<close>

text \<open>A save writes its data or leaves the old contents; after a success it has written them
  and they are on disk.  No other file is touched, and the temporary file is gone unless
  its removal fails.\<close>

lemma replace_file_result:
  assumes "replace_file io path data f = (f', r)" and "io_temp io \<noteq> path"
  shows "read_file f' path = read_file f path \<or> read_file f' path = Some data"
    and "r = None \<Longrightarrow> read_file f' path = Some data"
    and "r = None \<Longrightarrow> at_rest f' path"
    and "p \<noteq> path \<Longrightarrow> p \<noteq> io_temp io \<Longrightarrow> read_file f' p = read_file f p"
    and "io_ok io RemoveTemp \<Longrightarrow> fs_now f (io_temp io) = None \<Longrightarrow> fs_now f' (io_temp io) = None"
    and "fs_symlinks f' = fs_symlinks f"
  using assms
  by (auto simp: replace_file_def SAVE_OPS_def cleanup_def temp_after_def op_fault_def put_file_def
      read_file_def at_rest_def split: if_splits)

text \<open>Every contents a name may show, now or after a power loss, satisfies a predicate.\<close>

definition entry_ok :: "(string \<Rightarrow> bool) \<Rightarrow> content option \<Rightarrow> bool" where
  "entry_ok P e \<longleftrightarrow> (case e of None \<Rightarrow> True | Some (d, s) \<Rightarrow> s \<and> P d)"

lemma entry_ok_simps [simp]: "entry_ok P None" "entry_ok P (Some (d, s)) \<longleftrightarrow> s \<and> P d"
  by (simp_all add: entry_ok_def)

definition contents :: "fs \<Rightarrow> string \<Rightarrow> (string \<Rightarrow> bool) \<Rightarrow> bool" where
  "contents f path P \<longleftrightarrow> entry_ok P (fs_now f path) \<and> entry_ok P (fs_disk f path)"

lemma contents_mono: "contents f path P \<Longrightarrow> (\<And>d. P d \<Longrightarrow> Q d) \<Longrightarrow> contents f path Q"
  by (auto simp: contents_def entry_ok_def split: option.splits)

lemma contents_read: "contents f path P \<Longrightarrow> read_file f path = Some d \<Longrightarrow> P d"
  by (auto simp: contents_def read_file_def)

lemma contents_after_crash: "contents f path P \<Longrightarrow> after_crash f path (Some d) \<Longrightarrow> P d"
  by (auto simp: contents_def after_crash_def split: option.splits)

lemma state_after_path:
  assumes "io_temp io \<noteq> path"
  shows "fs_now (state_after io path data k f) path \<in> {fs_now f path, Some (data, True)}"
    and "fs_disk (state_after io path data k f) path \<in> {fs_disk f path, Some (data, True)}"
proof -
  define j where "j = min k 9"
  have j: "j \<in> {0, 1, 2, 3, 4, 5, 6, 7, 8, 9}"
    unfolding j_def by (rule state_after_cases) simp
  then have "fs_now (state_after io path data j f) path \<in> {fs_now f path, Some (data, True)} \<and>
      fs_disk (state_after io path data j f) path \<in> {fs_disk f path, Some (data, True)}"
    using assms by (elim insertE emptyE) (simp_all add: state_after_def SAVE_OPS_def put_file_def)
  moreover have "state_after io path data k f = state_after io path data j f"
    using take_state_after [of k] by (cases "k \<le> 9") (simp_all add: j_def min_def)
  ultimately show "fs_now (state_after io path data k f) path \<in> {fs_now f path, Some (data, True)}"
    "fs_disk (state_after io path data k f) path \<in> {fs_disk f path, Some (data, True)}"
    by simp_all
qed

lemma contents_state_after:
  assumes "contents f path P" and "P data" and "io_temp io \<noteq> path"
  shows "contents (state_after io path data k f) path P"
  using state_after_path [OF assms(3), of data k f] assms(1,2) unfolding contents_def by auto

lemma replace_file_path:
  assumes "replace_file io path data f = (f', r)" and "io_temp io \<noteq> path"
  shows "fs_now f' path \<in> {fs_now f path, Some (data, True)}"
    and "fs_disk f' path \<in> {fs_disk f path, Some (data, True)}"
  using assms
  by (auto simp: replace_file_def SAVE_OPS_def cleanup_def temp_after_def op_fault_def put_file_def
      split: if_splits)

lemma contents_replace:
  assumes "replace_file io path data f = (f', r)" and "contents f path P" and "P data"
    and "io_temp io \<noteq> path"
  shows "contents f' path P"
  using replace_file_path [OF assms(1,4)] assms(2,3) unfolding contents_def by auto

text \<open>The files after a power loss and a restart.\<close>

definition rebooted :: "fs \<Rightarrow> string \<Rightarrow> fs \<Rightarrow> bool" where
  "rebooted f path g \<longleftrightarrow>
     after_crash f path (read_file g path) \<and> at_rest g path \<and> fs_symlinks g = fs_symlinks f"

lemma contents_rebooted:
  assumes "contents f path P" and "rebooted f path g"
  shows "contents g path P"
proof (cases "fs_now g path")
  case None
  with assms(2) show ?thesis by (simp add: rebooted_def at_rest_def contents_def)
next
  case (Some e)
  obtain d s where e: "e = (d, s)" by force
  with Some assms(2) have "after_crash f path (Some d)" "s" "fs_disk g path = Some (d, s)"
    by (auto simp: rebooted_def at_rest_def read_file_def)
  with Some e contents_after_crash [OF assms(1)] show ?thesis
    by (simp add: contents_def)
qed

section \<open>The interface of a durable store\<close>

text \<open>
  A value after some of a list of updates were applied to it, in their order; the others
  were lost.
\<close>

inductive applied :: "('v option \<Rightarrow> 'u \<Rightarrow> 'v option) \<Rightarrow> 'v option \<Rightarrow> 'u list \<Rightarrow> 'v option \<Rightarrow> bool"
  for update where
  applied_nil: "applied update v [] v"
| applied_step: "applied update v us w \<Longrightarrow> update w u = Some x \<Longrightarrow> applied update v (us @ [u]) (Some x)"
| applied_skip: "applied update v us w \<Longrightarrow> applied update v (us @ [u]) w"

text \<open>
  \<open>save\<close> stores a value and may fail; \<open>load\<close> reads it back.  Whatever goes wrong, a
  reader sees the old value or the new one.
\<close>

locale durable_store =
  fixes save :: "'io \<Rightarrow> 'v \<Rightarrow> 'fs \<Rightarrow> 'fs \<times> py_exc option"
    and load :: "'fs \<Rightarrow> 'v option res"
    and io_good :: "'io \<Rightarrow> bool"
    and valid :: "'v \<Rightarrow> bool"
    and fs_good :: "'fs \<Rightarrow> bool"
  assumes save_done: "io_good io \<Longrightarrow> fs_good f \<Longrightarrow> valid v \<Longrightarrow> save io v f = (f', None) \<Longrightarrow> load f' = Inr (Some v)"
    and save_failed: "io_good io \<Longrightarrow> fs_good f \<Longrightarrow> valid v \<Longrightarrow> save io v f = (f', Some e) \<Longrightarrow>
      load f' = load f \<or> load f' = Inr (Some v)"
    and fs_good_save: "io_good io \<Longrightarrow> fs_good f \<Longrightarrow> save io v f = (f', r) \<Longrightarrow> fs_good f'"
begin

text \<open>A client that repeatedly derives a new value from the stored one.  Whether or not
  the saves succeed, the stored value is the result of a subsequence of the updates.\<close>

inductive history :: "('v option \<Rightarrow> 'u \<Rightarrow> 'v option) \<Rightarrow> 'fs \<Rightarrow> 'u list \<Rightarrow> 'fs \<Rightarrow> bool"
  for update where
  history_nil: "history update f [] f"
| history_save: "history update f us g \<Longrightarrow> load g = Inr old \<Longrightarrow> update old u = Some v \<Longrightarrow> valid v \<Longrightarrow>
    io_good io \<Longrightarrow> save io v g = (h, r) \<Longrightarrow> history update f (us @ [u]) h"
| history_skip: "history update f us g \<Longrightarrow> history update f (us @ [u]) g"

lemma history_good: "history update f us g \<Longrightarrow> fs_good f \<Longrightarrow> fs_good g"
  by (induction rule: history.induct) (auto intro: fs_good_save)

lemma stored_is_applied:
  assumes "history update f us g" and "fs_good f" and "load f = Inr v"
  shows "\<exists>w. load g = Inr w \<and> applied update v us w"
  using assms
proof (induction rule: history.induct)
  case (history_nil f)
  then show ?case by (auto intro: applied_nil)
next
  case (history_save f us g old u x io h r)
  then obtain w where w: "load g = Inr w" "applied update v us w" by blast
  then have "w = old" using history_save.hyps(2) by simp
  have good: "fs_good g" using history_good history_save by blast
  show ?case
  proof (cases r)
    case None
    then have "load h = Inr (Some x)"
      using save_done [OF history_save.hyps(5) good history_save.hyps(4)] history_save.hyps(6) by simp
    with w \<open>w = old\<close> history_save.hyps(3) show ?thesis by (auto intro: applied_step)
  next
    case (Some e)
    then have "load h = load g \<or> load h = Inr (Some x)"
      using save_failed [OF history_save.hyps(5) good history_save.hyps(4)] history_save.hyps(6) by simp
    with w \<open>w = old\<close> history_save.hyps(3) show ?thesis by (auto intro: applied_step applied_skip)
  qed
next
  case (history_skip f us g u)
  then show ?case by (auto intro: applied_skip)
qed

end

end
