(* ===== verification/Nas_Smart.thy ===== *)
theory Nas_Smart
  imports Py_Json_Roundtrip Py_Regex Atomic_File
begin

text \<open>
  \<open>scripts/nas_smart.py\<close>: the SMART snapshot parser, the durable per-disk counters
  (\<open>advance\<close>, \<open>save_state\<close>, \<open>load_state\<close>) and the collector's poll.  The SSH process is
  the argument \<open>reader\<close> of the poll, the clock the argument \<open>now\<close>, a number as Python's
  \<open>time.time\<close> returns it.
\<close>

section \<open>The snapshot\<close>

definition SMART_MAX_BYTES :: nat where [py_defs]: "SMART_MAX_BYTES = 65536"

definition FAULT_ATTRIBUTES :: "int list" where
  [py_defs]: "FAULT_ATTRIBUTES = [5, 10, 184, 187, 188, 191, 197, 198, 199]"

definition REQUIRED_ATTRIBUTES :: "int list" where
  [py_defs]: "REQUIRED_ATTRIBUTES = FAULT_ATTRIBUTES @ [194]"

definition BAYS :: "string list" where [py_defs]: "BAYS = [''1'', ''2'', ''3'', ''4'']"

definition MAX_COUNTER :: int where [py_defs]: "MAX_COUNTER = 2 ^ 53 - 1"

definition HEX64 :: rx where [py_defs]: "HEX64 = rtimes 64 (Cls lower_hex)"

definition is_hex64 :: "string \<Rightarrow> bool" where
  [py_defs]: "is_hex64 s \<longleftrightarrow> re_fullmatch HEX64 s \<noteq> None"

lemma is_hex64_iff: "is_hex64 s \<longleftrightarrow> length s = 64 \<and> list_all lower_hex s"
  unfolding is_hex64_def HEX64_def by (rule fullmatch_rtimes_Cls)

definition SMART_ROW :: rx where
  [py_defs]: "SMART_ROW =
     (let ws = rplus (Cls py_isspace); num = rplus (Cls ascii_digit) in
      rseq [Grp 1 (rtimes 3 (Cls ascii_digit)), ws,
            rplus (Cls (\<lambda>c. ascii_alnum c \<or> c = CHR ''_'' \<or> c = CHR ''-'')), ws,
            Grp 2 num, ws, Grp 3 num, ws, Grp 4 num, ws, Grp 5 num, ws,
            Grp 6 (rplus (Cls (\<lambda>c. ascii_upper c \<or> ascii_lower c \<or> c = CHR ''_'' \<or> c = CHR ''-'')))])"

record reading =
  rd_id :: string
  rd_healthy :: bool
  rd_temperature :: int
  rd_raw :: "(string \<times> int) list"

definition bad :: "string \<Rightarrow> 'a res" where [py_defs]: "bad msg = Inl (ValueError msg)"

text \<open>One attribute row; \<open>attrs\<close> are the raw values read so far.\<close>

definition smart_row :: "string \<Rightarrow> (int \<times> int) list \<Rightarrow> bool \<Rightarrow> ((int \<times> int) list \<times> bool) res" where
  [py_defs]: "smart_row line attrs healthy =
     (case re_fullmatch SMART_ROW (py_strip line) of
        None \<Rightarrow> bad ''invalid SMART attribute''
      | Some (b, t, row) \<Rightarrow>
          (let num = (\<lambda>i. int (nat_of_digits (group row i)));
               attribute = num 1; raw = num 2; value = num 3; worst = num 4; threshold = num 5 in
           if \<not> (1 \<le> attribute \<and> attribute \<le> 255) \<or> map_of attrs attribute \<noteq> None \<or> raw > MAX_COUNTER
              \<or> list_ex (\<lambda>x. x > 255) [value, worst, threshold]
           then bad ''invalid SMART numeric value''
           else Inr (attrs @ [(attribute, raw)],
                     healthy \<and> group row 6 = ''OK'' \<and> (threshold = 0 \<or> value > threshold))))"

text \<open>The rows up to \<open>END_BAY\<close>, and the lines from there on.\<close>

fun smart_rows ::
    "string list \<Rightarrow> (int \<times> int) list \<Rightarrow> bool \<Rightarrow> ((int \<times> int) list \<times> bool \<times> string list) res" where
  "smart_rows [] attrs healthy = Inr (attrs, healthy, [])"
| "smart_rows (line # lines) attrs healthy =
     (if line = ''END_BAY'' then Inr (attrs, healthy, line # lines)
      else bindE (smart_row line attrs healthy)
             (\<lambda>r. smart_rows lines (fst r) (snd r)))"

definition attr_value :: "(int \<times> int) list \<Rightarrow> int \<Rightarrow> int" where
  [py_defs]: "attr_value attrs a = (case map_of attrs a of None \<Rightarrow> 0 | Some v \<Rightarrow> v)"

definition reading_of :: "string \<Rightarrow> (int \<times> int) list \<Rightarrow> bool \<Rightarrow> reading" where
  [py_defs]: "reading_of disk_id attrs healthy =
     \<lparr>rd_id = disk_id, rd_healthy = healthy, rd_temperature = attr_value attrs 194,
      rd_raw = map (\<lambda>a. (str_int a, attr_value attrs a)) FAULT_ATTRIBUTES\<rparr>"

lemma smart_rows_length:
  "smart_rows lines attrs healthy = Inr (attrs', healthy', rest) \<Longrightarrow> length rest \<le> length lines"
  by (induction lines attrs healthy rule: smart_rows.induct) (auto split: if_splits intro: le_SucI)

text \<open>One bay after the other, until the lines are used up.\<close>

function smart_bays :: "string list \<Rightarrow> (string \<times> reading) list \<Rightarrow> (string \<times> reading) list res" where
  "smart_bays [] disks = Inr disks"
| "smart_bays (line # lines) disks =
     (let header = split_ws line in
      if length header \<noteq> 3 \<or> header ! 0 \<noteq> ''BAY'' \<or> header ! 1 \<notin> set BAYS
         \<or> map_of disks (header ! 1) \<noteq> None \<or> \<not> is_hex64 (header ! 2)
      then bad ''invalid SMART bay''
      else (case smart_rows lines [] True of
          Inl e \<Rightarrow> Inl e
        | Inr (attrs, healthy, rest) \<Rightarrow>
            (case rest of
               [] \<Rightarrow> bad ''missing SMART attributes''
             | end_bay # lines' \<Rightarrow>
                 (if end_bay \<noteq> ''END_BAY'' \<or> \<not> list_all (\<lambda>a. map_of attrs a \<noteq> None) REQUIRED_ATTRIBUTES
                  then bad ''missing SMART attributes''
                  else if \<not> (0 \<le> attr_value attrs 194 \<and> attr_value attrs 194 \<le> 150)
                  then bad ''invalid disk temperature''
                  else smart_bays lines'
                         (disks @ [(header ! 1, reading_of (header ! 2) attrs healthy)])))))"
  by pat_completeness auto
termination
  by (relation "measure (length \<circ> fst)") (auto dest: smart_rows_length)

definition parse_smart_snapshot :: "string \<Rightarrow> (string \<times> reading) list res" where
  [py_defs]: "parse_smart_snapshot data =
     (if length data > SMART_MAX_BYTES then bad ''invalid SMART snapshot size''
      else if \<not> is_ascii data then bad ''UnicodeDecodeError''
      else
       (let lines = py_splitlines data in
        if lines = [] \<or> hd lines \<noteq> ''NAS_SMART_1'' \<or> tl lines = [] \<or> last (tl lines) \<noteq> ''END''
        then bad ''incomplete SMART snapshot''
        else bindE (smart_bays (butlast (tl lines)) []) (\<lambda>disks.
          if \<not> list_all (\<lambda>b. map_of disks b \<noteq> None) BAYS
             \<or> length (remdups (map (rd_id \<circ> snd) disks)) \<noteq> 4
          then bad ''missing or duplicate disk identity''
          else Inr disks)))"

section \<open>The durable state\<close>

record smart_disk = reading +
  sd_increments :: "(string \<times> int) list"

record smart_state =
  ss_last :: pyval
  ss_disks :: "(string \<times> smart_disk) list"

definition ints_value :: "(string \<times> int) list \<Rightarrow> pyval" where
  [py_defs]: "ints_value m = PDict (map (\<lambda>(a, x). (a, PInt x)) m)"

definition disk_value :: "smart_disk \<Rightarrow> pyval" where
  [py_defs]: "disk_value d = PDict
     [(''disk_id'', PStr (rd_id d)), (''healthy'', PInt (if rd_healthy d then 1 else 0)),
      (''temperature'', PInt (rd_temperature d)), (''raw'', ints_value (rd_raw d)),
      (''increments'', ints_value (sd_increments d))]"

definition state_value :: "smart_state \<Rightarrow> pyval" where
  [py_defs]: "state_value s = PDict
     [(''version'', PInt 1), (''last_success'', ss_last s),
      (''disks'', PDict (map (\<lambda>(bay, d). (bay, disk_value d)) (ss_disks s)))]"

definition is_integer :: "pyval \<Rightarrow> bool" where
  [py_defs]: "is_integer v = (case v of PInt i \<Rightarrow> 0 \<le> i \<and> i \<le> MAX_COUNTER | _ \<Rightarrow> False)"

text \<open>A number that is finite and not negative, as \<open>last_success\<close> has to be.\<close>

definition is_timestamp :: "pyval \<Rightarrow> bool" where
  [py_defs]: "is_timestamp v = (case v of
       PInt i \<Rightarrow> 0 \<le> i | PFloat (FFin r q) \<Rightarrow> 0 \<le> q | _ \<Rightarrow> False)"

definition counters_ok :: "pyval \<Rightarrow> bool" where
  [py_defs]: "counters_ok v = (case v of
       PDict m \<Rightarrow> keys_are m (map str_int FAULT_ATTRIBUTES) \<and> list_all (\<lambda>(k, x). is_integer x) m
     | _ \<Rightarrow> False)"

definition validate_disk :: "pyval \<Rightarrow> unit res" where
  [py_defs]: "validate_disk v = (case v of
       PDict d \<Rightarrow>
         (if \<not> keys_are d [''disk_id'', ''healthy'', ''temperature'', ''raw'', ''increments'']
             \<or> \<not> (case dget d ''disk_id'' of PStr s \<Rightarrow> is_hex64 s | _ \<Rightarrow> False)
             \<or> dget d ''healthy'' \<notin> {PInt 0, PInt 1}
             \<or> \<not> (case dget d ''temperature'' of PInt t \<Rightarrow> is_integer (PInt t) \<and> t \<le> 150 | _ \<Rightarrow> False)
          then bad ''invalid SMART state disk''
          else if \<not> list_all (\<lambda>key. counters_ok (dget d key)) [''raw'', ''increments'']
          then bad ''invalid SMART state attributes''
          else Inr ())
     | _ \<Rightarrow> bad ''invalid SMART state disk'')"

definition validate_smart_state :: "pyval \<Rightarrow> pyval res" where
  [py_defs]: "validate_smart_state state = (case state of
       PDict s \<Rightarrow>
         (if \<not> keys_are s [''version'', ''last_success'', ''disks''] \<or> dget s ''version'' \<noteq> PInt 1
             \<or> \<not> is_timestamp (dget s ''last_success'')
          then bad ''invalid SMART state''
          else (case dget s ''disks'' of
             PDict disks \<Rightarrow>
               (if \<not> keys_are disks BAYS then bad ''invalid SMART state bays''
                else bindE (mapE (\<lambda>(bay, d). validate_disk d) disks) (\<lambda>_.
                  if length (remdups (map (\<lambda>(bay, d). dget (mapping_or_empty d) ''disk_id'') disks)) \<noteq> 4
                  then bad ''duplicate SMART state identity'' else Inr state))
           | _ \<Rightarrow> bad ''invalid SMART state bays''))
     | _ \<Rightarrow> bad ''invalid SMART state'')"

text \<open>The typed view of a validated state.\<close>

definition ints_of_value :: "pyval \<Rightarrow> (string \<times> int) list" where
  [py_defs]: "ints_of_value v =
     map (\<lambda>(a, x). (a, case x of PInt i \<Rightarrow> i | _ \<Rightarrow> 0)) (mapping_or_empty v)"

definition disk_of_value :: "pyval \<Rightarrow> smart_disk" where
  [py_defs]: "disk_of_value v =
     (let d = mapping_or_empty v in
      \<lparr>rd_id = py_str (dget d ''disk_id''), rd_healthy = (dget d ''healthy'' = PInt 1),
       rd_temperature = (case dget d ''temperature'' of PInt t \<Rightarrow> t | _ \<Rightarrow> 0),
       rd_raw = ints_of_value (dget d ''raw''), sd_increments = ints_of_value (dget d ''increments'')\<rparr>)"

definition smart_state_of :: "pyval \<Rightarrow> smart_state" where
  [py_defs]: "smart_state_of v =
     (let s = mapping_or_empty v in
      \<lparr>ss_last = dget s ''last_success'',
       ss_disks = map (\<lambda>(bay, d). (bay, disk_of_value d)) (mapping_or_empty (dget s ''disks''))\<rparr>)"

section \<open>Loading, saving and advancing\<close>

definition load_smart_state :: "(string \<Rightarrow> pyfloat) \<Rightarrow> string \<Rightarrow> fs \<Rightarrow> smart_state option res" where
  [py_defs]: "load_smart_state float_of path f =
     (if path \<in> set (fs_symlinks f) then bad ''SMART state is a symlink''
      else (case read_file f path of
          None \<Rightarrow> Inr None
        | Some data \<Rightarrow>
            (if length data > SMART_MAX_BYTES then bad ''SMART state too large''
             else bindE (json_loads_bytes float_of data) (\<lambda>v.
                  bindE (validate_smart_state v) (\<lambda>v. Inr (Some (smart_state_of v)))))))"

definition smart_state_data :: "smart_state \<Rightarrow> string res" where
  [py_defs]: "smart_state_data state =
     bindE (validate_smart_state (state_value state)) (json_dumps_finite json_compact)"

definition save_smart_state :: "string \<Rightarrow> save_io \<Rightarrow> smart_state \<Rightarrow> fs \<Rightarrow> fs \<times> py_exc option" where
  [py_defs]: "save_smart_state path io state f =
     (case smart_state_data state of
        Inl e \<Rightarrow> (f, Some e)
      | Inr data \<Rightarrow>
          (if length (utf8_encode data) > SMART_MAX_BYTES \<or> path \<in> set (fs_symlinks f)
           then (f, Some (ValueError ''invalid SMART state destination''))
           else replace_file io path (utf8_encode data) f))"

definition increment :: "smart_disk \<Rightarrow> string \<times> int \<Rightarrow> (string \<times> int) res" where
  [py_defs]: "increment old ar =
     (case (map_of (sd_increments old) (fst ar), map_of (rd_raw old) (fst ar)) of
        (Some i, Some r) \<Rightarrow> Inr (fst ar, i + max 0 (snd ar - r))
      | _ \<Rightarrow> Inl KeyError)"

definition advance_disk :: "smart_state option \<Rightarrow> string \<times> reading \<Rightarrow> (string \<times> smart_disk) res" where
  [py_defs]: "advance_disk previous bd =
     (let (bay, disk) = bd;
          fresh = map (\<lambda>(a, raw). (a, 0)) (rd_raw disk);
          extend = (\<lambda>increments. (bay, reading.extend disk (smart_disk.fields increments))) in
      case previous of
        None \<Rightarrow> Inr (extend fresh)
      | Some p \<Rightarrow>
          (case map_of (ss_disks p) bay of
             None \<Rightarrow> Inl KeyError
           | Some old \<Rightarrow>
               (if rd_id old = rd_id disk
                then bindE (mapE (increment old) (rd_raw disk)) (\<lambda>increments. Inr (extend increments))
                else Inr (extend fresh))))"

definition advance :: "smart_state option \<Rightarrow> (string \<times> reading) list \<Rightarrow> pyval \<Rightarrow> smart_state res" where
  [py_defs]: "advance previous disks now =
     bindE (mapE (advance_disk previous) disks) (\<lambda>advanced.
       (let state = \<lparr>ss_last = now, ss_disks = advanced\<rparr> in
        bindE (validate_smart_state (state_value state)) (\<lambda>_. Inr state)))"

section \<open>The collector\<close>

record smart_collector =
  sc_state :: "smart_state option"
  sc_success :: bool
  sc_valid :: bool

definition smart_collector_init :: smart_collector where
  [py_defs]: "smart_collector_init = \<lparr>sc_state = None, sc_success = False, sc_valid = False\<rparr>"

definition smart_poll_once ::
    "(string \<Rightarrow> pyfloat) \<Rightarrow> string \<Rightarrow> save_io \<Rightarrow> string res \<Rightarrow> pyval
       \<Rightarrow> fs \<times> smart_collector \<Rightarrow> fs \<times> smart_collector" where
  [py_defs]: "smart_poll_once float_of path io reader now fc =
     (let (f, c) = fc in
      case load_smart_state float_of path f of
        Inl e \<Rightarrow> (f, c\<lparr>sc_success := False, sc_valid := False\<rparr>)
      | Inr previous \<Rightarrow>
          (let c = c\<lparr>sc_state := previous, sc_valid := True\<rparr> in
           case bindE (bindE reader parse_smart_snapshot) (\<lambda>disks. advance previous disks now) of
             Inl e \<Rightarrow> (f, c\<lparr>sc_success := False\<rparr>)
           | Inr candidate \<Rightarrow>
               (case save_smart_state path io candidate f of
                  (f', Some e) \<Rightarrow> (f', c\<lparr>sc_success := False, sc_valid := False\<rparr>)
                | (f', None) \<Rightarrow>
                    (f', c\<lparr>sc_state := Some candidate, sc_success := True, sc_valid := True\<rparr>))))"

definition metric_line :: "string \<Rightarrow> string \<Rightarrow> string \<Rightarrow> string" where
  [py_defs]: "metric_line name labels text =
     name @ (if labels = [] then [] else ''{'' @ labels @ ''}'') @ '' '' @ text @ [CHR 0x0A]"

definition label :: "string \<Rightarrow> string \<Rightarrow> string" where
  [py_defs]: "label name text = name @ ''='' @ [CHR 0x22] @ text @ [CHR 0x22]"

definition attribute_metrics :: "string \<Rightarrow> smart_disk \<Rightarrow> string \<Rightarrow> string" where
  [py_defs]: "attribute_metrics labels disk attr =
     (let tag = labels @ '','' @ label ''attribute_id'' attr;
          text = (\<lambda>m. case map_of m attr of None \<Rightarrow> [] | Some x \<Rightarrow> str_int x) in
      metric_line ''nas_smart_attribute_raw'' tag (text (rd_raw disk))
      @ metric_line ''nas_smart_attribute_increments_total'' tag (text (sd_increments disk)))"

definition disk_metrics :: "string \<times> smart_disk \<Rightarrow> string" where
  [py_defs]: "disk_metrics bd =
     (let (bay, disk) = bd; labels = label ''bay'' bay @ '','' @ label ''disk_id'' (rd_id disk) in
      metric_line ''nas_smart_disk_healthy'' labels (if rd_healthy disk then ''1'' else ''0'')
      @ metric_line ''nas_smart_temperature_celsius'' labels (str_int (rd_temperature disk))
      @ concat (map (attribute_metrics labels disk) (map fst (rd_raw disk))))"

definition flag :: "bool \<Rightarrow> string" where [py_defs]: "flag b = (if b then ''1'' else ''0'')"

definition smart_metrics :: "smart_collector \<Rightarrow> string" where
  [py_defs]: "smart_metrics c =
     (let header = metric_line ''nas_smart_collection_success'' [] (flag (sc_success c))
            @ metric_line ''nas_smart_state_valid'' [] (flag (sc_valid c))
            @ metric_line ''nas_smart_last_success_timestamp_seconds'' []
                (case sc_state c of None \<Rightarrow> ''0'' | Some s \<Rightarrow> py_str (ss_last s)) in
      case sc_state c of
        None \<Rightarrow> header
      | Some s \<Rightarrow>
          (if \<not> sc_success c then header
           else header @ ''# TYPE nas_smart_attribute_increments_total counter'' @ [CHR 0x0A]
             @ concat (map disk_metrics (sort_key fst (ss_disks s)))))"

end
