(* ===== verification/Nas_Smart_Props.thy ===== *)
theory Nas_Smart_Props
  imports Nas_Smart
begin

text \<open>
  What the SMART collector guarantees: a stored state is read back (the interpretation
  \<open>smart_store\<close> of the store interface), a poll never counts an increment twice whatever saves fail,
  a power loss during a save leaves the old or the new state, and a snapshot that parses
  is accepted.
\<close>

section \<open>The typed state and its value\<close>

lemma ints_roundtrip [simp]: "ints_of_value (ints_value m) = m"
  by (simp add: ints_of_value_def ints_value_def comp_def case_prod_beta)

lemma disk_roundtrip [simp]: "disk_of_value (disk_value d) = d"
  by (cases d) (simp add: disk_of_value_def disk_value_def dget_or_def py_str_def Let_def)

lemma state_roundtrip [simp]: "smart_state_of (state_value s) = s"
  by (cases s) (simp add: smart_state_of_def state_value_def dget_or_def Let_def comp_def case_prod_beta)

lemma validate_same: "validate_smart_state v = Inr w \<Longrightarrow> w = v"
  by (auto simp: validate_smart_state_def Let_def bad_def split: pyval.splits if_splits)

lemma validate_state_value: "validate_smart_state (state_value s) = Inr w \<longleftrightarrow>
    validate_smart_state (state_value s) = Inr (state_value s) \<and> w = state_value s"
  using validate_same by auto

lemma smart_state_data_Inr:
  assumes "smart_state_data s = Inr data"
  shows "validate_smart_state (state_value s) = Inr (state_value s)"
    and "data = json_enc json_compact (state_value s)"
  using assms by (auto simp: smart_state_data_def json_dumps_finite_def dest: validate_same split: if_splits)

section \<open>The stored state\<close>

text \<open>A state that a JSON text can hold: finite timestamp, no bay or attribute twice.\<close>

definition storable :: "(string \<Rightarrow> pyfloat) \<Rightarrow> smart_state \<Rightarrow> bool" where
  "storable float_of s \<longleftrightarrow> json_ok float_of (state_value s)"

lemma save_smart_state_done:
  assumes "io_temp io \<noteq> path" and "path \<notin> set (fs_symlinks f)" and "storable float_of s"
    and "save_smart_state path io s f = (f', None)"
  shows "load_smart_state float_of path f' = Inr (Some s)"
proof -
  from assms(4) obtain data where data: "smart_state_data s = Inr data"
    and len: "length (utf8_encode data) \<le> SMART_MAX_BYTES"
    and replaced: "replace_file io path (utf8_encode data) f = (f', None)"
    by (auto simp: save_smart_state_def split: sum.splits if_splits)
  have "read_file f' path = Some (utf8_encode data)"
    using replace_file_result(2) [OF replaced assms(1)] by simp
  moreover have "path \<notin> set (fs_symlinks f')"
    using replace_file_result(6) [OF replaced assms(1)] assms(2) by simp
  moreover have "json_loads float_of data = Inr (state_value s)"
    using smart_state_data_Inr(2) [OF data] json_roundtrip assms(3) by (simp add: storable_def)
  ultimately show ?thesis
    using len smart_state_data_Inr(1) [OF data]
    by (simp add: load_smart_state_def json_loads_bytes_def utf8_roundtrip)
qed

lemma save_smart_state_failed:
  assumes "io_temp io \<noteq> path" and "path \<notin> set (fs_symlinks f)" and "storable float_of s"
    and "save_smart_state path io s f = (f', Some e)"
  shows "load_smart_state float_of path f' = load_smart_state float_of path f \<or>
     load_smart_state float_of path f' = Inr (Some s)"
proof (cases "f' = f")
  case False
  with assms(4) obtain data where data: "smart_state_data s = Inr data"
    and len: "length (utf8_encode data) \<le> SMART_MAX_BYTES"
    and replaced: "replace_file io path (utf8_encode data) f = (f', Some e)"
    by (auto simp: save_smart_state_def split: sum.splits if_splits)
  have links: "fs_symlinks f' = fs_symlinks f"
    by (rule replace_file_result(6) [OF replaced assms(1)])
  have "json_loads float_of data = Inr (state_value s)"
    using smart_state_data_Inr(2) [OF data] json_roundtrip assms(3) by (simp add: storable_def)
  then have "read_file f' path = Some (utf8_encode data) \<Longrightarrow> ?thesis"
    using len smart_state_data_Inr(1) [OF data] links assms(2)
    by (simp add: load_smart_state_def json_loads_bytes_def utf8_roundtrip)
  moreover have "read_file f' path = read_file f path \<Longrightarrow> ?thesis"
    using links by (simp add: load_smart_state_def)
  ultimately show ?thesis using replace_file_result(1) [OF replaced assms(1)] by blast
qed simp

lemma save_smart_state_links:
  assumes "io_temp io \<noteq> path" and "save_smart_state path io s f = (f', r)"
  shows "fs_symlinks f' = fs_symlinks f"
  using assms replace_file_result(6)
  by (fastforce simp: save_smart_state_def split: sum.splits if_splits)

interpretation smart_store: durable_store "save_smart_state path" "load_smart_state float_of path"
  "\<lambda>io. io_temp io \<noteq> path" "storable float_of" "\<lambda>f. path \<notin> set (fs_symlinks f)"
  for path float_of
proof
  show "load_smart_state float_of path f' = Inr (Some v)"
    if "io_temp io \<noteq> path" "path \<notin> set (fs_symlinks f)" "storable float_of v"
      "save_smart_state path io v f = (f', None)" for io f v f'
    by (rule save_smart_state_done [OF that])
  show "load_smart_state float_of path f' = load_smart_state float_of path f \<or>
      load_smart_state float_of path f' = Inr (Some v)"
    if "io_temp io \<noteq> path" "path \<notin> set (fs_symlinks f)" "storable float_of v"
      "save_smart_state path io v f = (f', Some e)" for io f v f' e
    by (rule save_smart_state_failed [OF that])
  show "path \<notin> set (fs_symlinks f')"
    if "io_temp io \<noteq> path" "path \<notin> set (fs_symlinks f)"
      "save_smart_state path io v f = (f', r)" for io f v f' r
    using save_smart_state_links [OF that(1,3)] that(2) by simp
qed

section \<open>Polling\<close>

text \<open>What one poll brings: the save's faults, the reader's answer, and the clock.\<close>

record smart_input =
  in_io :: save_io
  in_reader :: "string res"
  in_now :: pyval

definition smart_polls ::
    "(string \<Rightarrow> pyfloat) \<Rightarrow> string \<Rightarrow> smart_input list \<Rightarrow> fs \<times> smart_collector \<Rightarrow> fs \<times> smart_collector" where
  "smart_polls float_of path inputs fc =
     fold (\<lambda>i. smart_poll_once float_of path (in_io i) (in_reader i) (in_now i)) inputs fc"

definition smart_update ::
    "smart_state option \<Rightarrow> (string \<times> reading) list \<times> pyval \<Rightarrow> smart_state option" where
  "smart_update previous u = (case advance previous (fst u) (snd u) of Inr s \<Rightarrow> Some s | Inl e \<Rightarrow> None)"

definition input_readings :: "smart_input \<Rightarrow> ((string \<times> reading) list \<times> pyval) list" where
  "input_readings i = (case bindE (in_reader i) parse_smart_snapshot of
     Inr disks \<Rightarrow> [(disks, in_now i)] | Inl e \<Rightarrow> [])"

text \<open>The clock's answers are numbers that JSON gives back.\<close>

definition good_input :: "(string \<Rightarrow> pyfloat) \<Rightarrow> string \<Rightarrow> smart_input \<Rightarrow> bool" where
  "good_input float_of path i \<longleftrightarrow> io_temp (in_io i) \<noteq> path \<and> json_ok float_of (in_now i)"

section \<open>What a snapshot holds\<close>

definition reading_ok :: "reading \<Rightarrow> bool" where
  "reading_ok r \<longleftrightarrow> is_hex64 (rd_id r) \<and> 0 \<le> rd_temperature r \<and> rd_temperature r \<le> 150
     \<and> map fst (rd_raw r) = map str_int FAULT_ATTRIBUTES
     \<and> (\<forall>(a, x) \<in> set (rd_raw r). 0 \<le> x \<and> x \<le> MAX_COUNTER)"

definition snapshot_ok :: "(string \<times> reading) list \<Rightarrow> bool" where
  "snapshot_ok disks \<longleftrightarrow> distinct (map fst disks) \<and> fst ` set disks \<subseteq> set BAYS \<and>
     (\<forall>(bay, r) \<in> set disks. reading_ok r)"

lemma smart_row_range:
  assumes "smart_row line attrs healthy = Inr (attrs', healthy')"
    and "\<forall>(a, x) \<in> set attrs. 0 \<le> x \<and> x \<le> MAX_COUNTER"
  shows "\<forall>(a, x) \<in> set attrs'. 0 \<le> x \<and> x \<le> MAX_COUNTER"
proof -
  from assms(1) obtain a and n :: nat where "attrs' = attrs @ [(a, int n)]" "\<not> int n > MAX_COUNTER"
    by (auto simp: smart_row_def Let_def bad_def split: option.splits if_splits)
  with assms(2) show ?thesis by auto
qed

lemma smart_rows_range:
  "smart_rows lines attrs healthy = Inr (attrs', healthy', rest) \<Longrightarrow>
     \<forall>(a, x) \<in> set attrs. 0 \<le> x \<and> x \<le> MAX_COUNTER \<Longrightarrow> \<forall>(a, x) \<in> set attrs'. 0 \<le> x \<and> x \<le> MAX_COUNTER"
proof (induction lines attrs healthy rule: smart_rows.induct)
  case (2 line lines attrs healthy)
  show ?case
  proof (cases "line = ''END_BAY''")
    case False
    with "2.prems"(1) obtain a h where row: "smart_row line attrs healthy = Inr (a, h)"
      and rows: "smart_rows lines a h = Inr (attrs', healthy', rest)"
      by auto
    from "2.IH" [OF False row] rows smart_row_range [OF row "2.prems"(2)] show ?thesis by simp
  qed (use 2 in auto)
qed auto

lemma reading_of_ok:
  assumes "\<forall>(a, x) \<in> set attrs. 0 \<le> x \<and> x \<le> MAX_COUNTER"
  shows "map fst (rd_raw (reading_of i attrs h)) = map str_int FAULT_ATTRIBUTES"
    and "\<forall>(a, x) \<in> set (rd_raw (reading_of i attrs h)). 0 \<le> x \<and> x \<le> MAX_COUNTER"
proof -
  have "0 \<le> attr_value attrs a \<and> attr_value attrs a \<le> MAX_COUNTER" for a
    using assms by (auto simp: attr_value_def MAX_COUNTER_def split: option.split dest!: map_of_SomeD)
  then show "\<forall>(a, x) \<in> set (rd_raw (reading_of i attrs h)). 0 \<le> x \<and> x \<le> MAX_COUNTER"
    by (auto simp: reading_of_def)
qed (simp add: reading_of_def comp_def)

lemma snapshot_ok_append:
  "snapshot_ok disks \<Longrightarrow> b \<in> set BAYS \<Longrightarrow> map_of disks b = None \<Longrightarrow> reading_ok r \<Longrightarrow>
     snapshot_ok (disks @ [(b, r)])"
  by (auto simp: snapshot_ok_def map_of_eq_None_iff)

lemma smart_bays_ok:
  "smart_bays lines disks = Inr disks' \<Longrightarrow> snapshot_ok disks \<Longrightarrow> snapshot_ok disks'"
proof (induction lines disks rule: smart_bays.induct)
  case (2 line lines disks)
  let ?h = "split_ws line"
  from "2.prems"(1) obtain attrs healthy lines' where
    header: "\<not> (length ?h \<noteq> 3 \<or> ?h ! 0 \<noteq> ''BAY'' \<or> ?h ! 1 \<notin> set BAYS \<or> map_of disks (?h ! 1) \<noteq> None
        \<or> \<not> is_hex64 (?h ! 2))"
    and rows: "smart_rows lines [] True = Inr (attrs, healthy, ''END_BAY'' # lines')"
    and temp: "0 \<le> attr_value attrs 194 \<and> attr_value attrs 194 \<le> 150"
    and req: "list_all (\<lambda>a. map_of attrs a \<noteq> None) REQUIRED_ATTRIBUTES"
    and rest: "smart_bays lines' (disks @ [(?h ! 1, reading_of (?h ! 2) attrs healthy)]) = Inr disks'"
    by (auto simp: Let_def bad_def split: if_splits sum.splits list.splits)
  have "rd_id (reading_of i attrs healthy) = i"
    "rd_temperature (reading_of i attrs healthy) = attr_value attrs 194" for i
    by (simp_all add: reading_of_def)
  then have "reading_ok (reading_of (?h ! 2) attrs healthy)"
    using header temp reading_of_ok [OF smart_rows_range [OF rows]] by (simp add: reading_ok_def)
  with "2.prems"(2) header have "snapshot_ok (disks @ [(?h ! 1, reading_of (?h ! 2) attrs healthy)])"
    by (intro snapshot_ok_append) auto
  with "2.IH" header rows temp req rest show ?case by (simp add: Let_def)
qed simp

lemma parse_smart_snapshot_ok:
  assumes "parse_smart_snapshot data = Inr disks"
  shows "snapshot_ok disks" and "set BAYS \<subseteq> fst ` set disks"
    and "length (remdups (map (rd_id \<circ> snd) disks)) = 4"
proof -
  from assms obtain lines where "smart_bays lines [] = Inr disks"
    and "list_all (\<lambda>b. map_of disks b \<noteq> None) BAYS"
    and ids: "length (remdups (map (rd_id \<circ> snd) disks)) = 4"
    by (auto simp: parse_smart_snapshot_def Let_def bad_def split: if_splits)
  moreover have "snapshot_ok []" by (simp add: snapshot_ok_def)
  ultimately show "snapshot_ok disks" "set BAYS \<subseteq> fst ` set disks"
    "length (remdups (map (rd_id \<circ> snd) disks)) = 4"
    by (auto intro: smart_bays_ok simp: list_all_iff map_of_eq_None_iff)
qed

section \<open>Advancing\<close>

lemma increments_fst: "mapE (increment old) raw = Inr inc \<Longrightarrow> map fst inc = map fst raw"
  by (induction raw arbitrary: inc) (auto simp: increment_def split: option.splits)

lemma increments_lookup:
  "mapE (increment old) raw = Inr inc \<Longrightarrow> map_of raw a = Some x \<Longrightarrow>
     \<exists>i r. map_of (sd_increments old) a = Some i \<and> map_of (rd_raw old) a = Some r
         \<and> map_of inc a = Some (i + max 0 (x - r))"
  by (induction raw arbitrary: inc) (auto simp: increment_def split: option.splits if_splits)

text \<open>The entry the previous state has for the same disk in the same bay.\<close>

definition same_disk :: "smart_state option \<Rightarrow> string \<Rightarrow> reading \<Rightarrow> smart_disk option" where
  "same_disk previous bay r = (case previous of None \<Rightarrow> None
     | Some p \<Rightarrow> (case map_of (ss_disks p) bay of None \<Rightarrow> None
         | Some old \<Rightarrow> if rd_id old = rd_id r then Some old else None))"

lemma extend_simps [simp]:
  "rd_id (reading.extend r m) = rd_id r" "rd_raw (reading.extend r m) = rd_raw r"
  "rd_healthy (reading.extend r m) = rd_healthy r" "rd_temperature (reading.extend r m) = rd_temperature r"
  "sd_increments (reading.extend r (smart_disk.fields inc)) = inc"
  by (simp_all add: reading.extend_def smart_disk.fields_def)

lemma advance_disk_Inr:
  assumes "advance_disk previous (bay, r) = Inr bd"
  obtains d where "bd = (bay, d)" and "rd_id d = rd_id r" and "rd_raw d = rd_raw r"
    and "rd_temperature d = rd_temperature r"
    and "map fst (sd_increments d) = map fst (rd_raw r)"
    and "case same_disk previous bay r of
           None \<Rightarrow> sd_increments d = map (\<lambda>(a, raw). (a, 0)) (rd_raw r)
         | Some old \<Rightarrow> mapE (increment old) (rd_raw r) = Inr (sd_increments d)"
proof
  obtain b d where bd: "bd = (b, d)" by force
  show "bd = (bay, snd bd)" "rd_id (snd bd) = rd_id r" "rd_raw (snd bd) = rd_raw r"
    "rd_temperature (snd bd) = rd_temperature r"
    "map fst (sd_increments (snd bd)) = map fst (rd_raw r)"
    "case same_disk previous bay r of
           None \<Rightarrow> sd_increments (snd bd) = map (\<lambda>(a, raw). (a, 0)) (rd_raw r)
         | Some old \<Rightarrow> mapE (increment old) (rd_raw r) = Inr (sd_increments (snd bd))"
    using assms
    by (auto simp: advance_disk_def Let_def same_disk_def comp_def case_prod_beta increments_fst
        split: option.splits if_splits)
qed

lemma advance_Inr:
  assumes "advance previous disks now = Inr s"
  shows "ss_last s = now"
    and "list_all2 (\<lambda>bd bd'. advance_disk previous bd = Inr bd') disks (ss_disks s)"
    and "validate_smart_state (state_value s) = Inr (state_value s)"
  using assms by (auto simp: advance_def Let_def mapE_Inr_iff dest: validate_same)

lemma advance_fst:
  assumes "list_all2 (\<lambda>bd bd'. advance_disk previous bd = Inr bd') disks disks'"
  shows "map fst disks' = map fst disks"
  using assms
proof (induction rule: list_all2_induct)
  case (Cons x xs y ys)
  obtain b r where "x = (b, r)" by force
  with Cons show ?case by (auto elim!: advance_disk_Inr)
qed simp

lemma advance_lookup:
  assumes "list_all2 (\<lambda>bd bd'. advance_disk previous bd = Inr bd') disks disks'"
    and "map_of disks bay = Some r"
  obtains d where "map_of disks' bay = Some d" and "advance_disk previous (bay, r) = Inr (bay, d)"
proof -
  have "\<exists>d. map_of disks' bay = Some d \<and> advance_disk previous (bay, r) = Inr (bay, d)"
    using assms
  proof (induction rule: list_all2_induct)
    case (Cons x xs y ys)
    obtain b q where x: "x = (b, q)" by force
    from Cons.hyps obtain d where "y = (b, d)"
      unfolding x by (auto elim!: advance_disk_Inr)
    with Cons x show ?case by (auto split: if_splits)
  qed simp
  then show thesis using that by blast
qed

lemma json_ok_ints [simp]: "json_ok float_of (ints_value m) \<longleftrightarrow> distinct (map fst m)"
  by (auto simp: ints_value_def comp_def case_prod_beta list_all_iff)

lemma distinct_attributes: "distinct (map str_int FAULT_ATTRIBUTES)"
  by code_simp

lemma advance_storable:
  assumes "advance previous disks now = Inr s" and "snapshot_ok disks" and "json_ok float_of now"
  shows "storable float_of s"
proof -
  note adv = advance_Inr [OF assms(1)]
  have "json_ok float_of (disk_value d)" if "(b, d) \<in> set (ss_disks s)" for b d
  proof -
    from adv(2) that obtain r where r: "(b, r) \<in> set disks" "advance_disk previous (b, r) = Inr (b, d)"
      by (auto simp: list_all2_conv_all_nth set_conv_nth elim!: advance_disk_Inr)
        (metis advance_disk_Inr nth_mem old.prod.exhaust prod.inject)
    then have "map fst (rd_raw r) = map str_int FAULT_ATTRIBUTES"
      using assms(2) by (auto simp: snapshot_ok_def reading_ok_def)
    with r(2) distinct_attributes show ?thesis
      by (elim advance_disk_Inr) (simp add: disk_value_def)
  qed
  moreover have "distinct (map fst (ss_disks s))"
    using advance_fst [OF adv(2)] assms(2) by (simp add: snapshot_ok_def)
  ultimately show ?thesis
    using adv(1) assms(3)
    by (auto simp: storable_def state_value_def comp_def case_prod_beta list_all_iff)
qed

section \<open>A history of polls\<close>

lemma input_readings_ok:
  "(disks, now) \<in> set (input_readings i) \<Longrightarrow> now = in_now i \<and> snapshot_ok disks"
  by (cases "bindE (in_reader i) parse_smart_snapshot")
    (auto simp: input_readings_def simp del: bindE_Inr_iff
      dest: iffD1 [OF bindE_Inr_iff] parse_smart_snapshot_ok(1))

lemma smart_update_iff: "smart_update previous (disks, now) = Some s \<longleftrightarrow> advance previous disks now = Inr s"
  by (auto simp: smart_update_def split: sum.splits)

lemma poll_history:
  assumes h: "smart_store.history path float_of smart_update f0 us f" and "path \<notin> set (fs_symlinks f0)"
    and i: "good_input float_of path i"
    and poll: "smart_poll_once float_of path (in_io i) (in_reader i) (in_now i) (f, c) = (f', c')"
  shows "smart_store.history path float_of smart_update f0 (us @ input_readings i) f'
     \<and> (sc_success c' \<longrightarrow> sc_state c' \<noteq> None \<and> load_smart_state float_of path f' = Inr (sc_state c'))"
proof -
  have skip: "smart_store.history path float_of smart_update f0 (us @ input_readings i) f"
    using h by (auto simp: input_readings_def intro: smart_store.history_skip split: sum.split)
  have good: "path \<notin> set (fs_symlinks f)"
    using smart_store.history_good [OF h assms(2)] .
  show ?thesis
  proof (cases "\<exists>old disks s. load_smart_state float_of path f = Inr old
      \<and> bindE (in_reader i) parse_smart_snapshot = Inr disks \<and> advance old disks (in_now i) = Inr s")
    case False
    then show ?thesis
      using poll skip by (auto simp: smart_poll_once_def Let_def bindE_def split: sum.splits)
  next
    case True
    then obtain old disks s where old: "load_smart_state float_of path f = Inr old"
      and disks: "bindE (in_reader i) parse_smart_snapshot = Inr disks"
      and s: "advance old disks (in_now i) = Inr s" by blast
    from disks have readings: "input_readings i = [(disks, in_now i)]"
      by (simp only: input_readings_def sum.case)
    then have storable: "storable float_of s"
      using advance_storable [OF s] input_readings_ok [of disks "in_now i" i] i
      by (simp add: good_input_def)
    obtain g r where g: "save_smart_state path (in_io i) s f = (g, r)" by force
    have f': "f' = g" and c': "sc_success c' \<Longrightarrow> r = None \<and> sc_state c' = Some s"
      using poll old disks s g by (auto simp: smart_poll_once_def Let_def split: option.splits)
    have io: "io_temp (in_io i) \<noteq> path" using i by (simp add: good_input_def)
    have "smart_update old (disks, in_now i) = Some s" using s by (simp add: smart_update_iff)
    from smart_store.history_save [OF h old this storable io g]
    show ?thesis
      using save_smart_state_done [OF io good storable] g f' c' readings by simp
  qed
qed

lemma polls_history:
  assumes "\<forall>i \<in> set inputs. good_input float_of path i" and "path \<notin> set (fs_symlinks f0)"
    and "smart_polls float_of path inputs (f0, smart_collector_init) = (f, c)"
  shows "smart_store.history path float_of smart_update f0 (concat (map input_readings inputs)) f
     \<and> (sc_success c \<longrightarrow> sc_state c \<noteq> None \<and> load_smart_state float_of path f = Inr (sc_state c))"
  using assms
proof (induction inputs arbitrary: f c rule: rev_induct)
  case Nil
  then show ?case
    by (auto simp: smart_polls_def smart_collector_init_def intro: smart_store.history_nil)
next
  case (snoc i inputs)
  obtain g d where g: "smart_polls float_of path inputs (f0, smart_collector_init) = (g, d)" by force
  with snoc have hist: "smart_store.history path float_of smart_update f0 (concat (map input_readings inputs)) g"
    by simp
  have poll: "smart_poll_once float_of path (in_io i) (in_reader i) (in_now i) (g, d) = (f, c)"
    using snoc.prems(3) g by (simp add: smart_polls_def)
  have "good_input float_of path i" using snoc.prems(1) by simp
  from poll_history [OF hist snoc.prems(2) this poll] show ?case by simp
qed

section \<open>One disk over time\<close>

definition id_at :: "string \<Rightarrow> (string \<times> reading) list \<Rightarrow> string option" where
  "id_at bay disks = map_option rd_id (map_of disks bay)"

definition raw_at :: "string \<Rightarrow> string \<Rightarrow> (string \<times> reading) list \<Rightarrow> int" where
  "raw_at bay attr disks = (case map_of disks bay of None \<Rightarrow> 0
     | Some r \<Rightarrow> (case map_of (rd_raw r) attr of None \<Rightarrow> 0 | Some x \<Rightarrow> x))"

text \<open>The counter of one attribute: what was added since the first reading that was stored.\<close>

definition counted :: "string \<Rightarrow> string \<Rightarrow> string \<Rightarrow> int list \<Rightarrow> smart_state \<Rightarrow> bool" where
  "counted bay disk_id attr raws s \<longleftrightarrow>
     (\<exists>disk first now. map_of (ss_disks s) bay = Some disk \<and> rd_id disk = disk_id
        \<and> {first, now} \<subseteq> set raws \<and> first \<le> now
        \<and> map_of (rd_raw disk) attr = Some now \<and> map_of (sd_increments disk) attr = Some (now - first))"

lemma counted_mono: "counted bay i a xs s \<Longrightarrow> set xs \<subseteq> set ys \<Longrightarrow> counted bay i a ys s"
  unfolding counted_def by blast

lemma counted_step:
  assumes w: "case w of None \<Rightarrow> True | Some s \<Rightarrow> counted bay i attr xs s"
    and adv: "advance w disks now = Inr s" and "snapshot_ok disks"
    and "id_at bay disks = Some i" and "attr \<in> set (map str_int FAULT_ATTRIBUTES)"
    and mono: "\<forall>x \<in> set xs. x \<le> raw_at bay attr disks"
  shows "counted bay i attr (xs @ [raw_at bay attr disks]) s"
proof -
  let ?x = "raw_at bay attr disks"
  from assms(4) obtain r where r: "map_of disks bay = Some r" "rd_id r = i"
    by (auto simp: id_at_def)
  have keys: "map fst (rd_raw r) = map str_int FAULT_ATTRIBUTES"
    using assms(3) r(1) by (auto simp: snapshot_ok_def reading_ok_def dest: map_of_SomeD)
  then have "attr \<in> fst ` set (rd_raw r)" using assms(5) by (metis set_map)
  then obtain y where "map_of (rd_raw r) attr = Some y"
    by (metis map_of_eq_None_iff not_None_eq)
  then have x: "map_of (rd_raw r) attr = Some ?x" by (simp add: raw_at_def r(1))
  obtain d where d: "map_of (ss_disks s) bay = Some d" "advance_disk w (bay, r) = Inr (bay, d)"
    by (rule advance_lookup [OF advance_Inr(2) [OF adv] r(1)])
  have d': "rd_id d = i" "rd_raw d = rd_raw r"
    using d(2) r(2) by (auto elim!: advance_disk_Inr)
  have inc: "case same_disk w bay r of
         None \<Rightarrow> sd_increments d = map (\<lambda>(a, raw). (a, 0)) (rd_raw r)
       | Some old \<Rightarrow> mapE (increment old) (rd_raw r) = Inr (sd_increments d)"
    using d(2) by (auto elim!: advance_disk_Inr)
  have "\<exists>first. first \<in> set xs \<union> {?x} \<and> first \<le> ?x \<and> map_of (sd_increments d) attr = Some (?x - first)"
  proof (cases "same_disk w bay r")
    case None
    then have "map_of (sd_increments d) attr = Some 0"
      using inc x by (simp add: map_of_map comp_def)
    then show ?thesis by auto
  next
    case (Some old)
    then obtain p where p: "w = Some p" "map_of (ss_disks p) bay = Some old"
      by (auto simp: same_disk_def split: option.splits if_splits)
    with w obtain first last where
      old: "map_of (sd_increments old) attr = Some (last - first)" "map_of (rd_raw old) attr = Some last"
      and first: "first \<in> set xs" "last \<in> set xs"
      by (auto simp: counted_def)
    have "map_of (sd_increments d) attr = Some (last - first + max 0 (?x - last))"
      using increments_lookup [OF _ x, of old "sd_increments d"] inc Some old by auto
    then show ?thesis using first mono by auto
  qed
  with d d' x show ?thesis by (auto simp: counted_def)
qed

lemma applied_counted:
  assumes "applied smart_update None us w"
    and "\<forall>u \<in> set us. snapshot_ok (fst u) \<and> id_at bay (fst u) = Some i"
    and "sorted (map (\<lambda>u. raw_at bay attr (fst u)) us)"
    and "attr \<in> set (map str_int FAULT_ATTRIBUTES)"
  shows "case w of None \<Rightarrow> True | Some s \<Rightarrow> counted bay i attr (map (\<lambda>u. raw_at bay attr (fst u)) us) s"
  using assms
proof (induction "None :: smart_state option" us w rule: applied.induct)
  case (applied_step us w u x)
  then have "advance w (fst u) (snd u) = Inr x"
    by (cases u) (simp add: smart_update_iff)
  moreover have "case w of None \<Rightarrow> True | Some s \<Rightarrow> counted bay i attr (map (\<lambda>u. raw_at bay attr (fst u)) us) s"
    using applied_step by (simp add: sorted_append)
  ultimately show ?case
    using counted_step [where w = w and bay = bay and i = i and disks = "fst u" and now = "snd u" and s = x] applied_step.prems by (simp add: sorted_append)
next
  case (applied_skip us w u)
  then show ?case
    by (cases w) (auto simp: sorted_append intro: counted_mono)
qed simp

section \<open>A parsed snapshot is accepted\<close>

lemma ints_value_map: "ints_value m = PDict (map (\<lambda>(a, x). (a, PInt x)) m)"
  by (rule ints_value_def)

lemma counters_ok_ints:
  assumes "map fst m = map str_int FAULT_ATTRIBUTES" and "\<forall>(a, x) \<in> set m. 0 \<le> x \<and> x \<le> MAX_COUNTER"
  shows "counters_ok (ints_value m)"
proof -
  have "fst ` set (map (\<lambda>(a, x). (a, PInt x)) m) = set (map str_int FAULT_ATTRIBUTES)"
    unfolding assms(1) [symmetric] by force
  moreover have "list_all (\<lambda>(k, x). is_integer x) (map (\<lambda>(a, x). (a, PInt x)) m)"
    using assms(2) by (auto simp: list_all_iff is_integer_def)
  ultimately show ?thesis
    by (simp only: counters_ok_def ints_value_map keys_are_iff pyval.case)
qed

lemma validate_disk_value:
  assumes "reading_ok r" and "rd_id d = rd_id r" and "rd_raw d = rd_raw r"
    and "rd_temperature d = rd_temperature r"
    and "map fst (sd_increments d) = map str_int FAULT_ATTRIBUTES"
    and "\<forall>(a, x) \<in> set (sd_increments d). 0 \<le> x \<and> x \<le> MAX_COUNTER"
  shows "validate_disk (disk_value d) = Inr ()"
proof -
  have "counters_ok (ints_value (rd_raw d))" "counters_ok (ints_value (sd_increments d))"
    using assms by (auto simp: reading_ok_def intro!: counters_ok_ints)
  moreover have "is_integer (PInt (rd_temperature d))" "rd_temperature d \<le> 150"
    using assms(1,4) by (auto simp: reading_ok_def is_integer_def MAX_COUNTER_def)
  ultimately show ?thesis
    using assms(1,2) by (simp add: validate_disk_def disk_value_def keys_are_iff reading_ok_def dget_or_def)
qed

lemma first_advance:
  assumes "snapshot_ok disks"
  shows "mapE (advance_disk None) disks =
     Inr (map (\<lambda>(bay, r). (bay, reading.extend r (smart_disk.fields (map (\<lambda>(a, x). (a, 0)) (rd_raw r))))) disks)"
  by (induction disks) (auto simp: advance_disk_def Let_def)

lemma remdups_map_PStr: "length (remdups (map PStr xs)) = length (remdups xs)"
  by (simp add: length_remdups_card_conv card_image inj_on_def)

lemma first_state_valid:
  assumes "snapshot_ok disks" and "set BAYS \<subseteq> fst ` set disks"
    and "length (remdups (map (rd_id \<circ> snd) disks)) = 4" and "is_timestamp now"
    and s: "s = \<lparr>ss_last = now, ss_disks = map (\<lambda>(bay, r). (bay, reading.extend r
              (smart_disk.fields (map (\<lambda>(a, x). (a, 0)) (rd_raw r))))) disks\<rparr>"
  shows "validate_smart_state (state_value s) = Inr (state_value s)"
proof -
  let ?ds = "map (\<lambda>(bay, d). (bay, disk_value d)) (ss_disks s)"
  have "validate_disk d = Inr ()" if "(bay, d) \<in> set ?ds" for bay d
  proof -
    from that obtain r where r: "(bay, r) \<in> set disks"
      and d: "d = disk_value (reading.extend r (smart_disk.fields (map (\<lambda>(a, x). (a, 0)) (rd_raw r))))"
      by (auto simp: s)
    then have "reading_ok r" using assms(1) by (auto simp: snapshot_ok_def)
    then show ?thesis
      unfolding d by (intro validate_disk_value [of r])
        (auto simp: reading_ok_def comp_def case_prod_beta MAX_COUNTER_def)
  qed
  then have "(case x of (bay, d) \<Rightarrow> validate_disk d) = Inr ()" if "x \<in> set ?ds" for x
    using that by (cases x) (simp only: prod.case)
  then obtain us where "mapE (\<lambda>(bay, d). validate_disk d) ?ds = Inr us"
    using mapE_unit [of "\<lambda>(bay, d). validate_disk d" ?ds] by blast
  moreover have "map (\<lambda>(bay, d). dget (mapping_or_empty d) ''disk_id'') ?ds = map PStr (map (rd_id \<circ> snd) disks)"
    by (auto simp: s disk_value_def dget_or_def)
  then have "length (remdups (map (\<lambda>(bay, d). dget (mapping_or_empty d) ''disk_id'') ?ds)) = 4"
    using assms(3) remdups_map_PStr [of "map (rd_id \<circ> snd) disks"] by simp
  moreover have "fst ` set ?ds = set BAYS"
    using assms(1,2) by (force simp: snapshot_ok_def s image_image case_prod_beta)
  ultimately show ?thesis
    using assms(4) by (simp add: validate_smart_state_def state_value_def keys_are_iff dget_or_def s)
qed

lemma json_ok_finite: "json_ok float_of v \<Longrightarrow> all_finite v"
  by (induction float_of v rule: json_ok.induct) (auto simp: list_all_iff split: pyfloat.splits)

section \<open>An example\<close>

definition example_attributes :: "string list" where
  "example_attributes = [''005'', ''010'', ''184'', ''187'', ''188'', ''191'', ''194'', ''197'', ''198'', ''199'']"

definition example_row :: "string \<Rightarrow> string \<Rightarrow> string" where
  "example_row a raw = a @ '' Name_x '' @ raw @ '' 100 99 10 OK''"

definition example_bay :: "string \<Rightarrow> char \<Rightarrow> string \<Rightarrow> string list" where
  "example_bay b c raw = [''BAY '' @ b @ '' '' @ replicate 64 c]
     @ map (\<lambda>a. example_row a raw) example_attributes @ [''END_BAY'']"

definition example_snapshot :: "string \<Rightarrow> string" where
  "example_snapshot raw = py_join [CHR 0x0A] ([''NAS_SMART_1'']
     @ example_bay ''1'' CHR ''a'' raw @ example_bay ''2'' CHR ''b'' raw
     @ example_bay ''3'' CHR ''c'' raw @ example_bay ''4'' CHR ''d'' raw @ [''END''])"

definition example_disks :: "int \<Rightarrow> (string \<times> reading) list" where
  "example_disks raw = map (\<lambda>(b, c). (b, \<lparr>rd_id = replicate 64 c, rd_healthy = True, rd_temperature = raw,
     rd_raw = map (\<lambda>a. (str_int a, raw)) FAULT_ATTRIBUTES\<rparr>)) (zip BAYS ''abcd'')"

lemma example_rows:
  "smart_rows (map (\<lambda>a. example_row a ''7'') example_attributes @ ''END_BAY'' # rest) [] True
     = Inr (map (\<lambda>a. (a, 7)) [5, 10, 184, 187, 188, 191, 194, 197, 198, 199], True, ''END_BAY'' # rest)"
  by code_simp

lemma example_bay_rows:
  assumes "c \<in> set ''abcd''" and "b \<in> set BAYS" and "map_of disks b = None"
  shows "smart_bays (example_bay b c ''7'' @ rest) disks = smart_bays rest
     (disks @ [(b, \<lparr>rd_id = replicate 64 c, rd_healthy = True, rd_temperature = 7,
        rd_raw = map (\<lambda>a. (str_int a, 7)) FAULT_ATTRIBUTES\<rparr>)])"
proof -
  have ws: "list_all (\<lambda>x. \<not> py_isspace x) (replicate 64 c)" "list_all (\<lambda>x. \<not> py_isspace x) b"
    using assms(1,2) by (auto simp: py_isspace_def BAYS_def list_all_iff)
  have "split_ws (''BAY '' @ b @ '' '' @ replicate 64 c) = [''BAY'', b, replicate 64 c]"
    using ws assms(2)
      split_by_append_sep [of py_isspace "''BAY''" "CHR '' ''" "b @ '' '' @ replicate 64 c"]
      split_by_append_sep [of py_isspace b "CHR '' ''" "replicate 64 c"]
    by (auto simp: split_ws_def split_by_no_sep py_isspace_def BAYS_def)
  moreover have "is_hex64 (replicate 64 c)"
    using assms(1) by (auto simp: is_hex64_iff lower_hex_def ascii_digit_def list_all_iff)
  moreover have "reading_of i (map (\<lambda>a. (a, 7)) [5, 10, 184, 187, 188, 191, 194, 197, 198, 199]) True =
     \<lparr>rd_id = i, rd_healthy = True, rd_temperature = 7,
      rd_raw = map (\<lambda>a. (str_int a, 7)) FAULT_ATTRIBUTES\<rparr>" for i
    by (simp add: reading_of_def attr_value_def FAULT_ATTRIBUTES_def)
  ultimately show ?thesis
    using assms(2,3) example_rows [of rest]
    by (simp add: example_bay_def REQUIRED_ATTRIBUTES_def FAULT_ATTRIBUTES_def Let_def attr_value_def)
qed

definition example_lines :: "string list" where
  "example_lines = example_bay ''1'' CHR ''a'' ''7'' @ example_bay ''2'' CHR ''b'' ''7''
     @ example_bay ''3'' CHR ''c'' ''7'' @ example_bay ''4'' CHR ''d'' ''7''"

lemma list_all_replicate: "list_all P (replicate n c) \<longleftrightarrow> n = 0 \<or> P c"
  by (auto simp: list_all_iff set_replicate_conv_if)

lemma example_lines_plain:
  "\<forall>x \<in> set (''NAS_SMART_1'' # example_lines @ [''END'']). x \<noteq> [] \<and> list_all (\<lambda>c. \<not> is_linebreak c) x
     \<and> is_ascii x"
  by (auto simp: example_lines_def example_bay_def example_row_def example_attributes_def is_linebreak_def
      is_ascii_def list_all_replicate)

lemma example_parses: "parse_smart_snapshot (example_snapshot ''7'') = Inr (example_disks 7)"
proof -
  let ?lines = "''NAS_SMART_1'' # example_lines @ [''END'']"
  have data: "example_snapshot ''7'' = py_join [CHR 0x0A] ?lines"
    by (simp add: example_snapshot_def example_lines_def)
  have "smart_bays example_lines [] = Inr (example_disks 7)"
    using example_bay_rows [of _ _ _ "[]"]
    by (simp add: example_lines_def example_bay_rows BAYS_def example_disks_def)
  moreover have "is_ascii (example_snapshot ''7'')"
    using example_lines_plain set_py_join [of "[CHR 0x0A]" ?lines]
    unfolding data by (fastforce simp: is_ascii_def list_all_iff)
  moreover have "length (example_snapshot ''7'') \<le> SMART_MAX_BYTES"
    by (simp add: example_snapshot_def example_bay_def example_attributes_def example_row_def
        SMART_MAX_BYTES_def)
  moreover have "py_splitlines (example_snapshot ''7'') = ?lines"
    unfolding data using example_lines_plain by (intro py_splitlines_join) auto
  moreover have "length (remdups (map (rd_id \<circ> snd) (example_disks 7))) = 4"
    "list_all (\<lambda>b. map_of (example_disks 7) b \<noteq> None) BAYS"
    by code_simp+
  ultimately show ?thesis
    by (simp add: parse_smart_snapshot_def)
qed

definition example_input :: "smart_input" where
  "example_input = \<lparr>in_io = \<lparr>io_ok = (\<lambda>_. True), io_written = 0, io_temp = ''/data/.smart-x''\<rparr>,
     in_reader = Inr (example_snapshot ''7''), in_now = PInt 1000\<rparr>"

definition example_fs :: fs where
  "example_fs = \<lparr>fs_now = (\<lambda>_. None), fs_disk = (\<lambda>_. None), fs_symlinks = []\<rparr>"

section \<open>Properties\<close>



text \<open>
  Property C10.  A power loss in the middle of a save, after any number of its file
  operations, leaves a state file that reads as the previous state or as the new one.
\<close>

theorem smart_save_survives_power_loss:
  assumes "smart_state_data s = Inr data" and "length (utf8_encode data) \<le> SMART_MAX_BYTES"
    and "storable float_of s" and "io_temp io \<noteq> path"
    and "path \<notin> set (fs_symlinks f)" and "at_rest f path"
    and "after_crash (state_after io path (utf8_encode data) k f) path (read_file g path)"
    and "fs_symlinks g = fs_symlinks f"
  shows "load_smart_state float_of path g = load_smart_state float_of path f
     \<or> load_smart_state float_of path g = Inr (Some s)"
proof -
  have "json_loads float_of data = Inr (state_value s)"
    using smart_state_data_Inr(2) [OF assms(1)] json_roundtrip assms(3) by (simp add: storable_def)
  then show ?thesis
    using crash_old_or_new [OF assms(6,4,7)] smart_state_data_Inr(1) [OF assms(1)] assms(2,5,8)
    by (auto simp: load_smart_state_def json_loads_bytes_def utf8_roundtrip)
qed

text \<open>
  A snapshot that parses names exactly the four bays, with four different
  disks, and every counter in range; the first poll accepts it, with no increments yet.
\<close>

lemma smart_snapshot_accepted:
  assumes "parse_smart_snapshot data = Inr disks" and "is_timestamp now"
  shows "fst ` set disks = set BAYS \<and> distinct (map fst disks)
     \<and> (\<forall>(bay, r) \<in> set disks. is_hex64 (rd_id r)
          \<and> (\<forall>(a, x) \<in> set (rd_raw r). 0 \<le> x \<and> x \<le> MAX_COUNTER))
     \<and> (\<exists>s. advance None disks now = Inr s \<and>
          (\<forall>(bay, d) \<in> set (ss_disks s). \<forall>(a, i) \<in> set (sd_increments d). i = 0))"
proof -
  note ok = parse_smart_snapshot_ok [OF assms(1)]
  have "advance None disks now = Inr \<lparr>ss_last = now, ss_disks = map (\<lambda>(bay, r). (bay,
      reading.extend r (smart_disk.fields (map (\<lambda>(a, x). (a, 0)) (rd_raw r))))) disks\<rparr>"
    using first_state_valid [OF ok assms(2) refl] by (simp add: advance_def first_advance [OF ok(1)])
  moreover have "fst ` set disks = set BAYS" "distinct (map fst disks)"
    "\<forall>(bay, r) \<in> set disks. reading_ok r"
    using ok(1,2) by (auto simp: snapshot_ok_def)
  ultimately show ?thesis by (auto simp: reading_ok_def)
qed

lemma length_utf8_encode: "length (utf8_encode s) \<le> 2 * length s"
  by (induction s) (simp_all add: utf8_encode_def utf8_char_def)

definition example_state :: smart_state where
  "example_state = \<lparr>ss_last = PInt 1000, ss_disks = map (\<lambda>(bay, r). (bay, reading.extend r
     (smart_disk.fields (map (\<lambda>(a, x). (a, 0)) (rd_raw r))))) (example_disks 7)\<rparr>"

lemma example_counters_length:
  "length (json_enc json_compact (ints_value (map (\<lambda>a. (str_int a, 7)) FAULT_ATTRIBUTES))) \<le> 200"
  "length (json_enc json_compact (ints_value (map (\<lambda>a. (str_int a, 0)) FAULT_ATTRIBUTES))) \<le> 200"
  by code_simp+

lemma example_disk_length:
  assumes "(bay, d) \<in> set (ss_disks example_state)"
  shows "length (json_enc json_compact (disk_value d)) \<le> 2000 \<and> length bay = 1"
proof -
  have d: "length bay = 1" "rd_healthy d" "rd_temperature d = 7" "length (rd_id d) = 64"
    "rd_raw d = map (\<lambda>a. (str_int a, 7)) FAULT_ATTRIBUTES"
    "sd_increments d = map (\<lambda>a. (str_int a, 0)) FAULT_ATTRIBUTES"
    using assms by (auto simp: example_state_def example_disks_def BAYS_def comp_def)
  have "length (json_str (fmt_ascii json_compact) (rd_id d)) \<le> 386"
    using length_json_str [of _ "rd_id d"] d(4) by simp
  moreover have "length (json_enc json_compact (PInt 1)) \<le> 1" "length (json_enc json_compact (PInt 7)) \<le> 1"
    by code_simp+
  moreover have "length (json_str True ''disk_id'') \<le> 100"
    "length (json_str True ''healthy'') \<le> 100"
    "length (json_str True ''temperature'') \<le> 100"
    "length (json_str True ''raw'') \<le> 100"
    "length (json_str True ''increments'') \<le> 100"
    by (rule order_trans [OF length_json_str], simp)+
  ultimately show ?thesis
    using example_counters_length d
    by (simp add: disk_value_def json_compact_def del: json_enc.simps(3))
qed

lemma example_state_length: "length (json_enc json_compact (state_value example_state)) \<le> 10000"
proof -
  obtain a b c d where disks: "ss_disks example_state = [(''1'', a), (''2'', b), (''3'', c), (''4'', d)]"
    by (simp add: example_state_def example_disks_def BAYS_def)
  have len: "length (json_enc json_compact (disk_value x)) \<le> 2000" if "(bay, x) \<in> set (ss_disks example_state)"
    for bay x using example_disk_length [OF that] by simp
  have one: "length (json_enc json_compact (PInt 1)) \<le> 1" "length (json_enc json_compact (PInt 1000)) \<le> 4"
    by code_simp+
  have str: "length (json_str True ''version'') \<le> 100"
    "length (json_str True ''last_success'') \<le> 100"
    "length (json_str True ''disks'') \<le> 100"
    "length (json_str True ''1'') \<le> 100"
    "length (json_str True ''2'') \<le> 100"
    "length (json_str True ''3'') \<le> 100"
    "length (json_str True ''4'') \<le> 100"
    by (rule order_trans [OF length_json_str], simp)+
  have "ss_last example_state = PInt 1000" by (simp add: example_state_def)
  then show ?thesis
    using len [of "''1''" a] len [of "''2''" b] len [of "''3''" c] len [of "''4''" d] one str
    by (simp add: state_value_def disks json_compact_def del: json_enc.simps(3))
qed

lemma example_state_stored:
  "advance None (example_disks 7) (PInt 1000) = Inr example_state"
  "storable (\<lambda>_. FNaN) example_state"
  "smart_state_data example_state = Inr (json_enc json_compact (state_value example_state))"
  "length (utf8_encode (json_enc json_compact (state_value example_state))) \<le> SMART_MAX_BYTES"
proof -
  note ok = parse_smart_snapshot_ok [OF example_parses]
  have valid: "validate_smart_state (state_value example_state) = Inr (state_value example_state)"
    by (rule first_state_valid [OF ok, of "PInt 1000"]) (simp_all add: example_state_def is_timestamp_def)
  show adv: "advance None (example_disks 7) (PInt 1000) = Inr example_state"
    using valid by (simp add: advance_def first_advance [OF ok(1)] example_state_def)
  show storable: "storable (\<lambda>_. FNaN) example_state"
    by (rule advance_storable [OF adv ok(1)]) simp
  show "smart_state_data example_state = Inr (json_enc json_compact (state_value example_state))"
    using valid storable by (simp add: smart_state_data_def json_dumps_finite_def storable_def json_ok_finite)
  show "length (utf8_encode (json_enc json_compact (state_value example_state))) \<le> SMART_MAX_BYTES"
    using length_utf8_encode [of "json_enc json_compact (state_value example_state)"]
      example_state_length by (simp add: SMART_MAX_BYTES_def)
qed

theorem smart_save_survives_power_loss_witness:
  "load_smart_state (\<lambda>_. FNaN) ''/data/smart'' (state_after (in_io example_input) ''/data/smart''
      (utf8_encode (json_enc json_compact (state_value example_state))) 9 example_fs)
     \<in> {load_smart_state (\<lambda>_. FNaN) ''/data/smart'' example_fs, Inr (Some example_state)}"
proof -
  let ?f = "state_after (in_io example_input) ''/data/smart''
      (utf8_encode (json_enc json_compact (state_value example_state))) 9 example_fs"
  have "after_crash ?f ''/data/smart'' (read_file ?f ''/data/smart'')"
    by (auto simp: after_crash_def read_file_def split: option.split)
  moreover have "fs_symlinks ?f = fs_symlinks example_fs"
    by (simp add: state_after_def SAVE_OPS_def put_file_def)
  ultimately show ?thesis
    using smart_save_survives_power_loss [OF example_state_stored(3,4,2), of "in_io example_input"
        "''/data/smart''" example_fs 9 ?f]
    by (simp add: example_input_def at_rest_def example_fs_def)
qed

end
