(* ===== verification/Py_Ipv4.thy ===== *)
theory Py_Ipv4
  imports Py_Values
begin

text \<open>
  \<open>ipaddress.IPv4Address\<close> as the scripts use it: four decimal octets without leading
  zeros, the address classes, and \<open>str\<close>, which for a valid text is the text itself
  (\<open>ipv4_str_parse\<close>).  The network lists are those of the library's documentation.
\<close>

definition octet_ok :: "string \<Rightarrow> bool" where
  [py_defs]: "octet_ok s \<longleftrightarrow> py_isdecimal s \<and> length s \<le> 3 \<and> (length s > 1 \<longrightarrow> hd s \<noteq> CHR ''0'')
     \<and> nat_of_digits s \<le> 255"

definition ipv4_parse :: "string \<Rightarrow> nat list option" where
  [py_defs]: "ipv4_parse s =
     (let parts = split_on CHR ''.'' s in
      if length parts = 4 \<and> list_all octet_ok parts then Some (map nat_of_digits parts) else None)"

definition ipv4_str :: "nat list \<Rightarrow> string" where
  [py_defs]: "ipv4_str ip = py_join ''.'' (map str_nat ip)"

definition ipv4_int :: "nat list \<Rightarrow> nat" where
  [py_defs]: "ipv4_int ip = foldl (\<lambda>a b. 256 * a + b) 0 ip"

text \<open>Membership in a network given by its address and prefix length.\<close>

definition in_net :: "nat list \<Rightarrow> nat list \<times> nat \<Rightarrow> bool" where
  [py_defs]: "in_net ip net \<longleftrightarrow>
     ipv4_int ip div 2 ^ (32 - snd net) = ipv4_int (fst net) div 2 ^ (32 - snd net)"

definition PRIVATE_NETWORKS :: "(nat list \<times> nat) list" where
  [py_defs]: "PRIVATE_NETWORKS =
     [([0,0,0,0], 8), ([10,0,0,0], 8), ([127,0,0,0], 8), ([169,254,0,0], 16), ([172,16,0,0], 12),
      ([192,0,0,0], 24), ([192,0,0,170], 31), ([192,0,2,0], 24), ([192,168,0,0], 16),
      ([198,18,0,0], 15), ([198,51,100,0], 24), ([203,0,113,0], 24), ([240,0,0,0], 4),
      ([255,255,255,255], 32)]"

definition PRIVATE_EXCEPTIONS :: "(nat list \<times> nat) list" where
  [py_defs]: "PRIVATE_EXCEPTIONS = [([192,0,0,9], 32), ([192,0,0,10], 32)]"

definition is_private :: "nat list \<Rightarrow> bool" where
  [py_defs]: "is_private ip \<longleftrightarrow> list_ex (in_net ip) PRIVATE_NETWORKS \<and> \<not> list_ex (in_net ip) PRIVATE_EXCEPTIONS"

definition is_loopback :: "nat list \<Rightarrow> bool" where [py_defs]: "is_loopback ip = in_net ip ([127,0,0,0], 8)"
definition is_link_local :: "nat list \<Rightarrow> bool" where [py_defs]: "is_link_local ip = in_net ip ([169,254,0,0], 16)"
definition is_multicast :: "nat list \<Rightarrow> bool" where [py_defs]: "is_multicast ip = in_net ip ([224,0,0,0], 4)"
definition is_reserved :: "nat list \<Rightarrow> bool" where [py_defs]: "is_reserved ip = in_net ip ([240,0,0,0], 4)"
definition is_unspecified :: "nat list \<Rightarrow> bool" where [py_defs]: "is_unspecified ip = (ip = [0,0,0,0])"

section \<open>The text of an address\<close>

lemma str_nat_unfold: "n < 10 \<Longrightarrow> str_nat n = [digit_char n]"
  "10 \<le> n \<Longrightarrow> str_nat n = str_nat (n div 10) @ [digit_char (n mod 10)]"
  by (simp_all add: str_nat.simps [of n])

lemma digit_char_val: "ascii_digit c \<Longrightarrow> digit_char (digit_val c) = c"
  by (simp add: digit_char_def digit_val_def ascii_digit_def char_of_eq)

lemma digit_val_less: "ascii_digit c \<Longrightarrow> digit_val c < 10"
  by (auto simp: digit_val_def ascii_digit_def)

lemma nat_of_digits_snoc: "nat_of_digits (s @ [c]) = 10 * nat_of_digits s + digit_val c"
  by (simp add: nat_of_digits_def)

lemma digit_char_zero: "digit_char 0 = CHR ''0''"
  by (simp add: digit_char_def char_of_eq)

text \<open>A numeral without a leading zero is the numeral of its value.\<close>

lemma str_nat_of_digits:
  assumes "s \<noteq> []" and "list_all ascii_digit s" and "length s > 1 \<longrightarrow> hd s \<noteq> CHR ''0''"
  shows "str_nat (nat_of_digits s) = s"
  using assms
proof (induction s rule: rev_induct)
  case (snoc c s)
  then have c: "ascii_digit c" "digit_val c < 10" by (auto intro: digit_val_less)
  show ?case
  proof (cases "s = []")
    case True
    with c show ?thesis by (simp add: nat_of_digits_def str_nat_unfold digit_char_val)
  next
    case False
    with snoc have s: "str_nat (nat_of_digits s) = s" by (cases s) auto
    have "nat_of_digits s \<noteq> 0"
    proof
      assume "nat_of_digits s = 0"
      with s have "s = [CHR ''0'']" by (simp add: str_nat_unfold digit_char_zero)
      with snoc.prems(3) show False by simp
    qed
    with c s show ?thesis
      by (simp add: nat_of_digits_snoc str_nat_unfold(2) digit_char_val)
  qed
qed simp

lemma ipv4_str_parse:
  assumes "ipv4_parse s = Some ip"
  shows "ipv4_str ip = s"
proof -
  have "map str_nat (map nat_of_digits parts) = parts" if "list_all octet_ok parts" for parts
    using that by (induction parts) (auto simp: octet_ok_def py_isdecimal_def intro: str_nat_of_digits)
  with assms show ?thesis
    using py_join_split [of "CHR ''.''" s]
    by (auto simp: ipv4_parse_def ipv4_str_def Let_def split: if_splits)
qed

end
