(* ===== verification/Nas_Patterns.thy ===== *)
theory Nas_Patterns
  imports Py_Regex Py_Ipv4
begin

text \<open>
  \<open>scripts/nas_log_normal_patterns.py\<close>: which log messages are reviewed as normal and are
  counted instead of sent.  The regular expressions are written out as \<open>rx\<close> values, piece
  by piece in the order of their text.
\<close>

section \<open>Pieces\<close>

definition digit :: rx where [py_defs]: "digit = Cls ascii_digit"
definition digits :: rx where [py_defs]: "digits = rplus digit"
definition hexes :: rx where
  [py_defs]: "hexes = rplus (Cls (\<lambda>c. ascii_digit c \<or> c \<in> set ''abcdefABCDEF''))"
definition one_of :: "string \<Rightarrow> rx" where [py_defs]: "one_of s = Cls (\<lambda>c. c \<in> set s)"
definition spaces :: rx where [py_defs]: "spaces = rstar (lit_char CHR '' '')"

definition quoted :: "string \<Rightarrow> string" where [py_defs]: "quoted s = [CHR 0x22] @ s @ [CHR 0x22]"
definition squoted :: "string \<Rightarrow> string" where [py_defs]: "squoted s = [CHR 0x27] @ s @ [CHR 0x27]"

definition PREFIX :: rx where
  [py_defs]: "PREFIX = rseq [rtimes 4 digit, rlit ''-'', rtimes 2 digit, rlit ''-'', rtimes 2 digit,
     rlit '' '', rtimes 2 digit, rlit '':'', rtimes 2 digit, rlit '':'', rtimes 2 digit,
     rlit '' ['', rplus (Cls (\<lambda>c. c \<noteq> CHR '']'' \<and> c \<noteq> CHR 0x0D \<and> c \<noteq> CHR 0x0A)), rlit ''] '']"

definition KERNEL :: rx where
  [py_defs]: "KERNEL = rseq [rlit ''<'', Grp 1 (one_of ''01234567''), rlit ''>['', rstar (Cls py_isspace),
     digits, rlit ''.'', digits, rlit ''] '']"

definition BAD_LEVELS :: "string list" where
  [py_defs]: "BAD_LEVELS = [''warn'', ''warning'', ''error'', ''critical'', ''alert'', ''emerg'']"

section \<open>Syslog\<close>

definition SYSLOG_EVENT :: rx where
  [py_defs]: "SYSLOG_EVENT = rseq [rlit ''qlogd['', digits, rlit (''] : event log: Users: System, Source IP: 127.0.0.1, ''
     @ ''Computer name: localhost, Content: '')]"

definition SYSLOG_END :: rx where
  [py_defs]: "SYSLOG_END = Cat (ropt (lit_char (CHR 0x00))) EndOfText"

text \<open>A login of the collector itself is normal when its address is configured.\<close>

definition syslog_normal_patterns :: "string \<Rightarrow> (string \<times> rx) list res" where
  [py_defs]: "syslog_normal_patterns ssh_source =
     (let smart = (\<lambda>what. rseq [SYSLOG_EVENT, rlit ''[Disk S.M.A.R.T.] Host: Disk '', one_of ''1234'',
            rlit '' '', Grp 1 (ralt [rlit ''Rapid'', rlit ''Complete'']), rlit what, SYSLOG_END]);
          patterns = [(''smart_started'', smart '' Test started.''),
            (''smart_success'', smart '' Test result: Completed without error.''),
            (''malware_scan'', rseq [SYSLOG_EVENT, rlit ''[Malware Remover] '',
               Grp 1 (ralt [rlit ''Started scanning'', rlit ''Scan completed'']), rlit ''.'', SYSLOG_END])] in
      if ssh_source = [] then Inr patterns
      else (case ipv4_parse ssh_source of
          None \<Rightarrow> Inl (ValueError ''AddressValueError'')
        | Some ip \<Rightarrow> Inr (patterns @ [(''collector_login'', rseq [rlit ''qlogd['', digits,
             rlit ''] : conn log: Users: admin, Source IP: '', rlit (ipv4_str ip),
             rlit '', Computer name: ---, Connection type: SSH, Accessed resources: ---, Action: '',
             Grp 1 (ralt [rlit ''Login OK'', rlit ''Logout'']), SYSLOG_END])])))"

section \<open>The rules on message text\<close>

definition TEXT_RULES :: "(string \<times> string \<times> rx) list" where
  [py_defs]: "TEXT_RULES =
   [(''storage'', ''raid_healthy'', rseq [rlit ''md_get_status: /dev/md'', digits,
       rlit '' : status=0, progress=100.000000.'']),
    (''storage'', ''disk_conf_ok'', rlit ''NAS_Disk_Check_Conf: ret = 0, wwnP = (null).''),
    (''storage'', ''disk_conf_call'', rseq [rlit ''NAS_Disk_Check_Conf: got call with (0x'', one_of ''1234'',
       rlit '', /mnt/HDA_ROOT/.conf).'']),
    (''storage'', ''disk_conf_match'', rseq [rlit ''NAS_Disk_Check_Conf: HAL disk WWN('',
       Grp 1 (rseq [rlit ''0x'', one_of ''1234'']), rlit ''): '',
       rtimes 16 (Cls (\<lambda>c. ascii_digit c \<or> c \<in> set ''abcdefABCDEF'')),
       rlit '' match conf WWN, the last dev_id('', Ref 1, rlit '')!'']),
    (''storage'', ''volume_enumeration'', rseq [rlit ''Do_Get_Volume_Func: index = '', digits,
       rlit '', count='', digits, rlit ''.'']),
    (''hal'', ''device_lookup'', rseq [rlit ''PD_Get_Sys_Name: Retrieve pd_sys_name value from /etc/enclosure_'',
       digits, rlit ''.conf!'']),
    (''sdmd'', ''device_enumeration'', rseq [rlit ''SDM: '', Grp 1 (ralt
       [rseq [rlit ''total enc = '', digits],
        rseq [rlit ''scan '', digits, rlit ''th enc, total enc = '', digits],
        rseq [rlit ''enc = '', digits, rlit '' is '', ropt (Grp 2 (rlit ''not '')), rlit ''internal.''],
        rseq [rlit ''start predict enc = '', digits, rlit '' port = '', digits, rlit '' device'']])]),
    (''sdmd'', ''health_prediction_started'', rlit ''SDM_Health_Predict:Start to predict sata disk''),
    (''kernel'', ''raid_selftest_ok'', rseq [rlit ''raid6test: '', Grp 1 (ralt
       [rseq [rlit ''test_disks('', digits, rlit '', '', digits, rlit ''): faila='', spaces, digits,
          rlit ''('', one_of ''DPQ'', rlit '')'', rplus (lit_char CHR '' ''), rlit ''failb='', spaces, digits,
          rlit ''('', one_of ''DPQ'', rlit '')'', rplus (lit_char CHR '' ''), rlit ''OK''],
        rseq [rlit ''complete ('', digits, rlit '' tests, 0 failures)'']])])]"

definition PATTERN_SMART :: rx where
  [py_defs]: "PATTERN_SMART = rseq [rlit ''id = '', Grp 1 digits, rlit '', name = '',
     Grp 2 (rplus (Cls (\<lambda>c. ascii_alnum c \<or> c = CHR ''_'' \<or> c = CHR ''-''))), rlit '', status_flag = 0x'',
     rplus (Cls lower_hex), rlit '', value = '', Grp 3 digits, rlit '',worst = '', Grp 4 digits,
     rlit '', thresh = '', Grp 5 digits, rlit '',raw = '', Grp 6 digits]"

definition ZERO_ATTRIBUTES :: "(int \<times> string) list" where
  [py_defs]: "ZERO_ATTRIBUTES =
    [(5, ''Retired_Block_Count''), (10, ''Spin_Retry_Count''), (183, ''Runtime_Bad_Block''),
     (184, ''End-to-End_Error''), (187, ''Reported_Uncorrect_Error''), (188, ''Command_Timeout''),
     (189, ''High_Fly_Writes''), (191, ''G-Sense_Error_Rate''), (197, ''Current_Pending_Sector''),
     (198, ''Uncorrectable_Sector_Count''), (199, ''SATA_R-Error_Count'')]"

definition COUNTER_ATTRIBUTES :: "(int \<times> string) list" where
  [py_defs]: "COUNTER_ATTRIBUTES =
    [(1, ''Raw_Read_Error_Rate''), (3, ''Spin_Up_Time''), (4, ''Start_Stop_Count''),
     (7, ''Seek_Error_Rate''), (9, ''Power-On_Hours''), (12, ''Power_Cycle_Count''),
     (192, ''Power-Off_Retract_Count''), (193, ''Load_Cycle_Count''), (195, ''ECC_On-The-Fly_Error''),
     (240, ''Head_Flying_Hours''), (241, ''Total_LBA_Written''), (242, ''Total_LBA_Read'')]"

definition READ_COMMANDS :: "string list" where
  [py_defs]: "READ_COMMANDS =
    [''/sbin/lvs vg1/tp1 -o lv_attr --noheadings 2>>/dev/null | /bin/sed s/^[[:space:]]*// 2>>/dev/null'',
     ''/bin/df -k /share/CACHEDEV1_DATA 2>>/dev/null | /usr/bin/tail -n1 | /bin/awk -F '' @ squoted '' ''
       @ '' '' @ squoted ''{print $(NF-2)}'',
     ''/sbin/lvs /dev/mapper/vg1-tp1 --unit S -o chunk_size --noheadings 2>>/dev/null | /bin/sed s/^[[:space:]]*// 2>>/dev/null'']"

definition NEW_READ_COMMANDS :: "string list" where
  [py_defs]: "NEW_READ_COMMANDS =
    [''/bin/df -k /share/CACHEDEV1_DATA 2>>/dev/null | /usr/bin/tail -n1 | /bin/awk -F '' @ squoted '' ''
       @ '' '' @ squoted ''{print $(NF-3)}'',
     ''/sbin/vgs vg1 --unit S -o vg_size --noheadings 2>>/dev/null | /bin/sed s/^[[:space:]]*// 2>>/dev/null'',
     ''/sbin/vgs vg1 --unit S -o vg_free --noheadings 2>>/dev/null | /bin/sed s/^[[:space:]]*// 2>>/dev/null'',
     ''/sbin/lvs /dev/mapper/vg1-tp1 --unit S -o lv_size --noheadings 2>>/dev/null | /bin/sed s/^[[:space:]]*// 2>>/dev/null'',
     ''/sbin/lvs /dev/mapper/vg1-tp1 -o used_data_blocks --noheadings  2>>/dev/null | /bin/sed s/^[[:space:]]*//  2>>/dev/null'',
     ''/sbin/dmsetup info --noheadings --columns -o minor vg1-tp1-tpool 2>>/dev/null'',
     ''/sbin/vgs vg1 -o vg_extent_size --noheadings 2>>/dev/null  | /bin/sed s/^[[:space:]]*//  2>>/dev/null'',
     ''/sbin/lvs -a /dev/mapper/vg1-tp1_tmeta -o lv_size --unit S 2>>/dev/null | /bin/awk ''
       @ squoted ''NR==2 {print $1}'' @ '' 2>>/dev/null'']"

definition READ_SUCCESS :: "string list" where
  [py_defs]: "READ_SUCCESS = map (\<lambda>cmd. ''Perform cmd '' @ quoted cmd @ '' OK, cmd_rsp=0, reason code:0.'')
     (READ_COMMANDS @ NEW_READ_COMMANDS)"

definition ENUM :: rx where
  [py_defs]: "ENUM = rseq [rlit ''Volume_Enumerate_'', Grp 1 (ralt [rlit ''General'', rlit ''Data'']),
     rlit ''_Volumes: got called with (0x'', hexes, rlit '', 772).'']"

definition HD :: rx where
  [py_defs]: "HD = rseq [rlit ''SystemHdTableEx_handler: hdindex='', one_of ''1234'', rlit '', model=ST8000DM004-2CX188.'']"

definition BLK :: rx where
  [py_defs]: "BLK = rlit (''Blk_Dev_Generate_Mount_Point: mount point for '' @ quoted ''/dev/mapper/cachedev1''
     @ '' is '' @ quoted ''/share/CACHEDEV1_DATA'' @ '', is_internal is 1.'')"

definition POOLSIZE :: rx where
  [py_defs]: "POOLSIZE = rseq [rlit ''Pool_TP_Get_Size: [Pool(1)] *lldatalP: '', Grp 1 digits, rlit '', *llfreeP: '',
     Grp 2 digits, rlit '', *llmetaP: '', Grp 3 digits, rlit '', *llmeta_spareP: '', Grp 4 digits]"

definition POOLFULL :: rx where
  [py_defs]: "POOLFULL = rseq [rlit ''Pool_Is_Full: [Pool(1)] full: 0, *thin_lv_exist: 0, *snapshot_exist: 0, free_size: '',
     Grp 1 digits, rlit '', limit: '', Grp 2 digits, rlit ''.'']"

definition LED :: rx where
  [py_defs]: "LED = rseq [rlit ''GPIO_Set_NAS_Status_LED: event = 0x'', ralt [rlit ''1000'', rlit ''2000''],
     rlit '',status = 0, value = 0x0, formatting_count = 0'']"

section \<open>The decision\<close>

definition group_int :: "rx_state \<Rightarrow> nat \<Rightarrow> int" where
  [py_defs]: "group_int m i = int (nat_of_digits (group (snd (snd m)) i))"

definition storage_pattern :: "string \<Rightarrow> string option" where
  [py_defs]: "storage_pattern body =
     (if body \<in> set READ_SUCCESS then Some ''storage_read_success''
      else if re_fullmatch ENUM body \<noteq> None then Some ''storage_volume_enumerate''
      else if re_fullmatch HD body \<noteq> None then Some ''storage_system_hd_table_ex''
      else if re_fullmatch BLK body \<noteq> None then Some ''storage_blk_dev_mount''
      else (case re_fullmatch POOLSIZE body of
          Some m \<Rightarrow>
            (let total = group_int m 1; free = group_int m 2; meta = group_int m 3; spare = group_int m 4 in
             if total > 0 \<and> 0 < free \<and> free \<le> total \<and> meta > 0 \<and> spare = 0
             then Some ''storage_pool_tp_get_size'' else None)
        | None \<Rightarrow>
            (case re_fullmatch POOLFULL body of
               Some m \<Rightarrow>
                 (let free = group_int m 1; limit = group_int m 2 in
                  if limit > 0 \<and> free > limit then Some ''storage_pool_is_full'' else None)
             | None \<Rightarrow> None)))"

definition hal_pattern :: "string \<Rightarrow> string option" where
  [py_defs]: "hal_pattern body =
     (if re_fullmatch LED body \<noteq> None then Some ''hal_gpio_led''
      else (case re_fullmatch PATTERN_SMART body of
          None \<Rightarrow> None
        | Some m \<Rightarrow>
            (let ident = group_int m 1; name = group (snd (snd m)) 2; smart_value = group_int m 3;
                 worst = group_int m 4; threshold = group_int m 5; raw = group_int m 6 in
             if smart_value \<le> threshold \<or> (threshold > 0 \<and> worst \<le> threshold) then None
             else if map_of ZERO_ATTRIBUTES ident = Some name \<and> raw = 0 then Some ''smart_counter_zero''
             else if map_of COUNTER_ATTRIBUTES ident = Some name then Some ''smart_attribute_healthy''
             else if (ident, name) \<in> {(190, ''Airflow_Temperature_Cel''), (194, ''Temperature_Celsius'')}
                 \<and> 1 \<le> raw mod 256 \<and> raw mod 256 \<le> 50
             then Some ''smart_temperature_normal''
             else None)))"

definition text_rule :: "string \<Rightarrow> string \<Rightarrow> string option" where
  [py_defs]: "text_rule kind body =
     map_option (\<lambda>(source, name, regex). name)
       (find (\<lambda>(source, name, regex). source = kind \<and> re_fullmatch regex body \<noteq> None) TEXT_RULES)"

definition strip_prefix :: "string \<Rightarrow> string" where
  [py_defs]: "strip_prefix message = (case re_match PREFIX message of
     None \<Rightarrow> message | Some (b, rest, caps) \<Rightarrow> rest)"

text \<open>The kernel's level; \<open>None\<close> when the message is a warning or worse.\<close>

definition kernel_body :: "string \<Rightarrow> string option" where
  [py_defs]: "kernel_body body = (case re_match KERNEL body of
       None \<Rightarrow> Some body
     | Some m \<Rightarrow> if group_int m 1 \<le> 4 then None else Some (fst (snd m)))"

definition normal_pattern :: "string \<Rightarrow> string \<Rightarrow> string \<Rightarrow> string \<Rightarrow> string option res" where
  [py_defs]: "normal_pattern kind message level ssh_source =
     (if level \<in> set BAD_LEVELS then Inr None
      else if kind = ''syslog'' then
        (if level \<noteq> ''info'' then Inr None
         else bindE (syslog_normal_patterns ssh_source) (\<lambda>patterns.
           Inr (map_option fst (find (\<lambda>(name, regex). re_fullmatch regex message \<noteq> None) patterns))))
      else
        (case (if kind = ''kernel'' then kernel_body (strip_prefix message) else Some (strip_prefix message)) of
           None \<Rightarrow> Inr None
         | Some body \<Rightarrow>
             (case text_rule kind body of
                Some name \<Rightarrow> Inr (Some name)
              | None \<Rightarrow>
                  (if kind = ''storage'' then Inr (storage_pattern body)
                   else if kind = ''hal'' then Inr (hal_pattern body)
                   else Inr None))))"

end
