(* ===== verification/Nas_Logs.thy ===== *)
theory Nas_Logs
  imports Nas_Patterns Py_Json_Roundtrip
begin

text \<open>
  \<open>scripts/nas_file_logs_core.py\<close>: decoding a snapshot of the NAS's log files, finding the
  place in each rotated log where the last delivery stopped, and preparing the
  outbox.  Outside the model are SHA-256 (\<open>sha\<close>), the UTF-8 decoder with replacement (\<open>text\<close>)
  and the timestamp formatter (\<open>iso\<close>), which the definitions take in the record
  \<open>log_env\<close>.
\<close>

section \<open>Sources and snapshots\<close>

definition MAX_FILE :: nat where [py_defs]: "MAX_FILE = 2 * 1024 * 1024"
definition MAX_SNAPSHOT :: nat where [py_defs]: "MAX_SNAPSHOT = 24 * 1024 * 1024 + 16384"
definition MAX_STATE :: nat where [py_defs]: "MAX_STATE = 64 * 1024 * 1024"

definition SOURCES :: "(string \<times> string \<times> string list) list" where
  [py_defs]: "SOURCES =
    [(''kernel'', ''/mnt/HDA_ROOT/.logs/kmsg'', [''current'', ''1'', ''2'']),
     (''samba'', ''/usr/local/samba/var/log.samba'', [''current'', ''1'', ''2'']),
     (''smbd'', ''/usr/local/samba/var/log.smbd'', [''current'', ''old'']),
     (''nmbd'', ''/var/log/log.nmbd'', [''current'', ''old'']),
     (''winbindd'', ''/usr/local/samba/var/log.winbindd-idmap'', [''current'', ''old'']),
     (''storage'', ''/var/log/storage_lib.log'', [''current'', ''old'']),
     (''hal'', ''/var/log/hal_lib.log'', [''current'', ''old'']),
     (''hal_daemon'', ''/var/log/hal_daemon.log'', [''current'', ''old'']),
     (''sdmd'', ''/var/log/SDMD.log'', [''current'', ''old'']),
     (''storage_util'', ''/var/log/storage_util.log'', [''current'']),
     (''iscsi'', ''/var/log/iscsi_util.log'', [''current''])]"

definition SLOTS :: "(string \<times> string) list" where
  [py_defs]: "SLOTS = concat (map (\<lambda>(kind, path, gens). map (\<lambda>gen. (kind, gen)) gens) SOURCES)"

definition SAMBA_KINDS :: "string list" where
  [py_defs]: "SAMBA_KINDS = [''samba'', ''smbd'', ''nmbd'', ''winbindd'']"

definition ascii_space :: "char \<Rightarrow> bool" where
  [py_defs]: "ascii_space c \<longleftrightarrow> c = CHR 0x20 \<or> (9 \<le> ord_of c \<and> ord_of c \<le> 13)"

definition SAMBA_HEADER :: rx where
  [py_defs]: "SAMBA_HEADER = rseq [rlit ''['', rtimes 4 digit, rlit ''/'', rtimes 2 digit, rlit ''/'',
     rtimes 2 digit, rlit '' '', rtimes 2 digit, rlit '':'', rtimes 2 digit, rlit '':'', rtimes 2 digit]"

definition HAL_DATE :: rx where
  [py_defs]: "HAL_DATE = rseq
     [Grp 1 (ralt (map rlit [''Mon'', ''Tue'', ''Wed'', ''Thu'', ''Fri'', ''Sat'', ''Sun''])), rlit '' '',
      Grp 2 (ralt (map rlit [''Jan'', ''Feb'', ''Mar'', ''Apr'', ''May'', ''Jun'', ''Jul'', ''Aug'', ''Sep'',
        ''Oct'', ''Nov'', ''Dec''])), rplus (lit_char CHR '' ''), digits, rlit '' '',
      rplus (Cls (\<lambda>c. ascii_digit c \<or> c = CHR '':'')), rlit '' '', rtimes 4 digit,
      rstar (Cls ascii_space), EndOfText]"

record file_rec =
  fr_dev :: int
  fr_inode :: int
  fr_mtime :: int
  fr_data :: string

type_synonym snapshot = "((string \<times> string) \<times> file_rec option) list"

definition snap :: "snapshot \<Rightarrow> string \<Rightarrow> string \<Rightarrow> file_rec option" where
  [py_defs]: "snap s kind gen = (case map_of s (kind, gen) of None \<Rightarrow> None | Some r \<Rightarrow> r)"

definition log_bad :: "string \<Rightarrow> 'a res" where [py_defs]: "log_bad msg = Inl (ValueError msg)"

definition header_number :: "string \<Rightarrow> bool" where
  [py_defs]: "header_number s \<longleftrightarrow> re_fullmatch (Rep digit 1 (Some 18)) s \<noteq> None"

text \<open>One file header after another; the argument is the data from the current position on.\<close>

fun parse_slots :: "(string \<times> string) list \<Rightarrow> string \<Rightarrow> snapshot \<Rightarrow> (snapshot \<times> string) res" where
  "parse_slots [] rest records = Inr (records, rest)"
| "parse_slots ((kind, gen) # slots) rest records =
     (let header = takeWhile (\<lambda>c. c \<noteq> CHR 0x0A) rest; body = drop (Suc (length header)) rest;
          fields = split_on CHR '' '' header in
      if length header \<ge> 256 \<or> length header \<ge> length rest then log_bad ''truncated header''
      else if fields = [''M'', kind, gen] then
        (if gen = ''current'' then log_bad ''current file missing''
         else parse_slots slots body (records @ [((kind, gen), None)]))
      else if length fields \<noteq> 7 \<or> take 3 fields \<noteq> [''F'', kind, gen]
         \<or> \<not> list_all header_number (drop 3 fields)
      then log_bad ''invalid file header''
      else
       (let size = nat_of_digits (fields ! 5) in
        if size > MAX_FILE \<or> size > length body then log_bad ''invalid file length''
        else parse_slots slots (drop size body)
          (records @ [((kind, gen), Some \<lparr>fr_dev = int (nat_of_digits (fields ! 3)),
              fr_inode = int (nat_of_digits (fields ! 4)), fr_mtime = int (nat_of_digits (fields ! 6)),
              fr_data = take size body\<rparr>)])))"

definition parse_log_snapshot :: "string \<Rightarrow> snapshot res" where
  [py_defs]: "parse_log_snapshot data =
     (if length data > MAX_SNAPSHOT \<or> \<not> startswith data (''NASLOG1'' @ [CHR 0x0A]) then log_bad ''invalid snapshot''
      else bindE (parse_slots SLOTS (drop 8 data) []) (\<lambda>(records, rest).
        if rest \<noteq> ''END'' @ [CHR 0x0A] then log_bad ''incomplete or trailing snapshot'' else Inr records))"

section \<open>Records\<close>

definition newline :: char where [py_defs]: "newline = CHR 0x0A"

text \<open>The lines from an offset on, with the offset behind each; a rotated file gives its last
  line even when it has no newline.\<close>

fun lines_from :: "string list \<Rightarrow> nat \<Rightarrow> (string \<times> nat) list" where
  "lines_from [] pos = []"
| "lines_from (part # parts) pos =
     (part @ [newline], pos + length part + 1) # lines_from parts (pos + length part + 1)"

definition log_lines :: "string \<Rightarrow> nat \<Rightarrow> bool \<Rightarrow> (string \<times> nat) list" where
  [py_defs]: "log_lines data offset rotated =
     (let lines = lines_from (butlast (split_on newline (drop offset data))) offset;
          pos = (if lines = [] then offset else snd (last lines)) in
      if rotated \<and> pos < length data then lines @ [(drop pos data, length data)] else lines)"

record log_group =
  lg_raw :: string
  lg_end :: nat
  lg_header :: bool
  lg_count :: nat

definition is_header :: "string \<Rightarrow> string \<Rightarrow> bool" where
  [py_defs]: "is_header kind raw \<longleftrightarrow>
     (if kind \<in> set SAMBA_KINDS then re_match SAMBA_HEADER raw \<noteq> None
      else kind = ''hal_daemon'' \<and> re_match HAL_DATE raw \<noteq> None)"

definition add_line :: "string \<Rightarrow> log_group list \<Rightarrow> string \<times> nat \<Rightarrow> log_group list" where
  [py_defs]: "add_line kind groups line =
     (let (raw, pos) = line; header = is_header kind raw in
      if kind \<in> set SAMBA_KINDS \<or> kind = ''hal_daemon'' then
        (if header \<or> groups = []
         then groups @ [\<lparr>lg_raw = raw, lg_end = pos, lg_header = header, lg_count = 1\<rparr>]
         else (let g = last groups in
               butlast groups @ [g\<lparr>lg_raw := lg_raw g @ raw, lg_end := pos, lg_count := lg_count g + 1\<rparr>]))
      else groups @ [\<lparr>lg_raw = raw, lg_end = pos, lg_header = False, lg_count = 1\<rparr>])"

definition completed_records :: "string \<Rightarrow> nat \<Rightarrow> string \<Rightarrow> int \<Rightarrow> bool \<Rightarrow> (string \<times> nat) list" where
  [py_defs]: "completed_records data offset kind seen_size rotated =
     (let groups = foldl (add_line kind) [] (log_lines data offset rotated);
          groups = (if groups \<noteq> [] \<and> lg_header (last groups) \<and> lg_count (last groups) = 1 \<and> \<not> rotated
                       \<and> seen_size \<noteq> int (length data)
                    then butlast groups else groups)
      in map (\<lambda>g. (lg_raw g, lg_end g)) groups)"

section \<open>The state\<close>

record cursor =
  cu_dev :: int
  cu_inode :: int
  cu_offset :: nat
  cu_sha :: string
  cu_size_seen :: nat

record log_entry =
  le_kind :: string
  le_level :: string
  le_ns :: int
  le_line :: string

type_synonym batch = "log_entry list"

record log_core =
  st_cursors :: "(string \<times> cursor) list"
  st_last_ns :: int
  st_last_success :: pyval
  st_sent :: int
  st_gaps :: int
  st_normal :: "(string \<times> int) list"

record log_state = log_core +
  st_pending :: "(batch list \<times> log_core) option"

definition initial_core :: log_core where
  [py_defs]: "initial_core = \<lparr>st_cursors = [], st_last_ns = 0, st_last_success = PInt 0, st_sent = 0,
     st_gaps = 0, st_normal = []\<rparr>"

definition with_pending :: "log_core \<Rightarrow> (batch list \<times> log_core) option \<Rightarrow> log_state" where
  [py_defs]: "with_pending c p = log_core.extend c (log_state.fields p)"

definition initial_state :: log_state where
  [py_defs]: "initial_state = with_pending initial_core None"

subsection \<open>As JSON values\<close>

definition cursor_value :: "cursor \<Rightarrow> pyval" where
  [py_defs]: "cursor_value c = PDict
     [(''dev'', PInt (cu_dev c)), (''inode'', PInt (cu_inode c)), (''offset'', PInt (int (cu_offset c))),
      (''sha256'', PStr (cu_sha c)), (''size_seen'', PInt (int (cu_size_seen c)))]"

definition stream_value :: "log_entry \<Rightarrow> pyval" where
  [py_defs]: "stream_value e = PDict
     [(''stream'', PDict [(''environment'', PStr ''production''), (''source'', PStr ''qnap-filelog''),
        (''service_name'', PStr ''qnap-nas''), (''log_kind'', PStr (le_kind e)), (''level'', PStr (le_level e))]),
      (''values'', PList [PList [PStr (str_int (le_ns e)), PStr (le_line e)]])]"

definition batch_value :: "batch \<Rightarrow> pyval" where
  [py_defs]: "batch_value b = PDict [(''streams'', PList (map stream_value b))]"

definition core_items :: "('a log_core_scheme) \<Rightarrow> pydict" where
  [py_defs]: "core_items s =
     [(''version'', PInt 1), (''cursors'', PDict (map (\<lambda>(k, c). (k, cursor_value c)) (st_cursors s))),
      (''last_ns'', PInt (st_last_ns s)), (''last_success'', st_last_success s), (''sent'', PInt (st_sent s)),
      (''gaps'', PInt (st_gaps s)), (''normal'', PDict (map (\<lambda>(k, n). (k, PInt n)) (st_normal s)))]"

definition log_state_value :: "log_state \<Rightarrow> pyval" where
  [py_defs]: "log_state_value s = PDict (core_items s @
     [(''pending'', case st_pending s of
          None \<Rightarrow> PNone
        | Some (batches, nxt) \<Rightarrow>
            PDict [(''batches'', PList (map batch_value batches)),
                   (''next'', PDict (core_items nxt @ [(''pending'', PNone)]))])])"

subsection \<open>Validation\<close>

definition STATE_KEYS :: "string list" where
  [py_defs]: "STATE_KEYS = [''version'', ''cursors'', ''last_ns'', ''last_success'', ''sent'', ''gaps'', ''normal'', ''pending'']"

definition state_number :: "pyval \<Rightarrow> bool" where
  [py_defs]: "state_number v = (case v of PInt i \<Rightarrow> 0 \<le> i | PFloat (FFin r q) \<Rightarrow> 0 \<le> q | _ \<Rightarrow> False)"

definition natural :: "pyval \<Rightarrow> bool" where
  [py_defs]: "natural v = (case v of PInt i \<Rightarrow> 0 \<le> i | _ \<Rightarrow> False)"

definition at_most_file :: "pyval \<Rightarrow> bool" where
  [py_defs]: "at_most_file v = (case v of PInt i \<Rightarrow> i \<le> int MAX_FILE | _ \<Rightarrow> False)"

definition validate_cursor :: "pyval \<Rightarrow> unit res" where
  [py_defs]: "validate_cursor v = (case v of
       PDict c \<Rightarrow>
         (if \<not> keys_are c [''dev'', ''inode'', ''offset'', ''sha256'', ''size_seen''] then log_bad ''invalid cursor''
          else if \<not> list_all (\<lambda>k. natural (dget c k)) [''dev'', ''inode'', ''offset'', ''size_seen'']
          then log_bad ''invalid cursor number''
          else if \<not> at_most_file (dget c ''offset'') \<or> \<not> at_most_file (dget c ''size_seen'')
          then log_bad ''invalid cursor bounds''
          else (case dget c ''sha256'' of
             PStr s \<Rightarrow> if re_fullmatch (rtimes 64 (Cls lower_hex)) s = None
                       then log_bad ''invalid cursor bounds'' else Inr ()
           | _ \<Rightarrow> Inl TypeError))
     | _ \<Rightarrow> log_bad ''invalid cursor'')"

definition normal_key :: "string \<Rightarrow> bool" where
  [py_defs]: "normal_key s \<longleftrightarrow>
     (let name = rplus (Cls (\<lambda>c. ascii_lower c \<or> c = CHR ''_'')) in
      re_fullmatch (rseq [name, rlit ''/'', name]) s \<noteq> None)"

text \<open>\<open>version\<close> is compared with \<open>!=\<close>, so \<open>true\<close> and \<open>1.0\<close> pass.\<close>

definition validate_core :: "pyval \<Rightarrow> pydict res" where
  [py_defs]: "validate_core state = (case state of
       PDict s \<Rightarrow>
         (if \<not> keys_are s STATE_KEYS \<or> \<not> py_eq (dget s ''version'') (PInt 1) then log_bad ''invalid state schema''
          else if \<not> list_all (\<lambda>k. state_number (dget s k)) [''last_ns'', ''last_success'', ''sent'', ''gaps'']
          then log_bad ''invalid state number''
          else (case dget s ''cursors'' of
             PDict cs \<Rightarrow>
               (if \<not> list_all (\<lambda>(k, c). k \<in> fst ` set SOURCES) cs then log_bad ''invalid cursors''
                else bindE (mapE (\<lambda>(k, c). validate_cursor c) cs) (\<lambda>_.
                  (case dget s ''normal'' of
                     PDict n \<Rightarrow>
                       (if length n > 256 \<or> \<not> list_all (\<lambda>(k, v). normal_key k \<and> natural v) n
                        then log_bad ''invalid normal counters'' else Inr s)
                   | _ \<Rightarrow> log_bad ''invalid normal counters'')))
           | _ \<Rightarrow> log_bad ''invalid cursors''))
     | _ \<Rightarrow> log_bad ''invalid state schema'')"

definition validate_value :: "pyval \<Rightarrow> unit res" where
  [py_defs]: "validate_value v =
     bindE (py_list_of v) (\<lambda>vs. case vs of
         [timestamp, line] \<Rightarrow>
           (case (timestamp, line) of
              (PStr t, PStr l) \<Rightarrow> if is_ascii t \<and> py_isdecimal t then Inr () else log_bad ''invalid pending entry''
            | _ \<Rightarrow> log_bad ''invalid pending entry'')
       | _ \<Rightarrow> log_bad ''unpack'')"

definition validate_stream :: "pyval \<Rightarrow> unit res" where
  [py_defs]: "validate_stream v = (case v of
       PDict s \<Rightarrow>
         bindE (dindex s ''stream'') (\<lambda>labels. case labels of
             PDict l \<Rightarrow>
               (if dget l ''source'' \<noteq> PStr ''qnap-filelog'' \<or> dget l ''environment'' \<noteq> PStr ''production''
                   \<or> dget l ''log_kind'' \<notin> PStr ` fst ` set SOURCES
                then log_bad ''invalid pending stream''
                else bindE (dindex s ''values'') (\<lambda>values. bindE (py_list_of values) (\<lambda>vs.
                  bindE (mapE validate_value vs) (\<lambda>_. Inr ()))))
           | _ \<Rightarrow> Inl AttributeError)
     | _ \<Rightarrow> Inl TypeError)"

definition json_size :: "pyval \<Rightarrow> nat" where
  [py_defs]: "json_size v = length (utf8_encode (json_enc json_default v))"

definition validate_batch :: "pyval \<Rightarrow> unit res" where
  [py_defs]: "validate_batch v = (case v of
       PDict b \<Rightarrow>
         (if \<not> keys_are b [''streams''] \<or> json_size v > 262144 then log_bad ''invalid pending batch''
          else bindE (py_list_of (dget b ''streams'')) (\<lambda>ss.
                 bindE (mapE validate_stream ss) (\<lambda>_. Inr ())))
     | _ \<Rightarrow> log_bad ''invalid pending batch'')"

definition validate_state :: "pyval \<Rightarrow> pyval res" where
  [py_defs]: "validate_state state =
     bindE (validate_core state) (\<lambda>s.
       case dget s ''pending'' of
         PNone \<Rightarrow> Inr state
       | PDict p \<Rightarrow>
           (if \<not> keys_are p [''batches'', ''next''] then log_bad ''invalid outbox''
            else (case dget p ''batches'' of
               PList bs \<Rightarrow>
                 (if length bs > 512 then log_bad ''invalid outbox''
                  else (case dget p ''next'' of
                     PDict n \<Rightarrow>
                       (if dget n ''pending'' \<noteq> PNone then log_bad ''nested pending state''
                        else bindE (validate_core (PDict n)) (\<lambda>_.
                             bindE (mapE validate_batch bs) (\<lambda>_. Inr state)))
                   | _ \<Rightarrow> Inl AttributeError))
             | _ \<Rightarrow> log_bad ''invalid outbox''))
       | _ \<Rightarrow> log_bad ''invalid outbox'')"

end
