(* ===== verification/Nas_Prepare.thy ===== *)
theory Nas_Prepare
  imports Nas_Logs
begin

text \<open>
  The second half of \<open>nas_file_logs_core.py\<close>: severity, the JSON line of an entry, and
  \<open>prepare\<close>, which turns a snapshot into an outbox and the state to commit once the
  outbox is delivered.
\<close>

record log_env =
  env_sha :: "string \<Rightarrow> string"
  env_text :: "string \<Rightarrow> string"
  env_iso :: "int \<Rightarrow> string"
  env_seconds :: "int \<Rightarrow> pyval"

section \<open>Severity\<close>

definition rlit_ci :: "string \<Rightarrow> rx" where
  [py_defs]: "rlit_ci s = rseq (map (\<lambda>c. Cls (\<lambda>x. lower_char x = c)) s)"

definition KERNEL_LEVEL :: rx where
  [py_defs]: "KERNEL_LEVEL = rseq [rlit ''<'', Grp 1 (one_of ''01234567''), rlit ''>'']"

definition FAILURE_WORDS :: rx where
  [py_defs]: "FAILURE_WORDS = rseq [WordEdge, Grp 1 (ralt (map rlit_ci [''failed'', ''failure'', ''error'', ''unable'',
     ''not clean'', ''not shut down properly'', ''not compatible''])), WordEdge]"

definition RAW_ZERO :: rx where
  [py_defs]: "RAW_ZERO = rseq [rlit ''raw = 0'', rstar (Cls py_isspace), EndOfText]"

definition KERNEL_LEVELS :: "string list" where
  [py_defs]: "KERNEL_LEVELS = [''emerg'', ''alert'', ''critical'', ''error'', ''warn'', ''info'', ''info'', ''debug'']"

definition has_text :: "string \<Rightarrow> string \<Rightarrow> bool" where
  [py_defs]: "has_text sub s \<longleftrightarrow> re_search (rlit sub) s \<noteq> None"

definition severity :: "string \<Rightarrow> string \<Rightarrow> string" where
  [py_defs]: "severity kind message =
     (let kernel_level = (if kind = ''kernel'' then re_match KERNEL_LEVEL message else None) in
      case kernel_level of
        Some m \<Rightarrow> KERNEL_LEVELS ! nat (group_int m 1)
      | None \<Rightarrow>
          (if re_search FAILURE_WORDS message \<noteq> None then ''error''
           else if kind = ''hal'' \<and> has_text ''Command_Timeout'' message \<and> re_search RAW_ZERO message = None
           then ''warn'' else ''unknown''))"

section \<open>One entry\<close>

definition RULE_VERSION :: string where [py_defs]: "RULE_VERSION = ''2026-11-05.2''"

definition SOURCE_TIME :: rx where
  [py_defs]: "SOURCE_TIME = rseq [rtimes 4 digit, one_of ''-/'', rtimes 2 digit, one_of ''-/'', rtimes 2 digit,
     rlit '' '', rtimes 2 digit, rlit '':'', rtimes 2 digit, rlit '':'', rtimes 2 digit,
     ropt (Cat (rlit ''.'') digits)]"

definition log_text :: "log_env \<Rightarrow> string \<Rightarrow> string" where
  [py_defs]: "log_text env raw = rstrip_by (\<lambda>c. c = CHR 0x0D \<or> c = CHR 0x0A) (env_text env raw)"

definition source_time :: "string \<Rightarrow> pyval" where
  [py_defs]: "source_time message = (case re_search SOURCE_TIME message of
     None \<Rightarrow> PNone | Some (original, caps) \<Rightarrow> PStr (original @ '' JST''))"

definition source_file :: "string \<Rightarrow> string" where
  [py_defs]: "source_file kind = (case map_of SOURCES kind of None \<Rightarrow> [] | Some (path, gens) \<Rightarrow> path)"

definition entry_object ::
    "log_env \<Rightarrow> string \<Rightarrow> bool \<Rightarrow> int \<Rightarrow> pyval \<Rightarrow> string \<Rightarrow> bool \<Rightarrow> pyval" where
  [py_defs]: "entry_object env kind bootstrap now_ns original message truncated = PDict
     ([(''message'', PStr message), (''source_file'', PStr (source_file kind)), (''bootstrap'', PBool bootstrap),
       (''observed_at'', PStr (env_iso env now_ns)), (''source_time'', original),
       (''filter_version'', PStr RULE_VERSION)]
      @ (if truncated then [(''truncated'', PBool True)] else []))"

definition too_long :: "pyval \<Rightarrow> bool" where
  [py_defs]: "too_long obj \<longleftrightarrow> length (utf8_encode (json_enc json_unicode obj)) > 16384"

text \<open>The \<open>while\<close> loop of \<open>entry\<close>: halve the message until the object fits.  Once the
  message is down to one character a further round changes nothing, so one round more than the
  message has characters decides whether the loop ends: \<open>None\<close> means that it does not.\<close>

fun shrink :: "(string \<Rightarrow> bool \<Rightarrow> bool) \<Rightarrow> nat \<Rightarrow> string \<Rightarrow> bool \<Rightarrow> (string \<times> bool) option" where
  "shrink big 0 message truncated = None"
| "shrink big (Suc fuel) message truncated =
     (if big message truncated
      then shrink big fuel (take (max 1 (length message div 2)) message) True
      else Some (message, truncated))"

definition entry :: "log_env \<Rightarrow> string \<Rightarrow> string \<Rightarrow> bool \<Rightarrow> int \<Rightarrow> (string \<times> string) res" where
  [py_defs]: "entry env kind raw bootstrap now_ns =
     (let message = log_text env raw; original = source_time message;
          obj = entry_object env kind bootstrap now_ns original; level = severity kind message in
      case shrink (\<lambda>m t. too_long (obj m t)) (length message + 2) message False of
        None \<Rightarrow> Inl Diverges
      | Some (m, t) \<Rightarrow> Inr (level, json_enc json_compact_unicode (obj m t)))"

section \<open>The place of the last delivery\<close>

definition matches_prefix :: "log_env \<Rightarrow> file_rec \<Rightarrow> cursor \<Rightarrow> bool" where
  [py_defs]: "matches_prefix env r c \<longleftrightarrow>
     length (fr_data r) \<ge> cu_offset c \<and> env_sha env (take (cu_offset c) (fr_data r)) = cu_sha c"

fun first_index :: "('a \<Rightarrow> bool) \<Rightarrow> 'a list \<Rightarrow> nat option" where
  "first_index P [] = None"
| "first_index P (x # xs) = (if P x then Some 0 else map_option Suc (first_index P xs))"

definition chronological :: "snapshot \<Rightarrow> string \<Rightarrow> string list \<Rightarrow> (string \<times> file_rec) list" where
  [py_defs]: "chronological s kind gens =
     List.map_filter (\<lambda>gen. map_option (\<lambda>r. (gen, r)) (snap s kind gen)) (rev gens)"

definition find_generation :: "log_env \<Rightarrow> (string \<times> file_rec) list \<Rightarrow> cursor \<Rightarrow> nat option" where
  [py_defs]: "find_generation env files c =
     (case first_index (\<lambda>(gen, r). fr_dev r = cu_dev c \<and> fr_inode r = cu_inode c \<and> matches_prefix env r c) files of
        Some i \<Rightarrow> Some i
      | None \<Rightarrow> first_index (\<lambda>(gen, r). matches_prefix env r c) files)"

text \<open>The files to read with their start offsets, and whether the place was lost.\<close>

definition work_list ::
    "log_env \<Rightarrow> snapshot \<Rightarrow> string \<Rightarrow> string list \<Rightarrow> cursor option
       \<Rightarrow> ((string \<times> file_rec \<times> nat) list \<times> bool) res" where
  [py_defs]: "work_list env s kind gens previous =
     (let restart = (case snap s kind ''current'' of None \<Rightarrow> Inl TypeError | Some r \<Rightarrow> Inr [(''current'', r, 0)]);
          files = chronological s kind gens in
      case previous of
        None \<Rightarrow> bindE restart (\<lambda>work. Inr (work, False))
      | Some c \<Rightarrow>
          (case find_generation env files c of
             None \<Rightarrow> bindE restart (\<lambda>work. Inr (work, True))
           | Some found \<Rightarrow>
               Inr (map (\<lambda>(i, gen, r). (gen, r, if i = found then cu_offset c else 0))
                      (drop found (enumerate 0 files)), False)))"

section \<open>Preparing the outbox\<close>

record prep =
  pr_next :: log_core
  pr_batches :: "batch list"
  pr_batch :: batch
  pr_size :: nat

definition BATCH_LIMIT :: nat where [py_defs]: "BATCH_LIMIT = 128 * 1024"

definition add_entry :: "log_entry \<Rightarrow> prep \<Rightarrow> prep" where
  [py_defs]: "add_entry e p =
     (let size = json_size (stream_value e) + 2;
          full = (pr_size p + size > BATCH_LIMIT) in
      \<lparr>pr_next = (pr_next p)\<lparr>st_sent := st_sent (pr_next p) + 1\<rparr>,
       pr_batches = (if full then pr_batches p @ [pr_batch p] else pr_batches p),
       pr_batch = (if full then [] else pr_batch p) @ [e],
       pr_size = (if full then 32 else pr_size p) + size\<rparr>)"

definition count_normal :: "string \<Rightarrow> prep \<Rightarrow> prep" where
  [py_defs]: "count_normal key p =
     (let n = (case map_of (st_normal (pr_next p)) key of None \<Rightarrow> 0 | Some n \<Rightarrow> n) in
      p\<lparr>pr_next := (pr_next p)\<lparr>st_normal := AList.update key (n + 1) (st_normal (pr_next p))\<rparr>\<rparr>)"

definition record_step ::
    "log_env \<Rightarrow> bool \<Rightarrow> int \<Rightarrow> string \<Rightarrow> bool \<Rightarrow> string \<times> nat \<Rightarrow> prep \<Rightarrow> prep res" where
  [py_defs]: "record_step env filter_normal now_ns kind bootstrap rec p =
     (let raw = fst rec; message = log_text env raw;
          level = (if kind = ''kernel'' then severity kind message else ''unknown'') in
      bindE (if filter_normal then normal_pattern kind message level [] else Inr None) (\<lambda>normal.
        case normal of
          Some name \<Rightarrow> Inr (count_normal (kind @ ''/'' @ name) p)
        | None \<Rightarrow>
            (let ns = max now_ns (st_last_ns (pr_next p) + 1);
                 p = p\<lparr>pr_next := (pr_next p)\<lparr>st_last_ns := ns\<rparr>\<rparr> in
             bindE (entry env kind raw bootstrap ns) (\<lambda>(level, line).
               Inr (add_entry \<lparr>le_kind = kind, le_level = level, le_ns = ns, le_line = line\<rparr> p)))))"

definition file_step ::
    "log_env \<Rightarrow> bool \<Rightarrow> int \<Rightarrow> string \<Rightarrow> cursor option \<Rightarrow> string \<times> file_rec \<times> nat \<Rightarrow> prep \<Rightarrow> prep res" where
  [py_defs]: "file_step env filter_normal now_ns kind previous work p =
     (let (gen, r, offset) = work;
          records = completed_records (fr_data r) offset kind
            (case previous of None \<Rightarrow> -1 | Some c \<Rightarrow> int (cu_size_seen c)) (gen \<noteq> ''current'');
          stop = (if records = [] then offset else snd (last records));
          kept = (if previous = None then drop (length records - 50) records else records) in
      bindE (foldE (record_step env filter_normal now_ns kind (previous = None)) kept p) (\<lambda>p.
        Inr (if gen = ''current''
             then p\<lparr>pr_next := (pr_next p)\<lparr>st_cursors := AList.update kind
                      \<lparr>cu_dev = fr_dev r, cu_inode = fr_inode r, cu_offset = stop,
                       cu_sha = env_sha env (take stop (fr_data r)), cu_size_seen = length (fr_data r)\<rparr>
                      (st_cursors (pr_next p))\<rparr>\<rparr>
             else p)))"

definition source_step ::
    "log_env \<Rightarrow> bool \<Rightarrow> int \<Rightarrow> snapshot \<Rightarrow> log_state \<Rightarrow> string \<times> string \<times> string list \<Rightarrow> prep \<Rightarrow> prep res" where
  [py_defs]: "source_step env filter_normal now_ns s state source p =
     (let (kind, path, gens) = source; previous = map_of (st_cursors state) kind in
      bindE (work_list env s kind gens previous) (\<lambda>(work, lost).
        foldE (file_step env filter_normal now_ns kind previous) work
          (if lost then p\<lparr>pr_next := (pr_next p)\<lparr>st_gaps := st_gaps (pr_next p) + 1\<rparr>\<rparr> else p)))"

definition core_of :: "log_state \<Rightarrow> log_core" where
  [py_defs]: "core_of s = log_core.truncate s"

definition prepare ::
    "log_env \<Rightarrow> log_state \<Rightarrow> snapshot \<Rightarrow> int \<Rightarrow> bool \<Rightarrow> log_state res" where
  [py_defs]: "prepare env state s now_ns filter_normal =
     bindE (validate_state (log_state_value state)) (\<lambda>_.
       if st_pending state \<noteq> None then Inr state
       else
         bindE (foldE (source_step env filter_normal now_ns s state) SOURCES
                  \<lparr>pr_next = core_of state, pr_batches = [], pr_batch = [], pr_size = 32\<rparr>) (\<lambda>p.
           (let batches = pr_batches p @ (if pr_batch p = [] then [] else [pr_batch p]);
                out = with_pending (core_of state)
                        (Some (batches, (pr_next p)\<lparr>st_last_success := env_seconds env now_ns\<rparr>)) in
            if length batches > 512 then log_bad ''outbox limit exceeded''
            else bindE (validate_state (log_state_value out)) (\<lambda>_.
              if json_size (log_state_value out) > MAX_STATE then log_bad ''state limit exceeded''
              else Inr out))))"

end
