(* ===== verification/Nas_Collector.thy ===== *)
theory Nas_Collector
  imports Nas_Prepare Atomic_File
begin

text \<open>
  \<open>scripts/nas_file_logs_collector.py\<close>: the SSH command line, loading and saving the
  state, pushing a batch, and the poll: load or keep the state, prepare an outbox when there is
  none, save it, push its batches, save the committed state.  What the world does in one
  poll (the fetched bytes, the clock, the answers of the log server, the failing file
  operations, the time budget) is the record \<open>poll_input\<close>.
\<close>

section \<open>The SSH command\<close>

definition SSH_OPTIONS :: "string list" where
  [py_defs]: "SSH_OPTIONS =
    [''BatchMode=yes'', ''StrictHostKeyChecking=yes'', ''IdentitiesOnly=yes'', ''IdentityAgent=none'',
     ''ConnectTimeout=10'', ''ConnectionAttempts=1'', ''UserKnownHostsFile=/etc/nas-ssh/known_hosts'',
     ''GlobalKnownHostsFile=/dev/null'', ''ServerAliveInterval=5'', ''ServerAliveCountMax=2'']"

definition nas_host :: "string \<Rightarrow> nat list res" where
  [py_defs]: "nas_host host = (case ipv4_parse host of
       None \<Rightarrow> Inl (ValueError ''AddressValueError'')
     | Some ip \<Rightarrow>
         (if ipv4_str ip \<noteq> host \<or> \<not> is_private ip
             \<or> is_loopback ip \<or> is_link_local ip \<or> is_multicast ip \<or> is_reserved ip \<or> is_unspecified ip
          then Inl (ValueError ''invalid NAS address'') else Inr ip))"

definition ssh_command :: "string list \<Rightarrow> string \<Rightarrow> string \<Rightarrow> string list" where
  [py_defs]: "ssh_command options host command =
     [''ssh'', ''-F'', ''/dev/null'', ''-T''] @ concat (map (\<lambda>option. [''-o'', option]) options)
     @ [''-i'', ''/etc/nas-ssh/id_rsa'', ''admin@'' @ host, command]"

definition log_ssh_args :: "string \<Rightarrow> string list res" where
  [py_defs]: "log_ssh_args host = bindE (nas_host host) (\<lambda>ip. Inr (ssh_command SSH_OPTIONS host ''nas-logs-v1''))"

section \<open>The state file\<close>

definition log_state_data :: "log_state \<Rightarrow> string res" where
  [py_defs]: "log_state_data s =
     bindE (validate_state (log_state_value s)) (json_dumps_finite json_compact_unicode)"

definition save_log_state :: "string \<Rightarrow> save_io \<Rightarrow> log_state \<Rightarrow> fs \<Rightarrow> fs \<times> py_exc option" where
  [py_defs]: "save_log_state path io s f =
     (case log_state_data s of
        Inl e \<Rightarrow> (f, Some e)
      | Inr data \<Rightarrow>
          (if length (utf8_encode data) > MAX_STATE then (f, Some (ValueError ''state too large''))
           else replace_file io path (utf8_encode data) f))"

text \<open>The typed view of a state the collector has written.\<close>

definition int_of :: "pyval \<Rightarrow> int" where
  [py_defs]: "int_of v = (case v of PInt i \<Rightarrow> i | PFloat (FFin r q) \<Rightarrow> (if q < 0 then \<lceil>q\<rceil> else \<lfloor>q\<rfloor>) | _ \<Rightarrow> 0)"

definition list_of :: "pyval \<Rightarrow> pyval list" where
  [py_defs]: "list_of v = (case v of PList xs \<Rightarrow> xs | _ \<Rightarrow> [])"

definition cursor_of :: "pyval \<Rightarrow> cursor" where
  [py_defs]: "cursor_of v = (let c = mapping_or_empty v in
     \<lparr>cu_dev = int_of (dget c ''dev''), cu_inode = int_of (dget c ''inode''),
      cu_offset = nat (int_of (dget c ''offset'')), cu_sha = py_str (dget c ''sha256''),
      cu_size_seen = nat (int_of (dget c ''size_seen''))\<rparr>)"

definition digits_value :: "string \<Rightarrow> int" where
  [py_defs]: "digits_value s = (if startswith s ''-'' then - int (nat_of_digits (tl s)) else int (nat_of_digits s))"

definition entry_of :: "pyval \<Rightarrow> log_entry" where
  [py_defs]: "entry_of v =
     (let s = mapping_or_empty v; labels = mapping_or_empty (dget s ''stream'');
          pair = list_of (hd (list_of (dget s ''values''))) in
      \<lparr>le_kind = py_str (dget labels ''log_kind''), le_level = py_str (dget labels ''level''),
       le_ns = digits_value (py_str (hd pair)), le_line = py_str (hd (tl pair))\<rparr>)"

definition batch_of :: "pyval \<Rightarrow> batch" where
  [py_defs]: "batch_of v = map entry_of (list_of (dget (mapping_or_empty v) ''streams''))"

definition core_of_value :: "pyval \<Rightarrow> log_core" where
  [py_defs]: "core_of_value v = (let s = mapping_or_empty v in
     \<lparr>st_cursors = map (\<lambda>(k, c). (k, cursor_of c)) (mapping_or_empty (dget s ''cursors'')),
      st_last_ns = int_of (dget s ''last_ns''), st_last_success = dget s ''last_success'',
      st_sent = int_of (dget s ''sent''), st_gaps = int_of (dget s ''gaps''),
      st_normal = map (\<lambda>(k, n). (k, int_of n)) (mapping_or_empty (dget s ''normal''))\<rparr>)"

definition log_state_of :: "pyval \<Rightarrow> log_state" where
  [py_defs]: "log_state_of v = with_pending (core_of_value v)
     (case dget (mapping_or_empty v) ''pending'' of
        PDict p \<Rightarrow> Some (map batch_of (list_of (dget p ''batches'')), core_of_value (dget p ''next''))
      | _ \<Rightarrow> None)"

definition load_log_state :: "(string \<Rightarrow> pyfloat) \<Rightarrow> string \<Rightarrow> fs \<Rightarrow> log_state res" where
  [py_defs]: "load_log_state float_of path f =
     (if path \<in> set (fs_symlinks f) then log_bad ''state must not be a symlink''
      else (case read_file f path of
          None \<Rightarrow> Inr initial_state
        | Some data \<Rightarrow>
            (if length data > MAX_STATE then log_bad ''state too large''
             else (case utf8_decode data of
                 None \<Rightarrow> Inl json_error
               | Some t \<Rightarrow> bindE (json_loads float_of t) (\<lambda>v.
                    bindE (validate_state v) (\<lambda>v. Inr (log_state_of v)))))))"

section \<open>Pushing\<close>

definition push_body :: "batch \<Rightarrow> string" where
  [py_defs]: "push_body b = utf8_encode (json_enc json_compact_unicode (batch_value b))"

text \<open>\<open>answer\<close> is what the request gives: the status of the response, or the exception.\<close>

definition push :: "batch \<Rightarrow> nat res \<Rightarrow> unit res" where
  [py_defs]: "push b answer =
     (if length (push_body b) > 256 * 1024 then Inl (ValueError ''push exceeds limit'')
      else bindE answer (\<lambda>status. if status \<noteq> 204 then Inl (ValueError ''Loki rejected push'') else Inr ()))"

section \<open>The poll\<close>

record poll_input =
  pi_fetch :: "string res"
  pi_now :: int
  pi_outbox_save :: save_io
  pi_answers :: "nat \<Rightarrow> nat res"
  pi_late :: "nat \<Rightarrow> bool"
  pi_commit_save :: save_io

record log_collector =
  co_state :: "log_state option"
  co_success :: bool
  co_valid :: bool
  co_push_failures :: nat
  co_collection_failures :: nat

record poll_conf =
  pc_env :: log_env
  pc_float :: "string \<Rightarrow> pyfloat"
  pc_path :: string
  pc_filter :: bool

text \<open>The world of the collector: the files, its memory, and the batches the log server
  has accepted.\<close>

type_synonym log_world = "fs \<times> log_collector \<times> batch list"

definition log_collector_init :: log_collector where
  [py_defs]: "log_collector_init = \<lparr>co_state = None, co_success = False, co_valid = False,
     co_push_failures = 0, co_collection_failures = 0\<rparr>"

definition poll_failed :: "log_collector \<Rightarrow> log_collector" where
  [py_defs]: "poll_failed c = c\<lparr>co_success := False, co_collection_failures := co_collection_failures c + 1,
     co_valid := (if co_state c = None then False else co_valid c)\<rparr>"

definition current_state :: "poll_conf \<Rightarrow> fs \<Rightarrow> log_collector \<Rightarrow> log_state res" where
  [py_defs]: "current_state conf f c = (case co_state c of
     Some s \<Rightarrow> Inr s | None \<Rightarrow> load_log_state (pc_float conf) (pc_path conf) f)"

definition candidate :: "poll_conf \<Rightarrow> poll_input \<Rightarrow> log_state \<Rightarrow> log_state res" where
  [py_defs]: "candidate conf i s =
     bindE (bindE (pi_fetch i) parse_log_snapshot) (\<lambda>snap.
       prepare (pc_env conf) s snap (pi_now i) (pc_filter conf))"

text \<open>The batches from the \<open>n\<close>-th on are sent in order until one fails; the result is the
  accepted ones and whether all were.\<close>

fun send_batches :: "poll_input \<Rightarrow> nat \<Rightarrow> batch list \<Rightarrow> batch list \<times> bool" where
  "send_batches i n [] = ([], True)"
| "send_batches i n (b # bs) =
     (if pi_late i n \<or> push b (pi_answers i n) \<noteq> Inr () then ([], False)
      else (let r = send_batches i (Suc n) bs in (b # fst r, snd r)))"

definition deliver :: "poll_conf \<Rightarrow> poll_input \<Rightarrow> log_state \<Rightarrow> log_world \<Rightarrow> log_world" where
  [py_defs]: "deliver conf i s w =
     (let (f, c, accepted) = w in
      case st_pending s of
        None \<Rightarrow> (f, poll_failed c, accepted)
      | Some (batches, nxt) \<Rightarrow>
          (let (sent, all_sent) = send_batches i 0 batches in
           if \<not> all_sent
           then (f, poll_failed (c\<lparr>co_push_failures := co_push_failures c + 1\<rparr>), accepted @ sent)
           else (case save_log_state (pc_path conf) (pi_commit_save i) (with_pending nxt None) f of
               (f', Some e) \<Rightarrow> (f', poll_failed c, accepted @ sent)
             | (f', None) \<Rightarrow>
                 (f', c\<lparr>co_state := Some (with_pending nxt None), co_success := True\<rparr>, accepted @ sent))))"

text \<open>One poll; \<open>None\<close> means that it never returns.\<close>

definition log_poll_once :: "poll_conf \<Rightarrow> poll_input \<Rightarrow> log_world \<Rightarrow> log_world option" where
  [py_defs]: "log_poll_once conf i w =
     (let (f, c, accepted) = w in
      case current_state conf f c of
        Inl e \<Rightarrow> Some (f, poll_failed c, accepted)
      | Inr s \<Rightarrow>
          (let c = c\<lparr>co_state := Some s, co_valid := True\<rparr> in
           if st_pending s \<noteq> None then Some (deliver conf i s (f, c, accepted))
           else (case candidate conf i s of
               Inl e \<Rightarrow> if e = Diverges then None else Some (f, poll_failed c, accepted)
             | Inr cand \<Rightarrow>
                 (case save_log_state (pc_path conf) (pi_outbox_save i) cand f of
                    (f', Some e) \<Rightarrow> Some (f', poll_failed c, accepted)
                  | (f', None) \<Rightarrow> Some (deliver conf i cand (f', c\<lparr>co_state := Some cand\<rparr>, accepted))))))"

definition state_or_initial :: "log_collector \<Rightarrow> log_state" where
  [py_defs]: "state_or_initial c = (case co_state c of Some s \<Rightarrow> s | None \<Rightarrow> initial_state)"

definition plain_metric :: "string \<Rightarrow> string \<Rightarrow> string" where
  [py_defs]: "plain_metric name text = ''nas_file_logs_'' @ name @ '' '' @ text @ [CHR 0x0A]"

definition filtered_metric :: "string \<times> int \<Rightarrow> string" where
  [py_defs]: "filtered_metric kn =
     (let parts = split_on CHR ''/'' (fst kn) in
      ''nas_file_logs_filtered_total{log_kind='' @ quoted (parts ! 0) @ '',pattern='' @ quoted (parts ! 1)
      @ ''} '' @ str_int (snd kn) @ [CHR 0x0A])"

definition log_metrics :: "log_collector \<Rightarrow> string" where
  [py_defs]: "log_metrics c =
     (let s = state_or_initial c; bit = (\<lambda>b. if b then ''1'' else ''0'') in
      plain_metric ''collection_success'' (bit (co_success c))
      @ plain_metric ''state_valid'' (bit (co_valid c))
      @ plain_metric ''last_success_timestamp_seconds'' (py_str (st_last_success s))
      @ plain_metric ''sent_entries_total'' (str_int (st_sent s))
      @ plain_metric ''rotation_gaps_total'' (str_int (st_gaps s))
      @ plain_metric ''push_failures_total'' (str_nat (co_push_failures c))
      @ plain_metric ''collection_failures_total'' (str_nat (co_collection_failures c))
      @ concat (map filtered_metric (sort_key fst (st_normal s))))"

end
