(* ===== verification/Nas_Prepare_Facts.thy ===== *)
theory Nas_Prepare_Facts
  imports Nas_Collector
begin

text \<open>
  The lemmas on the log core that its properties share: records tile a file, an
  invariant rule for \<open>prepare\<close>, and the round trip of the typed state through its JSON
  value.
\<close>

section \<open>Records tile the file\<close>

text \<open>Consecutive pieces of \<open>data\<close> from position \<open>p\<close> to position \<open>q\<close>, with their end positions.\<close>

fun tiled :: "string \<Rightarrow> nat \<Rightarrow> (string \<times> nat) list \<Rightarrow> nat \<Rightarrow> bool" where
  "tiled data p [] q \<longleftrightarrow> p = q"
| "tiled data p ((raw, e) # xs) q \<longleftrightarrow>
     p < e \<and> e \<le> length data \<and> raw = take (e - p) (drop p data) \<and> tiled data e xs q"

lemma tiled_append: "tiled data p (xs @ ys) q \<longleftrightarrow> (\<exists>m. tiled data p xs m \<and> tiled data m ys q)"
  by (induction xs arbitrary: p) auto

lemma tiled_last: "tiled data p xs q \<Longrightarrow> q = (if xs = [] then p else snd (last xs))"
  by (induction xs arbitrary: p) (auto split: if_splits)

lemma tiled_le: "tiled data p xs q \<Longrightarrow> p \<le> length data \<Longrightarrow> p \<le> q \<and> q \<le> length data"
  by (induction xs arbitrary: p) force+

lemma take_split:
  assumes "p \<le> m" and "m \<le> q"
  shows "take (q - p) (drop p xs) = take (m - p) (drop p xs) @ take (q - m) (drop m xs)"
proof -
  have "q - p = (m - p) + (q - m)" using assms by simp
  then have "take (q - p) (drop p xs) = take (m - p) (drop p xs) @ take (q - m) (drop (m - p) (drop p xs))"
    by (simp only: take_add)
  then show ?thesis using assms by simp
qed

lemma tiled_concat:
  "tiled data p xs q \<Longrightarrow> p \<le> length data \<Longrightarrow> concat (map fst xs) = take (q - p) (drop p data)"
proof (induction xs arbitrary: p)
  case (Cons x xs)
  obtain raw e where x: "x = (raw, e)" by force
  with Cons have raw: "p < e" "e \<le> length data" "raw = take (e - p) (drop p data)"
    and rest: "tiled data e xs q" by auto
  have "e \<le> q" using tiled_le [OF rest] raw by simp
  then show ?case
    unfolding x using Cons.IH [OF rest raw(2)] raw(1,3) by (simp add: take_split [of p e q])
qed simp

lemma tiled_sorted: "tiled data p xs q \<Longrightarrow> sorted_wrt (<) (p # map snd xs)"
proof (induction xs arbitrary: p)
  case (Cons x xs)
  obtain raw e where x: "x = (raw, e)" by force
  with Cons have "p < e" "sorted_wrt (<) (e # map snd xs)" by auto
  then show ?case using x by auto
qed simp

lemma tiled_merge:
  assumes "tiled data p [(r1, e1), (r2, e2)] q"
  shows "tiled data p [(r1 @ r2, e2)] q"
  using assms by (auto simp: take_split [of p e1 q])

lemma lines_from_tiled:
  "drop p data = py_join [newline] (ps @ [l]) \<Longrightarrow> p \<le> length data \<Longrightarrow>
     tiled data p (lines_from ps p) (length data - length l)"
proof (induction ps arbitrary: p)
  case Nil
  then have "length data - p = length l" by (metis append_Nil length_drop py_join.simps(2))
  with Nil(2) show ?case by simp
next
  case (Cons a ps)
  obtain b bs where b: "ps @ [l] = b # bs" by (cases "ps @ [l]") auto
  then have join: "drop p data = a @ newline # py_join [newline] (ps @ [l])"
    using Cons.prems(1) by simp
  then have len: "length data - p = length a + 1 + length (py_join [newline] (ps @ [l]))"
    by (metis (no_types, lifting) One_nat_def add.assoc length_Cons length_append length_drop plus_1_eq_Suc)
  have "drop (p + length a + 1) data = drop (length a + 1) (drop p data)" by (simp add: algebra_simps)
  then have rest: "drop (p + length a + 1) data = py_join [newline] (ps @ [l])" using join by simp
  have le: "p + length a + 1 \<le> length data" using len Cons.prems(2) by simp
  show ?case using Cons.IH [OF rest le] join le by simp
qed

lemma log_lines_tiled:
  assumes "offset \<le> length data"
  shows "\<exists>q. tiled data offset (log_lines data offset rotated) q \<and> (rotated \<longrightarrow> q = length data)"
proof -
  let ?parts = "split_on newline (drop offset data)"
  have "?parts \<noteq> []" by (simp add: split_on_def)
  then have parts: "butlast ?parts @ [last ?parts] = ?parts" by simp
  have "drop offset data = py_join [newline] (butlast ?parts @ [last ?parts])"
    unfolding parts by (rule py_join_split [symmetric])
  from lines_from_tiled [OF this assms]
  have t: "tiled data offset (lines_from (butlast ?parts) offset) (length data - length (last ?parts))" .
  let ?ls = "lines_from (butlast ?parts) offset" and ?q = "length data - length (last ?parts)"
  have lines: "log_lines data offset rotated =
      (if rotated \<and> ?q < length data then ?ls @ [(drop ?q data, length data)] else ?ls)"
    unfolding log_lines_def Let_def tiled_last [OF t, symmetric] ..
  show ?thesis
  proof (cases "rotated \<and> ?q < length data")
    case True
    have "tiled data ?q [(drop ?q data, length data)] (length data)"
      using True by auto
    with t have "tiled data offset (?ls @ [(drop ?q data, length data)]) (length data)"
      unfolding tiled_append by blast
    then show ?thesis unfolding lines if_P [OF True] by blast
  next
    case False
    then have "rotated \<longrightarrow> ?q = length data" by linarith
    with t show ?thesis unfolding lines if_not_P [OF False] by blast
  qed
qed

definition pieces :: "log_group list \<Rightarrow> (string \<times> nat) list" where
  "pieces groups = map (\<lambda>g. (lg_raw g, lg_end g)) groups"

lemma add_line_tiled:
  assumes "tiled data p (pieces groups) m" and "tiled data m [line] q"
  shows "tiled data p (pieces (add_line kind groups line)) q"
proof (cases "(kind \<in> set SAMBA_KINDS \<or> kind = ''hal_daemon'') \<and> \<not> is_header kind (fst line) \<and> groups \<noteq> []")
  case False
  then have "pieces (add_line kind groups line) = pieces groups @ [line]"
    by (auto simp: add_line_def pieces_def Let_def case_prod_beta)
  with assms show ?thesis by (auto simp: tiled_append)
next
  case True
  then obtain gs g where g: "groups = gs @ [g]" by (metis append_butlast_last_id)
  obtain raw e where line: "line = (raw, e)" by force
  have pc: "pieces (add_line kind groups line) = pieces gs @ [(lg_raw g @ raw, e)]"
    using True by (auto simp: add_line_def pieces_def Let_def g line)
  from assms(1) obtain k where k: "tiled data p (pieces gs) k" "tiled data k [(lg_raw g, lg_end g)] m"
    by (auto simp: g pieces_def tiled_append)
  have "tiled data k [(lg_raw g, lg_end g), (raw, e)] q"
    using k(2) assms(2) by (auto simp: line)
  from tiled_merge [OF this] k(1) show ?thesis
    unfolding pc tiled_append by blast
qed

lemma add_lines_tiled:
  "tiled data p (pieces groups) m \<Longrightarrow> tiled data m lines q \<Longrightarrow>
     tiled data p (pieces (foldl (add_line kind) groups lines)) q"
proof (induction lines arbitrary: groups m)
  case (Cons line lines)
  obtain raw e where line: "line = (raw, e)" by force
  with Cons.prems(2) have "tiled data m [line] e" "tiled data e lines q" by auto
  from Cons.IH [OF add_line_tiled [OF Cons.prems(1) this(1)] this(2)] show ?case by simp
qed simp

lemma completed_records_tiled:
  assumes "offset \<le> length data"
  shows "\<exists>q. tiled data offset (completed_records data offset kind seen rotated) q \<and> (rotated \<longrightarrow> q = length data)"
proof -
  let ?groups = "foldl (add_line kind) [] (log_lines data offset rotated)"
  from log_lines_tiled [OF assms] obtain q where
    q: "tiled data offset (log_lines data offset rotated) q" "rotated \<longrightarrow> q = length data" by blast
  have all: "tiled data offset (pieces ?groups) q"
    using add_lines_tiled [of data offset "[]" offset] q by (simp add: pieces_def)
  let ?cut = "?groups \<noteq> [] \<and> lg_header (last ?groups) \<and> lg_count (last ?groups) = 1 \<and> \<not> rotated
      \<and> seen \<noteq> int (length data)"
  have records: "completed_records data offset kind seen rotated = pieces (if ?cut then butlast ?groups else ?groups)"
    unfolding completed_records_def Let_def pieces_def ..
  show ?thesis
  proof (cases ?cut)
    case True
    then obtain gs g where "?groups = gs @ [g]" by (metis append_butlast_last_id)
    then obtain m where "tiled data offset (pieces (butlast ?groups)) m"
      using all by (auto simp: pieces_def tiled_append)
    with True show ?thesis unfolding records if_P [OF True] by blast
  next
    case False
    with all q(2) show ?thesis unfolding records if_not_P [OF False] by blast
  qed
qed

definition records_end :: "nat \<Rightarrow> (string \<times> nat) list \<Rightarrow> nat" where
  "records_end offset records = (if records = [] then offset else snd (last records))"

section \<open>An invariant rule for \<open>prepare\<close>\<close>

definition set_ns :: "int \<Rightarrow> prep \<Rightarrow> prep" where
  "set_ns ns p = p\<lparr>pr_next := (pr_next p)\<lparr>st_last_ns := ns\<rparr>\<rparr>"

definition set_cursor :: "string \<Rightarrow> cursor \<Rightarrow> prep \<Rightarrow> prep" where
  "set_cursor kind c p = p\<lparr>pr_next := (pr_next p)\<lparr>st_cursors := AList.update kind c (st_cursors (pr_next p))\<rparr>\<rparr>"

definition add_gap :: "prep \<Rightarrow> prep" where
  "add_gap p = p\<lparr>pr_next := (pr_next p)\<lparr>st_gaps := st_gaps (pr_next p) + 1\<rparr>\<rparr>"

lemma record_step_cases:
  assumes "record_step env filter_normal now_ns kind bootstrap rec p = Inr p'"
  obtains name where "p' = count_normal (kind @ ''/'' @ name) p"
  | level line where "p' = add_entry \<lparr>le_kind = kind, le_level = level,
        le_ns = max now_ns (st_last_ns (pr_next p) + 1), le_line = line\<rparr>
        (set_ns (max now_ns (st_last_ns (pr_next p) + 1)) p)"
      and "entry env kind (fst rec) bootstrap (max now_ns (st_last_ns (pr_next p) + 1)) = Inr (level, line)"
proof -
  let ?ns = "max now_ns (st_last_ns (pr_next p) + 1)"
  from assms obtain normal where "(case normal of
          Some name \<Rightarrow> Inr (count_normal (kind @ ''/'' @ name) p)
        | None \<Rightarrow> bindE (entry env kind (fst rec) bootstrap ?ns) (\<lambda>(level, line).
            Inr (add_entry \<lparr>le_kind = kind, le_level = level, le_ns = ?ns, le_line = line\<rparr> (set_ns ?ns p)))) = Inr p'"
    unfolding record_step_def Let_def set_ns_def bindE_Inr_iff [of "if filter_normal then _ else _"] by blast
  then show thesis
    by (cases normal) (auto simp del: append.simps intro: that)
qed

lemma source_step_gap:
  "source_step env filter_normal now_ns s state source p =
     bindE (work_list env s (fst source) (snd (snd source)) (map_of (st_cursors state) (fst source))) (\<lambda>r.
       foldE (file_step env filter_normal now_ns (fst source) (map_of (st_cursors state) (fst source))) (fst r)
         (if snd r then add_gap p else p))"
  unfolding source_step_def Let_def add_gap_def split_def ..

lemma prepare_fold_invariant:
  assumes "foldE (source_step env filter_normal now_ns s state) sources p0 = Inr p1" and "P p0"
    and gap: "\<And>p. P p \<Longrightarrow> P (add_gap p)"
    and normal: "\<And>p key. P p \<Longrightarrow> P (count_normal key p)"
    and sent: "\<And>p kind raw bootstrap level line ns. P p \<Longrightarrow> ns = max now_ns (st_last_ns (pr_next p) + 1) \<Longrightarrow>
      entry env kind raw bootstrap ns = Inr (level, line) \<Longrightarrow>
      P (add_entry \<lparr>le_kind = kind, le_level = level, le_ns = ns, le_line = line\<rparr> (set_ns ns p))"
    and cursor: "\<And>p kind c. P p \<Longrightarrow> P (set_cursor kind c p)"
  shows "P p1"
proof (rule foldE_invariant [of "source_step env filter_normal now_ns s state" sources p0 p1 P, OF assms(1,2)])
  fix source p p'
  assume P: "P p" and step: "source_step env filter_normal now_ns s state source p = Inr p'"
  obtain kind path gens where source: "source = (kind, path, gens)" by (cases source)
  let ?previous = "map_of (st_cursors state) kind"
  from step [unfolded source_step_gap] obtain work lost where
    files: "foldE (file_step env filter_normal now_ns kind ?previous) work (if lost then add_gap p else p) = Inr p'"
    by (auto simp: source simp del: if_weak_cong)
  have "P (if lost then add_gap p else p)" using P gap by simp
  show "P p'"
  proof (rule foldE_invariant [where P = P, OF files \<open>P (if lost then add_gap p else p)\<close>])
    fix w q q'
    assume Q: "P q" and file_step: "file_step env filter_normal now_ns kind ?previous w q = Inr q'"
    obtain gen r offset where w: "w = (gen, r, offset)" by (cases w)
    have "\<exists>kept c. bindE (foldE (record_step env filter_normal now_ns kind (?previous = None)) kept q)
        (\<lambda>p. Inr (if gen = ''current'' then set_cursor kind c p else p)) = Inr q'"
      using file_step unfolding file_step_def w Let_def prod.case set_cursor_def by blast
    then obtain kept q1 c where
      records: "foldE (record_step env filter_normal now_ns kind (?previous = None)) kept q = Inr q1"
      and q': "q' = q1 \<or> q' = set_cursor kind c q1"
      by (auto split: if_splits)
    have "P q1"
    proof (rule foldE_invariant [where P = P, OF records Q])
      fix rec t t'
      assume "P t" "record_step env filter_normal now_ns kind (?previous = None) rec t = Inr t'"
      then show "P t'" by (elim record_step_cases) (auto intro: normal sent)
    qed
    with q' cursor show "P q'" by blast
  qed
qed

lemma log_bad_simp [simp]: "log_bad m = Inl (ValueError m)"
  by (rule log_bad_def)

lemma validate_state_same: "validate_state v = Inr w \<Longrightarrow> w = v"
proof -
  assume "validate_state v = Inr w"
  then obtain s where rest: "(case dget s ''pending'' of
         PNone \<Rightarrow> Inr v
       | PDict p \<Rightarrow>
           (if \<not> keys_are p [''batches'', ''next''] then log_bad ''invalid outbox''
            else (case dget p ''batches'' of
               PList bs \<Rightarrow>
                 (if length bs > 512 then log_bad ''invalid outbox''
                  else (case dget p ''next'' of
                     PDict n \<Rightarrow>
                       (if dget n ''pending'' \<noteq> PNone then log_bad ''nested pending state''
                        else bindE (validate_core (PDict n)) (\<lambda>_.
                             bindE (mapE validate_batch bs) (\<lambda>_. Inr v)))
                   | _ \<Rightarrow> Inl AttributeError))
             | _ \<Rightarrow> log_bad ''invalid outbox''))
       | _ \<Rightarrow> log_bad ''invalid outbox'') = Inr w"
    by (auto simp: validate_state_def)
  show "w = v"
  proof (cases "dget s ''pending''")
    case (PDict p)
    with rest show ?thesis
      by (cases "dget p ''batches''"; cases "dget p ''next''") (simp_all split: if_splits)
  qed (use rest in simp_all)
qed

lemma prepare_Inr:
  assumes "prepare env state s now_ns filter_normal = Inr out" and "st_pending state = None"
  obtains p where "foldE (source_step env filter_normal now_ns s state) SOURCES
        \<lparr>pr_next = core_of state, pr_batches = [], pr_batch = [], pr_size = 32\<rparr> = Inr p"
    and "out = with_pending (core_of state)
        (Some (pr_batches p @ (if pr_batch p = [] then [] else [pr_batch p]),
               (pr_next p)\<lparr>st_last_success := env_seconds env now_ns\<rparr>))"
    and "validate_state (log_state_value out) = Inr (log_state_value out)"
proof -
  from assms obtain p where p: "foldE (source_step env filter_normal now_ns s state) SOURCES
        \<lparr>pr_next = core_of state, pr_batches = [], pr_batch = [], pr_size = 32\<rparr> = Inr p"
    and out: "(let batches = pr_batches p @ (if pr_batch p = [] then [] else [pr_batch p]);
                out = with_pending (core_of state)
                        (Some (batches, (pr_next p)\<lparr>st_last_success := env_seconds env now_ns\<rparr>)) in
            if length batches > 512 then log_bad ''outbox limit exceeded''
            else bindE (validate_state (log_state_value out)) (\<lambda>_.
              if json_size (log_state_value out) > MAX_STATE then log_bad ''state limit exceeded''
              else Inr out)) = Inr out"
    unfolding prepare_def by auto
  then show thesis
    by (intro that [OF p]) (auto simp: Let_def dest: validate_state_same split: if_splits)
qed

section \<open>The typed state and its value\<close>

lemma with_pending_simps [simp]:
  "st_cursors (with_pending c p) = st_cursors c" "st_last_ns (with_pending c p) = st_last_ns c"
  "st_last_success (with_pending c p) = st_last_success c" "st_sent (with_pending c p) = st_sent c"
  "st_gaps (with_pending c p) = st_gaps c" "st_normal (with_pending c p) = st_normal c"
  "st_pending (with_pending c p) = p" "core_of (with_pending c p) = c"
  by (cases c; simp add: with_pending_def core_of_def log_core.extend_def log_state.fields_def
      log_core.truncate_def)+

lemma with_pending_core_of [simp]: "with_pending (core_of s) (st_pending s) = s"
  by (cases s) (simp add: with_pending_def core_of_def log_core.extend_def log_state.fields_def
      log_core.truncate_def)

lemma digits_value_str_int [simp]: "digits_value (str_int i) = i"
proof -
  have "\<not> startswith (str_nat n) ''-''" for n
    using str_nat_digits [of n] by (cases "str_nat n") (auto simp: startswith_def ascii_digit_def)
  then show ?thesis
    by (simp add: digits_value_def str_int_def startswith_def [of "CHR ''-'' # t" for t])
qed

lemma cursor_roundtrip [simp]: "cursor_of (cursor_value c) = c"
  by (cases c) (simp add: cursor_of_def cursor_value_def dget_or_def int_of_def py_str_def Let_def)

lemma entry_roundtrip [simp]: "entry_of (stream_value e) = e"
  by (cases e) (simp add: entry_of_def stream_value_def dget_or_def py_str_def list_of_def Let_def)

lemma batch_roundtrip [simp]: "batch_of (batch_value b) = b"
  by (simp add: batch_of_def batch_value_def dget_or_def list_of_def comp_def)

lemma core_items_lookup [simp]:
  "dget (core_items c @ r) ''cursors'' = PDict (map (\<lambda>(k, c). (k, cursor_value c)) (st_cursors c))"
  "dget (core_items c @ r) ''last_ns'' = PInt (st_last_ns c)"
  "dget (core_items c @ r) ''last_success'' = st_last_success c"
  "dget (core_items c @ r) ''sent'' = PInt (st_sent c)"
  "dget (core_items c @ r) ''gaps'' = PInt (st_gaps c)"
  "dget (core_items c @ r) ''normal'' = PDict (map (\<lambda>(k, n). (k, PInt n)) (st_normal c))"
  "dget (core_items c @ [(''pending'', v)]) ''pending'' = v"
  by (simp_all add: core_items_def dget_or_def)

lemma core_roundtrip [simp]: "core_of_value (PDict (core_items c @ r)) = log_core.truncate c"
  by (simp add: core_of_value_def Let_def comp_def case_prod_beta int_of_def log_core.truncate_def)

lemma truncate_core [simp]: "log_core.truncate (c :: log_core) = c"
  by (simp add: log_core.truncate_def)

lemma outbox_lookup [simp]:
  "dget [(''batches'', x), (''next'', y)] ''batches'' = x" "dget [(''batches'', x), (''next'', y)] ''next'' = y"
  by (simp_all add: dget_or_def)

lemma log_state_roundtrip [simp]: "log_state_of (log_state_value s) = s"
proof -
  have "log_state_of (log_state_value s) = with_pending (core_of s) (st_pending s)"
    by (cases "st_pending s")
      (auto simp: log_state_of_def log_state_value_def core_of_def [symmetric] list_of_def comp_def
        simp del: with_pending_core_of split: prod.splits)
  then show ?thesis by simp
qed

section \<open>What the JSON text can hold\<close>

definition core_json :: "(string \<Rightarrow> pyfloat) \<Rightarrow> ('a log_core_scheme) \<Rightarrow> bool" where
  "core_json float_of c \<longleftrightarrow> distinct (map fst (st_cursors c)) \<and> distinct (map fst (st_normal c))
     \<and> json_ok float_of (st_last_success c)"

lemma json_ok_cursor [simp]: "json_ok float_of (cursor_value c)"
  by (simp add: cursor_value_def)

lemma json_ok_batch [simp]: "json_ok float_of (batch_value b)"
  by (simp add: batch_value_def list_all_iff stream_value_def)

lemma json_ok_core:
  "core_json float_of c \<Longrightarrow> json_ok float_of v \<Longrightarrow> json_ok float_of (PDict (core_items c @ [(''pending'', v)]))"
  by (auto simp: core_json_def core_items_def comp_def case_prod_beta list_all_iff)

definition state_json :: "(string \<Rightarrow> pyfloat) \<Rightarrow> log_state \<Rightarrow> bool" where
  "state_json float_of s \<longleftrightarrow> core_json float_of s \<and>
     (case st_pending s of None \<Rightarrow> True | Some (bs, nxt) \<Rightarrow> core_json float_of nxt)"

lemma json_ok_state: "state_json float_of s \<Longrightarrow> json_ok float_of (log_state_value s)"
  unfolding log_state_value_def state_json_def
  by (rule json_ok_core)
    (auto intro!: json_ok_core simp: list_all_iff split: option.splits simp del: json_ok.simps(3) append.simps
      simp: json_ok.simps(3) [of _ "[(''batches'', x), (''next'', y)]" for x y])

lemma core_json_initial: "core_json float_of initial_core"
  by (simp add: core_json_def initial_core_def)

lemma core_json_truncate [simp]: "core_json float_of (core_of s) = core_json float_of s"
  by (simp add: core_json_def core_of_def log_core.truncate_def)

lemma core_json_with_pending [simp]: "core_json float_of (with_pending c p) = core_json float_of c"
  by (simp add: core_json_def)

lemma prepare_core_json:
  assumes "prepare env (with_pending c None) s now_ns filter_normal = Inr (with_pending c (Some (bs, nxt)))"
    and "core_json float_of c" and "json_ok float_of (env_seconds env now_ns)"
  shows "core_json float_of nxt"
proof -
  obtain p where fold: "foldE (source_step env filter_normal now_ns s (with_pending c None)) SOURCES
        \<lparr>pr_next = c, pr_batches = [], pr_batch = [], pr_size = 32\<rparr> = Inr p"
    and out: "with_pending c (Some (bs, nxt)) = with_pending c (Some (pr_batches p @ (if pr_batch p = [] then [] else [pr_batch p]),
               (pr_next p)\<lparr>st_last_success := env_seconds env now_ns\<rparr>))"
    by (rule prepare_Inr [OF assms(1)]) simp_all
  have "distinct (map fst (st_cursors (pr_next p))) \<and> distinct (map fst (st_normal (pr_next p)))"
    by (rule prepare_fold_invariant [where P = "\<lambda>p. distinct (map fst (st_cursors (pr_next p)))
            \<and> distinct (map fst (st_normal (pr_next p)))", OF fold])
      (use assms(2) in \<open>auto simp: core_json_def add_gap_def count_normal_def Let_def add_entry_def set_ns_def
        set_cursor_def distinct_update\<close>)
  moreover have "nxt = (pr_next p)\<lparr>st_last_success := env_seconds env now_ns\<rparr>"
    using arg_cong [OF out, of st_pending] by simp
  ultimately show ?thesis using assms(3) by (simp add: core_json_def)
qed

end
