(* ===== verification/Nas_Logs_Facts.thy ===== *)
theory Nas_Logs_Facts
  imports Nas_Prepare_Facts
begin

text \<open>
  Facts on \<open>Nas_Prepare\<close> behind the properties of \<open>Nas_Logs_Props\<close>: the order of the
  entries' timestamps, the size of a pushed batch, the loop that shortens a message, and the match
  of an overlong time.
\<close>

section \<open>Timestamps\<close>

definition entries_of :: "batch list \<Rightarrow> log_entry list" where
  "entries_of bs = concat bs"

text \<open>The entries collected so far, with the time they have to come after.\<close>

definition collected :: "prep \<Rightarrow> log_entry list" where
  "collected p = entries_of (pr_batches p) @ pr_batch p"

definition in_order :: "log_core \<Rightarrow> int \<Rightarrow> prep \<Rightarrow> bool" where
  "in_order c now_ns p \<longleftrightarrow> st_last_ns c \<le> st_last_ns (pr_next p)
     \<and> st_sent (pr_next p) = st_sent c + int (length (collected p))
     \<and> sorted_wrt (<) (map le_ns (collected p))
     \<and> (\<forall>e \<in> set (collected p). st_last_ns c < le_ns e \<and> now_ns \<le> le_ns e \<and> le_ns e \<le> st_last_ns (pr_next p))"

lemma collected_simps [simp]:
  "collected (add_gap p) = collected p" "collected (count_normal key p) = collected p"
  "collected (set_ns ns p) = collected p" "collected (set_cursor kind c p) = collected p"
  "collected (add_entry e p) = collected p @ [e]"
  by (simp_all add: collected_def entries_of_def add_gap_def count_normal_def set_ns_def set_cursor_def
      add_entry_def Let_def)

lemma next_simps [simp]:
  "st_last_ns (pr_next (add_gap p)) = st_last_ns (pr_next p)"
  "st_sent (pr_next (add_gap p)) = st_sent (pr_next p)"
  "st_last_ns (pr_next (count_normal key p)) = st_last_ns (pr_next p)"
  "st_sent (pr_next (count_normal key p)) = st_sent (pr_next p)"
  "st_last_ns (pr_next (set_cursor kind c p)) = st_last_ns (pr_next p)"
  "st_sent (pr_next (set_cursor kind c p)) = st_sent (pr_next p)"
  "st_last_ns (pr_next (set_ns ns p)) = ns"
  "st_sent (pr_next (set_ns ns p)) = st_sent (pr_next p)"
  "st_last_ns (pr_next (add_entry e p)) = st_last_ns (pr_next p)"
  "st_sent (pr_next (add_entry e p)) = st_sent (pr_next p) + 1"
  by (simp_all add: add_gap_def count_normal_def set_ns_def set_cursor_def add_entry_def Let_def)

lemma in_order_entry:
  assumes "in_order c now_ns p" and "ns = max now_ns (st_last_ns (pr_next p) + 1)" and "le_ns e = ns"
  shows "in_order c now_ns (add_entry e (set_ns ns p))"
proof -
  have "le_ns x < ns" if "x \<in> set (collected p)" for x
    using assms that by (fastforce simp: in_order_def)
  with assms show ?thesis
    by (fastforce simp: in_order_def sorted_wrt_append)
qed

lemma prepare_in_order:
  assumes "prepare env (with_pending c None) s now_ns filter_normal = Inr (with_pending c (Some (bs, nxt)))"
  shows "sorted_wrt (<) (map le_ns (concat bs))
     \<and> (\<forall>e \<in> set (concat bs). st_last_ns c < le_ns e \<and> now_ns \<le> le_ns e \<and> le_ns e \<le> st_last_ns nxt)
     \<and> st_last_ns c \<le> st_last_ns nxt \<and> st_sent nxt = st_sent c + int (length (concat bs))"
proof -
  obtain p where fold: "foldE (source_step env filter_normal now_ns s (with_pending c None)) SOURCES
        \<lparr>pr_next = c, pr_batches = [], pr_batch = [], pr_size = 32\<rparr> = Inr p"
    and out: "with_pending c (Some (bs, nxt)) = with_pending c (Some (pr_batches p @ (if pr_batch p = [] then [] else [pr_batch p]),
               (pr_next p)\<lparr>st_last_success := env_seconds env now_ns\<rparr>))"
    by (rule prepare_Inr [OF assms]) simp_all
  have "in_order c now_ns p"
  proof (rule prepare_fold_invariant [where P = "in_order c now_ns", OF fold])
    show "in_order c now_ns \<lparr>pr_next = c, pr_batches = [], pr_batch = [], pr_size = 32\<rparr>"
      by (simp add: in_order_def collected_def entries_of_def)
  next
    fix q kind raw bootstrap level line ns
    assume "in_order c now_ns q" "ns = max now_ns (st_last_ns (pr_next q) + 1)"
    then show "in_order c now_ns (add_entry \<lparr>le_kind = kind, le_level = level, le_ns = ns, le_line = line\<rparr> (set_ns ns q))"
      by (rule in_order_entry) simp
  qed (simp_all add: in_order_def)
  moreover have "concat bs = collected p" and "st_last_ns nxt = st_last_ns (pr_next p)"
    and "st_sent nxt = st_sent (pr_next p)"
    using arg_cong [OF out, of st_pending] by (auto simp: collected_def entries_of_def)
  ultimately show ?thesis by (simp add: in_order_def)
qed

section \<open>Sizes\<close>

lemma length_utf8_char: "length (utf8_encode (json_escape False c)) \<le> length (json_escape True c)"
proof -
  have "length (utf8_encode (json_escape False c)) = length (json_escape False c)" if "ord_of c < 128"
    using that by (subst utf8_encode_ascii) (auto simp: json_escape_def Let_def hex_digit_def)
  moreover have "length (utf8_encode (json_escape False c)) \<le> 2" if "\<not> ord_of c < 128"
    using that by (simp add: json_escape_def Let_def utf8_encode_def utf8_char_def)
  moreover have "length (json_escape False c) \<le> length (json_escape True c)"
    by (simp add: json_escape_def Let_def)
  moreover have "length (json_escape True c) = 6" if "\<not> ord_of c < 128"
    using that by (simp add: json_escape_def Let_def)
  ultimately show ?thesis by (cases "ord_of c < 128") auto
qed

lemma utf8_encode_append [simp]: "utf8_encode (s @ t) = utf8_encode s @ utf8_encode t"
  by (simp add: utf8_encode_def)

lemma length_utf8_ge: "length s \<le> length (utf8_encode s)"
  by (induction s) (simp_all add: utf8_encode_def utf8_char_def)

lemma length_utf8_str: "length (utf8_encode (json_str False s)) \<le> length (json_str True s)"
proof -
  have "length (utf8_encode (concat (map (json_escape False) s))) \<le> length (concat (map (json_escape True) s))"
    using length_utf8_char by (induction s) (simp_all add: utf8_encode_def add_mono)
  then show ?thesis by (simp add: json_str_def) (simp add: utf8_encode_def utf8_char_def)
qed

lemma length_utf8_join:
  assumes "length (utf8_encode sep) \<le> length sep'" and "\<forall>x \<in> set xs. length (utf8_encode (f x)) \<le> length (g x)"
  shows "length (utf8_encode (py_join sep (map f xs))) \<le> length (py_join sep' (map g xs))"
  using assms(2)
proof (induction xs)
  case (Cons x xs)
  then show ?case using assms(1) by (cases xs) (auto intro!: add_mono)
qed (simp add: utf8_encode_def)

lemma utf8_str_int: "utf8_encode (str_int i) = str_int i"
  using str_nat_digits
  by (intro utf8_encode_ascii) (fastforce simp: str_int_def list_all_iff ascii_digit_def)

text \<open>The compact form, in UTF-8, is not longer than the default one (for values without floats).\<close>

lemma no_float: "\<not> float_literal (\<lambda>_. FNaN) r q"
  by (auto simp: float_literal_def json_number_def Let_def split: option.splits if_splits)

lemma compact_not_longer:
  "json_ok (\<lambda>_. FNaN) v \<Longrightarrow>
     length (utf8_encode (json_enc json_compact_unicode v)) \<le> length (utf8_encode (json_enc json_default v))"
proof -
  assume ok: "json_ok (\<lambda>_. FNaN) v"
  have "length (utf8_encode (json_enc json_compact_unicode v)) \<le> length (json_enc json_default v)"
    using ok
  proof (induction v)
    case (PFloat f)
    then show ?case by (cases f) (simp_all add: no_float)
  next
    case (PInt i)
    then show ?case by (simp add: utf8_str_int)
  next
    case (PStr s)
    then show ?case using length_utf8_str by (simp add: json_compact_unicode_def json_default_def)
  next
    case (PList xs)
    then have "\<forall>x \<in> set xs. length (utf8_encode (json_enc json_compact_unicode x)) \<le> length (json_enc json_default x)"
      by (auto simp: list_all_iff)
    from length_utf8_join [OF _ this, of "fmt_item_sep json_compact_unicode" "fmt_item_sep json_default"]
    show ?case by (simp add: json_compact_unicode_def json_default_def) (simp add: utf8_encode_def utf8_char_def)
  next
    case (PDict kvs)
    let ?f = "\<lambda>(k, v). json_str False k @ '':'' @ json_enc json_compact_unicode v"
    let ?g = "\<lambda>(k, v). json_str True k @ '': '' @ json_enc json_default v"
    have "length (utf8_encode (?f kv)) \<le> length (?g kv)" if kv: "kv \<in> set kvs" for kv
    proof -
      obtain k v where "kv = (k, v)" by force
      moreover from this kv PDict have
        "length (utf8_encode (json_enc json_compact_unicode v)) \<le> length (json_enc json_default v)"
        by (auto simp: list_all_iff)
      moreover have "length (utf8_encode '':'') \<le> 1" by (simp add: utf8_encode_def utf8_char_def)
      ultimately show ?thesis
        using length_utf8_str [of k] utf8_encode_append [of "'':''" "json_enc json_compact_unicode v"] by simp
    qed
    then have "\<forall>x \<in> set kvs. length (utf8_encode (?f x)) \<le> length (?g x)" by blast
    from length_utf8_join [OF _ this, of "fmt_item_sep json_compact_unicode" "fmt_item_sep json_default"]
    show ?case by (simp add: json_compact_unicode_def json_default_def) (simp add: utf8_encode_def utf8_char_def)
  qed (simp_all add: utf8_encode_def utf8_char_def)
  then show ?thesis using length_utf8_ge le_trans by blast
qed

lemma mapE_Inr_in: "mapE f xs = Inr ys \<Longrightarrow> x \<in> set xs \<Longrightarrow> \<exists>y. f x = Inr y"
  by (induction xs arbitrary: ys) auto

lemma validated_batches:
  assumes "validate_state (log_state_value s) = Inr w" and "st_pending s = Some (bs, nxt)" and "b \<in> set bs"
  shows "json_size (batch_value b) \<le> 262144"
proof -
  let ?outbox = "[(''batches'', PList (map batch_value bs)), (''next'', PDict (core_items nxt @ [(''pending'', PNone)]))]"
  have same: "validate_core v = Inr d \<Longrightarrow> v = PDict d" for v d
    by (cases v) (auto simp: validate_core_def split: if_splits pyval.splits)
  have "\<exists>us. mapE validate_batch (map batch_value bs) = Inr us"
    using assms(1,2)
    by (auto simp: validate_state_def log_state_value_def dest!: same split: if_splits)
  then obtain u where "validate_batch (batch_value b) = Inr u"
    using mapE_Inr_in assms(3) by (metis image_eqI list.set_map)
  then show ?thesis
    by (auto simp: validate_batch_def batch_value_def split: if_splits)
qed

section \<open>The loop that shortens a message\<close>

lemma shrink_returns:
  assumes "\<And>m. length m \<le> 1 \<Longrightarrow> \<not> big m True" and "fuel \<ge> length m + 2"
  shows "\<exists>r. shrink big fuel m t = Some r"
  using assms(2)
proof (induction m arbitrary: fuel t rule: length_induct)
  case (1 m)
  then obtain n where n: "fuel = Suc n" by (cases fuel) auto
  let ?m = "take (max 1 (length m div 2)) m"
  show ?case
  proof (cases "big m t")
    case True
    show ?thesis
    proof (cases "length m \<le> 1")
      case True
      then have "?m = m" by simp
      moreover obtain k where k: "n = Suc k" using "1.prems" n by (cases n) auto
      ultimately have "shrink big fuel m t = Some (m, True)"
        unfolding n k shrink.simps using \<open>big m t\<close> assms(1) [OF True] by simp
      then show ?thesis by blast
    next
      case False
      then have "length ?m < length m" by simp
      moreover from this have "length ?m + 2 \<le> n" using "1.prems" n by simp
      ultimately obtain r where "shrink big n ?m True = Some r" using "1.IH" by blast
      with True n show ?thesis by simp
    qed
  qed (simp add: n)
qed

lemma shrink_result:
  "shrink big fuel m t = Some (m', t') \<Longrightarrow> \<not> big m' t' \<and> (\<exists>n. m' = take n m)"
proof (induction big fuel m t rule: shrink.induct)
  case (2 big fuel m t)
  show ?case
  proof (cases "big m t")
    case True
    with 2 obtain n where "\<not> big m' t'" "m' = take n (take (max 1 (length m div 2)) m)" by auto
    then show ?thesis by auto
  next
    case False
    with "2.prems" show ?thesis by (auto intro: exI [of _ "length m"])
  qed
qed simp

lemma shrink_hangs: "(\<And>m t. big m t) \<Longrightarrow> shrink big fuel m t = None"
  by (induction fuel arbitrary: m t) simp_all

lemma length_object:
  assumes "length m \<le> 1"
  shows "length (utf8_encode (json_enc json_unicode (entry_object env kind bootstrap ns original m t)))
    \<le> 2000 + 12 * length (env_iso env ns) + 12 * length (source_file kind)
      + 2 * length (json_enc json_unicode original)"
proof -
  have len: "length (utf8_encode s) \<le> 2 * length s" for s
    by (induction s) (simp_all add: utf8_encode_def utf8_char_def)
  have str: "length (json_str False s) \<le> 6 * length s + 2" for s
    by (induction s) (simp_all add: json_str_def json_escape_def Let_def)
  let ?o = "json_enc json_unicode (entry_object env kind bootstrap ns original m t)"
  have "length ?o \<le> 1000 + 6 * length (env_iso env ns) + 6 * length (source_file kind)
      + length (json_enc json_unicode original)"
    using assms str [of m] str [of "''message''"] str [of "source_file kind"] str [of "''source_file''"]
      str [of "''bootstrap''"] str [of "''observed_at''"] str [of "env_iso env ns"] str [of "''source_time''"]
      str [of "''filter_version''"] str [of RULE_VERSION] str [of "''truncated''"]
    by (auto simp: entry_object_def json_unicode_def RULE_VERSION_def)
  with len [of ?o] show ?thesis by simp
qed

text \<open>A repetition without upper bound takes all it can first.\<close>

lemma rep_run_greedy:
  assumes "list_all P s" and "fuel \<ge> length s" and "lo \<le> length s"
  shows "\<exists>rest. rep_run (rx_run (Cls P)) fuel lo None (b, s, caps) = (rev s @ b, [], caps) # rest"
  using assms
proof (induction s arbitrary: fuel lo b)
  case Nil
  then show ?case by (cases fuel) auto
next
  case (Cons c s)
  then obtain n where n: "fuel = Suc n" by (cases fuel) auto
  have "list_all P s" "length s \<le> n" "lo - 1 \<le> length s" using Cons.prems n by auto
  from Cons.IH [OF this, of "c # b"] obtain rest where
    "rep_run (rx_run (Cls P)) n (lo - 1) None (c # b, s, caps) = (rev s @ c # b, [], caps) # rest" by blast
  then show ?case using Cons.prems(1) n by simp
qed

lemma rx_run_greedy:
  assumes "list_all P s" and "lo \<le> length s"
  shows "\<exists>rest. rx_run (Rep (Cls P) lo None) (b, s, caps) = (rev s @ b, [], caps) # rest"
  using rep_run_greedy [OF assms(1), of "lo + length s" lo b caps] assms(2) by simp

definition long_time :: "nat \<Rightarrow> string" where
  "long_time n = ''2026-01-01 00:00:00.'' @ replicate n (CHR ''1'')"

lemma rep_run_exact:
  assumes "fuel \<ge> k"
  shows "rep_run (rx_run (Cls P)) fuel k (Some k) (b, s, caps) =
    (if k \<le> length s \<and> list_all P (take k s) then [(rev (take k s) @ b, drop k s, caps)] else [])"
  using assms
proof (induction k arbitrary: fuel b s)
  case 0
  then show ?case by (cases fuel) auto
next
  case (Suc k)
  then obtain n where "fuel = Suc n" "n \<ge> k" by (cases fuel) auto
  with Suc.IH show ?case by (cases s) auto
qed

lemma rx_run_rtimes:
  "rx_run (rtimes k (Cls P)) (b, s, caps) =
    (if k \<le> length s \<and> list_all P (take k s) then [(rev (take k s) @ b, drop k s, caps)] else [])"
  by (simp add: rtimes_def rep_run_exact del: rx_run.simps(2))

lemma source_time_long:
  assumes "n > 0"
  shows "source_time (long_time n) = PStr (long_time n @ '' JST'')"
proof -
  let ?ones = "replicate n (CHR ''1'')"
  let ?b = "rev ''2026-01-01 00:00:00''"
  have "list_all ascii_digit ?ones" "1 \<le> length ?ones"
    using assms by (auto simp: list_all_iff ascii_digit_def)
  from rx_run_greedy [OF this] obtain rest where
    greedy: "rx_run digits (CHR ''.'' # ?b, ?ones, []) = (rev (long_time n), [], []) # rest"
    unfolding digits_def digit_def rplus_def long_time_def by fastforce
  have "rx_run (Cat (rlit ''.'') digits) (?b, CHR ''.'' # ?ones, []) = (rev (long_time n), [], []) # rest"
    using greedy by (simp add: rlit_def lit_char_def)
  moreover have "rep_run f k 0 (Some 0) st = [st]" for f :: "rx_state \<Rightarrow> rx_state list" and k st
    by (cases k) simp_all
  ultimately have "\<exists>rest. rx_run (ropt (Cat (rlit ''.'') digits)) (?b, CHR ''.'' # ?ones, [])
      = (rev (long_time n), [], []) # rest"
    by (simp add: ropt_def)
  then obtain rest' where opt: "rx_run (ropt (Cat (rlit ''.'') digits)) (?b, CHR ''.'' # ?ones, [])
      = (rev (long_time n), [], []) # rest'" by blast
  have "rx_run SOURCE_TIME ([], long_time n, []) = (rev (long_time n), [], []) # rest'"
    using opt
    by (simp add: SOURCE_TIME_def long_time_def digit_def rx_run_rtimes rlit_def lit_char_def one_of_def
        ascii_digit_def)
  then show ?thesis
    by (simp add: source_time_def re_search_def search_from.simps)
qed

lemma length_concat_ge: "(\<And>c. 1 \<le> length (f c)) \<Longrightarrow> length s \<le> length (concat (map f s))"
proof (induction s)
  case (Cons a s)
  have "1 \<le> length (f a)" by (rule Cons.prems)
  moreover have "length s \<le> length (concat (map f s))" using Cons by blast
  ultimately show ?case by simp
qed simp

lemma length_json_str_ge: "length s \<le> length (json_str ascii s)"
proof -
  have "1 \<le> length (json_escape ascii c)" for c by (simp add: json_escape_def Let_def)
  then have "length s \<le> length (concat (map (json_escape ascii) s))" by (rule length_concat_ge)
  then show ?thesis by (simp add: json_str_def)
qed

lemma rstrip_by_keep: "s \<noteq> [] \<Longrightarrow> \<not> P (last s) \<Longrightarrow> rstrip_by P s = s"
  unfolding rstrip_by_def by (cases s rule: rev_cases) simp_all

lemma log_text_long:
  assumes "env_text env raw = long_time n" and "n > 0"
  shows "log_text env raw = long_time n"
proof -
  have "last (long_time n) = CHR ''1''" using assms(2) by (simp add: long_time_def last_replicate)
  moreover have "long_time n \<noteq> []" by (simp add: long_time_def)
  ultimately show ?thesis unfolding log_text_def assms(1) by (intro rstrip_by_keep) simp_all
qed

end
