(* ===== verification/Nas_Delivery.thy ===== *)
theory Nas_Delivery
  imports Nas_Prepare_Facts
begin

text \<open>
  Delivery of the log collector: over any sequence of polls, failing operations, power
  losses and restarts, the stored cursors only move past log lines whose batches the
  log server has accepted.
\<close>

section \<open>Acknowledged states\<close>

text \<open>A state of the cursors that was reached from the initial one through outboxes
  whose batches the log server has all accepted.\<close>

inductive acked :: "log_env \<Rightarrow> bool \<Rightarrow> batch list \<Rightarrow> log_core \<Rightarrow> bool"
  for env filter_normal accepted where
  acked_initial: "acked env filter_normal accepted initial_core"
| acked_commit: "acked env filter_normal accepted c \<Longrightarrow>
    prepare env (with_pending c None) s now_ns filter_normal = Inr (with_pending c (Some (bs, nxt))) \<Longrightarrow>
    set bs \<subseteq> set accepted \<Longrightarrow> acked env filter_normal accepted nxt"

lemma acked_mono:
  "acked env filter_normal accepted c \<Longrightarrow> set accepted \<subseteq> set accepted' \<Longrightarrow> acked env filter_normal accepted' c"
proof (induction rule: acked.induct)
  case (acked_commit c s now_ns bs nxt)
  have "set bs \<subseteq> set accepted'" using acked_commit.hyps(3) acked_commit.prems by blast
  with acked.acked_commit [OF acked_commit.IH [OF acked_commit.prems] acked_commit.hyps(2)] show ?case .
qed (rule acked.acked_initial)

definition conf_ok :: "poll_conf \<Rightarrow> bool" where
  "conf_ok conf \<longleftrightarrow> (\<forall>ns. json_ok (pc_float conf) (env_seconds (pc_env conf) ns))"

definition state_ok :: "poll_conf \<Rightarrow> batch list \<Rightarrow> log_state \<Rightarrow> bool" where
  "state_ok conf accepted s \<longleftrightarrow> acked (pc_env conf) (pc_filter conf) accepted (core_of s)
     \<and> core_json (pc_float conf) (core_of s) \<and>
     (case st_pending s of None \<Rightarrow> True
      | Some outbox \<Rightarrow> \<exists>snapshot now_ns. prepare (pc_env conf) (with_pending (core_of s) None) snapshot now_ns
           (pc_filter conf) = Inr (with_pending (core_of s) (Some outbox)))"

lemma state_ok_mono: "state_ok conf accepted s \<Longrightarrow> state_ok conf (accepted @ new) s"
  by (auto simp: state_ok_def intro: acked_mono)

lemma state_ok_json:
  assumes "conf_ok conf" and "state_ok conf accepted s"
  shows "json_ok (pc_float conf) (log_state_value s)"
proof (rule json_ok_state)
  show "state_json (pc_float conf) s"
  proof (cases "st_pending s")
    case None
    with assms show ?thesis by (simp add: state_json_def state_ok_def)
  next
    case (Some outbox)
    obtain bs nxt where o: "outbox = (bs, nxt)" by force
    with Some assms prepare_core_json show ?thesis
      by (auto simp: state_json_def state_ok_def conf_ok_def)
  qed
qed

lemma state_ok_commit:
  assumes "conf_ok conf" and "state_ok conf accepted s" and "st_pending s = Some (bs, nxt)"
    and "set bs \<subseteq> set accepted"
  shows "state_ok conf accepted (with_pending nxt None)"
  using assms prepare_core_json acked_commit by (auto simp: state_ok_def conf_ok_def)

lemma state_ok_candidate:
  assumes "state_ok conf accepted s" and "st_pending s = None" and "candidate conf i s = Inr cand"
  shows "state_ok conf accepted cand" and "st_pending cand \<noteq> None"
proof -
  from assms(3) obtain snapshot where prep:
    "prepare (pc_env conf) s snapshot (pi_now i) (pc_filter conf) = Inr cand"
    by (auto simp: candidate_def)
  have s: "s = with_pending (core_of s) None" using with_pending_core_of [of s] assms(2) by simp
  obtain outbox where cand: "cand = with_pending (core_of s) (Some outbox)"
    by (rule prepare_Inr [OF prep assms(2)]) blast
  from prep s cand have "prepare (pc_env conf) (with_pending (core_of s) None) snapshot (pi_now i)
      (pc_filter conf) = Inr (with_pending (core_of s) (Some outbox))" by simp
  with assms(1) show "state_ok conf accepted cand" "st_pending cand \<noteq> None"
    by (auto simp: state_ok_def cand)
qed

section \<open>The state file\<close>

definition content_ok :: "poll_conf \<Rightarrow> batch list \<Rightarrow> string \<Rightarrow> bool" where
  "content_ok conf accepted d \<longleftrightarrow>
     (\<exists>s t. log_state_data s = Inr t \<and> d = utf8_encode t \<and> length d \<le> MAX_STATE \<and> state_ok conf accepted s)"

definition files_ok :: "poll_conf \<Rightarrow> batch list \<Rightarrow> fs \<Rightarrow> bool" where
  "files_ok conf accepted f \<longleftrightarrow>
     pc_path conf \<notin> set (fs_symlinks f) \<and> contents f (pc_path conf) (content_ok conf accepted)"

lemma content_ok_mono: "content_ok conf accepted d \<Longrightarrow> content_ok conf (accepted @ new) d"
  unfolding content_ok_def using state_ok_mono by blast

lemma files_ok_mono: "files_ok conf accepted f \<Longrightarrow> files_ok conf (accepted @ new) f"
  using contents_mono [of f "pc_path conf" "content_ok conf accepted"] content_ok_mono
  by (simp add: files_ok_def)

lemma log_state_data_Inr:
  assumes "log_state_data s = Inr t"
  shows "validate_state (log_state_value s) = Inr (log_state_value s)"
    and "t = json_enc json_compact_unicode (log_state_value s)"
  using assms
  by (auto simp: log_state_data_def json_dumps_finite_def dest: validate_state_same split: if_splits)

lemma load_content:
  assumes "conf_ok conf" and "content_ok conf accepted d" and "pc_path conf \<notin> set (fs_symlinks f)"
    and "read_file f (pc_path conf) = Some d"
  shows "\<exists>s. load_log_state (pc_float conf) (pc_path conf) f = Inr s \<and> state_ok conf accepted s"
proof -
  from assms(2) obtain s t where t: "log_state_data s = Inr t" "d = utf8_encode t" "length d \<le> MAX_STATE"
    and ok: "state_ok conf accepted s" by (auto simp: content_ok_def)
  have "json_loads (pc_float conf) t = Inr (log_state_value s)"
    unfolding log_state_data_Inr(2) [OF t(1)]
    by (rule json_roundtrip [OF _ state_ok_json [OF assms(1) ok]]) simp
  then show ?thesis
    using t assms(3,4) ok log_state_data_Inr(1) [OF t(1)]
    by (simp add: load_log_state_def utf8_roundtrip)
qed

lemma load_files_ok:
  assumes "conf_ok conf" and "files_ok conf accepted f"
  shows "\<exists>s. load_log_state (pc_float conf) (pc_path conf) f = Inr s \<and> state_ok conf accepted s"
proof (cases "read_file f (pc_path conf)")
  case None
  have "acked (pc_env conf) (pc_filter conf) accepted initial_core" by (rule acked_initial)
  then have "state_ok conf accepted initial_state"
    by (simp add: state_ok_def initial_state_def core_json_initial)
  with None assms(2) show ?thesis by (simp add: load_log_state_def files_ok_def)
next
  case (Some d)
  with assms contents_read load_content show ?thesis by (metis files_ok_def)
qed

lemma save_files_ok:
  assumes "save_log_state (pc_path conf) io s f = (f', r)" and "files_ok conf accepted f"
    and "state_ok conf accepted s" and "io_temp io \<noteq> pc_path conf"
  shows "files_ok conf accepted f'"
proof (cases "f' = f")
  case False
  with assms(1) obtain t where t: "log_state_data s = Inr t" "length (utf8_encode t) \<le> MAX_STATE"
    and r: "replace_file io (pc_path conf) (utf8_encode t) f = (f', r)"
    by (auto simp: save_log_state_def split: sum.splits if_splits)
  have "content_ok conf accepted (utf8_encode t)" using t assms(3) by (auto simp: content_ok_def)
  with contents_replace [OF r _ _ assms(4)] replace_file_result(6) [OF r assms(4)] assms(2)
  show ?thesis by (simp add: files_ok_def)
qed (use assms(2) in simp)

lemma state_after_links: "fs_symlinks (state_after io path data k f) = fs_symlinks f"
proof -
  have "fs_symlinks (op_effect io path data op f) = fs_symlinks f" for op f
    by (cases op) (simp_all add: put_file_def)
  then have "fs_symlinks (fold (op_effect io path data) ops f) = fs_symlinks f" for ops
    by (induction ops arbitrary: f) simp_all
  then show ?thesis by (simp add: state_after_def)
qed

section \<open>Polls, power losses and restarts\<close>

text \<open>Ready to deliver: the state with its outbox in memory, and the files.\<close>

definition outbox_ready :: "poll_conf \<Rightarrow> poll_input \<Rightarrow> fs \<Rightarrow> log_collector \<Rightarrow> log_state \<Rightarrow> fs \<Rightarrow> bool" where
  "outbox_ready conf i f c s g \<longleftrightarrow>
     (current_state conf f c = Inr s \<and> st_pending s \<noteq> None \<and> g = f) \<or>
     (\<exists>s0. current_state conf f c = Inr s0 \<and> st_pending s0 = None \<and> candidate conf i s0 = Inr s
        \<and> save_log_state (pc_path conf) (pi_outbox_save i) s f = (g, None))"

text \<open>Where the power may fail in a poll: before anything was written, during the save of the
  outbox, during delivery, or during the save of the committed state.\<close>

inductive power_fails ::
    "poll_conf \<Rightarrow> poll_input \<Rightarrow> fs \<times> log_collector \<times> batch list \<Rightarrow> fs \<Rightarrow> batch list \<Rightarrow> bool"
  for conf i where
  pf_idle: "power_fails conf i (f, c, accepted) f accepted"
| pf_outbox: "current_state conf f c = Inr s \<Longrightarrow> st_pending s = None \<Longrightarrow> candidate conf i s = Inr cand \<Longrightarrow>
    log_state_data cand = Inr t \<Longrightarrow> length (utf8_encode t) \<le> MAX_STATE \<Longrightarrow>
    power_fails conf i (f, c, accepted)
      (state_after (pi_outbox_save i) (pc_path conf) (utf8_encode t) k f) accepted"
| pf_deliver: "outbox_ready conf i f c s g \<Longrightarrow> st_pending s = Some (bs, nxt) \<Longrightarrow>
    power_fails conf i (f, c, accepted) g (accepted @ take n (fst (send_batches i 0 bs)))"
| pf_commit: "outbox_ready conf i f c s g \<Longrightarrow> st_pending s = Some (bs, nxt) \<Longrightarrow>
    send_batches i 0 bs = (sent, True) \<Longrightarrow> log_state_data (with_pending nxt None) = Inr t \<Longrightarrow>
    length (utf8_encode t) \<le> MAX_STATE \<Longrightarrow>
    power_fails conf i (f, c, accepted)
      (state_after (pi_commit_save i) (pc_path conf) (utf8_encode t) k g) (accepted @ sent)"

definition good_poll :: "poll_conf \<Rightarrow> poll_input \<Rightarrow> bool" where
  "good_poll conf i \<longleftrightarrow> io_temp (pi_outbox_save i) \<noteq> pc_path conf \<and> io_temp (pi_commit_save i) \<noteq> pc_path conf"

inductive log_run :: "poll_conf \<Rightarrow> log_world \<Rightarrow> bool" for conf where
  run_start: "pc_path conf \<notin> set (fs_symlinks f) \<Longrightarrow> fs_now f (pc_path conf) = None \<Longrightarrow>
    fs_disk f (pc_path conf) = None \<Longrightarrow> log_run conf (f, log_collector_init, [])"
| run_poll: "log_run conf w \<Longrightarrow> good_poll conf i \<Longrightarrow> log_poll_once conf i w = Some w' \<Longrightarrow> log_run conf w'"
| run_power_loss: "log_run conf w \<Longrightarrow> good_poll conf i \<Longrightarrow> power_fails conf i w f accepted \<Longrightarrow>
    rebooted f (pc_path conf) g \<Longrightarrow> log_run conf (g, log_collector_init, accepted)"

definition world_ok :: "poll_conf \<Rightarrow> log_world \<Rightarrow> bool" where
  "world_ok conf w \<longleftrightarrow> (case w of (f, c, accepted) \<Rightarrow> files_ok conf accepted f \<and>
     (case co_state c of None \<Rightarrow> True | Some s \<Rightarrow> state_ok conf accepted s))"

lemma send_batches_all: "snd (send_batches i n bs) \<Longrightarrow> fst (send_batches i n bs) = bs"
proof (induction i n bs rule: send_batches.induct)
  case (2 i n b bs)
  show ?case
  proof (cases "pi_late i n \<or> push b (pi_answers i n) \<noteq> Inr ()")
    case False
    with 2 show ?thesis unfolding send_batches.simps if_not_P [OF False] Let_def by simp
  qed (use 2 in simp)
qed simp

lemma current_state_ok:
  assumes "conf_ok conf" and "world_ok conf (f, c, accepted)" and "current_state conf f c = Inr s"
  shows "state_ok conf accepted s"
proof (cases "co_state c")
  case None
  with assms load_files_ok [OF assms(1), of accepted f] show ?thesis
    by (auto simp: current_state_def world_ok_def)
qed (use assms in \<open>simp add: current_state_def world_ok_def\<close>)

lemma outbox_ready_ok:
  assumes "conf_ok conf" and "world_ok conf (f, c, accepted)" and "good_poll conf i"
    and "outbox_ready conf i f c s g"
  shows "files_ok conf accepted g \<and> state_ok conf accepted s"
  using assms current_state_ok [OF assms(1,2)] state_ok_candidate save_files_ok
  unfolding outbox_ready_def good_poll_def world_ok_def by blast

lemma poll_failed_state [simp]: "co_state (poll_failed c) = co_state c"
  by (simp add: poll_failed_def)

lemma deliver_ok:
  assumes "conf_ok conf" and "good_poll conf i" and "files_ok conf accepted f" and "state_ok conf accepted s"
    and "co_state c = Some s"
  shows "world_ok conf (deliver conf i s (f, c, accepted))"
proof (cases "st_pending s")
  case None
  with assms show ?thesis by (simp add: deliver_def world_ok_def)
next
  case (Some outbox)
  obtain bs nxt where o: "outbox = (bs, nxt)" by force
  obtain sent ok where sent: "send_batches i 0 bs = (sent, ok)" by force
  show ?thesis
  proof (cases ok)
    case False
    with assms Some o sent show ?thesis
      by (simp add: deliver_def world_ok_def files_ok_mono state_ok_mono)
  next
    case True
    with send_batches_all [of i 0 bs] sent have "sent = bs" by simp
    then have commit: "state_ok conf (accepted @ sent) (with_pending nxt None)"
      using state_ok_commit [OF assms(1) state_ok_mono [OF assms(4)]] Some o by simp
    obtain g r where save: "save_log_state (pc_path conf) (pi_commit_save i) (with_pending nxt None) f = (g, r)"
      by force
    have "files_ok conf (accepted @ sent) g"
      using save_files_ok [OF save files_ok_mono [OF assms(3)] commit] assms(2) by (simp add: good_poll_def)
    with assms Some o sent True save commit show ?thesis
      by (cases r) (simp_all add: deliver_def world_ok_def state_ok_mono)
  qed
qed

lemma poll_ok:
  assumes "conf_ok conf" and "good_poll conf i" and "world_ok conf w" and "log_poll_once conf i w = Some w'"
  shows "world_ok conf w'"
proof -
  obtain f c accepted where w: "w = (f, c, accepted)" by (cases w)
  note inv = assms(3) [unfolded w]
  show ?thesis
  proof (cases "current_state conf f c")
    case (Inl e)
    with assms(4) inv show ?thesis by (auto simp: log_poll_once_def w world_ok_def)
  next
    case (Inr s)
    note ok = current_state_ok [OF assms(1) inv Inr]
    let ?c = "c\<lparr>co_state := Some s, co_valid := True\<rparr>"
    have files: "files_ok conf accepted f" using inv by (simp add: world_ok_def)
    show ?thesis
    proof (cases "st_pending s")
      case (Some outbox)
      then have "w' = deliver conf i s (f, ?c, accepted)"
        using assms(4) Inr by (simp add: log_poll_once_def w Let_def)
      with deliver_ok [OF assms(1,2) files ok, of ?c] show ?thesis by simp
    next
      case None
      show ?thesis
      proof (cases "candidate conf i s")
        case (Inl e)
        with assms(4) Inr None ok files show ?thesis
          by (auto simp: log_poll_once_def w Let_def world_ok_def split: if_splits)
      next
        case (Inr cand)
        note cand = state_ok_candidate [OF ok None this]
        obtain g r where save: "save_log_state (pc_path conf) (pi_outbox_save i) cand f = (g, r)" by force
        have g: "files_ok conf accepted g"
          using save_files_ok [OF save files cand(1)] assms(2) by (simp add: good_poll_def)
        show ?thesis
        proof (cases r)
          case (Some e)
          with assms(4) \<open>current_state conf f c = Inr s\<close> None Inr save ok g show ?thesis
            by (auto simp: log_poll_once_def w Let_def world_ok_def)
        next
          case None
          then have "w' = deliver conf i cand (g, ?c\<lparr>co_state := Some cand\<rparr>, accepted)"
            using assms(4) \<open>current_state conf f c = Inr s\<close> \<open>st_pending s = None\<close> Inr save
            by (simp add: log_poll_once_def w Let_def)
          with deliver_ok [OF assms(1,2) g cand(1), of "?c\<lparr>co_state := Some cand\<rparr>"] show ?thesis by simp
        qed
      qed
    qed
  qed
qed

lemma power_loss_ok:
  assumes "conf_ok conf" and "good_poll conf i" and "world_ok conf w" and "power_fails conf i w g accepted"
  shows "files_ok conf accepted g"
  using assms(4,3)
proof (cases rule: power_fails.cases)
  case (pf_idle c)
  with assms(3) show ?thesis by (simp add: world_ok_def)
next
  case (pf_outbox f c s cand t k)
  have "state_ok conf accepted cand"
    using current_state_ok [OF assms(1)] assms(3) pf_outbox state_ok_candidate by blast
  then have "content_ok conf accepted (utf8_encode t)" using pf_outbox by (auto simp: content_ok_def)
  with pf_outbox assms(2,3) show ?thesis
    by (auto simp: files_ok_def world_ok_def good_poll_def state_after_links intro: contents_state_after)
next
  case (pf_deliver f c s bs nxt old n)
  with outbox_ready_ok [OF assms(1) _ assms(2)] assms(3) show ?thesis by (auto intro: files_ok_mono)
next
  case (pf_commit f c s h bs nxt sent t old k)
  then have ready: "files_ok conf old h" "state_ok conf old s"
    using outbox_ready_ok [OF assms(1) _ assms(2)] assms(3) by blast+
  have "sent = bs" using send_batches_all [of i 0 bs] pf_commit by simp
  then have "state_ok conf accepted (with_pending nxt None)"
    using state_ok_commit [OF assms(1) state_ok_mono [OF ready(2)]] pf_commit by simp
  then have "content_ok conf accepted (utf8_encode t)" using pf_commit by (auto simp: content_ok_def)
  with pf_commit assms(2) files_ok_mono [OF ready(1)] show ?thesis
    by (auto simp: files_ok_def good_poll_def state_after_links intro: contents_state_after)
qed

lemma log_run_ok: "log_run conf w \<Longrightarrow> conf_ok conf \<Longrightarrow> world_ok conf w"
proof (induction rule: log_run.induct)
  case (run_start f)
  then show ?case by (simp add: world_ok_def files_ok_def contents_def log_collector_init_def)
next
  case (run_poll w i w')
  then show ?case using poll_ok by blast
next
  case (run_power_loss w i f accepted g)
  then have "files_ok conf accepted f" using power_loss_ok by blast
  with run_power_loss.hyps(4) show ?case
    by (auto simp: world_ok_def files_ok_def log_collector_init_def rebooted_def
        intro: contents_rebooted [OF _ run_power_loss.hyps(4)])
qed


definition example_env :: log_env where
  "example_env = \<lparr>env_sha = id, env_text = id, env_iso = (\<lambda>ns. str_int ns), env_seconds = (\<lambda>ns. PInt (ns div 1000000000))\<rparr>"

definition example_conf :: poll_conf where
  "example_conf = \<lparr>pc_env = example_env, pc_float = (\<lambda>s. FNaN), pc_path = ''/state/state.json'', pc_filter = True\<rparr>"


end
