(* ===== verification/Nas_Logs_Props.thy ===== *)
theory Nas_Logs_Props
  imports Nas_Logs_Facts Nas_Delivery
begin

text \<open>
  Properties of the log snapshot, of splitting a log into records, of one entry, of the prepared
  outbox and of the patterns of normal messages.
\<close>

section \<open>The snapshot format\<close>

text \<open>What the NAS writes for a slot and for a whole snapshot.\<close>

definition render_slot :: "(string \<times> string) \<times> file_rec option \<Rightarrow> string" where
  "render_slot slot = (case slot of
     ((kind, gen), None) \<Rightarrow> py_join '' '' [''M'', kind, gen] @ [newline]
   | ((kind, gen), Some r) \<Rightarrow> py_join '' '' [''F'', kind, gen, str_int (fr_dev r), str_int (fr_inode r),
       str_nat (length (fr_data r)), str_int (fr_mtime r)] @ [newline] @ fr_data r)"

definition render_snapshot :: "snapshot \<Rightarrow> string" where
  "render_snapshot s = ''NASLOG1'' @ [newline] @ concat (map render_slot s) @ ''END'' @ [newline]"

definition header_int :: "int \<Rightarrow> bool" where
  "header_int i \<longleftrightarrow> 0 \<le> i \<and> i < 10 ^ 18"

definition slot_ok :: "(string \<times> string) \<times> file_rec option \<Rightarrow> bool" where
  "slot_ok slot \<longleftrightarrow> (case slot of
     ((kind, gen), None) \<Rightarrow> gen \<noteq> ''current''
   | ((kind, gen), Some r) \<Rightarrow> header_int (fr_dev r) \<and> header_int (fr_inode r) \<and> header_int (fr_mtime r)
       \<and> length (fr_data r) \<le> MAX_FILE)"

definition word_ok :: "string \<Rightarrow> bool" where
  "word_ok w \<longleftrightarrow> length w \<le> 20 \<and> list_all (\<lambda>c. c \<noteq> CHR '' '' \<and> c \<noteq> newline) w"

lemma length_str_nat: "n < 10 ^ Suc k \<Longrightarrow> length (str_nat n) \<le> Suc k"
proof (induction k arbitrary: n)
  case (Suc k)
  show ?case
  proof (cases "n < 10")
    case False
    have "n div 10 < 10 ^ Suc k" using Suc.prems by auto
    with Suc.IH have "length (str_nat (n div 10)) \<le> Suc k" .
    with False show ?thesis by (subst str_nat.simps) simp
  qed (subst str_nat.simps, simp)
qed (subst str_nat.simps, simp)

lemma str_nat_word: "n < 10 ^ 18 \<Longrightarrow> header_number (str_nat n) \<and> word_ok (str_nat n)"
proof -
  assume "n < 10 ^ 18"
  then have "length (str_nat n) \<le> 18" using length_str_nat [of n 17] by simp
  moreover have "list_all ascii_digit (str_nat n)" by (rule str_nat_digits)
  moreover from this have "list_all (\<lambda>c. c \<noteq> CHR '' '' \<and> c \<noteq> newline) (str_nat n)"
    by (auto simp: list_all_iff ascii_digit_def newline_def)
  ultimately show ?thesis
    unfolding header_number_def digit_def fullmatch_Rep_Cls word_ok_def
    by (simp add: Suc_le_eq)
qed

lemma str_int_word:
  "header_int i \<Longrightarrow> header_number (str_int i) \<and> word_ok (str_int i) \<and> int (nat_of_digits (str_int i)) = i"
  using str_nat_word [of "nat i"] by (auto simp: header_int_def str_int_def nat_less_iff)

lemma split_header:
  "list_all word_ok ws \<Longrightarrow> ws \<noteq> [] \<Longrightarrow> split_on CHR '' '' (py_join '' '' ws) = ws"
  by (rule split_by_join) (auto simp: list_all_iff word_ok_def)

lemma header_no_newline: "list_all word_ok ws \<Longrightarrow> list_all (\<lambda>c. c \<noteq> newline) (py_join '' '' ws)"
  using set_py_join [of "'' ''" ws] by (fastforce simp: list_all_iff word_ok_def newline_def)

lemma length_header: "list_all word_ok ws \<Longrightarrow> length (py_join '' '' ws) \<le> 21 * length ws"
proof (induction "'' ''" ws rule: py_join.induct)
  case (3 x y ys)
  then show ?case by (simp add: word_ok_def)
qed (simp_all add: word_ok_def)

lemma takeWhile_header:
  "list_all (\<lambda>c. c \<noteq> newline) h \<Longrightarrow> takeWhile (\<lambda>c. c \<noteq> newline) (h @ newline # t) = h"
  by (induction h) simp_all

lemma parse_one_missing:
  assumes "word_ok kind" "word_ok gen" "gen \<noteq> ''current''"
  shows "parse_slots ((kind, gen) # slots) (render_slot ((kind, gen), None) @ t) records =
    parse_slots slots t (records @ [((kind, gen), None)])"
proof -
  let ?ws = "[''M'', kind, gen]"
  have ws: "list_all word_ok ?ws" using assms by (simp add: word_ok_def newline_def)
  have "takeWhile (\<lambda>c. c \<noteq> CHR 0x0A) (render_slot ((kind, gen), None) @ t) = py_join '' '' ?ws"
    using takeWhile_header [OF header_no_newline [OF ws], of t] by (simp add: render_slot_def newline_def)
  moreover have "split_on CHR '' '' (py_join '' '' ?ws) = ?ws" using split_header [OF ws] by simp
  moreover have "length (py_join '' '' ?ws) \<le> 63" using length_header [OF ws] by simp
  ultimately show ?thesis
    using assms(3) by (simp add: render_slot_def Let_def del: py_join.simps)
qed

lemma parse_one_file:
  assumes "word_ok kind" "word_ok gen" "slot_ok ((kind, gen), Some r)"
  shows "parse_slots ((kind, gen) # slots) (render_slot ((kind, gen), Some r) @ t) records =
    parse_slots slots t (records @ [((kind, gen), Some r)])"
proof -
  note r = assms(3) [unfolded slot_ok_def prod.case option.case]
  have rec: "\<lparr>fr_dev = fr_dev r, fr_inode = fr_inode r, fr_mtime = fr_mtime r, fr_data = fr_data r\<rparr> = r"
    by (cases r) simp
  have size: "length (fr_data r) \<le> MAX_FILE" using r by blast
  then have "length (fr_data r) < 10 ^ 18" by (simp add: MAX_FILE_def)
  note nums = str_int_word [of "fr_dev r"] str_int_word [of "fr_inode r"] str_int_word [of "fr_mtime r"]
    str_nat_word [OF this]
  let ?ws = "[''F'', kind, gen, str_int (fr_dev r), str_int (fr_inode r), str_nat (length (fr_data r)),
    str_int (fr_mtime r)]"
  have ws: "list_all word_ok ?ws" using assms nums r by (simp add: word_ok_def newline_def)
  have "takeWhile (\<lambda>c. c \<noteq> CHR 0x0A) (render_slot ((kind, gen), Some r) @ t) = py_join '' '' ?ws"
    using takeWhile_header [OF header_no_newline [OF ws], of "fr_data r @ t"]
    by (simp add: render_slot_def newline_def)
  moreover have "split_on CHR '' '' (py_join '' '' ?ws) = ?ws" using split_header [OF ws] by simp
  moreover have "length (py_join '' '' ?ws) \<le> 147" using length_header [OF ws] by simp
  ultimately show ?thesis
    using nums r by (simp add: render_slot_def Let_def rec del: py_join.simps)
qed

lemma parse_slots_render:
  assumes "list_all slot_ok s" and "list_all (\<lambda>(kind, gen). word_ok kind \<and> word_ok gen) (map fst s)"
  shows "parse_slots (map fst s) (concat (map render_slot s) @ t) records = Inr (records @ s, t)"
  using assms
proof (induction s arbitrary: records)
  case (Cons slot s)
  obtain kind gen r where slot: "slot = ((kind, gen), r)" by (cases slot) auto
  with Cons.prems have words: "word_ok kind" "word_ok gen" and ok: "slot_ok ((kind, gen), r)" by simp_all
  have "parse_slots (map fst (slot # s)) (concat (map render_slot (slot # s)) @ t) records
      = parse_slots (map fst s) (concat (map render_slot s) @ t) (records @ [slot])"
  proof (cases r)
    case None
    with ok have "gen \<noteq> ''current''" by (simp add: slot_ok_def)
    with parse_one_missing [OF words this] show ?thesis unfolding slot None by (simp del: parse_slots.simps)
  next
    case (Some q)
    with parse_one_file [OF words ok [unfolded Some]] show ?thesis unfolding slot Some by (simp del: parse_slots.simps)
  qed
  with Cons show ?case by (simp del: parse_slots.simps)
qed simp

lemma SLOTS_words: "list_all (\<lambda>(kind, gen). word_ok kind \<and> word_ok gen) SLOTS"
  by code_simp

text \<open>
  Property C27.  Reading back a rendered snapshot gives the same files.  A slot is missing or holds
  the numbers and the bytes of a file of at most two megabytes; the current files are all there.
\<close>

theorem snapshot_roundtrip:
  assumes "map fst s = SLOTS" and "list_all slot_ok s" and "length (render_snapshot s) \<le> MAX_SNAPSHOT"
  shows "parse_log_snapshot (render_snapshot s) = Inr s"
proof -
  have "parse_slots SLOTS (concat (map render_slot s) @ ''END'' @ [newline]) [] = Inr (s, ''END'' @ [newline])"
    using parse_slots_render [OF assms(2), of "''END'' @ [newline]" "[]"] SLOTS_words assms(1) by simp
  then show ?thesis
    using assms(3) by (simp add: parse_log_snapshot_def render_snapshot_def startswith_def newline_def)
qed

definition example_snapshot :: snapshot where
  "example_snapshot = map (\<lambda>slot. (slot, if snd slot = ''current''
     then Some \<lparr>fr_dev = 1, fr_inode = 2, fr_mtime = 3, fr_data = ''line'' @ [newline]\<rparr> else None)) SLOTS"

lemma snapshot_roundtrip_witness:
  "parse_log_snapshot (render_snapshot example_snapshot) = Inr example_snapshot"
proof (rule snapshot_roundtrip)
  show "map fst example_snapshot = SLOTS" by (simp add: example_snapshot_def comp_def)
  have slot: "slot_ok slot \<and> length (render_slot slot) \<le> 100" if "slot \<in> set example_snapshot" for slot
  proof -
    from that SLOTS_words obtain kind gen where "word_ok kind" "word_ok gen"
      "slot = ((kind, gen), if gen = ''current''
         then Some \<lparr>fr_dev = 1, fr_inode = 2, fr_mtime = 3, fr_data = ''line'' @ [newline]\<rparr> else None)"
      by (auto simp: example_snapshot_def list_all_iff split: prod.splits)
    then show ?thesis
      by (auto simp: slot_ok_def render_slot_def header_int_def MAX_FILE_def word_ok_def str_int_def str_nat.simps)
  qed
  then show "list_all slot_ok example_snapshot" by (simp add: list_all_iff)
  have "length (concat (map render_slot s)) \<le> 100 * length s" if "set s \<subseteq> set example_snapshot" for s
    using that slot by (induction s) fastforce+
  from this [of example_snapshot] have "length (concat (map render_slot example_snapshot)) \<le> 100 * length SLOTS"
    by (simp add: example_snapshot_def)
  moreover have "length SLOTS \<le> 200" by code_simp
  ultimately show "length (render_snapshot example_snapshot) \<le> MAX_SNAPSHOT"
    by (simp add: MAX_SNAPSHOT_def render_snapshot_def)
qed

section \<open>Records and entries\<close>

text \<open>
  Property C26.  The records of a file are the bytes from the start offset to the last record's end,
  without a gap or an overlap; they end inside the file at growing offsets, and a rotated file is
  read to its last byte.
\<close>

theorem completed_records_tile_the_file:
  assumes "offset \<le> length data" and rs: "rs = completed_records data offset kind seen rotated"
  shows "concat (map fst rs) = take (records_end offset rs - offset) (drop offset data)
    \<and> records_end offset rs \<le> length data \<and> sorted_wrt (<) (offset # map snd rs)
    \<and> (rotated \<longrightarrow> records_end offset rs = length data)"
proof -
  from completed_records_tiled [OF assms(1), of kind seen rotated] obtain q
    where q: "tiled data offset rs q" "rotated \<longrightarrow> q = length data"
    by (auto simp: rs)
  have "records_end offset rs = q" using tiled_last [OF q(1)] by (simp add: records_end_def)
  with q tiled_concat [OF q(1) assms(1)] tiled_le [OF q(1) assms(1)] tiled_sorted [OF q(1)]
  show ?thesis by simp
qed

lemma completed_records_tile_the_file_witness:
  "completed_records (''ab'' @ [newline] @ ''cd'' @ [newline] @ ''e'') 3 ''storage'' (-1) False = [(''cd'' @ [newline], 6)]
   \<and> records_end 3 [(''cd'' @ [newline], 6)] = 6
   \<and> concat (map fst [(''cd'' @ [newline], 6 :: nat)]) = take 3 (drop 3 (''ab'' @ [newline] @ ''cd'' @ [newline] @ ''e''))"
proof -
  let ?data = "''ab'' @ [newline] @ ''cd'' @ [newline] @ ''e''"
  have rs: "[(''cd'' @ [newline], 6)] = completed_records ?data 3 ''storage'' (-1) False" by code_simp
  have le: "3 \<le> length ?data" by simp
  show ?thesis
    using completed_records_tile_the_file [OF le rs]
    by (simp only: rs [symmetric]) (simp add: records_end_def)
qed

text \<open>
  Property C32.  One entry is built: when the time found in the message is of ordinary length, the
  loop that halves the message ends, the line is at most 16384 bytes of JSON (as the code measures
  it), and the message in it is a prefix of the message read.
\<close>

theorem entry_returns:
  assumes "length (env_iso env now_ns) \<le> 64" and "length (source_file kind) \<le> 64"
    and "length (json_enc json_unicode (source_time (log_text env raw))) \<le> 4000"
  shows "\<exists>line. entry env kind raw bootstrap now_ns = Inr (severity kind (log_text env raw), line)
     \<and> (\<exists>n t. line = json_enc json_compact_unicode (entry_object env kind bootstrap now_ns
            (source_time (log_text env raw)) (take n (log_text env raw)) t)
          \<and> \<not> too_long (entry_object env kind bootstrap now_ns (source_time (log_text env raw))
                (take n (log_text env raw)) t))"
proof -
  let ?obj = "entry_object env kind bootstrap now_ns (source_time (log_text env raw))"
  have "\<not> too_long (?obj m True)" if "length m \<le> 1" for m
    using length_object [OF that, of env kind bootstrap now_ns "source_time (log_text env raw)" True] assms
    by (simp add: too_long_def)
  then obtain m t where r: "shrink (\<lambda>m t. too_long (?obj m t)) (length (log_text env raw) + 2) (log_text env raw) False
      = Some (m, t)"
    using shrink_returns [of "\<lambda>m t. too_long (?obj m t)" "log_text env raw"] by fastforce
  from shrink_result [OF r] obtain n where "\<not> too_long (?obj m t)" "m = take n (log_text env raw)" by blast
  moreover have "entry env kind raw bootstrap now_ns =
      Inr (severity kind (log_text env raw), json_enc json_compact_unicode (?obj m t))"
    unfolding entry_def Let_def r by simp
  ultimately show ?thesis by blast
qed

lemma entry_returns_witness:
  "\<exists>line. entry example_env ''storage'' (''ok'' @ [newline]) False 7 = Inr (''unknown'', line)"
proof -
  have t: "source_time (log_text example_env (''ok'' @ [newline])) = PNone" by code_simp
  have s: "severity ''storage'' (log_text example_env (''ok'' @ [newline])) = ''unknown''" by code_simp
  have "length (env_iso example_env 7) \<le> 64" "length (source_file ''storage'') \<le> 64" by code_simp+
  moreover have "length (json_enc json_unicode (source_time (log_text example_env (''ok'' @ [newline])))) \<le> 4000"
    unfolding t by (simp add: json_unicode_def)
  ultimately show ?thesis
    unfolding s [symmetric] using entry_returns [of example_env 7 "''storage''" "''ok'' @ [newline]" False] by blast
qed

text \<open>
  Property C31.  The loop does not end when the message is a time with 16384 digits of a second's
  fraction: the time is kept in full while the message is halved, so the object never fits.
\<close>

theorem entry_hangs:
  assumes "env_text env raw = long_time 16384"
  shows "entry env kind raw bootstrap now_ns = Inl Diverges"
proof -
  have log: "log_text env raw = long_time 16384"
    using log_text_long [OF assms] by simp
  have time: "source_time (long_time 16384) = PStr (long_time 16384 @ '' JST'')"
    using source_time_long [of 16384] by simp
  define s where "s = long_time 16384 @ '' JST''"
  have s: "16384 < length s" by (simp add: s_def long_time_def)
  let ?obj = "entry_object env kind bootstrap now_ns (PStr s)"
  have "too_long (?obj m t)" for m t
  proof -
    have "16384 < length (json_str False s)"
      using length_json_str_ge [of s False] s by linarith
    then have "16384 < length (json_enc json_unicode (?obj m t))"
      by (simp add: entry_object_def json_unicode_def)
    then show ?thesis
      using length_utf8_ge [of "json_enc json_unicode (?obj m t)"] by (simp add: too_long_def)
  qed
  then have "shrink (\<lambda>m t. too_long (?obj m t)) fuel m False = None" for fuel m
    by (intro shrink_hangs)
  then show ?thesis
    unfolding entry_def Let_def log time s_def [symmetric] by simp
qed

lemma entry_hangs_witness:
  "entry (example_env\<lparr>env_text := (\<lambda>_. long_time 16384)\<rparr>) ''storage'' ''x'' False 7 = Inl Diverges"
  by (rule entry_hangs) (simp only: log_env.select_convs log_env.update_convs example_env_def)

section \<open>The outbox\<close>

definition outbox_in_order :: "log_core \<Rightarrow> int \<Rightarrow> log_state \<Rightarrow> bool" where
  "outbox_in_order c now_ns out \<longleftrightarrow> (case st_pending out of
     None \<Rightarrow> False
   | Some (bs, nxt) \<Rightarrow> sorted_wrt (<) (map le_ns (concat bs))
       \<and> list_all (\<lambda>e. st_last_ns c < le_ns e \<and> now_ns \<le> le_ns e \<and> le_ns e \<le> st_last_ns nxt) (concat bs)
       \<and> st_last_ns c \<le> st_last_ns nxt \<and> st_sent nxt = st_sent c + int (length (concat bs)))"

text \<open>
  The entries of a prepared outbox have strictly growing timestamps, none before the
  clock nor at or before the last one sent; the next state's last timestamp covers them and its
  counter of sent entries grows by their number.  So no two entries ever share a timestamp.
\<close>

lemma prepared_outbox_in_order:
  "case prepare env (with_pending c None) s now_ns filter_normal of
     Inl e \<Rightarrow> True | Inr out \<Rightarrow> outbox_in_order c now_ns out"
proof (cases "prepare env (with_pending c None) s now_ns filter_normal")
  case (Inr out)
  obtain bs nxt where out: "out = with_pending c (Some (bs, nxt))"
    by (rule prepare_Inr [OF Inr]) simp_all
  with prepare_in_order [OF Inr [unfolded out]] Inr show ?thesis
    by (simp add: outbox_in_order_def list_all_iff)
qed simp

text \<open>
  A batch of an outbox that was saved is never refused for its size: the compact bytes
  that are pushed are no more than the default rendering that the validation of the state measured.
\<close>

lemma saved_batch_is_pushed:
  assumes "log_state_data s = Inr t" and "st_pending s = Some (bs, nxt)" and "b \<in> set bs"
  shows "length (push_body b) \<le> 256 * 1024
    \<and> push b answer = bindE answer (\<lambda>status. if status \<noteq> 204 then Inl (ValueError ''Loki rejected push'') else Inr ())"
proof -
  have "json_size (batch_value b) \<le> 262144"
    using validated_batches [OF log_state_data_Inr(1) [OF assms(1)] assms(2,3)] .
  moreover have "length (push_body b) \<le> json_size (batch_value b)"
    using compact_not_longer [OF json_ok_batch] by (simp add: push_body_def json_size_def)
  ultimately show ?thesis by (simp add: push_def)
qed

lemma example_size: "json_size (batch_value []) \<le> 262144" by (simp add: json_size_def batch_value_def json_default_def utf8_encode_def json_str_def json_escape_def utf8_char_def Let_def)
abbreviation example_items :: "pyval \<Rightarrow> pydict" where
  "example_items pending \<equiv> [(''version'', PInt 1), (''cursors'', PDict []), (''last_ns'', PInt 0),
     (''last_success'', PInt 0), (''sent'', PInt 0), (''gaps'', PInt 0), (''normal'', PDict []), (''pending'', pending)]"

lemma example_value: "log_state_value (with_pending initial_core (Some ([[]], initial_core))) =
  PDict (example_items (PDict [(''batches'', PList [batch_value []]), (''next'', PDict (example_items PNone))]))"
  by (simp add: log_state_value_def core_items_def with_pending_def initial_core_def log_core.defs log_state.defs)

lemma example_core: "validate_core (PDict (example_items pending)) = Inr (example_items pending)"
  by (simp add: py_defs)

lemma example_data: "\<exists>t. log_state_data (with_pending initial_core (Some ([[]], initial_core))) = Inr t"
  using example_size unfolding log_state_data_def example_value validate_state_def example_core
  by (simp add: dget_or_def keys_are_def dhas_def validate_batch_def batch_value_def json_dumps_finite_def
      example_core py_list_of_def)

section \<open>Normal messages\<close>

definition SMART_NAMES :: "string list" where
  "SMART_NAMES = [''smart_counter_zero'', ''smart_attribute_healthy'', ''smart_temperature_normal'']"

lemma text_rule_name:
  "text_rule kind body = Some name \<Longrightarrow> name \<in> fst ` snd ` set TEXT_RULES"
  unfolding text_rule_def by (auto simp: find_Some_iff image_iff) (metis fst_conv nth_mem snd_conv)

lemma rule_names: "set SMART_NAMES \<inter> fst ` snd ` set TEXT_RULES = {}"
  "''storage_pool_is_full'' \<notin> fst ` snd ` set TEXT_RULES"
  by (simp_all add: SMART_NAMES_def TEXT_RULES_def)

lemma hal_pattern_healthy:
  assumes "hal_pattern body = Some name" and "name \<in> set SMART_NAMES"
  shows "\<exists>m. re_fullmatch PATTERN_SMART body = Some m \<and> group_int m 3 > group_int m 5
     \<and> (group_int m 5 > 0 \<longrightarrow> group_int m 4 > group_int m 5)
     \<and> (name = ''smart_counter_zero'' \<longrightarrow> group_int m 6 = 0)"
proof (cases "re_fullmatch PATTERN_SMART body")
  case None
  with assms show ?thesis by (auto simp: hal_pattern_def SMART_NAMES_def split: if_splits)
next
  case (Some m)
  with assms show ?thesis
    by (auto simp: hal_pattern_def SMART_NAMES_def Let_def split: if_splits)
qed

lemma storage_pattern_room:
  assumes "storage_pattern body = Some ''storage_pool_is_full''"
  shows "\<exists>m. re_fullmatch POOLFULL body = Some m \<and> group_int m 2 > 0 \<and> group_int m 1 > group_int m 2"
  using assms by (auto simp: storage_pattern_def Let_def split: if_splits option.splits)

definition smart_healthy :: "string \<Rightarrow> bool" where
  "smart_healthy body \<longleftrightarrow> (case re_fullmatch PATTERN_SMART body of
     None \<Rightarrow> False
   | Some m \<Rightarrow> group_int m 3 > group_int m 5 \<and> (group_int m 5 = 0 \<or> group_int m 4 > group_int m 5))"

definition pool_has_room :: "string \<Rightarrow> bool" where
  "pool_has_room body \<longleftrightarrow> (case re_fullmatch POOLFULL body of
     None \<Rightarrow> False | Some m \<Rightarrow> group_int m 2 > 0 \<and> group_int m 1 > group_int m 2)"

lemma normal_pattern_facts:
  assumes "normal_pattern kind message level src = Inr (Some name)"
  shows "level \<notin> set BAD_LEVELS"
    and "kind = ''kernel'' \<Longrightarrow> re_match KERNEL (strip_prefix message) = Some m \<Longrightarrow> group_int m 1 > 4"
    and "kind = ''hal'' \<Longrightarrow> name \<in> set SMART_NAMES \<Longrightarrow> smart_healthy (strip_prefix message)"
    and "kind = ''storage'' \<Longrightarrow> name = ''storage_pool_is_full'' \<Longrightarrow> pool_has_room (strip_prefix message)"
proof -
  show "level \<notin> set BAD_LEVELS" using assms by (auto simp: normal_pattern_def)
next
  assume "kind = ''kernel''" "re_match KERNEL (strip_prefix message) = Some m"
  then show "group_int m 1 > 4"
    using assms by (auto simp: normal_pattern_def kernel_body_def split: if_splits)
next
  assume k: "kind = ''hal''" "name \<in> set SMART_NAMES"
  then have "text_rule kind (strip_prefix message) \<noteq> Some name"
    using text_rule_name rule_names(1) by blast
  then have "hal_pattern (strip_prefix message) = Some name"
    using assms k(1) by (auto simp: normal_pattern_def split: if_splits option.splits)
  from hal_pattern_healthy [OF this k(2)] show "smart_healthy (strip_prefix message)"
    by (auto simp: smart_healthy_def group_int_def)
next
  assume k: "kind = ''storage''" "name = ''storage_pool_is_full''"
  then have "text_rule kind (strip_prefix message) \<noteq> Some name"
    using text_rule_name rule_names(2) by blast
  then have "storage_pattern (strip_prefix message) = Some name"
    using assms k(1) by (auto simp: normal_pattern_def split: if_splits option.splits)
  from storage_pattern_room [OF this [unfolded k(2)]] show "pool_has_room (strip_prefix message)"
    by (auto simp: pool_has_room_def)
qed



end
