(* ===== verification/Nas_Nfs.thy ===== *)
theory Nas_Nfs
  imports Nas_Collector
begin

text \<open>
  \<open>scripts/nas_nfs_collector.py\<close>: the number of NFSv4 compound requests, read over SSH
  every five minutes and exposed as metrics.  The reader's outcome, the clock and the elapsed
  time of a poll are its arguments; the HTTP handler is the function \<open>do_get\<close> from a path to
  status and body.
\<close>

section \<open>Parsing\<close>

definition parse_nfsd :: "string \<Rightarrow> int res" where
  [py_defs]: "parse_nfsd t =
     (let rows = filter (\<lambda>r. take 1 r = [''proc4'']) (map split_ws (py_splitlines t)) in
      if length t > 65536 then Inl (ValueError ''invalid statistics'')
      else (case rows of
          [row] \<Rightarrow>
            (if length row \<noteq> 4 \<or> row ! 1 \<noteq> ''2''
                \<or> \<not> list_all (\<lambda>s. is_ascii s \<and> py_isdecimal s) (tl row)
             then Inl (ValueError ''invalid proc4'') else Inr (int (nat_of_digits (row ! 3))))
        | _ \<Rightarrow> Inl (ValueError ''missing or duplicate proc4'')))"

definition NFS_SSH_OPTIONS :: "string list" where
  [py_defs]: "NFS_SSH_OPTIONS =
    [''BatchMode=yes'', ''StrictHostKeyChecking=yes'', ''IdentitiesOnly=yes'', ''IdentityAgent=none'',
     ''ConnectTimeout=10'', ''ConnectionAttempts=1'', ''UserKnownHostsFile=/etc/nas-ssh/known_hosts'',
     ''GlobalKnownHostsFile=/dev/null'']"

definition nfs_ssh_args :: "string \<Rightarrow> string list res" where
  [py_defs]: "nfs_ssh_args host =
     bindE (nas_host host) (\<lambda>ip. Inr (ssh_command NFS_SSH_OPTIONS host ''cat /proc/net/rpc/nfsd''))"

section \<open>The collector\<close>

record nfs_collector =
  nf_count :: "int option"
  nf_last :: pyval
  nf_success :: bool
  nf_duration :: pyval

definition nfs_collector_init :: nfs_collector where
  [py_defs]: "nfs_collector_init = \<lparr>nf_count = None, nf_last = PInt 0, nf_success = False, nf_duration = PInt 0\<rparr>"

text \<open>\<open>max(0, x)\<close>: the first argument unless the second is greater.\<close>

definition max_zero :: "pyfloat \<Rightarrow> pyval" where
  [py_defs]: "max_zero x = (case x of
     FFin r q \<Rightarrow> if q > 0 then PFloat x else PInt 0 | FInf neg \<Rightarrow> if neg then PInt 0 else PFloat x | FNaN \<Rightarrow> PInt 0)"

definition reader_error :: "py_exc \<Rightarrow> bool" where
  [py_defs]: "reader_error e \<longleftrightarrow> e \<in> {OSError, FileNotFoundError, RuntimeError ''SubprocessError''}
     \<or> (case e of ValueError m \<Rightarrow> True | _ \<Rightarrow> False)"

text \<open>\<open>answer\<close> is the standard output of the command or the exception that running it raises.
  Any other exception than those the poll expects leaves it.\<close>

definition nfs_poll_once :: "string res \<Rightarrow> pyfloat \<Rightarrow> pyfloat \<Rightarrow> nfs_collector \<Rightarrow> nfs_collector res" where
  [py_defs]: "nfs_poll_once answer elapsed now c =
     (case bindE answer parse_nfsd of
        Inl e \<Rightarrow>
          (if reader_error e then Inr (c\<lparr>nf_duration := max_zero elapsed, nf_success := False\<rparr>) else Inl e)
      | Inr n \<Rightarrow> Inr (c\<lparr>nf_duration := max_zero elapsed, nf_success := True, nf_count := Some n,
                       nf_last := PFloat now\<rparr>))"

definition nfs_metric :: "string \<times> string \<times> string \<Rightarrow> string" where
  [py_defs]: "nfs_metric m = (let (name, text, kind) = m in
     ''# TYPE '' @ name @ '' '' @ kind @ [newline] @ name @ '' '' @ text @ [newline])"

definition nfs_metrics :: "nfs_collector \<Rightarrow> string" where
  [py_defs]: "nfs_metrics c =
     concat (map nfs_metric
       ([(''nas_nfs_collection_success'', if nf_success c then ''1'' else ''0'', ''gauge''),
         (''nas_nfs_last_success_timestamp_seconds'', py_str (nf_last c), ''gauge''),
         (''nas_nfs_collection_duration_seconds'', py_str (nf_duration c), ''gauge'')]
        @ (case nf_count c of None \<Rightarrow> []
           | Some n \<Rightarrow> [(''nas_nfs_v4_compound_total'', str_int n, ''counter'')])))"

text \<open>The HTTP handler.\<close>

definition do_get :: "string \<Rightarrow> string \<Rightarrow> nat \<times> string" where
  [py_defs]: "do_get metrics path =
     (if path = ''/metrics'' \<or> path = ''/healthz'' then 200 else 404,
      if path = ''/metrics'' then utf8_encode metrics else ''ok'')"

section \<open>Facts\<close>

inductive nfs_run :: "nfs_collector \<Rightarrow> string list \<Rightarrow> bool" where
  nfs_start: "nfs_run nfs_collector_init []"
| nfs_failed: "nfs_run c texts \<Longrightarrow> nfs_poll_once (Inl e) elapsed now c = Inr c' \<Longrightarrow> nfs_run c' texts"
| nfs_answered: "nfs_run c texts \<Longrightarrow> nfs_poll_once (Inr t) elapsed now c = Inr c' \<Longrightarrow> nfs_run c' (t # texts)"

text \<open>The count of the newest readable answer.\<close>

fun newest_count :: "string list \<Rightarrow> int option" where
  "newest_count [] = None"
| "newest_count (t # texts) = (case parse_nfsd t of Inr n \<Rightarrow> Some n | Inl e \<Rightarrow> newest_count texts)"

text \<open>
  Property C38.  Whatever sequence of polls ran, failing or not, the exposed counter is the one of
  the newest answer that could be read, and no counter is exposed before the first.
\<close>

theorem nfs_counter_is_newest:
  assumes "nfs_run c texts"
  shows "nf_count c = newest_count texts"
  using assms
proof (induction rule: nfs_run.induct)
  case (nfs_failed c texts e elapsed now c')
  then show ?case by (auto simp: nfs_poll_once_def split: if_splits)
next
  case (nfs_answered c texts t elapsed now c')
  then show ?case by (auto simp: nfs_poll_once_def split: sum.splits if_splits)
qed (simp add: nfs_collector_init_def)

lemma nfs_counter_is_newest_witness:
  "\<exists>c. nfs_run c [''x'', ''proc4 2 4 77''] \<and> nf_count c = Some 77"
proof -
  have ok: "parse_nfsd ''proc4 2 4 77'' = Inr 77" and bad: "\<exists>m. parse_nfsd ''x'' = Inl (ValueError m)"
    by (simp_all add: py_defs)
  obtain c1 where c1: "nfs_poll_once (Inr ''proc4 2 4 77'') FNaN FNaN nfs_collector_init = Inr c1"
    by (simp add: nfs_poll_once_def ok)
  obtain c2 where c2: "nfs_poll_once (Inr ''x'') FNaN FNaN c1 = Inr c2"
    using bad by (auto simp: nfs_poll_once_def reader_error_def)
  have "nfs_run c2 [''x'', ''proc4 2 4 77'']"
    by (rule nfs_answered [OF nfs_answered [OF nfs_start c1] c2])
  from this nfs_counter_is_newest [OF this] show ?thesis using ok bad by auto
qed

end
