(* ===== verification/Py_Time.thy ===== *)
theory Py_Time
  imports Py_Values Py_Ipv4
begin

text \<open>
  Floating-point arithmetic on times and the standard library's UTC calendar:
  \<open>fl\<close> rounds an exact result to the nearest double (the exponents of denormal and of
  overflowing numbers apart, which no time reaches), \<open>utc_text\<close> is
  \<open>datetime.fromtimestamp(x, timezone.utc).isoformat(timespec='seconds')\<close> with \<open>+00:00\<close>
  replaced by \<open>Z\<close>, and \<open>date8\<close> says which eight digits \<open>strptime(s, '%Y%m%d')\<close> takes.
\<close>

section \<open>Doubles\<close>

text \<open>Rounding to an integer, ties to even.\<close>

definition round_even :: "rat \<Rightarrow> int" where
  [py_defs]: "round_even x =
     (let f = \<lfloor>x\<rfloor>; r = x - of_int f in
      if 2 * r < 1 then f else if 2 * r > 1 then f + 1 else if even f then f else f + 1)"

definition two_power :: "int \<Rightarrow> rat" where
  [py_defs]: "two_power e = (if 0 \<le> e then 2 ^ nat e else 1 / 2 ^ nat (- e))"

text \<open>The number of binary digits.\<close>

fun bits :: "nat \<Rightarrow> nat" where
  "bits n = (if n = 0 then 0 else Suc (bits (n div 2)))"

declare bits.simps [simp del]

text \<open>The exponent for which the significand has 53 bits.\<close>

definition double_exponent :: "rat \<Rightarrow> int" where
  [py_defs]: "double_exponent x =
     (let (n, d) = quotient_of \<bar>x\<bar>; e = int (bits (nat n)) - int (bits (nat d)) - 53 in
      if \<bar>x\<bar> < two_power (e + 53) then e else e + 1)"

definition fl :: "rat \<Rightarrow> rat" where
  [py_defs]: "fl x = (if x = 0 then 0
     else (let e = double_exponent x in of_int (round_even (x / two_power e)) * two_power e))"

section \<open>The calendar\<close>

definition leap :: "int \<Rightarrow> bool" where
  [py_defs]: "leap y \<longleftrightarrow> y mod 4 = 0 \<and> (y mod 100 \<noteq> 0 \<or> y mod 400 = 0)"

definition month_days :: "int \<Rightarrow> int \<Rightarrow> int" where
  [py_defs]: "month_days y m = (if m = 2 then (if leap y then 29 else 28)
     else if m \<in> {4, 6, 9, 11} then 30 else 31)"

text \<open>Days since 1970-01-01 to year, month and day; the years are counted from March.\<close>

definition civil :: "int \<Rightarrow> int \<times> int \<times> int" where
  [py_defs]: "civil days =
     (let z = days + 719468; era = z div 146097; doe = z mod 146097;
          yoe = (doe - doe div 1460 + doe div 36524 - doe div 146096) div 365;
          doy = doe - (365 * yoe + yoe div 4 - yoe div 100);
          mp = (5 * doy + 2) div 153;
          d = doy - (153 * mp + 2) div 5 + 1;
          m = (if mp < 10 then mp + 3 else mp - 9)
      in (yoe + era * 400 + (if m \<le> 2 then 1 else 0), m, d))"

definition pad :: "nat \<Rightarrow> int \<Rightarrow> string" where
  [py_defs]: "pad n i = (let s = str_nat (nat i) in replicate (n - length s) (CHR ''0'') @ s)"

definition iso_text :: "int \<Rightarrow> string" where
  [py_defs]: "iso_text secs =
     (let (y, m, d) = civil (secs div 86400); t = secs mod 86400 in
      pad 4 y @ ''-'' @ pad 2 m @ ''-'' @ pad 2 d @ ''T'' @ pad 2 (t div 3600) @ '':''
      @ pad 2 (t div 60 mod 60) @ '':'' @ pad 2 (t mod 60) @ ''Z'')"

text \<open>The seconds of 0001-01-01 and of 10000-01-01.\<close>

definition MIN_SECONDS :: int where [py_defs]: "MIN_SECONDS = - 62135596800"
definition MAX_SECONDS :: int where [py_defs]: "MAX_SECONDS = 253402300800"

definition utc_seconds :: "int \<Rightarrow> string res" where
  [py_defs]: "utc_seconds secs =
     (if MIN_SECONDS \<le> secs \<and> secs < MAX_SECONDS then Inr (iso_text secs)
      else Inl (ValueError ''year is out of range''))"

text \<open>From a float: the fraction is taken to microseconds first, which may carry.\<close>

definition utc_text :: "rat \<Rightarrow> string res" where
  [py_defs]: "utc_text x =
     (let whole = (if x < 0 then \<lceil>x\<rceil> else \<lfloor>x\<rfloor>);
          us = round_even (fl ((x - of_int whole) * 1000000)) in
      utc_seconds (whole + us div 1000000))"

definition date8 :: "string \<Rightarrow> bool" where
  [py_defs]: "date8 s \<longleftrightarrow> length s = 8 \<and> list_all ascii_digit s
     \<and> (let y = int (nat_of_digits (take 4 s)); m = int (nat_of_digits (take 2 (drop 4 s)));
            d = int (nat_of_digits (drop 6 s)) in
        1 \<le> y \<and> 1 \<le> m \<and> m \<le> 12 \<and> 1 \<le> d \<and> d \<le> month_days y m)"

section \<open>Facts\<close>

text \<open>An integer of at most 53 bits is a double: rounding leaves it alone.\<close>

lemma bits_le: "n < 2 ^ k \<Longrightarrow> bits n \<le> k"
proof (induction k arbitrary: n)
  case 0
  then show ?case by (simp add: bits.simps)
next
  case (Suc k)
  then have "n div 2 < 2 ^ k" by simp
  with Suc.IH [of "n div 2"] show ?case by (subst bits.simps) simp
qed

lemma round_even_int [simp]: "round_even (of_int i) = i"
  by (simp add: round_even_def)

lemma fl_0 [simp]: "fl 0 = 0"
  by (simp add: fl_def)

lemma double_exponent_int:
  assumes "\<bar>n\<bar> < 2 ^ 53"
  shows "double_exponent (of_int n) \<le> 0"
proof -
  have "quotient_of \<bar>of_int n\<bar> = (\<bar>n\<bar>, 1)"
    by (simp flip: of_int_abs add: quotient_of_int)
  moreover have "nat \<bar>n\<bar> < 2 ^ 53" using assms by (simp add: nat_less_iff)
  from bits_le [OF this] have "bits (nat \<bar>n\<bar>) \<le> 53" .
  moreover have "bits (nat 1) = 1" by (simp add: bits.simps)
  ultimately show ?thesis by (simp add: double_exponent_def Let_def)
qed

lemma fl_int:
  assumes "\<bar>n\<bar> < 2 ^ 53"
  shows "fl (of_int n) = of_int n"
proof -
  define e where "e = double_exponent (of_int n)"
  have e: "two_power e = 1 / of_int (2 ^ nat (- e))"
    using double_exponent_int [OF assms] by (simp add: two_power_def e_def)
  have "of_int n / two_power e = rat_of_int (n * 2 ^ nat (- e))"
    by (simp add: e)
  then have "round_even (of_int n / two_power e) = n * 2 ^ nat (- e)"
    by (simp only: round_even_int)
  then show ?thesis
    unfolding fl_def Let_def e_def [symmetric] by (simp add: e)
qed

lemma fl_numeral [simp]: "numeral k < (2 :: int) ^ 53 \<Longrightarrow> fl (numeral k) = numeral k"
  using fl_int [of "numeral k"] by simp

lemma fl_1 [simp]: "fl 1 = 1"
  using fl_int [of 1] by simp

lemma utc_text_int: "utc_text (of_int n) = utc_seconds n"
  by (simp add: utc_text_def round_even_def)

lemma utc_text_numeral: "utc_text (numeral k) = utc_seconds (numeral k)"
  using utc_text_int [of "numeral k"] by simp

lemma pad_simps:
  "0 \<le> i \<Longrightarrow> i < 10 \<Longrightarrow> pad 2 i = [CHR ''0'', digit_char (nat i)]"
  "10 \<le> i \<Longrightarrow> i < 100 \<Longrightarrow> pad 2 i = [digit_char (nat i div 10), digit_char (nat i mod 10)]"
  by (auto simp: pad_def str_nat_unfold)

lemma digit_char_eval:
  "digit_char 0 = CHR ''0''" "digit_char 1 = CHR ''1''" "digit_char 2 = CHR ''2''" "digit_char 3 = CHR ''3''"
  "digit_char 4 = CHR ''4''" "digit_char 5 = CHR ''5''" "digit_char 6 = CHR ''6''" "digit_char 7 = CHR ''7''"
  "digit_char (Suc 0) = CHR ''1''" "digit_char 8 = CHR ''8''" "digit_char 9 = CHR ''9''"
  by code_simp+

lemma utc_example: "utc_seconds 1709210096 = Inr ''2024-02-29T12:34:56Z''"
proof -
  have date: "civil (1709210096 div 86400) = (2024, 2, 29)" by code_simp
  have "iso_text 1709210096 = pad 4 2024 @ ''-'' @ pad 2 2 @ ''-'' @ pad 2 29 @ ''T'' @ pad 2 12 @ '':''
      @ pad 2 34 @ '':'' @ pad 2 56 @ ''Z''"
    unfolding iso_text_def Let_def date by simp
  moreover have "pad 4 2024 = ''2024''" by code_simp
  ultimately show ?thesis
    by (simp add: utc_seconds_def MIN_SECONDS_def MAX_SECONDS_def pad_simps digit_char_eval)
qed

lemma date8_examples: "date8 ''20240229''" "\<not> date8 ''20230229''" "\<not> date8 ''00000101''" "\<not> date8 ''2024-2-9''"
  by (simp_all add: py_defs)

end
