(* ===== verification/Status_Common.thy ===== *)
theory Status_Common
  imports Py_Time Py_Regex Py_Json
begin

text \<open>
  What the read-only status probes share: opening a fixed file without following a link, with
  the metadata before and after the read; the boot identity and its clock; the line format
  \<open>KEY=value\<close> of the receipts; identifiers in hexadecimal; and the sorted compact JSON line with the
  exit code that every probe ends in.
\<close>

section \<open>Identifiers\<close>

definition hexn :: "nat \<Rightarrow> string \<Rightarrow> bool" where
  [py_defs]: "hexn n s \<longleftrightarrow> length s = n \<and> list_all lower_hex s"

definition BOOT_RX :: rx where
  [py_defs]: "BOOT_RX = rseq [rtimes 8 (Cls lower_hex), Rep (Cat (lit_char CHR ''-'') (rtimes 4 (Cls lower_hex))) 3 (Some 3),
     lit_char CHR ''-'', rtimes 12 (Cls lower_hex), EndOfText]"

definition boot_id_ok :: "string \<Rightarrow> bool" where
  [py_defs]: "boot_id_ok s \<longleftrightarrow> re_fullmatch BOOT_RX s \<noteq> None"

definition build_char :: "char \<Rightarrow> bool" where
  [py_defs]: "build_char c \<longleftrightarrow> ascii_alnum c \<or> c \<in> set ''._-''"

definition build_id_ok :: "string \<Rightarrow> bool" where
  [py_defs]: "build_id_ok s \<longleftrightarrow>
     s \<noteq> [] \<and> length s \<le> 128 \<and> ascii_alnum (hd s) \<and> list_all build_char (tl s)"

section \<open>Files\<close>

record stat_info =
  si_regular :: bool
  si_size :: nat
  si_mode :: nat
  si_uid :: int
  si_identity :: "int \<times> int \<times> int"
  si_mtime :: rat

text \<open>A file opened with \<open>O_NOFOLLOW\<close>: the first \<open>fstat\<close>, the bytes one bounded \<open>read\<close>
  returns, and a second \<open>fstat\<close>.  \<open>si_identity\<close> is device, inode and modification
  time in nanoseconds; \<open>si_mode\<close> the permission bits.\<close>

record opened =
  op_stat :: "stat_info res"
  op_read :: "string res"
  op_after :: "stat_info res"

definition os_error :: "py_exc \<Rightarrow> bool" where
  [py_defs]: "os_error e \<longleftrightarrow> e = OSError \<or> e = FileNotFoundError"

definition value_error :: "py_exc \<Rightarrow> bool" where
  [py_defs]: "value_error e \<longleftrightarrow> (case e of ValueError m \<Rightarrow> True | _ \<Rightarrow> False)"

definition decode_ascii :: "string \<Rightarrow> string res" where
  [py_defs]: "decode_ascii d = (if is_ascii d then Inr d else Inl (ValueError ''UnicodeDecodeError''))"

section \<open>Lines of keys and values\<close>

fun env_lines :: "string list \<Rightarrow> string list \<Rightarrow> (string \<times> string) list \<Rightarrow> (string \<times> string) list option" where
  "env_lines keys [] parsed = Some parsed"
| "env_lines keys (l # ls) parsed =
     (case split_once CHR ''='' l of
        None \<Rightarrow> None
      | Some (k, v) \<Rightarrow>
          (if k \<notin> set keys \<or> k \<in> fst ` set parsed \<or> v = [] \<or> length v > 128 then None
           else env_lines keys ls (parsed @ [(k, v)])))"

definition env_dict :: "string list \<Rightarrow> string \<Rightarrow> (string \<times> string) list option" where
  [py_defs]: "env_dict keys raw = (case env_lines keys (py_splitlines raw) [] of
       None \<Rightarrow> None
     | Some parsed \<Rightarrow> if list_all (\<lambda>k. k \<in> fst ` set parsed) keys then Some parsed else None)"

text \<open>\<open>d[k]\<close> of a dictionary that has the key.\<close>

definition fld :: "(string \<times> string) list \<Rightarrow> string \<Rightarrow> string" where
  [py_defs]: "fld d k = (case map_of d k of None \<Rightarrow> [] | Some v \<Rightarrow> v)"

section \<open>Boot identity and clock\<close>

record boot_io =
  bo_first :: "string res"
  bo_second :: "string res"
  bo_uptime :: "string res"
  bo_now :: pyfloat
  bo_float :: "string \<Rightarrow> pyfloat res"
  bo_open :: "string \<Rightarrow> opened res"

definition first_word :: "string \<Rightarrow> string res" where
  [py_defs]: "first_word s = (case split_ws s of [] \<Rightarrow> Inl IndexError | w # ws \<Rightarrow> Inr w)"

definition boot_clock :: "boot_io \<Rightarrow> (string \<times> pyfloat \<times> pyfloat) res" where
  [py_defs]: "boot_clock io =
     bindE (bo_first io) (\<lambda>first. bindE (bo_uptime io) (\<lambda>t. bindE (first_word t) (\<lambda>w.
       bindE (bo_float io w) (\<lambda>uptime. Inr (py_strip first, uptime, bo_now io)))))"

text \<open>The finite clock values: uptime in five years, and now after it.\<close>

definition clock_ok :: "pyfloat \<Rightarrow> pyfloat \<Rightarrow> (rat \<times> rat) option" where
  [py_defs]: "clock_ok uptime now = (case (uptime, now) of
       (FFin ur u, FFin nr n) \<Rightarrow> if u < 0 \<or> u > 5 * 365 * 86400 \<or> n \<le> u then None else Some (u, n)
     | _ \<Rightarrow> None)"

definition MAX_SKEW_SECONDS :: rat where [py_defs]: "MAX_SKEW_SECONDS = 30"

section \<open>The JSON line\<close>

definition dict_value :: "pyval \<Rightarrow> string \<Rightarrow> pyval" where
  [py_defs]: "dict_value v k = dget (mapping_or_empty v) k"

text \<open>\<open>sort_keys=True\<close>.\<close>

function sorted_value :: "pyval \<Rightarrow> pyval" where
  "sorted_value (PDict d) = PDict (sort_key fst (map (\<lambda>(k, v). (k, sorted_value v)) d))"
| "sorted_value (PList xs) = PList (map sorted_value xs)"
| "sorted_value PNone = PNone"
| "sorted_value (PBool b) = PBool b"
| "sorted_value (PInt i) = PInt i"
| "sorted_value (PFloat f) = PFloat f"
| "sorted_value (PStr s) = PStr s"
  by pat_completeness auto
termination
  by (relation "measure size")
    (auto simp: size_list_estimation' less_Suc_eq_le dest: size_pair_item size_pair_item')

definition json_line :: "pyval \<Rightarrow> string" where
  [py_defs]: "json_line v = json_enc json_compact (sorted_value v) @ [CHR 0x0A]"

text \<open>Standard output and exit code of a probe.\<close>

definition probe_output :: "pyval \<Rightarrow> string \<times> nat" where
  [py_defs]: "probe_output result =
     (json_line result, if dict_value result ''status'' = PStr ''partial'' then 0 else 3)"

section \<open>Facts\<close>

lemma keys_are_member: "keys_are d ks \<Longrightarrow> distinct (map fst d) \<Longrightarrow> (k, v) \<in> set d \<Longrightarrow> k \<in> set ks \<and> dget d k = v"
  by (auto simp: keys_are_def list_all_iff dget_or_def)

lemma keys_are_all: "keys_are d ks \<Longrightarrow> distinct (map fst d) \<Longrightarrow> list_all (\<lambda>k. P (dget d k)) ks \<Longrightarrow>
    \<forall>(k, v) \<in> set d. P v"
  using keys_are_member by (fastforce simp: list_all_iff)

lemma env_lines_dict:
  "env_lines keys ls parsed = Some d \<Longrightarrow> distinct (map fst parsed) \<Longrightarrow>
     (\<exists>new. d = parsed @ new \<and> distinct (map fst d)
        \<and> (\<forall>(k, v) \<in> set new. k \<in> set keys \<and> v \<noteq> [] \<and> length v \<le> 128))"
proof (induction keys ls parsed rule: env_lines.induct)
  case (2 keys l ls parsed)
  then obtain k v where "split_once CHR ''='' l = Some (k, v)" by (auto split: option.splits)
  with 2 show ?case by (fastforce split: if_splits)
qed simp

text \<open>A parsed receipt has exactly the expected keys, each once, with short values.\<close>

lemma env_dict_keys:
  assumes "env_dict keys raw = Some d"
  shows "fst ` set d = set keys" and "distinct (map fst d)"
    and "\<forall>(k, v) \<in> set d. v \<noteq> [] \<and> length v \<le> 128"
  using assms env_lines_dict [of keys "py_splitlines raw" "[]"]
  by (fastforce simp: env_dict_def list_all_iff split: option.splits if_splits)+

text \<open>Rendering a dictionary and parsing it gives it back.\<close>

definition env_render :: "(string \<times> string) list \<Rightarrow> string" where
  "env_render d = concat (map (\<lambda>(k, v). k @ ''='' @ v @ [CHR 0x0A]) d)"

definition env_item_ok :: "string \<times> string \<Rightarrow> bool" where
  "env_item_ok kv \<longleftrightarrow> (case kv of (k, v) \<Rightarrow> CHR ''='' \<notin> set k \<and> list_all (\<lambda>c. \<not> is_linebreak c) (k @ v)
     \<and> v \<noteq> [] \<and> length v \<le> 128)"

lemma split_once_item: "CHR ''='' \<notin> set k \<Longrightarrow> split_once CHR ''='' (k @ ''='' @ v) = Some (k, v)"
  by (induction k) (auto simp: split_once_def)

lemma env_lines_render:
  assumes "list_all env_item_ok d" and "distinct (map fst (parsed @ d))" and "fst ` set d \<subseteq> set keys"
  shows "env_lines keys (map (\<lambda>(k, v). k @ ''='' @ v) d) parsed = Some (parsed @ d)"
  using assms
proof (induction d arbitrary: parsed)
  case (Cons kv d)
  obtain k v where kv: "kv = (k, v)" by force
  with Cons.prems have "CHR ''='' \<notin> set k" "k \<in> set keys" "k \<notin> fst ` set parsed" "v \<noteq> []" "length v \<le> 128"
    by (auto simp: env_item_ok_def)
  with Cons kv split_once_item [of k v] show ?case by simp
qed simp

lemma split_by_lines:
  "\<forall>x \<in> set xs. list_all (\<lambda>c. \<not> P c) x \<Longrightarrow> P c \<Longrightarrow> split_by P (concat (map (\<lambda>x. x @ [c]) xs)) = xs @ [[]]"
  by (induction xs) (simp_all add: split_by_append_sep)

lemma py_splitlines_lines:
  assumes "\<forall>x \<in> set xs. list_all (\<lambda>c. \<not> is_linebreak c) x"
  shows "py_splitlines (concat (map (\<lambda>x. x @ [CHR 0x0A]) xs)) = xs"
proof -
  let ?t = "concat (map (\<lambda>x. x @ [CHR 0x0A]) xs)"
  have "ord_of c \<noteq> 13" if "c \<in> set ?t" for c
  proof
    assume "ord_of c = 13"
    then have "is_linebreak c" "c \<noteq> CHR 0x0A" by (auto simp: is_linebreak_def)
    with that assms show False by (auto simp: list_all_iff split: if_splits)
  qed
  then have "drop_cr ?t = ?t" by (intro drop_cr_none) (simp add: list_all_iff)
  moreover have "split_by is_linebreak ?t = xs @ [[]]"
    using assms by (intro split_by_lines) (auto simp: is_linebreak_def)
  ultimately show ?thesis by (simp add: py_splitlines_def)
qed

lemma env_roundtrip:
  assumes "list_all env_item_ok d" and "distinct (map fst d)" and "fst ` set d = set keys"
  shows "env_dict keys (env_render d) = Some d"
proof -
  let ?ls = "map (\<lambda>(k, v). k @ ''='' @ v) d"
  have "env_render d = concat (map (\<lambda>x. x @ [CHR 0x0A]) ?ls)"
    by (induction d) (auto simp: env_render_def)
  moreover have "\<forall>x \<in> set ?ls. list_all (\<lambda>c. \<not> is_linebreak c) x"
    using assms(1) by (fastforce simp: list_all_iff env_item_ok_def is_linebreak_def)
  ultimately have "py_splitlines (env_render d) = ?ls" using py_splitlines_lines [of ?ls] by (simp only:)
  then show ?thesis
    using env_lines_render [of d "[]" keys] assms by (auto simp: env_dict_def list_all_iff)
qed

end
