(* ===== verification/Role_Receipts.thy ===== *)
theory Role_Receipts
  imports Status_Common
begin

text \<open>
  The per-role receipt readers of a booted staging node:
  \<open>scripts/pxe_post_pull_receipt_status.py\<close> (the checkout seen after a successful pull) and
  \<open>scripts/pxe_pinned_execution_status.py\<close> (the pin verified around a successful playbook run).
  Both read two files per role and report a fixed vocabulary; every doubt ends in \<open>unknown\<close>.
\<close>

section \<open>What both readers fix\<close>

definition ROLES :: "string list" where
  [py_defs]: "ROLES = [''base'', ''workstation_cli'', ''k3s_stg_storage'', ''k3s_stg_server'', ''k3s_stg_agent'',
     ''terraform_stg'']"

definition STATE_DIR :: string where [py_defs]: "STATE_DIR = ''/run/ansible-pull/''"

definition STATE_FIELDS :: "string list" where
  [py_defs]: "STATE_FIELDS = [''ROLE'', ''STAGE'', ''BRANCH'', ''RC'', ''ELAPSED_SECS'', ''STEP'']"

definition MAX_FILE_BYTES :: nat where [py_defs]: "MAX_FILE_BYTES = 2048"

text \<open>The text of an opened receipt, once its metadata is acceptable; every exception of the
  block is a receipt that is invalid, and any other leaves the reader.\<close>

definition receipt_text :: "(stat_info \<Rightarrow> bool) \<Rightarrow> opened \<Rightarrow> (stat_info \<times> string) res" where
  [py_defs]: "receipt_text acceptable h =
     bindE (op_stat h) (\<lambda>info.
       if \<not> acceptable info then Inl (ValueError ''receipt_invalid'')
       else bindE (op_read h) (\<lambda>data.
         if length data > MAX_FILE_BYTES then Inl (ValueError ''receipt_invalid'')
         else bindE (decode_ascii data) (\<lambda>raw. Inr (info, raw))))"

type_synonym receipt = "(string \<times> string) list \<times> rat"

text \<open>The reason on the left, the receipt and its modification time on the right.\<close>

definition read_env ::
    "(stat_info \<Rightarrow> bool) \<Rightarrow> string list \<Rightarrow> opened res \<Rightarrow> (string + receipt) res" where
  [py_defs]: "read_env acceptable keys file_opened =
     (case file_opened of
        Inl e \<Rightarrow> if e = FileNotFoundError then Inr (Inl ''receipt_missing'')
                 else if e = OSError then Inr (Inl ''receipt_unavailable'') else Inl e
      | Inr h \<Rightarrow>
          (case receipt_text acceptable h of
             Inl e \<Rightarrow> if os_error e \<or> value_error e then Inr (Inl ''receipt_invalid'') else Inl e
           | Inr (info, raw) \<Rightarrow>
               (case env_dict keys raw of
                  None \<Rightarrow> Inr (Inl ''receipt_invalid'')
                | Some d \<Rightarrow> Inr (Inr (d, si_mtime info)))))"

text \<open>The times of a receipt: written in this boot, after the role's state, and not in the
  future.  The comparisons are exact, the sums and differences rounded.\<close>

definition epoch_ok :: "string \<Rightarrow> bool" where
  [py_defs]: "epoch_ok ts \<longleftrightarrow> is_ascii ts \<and> py_isdigit ts \<and> length ts \<le> 16"

definition receipt_times_ok :: "rat \<Rightarrow> rat \<Rightarrow> int \<Rightarrow> rat \<Rightarrow> rat \<Rightarrow> bool" where
  [py_defs]: "receipt_times_ok boot_epoch now recorded receipt_mtime status_mtime \<longleftrightarrow>
     fl (boot_epoch - 2) \<le> status_mtime \<and> status_mtime \<le> receipt_mtime \<and> receipt_mtime \<le> fl (now + 2)
     \<and> fl (boot_epoch - 2) \<le> of_int recorded \<and> of_int recorded \<le> fl (now + 2)
     \<and> \<bar>fl (fl (of_int recorded) - receipt_mtime)\<bar> \<le> MAX_SKEW_SECONDS
     \<and> fl (receipt_mtime - status_mtime) \<le> MAX_SKEW_SECONDS"

definition state_matches :: "string \<Rightarrow> (string \<times> string) list \<Rightarrow> (string \<times> string) list \<Rightarrow> bool" where
  [py_defs]: "state_matches role receipt status \<longleftrightarrow>
     fld receipt ''ROLE'' = role \<and> fld status ''ROLE'' = role
     \<and> (fld receipt ''STAGE'' = ''stg'' \<or> fld receipt ''STAGE'' = ''staging'')
     \<and> fld status ''STAGE'' = fld receipt ''STAGE''
     \<and> fld receipt ''BRANCH'' = ''stg'' \<and> fld status ''BRANCH'' = ''stg''
     \<and> fld status ''RC'' = ''0'' \<and> fld status ''STEP'' = ''complete'' \<and> py_isdigit (fld status ''ELAPSED_SECS'')"

text \<open>Reading one role: its receipt, its state, and the checks on both.  \<open>identity_ok\<close> and the
  entry that is reported are the reader's own.\<close>

definition role_reading ::
    "(stat_info \<Rightarrow> bool) \<Rightarrow> string list \<Rightarrow> string \<Rightarrow> (string \<Rightarrow> string \<Rightarrow> pyval)
       \<Rightarrow> (string \<Rightarrow> string \<Rightarrow> (string \<times> string) list \<Rightarrow> (string \<times> string) list \<Rightarrow> bool)
       \<Rightarrow> (string \<Rightarrow> (string \<times> string) list \<Rightarrow> string \<Rightarrow> pyval)
       \<Rightarrow> boot_io \<Rightarrow> string \<Rightarrow> rat \<Rightarrow> rat \<Rightarrow> string \<Rightarrow> pyval res" where
  [py_defs]: "role_reading acceptable keys suffix unknown_role identity_ok observed io boot_id boot_epoch now role =
     bindE (read_env acceptable keys (bo_open io (STATE_DIR @ role @ suffix))) (\<lambda>r.
       case r of
         Inl reason \<Rightarrow> Inr (unknown_role role reason)
       | Inr (receipt, receipt_mtime) \<Rightarrow>
           bindE (read_env acceptable STATE_FIELDS (bo_open io (STATE_DIR @ role @ ''.env''))) (\<lambda>s.
             case s of
               Inl why \<Rightarrow> Inr (unknown_role role (''role_state_'' @ why))
             | Inr (status, status_mtime) \<Rightarrow>
                 (let recorded = int (nat_of_digits (fld receipt ''RECORDED_AT_EPOCH'')) in
                  if \<not> identity_ok role boot_id receipt status
                  then Inr (unknown_role role ''receipt_identity_or_status_mismatch'')
                  else if \<not> epoch_ok (fld receipt ''RECORDED_AT_EPOCH'')
                      \<or> \<not> receipt_times_ok boot_epoch now recorded receipt_mtime status_mtime
                  then Inr (unknown_role role ''receipt_time_invalid'')
                  else (case utc_seconds recorded of
                      Inl e \<Rightarrow> Inr (unknown_role role ''receipt_time_invalid'')
                    | Inr stamp \<Rightarrow> Inr (observed role receipt stamp)))))"

section \<open>The post-pull reader\<close>

definition PULL_SCHEMA :: string where [py_defs]: "PULL_SCHEMA = ''pxe-post-pull-role-receipts-v1''"
definition PULL_SCOPE :: string where
  [py_defs]: "PULL_SCOPE = ''historical_post_success_checkout_not_executed_revision''"

definition PULL_FIELDS :: "string list" where
  [py_defs]: "PULL_FIELDS = [''SCHEMA'', ''ROLE'', ''STAGE'', ''BRANCH'', ''BOOT_ID'',
     ''CHECKOUT_HEAD_AFTER_SUCCESS'', ''RECORDED_AT_EPOCH'']"

definition pull_unknown_role :: "string \<Rightarrow> string \<Rightarrow> pyval" where
  [py_defs]: "pull_unknown_role role reason = PDict
     [(''role'', PStr role), (''status'', PStr ''unknown''), (''reason'', PStr reason),
      (''checkout_head_after_success'', PNone), (''recorded_at'', PNone)]"

definition pull_unknown :: "string \<Rightarrow> pyval" where
  [py_defs]: "pull_unknown reason = PDict
     [(''schema'', PStr PULL_SCHEMA), (''status'', PStr ''unknown''), (''reason'', PStr reason),
      (''scope'', PStr PULL_SCOPE), (''boot_id'', PNone), (''observed_at'', PNone), (''roles'', PList [])]"

definition pull_acceptable :: "stat_info \<Rightarrow> bool" where
  [py_defs]: "pull_acceptable info \<longleftrightarrow>
     si_regular info \<and> si_size info \<le> MAX_FILE_BYTES \<and> and (si_mode info) 0x12 = 0"

definition pull_identity_ok :: "string \<Rightarrow> string \<Rightarrow> (string \<times> string) list \<Rightarrow> (string \<times> string) list \<Rightarrow> bool" where
  [py_defs]: "pull_identity_ok role boot_id receipt status \<longleftrightarrow>
     fld receipt ''SCHEMA'' = ''1'' \<and> state_matches role receipt status \<and> fld receipt ''BOOT_ID'' = boot_id
     \<and> hexn 40 (fld receipt ''CHECKOUT_HEAD_AFTER_SUCCESS'')"

definition pull_observed :: "string \<Rightarrow> (string \<times> string) list \<Rightarrow> string \<Rightarrow> pyval" where
  [py_defs]: "pull_observed role receipt stamp = PDict
     [(''role'', PStr role), (''status'', PStr ''observed''),
      (''reason'', PStr ''post_success_checkout_head_observed''),
      (''checkout_head_after_success'', PStr (fld receipt ''CHECKOUT_HEAD_AFTER_SUCCESS'')),
      (''recorded_at'', PStr stamp)]"

definition pull_read_role :: "boot_io \<Rightarrow> string \<Rightarrow> rat \<Rightarrow> rat \<Rightarrow> string \<Rightarrow> pyval res" where
  [py_defs]: "pull_read_role =
     role_reading pull_acceptable PULL_FIELDS ''.post-pull.env'' pull_unknown_role pull_identity_ok pull_observed"

text \<open>The frame both readers share: the boot identity and clock, the roles, the boot identity
  again, the time of observation.\<close>

definition boot_error :: "py_exc \<Rightarrow> bool" where
  [py_defs]: "boot_error e \<longleftrightarrow> os_error e \<or> value_error e \<or> e = IndexError \<or> e = OverflowError"

definition role_snapshot ::
    "(string \<Rightarrow> pyval) \<Rightarrow> (string \<Rightarrow> rat \<Rightarrow> rat \<Rightarrow> string \<Rightarrow> pyval res) \<Rightarrow> (string \<Rightarrow> string \<Rightarrow> pyval list \<Rightarrow> pyval)
       \<Rightarrow> boot_io \<Rightarrow> pyval res" where
  [py_defs]: "role_snapshot unknown read_role report io =
     (case boot_clock io of
        Inl e \<Rightarrow> if boot_error e then Inr (unknown ''boot_identity_unavailable'') else Inl e
      | Inr (first, uptime, now) \<Rightarrow>
          (case clock_ok uptime now of
             None \<Rightarrow> Inr (unknown ''boot_identity_invalid'')
           | Some (u, n) \<Rightarrow>
               (if \<not> boot_id_ok first then Inr (unknown ''boot_identity_invalid'')
                else bindE (mapE (read_role first (fl (n - u)) n) ROLES) (\<lambda>roles.
                  case bo_second io of
                    Inl e \<Rightarrow> if os_error e \<or> value_error e then Inr (unknown ''boot_identity_changed'') else Inl e
                  | Inr second \<Rightarrow>
                      (if py_strip second \<noteq> first then Inr (unknown ''boot_identity_changed'')
                       else (case utc_text n of
                           Inl e \<Rightarrow> Inr (unknown ''observation_time_invalid'')
                         | Inr observed \<Rightarrow> Inr (report first observed roles)))))))"

definition has_status :: "string \<Rightarrow> pyval \<Rightarrow> bool" where
  [py_defs]: "has_status s item \<longleftrightarrow> dict_value item ''status'' = PStr s"

definition pull_report :: "string \<Rightarrow> string \<Rightarrow> pyval list \<Rightarrow> pyval" where
  [py_defs]: "pull_report boot_id observed roles =
     (let present = list_ex (has_status ''observed'') roles in PDict
       [(''schema'', PStr PULL_SCHEMA), (''status'', PStr (if present then ''partial'' else ''unknown'')),
        (''reason'', PStr (if present then ''historical_post_success_observed'' else ''no_valid_post_pull_receipts'')),
        (''scope'', PStr PULL_SCOPE), (''boot_id'', PStr boot_id), (''observed_at'', PStr observed),
        (''roles'', PList roles)])"

definition pull_snapshot :: "boot_io \<Rightarrow> pyval res" where
  [py_defs]: "pull_snapshot io = role_snapshot pull_unknown (pull_read_role io) pull_report io"

definition pull_main :: "boot_io \<Rightarrow> (string \<times> nat) res" where
  [py_defs]: "pull_main io = bindE (pull_snapshot io) (\<lambda>result. Inr (probe_output result))"

section \<open>The pinned playbook reader\<close>

definition PIN_SCHEMA :: string where [py_defs]: "PIN_SCHEMA = ''pxe-pinned-playbook-success-v1''"
definition PIN_SCOPE :: string where [py_defs]: "PIN_SCOPE = ''pinned_playbook_success_not_role_task_attested''"

definition PIN_FIELDS :: "string list" where
  [py_defs]: "PIN_FIELDS = [''SCHEMA'', ''EVIDENCE_SCOPE'', ''ROLE'', ''STAGE'', ''BRANCH'', ''BOOT_ID'',
     ''BUILD_ID'', ''PIN_REVISION'', ''DECLARATION_SHA256'', ''CHECKOUT_HEAD_AFTER_SUCCESS'', ''RECORDED_AT_EPOCH'']"

definition pin_unknown_role :: "string \<Rightarrow> string \<Rightarrow> pyval" where
  [py_defs]: "pin_unknown_role role reason = PDict
     [(''role'', PStr role), (''status'', PStr ''unknown''), (''reason'', PStr reason),
      (''build_id'', PNone), (''pin_revision'', PNone), (''declaration_sha256'', PNone), (''recorded_at'', PNone)]"

definition pin_unknown :: "string \<Rightarrow> pyval" where
  [py_defs]: "pin_unknown reason = PDict
     [(''schema'', PStr PIN_SCHEMA), (''status'', PStr ''unknown''), (''reason'', PStr reason),
      (''scope'', PStr PIN_SCOPE), (''boot_id'', PNone), (''observed_at'', PNone), (''roles'', PList [])]"

definition pin_acceptable :: "stat_info \<Rightarrow> bool" where
  [py_defs]: "pin_acceptable info \<longleftrightarrow>
     si_regular info \<and> 0 < si_size info \<and> si_size info \<le> MAX_FILE_BYTES \<and> and (si_mode info) 0x3F = 0"

definition pin_identity_ok :: "string \<Rightarrow> string \<Rightarrow> (string \<times> string) list \<Rightarrow> (string \<times> string) list \<Rightarrow> bool" where
  [py_defs]: "pin_identity_ok role boot_id receipt status \<longleftrightarrow>
     fld receipt ''SCHEMA'' = ''1'' \<and> fld receipt ''EVIDENCE_SCOPE'' = PIN_SCOPE
     \<and> state_matches role receipt status \<and> fld receipt ''BOOT_ID'' = boot_id
     \<and> build_id_ok (fld receipt ''BUILD_ID'') \<and> hexn 40 (fld receipt ''PIN_REVISION'')
     \<and> hexn 64 (fld receipt ''DECLARATION_SHA256'') \<and> hexn 40 (fld receipt ''CHECKOUT_HEAD_AFTER_SUCCESS'')
     \<and> fld receipt ''PIN_REVISION'' = fld receipt ''CHECKOUT_HEAD_AFTER_SUCCESS''"

definition pin_observed :: "string \<Rightarrow> (string \<times> string) list \<Rightarrow> string \<Rightarrow> pyval" where
  [py_defs]: "pin_observed role receipt stamp = PDict
     [(''role'', PStr role), (''status'', PStr ''partial''),
      (''reason'', PStr ''pinned_playbook_success_observed''),
      (''build_id'', PStr (fld receipt ''BUILD_ID'')),
      (''pin_revision'', PStr (fld receipt ''PIN_REVISION'')),
      (''declaration_sha256'', PStr (fld receipt ''DECLARATION_SHA256'')),
      (''recorded_at'', PStr stamp)]"

definition pin_read_role :: "boot_io \<Rightarrow> string \<Rightarrow> rat \<Rightarrow> rat \<Rightarrow> string \<Rightarrow> pyval res" where
  [py_defs]: "pin_read_role =
     role_reading pin_acceptable PIN_FIELDS ''.pinned-execution.env'' pin_unknown_role pin_identity_ok pin_observed"

definition pin_report :: "string \<Rightarrow> string \<Rightarrow> pyval list \<Rightarrow> pyval" where
  [py_defs]: "pin_report boot_id observed roles =
     (let present = list_ex (has_status ''partial'') roles in PDict
       [(''schema'', PStr PIN_SCHEMA), (''status'', PStr (if present then ''partial'' else ''unknown'')),
        (''reason'', PStr (if present then ''pinned_playbook_success_observed'' else ''no_valid_pinned_receipts'')),
        (''scope'', PStr PIN_SCOPE), (''boot_id'', PStr boot_id), (''observed_at'', PStr observed),
        (''roles'', PList roles)])"

definition pin_snapshot :: "boot_io \<Rightarrow> pyval res" where
  [py_defs]: "pin_snapshot io = role_snapshot pin_unknown (pin_read_role io) pin_report io"

definition pin_main :: "boot_io \<Rightarrow> (string \<times> nat) res" where
  [py_defs]: "pin_main io = bindE (pin_snapshot io) (\<lambda>result. Inr (probe_output result))"

end
