(* ===== verification/Role_Props.thy ===== *)
theory Role_Props
  imports Role_Receipts
begin

text \<open>
  Properties of the role receipt readers.  \<open>receipt_reader\<close> is what both readers promise their
  common frame; the facts about a snapshot are proved once from it.
\<close>

section \<open>The frame of a reader\<close>

definition items_of :: "pyval \<Rightarrow> pyval list" where
  "items_of v = (case dict_value v ''roles'' of PList xs \<Rightarrow> xs | _ \<Rightarrow> [])"

definition same_boot :: "boot_io \<Rightarrow> string \<Rightarrow> bool" where
  "same_boot io boot \<longleftrightarrow> boot_id_ok boot
     \<and> (\<exists>a b. bo_first io = Inr a \<and> bo_second io = Inr b \<and> py_strip a = boot \<and> py_strip b = boot)"

locale receipt_reader =
  fixes unknown :: "string \<Rightarrow> pyval"
    and read_role :: "boot_io \<Rightarrow> string \<Rightarrow> rat \<Rightarrow> rat \<Rightarrow> string \<Rightarrow> pyval res"
    and report :: "string \<Rightarrow> string \<Rightarrow> pyval list \<Rightarrow> pyval"
    and good :: string
    and evidence :: "boot_io \<Rightarrow> string \<Rightarrow> rat \<Rightarrow> rat \<Rightarrow> string \<Rightarrow> pyval \<Rightarrow> bool"
  assumes unknown_empty: "items_of (unknown reason) = [] \<and> dict_value (unknown reason) ''status'' = PStr ''unknown''"
    and report_items: "items_of (report boot observed roles) = roles"
    and report_status: "dict_value (report boot observed roles) ''status'' =
      PStr (if list_ex (has_status good) roles then ''partial'' else ''unknown'')"
    and role_evidence: "read_role io boot epoch now role = Inr item \<Longrightarrow> has_status good item \<Longrightarrow>
      evidence io boot epoch now role item"
begin

lemma snapshot_items:
  assumes "role_snapshot unknown (read_role io) report io = Inr v"
  shows "items_of v = [] \<and> dict_value v ''status'' = PStr ''unknown'' \<or>
    (\<exists>boot ur u nr n roles. same_boot io boot \<and> bo_now io = FFin nr n \<and> 0 \<le> u \<and> u < n
       \<and> boot_clock io = Inr (boot, FFin ur u, FFin nr n)
       \<and> mapE (read_role io boot (fl (n - u)) n) ROLES = Inr roles \<and> items_of v = roles
       \<and> dict_value v ''status'' = PStr (if list_ex (has_status good) roles then ''partial'' else ''unknown''))"
proof (cases "boot_clock io")
  case (Inl e)
  with assms unknown_empty show ?thesis by (auto simp: role_snapshot_def split: if_splits)
next
  case (Inr c)
  obtain boot uptime now where c: "c = (boot, uptime, now)" by (cases c)
  note clock = Inr [unfolded c]
  then have now: "bo_now io = now" and first: "\<exists>a. bo_first io = Inr a \<and> py_strip a = boot"
    by (auto simp: boot_clock_def)
  show ?thesis
  proof (cases "clock_ok uptime now")
    case None
    with assms clock unknown_empty show ?thesis by (auto simp: role_snapshot_def)
  next
    case (Some un)
    obtain u n where un: "un = (u, n)" by force
    from Some un obtain ur nr where fin: "uptime = FFin ur u" "now = FFin nr n" and le: "0 \<le> u" "u < n"
      by (auto simp: clock_ok_def split: pyfloat.splits if_splits)
    show ?thesis
    proof (cases "boot_id_ok boot")
      case False
      with assms clock Some un unknown_empty show ?thesis by (auto simp: role_snapshot_def)
    next
      case True
      with assms clock Some un obtain roles where
        roles: "mapE (read_role io boot (fl (n - u)) n) ROLES = Inr roles"
        by (auto simp: role_snapshot_def)
      show ?thesis
      proof (cases "\<exists>b. bo_second io = Inr b \<and> py_strip b = boot")
        case False
        with assms clock Some un True roles unknown_empty show ?thesis
          by (auto simp: role_snapshot_def split: sum.splits if_splits)
      next
        case same: True
        with first True have "same_boot io boot" by (auto simp: same_boot_def)
        with assms clock Some un True roles same unknown_empty report_items report_status now fin le show ?thesis
          by (auto simp: role_snapshot_def split: sum.splits)
      qed
    qed
  qed
qed

lemma snapshot_item:
  assumes "role_snapshot unknown (read_role io) report io = Inr v" and "item \<in> set (items_of v)"
    and "has_status good item"
  shows "\<exists>boot u n role. same_boot io boot \<and> role \<in> set ROLES \<and> evidence io boot (fl (n - u)) n role item"
proof -
  from snapshot_items [OF assms(1)] assms(2) obtain boot u n roles where
    "same_boot io boot" and roles: "mapE (read_role io boot (fl (n - u)) n) ROLES = Inr roles" "item \<in> set roles"
    by (elim disjE exE conjE) simp_all
  moreover from mapE_Inr_set [OF roles] obtain role where
    "role \<in> set ROLES" "read_role io boot (fl (n - u)) n role = Inr item" by blast
  ultimately show ?thesis using assms(3) role_evidence by blast
qed

lemma partial_iff_item:
  assumes "role_snapshot unknown (read_role io) report io = Inr v"
  shows "dict_value v ''status'' = PStr ''partial'' \<longleftrightarrow> list_ex (has_status good) (items_of v)"
  using snapshot_items [OF assms] by (elim disjE exE conjE) (auto split: if_splits)

end

section \<open>The two readers\<close>

text \<open>A receipt read from a regular file with acceptable metadata.\<close>

definition file_receipt ::
    "(stat_info \<Rightarrow> bool) \<Rightarrow> boot_io \<Rightarrow> string \<Rightarrow> string list \<Rightarrow> (string \<times> string) list \<Rightarrow> rat \<Rightarrow> bool" where
  "file_receipt acceptable io path keys d mtime \<longleftrightarrow>
     (\<exists>h info raw. bo_open io path = Inr h \<and> op_stat h = Inr info \<and> acceptable info \<and> op_read h = Inr raw
        \<and> is_ascii raw \<and> length raw \<le> MAX_FILE_BYTES \<and> env_dict keys raw = Some d \<and> mtime = si_mtime info)"

lemma read_env_Inr:
  "read_env acceptable keys (bo_open io path) = Inr (Inr (d, mtime)) \<longleftrightarrow> file_receipt acceptable io path keys d mtime"
  by (auto simp: read_env_def file_receipt_def receipt_text_def decode_ascii_def
      split: sum.splits if_splits option.splits)

text \<open>What stands behind a reported role, and that nothing else is reported.\<close>

definition role_evidence ::
    "(stat_info \<Rightarrow> bool) \<Rightarrow> string list \<Rightarrow> string
       \<Rightarrow> (string \<Rightarrow> string \<Rightarrow> (string \<times> string) list \<Rightarrow> (string \<times> string) list \<Rightarrow> bool)
       \<Rightarrow> (string \<Rightarrow> (string \<times> string) list \<Rightarrow> string \<Rightarrow> pyval)
       \<Rightarrow> boot_io \<Rightarrow> string \<Rightarrow> rat \<Rightarrow> rat \<Rightarrow> string \<Rightarrow> pyval \<Rightarrow> bool" where
  "role_evidence acceptable keys suffix identity_ok observed io boot epoch now role item \<longleftrightarrow>
     (\<exists>receipt status rm sm stamp.
        file_receipt acceptable io (STATE_DIR @ role @ suffix) keys receipt rm
      \<and> file_receipt acceptable io (STATE_DIR @ role @ ''.env'') STATE_FIELDS status sm
      \<and> identity_ok role boot receipt status \<and> epoch_ok (fld receipt ''RECORDED_AT_EPOCH'')
      \<and> receipt_times_ok epoch now (int (nat_of_digits (fld receipt ''RECORDED_AT_EPOCH''))) rm sm
      \<and> utc_seconds (int (nat_of_digits (fld receipt ''RECORDED_AT_EPOCH''))) = Inr stamp
      \<and> item = observed role receipt stamp)"

lemma role_reading_cases:
  assumes "role_reading acceptable keys suffix unknown_role identity_ok observed io boot epoch now role = Inr item"
  shows "(\<exists>reason. item = unknown_role role reason)
    \<or> role_evidence acceptable keys suffix identity_ok observed io boot epoch now role item"
proof -
  let ?read = "\<lambda>keys suffix. read_env acceptable keys (bo_open io (STATE_DIR @ role @ suffix))"
  from assms obtain r where r: "?read keys suffix = Inr r" by (auto simp: role_reading_def)
  show ?thesis
  proof (cases r)
    case (Inl reason)
    with assms r show ?thesis by (auto simp: role_reading_def)
  next
    case (Inr q)
    obtain receipt rm where q: "q = (receipt, rm)" by force
    with assms r Inr obtain s where s: "?read STATE_FIELDS ''.env'' = Inr s" by (auto simp: role_reading_def)
    show ?thesis
    proof (cases s)
      case (Inl why)
      with assms r s Inr q show ?thesis by (auto simp: role_reading_def)
    next
      case (Inr q')
      obtain status sm where q': "q' = (status, sm)" by force
      note rs = r [unfolded \<open>r = Inr q\<close> q] s [unfolded Inr q']
      from rs have "file_receipt acceptable io (STATE_DIR @ role @ suffix) keys receipt rm"
        and "file_receipt acceptable io (STATE_DIR @ role @ ''.env'') STATE_FIELDS status sm"
        by (simp_all add: read_env_Inr)
      moreover from assms have "(\<exists>reason. item = unknown_role role reason)
         \<or> identity_ok role boot receipt status \<and> epoch_ok (fld receipt ''RECORDED_AT_EPOCH'')
           \<and> receipt_times_ok epoch now (int (nat_of_digits (fld receipt ''RECORDED_AT_EPOCH''))) rm sm
           \<and> (\<exists>stamp. utc_seconds (int (nat_of_digits (fld receipt ''RECORDED_AT_EPOCH''))) = Inr stamp
               \<and> item = observed role receipt stamp)"
        unfolding role_reading_def rs bindE_simps sum.case prod.case Let_def
        by (simp split: if_splits sum.splits) blast+
      ultimately show ?thesis unfolding role_evidence_def by blast
    qed
  qed
qed

abbreviation pull_evidence :: "boot_io \<Rightarrow> string \<Rightarrow> rat \<Rightarrow> rat \<Rightarrow> string \<Rightarrow> pyval \<Rightarrow> bool" where
  "pull_evidence \<equiv> role_evidence pull_acceptable PULL_FIELDS ''.post-pull.env'' pull_identity_ok pull_observed"

abbreviation pin_evidence :: "boot_io \<Rightarrow> string \<Rightarrow> rat \<Rightarrow> rat \<Rightarrow> string \<Rightarrow> pyval \<Rightarrow> bool" where
  "pin_evidence \<equiv> role_evidence pin_acceptable PIN_FIELDS ''.pinned-execution.env'' pin_identity_ok pin_observed"

lemma pull_role_evidence:
  "pull_read_role io boot epoch now role = Inr item \<Longrightarrow> has_status ''observed'' item \<Longrightarrow> pull_evidence io boot epoch now role item"
  unfolding pull_read_role_def using role_reading_cases
  by (fastforce simp: has_status_def pull_unknown_role_def dict_value_def dget_or_def)

lemma pin_role_evidence:
  "pin_read_role io boot epoch now role = Inr item \<Longrightarrow> has_status ''partial'' item \<Longrightarrow> pin_evidence io boot epoch now role item"
  unfolding pin_read_role_def using role_reading_cases
  by (fastforce simp: has_status_def pin_unknown_role_def dict_value_def dget_or_def)

interpretation pull: receipt_reader pull_unknown pull_read_role pull_report "''observed''" pull_evidence
  by unfold_locales
    (auto simp: items_of_def pull_unknown_def pull_report_def dict_value_def dget_or_def Let_def intro: pull_role_evidence)

interpretation pin: receipt_reader pin_unknown pin_read_role pin_report "''partial''" pin_evidence
  by unfold_locales
    (auto simp: items_of_def pin_unknown_def pin_report_def dict_value_def dget_or_def Let_def intro: pin_role_evidence)


section \<open>A written receipt is reported\<close>

text \<open>A file that holds a rendered dictionary.\<close>

definition holds :: "(stat_info \<Rightarrow> bool) \<Rightarrow> boot_io \<Rightarrow> string \<Rightarrow> (string \<times> string) list \<Rightarrow> rat \<Rightarrow> bool" where
  "holds acceptable io path d mtime \<longleftrightarrow>
     (\<exists>h info. bo_open io path = Inr h \<and> op_stat h = Inr info \<and> acceptable info \<and> si_mtime info = mtime
        \<and> op_read h = Inr (env_render d) \<and> is_ascii (env_render d) \<and> length (env_render d) \<le> MAX_FILE_BYTES)"

definition env_file_ok :: "string list \<Rightarrow> (string \<times> string) list \<Rightarrow> bool" where
  "env_file_ok keys d \<longleftrightarrow> list_all env_item_ok d \<and> distinct (map fst d) \<and> fst ` set d = set keys"

lemma holds_receipt:
  "holds acceptable io path d mtime \<Longrightarrow> env_file_ok keys d \<Longrightarrow> file_receipt acceptable io path keys d mtime"
  by (auto simp: holds_def file_receipt_def env_file_ok_def env_roundtrip)

lemma role_reading_evidence:
  assumes "file_receipt acceptable io (STATE_DIR @ role @ suffix) keys receipt rm"
    and "file_receipt acceptable io (STATE_DIR @ role @ ''.env'') STATE_FIELDS status sm"
    and "identity_ok role boot receipt status" and "epoch_ok (fld receipt ''RECORDED_AT_EPOCH'')"
    and "receipt_times_ok epoch now (int (nat_of_digits (fld receipt ''RECORDED_AT_EPOCH''))) rm sm"
    and "utc_seconds (int (nat_of_digits (fld receipt ''RECORDED_AT_EPOCH''))) = Inr stamp"
  shows "role_reading acceptable keys suffix unknown_role identity_ok observed io boot epoch now role
    = Inr (observed role receipt stamp)"
  using assms unfolding read_env_Inr [symmetric] by (simp add: role_reading_def)

text \<open>
  A post-pull receipt written as the producer writes it, one line per key, is read
  back: the role is reported as observed with the checkout and the time of the receipt.
\<close>

lemma written_pull_receipt_is_observed:
  assumes "holds pull_acceptable io (STATE_DIR @ role @ ''.post-pull.env'') receipt rm"
    and "holds pull_acceptable io (STATE_DIR @ role @ ''.env'') status sm"
    and "env_file_ok PULL_FIELDS receipt" and "env_file_ok STATE_FIELDS status"
    and "pull_identity_ok role boot receipt status" and "fld receipt ''RECORDED_AT_EPOCH'' = str_nat t"
    and "length (str_nat t) \<le> 16" and "receipt_times_ok epoch now (int t) rm sm"
    and "utc_seconds (int t) = Inr stamp"
  shows "pull_read_role io boot epoch now role = Inr (PDict
     [(''role'', PStr role), (''status'', PStr ''observed''),
      (''reason'', PStr ''post_success_checkout_head_observed''),
      (''checkout_head_after_success'', PStr (fld receipt ''CHECKOUT_HEAD_AFTER_SUCCESS'')),
      (''recorded_at'', PStr stamp)])"
proof -
  have "is_ascii (str_nat t)" and "py_isdigit (str_nat t)"
    using str_nat_digits [of t] by (auto simp: is_ascii_def py_isdigit_def ascii_digit_def list_all_iff)
  then have "epoch_ok (fld receipt ''RECORDED_AT_EPOCH'')" using assms(6,7) by (simp add: epoch_ok_def)
  moreover have t: "int (nat_of_digits (fld receipt ''RECORDED_AT_EPOCH'')) = int t" using assms(6) by simp
  ultimately show ?thesis
    unfolding pull_read_role_def
    using role_reading_evidence [OF holds_receipt [OF assms(1,3)] holds_receipt [OF assms(2,4)],
        of pull_identity_ok boot epoch now stamp pull_unknown_role pull_observed] assms(5,8,9)
    by (simp add: t pull_observed_def)
qed

definition example_boot :: string where "example_boot = ''00000000-0000-0000-0000-000000000000''"

definition example_status :: "(string \<times> string) list" where
  "example_status = [(''ROLE'', ''base''), (''STAGE'', ''stg''), (''BRANCH'', ''stg''), (''RC'', ''0''),
     (''ELAPSED_SECS'', ''7''), (''STEP'', ''complete'')]"

definition example_pull :: "(string \<times> string) list" where
  "example_pull = [(''SCHEMA'', ''1''), (''ROLE'', ''base''), (''STAGE'', ''stg''), (''BRANCH'', ''stg''),
     (''BOOT_ID'', example_boot), (''CHECKOUT_HEAD_AFTER_SUCCESS'', replicate 40 (CHR ''a'')),
     (''RECORDED_AT_EPOCH'', ''1000'')]"

definition example_pin :: "(string \<times> string) list" where
  "example_pin = [(''SCHEMA'', ''1''), (''EVIDENCE_SCOPE'', PIN_SCOPE), (''ROLE'', ''base''), (''STAGE'', ''stg''),
     (''BRANCH'', ''stg''), (''BOOT_ID'', example_boot), (''BUILD_ID'', ''b1''),
     (''PIN_REVISION'', replicate 40 (CHR ''a'')), (''DECLARATION_SHA256'', replicate 64 (CHR ''0'')),
     (''CHECKOUT_HEAD_AFTER_SUCCESS'', replicate 40 (CHR ''a'')), (''RECORDED_AT_EPOCH'', ''1000'')]"

definition example_file :: "(string \<times> string) list \<Rightarrow> rat \<Rightarrow> opened" where
  "example_file d mtime = (let info = \<lparr>si_regular = True, si_size = 100, si_mode = 0x100, si_uid = 0,
       si_identity = (1, 2, 3), si_mtime = mtime\<rparr> in
     \<lparr>op_stat = Inr info, op_read = Inr (env_render d), op_after = Inr info\<rparr>)"

definition example_io :: boot_io where
  "example_io = \<lparr>bo_first = Inr (example_boot @ [CHR 0x0A]), bo_second = Inr (example_boot @ [CHR 0x0A]),
     bo_uptime = Inr ''100.0 5.0'', bo_now = FFin ''1050.0'' 1050, bo_float = (\<lambda>w. Inr (FFin w 100)),
     bo_open = (\<lambda>path. if path = ''/run/ansible-pull/base.post-pull.env'' then Inr (example_file example_pull 1000)
       else if path = ''/run/ansible-pull/base.pinned-execution.env'' then Inr (example_file example_pin 1000)
       else if path = ''/run/ansible-pull/base.env'' then Inr (example_file example_status 999)
       else Inl FileNotFoundError)\<rparr>"

lemma example_ascii: "is_ascii (env_render example_pull)" "length (env_render example_pull) \<le> MAX_FILE_BYTES"
  "is_ascii (env_render example_pin)" "length (env_render example_pin) \<le> MAX_FILE_BYTES"
  "is_ascii (env_render example_status)" "length (env_render example_status) \<le> MAX_FILE_BYTES"
  by (simp_all add: is_ascii_def env_render_def example_pull_def example_pin_def example_status_def example_boot_def
      PIN_SCOPE_def MAX_FILE_BYTES_def list_all_iff)

lemma example_files_ok: "env_file_ok PULL_FIELDS example_pull" "env_file_ok PIN_FIELDS example_pin"
  "env_file_ok STATE_FIELDS example_status"
  by (auto simp: env_file_ok_def env_item_ok_def example_pull_def example_pin_def example_status_def example_boot_def
      PIN_SCOPE_def PULL_FIELDS_def PIN_FIELDS_def STATE_FIELDS_def is_linebreak_def Let_def list_all_iff)

lemma example_holds:
  "holds pull_acceptable example_io (STATE_DIR @ ''base'' @ ''.post-pull.env'') example_pull 1000"
  "holds pull_acceptable example_io (STATE_DIR @ ''base'' @ ''.env'') example_status 999"
  "holds pin_acceptable example_io (STATE_DIR @ ''base'' @ ''.pinned-execution.env'') example_pin 1000"
  "holds pin_acceptable example_io (STATE_DIR @ ''base'' @ ''.env'') example_status 999"
  using example_ascii
  by (simp_all add: holds_def example_io_def STATE_DIR_def example_file_def Let_def pull_acceptable_def
      pin_acceptable_def MAX_FILE_BYTES_def)

lemma example_times: "receipt_times_ok 950 1050 1000 1000 999"
  by (simp add: receipt_times_ok_def MAX_SKEW_SECONDS_def)

lemma example_stamp: "utc_seconds 1000 = Inr ''1970-01-01T00:16:40Z''"
  by code_simp

lemma example_identity: "pull_identity_ok ''base'' example_boot example_pull example_status"
  "pin_identity_ok ''base'' example_boot example_pin example_status"
  by (simp_all add: pull_identity_ok_def pin_identity_ok_def state_matches_def fld_def example_pull_def
      example_pin_def example_status_def hexn_def lower_hex_def ascii_digit_def py_isdigit_def PIN_SCOPE_def
      build_id_ok_def ascii_alnum_def ascii_lower_def build_char_def list_all_iff)

lemma example_pin_role: "pin_read_role example_io example_boot 950 1050 ''base'' =
    Inr (pin_observed ''base'' example_pin ''1970-01-01T00:16:40Z'')"
proof -
  have "fld example_pin ''RECORDED_AT_EPOCH'' = ''1000''" by (simp add: fld_def example_pin_def)
  moreover have "epoch_ok ''1000''" "nat_of_digits ''1000'' = 1000" by code_simp+
  ultimately show ?thesis
    unfolding pin_read_role_def
    using role_reading_evidence [OF holds_receipt [OF example_holds(3) example_files_ok(2)]
        holds_receipt [OF example_holds(4) example_files_ok(3)], of pin_identity_ok example_boot 950 1050]
      example_identity(2) example_times example_stamp
    by simp
qed

lemma example_missing_role:
  "role \<in> set (tl ROLES) \<Longrightarrow> pin_read_role example_io example_boot epoch now role = Inr (pin_unknown_role role ''receipt_missing'')"
  by (auto simp: ROLES_def pin_read_role_def role_reading_def read_env_def example_io_def STATE_DIR_def)


end
