(* ===== verification/Identity_Probes.thy ===== *)
theory Identity_Probes
  imports Status_Common
begin

text \<open>
  The two collision probes that run before a release is generated:
  \<open>scripts/pxe_release_identity_status.py\<close> (is a release date unused) and
  \<open>scripts/rpi5_common_kernel_identity_status.py\<close> (are a kernel build date and a release date
  unused).  The runner of commands is an argument: the result of the \<open>n\<close>-th call, exit code
  and standard output; \<open>_run\<close> turns a failure to run into code 127.
\<close>

type_synonym runner = "nat \<Rightarrow> string list \<Rightarrow> int \<times> string"

definition DQ :: string where [py_defs]: "DQ = [CHR 0x22]"
definition SQ :: string where [py_defs]: "SQ = [CHR 0x27]"

text \<open>A process that cannot be run or times out counts as code 127 with no output.\<close>

definition run_result :: "(int \<times> string) res \<Rightarrow> (int \<times> string) res" where
  [py_defs]: "run_result r = (case r of
     Inl e \<Rightarrow> if os_error e \<or> e = RuntimeError ''TimeoutExpired'' then Inr (127, []) else Inl e | Inr x \<Rightarrow> Inr x)"

definition json_object :: "(string \<Rightarrow> pyfloat) \<Rightarrow> string \<Rightarrow> pydict option" where
  [py_defs]: "json_object float_of s = (case json_loads float_of s of
     Inr (PDict d) \<Rightarrow> Some d | _ \<Rightarrow> None)"

section \<open>The release identity\<close>

definition PXE_GROUP :: string where [py_defs]: "PXE_GROUP = ''openwrt''"
definition PXE_STAGE :: string where [py_defs]: "PXE_STAGE = ''stg''"
definition PXE_MARKER :: string where [py_defs]: "PXE_MARKER = ''PXE_IDENTITY_COLLISION''"

definition marker_rx :: "string \<Rightarrow> rx" where
  [py_defs]: "marker_rx marker = Cat (rlit (marker @ ''='')) (Grp 1 (Cls (\<lambda>c. c = CHR ''0'' \<or> c = CHR ''1'')))"

definition pxe_terminal :: "string \<Rightarrow> string \<Rightarrow> string \<Rightarrow> pyval res" where
  [py_defs]: "pxe_terminal status reason candidate =
     (if status \<notin> {''pass'', ''blocked'', ''unknown''} then Inl (ValueError ''status_invalid'')
      else if reason \<notin> {''identity_available'', ''identity_in_use'', ''probe_blocked'', ''source_unavailable''}
      then Inl (ValueError ''reason_invalid'')
      else Inr (PDict [(''status'', PStr status), (''reason'', PStr reason), (''candidate'', PStr candidate)]))"

definition only_host :: "pydict \<Rightarrow> string \<Rightarrow> string option" where
  [py_defs]: "only_host inventory group_name = (case dget inventory group_name of
       PDict g \<Rightarrow> (case dget g ''hosts'' of
           PList [PStr h] \<Rightarrow> if h = [] then None else Some h
         | _ \<Rightarrow> None)
     | _ \<Rightarrow> None)"

text \<open>A date that is written as a string or as an integer.\<close>

definition date_of :: "pyval \<Rightarrow> string option" where
  [py_defs]: "date_of v = (case v of
       PStr s \<Rightarrow> if date8 s then Some s else None
     | PInt i \<Rightarrow> if date8 (str_int i) then Some (str_int i) else None
     | _ \<Rightarrow> None)"

definition list_command :: "string \<Rightarrow> string list" where
  [py_defs]: "list_command inventory_path = [''ansible-inventory'', ''-i'', inventory_path, ''--list'']"

definition host_command :: "string \<Rightarrow> string \<Rightarrow> string list" where
  [py_defs]: "host_command inventory_path host = [''ansible-inventory'', ''-i'', inventory_path, ''--host'', host]"

definition raw_command :: "string \<Rightarrow> string \<Rightarrow> string \<Rightarrow> string list" where
  [py_defs]: "raw_command inventory_path group_name command =
     [''ansible'', ''-i'', inventory_path, group_name, ''-m'', ''raw'', ''-a'', command, ''-o'']"

definition current_identity ::
    "(string \<Rightarrow> pyfloat) \<Rightarrow> string \<Rightarrow> runner \<Rightarrow> nat \<Rightarrow> string option" where
  [py_defs]: "current_identity float_of inventory_path runner k =
     (let (code, out) = runner k (list_command inventory_path) in
      if code \<noteq> 0 then None
      else (case json_object float_of out of
          None \<Rightarrow> None
        | Some inventory \<Rightarrow>
            (case only_host inventory PXE_GROUP of
               None \<Rightarrow> None
             | Some host \<Rightarrow>
                 (let (code, out) = runner (k + 1) (host_command inventory_path host) in
                  if code \<noteq> 0 then None
                  else (case json_object float_of out of
                      None \<Rightarrow> None
                    | Some hostvars \<Rightarrow>
                        (case dget hostvars ''openwrt_gentoo_release_bundle_stage_dates'' of
                           PDict dates \<Rightarrow> date_of (dget dates PXE_STAGE)
                         | _ \<Rightarrow> None))))))"

definition probe_script :: "string \<Rightarrow> string list \<Rightarrow> string" where
  [py_defs]: "probe_script marker paths =
     ''set -eu; '' @ ''collision=0; ''
     @ ''for path in '' @ py_join '' '' (map (\<lambda>p. SQ @ p @ SQ) paths) @ ''; do ''
     @ ''if [ -e '' @ DQ @ ''$path'' @ DQ @ '' ] || [ -L '' @ DQ @ ''$path'' @ DQ @ '' ]; then collision=1; fi; ''
     @ ''done; ''
     @ ''printf '' @ DQ @ marker @ ''=%s'' @ [CHR 0x5C] @ ''n'' @ DQ @ '' '' @ DQ @ ''$collision'' @ DQ"

definition pxe_paths :: "string \<Rightarrow> string list" where
  [py_defs]: "pxe_paths candidate =
     [''/srv/gentoo/releases/'' @ candidate @ ''.json'',
      ''/srv/gentoo/'' @ candidate @ ''-rpi4'', ''/srv/gentoo/'' @ candidate @ ''-rpi5'',
      ''/srv/gentoo/tftp-root/dates/'' @ candidate @ ''-rpi4'',
      ''/srv/gentoo/tftp-root/dates/'' @ candidate @ ''-rpi5'']"

definition remote_probe_command :: "string \<Rightarrow> string res" where
  [py_defs]: "remote_probe_command candidate =
     (if \<not> date8 candidate then Inl (ValueError ''candidate_invalid'')
      else Inr (probe_script PXE_MARKER (pxe_paths candidate)))"

text \<open>The answer of a collision script: exactly one marker.\<close>

definition collision_answer :: "string \<Rightarrow> int \<times> string \<Rightarrow> bool option" where
  [py_defs]: "collision_answer marker r =
     (if fst r \<noteq> 0 then None
      else (case re_findall (marker_rx marker) (snd r) of [m] \<Rightarrow> Some (m = ''1'') | _ \<Rightarrow> None))"

definition remote_collision :: "string \<Rightarrow> string \<Rightarrow> runner \<Rightarrow> nat \<Rightarrow> bool option res" where
  [py_defs]: "remote_collision candidate inventory_path runner k =
     bindE (remote_probe_command candidate) (\<lambda>command.
       Inr (collision_answer PXE_MARKER (runner k (raw_command inventory_path PXE_GROUP command))))"

definition probe_candidate :: "(string \<Rightarrow> pyfloat) \<Rightarrow> string \<Rightarrow> runner \<Rightarrow> nat \<Rightarrow> string \<Rightarrow> pyval res" where
  [py_defs]: "probe_candidate float_of inventory_path runner k candidate =
     (if \<not> date8 candidate then pxe_terminal ''blocked'' ''probe_blocked'' candidate
      else (case current_identity float_of inventory_path runner k of
          None \<Rightarrow> pxe_terminal ''unknown'' ''source_unavailable'' candidate
        | Some current \<Rightarrow>
            (if candidate \<le> current then pxe_terminal ''blocked'' ''identity_in_use'' candidate
             else bindE (remote_collision candidate inventory_path runner (k + 2)) (\<lambda>collision.
               case collision of
                 None \<Rightarrow> pxe_terminal ''unknown'' ''source_unavailable'' candidate
               | Some c \<Rightarrow>
                   (if c then pxe_terminal ''blocked'' ''identity_in_use'' candidate
                    else pxe_terminal ''pass'' ''identity_available'' candidate)))))"

definition identity_exit :: "pyval \<Rightarrow> nat res" where
  [py_defs]: "identity_exit result =
     (if dict_value result ''status'' = PStr ''pass'' then Inr 0
      else if dict_value result ''status'' = PStr ''blocked'' then Inr 2
      else if dict_value result ''status'' = PStr ''unknown'' then Inr 3 else Inl KeyError)"

definition pxe_identity_main ::
    "(string \<Rightarrow> pyfloat) \<Rightarrow> string \<Rightarrow> runner \<Rightarrow> string \<Rightarrow> (string \<times> nat) res" where
  [py_defs]: "pxe_identity_main float_of inventory_path runner candidate =
     bindE (probe_candidate float_of inventory_path runner 0 candidate) (\<lambda>result.
       bindE (identity_exit result) (\<lambda>code. Inr (json_line result, code)))"

section \<open>The kernel identity\<close>

definition BUILDER_GROUP :: string where [py_defs]: "BUILDER_GROUP = ''rpi5_egpu_artifact_bundle''"
definition BUILD_DATE_KEY :: string where [py_defs]: "BUILD_DATE_KEY = ''rpi5_common_kernel_build_stage_date''"
definition BUILD_RELEASE_OVERRIDE_KEY :: string where
  [py_defs]: "BUILD_RELEASE_OVERRIDE_KEY = ''rpi5_common_kernel_build_release_override''"
definition BUILD_WORK_ROOT_KEY :: string where
  [py_defs]: "BUILD_WORK_ROOT_KEY = ''rpi5_common_kernel_build_work_root''"
definition BUNDLE_OUTPUT_DIR_KEY :: string where
  [py_defs]: "BUNDLE_OUTPUT_DIR_KEY = ''rpi5_egpu_nvidia_artifact_bundle_output_dir''"
definition DEFAULT_BUILD_WORK_ROOT :: string where
  [py_defs]: "DEFAULT_BUILD_WORK_ROOT = ''/var/lib/rancher/k3s/kernel-build''"
definition DEFAULT_BUNDLE_OUTPUT_DIR :: string where
  [py_defs]: "DEFAULT_BUNDLE_OUTPUT_DIR = ''/var/lib/rancher/k3s/nvidia-artifacts''"

definition UNSUPPORTED_PATH_OVERRIDE_KEYS :: "string list" where
  [py_defs]: "UNSUPPORTED_PATH_OVERRIDE_KEYS =
    [''rpi5_common_kernel_build_release'', ''rpi5_common_kernel_build_label'', ''rpi5_common_kernel_build_dir'',
     ''rpi5_common_kernel_build_modules_dir'', ''rpi5_common_kernel_build_metadata_path'',
     ''rpi5_common_kernel_build_kernel_image_path'', ''rpi5_common_kernel_build_device_tree_path'',
     ''rpi5_egpu_nvidia_artifact_bundle_archive_name'', ''rpi5_egpu_nvidia_artifact_bundle_archive_path'',
     ''rpi5_egpu_nvidia_artifact_bundle_manifest_path'']"

definition KERNEL_MARKER :: string where [py_defs]: "KERNEL_MARKER = ''COMMON_KERNEL_IDENTITY_COLLISION''"
definition RUNTIME_PREFIX :: string where [py_defs]: "RUNTIME_PREFIX = ''/var/lib/rancher/k3s/''"

definition REASONS :: "string list" where
  [py_defs]: "REASONS = [''identities_available'', ''kernel_identity_in_use'', ''pxe_identity_in_use'',
     ''probe_blocked'', ''source_unavailable'']"

definition COMPONENT :: "string list" where
  [py_defs]: "COMPONENT = [''available'', ''in_use'', ''not_checked'', ''unknown'']"

definition kernel_terminal :: "string \<Rightarrow> string \<Rightarrow> string \<Rightarrow> string \<Rightarrow> string \<Rightarrow> string \<Rightarrow> pyval res" where
  [py_defs]: "kernel_terminal status reason kernel_date pxe_date kernel_identity pxe_identity =
     (if status \<notin> {''pass'', ''blocked'', ''unknown''} then Inl (ValueError ''status_invalid'')
      else if reason \<notin> set REASONS then Inl (ValueError ''reason_invalid'')
      else if kernel_identity \<notin> set COMPONENT \<or> pxe_identity \<notin> set COMPONENT
      then Inl (ValueError ''component_status_invalid'')
      else Inr (PDict [(''status'', PStr status), (''reason'', PStr reason), (''kernel_build_date'', PStr kernel_date),
        (''pxe_release_date'', PStr pxe_date), (''kernel_identity'', PStr kernel_identity),
        (''pxe_identity'', PStr pxe_identity)]))"

definition override_present :: "pyval \<Rightarrow> bool" where
  [py_defs]: "override_present v \<longleftrightarrow> v \<noteq> PNone \<and> v \<noteq> PStr []"

definition path_char :: "char \<Rightarrow> bool" where
  [py_defs]: "path_char c \<longleftrightarrow> ascii_alnum c \<or> c \<in> set ''._/-''"

text \<open>The regular expression of a runtime path, and the components of a path as \<open>pathlib\<close>
  reads them: empty ones and \<open>.\<close> are dropped.\<close>

definition runtime_rx :: "string \<Rightarrow> bool" where
  [py_defs]: "runtime_rx s \<longleftrightarrow> startswith s RUNTIME_PREFIX
     \<and> drop (length RUNTIME_PREFIX) s \<noteq> [] \<and> list_all path_char (drop (length RUNTIME_PREFIX) s)"

definition path_parts :: "string \<Rightarrow> string list" where
  [py_defs]: "path_parts s = filter (\<lambda>p. p \<noteq> [] \<and> p \<noteq> ''.'') (split_on CHR ''/'' s)"

definition path_text :: "string list \<Rightarrow> string" where
  [py_defs]: "path_text parts = ''/'' @ py_join ''/'' parts"

definition braces :: "string \<Rightarrow> bool" where
  [py_defs]: "braces s \<longleftrightarrow> re_search (rlit ''{{'') s \<noteq> None \<or> re_search (rlit ''}}'') s \<noteq> None"

definition safe_runtime_path :: "string \<Rightarrow> bool" where
  [py_defs]: "safe_runtime_path s \<longleftrightarrow>
     runtime_rx s \<and> startswith s ''/'' \<and> ''..'' \<notin> set (path_parts s) \<and> \<not> braces s"

definition safe_runtime_root :: "pyval \<Rightarrow> bool" where
  [py_defs]: "safe_runtime_root v \<longleftrightarrow> (case v of PStr s \<Rightarrow>
       runtime_rx s \<and> \<not> (''..'' \<in> set (path_parts s) \<or> \<not> startswith s ''/'') \<and> \<not> braces s
     | _ \<Rightarrow> False)"

datatype builder_contract =
    NoContract
  | BlockedContract
  | Contract string "string list"

definition collision_paths :: "string \<Rightarrow> string \<Rightarrow> string \<Rightarrow> string list" where
  [py_defs]: "collision_paths candidate work_root output_dir =
     (let release = candidate @ ''-rpi5''; label = release @ ''-homecluster'';
          archive = ''rpi5-egpu-'' @ release @ ''.tar.gz'' in
      [path_text (path_parts work_root @ [label]), path_text (path_parts output_dir @ [archive]),
       path_text (path_parts output_dir @ [archive @ ''.sha256''])])"

definition contract_of_values :: "string \<Rightarrow> pydict \<Rightarrow> builder_contract" where
  [py_defs]: "contract_of_values candidate values =
     (case date_of (dget values BUILD_DATE_KEY) of
        None \<Rightarrow> NoContract
      | Some current \<Rightarrow>
          (let work_root = dget_or values BUILD_WORK_ROOT_KEY (PStr DEFAULT_BUILD_WORK_ROOT);
               output_dir = dget_or values BUNDLE_OUTPUT_DIR_KEY (PStr DEFAULT_BUNDLE_OUTPUT_DIR) in
           if override_present (dget_or values BUILD_RELEASE_OVERRIDE_KEY (PStr [])) then BlockedContract
           else if list_ex (\<lambda>k. dhas values k \<and> override_present (dget values k)) UNSUPPORTED_PATH_OVERRIDE_KEYS
           then BlockedContract
           else if \<not> safe_runtime_root work_root \<or> \<not> safe_runtime_root output_dir then BlockedContract
           else Contract current (collision_paths candidate (py_str work_root) (py_str output_dir))))"

definition find_contract ::
    "(string \<Rightarrow> pyfloat) \<Rightarrow> string \<Rightarrow> runner \<Rightarrow> string \<Rightarrow> builder_contract" where
  [py_defs]: "find_contract float_of inventory_path runner candidate =
     (let (code, out) = runner 0 (list_command inventory_path) in
      if code \<noteq> 0 then NoContract
      else (case json_object float_of out of
          None \<Rightarrow> NoContract
        | Some inventory \<Rightarrow>
            (case only_host inventory BUILDER_GROUP of
               None \<Rightarrow> NoContract
             | Some host \<Rightarrow>
                 (case dget inventory ''_meta'' of
                    PDict meta \<Rightarrow>
                      (case dget meta ''hostvars'' of
                         PDict hostvars \<Rightarrow>
                           (case dget hostvars host of
                              PDict values \<Rightarrow> contract_of_values candidate values
                            | _ \<Rightarrow> NoContract)
                       | _ \<Rightarrow> NoContract)
                  | _ \<Rightarrow> NoContract))))"

definition builder_probe_command :: "string list \<Rightarrow> string res" where
  [py_defs]: "builder_probe_command paths =
     (if length paths \<noteq> 3 \<or> \<not> list_all safe_runtime_path paths then Inl (ValueError ''path_invalid'')
      else Inr (probe_script KERNEL_MARKER paths))"

definition builder_collision :: "string list \<Rightarrow> string \<Rightarrow> runner \<Rightarrow> bool option res" where
  [py_defs]: "builder_collision paths inventory_path runner =
     bindE (builder_probe_command paths) (\<lambda>command.
       Inr (collision_answer KERNEL_MARKER (runner 1 (raw_command inventory_path BUILDER_GROUP command))))"

definition probe_candidates ::
    "(string \<Rightarrow> pyfloat) \<Rightarrow> string \<Rightarrow> runner \<Rightarrow> string \<Rightarrow> string \<Rightarrow> pyval res" where
  [py_defs]: "probe_candidates float_of inventory_path runner kernel_date pxe_date =
     (let finish = (\<lambda>status reason. kernel_terminal status reason kernel_date pxe_date) in
      if \<not> date8 kernel_date \<or> \<not> date8 pxe_date then finish ''blocked'' ''probe_blocked'' ''unknown'' ''unknown''
      else (case find_contract float_of inventory_path runner kernel_date of
          NoContract \<Rightarrow> finish ''unknown'' ''source_unavailable'' ''unknown'' ''not_checked''
        | BlockedContract \<Rightarrow> finish ''blocked'' ''probe_blocked'' ''unknown'' ''not_checked''
        | Contract current paths \<Rightarrow>
            (if current = kernel_date then finish ''blocked'' ''kernel_identity_in_use'' ''in_use'' ''not_checked''
             else bindE (builder_collision paths inventory_path runner) (\<lambda>collision.
               case collision of
                 None \<Rightarrow> finish ''unknown'' ''source_unavailable'' ''unknown'' ''not_checked''
               | Some c \<Rightarrow>
                   (if c then finish ''blocked'' ''kernel_identity_in_use'' ''in_use'' ''not_checked''
                    else bindE (probe_candidate float_of inventory_path runner 2 pxe_date) (\<lambda>pxe.
                      if dict_value pxe ''status'' = PStr ''unknown''
                      then finish ''unknown'' ''source_unavailable'' ''available'' ''unknown''
                      else if dict_value pxe ''status'' = PStr ''blocked''
                      then finish ''blocked''
                        (if dict_value pxe ''reason'' = PStr ''identity_in_use'' then ''pxe_identity_in_use'' else ''probe_blocked'')
                        ''available''
                        (if dict_value pxe ''reason'' = PStr ''identity_in_use'' then ''in_use'' else ''unknown'')
                      else finish ''pass'' ''identities_available'' ''available'' ''available''))))))"

definition kernel_identity_main ::
    "(string \<Rightarrow> pyfloat) \<Rightarrow> string \<Rightarrow> runner \<Rightarrow> string \<Rightarrow> string \<Rightarrow> (string \<times> nat) res" where
  [py_defs]: "kernel_identity_main float_of inventory_path runner kernel_date pxe_date =
     bindE (probe_candidates float_of inventory_path runner kernel_date pxe_date) (\<lambda>result.
       bindE (identity_exit result) (\<lambda>code. Inr (json_line result, code)))"

end
