(* ===== verification/Identity_Props.thy ===== *)
theory Identity_Props
  imports Identity_Probes Py_Json_Roundtrip
begin

text \<open>
  Properties of the identity probes: a pass means that both dates were really found unused, the
  probes never raise, and what they put into a remote shell is confined.
\<close>

section \<open>Dates as strings and as numbers\<close>

text \<open>Strings of digits of equal length compare as their numbers do.\<close>

lemma foldl_digits:
  "foldl (\<lambda>a c. 10 * a + digit_val c) n s = n * 10 ^ length s + nat_of_digits s"
proof (induction s arbitrary: n)
  case (Cons c s)
  have "foldl (\<lambda>a c. 10 * a + digit_val c) (digit_val c) s = digit_val c * 10 ^ length s + nat_of_digits s"
    by (rule Cons.IH)
  then show ?case using Cons.IH [of "10 * n + digit_val c"]
    by (simp add: nat_of_digits_def algebra_simps)
qed (simp add: nat_of_digits_def)

lemma nat_of_digits_Cons: "nat_of_digits (c # s) = digit_val c * 10 ^ length s + nat_of_digits s"
  using foldl_digits [of "digit_val c" s] by (simp add: nat_of_digits_def)

lemma nat_of_digits_less: "list_all ascii_digit s \<Longrightarrow> nat_of_digits s < 10 ^ length s"
proof (induction s)
  case (Cons c s)
  then have "digit_val c \<le> 9" "nat_of_digits s < 10 ^ length s"
    by (auto simp: digit_val_def ascii_digit_def)
  moreover from this(1) have "digit_val c * 10 ^ length s \<le> 9 * 10 ^ length s" by (rule mult_le_mono1)
  ultimately have "digit_val c * 10 ^ length s + nat_of_digits s < 10 * 10 ^ length s" by linarith
  then show ?case by (simp add: nat_of_digits_Cons)
qed (simp add: nat_of_digits_def)

lemma digits_less:
  "length s = length t \<Longrightarrow> list_all ascii_digit s \<Longrightarrow> list_all ascii_digit t \<Longrightarrow> s < t \<Longrightarrow>
     nat_of_digits s < nat_of_digits t"
proof (induction s t rule: list_induct2)
  case (Cons c s d t)
  show ?case
  proof (cases "c = d")
    case False
    with Cons.prems(3) have "ord_of c < ord_of d" by (auto simp: less_char_def)
    with Cons.prems have "digit_val c + 1 \<le> digit_val d" by (auto simp: digit_val_def ascii_digit_def)
    then have "(digit_val c + 1) * 10 ^ length t \<le> digit_val d * 10 ^ length t" by (rule mult_le_mono1)
    moreover have "nat_of_digits s < 10 ^ length t"
      using nat_of_digits_less [of s] Cons.hyps Cons.prems(1) by simp
    ultimately show ?thesis by (simp add: nat_of_digits_Cons Cons.hyps)
  qed (use Cons in \<open>simp add: nat_of_digits_Cons\<close>)
qed simp

lemma date8_digits: "date8 s \<Longrightarrow> length s = 8 \<and> list_all ascii_digit s"
  by (simp add: date8_def)

lemma date8_less: "date8 s \<Longrightarrow> date8 t \<Longrightarrow> s < t \<Longrightarrow> nat_of_digits s < nat_of_digits t"
  using digits_less [of s t] date8_digits by simp

lemma date_of_date8: "date_of v = Some s \<Longrightarrow> date8 s"
  by (auto simp: date_of_def split: pyval.splits if_splits)

lemma current_identity_date8: "current_identity float_of inventory_path runner k = Some s \<Longrightarrow> date8 s"
  by (auto simp: current_identity_def Let_def intro: date_of_date8 split: prod.splits if_splits option.splits pyval.splits)

section \<open>The collision paths\<close>

lemma path_char_no_brace: "path_char c \<Longrightarrow> c \<noteq> CHR ''{'' \<and> c \<noteq> CHR ''}'' \<and> c \<noteq> CHR 0x27"
  by (auto simp: path_char_def ascii_alnum_def ascii_digit_def ascii_lower_def ascii_upper_def)

lemma search_double_none: "c \<notin> set s \<Longrightarrow> search_from (rlit [c, c]) b s = None"
proof (induction s arbitrary: b)
  case (Cons x s)
  then show ?case by (subst search_from.simps) (auto simp: rlit_def lit_char_def)
qed (subst search_from.simps, simp add: rlit_def lit_char_def)

lemma no_braces: "list_all path_char s \<Longrightarrow> \<not> braces s"
  using path_char_no_brace
  by (fastforce simp: braces_def re_search_def list_all_iff search_double_none)

lemma set_py_join_part: "w \<in> set xs \<Longrightarrow> set w \<subseteq> set (py_join sep xs)"
  by (induction sep xs rule: py_join.induct) auto

lemma list_all_py_join: "list_all P sep \<Longrightarrow> list_all (list_all P) xs \<Longrightarrow> list_all P (py_join sep xs)"
  by (induction sep xs rule: py_join.induct) simp_all

lemma startswith_append: "startswith s p \<Longrightarrow> s = p @ drop (length p) s"
  by (metis append_take_drop_id startswith_def)

lemma prefix_parts: "path_parts (RUNTIME_PREFIX @ rest) = [''var'', ''lib'', ''rancher'', ''k3s''] @ path_parts rest"
  by (simp add: path_parts_def RUNTIME_PREFIX_def split_on_def)

lemma path_text_prefix: "path_text ([''var'', ''lib'', ''rancher'', ''k3s''] @ q @ [leaf])
    = RUNTIME_PREFIX @ py_join ''/'' (q @ [leaf])"
  by (cases q) (simp_all add: path_text_def RUNTIME_PREFIX_def)

lemma path_parts_text:
  assumes "\<forall>p \<in> set ps. CHR ''/'' \<notin> set p \<and> p \<noteq> [] \<and> p \<noteq> ''.''" and "ps \<noteq> []"
  shows "path_parts (path_text ps) = ps"
proof -
  have "split_on CHR ''/'' (py_join ''/'' ps) = ps" using assms by (intro split_by_join) auto
  then have "split_on CHR ''/'' (path_text ps) = [] # ps" by (simp add: path_text_def split_on_def)
  then show ?thesis using assms(1) by (simp add: path_parts_def)
qed

definition leaf_ok :: "string \<Rightarrow> bool" where
  "leaf_ok leaf \<longleftrightarrow> list_all (\<lambda>c. path_char c \<and> c \<noteq> CHR ''/'') leaf \<and> length leaf > 2"

text \<open>A safe root with a plain file name behind it is a safe path.\<close>

lemma safe_path_below_root:
  assumes "safe_runtime_root (PStr base)" and "leaf_ok leaf"
  shows "safe_runtime_path (path_text (path_parts base @ [leaf]))"
proof -
  define rest where "rest = drop (length RUNTIME_PREFIX) base"
  from assms(1) have base: "base = RUNTIME_PREFIX @ rest" and chars: "list_all path_char rest"
    and no_dots: "''..'' \<notin> set (path_parts base)"
    using startswith_append [of base RUNTIME_PREFIX]
    by (auto simp: safe_runtime_root_def runtime_rx_def rest_def)
  let ?q = "path_parts rest"
  have q: "list_all path_char p \<and> CHR ''/'' \<notin> set p \<and> p \<noteq> [] \<and> p \<noteq> ''.''" if "p \<in> set ?q" for p
  proof -
    from that have p: "p \<in> set (split_on CHR ''/'' rest)" "p \<noteq> []" "p \<noteq> ''.''" by (auto simp: path_parts_def)
    have "set p \<subseteq> set rest"
      using p(1) set_py_join_part [of p "split_on CHR ''/'' rest" "''/''"] py_join_split [of "CHR ''/''" rest] by simp
    moreover have "CHR ''/'' \<notin> set p"
      using split_by_pieces [of p "\<lambda>x. x = CHR ''/''" rest] p(1) by (auto simp: split_on_def list_all_iff)
    ultimately show ?thesis using chars p by (auto simp: list_all_iff)
  qed
  let ?text = "path_text (path_parts base @ [leaf])"
  have parts: "path_parts base @ [leaf] = [''var'', ''lib'', ''rancher'', ''k3s''] @ ?q @ [leaf]"
    by (simp add: base prefix_parts)
  have whole: "?text = RUNTIME_PREFIX @ py_join ''/'' (?q @ [leaf])"
    unfolding parts by (rule path_text_prefix)
  have chars_leaf: "\<forall>c \<in> set leaf. path_char c \<and> c \<noteq> CHR ''/''" and long: "length leaf > 2"
    using assms(2) by (simp_all add: leaf_ok_def list_all_iff)
  have leaf: "list_all path_char leaf" "CHR ''/'' \<notin> set leaf" "leaf \<noteq> []" "leaf \<noteq> ''.''" "leaf \<noteq> ''..''"
    using chars_leaf by (simp add: list_all_iff) (use chars_leaf long in force)+
  have tail: "list_all path_char (py_join ''/'' (?q @ [leaf]))"
    using q leaf(1) by (intro list_all_py_join) (simp_all add: path_char_def list_all_iff [of _ ?q])
  have "py_join ''/'' (?q @ [leaf]) \<noteq> []"
    using set_py_join_part [of leaf "?q @ [leaf]" "''/''"] leaf(3) by auto
  with tail have rx: "runtime_rx ?text" unfolding whole by (simp add: runtime_rx_def startswith_def)
  have "list_all path_char RUNTIME_PREFIX" by code_simp
  with tail have "list_all path_char ?text" unfolding whole by simp
  then have "\<not> braces ?text" by (rule no_braces)
  moreover have "startswith ?text ''/''" unfolding whole by (simp add: startswith_def RUNTIME_PREFIX_def)
  moreover have "path_parts ?text = path_parts base @ [leaf]"
    using q leaf by (intro path_parts_text) (auto simp: parts)
  ultimately show ?thesis using rx no_dots leaf(5) by (simp add: safe_runtime_path_def)
qed

lemma date_leaves:
  assumes "date8 candidate"
  shows "leaf_ok (candidate @ ''-rpi5-homecluster'')" "leaf_ok (''rpi5-egpu-'' @ candidate @ ''-rpi5.tar.gz'')"
    "leaf_ok (''rpi5-egpu-'' @ candidate @ ''-rpi5.tar.gz.sha256'')"
proof -
  have "list_all (\<lambda>c. path_char c \<and> c \<noteq> CHR ''/'') candidate"
    using date8_digits [OF assms] by (auto simp: list_all_iff path_char_def ascii_alnum_def ascii_digit_def)
  moreover have "list_all (\<lambda>c. path_char c \<and> c \<noteq> CHR ''/'') ''rpi5-egpu--homecluster.tar.gz.sha256''" by code_simp
  ultimately show "leaf_ok (candidate @ ''-rpi5-homecluster'')" "leaf_ok (''rpi5-egpu-'' @ candidate @ ''-rpi5.tar.gz'')"
    "leaf_ok (''rpi5-egpu-'' @ candidate @ ''-rpi5.tar.gz.sha256'')"
    by (simp_all add: leaf_ok_def)
qed

text \<open>The probe's command is accepted for every contract: it cannot raise.\<close>

lemma collision_paths_safe:
  assumes "date8 candidate" and "safe_runtime_root (PStr work)" and "safe_runtime_root (PStr out)"
  shows "list_all safe_runtime_path (collision_paths candidate work out) \<and> length (collision_paths candidate work out) = 3"
  using safe_path_below_root [OF assms(2) date_leaves(1) [OF assms(1)]]
    safe_path_below_root [OF assms(3) date_leaves(2) [OF assms(1)]]
    safe_path_below_root [OF assms(3) date_leaves(3) [OF assms(1)]]
  by (simp add: collision_paths_def)

lemma contract_paths:
  assumes "contract_of_values candidate values = Contract current paths" and "date8 candidate"
  shows "list_all safe_runtime_path paths \<and> length paths = 3 \<and> date8 current"
proof -
  let ?work = "dget_or values BUILD_WORK_ROOT_KEY (PStr DEFAULT_BUILD_WORK_ROOT)"
  let ?out = "dget_or values BUNDLE_OUTPUT_DIR_KEY (PStr DEFAULT_BUNDLE_OUTPUT_DIR)"
  from assms(1) have safe: "safe_runtime_root ?work" "safe_runtime_root ?out"
    and paths: "paths = collision_paths candidate (py_str ?work) (py_str ?out)" and date: "date8 current"
    by (auto simp: contract_of_values_def Let_def intro: date_of_date8 split: option.splits if_splits)
  from safe obtain w u where "?work = PStr w" "?out = PStr u"
    by (auto simp: safe_runtime_root_def split: pyval.splits)
  with collision_paths_safe [OF assms(2), of w u] safe paths date show ?thesis by (simp add: py_str_def)
qed

lemma find_contract_paths:
  assumes "find_contract float_of inventory_path runner candidate = Contract current paths" and "date8 candidate"
  shows "list_all safe_runtime_path paths \<and> length paths = 3 \<and> date8 current"
  using assms
  by (auto simp: find_contract_def Let_def intro: contract_paths dest: contract_paths
      split: prod.splits if_splits option.splits pyval.splits)

section \<open>The probes never raise\<close>

definition identity_status :: "pyval \<Rightarrow> string \<Rightarrow> bool" where
  "identity_status v s \<longleftrightarrow> dict_value v ''status'' = PStr s"

lemma probe_candidate_cases:
  "\<exists>v. probe_candidate float_of inventory_path runner k candidate = Inr v
     \<and> (identity_status v ''pass'' \<or> identity_status v ''blocked'' \<or> identity_status v ''unknown'')"
  by (auto simp: probe_candidate_def remote_collision_def remote_probe_command_def pxe_terminal_def Let_def
      identity_status_def dict_value_def dget_or_def split: option.splits)

lemma probe_candidate_pass:
  assumes "probe_candidate float_of inventory_path runner k candidate = Inr v" and "identity_status v ''pass''"
  shows "date8 candidate \<and> (\<exists>current. current_identity float_of inventory_path runner k = Some current
     \<and> current < candidate
     \<and> collision_answer PXE_MARKER (runner (k + 2) (raw_command inventory_path PXE_GROUP
         (probe_script PXE_MARKER (pxe_paths candidate)))) = Some False)"
  using assms
  by (auto simp: probe_candidate_def remote_collision_def remote_probe_command_def pxe_terminal_def Let_def
      identity_status_def dict_value_def dget_or_def split: option.splits if_splits)

text \<open>
  Whatever the inventory and the remote commands answer, the kernel identity probe
  raises nothing: it ends in one of its three statuses with the exit code 0, 2 or 3.
\<close>

lemma kernel_probe_never_raises:
  "\<exists>line code. kernel_identity_main float_of inventory_path runner kernel_date pxe_date = Inr (line, code)
     \<and> code \<in> {0, 2, 3}"
proof -
  have total: "\<exists>v. probe_candidates float_of inventory_path runner kernel_date pxe_date = Inr v
     \<and> (identity_status v ''pass'' \<or> identity_status v ''blocked'' \<or> identity_status v ''unknown'')"
  proof (cases "date8 kernel_date \<and> date8 pxe_date")
    case True
    show ?thesis
    proof (cases "find_contract float_of inventory_path runner kernel_date")
      case (Contract current paths)
      with True find_contract_paths have "builder_probe_command paths = Inr (probe_script KERNEL_MARKER paths)"
        by (simp add: builder_probe_command_def)
      moreover obtain pxe where "probe_candidate float_of inventory_path runner 2 pxe_date = Inr pxe"
        using probe_candidate_cases by blast
      ultimately show ?thesis using True Contract
        by (auto simp: probe_candidates_def builder_collision_def kernel_terminal_def REASONS_def COMPONENT_def
            Let_def identity_status_def dict_value_def dget_or_def split: option.split)
    qed (use True in \<open>simp_all add: probe_candidates_def kernel_terminal_def REASONS_def COMPONENT_def
        identity_status_def dict_value_def dget_or_def\<close>)
  qed (auto simp: probe_candidates_def kernel_terminal_def REASONS_def COMPONENT_def identity_status_def
      dict_value_def dget_or_def)
  then obtain v where v: "probe_candidates float_of inventory_path runner kernel_date pxe_date = Inr v"
    and "\<exists>code. identity_exit v = Inr code \<and> code \<in> {0, 2, 3}"
    by (auto simp: identity_exit_def identity_status_def)
  then show ?thesis by (auto simp: kernel_identity_main_def v)
qed

text \<open>
  Property C25.  A pass of the kernel identity probe means that both dates were found unused: they
  are dates, the kernel date is not the builder's current one, the release date is later than the
  inventory's, and both remote scripts answered with exactly one marker, that of no collision.
  The builder's script only looked at paths below the runtime directory.
\<close>

theorem kernel_pass_means_unused:
  assumes "probe_candidates float_of inventory_path runner kernel_date pxe_date = Inr v"
    and "dict_value v ''status'' = PStr ''pass''"
  shows "date8 kernel_date \<and> date8 pxe_date \<and> (\<exists>current paths release.
     find_contract float_of inventory_path runner kernel_date = Contract current paths \<and> current \<noteq> kernel_date
     \<and> list_all safe_runtime_path paths
     \<and> collision_answer KERNEL_MARKER (runner 1 (raw_command inventory_path BUILDER_GROUP
         (probe_script KERNEL_MARKER paths))) = Some False
     \<and> current_identity float_of inventory_path runner 2 = Some release
     \<and> nat_of_digits release < nat_of_digits pxe_date
     \<and> collision_answer PXE_MARKER (runner 4 (raw_command inventory_path PXE_GROUP
         (probe_script PXE_MARKER (pxe_paths pxe_date)))) = Some False)"
proof -
  from assms have dates: "date8 kernel_date" "date8 pxe_date"
    by (auto simp: probe_candidates_def kernel_terminal_def dict_value_def dget_or_def REASONS_def COMPONENT_def
        split: if_splits)
  from assms obtain current paths where
    contract: "find_contract float_of inventory_path runner kernel_date = Contract current paths"
    by (cases "find_contract float_of inventory_path runner kernel_date")
      (auto simp: probe_candidates_def kernel_terminal_def dict_value_def dget_or_def REASONS_def COMPONENT_def
        split: if_splits)
  have paths: "list_all safe_runtime_path paths" "length paths = 3"
    using find_contract_paths [OF contract dates(1)] by auto
  then have command: "builder_probe_command paths = Inr (probe_script KERNEL_MARKER paths)"
    by (simp add: builder_probe_command_def)
  obtain pxe where pxe: "probe_candidate float_of inventory_path runner 2 pxe_date = Inr pxe"
    and status: "identity_status pxe ''pass'' \<or> identity_status pxe ''blocked'' \<or> identity_status pxe ''unknown''"
    using probe_candidate_cases by blast
  from assms dates contract command pxe have rest: "current \<noteq> kernel_date"
    "collision_answer KERNEL_MARKER (runner 1 (raw_command inventory_path BUILDER_GROUP
         (probe_script KERNEL_MARKER paths))) = Some False"
    "\<not> identity_status pxe ''unknown''" "\<not> identity_status pxe ''blocked''"
    by (auto simp: probe_candidates_def builder_collision_def kernel_terminal_def dict_value_def dget_or_def
        REASONS_def COMPONENT_def identity_status_def Let_def split: if_splits option.splits)
  with status probe_candidate_pass [OF pxe] obtain release where
    release: "current_identity float_of inventory_path runner 2 = Some release" "release < pxe_date"
      "collision_answer PXE_MARKER (runner 4 (raw_command inventory_path PXE_GROUP
         (probe_script PXE_MARKER (pxe_paths pxe_date)))) = Some False"
    by auto
  from date8_less [OF current_identity_date8 [OF release(1)] dates(2) release(2)]
  show ?thesis using dates contract paths rest release by blast
qed

section \<open>An example\<close>

definition example_inventory :: pydict where
  "example_inventory = [(BUILDER_GROUP, PDict [(''hosts'', PList [PStr ''b'']) ]), (PXE_GROUP, PDict [(''hosts'', PList [PStr ''w''])]),
     (''_meta'', PDict [(''hostvars'', PDict [(''b'', PDict [(BUILD_DATE_KEY, PStr ''20240101'')])])])]"

definition example_hostvars :: pydict where
  "example_hostvars = [(''openwrt_gentoo_release_bundle_stage_dates'', PDict [(PXE_STAGE, PStr ''20240201'')])]"

definition inventory_text :: string where
  "inventory_text = json_enc json_compact (PDict example_inventory)"

definition hostvars_text :: string where
  "hostvars_text = json_enc json_compact (PDict example_hostvars)"

definition example_runner :: runner where
  "example_runner k command =
     (0, if k = 1 then KERNEL_MARKER @ ''=0'' else if k = 4 then PXE_MARKER @ ''=0''
         else if k = 3 then hostvars_text else inventory_text)"

lemma json_object_enc:
  assumes "json_ok float_of (PDict d)"
  shows "json_object float_of (json_enc json_compact (PDict d)) = Some d"
proof -
  have "format_ok json_compact" by simp
  from json_roundtrip [OF this assms] show ?thesis by (simp only: json_object_def sum.case pyval.case)
qed

lemma example_json:
  "json_object (\<lambda>_. FNaN) inventory_text = Some example_inventory"
  "json_object (\<lambda>_. FNaN) hostvars_text = Some example_hostvars"
  unfolding inventory_text_def hostvars_text_def
  by (intro json_object_enc; simp add: example_inventory_def example_hostvars_def BUILDER_GROUP_def PXE_GROUP_def)+

lemma example_answers: "collision_answer KERNEL_MARKER (0, KERNEL_MARKER @ ''=0'') = Some False"
  "collision_answer PXE_MARKER (0, PXE_MARKER @ ''=0'') = Some False"
  by code_simp+

lemma example_date: "date8 ''20240101''" "date8 ''20240201''" "date8 ''20240301''"
  "date8 ''20240302''" "''20240201'' < ''20240302''"
  by code_simp+

lemma example_roots: "safe_runtime_root (PStr DEFAULT_BUILD_WORK_ROOT)" "safe_runtime_root (PStr DEFAULT_BUNDLE_OUTPUT_DIR)"
  by code_simp+

lemma example_contract:
  "\<exists>paths. find_contract (\<lambda>_. FNaN) ''i'' example_runner ''20240301'' = Contract ''20240101'' paths"
proof -
  have found: "find_contract (\<lambda>_. FNaN) ''i'' example_runner ''20240301'' =
      contract_of_values ''20240301'' [(BUILD_DATE_KEY, PStr ''20240101'')]"
    by (simp add: find_contract_def example_runner_def example_json only_host_def)
      (simp add: example_inventory_def BUILDER_GROUP_def PXE_GROUP_def dget_or_def)
  have "\<exists>paths. contract_of_values ''20240301'' [(BUILD_DATE_KEY, PStr ''20240101'')] = Contract ''20240101'' paths"
    using example_date example_roots
    by (auto simp: contract_of_values_def date_of_def dget_or_def dhas_def override_present_def BUILD_DATE_KEY_def
        BUILD_WORK_ROOT_KEY_def BUNDLE_OUTPUT_DIR_KEY_def BUILD_RELEASE_OVERRIDE_KEY_def
        UNSUPPORTED_PATH_OVERRIDE_KEYS_def)
  then show ?thesis unfolding found .
qed

lemma example_pxe: "probe_candidate (\<lambda>_. FNaN) ''i'' example_runner 2 ''20240302'' =
  pxe_terminal ''pass'' ''identity_available'' ''20240302''"
proof -
  have "only_host example_inventory PXE_GROUP = Some ''w''"
    by (simp add: only_host_def example_inventory_def PXE_GROUP_def BUILDER_GROUP_def dget_or_def)
  moreover have "example_runner 2 c = (0, inventory_text)" "example_runner 3 c = (0, hostvars_text)" for c
    by (simp_all add: example_runner_def)
  ultimately have "current_identity (\<lambda>_. FNaN) ''i'' example_runner 2 = Some ''20240201''"
    using example_date(2)
    by (simp add: current_identity_def example_json)
      (simp add: example_hostvars_def dget_or_def date_of_def)
  moreover have "remote_collision ''20240302'' ''i'' example_runner 4 = Inr (Some False)"
    using example_answers by (simp add: remote_collision_def remote_probe_command_def example_date example_runner_def)
  ultimately show ?thesis using example_date by (simp add: probe_candidate_def not_le)
qed

lemma example_probe: "\<exists>v. probe_candidates (\<lambda>_. FNaN) ''i'' example_runner ''20240301'' ''20240302'' = Inr v
    \<and> dict_value v ''status'' = PStr ''pass''"
proof -
  obtain paths where c: "find_contract (\<lambda>_. FNaN) ''i'' example_runner ''20240301'' = Contract ''20240101'' paths"
    using example_contract by blast
  have "builder_collision paths ''i'' example_runner = Inr (Some False)"
    using find_contract_paths [OF c example_date(3)] example_answers
    by (simp add: builder_collision_def builder_probe_command_def example_runner_def)
  then show ?thesis
    using c example_pxe example_date
    by (simp add: probe_candidates_def pxe_terminal_def kernel_terminal_def dict_value_def dget_or_def REASONS_def
        COMPONENT_def)
qed

lemma kernel_pass_means_unused_witness:
  "date8 ''20240301'' \<and> (\<exists>release. current_identity (\<lambda>_. FNaN) ''i'' example_runner 2 = Some release
     \<and> nat_of_digits release < nat_of_digits ''20240302'')"
proof -
  obtain v where "probe_candidates (\<lambda>_. FNaN) ''i'' example_runner ''20240301'' ''20240302'' = Inr v"
    "dict_value v ''status'' = PStr ''pass''" using example_probe by blast
  from kernel_pass_means_unused [OF this] show ?thesis by blast
qed

end
