(* ===== verification/Node_Probes.thy ===== *)
theory Node_Probes
  imports Status_Common
begin

text \<open>
  Probes of a booted node: \<open>scripts/pxe_node_lineage_status.py\<close> (the checkout of the last pull),
  \<open>scripts/pxe_node_source_declaration_status.py\<close> (the pinned boot declaration) and
  \<open>scripts/k3s_terraform_apply_receipt_status.py\<close> (the receipt of a Terraform run).
  SHA-256 and the runner of \<open>git\<close> are arguments.
\<close>

section \<open>Lineage\<close>

definition LINEAGE_SCHEMA :: string where [py_defs]: "LINEAGE_SCHEMA = ''pxe-node-lineage-local-observation-v1''"

definition LINEAGE_OBSERVED :: string where
  [py_defs]: "LINEAGE_OBSERVED = ''checkout_head_observed_not_execution_attested''"

definition lineage_terminal :: "string \<Rightarrow> string \<Rightarrow> string \<Rightarrow> string \<Rightarrow> string \<Rightarrow> pyval" where
  [py_defs]: "lineage_terminal reason boot_id checkout_head pull_state observed_at = PDict
     [(''schema'', PStr LINEAGE_SCHEMA),
      (''status'', PStr (if reason = LINEAGE_OBSERVED then ''partial'' else ''unknown'')),
      (''reason'', PStr reason), (''source_kind'', PStr ''current_checkout_head_not_executed_revision''),
      (''boot_id'', PStr boot_id), (''checkout_head'', PStr checkout_head),
      (''ansible_pull_state'', PStr pull_state), (''observed_at'', PStr observed_at),
      (''boot_selector'', PNone), (''executed_ansible_pull_revision'', PNone)]"

definition LINEAGE_KEYS :: "string list" where
  [py_defs]: "LINEAGE_KEYS = [''ROLE'', ''STAGE'', ''BRANCH'', ''RC'', ''ELAPSED_SECS'', ''STEP'']"

definition MAX_STATE_BYTES :: nat where [py_defs]: "MAX_STATE_BYTES = 2048"

fun lineage_lines :: "string list \<Rightarrow> (string \<times> string) list \<Rightarrow> (string \<times> string) list option" where
  "lineage_lines [] parsed = Some parsed"
| "lineage_lines (l # ls) parsed =
     (case split_once CHR ''='' l of
        None \<Rightarrow> None
      | Some (k, v) \<Rightarrow>
          (if k \<notin> set LINEAGE_KEYS \<or> k \<in> fst ` set parsed \<or> CHR 0x00 \<in> set v \<or> length v > 128 then None
           else lineage_lines ls (parsed @ [(k, v)])))"

definition lineage_parsed :: "(string \<times> string) list \<Rightarrow> string" where
  [py_defs]: "lineage_parsed d =
     (if \<not> list_all (\<lambda>k. k \<in> fst ` set d) LINEAGE_KEYS
         \<or> fld d ''STAGE'' \<notin> {''stg'', ''staging''} \<or> fld d ''BRANCH'' \<noteq> ''stg'' then ''unknown''
      else if \<not> py_isdigit (fld d ''RC'') \<or> \<not> py_isdigit (fld d ''ELAPSED_SECS'') then ''unknown''
      else if fld d ''RC'' = ''0'' \<and> fld d ''STEP'' = ''complete'' then ''completed'' else ''not_completed'')"

text \<open>The state file: its \<open>lstat\<close> and what reading it as ASCII text gives; \<open>window\<close> is the
  earliest and the latest modification time that counts.\<close>

definition lineage_state :: "stat_info res \<Rightarrow> string res \<Rightarrow> rat \<times> rat \<Rightarrow> string res" where
  [py_defs]: "lineage_state info content window =
     (case bindE info (\<lambda>i.
         if \<not> si_regular i \<or> si_size i > MAX_STATE_BYTES then Inr ''unknown''
         else if \<not> (fst window \<le> si_mtime i \<and> si_mtime i \<le> snd window) then Inr ''unknown''
         else bindE content (\<lambda>raw.
           Inr (case lineage_lines (py_splitlines raw) [] of None \<Rightarrow> ''unknown'' | Some d \<Rightarrow> lineage_parsed d))) of
        Inl e \<Rightarrow> if os_error e \<or> value_error e then Inr ''unknown'' else Inl e
      | Inr s \<Rightarrow> Inr s)"

record lineage_io = boot_io +
  li_state :: "stat_info res"
  li_content :: "string res"
  li_repo_is_dir :: "bool res"
  li_git_is_dir :: "bool res"
  li_runner :: "string list \<Rightarrow> (int \<times> string) res"

definition GIT_HEAD_COMMAND :: "string list" where
  [py_defs]: "GIT_HEAD_COMMAND = [''git'', ''-C'', ''/var/lib/ansible-pull'', ''rev-parse'', ''--verify'', ''HEAD^{commit}'']"

definition git_checkout_head :: "lineage_io \<Rightarrow> string res" where
  [py_defs]: "git_checkout_head io =
     (case bindE (li_repo_is_dir io) (\<lambda>repo. bindE (li_git_is_dir io) (\<lambda>dotgit. Inr (repo \<and> dotgit))) of
        Inl e \<Rightarrow> if os_error e then Inr [] else Inl e
      | Inr dirs \<Rightarrow>
          (if \<not> dirs then Inr []
           else (case li_runner io GIT_HEAD_COMMAND of
               Inl e \<Rightarrow> if os_error e \<or> e = RuntimeError ''SubprocessError'' then Inr [] else Inl e
             | Inr (code, out) \<Rightarrow>
                 (if code \<noteq> 0 then Inr []
                  else Inr (let sha = py_strip out in if hexn 40 sha then sha else [])))))"

text \<open>The clock of the lineage probe takes an infinite now; the time of observation then raises.\<close>

definition lineage_clock :: "pyfloat \<Rightarrow> pyfloat \<Rightarrow> (string + (rat \<times> rat) option)" where
  [py_defs]: "lineage_clock uptime now = (case uptime of
       FFin ur u \<Rightarrow>
         (if u < 0 \<or> u > 60 * 60 * 24 * 365 * 5 then Inl ''boot_identity_invalid''
          else (case now of
              FFin nr n \<Rightarrow> if n > u then Inr (Some (u, n)) else Inl ''boot_time_invalid''
            | FInf neg \<Rightarrow> if neg then Inl ''boot_time_invalid'' else Inr None
            | FNaN \<Rightarrow> Inl ''boot_time_invalid''))
     | _ \<Rightarrow> Inl ''boot_identity_invalid'')"

definition lineage_snapshot :: "lineage_io \<Rightarrow> pyval res" where
  [py_defs]: "lineage_snapshot io =
     (let fail = (\<lambda>reason. lineage_terminal reason [] [] ''unknown'' []) in
      case boot_clock (boot_io.truncate io) of
        Inl e \<Rightarrow> if os_error e \<or> value_error e \<or> e = IndexError \<or> e = OverflowError
                 then Inr (fail ''boot_identity_unavailable'') else Inl e
      | Inr (first, uptime, now) \<Rightarrow>
          (if \<not> boot_id_ok first then Inr (fail ''boot_identity_invalid'')
           else (case lineage_clock uptime now of
               Inl reason \<Rightarrow> Inr (fail reason)
             | Inr instants \<Rightarrow>
                 bindE (case instants of
                     Some (u, n) \<Rightarrow> lineage_state (li_state io) (li_content io) (fl (fl (n - u) - 2), fl (n + 2))
                   | None \<Rightarrow> Inr ''unknown'') (\<lambda>state.
                 bindE (git_checkout_head io) (\<lambda>checkout.
                 case bo_second io of
                   Inl e \<Rightarrow> if os_error e \<or> value_error e then Inr (fail ''boot_identity_changed'') else Inl e
                 | Inr second \<Rightarrow>
                     (if py_strip second \<noteq> first then Inr (fail ''boot_identity_changed'')
                      else bindE (case instants of Some (u, n) \<Rightarrow> utc_text n | None \<Rightarrow> Inl OverflowError) (\<lambda>observed.
                        if state = ''unknown''
                        then Inr (lineage_terminal ''ansible_pull_state_unavailable'' first checkout ''unknown'' observed)
                        else if checkout = []
                        then Inr (lineage_terminal ''checkout_head_unavailable'' first [] state observed)
                        else Inr (lineage_terminal LINEAGE_OBSERVED first checkout state observed))))))))"

definition lineage_main :: "lineage_io \<Rightarrow> (string \<times> nat) res" where
  [py_defs]: "lineage_main io = bindE (lineage_snapshot io) (\<lambda>result. Inr (probe_output result))"

section \<open>Boot declaration\<close>

definition DECL_SCHEMA :: string where [py_defs]: "DECL_SCHEMA = ''pxe-node-source-declaration-observation-v1''"
definition DECL_SCOPE :: string where [py_defs]: "DECL_SCOPE = ''current_boot_declaration_not_role_execution''"
definition DECL_PATH :: string where [py_defs]: "DECL_PATH = ''/etc/ansible-pull/source-declaration.json''"
definition DECL_MAX_BYTES :: nat where [py_defs]: "DECL_MAX_BYTES = 4096"
definition DECL_FIELDS :: "string list" where
  [py_defs]: "DECL_FIELDS = [''schema'', ''environment'', ''build_id'', ''infra_revision'']"

definition decl_unknown :: "string \<Rightarrow> pyval" where
  [py_defs]: "decl_unknown reason = PDict
     [(''schema'', PStr DECL_SCHEMA), (''status'', PStr ''unknown''), (''reason'', PStr reason),
      (''scope'', PStr DECL_SCOPE), (''boot_id'', PNone), (''build_id'', PNone), (''infra_revision'', PNone),
      (''declaration_sha256'', PNone), (''observed_at'', PNone)]"

definition str_such :: "(string \<Rightarrow> bool) \<Rightarrow> pyval \<Rightarrow> bool" where
  [py_defs]: "str_such P v \<longleftrightarrow> (case v of PStr s \<Rightarrow> P s | _ \<Rightarrow> False)"

definition decl_value_ok :: "pyval \<Rightarrow> bool" where
  [py_defs]: "decl_value_ok v \<longleftrightarrow> (case v of
       PDict d \<Rightarrow> keys_are d DECL_FIELDS \<and> dget d ''schema'' = PStr ''homecluster-pxe-source-declaration-v1''
         \<and> dget d ''environment'' = PStr ''staging''
         \<and> str_such build_id_ok (dget d ''build_id'') \<and> str_such (hexn 40) (dget d ''infra_revision'')
     | _ \<Rightarrow> False)"

text \<open>The bytes of a declaration with acceptable metadata.\<close>

definition decl_bytes :: "opened res \<Rightarrow> string res" where
  [py_defs]: "decl_bytes file_opened =
     bindE file_opened (\<lambda>h. bindE (op_stat h) (\<lambda>info.
       if \<not> si_regular info \<or> si_uid info \<noteq> 0 \<or> \<not> (0 < si_size info \<and> si_size info \<le> DECL_MAX_BYTES)
          \<or> and (si_mode info) 0x12 \<noteq> 0 then Inl (ValueError ''declaration metadata invalid'')
       else bindE (op_read h) (\<lambda>raw.
         if length raw \<noteq> si_size info then Inl (ValueError ''declaration size changed'') else Inr raw)))"

definition read_declaration ::
    "(string \<Rightarrow> pyfloat) \<Rightarrow> (string \<Rightarrow> string) \<Rightarrow> opened res \<Rightarrow> (pydict \<times> string) res" where
  [py_defs]: "read_declaration float_of sha file_opened =
     bindE (decl_bytes file_opened) (\<lambda>raw.
       case utf8_decode raw of
         None \<Rightarrow> Inl (ValueError ''UnicodeDecodeError'')
       | Some t \<Rightarrow> bindE (json_loads_unique float_of t) (\<lambda>v.
           if decl_value_ok v then Inr (mapping_or_empty v, sha raw)
           else Inl (ValueError ''declaration identity invalid'')))"

text \<open>\<open>now\<close> is the moment of observation; \<open>None\<close> stands for one without a time zone.\<close>

definition decl_snapshot ::
    "(string \<Rightarrow> pyfloat) \<Rightarrow> (string \<Rightarrow> string) \<Rightarrow> rat option \<Rightarrow> boot_io \<Rightarrow> pyval res" where
  [py_defs]: "decl_snapshot float_of sha now io =
     (case bindE (bo_first io) (\<lambda>t. let first = py_strip t in
         if \<not> boot_id_ok first then Inr (decl_unknown ''boot_identity_invalid'')
         else bindE (read_declaration float_of sha (bo_open io DECL_PATH)) (\<lambda>(value, digest).
           bindE (bo_second io) (\<lambda>u.
             if py_strip u \<noteq> first then Inr (decl_unknown ''boot_identity_changed'')
             else (case now of
                 None \<Rightarrow> Inr (decl_unknown ''observation_time_invalid'')
               | Some n \<Rightarrow> Inr (PDict
                   [(''schema'', PStr DECL_SCHEMA), (''status'', PStr ''partial''),
                    (''reason'', PStr ''pinned_declaration_observed_not_execution_attested''),
                    (''scope'', PStr DECL_SCOPE), (''boot_id'', PStr first),
                    (''build_id'', dget value ''build_id''), (''infra_revision'', dget value ''infra_revision''),
                    (''declaration_sha256'', PStr digest), (''observed_at'', PStr (iso_text \<lfloor>n\<rfloor>))]))))) of
        Inl e \<Rightarrow> if os_error e \<or> value_error e \<or> e = TypeError \<or> e = OverflowError
                 then Inr (decl_unknown ''declaration_unavailable_or_invalid'') else Inl e
      | Inr v \<Rightarrow> Inr v)"

definition decl_main ::
    "(string \<Rightarrow> pyfloat) \<Rightarrow> (string \<Rightarrow> string) \<Rightarrow> rat option \<Rightarrow> boot_io \<Rightarrow> (string \<times> nat) res" where
  [py_defs]: "decl_main float_of sha now io =
     bindE (decl_snapshot float_of sha now io) (\<lambda>result. Inr (probe_output result))"

section \<open>Terraform receipt\<close>

definition APPLY_SCHEMA :: string where [py_defs]: "APPLY_SCHEMA = ''homecluster-terraform-apply-observation-v1''"
definition APPLY_RECEIPT_SCHEMA :: string where
  [py_defs]: "APPLY_RECEIPT_SCHEMA = ''homecluster-terraform-apply-receipt-v1''"
definition APPLY_SCOPE :: string where [py_defs]: "APPLY_SCOPE = ''terraform_apply_success_not_helm_state_attested''"
definition APPLY_PATH :: string where [py_defs]: "APPLY_PATH = ''/run/k3s-observability-apply/staging.done''"
definition APPLY_MAX_BYTES :: nat where [py_defs]: "APPLY_MAX_BYTES = 1024"

definition APPLY_FIELDS :: "string list" where
  [py_defs]: "APPLY_FIELDS = [''SCHEMA'', ''SCOPE'', ''BOOT_ID'', ''BUNDLE_ID'', ''INFRA_REVISION'',
     ''INVENTORY_REVISION'', ''APPLIED_AT_EPOCH'']"

definition bundle_id_ok :: "string \<Rightarrow> bool" where
  [py_defs]: "bundle_id_ok s \<longleftrightarrow>
     re_fullmatch (rseq [rtimes 12 (Cls lower_hex), lit_char CHR ''-'', rtimes 12 (Cls lower_hex), EndOfText]) s \<noteq> None"

definition apply_unknown :: "string \<Rightarrow> pyval" where
  [py_defs]: "apply_unknown reason = PDict
     [(''schema'', PStr APPLY_SCHEMA), (''status'', PStr ''unknown''), (''reason'', PStr reason),
      (''scope'', PStr APPLY_SCOPE), (''boot_id'', PNone), (''bundle_id'', PNone), (''infra_revision'', PNone),
      (''inventory_revision'', PNone), (''applied_at'', PNone), (''observed_at'', PNone), (''receipt_sha256'', PNone)]"

definition same_file :: "stat_info \<Rightarrow> stat_info \<Rightarrow> bool" where
  [py_defs]: "same_file a b \<longleftrightarrow> snd (si_identity a) = snd (si_identity b) \<and> si_size a = si_size b"

definition apply_bytes :: "opened res \<Rightarrow> (stat_info \<times> string) res" where
  [py_defs]: "apply_bytes file_opened =
     bindE file_opened (\<lambda>h. bindE (op_stat h) (\<lambda>info.
       if \<not> si_regular info \<or> si_uid info \<noteq> 0 \<or> si_mode info \<noteq> 0x180
          \<or> \<not> (0 < si_size info \<and> si_size info \<le> APPLY_MAX_BYTES)
       then Inl (ValueError ''receipt metadata invalid'')
       else bindE (op_read h) (\<lambda>raw. bindE (op_after h) (\<lambda>after.
         if length raw \<noteq> si_size info \<or> \<not> same_file after info
         then Inl (ValueError ''receipt size changed'') else Inr (info, raw)))))"

fun apply_lines :: "string list \<Rightarrow> string list \<Rightarrow> (string \<times> string) list res" where
  "apply_lines (k # ks) (l # ls) =
     (let prefix = k @ ''=''; v = drop (length prefix) l in
      if \<not> startswith l prefix \<or> v = [] \<or> length l > 160 then Inl (ValueError ''receipt field invalid'')
      else bindE (apply_lines ks ls) (\<lambda>rest. Inr ((k, v) # rest)))"
| "apply_lines ks ls = Inr []"

definition apply_read :: "opened res \<Rightarrow> ((string \<times> string) list \<times> string \<times> rat) res" where
  [py_defs]: "apply_read file_opened =
     bindE (apply_bytes file_opened) (\<lambda>(info, raw).
       if \<not> (raw \<noteq> [] \<and> last raw = CHR 0x0A) \<or> CHR 0x0D \<in> set raw \<or> CHR 0x00 \<in> set raw
       then Inl (ValueError ''receipt newline invalid'')
       else bindE (decode_ascii (butlast raw)) (\<lambda>t.
         let lines = split_on CHR 0x0A t in
         if length lines \<noteq> length APPLY_FIELDS then Inl (ValueError ''receipt lines invalid'')
         else bindE (apply_lines APPLY_FIELDS lines) (\<lambda>d. Inr (d, raw, si_mtime info))))"

definition apply_identity_ok :: "string \<Rightarrow> (string \<times> string) list \<Rightarrow> bool" where
  [py_defs]: "apply_identity_ok boot_id d \<longleftrightarrow>
     fld d ''SCHEMA'' = APPLY_RECEIPT_SCHEMA \<and> fld d ''SCOPE'' = APPLY_SCOPE \<and> fld d ''BOOT_ID'' = boot_id
     \<and> bundle_id_ok (fld d ''BUNDLE_ID'') \<and> hexn 40 (fld d ''INFRA_REVISION'')
     \<and> hexn 40 (fld d ''INVENTORY_REVISION'')
     \<and> fld d ''BUNDLE_ID'' = take 12 (fld d ''INFRA_REVISION'') @ ''-'' @ take 12 (fld d ''INVENTORY_REVISION'')"

definition apply_times_ok :: "rat \<Rightarrow> rat \<Rightarrow> int \<Rightarrow> rat \<Rightarrow> bool" where
  [py_defs]: "apply_times_ok uptime now applied mtime \<longleftrightarrow>
     fl (fl (now - uptime) - 2) \<le> of_int applied \<and> of_int applied \<le> fl (mtime + 2)
     \<and> fl (mtime + 2) \<le> fl (now + 4) \<and> \<bar>fl (mtime - fl (of_int applied))\<bar> \<le> 30"

text \<open>An exception of the receipt's own \<open>open\<close> is told from one of the boot identity by the
  path it carries: \<open>True\<close> marks it.\<close>

definition tagged :: "bool \<Rightarrow> 'a res \<Rightarrow> (bool \<times> py_exc) + 'a" where
  [py_defs]: "tagged b r = (case r of Inl e \<Rightarrow> Inl (b, e) | Inr x \<Rightarrow> Inr x)"

definition bind2 :: "'e + 'a \<Rightarrow> ('a \<Rightarrow> 'e + 'b) \<Rightarrow> 'e + 'b" where
  [py_defs]: "bind2 m f = (case m of Inl e \<Rightarrow> Inl e | Inr x \<Rightarrow> f x)"

definition apply_try :: "(string \<Rightarrow> string) \<Rightarrow> boot_io \<Rightarrow> (bool \<times> py_exc) + pyval" where
  [py_defs]: "apply_try sha io =
     bind2 (tagged False (boot_clock io)) (\<lambda>(first, uptime, now).
       case clock_ok uptime now of
         None \<Rightarrow> Inr (apply_unknown ''boot_identity_invalid'')
       | Some (u, n) \<Rightarrow>
           (if \<not> boot_id_ok first then Inr (apply_unknown ''boot_identity_invalid'')
            else bind2 (tagged True (apply_read (bo_open io APPLY_PATH))) (\<lambda>(d, raw, mtime).
              let epoch = fld d ''APPLIED_AT_EPOCH''; applied = int (nat_of_digits epoch) in
              if \<not> apply_identity_ok first d then Inr (apply_unknown ''receipt_identity_invalid'')
              else if \<not> is_ascii epoch \<or> \<not> py_isdigit epoch \<or> length epoch > 16
                 \<or> \<not> apply_times_ok u n applied mtime
              then Inr (apply_unknown ''receipt_time_invalid'')
              else bind2 (tagged False (bo_second io)) (\<lambda>second.
                if py_strip second \<noteq> first then Inr (apply_unknown ''boot_identity_changed'')
                else bind2 (tagged False (utc_seconds applied)) (\<lambda>applied_at.
                  bind2 (tagged False (utc_text n)) (\<lambda>observed_at.
                    Inr (PDict
                     [(''schema'', PStr APPLY_SCHEMA), (''status'', PStr ''partial''),
                      (''reason'', PStr ''terraform_apply_success_receipt_observed''),
                      (''scope'', PStr APPLY_SCOPE), (''boot_id'', PStr first),
                      (''bundle_id'', PStr (fld d ''BUNDLE_ID'')),
                      (''infra_revision'', PStr (fld d ''INFRA_REVISION'')),
                      (''inventory_revision'', PStr (fld d ''INVENTORY_REVISION'')),
                      (''applied_at'', PStr applied_at), (''observed_at'', PStr observed_at),
                      (''receipt_sha256'', PStr (sha raw))])))))))"

definition apply_snapshot :: "(string \<Rightarrow> string) \<Rightarrow> boot_io \<Rightarrow> pyval res" where
  [py_defs]: "apply_snapshot sha io = (case apply_try sha io of
       Inr v \<Rightarrow> Inr v
     | Inl (own, e) \<Rightarrow>
         (if e = FileNotFoundError
          then Inr (apply_unknown (if own then ''receipt_missing'' else ''boot_identity_unavailable''))
          else if os_error e \<or> value_error e \<or> e \<in> {TypeError, OverflowError, IndexError}
          then Inr (apply_unknown ''receipt_unavailable_or_invalid'') else Inl e))"

definition apply_main :: "(string \<Rightarrow> string) \<Rightarrow> boot_io \<Rightarrow> (string \<times> nat) res" where
  [py_defs]: "apply_main sha io = bindE (apply_snapshot sha io) (\<lambda>result. Inr (probe_output result))"

end
