(* ===== verification/Manifest_Probes.thy ===== *)
theory Manifest_Probes
  imports Status_Common "HOL-Library.Product_Lexorder"
begin

text \<open>
  Three more read-only probes: \<open>scripts/pxe_bundle_manifest_readonly_status.py\<close> (the manifest of
  a release bundle), \<open>scripts/pxe_live_selectors_readonly_status.py\<close> (what each board boots) and
  \<open>scripts/k3s_helm_metadata_status.py\<close> (the Helm revisions in the cluster).  SHA-256, base64
  and the TLS library are arguments.
\<close>

section \<open>Bundle manifest\<close>

definition BUNDLE_SCHEMA :: string where [py_defs]: "BUNDLE_SCHEMA = ''pxe-bundle-manifest-readonly-observation-v1''"
definition BUNDLE_SCOPE :: string where [py_defs]: "BUNDLE_SCOPE = ''paired_manifest_bytes_unbound_to_generation_run''"
definition BUNDLE_ROOT :: string where [py_defs]: "BUNDLE_ROOT = ''/srv/gentoo/releases/''"
definition BUNDLE_MAX_BYTES :: nat where [py_defs]: "BUNDLE_MAX_BYTES = 512 * 1024"

definition ALLOWED_KEYS :: "string list" where
  [py_defs]: "ALLOWED_KEYS = [''schema'', ''policy'', ''bundle_date'', ''releases'', ''target_hosts'',
     ''target_stages'', ''required_tftp_paths'', ''markers'', ''metadata'']"

definition bundle_result :: "string \<Rightarrow> string \<Rightarrow> (string \<times> pydict) option \<Rightarrow> pyval" where
  [py_defs]: "bundle_result date reason found = PDict
     [(''schema'', PStr BUNDLE_SCHEMA), (''status'', PStr (if found = None then ''unknown'' else ''partial'')),
      (''reason'', PStr reason), (''scope'', PStr BUNDLE_SCOPE), (''bundle_date'', PStr date),
      (''manifest_sha256'', case found of None \<Rightarrow> PNone | Some (digest, releases) \<Rightarrow> PStr digest),
      (''releases'', case found of None \<Rightarrow> PNone | Some (digest, releases) \<Rightarrow> PDict releases),
      (''generation_run_id'', PNone), (''source_revision'', PNone)]"

definition expected_releases :: "string \<Rightarrow> pydict" where
  [py_defs]: "expected_releases date = [(''rpi4'', PStr (date @ ''-rpi4'')), (''rpi5'', PStr (date @ ''-rpi5''))]"

definition short_str :: "pyval \<Rightarrow> bool" where
  [py_defs]: "short_str v \<longleftrightarrow> (case v of PStr s \<Rightarrow> 0 < length s \<and> length s \<le> 256 | _ \<Rightarrow> False)"

text \<open>The generation of an entry is one of the expected ones, and its release is that one's.\<close>

definition generation_ok :: "string \<Rightarrow> pydict \<Rightarrow> bool" where
  [py_defs]: "generation_ok date entry \<longleftrightarrow> (case dget entry ''generation'' of
       PStr g \<Rightarrow> (case map_of (expected_releases date) g of
           None \<Rightarrow> False | Some release \<Rightarrow> py_eq (dget entry ''release'') release)
     | _ \<Rightarrow> False)"

definition tftp_entry_ok :: "string \<Rightarrow> pyval \<Rightarrow> bool" where
  [py_defs]: "tftp_entry_ok date v \<longleftrightarrow> (case v of
       PDict e \<Rightarrow> keys_are e [''generation'', ''release'', ''path''] \<and> generation_ok date e \<and> short_str (dget e ''path'')
     | _ \<Rightarrow> False)"

definition marker_entry_ok :: "string \<Rightarrow> pyval \<Rightarrow> bool" where
  [py_defs]: "marker_entry_ok date v \<longleftrightarrow> (case v of
       PDict e \<Rightarrow> keys_are e [''artifact_type'', ''generation'', ''release'', ''marker_path'']
         \<and> dget e ''artifact_type'' \<in> {PStr ''rootfs'', PStr ''tftp''} \<and> generation_ok date e
         \<and> short_str (dget e ''marker_path'')
     | _ \<Rightarrow> False)"

definition all_in_list :: "(pyval \<Rightarrow> bool) \<Rightarrow> pyval \<Rightarrow> bool" where
  [py_defs]: "all_in_list P v \<longleftrightarrow> (case v of PList xs \<Rightarrow> list_all P xs | _ \<Rightarrow> False)"

definition bundle_manifest :: "pyval \<Rightarrow> string \<Rightarrow> pydict option" where
  [py_defs]: "bundle_manifest v date = (case v of
       PDict d \<Rightarrow>
         (if keys_are d ALLOWED_KEYS \<and> dget d ''schema'' = PInt 1 \<and> dget d ''policy'' = PStr ''paired_clean''
             \<and> dget d ''bundle_date'' = PStr date
             \<and> (case dget d ''releases'' of
                  PDict r \<Rightarrow> keys_are r [''rpi4'', ''rpi5''] \<and> py_eq (PDict r) (PDict (expected_releases date))
                | _ \<Rightarrow> False)
             \<and> all_in_list is_str (dget d ''target_hosts'') \<and> all_in_list is_str (dget d ''target_stages'')
             \<and> is_mapping (dget d ''metadata'')
             \<and> all_in_list (tftp_entry_ok date) (dget d ''required_tftp_paths'')
             \<and> all_in_list (marker_entry_ok date) (dget d ''markers'')
          then Some (expected_releases date) else None)
     | _ \<Rightarrow> None)"

definition unchanged :: "stat_info \<Rightarrow> stat_info \<Rightarrow> bool" where
  [py_defs]: "unchanged a b \<longleftrightarrow> si_identity a = si_identity b \<and> si_size a = si_size b"

text \<open>The payload of a manifest that did not change while it was read, or the reason.\<close>

definition bundle_payload :: "opened \<Rightarrow> (string + string) res" where
  [py_defs]: "bundle_payload h =
     bindE (op_stat h) (\<lambda>info.
       if \<not> si_regular info \<or> \<not> (0 < si_size info \<and> si_size info \<le> BUNDLE_MAX_BYTES)
       then Inr (Inl ''manifest_invalid'')
       else bindE (op_read h) (\<lambda>payload.
         if length payload \<noteq> si_size info then Inr (Inl ''manifest_changed_during_read'')
         else bindE (op_after h) (\<lambda>after.
           if \<not> unchanged info after then Inr (Inl ''manifest_changed_during_read'') else Inr (Inr payload))))"

definition bundle_inspect ::
    "(string \<Rightarrow> pyfloat) \<Rightarrow> (string \<Rightarrow> string) \<Rightarrow> (string \<Rightarrow> opened res) \<Rightarrow> string \<Rightarrow> pyval res" where
  [py_defs]: "bundle_inspect float_of sha open_file date =
     (if \<not> date8 date then Inr (bundle_result [] ''bundle_date_invalid'' None)
      else (case open_file (BUNDLE_ROOT @ date @ ''.json'') of
          Inl e \<Rightarrow> if e = FileNotFoundError then Inr (bundle_result date ''manifest_missing'' None)
                   else if e = OSError then Inr (bundle_result date ''manifest_unavailable'' None) else Inl e
        | Inr h \<Rightarrow>
            (case bundle_payload h of
               Inl e \<Rightarrow> if os_error e then Inr (bundle_result date ''manifest_unavailable'' None) else Inl e
             | Inr (Inl reason) \<Rightarrow> Inr (bundle_result date reason None)
             | Inr (Inr payload) \<Rightarrow>
                 (case json_loads_bytes float_of payload of
                    Inl e \<Rightarrow> if value_error e then Inr (bundle_result date ''manifest_invalid'' None) else Inl e
                  | Inr data \<Rightarrow>
                      Inr (case bundle_manifest data date of
                          None \<Rightarrow> bundle_result date ''manifest_contract_invalid'' None
                        | Some releases \<Rightarrow> bundle_result date ''manifest_bytes_observed_run_binding_unknown''
                            (Some (sha payload, releases)))))))"

definition bundle_main ::
    "(string \<Rightarrow> pyfloat) \<Rightarrow> (string \<Rightarrow> string) \<Rightarrow> (string \<Rightarrow> opened res) \<Rightarrow> string \<Rightarrow> (string \<times> nat) res" where
  [py_defs]: "bundle_main float_of sha open_file date =
     bindE (bundle_inspect float_of sha open_file date) (\<lambda>result. Inr (probe_output result))"

section \<open>Live selectors\<close>

definition SELECTOR_SCHEMA :: string where [py_defs]: "SELECTOR_SCHEMA = ''pxe-live-selectors-readonly-v1''"
definition SELECTOR_SCOPE :: string where
  [py_defs]: "SELECTOR_SCOPE = ''current_openwrt_selector_not_boot_attestation''"
definition SELECTOR_ROOT :: string where [py_defs]: "SELECTOR_ROOT = ''/srv/gentoo/tftp-root/''"
definition SELECTOR_SLOTS :: "string list" where
  [py_defs]: "SELECTOR_SLOTS = [''server'', ''agent-01'', ''agent-02'', ''agent-03'']"

definition RELEASE_RX :: rx where
  [py_defs]: "RELEASE_RX = rseq [rtimes 8 (Cls ascii_digit), rlit ''-rpi'', Cls (\<lambda>c. c = CHR ''4'' \<or> c = CHR ''5'')]"

definition ROOT_ARG :: rx where
  [py_defs]: "ROOT_ARG = rseq [ralt [StartOfText, Cls py_isspace], rlit ''root=nfs4:'', rstar (Cls (\<lambda>c. \<not> py_isspace c)),
     rlit '':/gentoo/'', Grp 1 RELEASE_RX, rlit ''/nfs'', ralt [lit_char CHR '','', Cls py_isspace, EndOfText]]"

text \<open>What the file system answers about a path.\<close>

record path_io =
  pa_is_symlink :: "string \<Rightarrow> bool res"
  pa_readlink :: "string \<Rightarrow> string res"
  pa_is_dir :: "string \<Rightarrow> bool res"
  pa_is_file :: "string \<Rightarrow> bool res"
  pa_size :: "string \<Rightarrow> nat res"
  pa_text :: "string \<Rightarrow> string res"

definition selector_unknown :: "string \<Rightarrow> pyval" where
  [py_defs]: "selector_unknown reason = PDict
     [(''schema'', PStr SELECTOR_SCHEMA), (''status'', PStr ''unknown''), (''reason'', PStr reason),
      (''scope'', PStr SELECTOR_SCOPE), (''selectors'', PList [])]"

definition link_release :: "rx \<Rightarrow> string \<Rightarrow> string option" where
  [py_defs]: "link_release r link = (case re_fullmatch r link of None \<Rightarrow> None | Some m \<Rightarrow> Some (group (snd (snd m)) 1))"

text \<open>The release a board's entry points to and the command line that goes with it.\<close>

definition board_release :: "path_io \<Rightarrow> string \<Rightarrow> (string \<times> string) option res" where
  [py_defs]: "board_release io board_hash =
     (let host = SELECTOR_ROOT @ board_hash in
      bindE (pa_is_symlink io host) (\<lambda>linked.
        if linked then
          bindE (pa_readlink io host) (\<lambda>link. Inr
            (case link_release (Cat (rlit ''dates/'') (Grp 1 RELEASE_RX)) link of
               None \<Rightarrow> None | Some tftp \<Rightarrow> Some (tftp, SELECTOR_ROOT @ ''dates/'' @ tftp @ ''/cmdline.txt'')))
        else bindE (pa_is_dir io host) (\<lambda>dir.
          if dir then
            bindE (pa_readlink io (host @ ''/kernel8.img'')) (\<lambda>link. Inr
              (case link_release (rseq [rlit ''../dates/'', Grp 1 RELEASE_RX, rlit ''/kernel8.img'']) link of
                 None \<Rightarrow> None | Some tftp \<Rightarrow> Some (tftp, host @ ''/cmdline.txt'')))
          else Inr None)))"

definition cmdline_text :: "path_io \<Rightarrow> string \<Rightarrow> string option res" where
  [py_defs]: "cmdline_text io path =
     bindE (pa_is_symlink io path) (\<lambda>linked. if linked then Inr None else
     bindE (pa_is_file io path) (\<lambda>is_file. if \<not> is_file then Inr None else
     bindE (pa_size io path) (\<lambda>size. if size > 4096 then Inr None else
     bindE (pa_text io path) (\<lambda>t. Inr (Some t)))))"

definition read_selector :: "path_io \<Rightarrow> string \<Rightarrow> (string \<times> string) option res" where
  [py_defs]: "read_selector io board_hash =
     (case bindE (board_release io board_hash) (\<lambda>r. case r of
          None \<Rightarrow> Inr None
        | Some (tftp, path) \<Rightarrow> bindE (cmdline_text io path) (\<lambda>t. Inr (map_option (\<lambda>line. (tftp, line)) t))) of
        Inl e \<Rightarrow> if os_error e \<or> value_error e then Inr None else Inl e
      | Inr None \<Rightarrow> Inr None
      | Inr (Some (tftp, line)) \<Rightarrow>
          (case re_findall ROOT_ARG line of
             [rootfs] \<Rightarrow> Inr (if re_fullmatch (Cat RELEASE_RX EndOfText) tftp = None then None else Some (tftp, rootfs))
           | _ \<Rightarrow> Inr None))"

definition board_hash_ok :: "string \<Rightarrow> bool" where
  [py_defs]: "board_hash_ok h \<longleftrightarrow> length h = 8
     \<and> list_all (\<lambda>c. ascii_digit c \<or> c \<in> set ''abcdefABCDEF'') h"

definition last4 :: "string \<Rightarrow> string" where
  [py_defs]: "last4 s = drop (length s - 4) s"

definition selector_value :: "string \<times> string \<times> string \<Rightarrow> pyval" where
  [py_defs]: "selector_value s = (let (slot, tftp, rootfs) = s in PDict
     [(''slot'', PStr slot), (''tftp_release'', PStr tftp), (''rootfs_release'', PStr rootfs)])"

fun read_selectors :: "path_io \<Rightarrow> (string \<times> string) list \<Rightarrow> (string + (string \<times> string \<times> string) list) res" where
  "read_selectors io [] = Inr (Inr [])"
| "read_selectors io ((slot, board_hash) # rest) =
     bindE (read_selector io board_hash) (\<lambda>observed. case observed of
         None \<Rightarrow> Inr (Inl ''selector_unavailable_or_invalid'')
       | Some (tftp, rootfs) \<Rightarrow>
           (if last4 tftp \<noteq> last4 rootfs then Inr (Inl ''selector_architecture_mismatch'')
            else bindE (read_selectors io rest) (\<lambda>r.
              Inr (case r of Inl reason \<Rightarrow> Inl reason | Inr xs \<Rightarrow> Inr ((slot, tftp, rootfs) # xs)))))"

definition selectors_inspect :: "path_io \<Rightarrow> string list \<Rightarrow> pyval res" where
  [py_defs]: "selectors_inspect io board_hashes =
     (if length board_hashes \<noteq> 4 \<or> \<not> list_all board_hash_ok board_hashes
         \<or> \<not> distinct (map py_lower board_hashes)
      then Inr (selector_unknown ''board_hashes_invalid'')
      else bindE (read_selectors io (zip SELECTOR_SLOTS board_hashes)) (\<lambda>r.
        Inr (case r of
            Inl reason \<Rightarrow> selector_unknown reason
          | Inr selectors \<Rightarrow> PDict
              [(''schema'', PStr SELECTOR_SCHEMA), (''status'', PStr ''partial''),
               (''reason'', PStr ''selectors_observed_boot_use_unattested''), (''scope'', PStr SELECTOR_SCOPE),
               (''selectors'', PList (map selector_value selectors))])))"

definition selectors_main :: "path_io \<Rightarrow> string \<Rightarrow> (string \<times> nat) res" where
  [py_defs]: "selectors_main io hashes =
     bindE (selectors_inspect io (split_on CHR '','' hashes)) (\<lambda>result. Inr (probe_output result))"

section \<open>Helm metadata\<close>

definition HELM_SCHEMA :: string where [py_defs]: "HELM_SCHEMA = ''homecluster-helm-metadata-observation-v1''"
definition HELM_SCOPE :: string where [py_defs]: "HELM_SCOPE = ''helm_revision_labels_not_values_or_health_attested''"
definition HELM_STATUSES :: "string list" where
  [py_defs]: "HELM_STATUSES = [''deployed'', ''superseded'', ''failed'', ''pending-install'', ''pending-upgrade'',
     ''pending-rollback'', ''uninstalled'', ''uninstalling'']"
definition MAX_RAW_BYTES :: nat where [py_defs]: "MAX_RAW_BYTES = 256 * 1024"
definition MAX_RECORDS :: nat where [py_defs]: "MAX_RECORDS = 128"
definition MAX_RELEASES :: nat where [py_defs]: "MAX_RELEASES = 32"

definition helm_unknown :: "string \<Rightarrow> pyval" where
  [py_defs]: "helm_unknown reason = PDict
     [(''schema'', PStr HELM_SCHEMA), (''status'', PStr ''unknown''), (''reason'', PStr reason),
      (''scope'', PStr HELM_SCOPE), (''boot_id'', PNone), (''observed_at'', PNone), (''revision_count'', PNone),
      (''failed_revision_count'', PNone), (''pending_count'', PNone), (''releases'', PList [])]"

definition helm_bad :: "string \<Rightarrow> 'a res" where [py_defs]: "helm_bad m = Inl (ValueError m)"

subsection \<open>Credentials\<close>

definition decode_pem :: "(string \<Rightarrow> string res) \<Rightarrow> pyval \<Rightarrow> string res" where
  [py_defs]: "decode_pem b64 v = (case v of
       PStr s \<Rightarrow>
         (if \<not> (0 < length s \<and> length s \<le> 32768) then helm_bad ''credential encoding invalid''
          else bindE (b64 s) (\<lambda>raw.
            if \<not> (0 < length raw \<and> length raw \<le> 16384) \<or> \<not> startswith raw ''-----BEGIN ''
            then helm_bad ''credential PEM invalid'' else Inr raw))
     | _ \<Rightarrow> helm_bad ''credential encoding invalid'')"

text \<open>The entries of a list of the configuration that carry a name.\<close>

definition named_entries :: "pydict \<Rightarrow> string \<Rightarrow> pyval \<Rightarrow> pydict list res" where
  [py_defs]: "named_entries config key name =
     bindE (py_list_of (dget_or config key (PList []))) (\<lambda>es.
       Inr (map mapping_or_empty (filter (\<lambda>e. is_mapping e \<and> py_eq (dget (mapping_or_empty e) ''name'') name) es)))"

definition kubeconfig_bytes :: "opened res \<Rightarrow> string res" where
  [py_defs]: "kubeconfig_bytes file_opened =
     bindE file_opened (\<lambda>h. bindE (op_stat h) (\<lambda>info.
       if \<not> si_regular info \<or> si_uid info \<noteq> 0 \<or> si_size info = 0 \<or> si_size info > 65536
       then helm_bad ''kubeconfig metadata invalid''
       else bindE (op_read h) (\<lambda>raw.
         if length raw \<noteq> si_size info then helm_bad ''kubeconfig changed during read'' else Inr raw)))"

text \<open>Certificate authority, client certificate and key of the selected context.\<close>

definition client_credentials :: "(string \<Rightarrow> string res) \<Rightarrow> pyval \<Rightarrow> (string \<times> string \<times> string) res" where
  [py_defs]: "client_credentials b64 loaded = (case loaded of
       PDict config \<Rightarrow>
         bindE (named_entries config ''contexts'' (dget config ''current-context'')) (\<lambda>contexts.
           case contexts of
             [c] \<Rightarrow>
               (case dget c ''context'' of
                  PDict binding \<Rightarrow>
                    bindE (named_entries config ''clusters'' (dget binding ''cluster'')) (\<lambda>clusters.
                    bindE (named_entries config ''users'' (dget binding ''user'')) (\<lambda>users.
                      case (map (\<lambda>e. dget e ''cluster'') clusters, map (\<lambda>e. dget e ''user'') users) of
                        ([PDict cluster], [PDict user]) \<Rightarrow>
                          (if dget cluster ''server'' \<noteq> PStr ''https://127.0.0.1:6443''
                           then helm_bad ''kubeconfig endpoint invalid''
                           else bindE (decode_pem b64 (dget cluster ''certificate-authority-data'')) (\<lambda>ca.
                             bindE (decode_pem b64 (dget user ''client-certificate-data'')) (\<lambda>cert.
                             bindE (decode_pem b64 (dget user ''client-key-data'')) (\<lambda>key. Inr (ca, cert, key)))))
                      | _ \<Rightarrow> helm_bad ''kubeconfig endpoint invalid''))
                | _ \<Rightarrow> helm_bad ''kubeconfig context invalid'')
           | _ \<Rightarrow> helm_bad ''kubeconfig context invalid'')
     | _ \<Rightarrow> helm_bad ''kubeconfig invalid'')"

subsection \<open>The answer of the API\<close>

definition fetch_metadata :: "(string \<Rightarrow> pyfloat) \<Rightarrow> (int \<times> string) res \<Rightarrow> pyval res" where
  [py_defs]: "fetch_metadata float_of response =
     bindE response (\<lambda>(status, raw).
       if status \<noteq> 200 then helm_bad ''metadata API unavailable''
       else if \<not> (0 < length raw \<and> length raw \<le> MAX_RAW_BYTES) then helm_bad ''metadata API response size invalid''
       else (case utf8_decode raw of
           None \<Rightarrow> Inl json_error
         | Some t \<Rightarrow> bindE (json_loads_unique float_of t) (\<lambda>v. case v of
               PDict d \<Rightarrow>
                 (if dget d ''kind'' \<noteq> PStr ''PartialObjectMetadataList'' \<or> dget d ''apiVersion'' \<noteq> PStr ''meta.k8s.io/v1''
                  then helm_bad ''metadata-only response required'' else Inr v)
             | _ \<Rightarrow> helm_bad ''metadata-only response required'')))"

definition label_char :: "char \<Rightarrow> bool" where
  [py_defs]: "label_char c \<longleftrightarrow> ascii_lower c \<or> ascii_digit c"

definition dns_label :: "string \<Rightarrow> bool" where
  [py_defs]: "dns_label s \<longleftrightarrow> s \<noteq> [] \<and> length s \<le> 63 \<and> label_char (hd s) \<and> label_char (last s)
     \<and> list_all (\<lambda>c. label_char c \<or> c = CHR ''-'') s"

text \<open>\<open>NAME.fullmatch(v)\<close> raises on a value that is not a string.\<close>

definition name_matches :: "pyval \<Rightarrow> bool res" where
  [py_defs]: "name_matches v = (case v of PStr s \<Rightarrow> Inr (dns_label s) | _ \<Rightarrow> Inl TypeError)"

definition in_statuses :: "pyval \<Rightarrow> bool res" where
  [py_defs]: "in_statuses v = (case v of
       PStr s \<Rightarrow> Inr (s \<in> set HELM_STATUSES) | PList xs \<Rightarrow> Inl TypeError | PDict d \<Rightarrow> Inl TypeError | _ \<Rightarrow> Inr False)"

definition revision_text_ok :: "pyval \<Rightarrow> bool" where
  [py_defs]: "revision_text_ok v \<longleftrightarrow> (case v of
       PStr s \<Rightarrow> is_ascii s \<and> py_isdigit s \<and> 1 \<le> length s \<and> length s \<le> 6 | _ \<Rightarrow> False)"

record helm_release =
  hr_namespace :: string
  hr_name :: string
  hr_revision :: nat
  hr_status :: string

definition hr_key :: "helm_release \<Rightarrow> string \<times> string" where
  [py_defs]: "hr_key r = (hr_namespace r, hr_name r)"

text \<open>One item of the list, up to the check for a repeated revision.\<close>

definition helm_item :: "pyval \<Rightarrow> helm_release res" where
  [py_defs]: "helm_item item = (case item of
       PDict i \<Rightarrow>
         (if \<not> keys_are i [''apiVersion'', ''kind'', ''metadata''] \<or> dget i ''apiVersion'' \<noteq> PStr ''meta.k8s.io/v1''
             \<or> dget i ''kind'' \<noteq> PStr ''PartialObjectMetadata'' \<or> \<not> is_mapping (dget i ''metadata'')
          then helm_bad ''full Secret object or invalid metadata''
          else (let metadata = mapping_or_empty (dget i ''metadata'') in
            case dget metadata ''labels'' of
              PDict labels \<Rightarrow>
                (if dget labels ''owner'' \<noteq> PStr ''helm'' then helm_bad ''Helm label invalid''
                 else (let namespace = dget metadata ''namespace''; name = dget labels ''name'';
                           status = dget labels ''status''; version = dget labels ''version'' in
                   bindE (name_matches namespace) (\<lambda>ok. if \<not> ok then helm_bad ''metadata identity invalid'' else
                   bindE (name_matches name) (\<lambda>ok. if \<not> ok then helm_bad ''metadata identity invalid'' else
                   bindE (in_statuses status) (\<lambda>ok.
                     if \<not> ok \<or> \<not> revision_text_ok version then helm_bad ''metadata identity invalid''
                     else (let revision = nat_of_digits (py_str version) in
                       if revision < 1 \<or> str_nat revision \<noteq> py_str version
                       then helm_bad ''metadata revision invalid''
                       else Inr \<lparr>hr_namespace = py_str namespace, hr_name = py_str name, hr_revision = revision,
                                 hr_status = py_str status\<rparr>))))))
            | _ \<Rightarrow> helm_bad ''Helm label invalid''))
     | _ \<Rightarrow> helm_bad ''full Secret object or invalid metadata'')"

record helm_scan =
  hs_seen :: "((string \<times> string) \<times> nat) list"
  hs_latest :: "((string \<times> string) \<times> helm_release) list"
  hs_failed :: nat

definition helm_step :: "pyval \<Rightarrow> helm_scan \<Rightarrow> helm_scan res" where
  [py_defs]: "helm_step item s =
     bindE (helm_item item) (\<lambda>r.
       if (hr_key r, hr_revision r) \<in> set (hs_seen s) then helm_bad ''metadata revision invalid''
       else Inr \<lparr>hs_seen = (hr_key r, hr_revision r) # hs_seen s,
          hs_latest = (case map_of (hs_latest s) (hr_key r) of
              None \<Rightarrow> AList.update (hr_key r) r (hs_latest s)
            | Some old \<Rightarrow> if hr_revision old < hr_revision r then AList.update (hr_key r) r (hs_latest s) else hs_latest s),
          hs_failed = (if hr_status r = ''failed'' then hs_failed s + 1 else hs_failed s)\<rparr>)"

definition helm_parse :: "pyval \<Rightarrow> (helm_release list \<times> nat \<times> nat \<times> nat) res" where
  [py_defs]: "helm_parse v = (case v of
       PDict d \<Rightarrow>
         (if \<not> keys_are d [''kind'', ''apiVersion'', ''metadata'', ''items''] then helm_bad ''metadata list invalid''
          else (case dget d ''metadata'' of
             PDict meta \<Rightarrow>
               (if dget meta ''continue'' \<notin> {PNone, PStr []} then helm_bad ''metadata list truncated''
                else (case dget d ''items'' of
                   PList items \<Rightarrow>
                     (if \<not> (1 \<le> length items \<and> length items \<le> MAX_RECORDS) then helm_bad ''metadata cardinality invalid''
                      else bindE (foldE helm_step items \<lparr>hs_seen = [], hs_latest = [], hs_failed = 0\<rparr>) (\<lambda>s.
                        if length (hs_latest s) > MAX_RELEASES then helm_bad ''release cardinality invalid''
                        else (let releases = sort_key hr_key (map snd (hs_latest s)) in
                          Inr (releases, hs_failed s,
                            length (filter (\<lambda>r. startswith (hr_status r) ''pending-'') releases), length items))))
                 | _ \<Rightarrow> helm_bad ''metadata cardinality invalid''))
           | _ \<Rightarrow> helm_bad ''metadata list truncated''))
     | _ \<Rightarrow> helm_bad ''metadata list invalid'')"

definition release_value :: "helm_release \<Rightarrow> pyval" where
  [py_defs]: "release_value r = PDict
     [(''namespace'', PStr (hr_namespace r)), (''name'', PStr (hr_name r)),
      (''revision'', PInt (int (hr_revision r))), (''status'', PStr (hr_status r))]"

definition helm_snapshot :: "pyval res \<Rightarrow> rat option \<Rightarrow> boot_io \<Rightarrow> pyval res" where
  [py_defs]: "helm_snapshot fetched now io =
     (case bindE (bo_first io) (\<lambda>t. let first = py_strip t in
         if \<not> boot_id_ok first then Inr (helm_unknown ''boot_identity_invalid'')
         else bindE (bindE fetched helm_parse) (\<lambda>(releases, failed, pending, revision_count).
           bindE (bo_second io) (\<lambda>u.
             if py_strip u \<noteq> first then Inr (helm_unknown ''boot_identity_changed'')
             else (case now of
                 None \<Rightarrow> Inr (helm_unknown ''observation_time_invalid'')
               | Some n \<Rightarrow> Inr (PDict
                   [(''schema'', PStr HELM_SCHEMA), (''status'', PStr ''partial''),
                    (''reason'', PStr ''helm_metadata_observed_no_values_attestation''), (''scope'', PStr HELM_SCOPE),
                    (''boot_id'', PStr first), (''observed_at'', PStr (iso_text \<lfloor>n\<rfloor>)),
                    (''revision_count'', PInt (int revision_count)), (''failed_revision_count'', PInt (int failed)),
                    (''pending_count'', PInt (int pending)), (''releases'', PList (map release_value releases))]))))) of
        Inl e \<Rightarrow> if os_error e \<or> value_error e \<or> e \<in> {TypeError, KeyError, OverflowError}
                 then Inr (helm_unknown ''helm_metadata_unavailable_or_invalid'') else Inl e
      | Inr v \<Rightarrow> Inr v)"

definition helm_main :: "pyval res \<Rightarrow> rat option \<Rightarrow> boot_io \<Rightarrow> (string \<times> nat) res" where
  [py_defs]: "helm_main fetched now io =
     bindE (helm_snapshot fetched now io) (\<lambda>result. Inr (probe_output result))"

end
