(* ===== verification/Probe_Props.thy ===== *)
theory Probe_Props
  imports Node_Probes Manifest_Probes Role_Props Py_Json_Roundtrip
begin

text \<open>
  Properties of the node and manifest probes: what the Terraform receipt, the bundle manifest and
  the Helm metadata must have been when the probes report something about them.
\<close>


section \<open>Terraform receipt\<close>

lemma bind2_Inr: "bind2 m f = Inr y \<longleftrightarrow> (\<exists>x. m = Inr x \<and> f x = Inr y)"
  by (auto simp: bind2_def split: sum.split)

lemma tagged_Inr: "tagged b r = Inr x \<longleftrightarrow> r = Inr x"
  by (simp add: tagged_def split: sum.split)

lemma apply_unknown_status: "dict_value (apply_unknown reason) ''status'' = PStr ''unknown''"
  by (simp add: apply_unknown_def dict_value_def dget_or_def)

text \<open>The receipt's file: owner, mode and size are those demanded, and it was the same afterwards.\<close>

definition private_file :: "opened \<Rightarrow> stat_info \<Rightarrow> string \<Rightarrow> bool" where
  "private_file h info raw \<longleftrightarrow> op_stat h = Inr info \<and> op_read h = Inr raw \<and> si_regular info \<and> si_uid info = 0
     \<and> si_mode info = 0x180 \<and> length raw = si_size info \<and> si_size info \<le> APPLY_MAX_BYTES
     \<and> (\<exists>after. op_after h = Inr after \<and> same_file after info)"

lemma apply_read_file:
  assumes "apply_read (bo_open io path) = Inr (d, raw, mtime)"
  shows "\<exists>h info. bo_open io path = Inr h \<and> private_file h info raw \<and> mtime = si_mtime info"
  using assms by (auto simp: apply_read_def apply_bytes_def private_file_def Let_def split: if_splits)

text \<open>
  Property C39.  When the Terraform probe reports a receipt, the file belongs to root, is private,
  did not change while it was read, and its lines name the boot the machine is in before and after
  the reading; the bundle is named after the two revisions; the time in it is not before the boot and within half
  a minute of the file's own; and what is reported is what the file says, with its digest.
\<close>

theorem apply_receipt_is_of_this_boot:
  assumes "apply_snapshot sha io = Inr v" and "dict_value v ''status'' = PStr ''partial''"
  shows "\<exists>d raw h info u n. bo_open io APPLY_PATH = Inr h \<and> private_file h info raw
     \<and> apply_read (Inr h) = Inr (d, raw, si_mtime info)
     \<and> same_boot io (fld d ''BOOT_ID'') \<and> 0 \<le> u \<and> u < n
     \<and> hexn 40 (fld d ''INFRA_REVISION'') \<and> hexn 40 (fld d ''INVENTORY_REVISION'')
     \<and> fld d ''BUNDLE_ID'' = take 12 (fld d ''INFRA_REVISION'') @ ''-'' @ take 12 (fld d ''INVENTORY_REVISION'')
     \<and> apply_times_ok u n (int (nat_of_digits (fld d ''APPLIED_AT_EPOCH''))) (si_mtime info)
     \<and> dict_value v ''infra_revision'' = PStr (fld d ''INFRA_REVISION'')
     \<and> dict_value v ''inventory_revision'' = PStr (fld d ''INVENTORY_REVISION'')
     \<and> dict_value v ''receipt_sha256'' = PStr (sha raw)"
proof -
  from assms apply_unknown_status have run: "apply_try sha io = Inr v"
    by (auto simp: apply_snapshot_def split: sum.splits if_splits)
  then obtain first uptime now where clock: "boot_clock io = Inr (first, uptime, now)"
    by (auto simp: apply_try_def bind2_Inr tagged_Inr)
  with run assms(2) obtain u n where ok: "clock_ok uptime now = Some (u, n)" and boot: "boot_id_ok first"
    by (auto simp: apply_try_def bind2_Inr tagged_Inr apply_unknown_status split: option.splits if_splits)
  with run assms(2) clock obtain d raw mtime second where rd: "apply_read (bo_open io APPLY_PATH) = Inr (d, raw, mtime)"
    and id: "apply_identity_ok first d" and "bo_second io = Inr second" "py_strip second = first"
    and tm: "apply_times_ok u n (int (nat_of_digits (fld d ''APPLIED_AT_EPOCH''))) mtime"
    and out: "dict_value v ''infra_revision'' = PStr (fld d ''INFRA_REVISION'')"
      "dict_value v ''inventory_revision'' = PStr (fld d ''INVENTORY_REVISION'')"
      "dict_value v ''receipt_sha256'' = PStr (sha raw)"
    by (auto simp: apply_try_def bind2_Inr tagged_Inr apply_unknown_def Let_def dict_value_def dget_or_def
        split: option.splits if_splits)
  from apply_read_file [OF rd] obtain h info where h: "bo_open io APPLY_PATH = Inr h" "private_file h info raw"
    "mtime = si_mtime info" by blast
  have "same_boot io (fld d ''BOOT_ID'')"
    using clock boot id \<open>bo_second io = _\<close> \<open>py_strip second = first\<close>
    by (auto simp: boot_clock_def same_boot_def apply_identity_ok_def)
  moreover have "0 \<le> u \<and> u < n" using ok by (auto simp: clock_ok_def split: pyfloat.splits if_splits)
  ultimately show ?thesis using rd h id tm out unfolding apply_identity_ok_def h(1) by blast
qed

definition example_apply :: "(string \<times> string) list" where
  "example_apply = [(''SCHEMA'', APPLY_RECEIPT_SCHEMA), (''SCOPE'', APPLY_SCOPE), (''BOOT_ID'', example_boot),
     (''BUNDLE_ID'', ''aaaaaaaaaaaa-bbbbbbbbbbbb''), (''INFRA_REVISION'', replicate 40 (CHR ''a'')),
     (''INVENTORY_REVISION'', replicate 40 (CHR ''b'')), (''APPLIED_AT_EPOCH'', ''1000'')]"

definition apply_text :: string where "apply_text = env_render example_apply"

definition example_apply_io :: boot_io where
  "example_apply_io = (let info = \<lparr>si_regular = True, si_size = length apply_text, si_mode = 0x180, si_uid = 0,
       si_identity = (1, 2, 3), si_mtime = 1000\<rparr> in
     example_io\<lparr>bo_open := \<lambda>path. Inr \<lparr>op_stat = Inr info, op_read = Inr apply_text, op_after = Inr info\<rparr>\<rparr>)"

lemma example_apply_text: "apply_text \<noteq> [] \<and> last apply_text = CHR 0x0A \<and> CHR 0x0D \<notin> set apply_text
    \<and> CHR 0x00 \<notin> set apply_text \<and> is_ascii apply_text \<and> length apply_text \<le> APPLY_MAX_BYTES"
  "bindE (decode_ascii (butlast apply_text)) (\<lambda>t. apply_lines APPLY_FIELDS (split_on CHR 0x0A t)) = Inr example_apply"
  "bindE (decode_ascii (butlast apply_text)) (\<lambda>t. Inr (length (split_on CHR 0x0A t))) = Inr (length APPLY_FIELDS)"
  by code_simp+

lemma example_apply_read: "apply_read (bo_open example_apply_io APPLY_PATH) = Inr (example_apply, apply_text, 1000)"
proof -
  have "0 < length apply_text" using example_apply_text(1) by simp
  moreover have "is_ascii (butlast apply_text)" using example_apply_text(1)
    by (auto simp: is_ascii_def list_all_iff dest: in_set_butlastD)
  ultimately show ?thesis using example_apply_text
    by (simp add: apply_read_def apply_bytes_def example_apply_io_def Let_def decode_ascii_def same_file_def)
qed

lemma apply_receipt_is_of_this_boot_witness:
  "\<exists>v d. apply_snapshot (\<lambda>_. ''0'') example_apply_io = Inr v \<and> same_boot example_apply_io (fld d ''BOOT_ID'')
     \<and> dict_value v ''infra_revision'' = PStr (fld d ''INFRA_REVISION'')
     \<and> fld d ''BUNDLE_ID'' = take 12 (fld d ''INFRA_REVISION'') @ ''-'' @ take 12 (fld d ''INVENTORY_REVISION'')"
proof -
  have clock: "boot_clock example_apply_io = Inr (example_boot, FFin ''100.0'' 100, FFin ''1050.0'' 1050)" by code_simp
  have boot: "boot_id_ok example_boot" by code_simp
  have id: "apply_identity_ok example_boot example_apply" by code_simp
  have second: "bo_second example_apply_io = Inr (example_boot @ [CHR 0x0A])"
    by (simp add: example_apply_io_def example_io_def Let_def)
  have strip: "py_strip (example_boot @ [CHR 0x0A]) = example_boot" by code_simp
  have epoch: "fld example_apply ''APPLIED_AT_EPOCH'' = ''1000''" by (simp add: fld_def example_apply_def)
  have digits: "is_ascii ''1000''" "py_isdigit ''1000''" "nat_of_digits ''1000'' = 1000" by code_simp+
  have tm: "apply_times_ok 100 1050 1000 1000" by (simp add: apply_times_ok_def)
  have now: "utc_text 1050 = Inr ''1970-01-01T00:17:30Z''" unfolding utc_text_numeral by code_simp
  obtain v where v: "apply_snapshot (\<lambda>_. ''0'') example_apply_io = Inr v" "dict_value v ''status'' = PStr ''partial''"
    using clock boot id second strip epoch digits tm now example_stamp example_apply_read
    by (simp add: apply_snapshot_def apply_try_def clock_ok_def bind2_def tagged_def Let_def dict_value_def dget_or_def)
  from apply_receipt_is_of_this_boot [OF v] obtain d where
    "same_boot example_apply_io (fld d ''BOOT_ID'')" "dict_value v ''infra_revision'' = PStr (fld d ''INFRA_REVISION'')"
    "fld d ''BUNDLE_ID'' = take 12 (fld d ''INFRA_REVISION'') @ ''-'' @ take 12 (fld d ''INVENTORY_REVISION'')"
    by (elim exE conjE)
  with v(1) show ?thesis by (intro exI [of _ v] exI [of _ d]) simp
qed

section \<open>Bundle manifest\<close>

text \<open>
  A digest in the bundle report is that of the bytes of the release's own manifest,
  read whole from a file that did not change meanwhile; the bytes are a JSON object with exactly the
  expected keys, whose date is the requested one and whose boot entries belong to the two releases of that date.
\<close>

lemma bundle_digest_is_of_manifest:
  assumes "bundle_inspect float_of sha open_file date = Inr v" and "dict_value v ''status'' = PStr ''partial''"
  shows "\<exists>h info after payload d. date8 date \<and> open_file (BUNDLE_ROOT @ date @ ''.json'') = Inr h
     \<and> op_stat h = Inr info \<and> op_read h = Inr payload \<and> op_after h = Inr after \<and> unchanged info after
     \<and> length payload = si_size info \<and> json_loads_bytes float_of payload = Inr (PDict d)
     \<and> keys_are d ALLOWED_KEYS \<and> dget d ''bundle_date'' = PStr date
     \<and> all_in_list (tftp_entry_ok date) (dget d ''required_tftp_paths'')
     \<and> all_in_list (marker_entry_ok date) (dget d ''markers'')
     \<and> v = bundle_result date ''manifest_bytes_observed_run_binding_unknown'' (Some (sha payload, expected_releases date))"
proof -
  have unknown: "dict_value (bundle_result t reason None) ''status'' \<noteq> PStr ''partial''" for t reason
    by (simp add: bundle_result_def dict_value_def dget_or_def)
  from assms unknown have date: "date8 date" by (auto simp: bundle_inspect_def split: if_splits)
  with assms unknown obtain h where h: "open_file (BUNDLE_ROOT @ date @ ''.json'') = Inr h"
    by (auto simp: bundle_inspect_def split: sum.splits if_splits)
  with assms unknown date obtain payload where payload: "bundle_payload h = Inr (Inr payload)"
    by (auto simp: bundle_inspect_def split: sum.splits if_splits)
  with assms unknown date h obtain data releases where data: "json_loads_bytes float_of payload = Inr data"
    "bundle_manifest data date = Some releases"
    "v = bundle_result date ''manifest_bytes_observed_run_binding_unknown'' (Some (sha payload, releases))"
    by (auto simp: bundle_inspect_def split: sum.splits if_splits option.splits)
  from payload obtain info after where "op_stat h = Inr info" "op_read h = Inr payload" "op_after h = Inr after"
    "unchanged info after" "length payload = si_size info"
    by (auto simp: bundle_payload_def split: if_splits)
  moreover from data(2) obtain d where "data = PDict d" "keys_are d ALLOWED_KEYS" "dget d ''bundle_date'' = PStr date"
    "all_in_list (tftp_entry_ok date) (dget d ''required_tftp_paths'')"
    "all_in_list (marker_entry_ok date) (dget d ''markers'')" "releases = expected_releases date"
    unfolding bundle_manifest_def by (cases data) (simp_all split: if_splits)
  ultimately show ?thesis using date h data(1,3) by blast
qed

definition example_manifest :: pydict where
  "example_manifest = [(''schema'', PInt 1), (''policy'', PStr ''paired_clean''), (''bundle_date'', PStr ''20240101''),
     (''releases'', PDict (expected_releases ''20240101'')), (''target_hosts'', PList [PStr ''w'']),
     (''target_stages'', PList []),
     (''required_tftp_paths'', PList [PDict [(''generation'', PStr ''rpi4''), (''release'', PStr ''20240101-rpi4''),
        (''path'', PStr ''kernel8.img'')]]), (''markers'', PList []), (''metadata'', PDict [])]"

definition manifest_text :: string where "manifest_text = json_enc json_compact (PDict example_manifest)"

definition example_open :: "string \<Rightarrow> opened res" where
  "example_open path = (let info = \<lparr>si_regular = True, si_size = length manifest_text, si_mode = 0x100, si_uid = 0,
       si_identity = (1, 2, 3), si_mtime = 0\<rparr> in
     Inr \<lparr>op_stat = Inr info, op_read = Inr manifest_text, op_after = Inr info\<rparr>)"

lemma manifest_text_facts: "manifest_text \<noteq> [] \<and> length manifest_text \<le> 500" "utf8_decode manifest_text = Some manifest_text"
  by code_simp+

lemma example_manifest_ok: "bundle_manifest (PDict example_manifest) ''20240101'' = Some (expected_releases ''20240101'')"
  by code_simp

section \<open>The latest revisions\<close>

definition hid :: "helm_release \<Rightarrow> (string \<times> string) \<times> nat" where "hid r = (hr_key r, hr_revision r)"

text \<open>What the scan knows after the items \<open>rs\<close>: their revisions, the newest one per release, the failures.\<close>

definition scanned :: "helm_release list \<Rightarrow> helm_scan \<Rightarrow> bool" where
  "scanned rs s \<longleftrightarrow> hs_seen s = map hid rs \<and> distinct (map hid rs)
     \<and> distinct (map fst (hs_latest s)) \<and> fst ` set (hs_latest s) = hr_key ` set rs
     \<and> (\<forall>(k, r) \<in> set (hs_latest s). r \<in> set rs \<and> hr_key r = k
          \<and> (\<forall>q \<in> set rs. hr_key q = k \<longrightarrow> hr_revision q \<le> hr_revision r))
     \<and> hs_failed s = length (filter (\<lambda>r. hr_status r = ''failed'') rs)"

lemma set_update: "distinct (map fst xs) \<Longrightarrow>
    set (AList.update k v xs) = insert (k, v) {p \<in> set xs. fst p \<noteq> k}"
  by (induction xs) (auto simp: image_iff)

lemma scanned_step:
  assumes "scanned rs s" and "helm_step item s = Inr s'"
  shows "\<exists>r. helm_item item = Inr r \<and> scanned (r # rs) s'"
proof -
  from assms(2) obtain r where item: "helm_item item = Inr r" and new: "hid r \<notin> set (hs_seen s)"
    and s': "s' = \<lparr>hs_seen = hid r # hs_seen s,
          hs_latest = (case map_of (hs_latest s) (hr_key r) of
              None \<Rightarrow> AList.update (hr_key r) r (hs_latest s)
            | Some old \<Rightarrow> if hr_revision old < hr_revision r then AList.update (hr_key r) r (hs_latest s) else hs_latest s),
          hs_failed = (if hr_status r = ''failed'' then hs_failed s + 1 else hs_failed s)\<rparr>"
    by (auto simp: helm_step_def helm_bad_def hid_def split: if_splits)
  have d: "distinct (map fst (hs_latest s))" using assms(1) by (simp add: scanned_def)
  consider (kept) old where "map_of (hs_latest s) (hr_key r) = Some old" "hr_revision r \<le> hr_revision old"
      "hs_latest s' = hs_latest s"
    | (put) "hs_latest s' = AList.update (hr_key r) r (hs_latest s)"
      "\<forall>q \<in> set rs. hr_key q = hr_key r \<longrightarrow> hr_revision q \<le> hr_revision r"
  proof (cases "map_of (hs_latest s) (hr_key r)")
    case None
    then have "hr_key r \<notin> hr_key ` set rs" using assms(1) by (simp add: scanned_def map_of_eq_None_iff)
    then have "\<forall>q \<in> set rs. hr_key q = hr_key r \<longrightarrow> hr_revision q \<le> hr_revision r" by (metis imageI)
    then show thesis by (intro put) (simp_all add: s' None)
  next
    case (Some old)
    show thesis
    proof (cases "hr_revision old < hr_revision r")
      case True
      have "(hr_key r, old) \<in> set (hs_latest s)" using Some by (rule map_of_SomeD)
      with assms(1) have "\<forall>q \<in> set rs. hr_key q = hr_key r \<longrightarrow> hr_revision q \<le> hr_revision old"
        by (auto simp: scanned_def)
      with True show thesis by (intro put) (auto simp: s' Some)
    qed (use Some in \<open>auto simp: s' intro!: kept\<close>)
  qed
  moreover have counts: "hs_seen s' = map hid (r # rs)" "distinct (map hid (r # rs))"
      "hs_failed s' = length (filter (\<lambda>r. hr_status r = ''failed'') (r # rs))"
    using assms(1) new by (simp_all add: scanned_def s' hid_def)
  moreover have old: "\<forall>(k, q) \<in> set (hs_latest s). q \<in> set rs \<and> hr_key q = k
      \<and> (\<forall>p \<in> set rs. hr_key p = k \<longrightarrow> hr_revision p \<le> hr_revision q)"
    and keys: "fst ` set (hs_latest s) = hr_key ` set rs" using assms(1) by (simp_all add: scanned_def)
  ultimately have "scanned (r # rs) s'"
  proof cases
    case kept
    have "(hr_key r, old) \<in> set (hs_latest s)" using kept(1) by (rule map_of_SomeD)
    then have "hr_key r \<in> hr_key ` set rs" unfolding keys [symmetric] by (metis fst_conv imageI)
    then have "fst ` set (hs_latest s) = hr_key ` set (r # rs)" using keys by (simp add: insert_absorb)
    moreover have "q = old" if "(hr_key r, q) \<in> set (hs_latest s)" for q
      using that kept(1) d by simp
    then have "\<forall>(k, q) \<in> set (hs_latest s). q \<in> set (r # rs) \<and> hr_key q = k
        \<and> (\<forall>p \<in> set (r # rs). hr_key p = k \<longrightarrow> hr_revision p \<le> hr_revision q)"
      using old kept(2) by auto
    ultimately show ?thesis using counts d unfolding scanned_def kept(3) by blast
  next
    case put
    have latest: "set (hs_latest s') = insert (hr_key r, r) {p \<in> set (hs_latest s). fst p \<noteq> hr_key r}"
      unfolding put(1) by (rule set_update [OF d])
    have "distinct (map fst (hs_latest s'))" unfolding put(1) using d by (rule distinct_update)
    moreover have "fst ` set (hs_latest s') = hr_key ` set (r # rs)"
    proof -
      have "fst ` {p \<in> set (hs_latest s). fst p \<noteq> hr_key r} = fst ` set (hs_latest s) - {hr_key r}" by auto
      then show ?thesis unfolding latest using keys by simp
    qed
    moreover have "\<forall>(k, q) \<in> set (hs_latest s'). q \<in> set (r # rs) \<and> hr_key q = k
        \<and> (\<forall>p \<in> set (r # rs). hr_key p = k \<longrightarrow> hr_revision p \<le> hr_revision q)"
      unfolding latest using old put(2) by auto
    ultimately show ?thesis using counts unfolding scanned_def by blast
  qed
  with item show ?thesis by blast
qed
text \<open>Each release of the answer is the item with the highest revision of its key.\<close>

definition latest_of :: "helm_release list \<Rightarrow> helm_release list \<Rightarrow> bool" where
  "latest_of items releases \<longleftrightarrow> sorted_wrt (\<lambda>a b. hr_key a < hr_key b) releases
     \<and> hr_key ` set releases = hr_key ` set items
     \<and> (\<forall>r \<in> set releases. r \<in> set items
          \<and> (\<forall>q \<in> set items. hr_key q = hr_key r \<longrightarrow> hr_revision q \<le> hr_revision r))"

lemma scanned_foldE:
  "foldE helm_step items s = Inr s' \<Longrightarrow> scanned rs s \<Longrightarrow>
     \<exists>qs. map helm_item items = map Inr qs \<and> scanned (rev qs @ rs) s'"
proof (induction items arbitrary: rs s)
  case (Cons item items)
  then obtain s1 where step: "helm_step item s = Inr s1" and rest: "foldE helm_step items s1 = Inr s'" by auto
  from scanned_step [OF Cons.prems(2) step] obtain r where r: "helm_item item = Inr r" "scanned (r # rs) s1" by blast
  from Cons.IH [OF rest r(2)] obtain qs where "map helm_item items = map Inr qs" "scanned (rev qs @ r # rs) s'" by blast
  with r(1) show ?case by (intro exI [of _ "r # qs"]) simp
qed simp

lemma latest_of_scanned:
  assumes "scanned (rev qs) s"
  shows "latest_of qs (sort_key hr_key (map snd (hs_latest s)))"
proof -
  have keys: "map hr_key (map snd (hs_latest s)) = map fst (hs_latest s)"
    using assms by (auto simp: scanned_def)
  have "distinct (map hr_key (map snd (hs_latest s)))" unfolding keys using assms by (simp add: scanned_def)
  then have "distinct (map hr_key (sort_key hr_key (map snd (hs_latest s))))" by (simp only: distinct_map distinct_sort set_sort)
  moreover have "sorted (map hr_key (sort_key hr_key (map snd (hs_latest s))))" by simp
  ultimately have "sorted_wrt (<) (map hr_key (sort_key hr_key (map snd (hs_latest s))))"
    by (simp add: strict_sorted_iff)
  then have "sorted_wrt (\<lambda>a b. hr_key a < hr_key b) (sort_key hr_key (map snd (hs_latest s)))"
    by (simp only: sorted_wrt_map)
  moreover have "hr_key ` set (map snd (hs_latest s)) = hr_key ` set qs"
  proof -
    have "hr_key ` set (map snd (hs_latest s)) = set (map hr_key (map snd (hs_latest s)))" by (rule set_map [symmetric])
    also have "\<dots> = fst ` set (hs_latest s)" unfolding keys by (rule set_map)
    finally show ?thesis using assms by (simp add: scanned_def)
  qed
  ultimately show ?thesis using assms unfolding latest_of_def
    by (auto simp: scanned_def)
qed

text \<open>
  Property C40.  When the Helm probe accepts an answer, every listed item was a revision record, no
  revision is listed twice, and the releases it reports are, in order of their names, exactly one per
  release of the answer: the record with the highest revision.  The counts are those of the answer.
\<close>

theorem helm_latest:
  assumes "helm_parse (PDict d) = Inr (releases, failed, pending, n)"
  shows "\<exists>items records. dget d ''items'' = PList items \<and> map helm_item items = map Inr records
     \<and> distinct (map hid records) \<and> latest_of records releases
     \<and> failed = length (filter (\<lambda>r. hr_status r = ''failed'') records)
     \<and> pending = length (filter (\<lambda>r. startswith (hr_status r) ''pending-'') releases)
     \<and> n = length records \<and> n \<le> MAX_RECORDS \<and> length releases \<le> MAX_RELEASES"
proof -
  from assms obtain items s where items: "dget d ''items'' = PList items" "length items \<le> MAX_RECORDS"
    and fold: "foldE helm_step items \<lparr>hs_seen = [], hs_latest = [], hs_failed = 0\<rparr> = Inr s"
    and few: "length (hs_latest s) \<le> MAX_RELEASES"
    and out: "releases = sort_key hr_key (map snd (hs_latest s))" "failed = hs_failed s"
      "pending = length (filter (\<lambda>r. startswith (hr_status r) ''pending-'') releases)" "n = length items"
    by (auto simp: helm_parse_def helm_bad_def Let_def split: pyval.splits if_splits)
  have "scanned [] \<lparr>hs_seen = [], hs_latest = [], hs_failed = 0\<rparr>" by (simp add: scanned_def)
  from scanned_foldE [OF fold this] obtain qs where qs: "map helm_item items = map Inr qs" "scanned (rev qs) s" by auto
  have n: "length items = length qs" using arg_cong [OF qs(1), of length] by simp
  have "distinct (map hid qs)" using qs(2) by (simp add: scanned_def flip: rev_map)
  moreover have "failed = length (filter (\<lambda>r. hr_status r = ''failed'') qs)"
    using qs(2) by (simp add: scanned_def out flip: rev_filter)
  moreover have "latest_of qs releases" unfolding out(1) using qs(2) by (rule latest_of_scanned)
  moreover have "length releases \<le> MAX_RELEASES" using few by (simp add: out(1))
  ultimately show ?thesis using items qs(1) out(3,4) n by blast
qed

definition helm_example_item :: "string \<Rightarrow> string \<Rightarrow> string \<Rightarrow> pyval" where
  "helm_example_item name version status = PDict [(''apiVersion'', PStr ''meta.k8s.io/v1''), (''kind'', PStr ''PartialObjectMetadata''),
     (''metadata'', PDict [(''namespace'', PStr ''monitoring''), (''labels'', PDict [(''owner'', PStr ''helm''),
        (''name'', PStr name), (''status'', PStr status), (''version'', PStr version)])])]"

definition helm_example :: pydict where
  "helm_example = [(''kind'', PStr ''PartialObjectMetadataList''), (''apiVersion'', PStr ''meta.k8s.io/v1''),
     (''metadata'', PDict []), (''items'', PList [helm_example_item ''loki'' ''9'' ''superseded'',
        helm_example_item ''loki'' ''10'' ''deployed'', helm_example_item ''alloy'' ''1'' ''failed''])]"

lemma helm_example_result: "helm_parse (PDict helm_example) = Inr
   ([\<lparr>hr_namespace = ''monitoring'', hr_name = ''alloy'', hr_revision = 1, hr_status = ''failed''\<rparr>,
     \<lparr>hr_namespace = ''monitoring'', hr_name = ''loki'', hr_revision = 10, hr_status = ''deployed''\<rparr>], 1, 0, 3)"
  by code_simp

lemma helm_latest_witness:
  "\<exists>items records. dget helm_example ''items'' = PList items \<and> map helm_item items = map Inr records
     \<and> 3 = length records \<and> latest_of records
      [\<lparr>hr_namespace = ''monitoring'', hr_name = ''alloy'', hr_revision = 1, hr_status = ''failed''\<rparr>,
       \<lparr>hr_namespace = ''monitoring'', hr_name = ''loki'', hr_revision = 10, hr_status = ''deployed''\<rparr>]"
  using helm_latest [OF helm_example_result] by blast

end
