(* ===== verification/Source_Pin.thy ===== *)
theory Source_Pin
  imports Status_Common
begin

text \<open>
  The boot-time reader of the source declaration, \<open>pxe-source-pin.py\<close> of the role
  \<open>openwrt_gentoo_rootfs\<close>: it decides whether a node boots from a pinned revision of the
  infrastructure repository or in legacy mode, and prints the answer in one line.  SHA-256 is an
  argument, as is what \<open>lstat\<close> and the opened file return.
\<close>

definition PIN_DECL_SCHEMA :: string where [py_defs]: "PIN_DECL_SCHEMA = ''homecluster-pxe-source-declaration-v1''"
definition JSON_MAX :: nat where [py_defs]: "JSON_MAX = 4096"
definition PIN_ERR_MSG :: string where [py_defs]: "PIN_ERR_MSG = ''source_pin_invalid''"

definition EXPECTED_KEYS :: "string list" where
  [py_defs]: "EXPECTED_KEYS = [''schema'', ''environment'', ''build_id'', ''infra_revision'']"

definition KNOWN_STAGES :: "string list" where
  [py_defs]: "KNOWN_STAGES = [''stg'', ''staging'', ''prod'', ''prd'', ''production'']"

definition PINNED_STAGES :: "string list" where
  [py_defs]: "PINNED_STAGES = [''stg'', ''staging'']"

text \<open>The keys of all objects of a document.  The hook keeps one set for the whole document, so a
  nested object may not repeat a key of an outer one either.\<close>

function all_keys :: "pyval \<Rightarrow> string list" where
  "all_keys (PDict d) = concat (map (\<lambda>(k, v). k # all_keys v) d)"
| "all_keys (PList xs) = concat (map all_keys xs)"
| "all_keys PNone = []"
| "all_keys (PBool b) = []"
| "all_keys (PInt i) = []"
| "all_keys (PFloat f) = []"
| "all_keys (PStr s) = []"
  by pat_completeness auto
termination
  by (relation "measure size")
    (auto simp: size_list_estimation' less_Suc_eq_le dest: size_pair_item size_pair_item')

definition raw_decode :: "(string \<Rightarrow> pyfloat) \<Rightarrow> string \<Rightarrow> pyval res" where
  [py_defs]: "raw_decode float_of t = bindE (json_parse float_of t) (\<lambda>v.
     if distinct (all_keys v) then Inr v else Inl (ValueError ''Duplicate key''))"

definition pinned_result :: "string \<Rightarrow> string \<Rightarrow> string \<Rightarrow> pydict" where
  [py_defs]: "pinned_result revision build_id digest =
     [(''mode'', PStr ''pinned''), (''infra_revision'', PStr revision), (''build_id'', PStr build_id),
      (''declaration_sha256'', PStr digest)]"

definition decode_declaration ::
    "(string \<Rightarrow> pyfloat) \<Rightarrow> (string \<Rightarrow> string) \<Rightarrow> string \<Rightarrow> string \<Rightarrow> pydict res" where
  [py_defs]: "decode_declaration float_of sha raw stage =
     (if length raw = 0 \<or> length raw > JSON_MAX then Inl (ValueError ''raw size'')
      else (case utf8_decode raw of
          None \<Rightarrow> Inl (ValueError ''not valid UTF-8'')
        | Some t \<Rightarrow>
            bindE (raw_decode float_of t) (\<lambda>obj. case obj of
              PDict d \<Rightarrow>
                (if \<not> keys_are d EXPECTED_KEYS then Inl (ValueError ''keys'')
                 else if list_ex (\<lambda>k. \<not> is_str (dget d k)) EXPECTED_KEYS then Inl (ValueError ''must be a string'')
                 else if dget d ''schema'' \<noteq> PStr PIN_DECL_SCHEMA then Inl (ValueError ''schema'')
                 else if dget d ''environment'' \<noteq> PStr ''staging'' then Inl (ValueError ''environment'')
                 else if stage \<notin> set PINNED_STAGES then Inl (ValueError ''stage'')
                 else if \<not> build_id_ok (py_str (dget d ''build_id'')) then Inl (ValueError ''build_id'')
                 else if \<not> hexn 40 (py_str (dget d ''infra_revision'')) then Inl (ValueError ''infra_revision'')
                 else Inr (pinned_result (py_str (dget d ''infra_revision'')) (py_str (dget d ''build_id'')) (sha raw)))
            | _ \<Rightarrow> Inl (ValueError ''JSON root must be an object''))))"

text \<open>The bytes of the declaration: a regular file of one to 4096 bytes.\<close>

definition pin_payload :: "opened res \<Rightarrow> string res" where
  [py_defs]: "pin_payload file_opened = (case file_opened of
       Inl e \<Rightarrow> if e = FileNotFoundError then Inl (ValueError ''SOURCE_PATH missing for pinned mode'')
                else if os_error e then Inl (ValueError ''SOURCE_PATH unavailable'') else Inl e
     | Inr h \<Rightarrow> bindE (op_stat h) (\<lambda>info.
         if \<not> si_regular info then Inl (ValueError ''SOURCE_PATH is not a regular file'')
         else bindE (op_read h) (\<lambda>payload.
           if length payload > JSON_MAX then Inl (ValueError ''declaration exceeds its limit'')
           else if payload = [] then Inl (ValueError ''declaration is empty'')
           else Inr payload)))"

text \<open>\<open>None\<close> is legacy mode, which asks for the declaration to be absent.\<close>

definition pin_resolve ::
    "(string \<Rightarrow> pyfloat) \<Rightarrow> (string \<Rightarrow> string) \<Rightarrow> stat_info res \<Rightarrow> opened res \<Rightarrow> string \<Rightarrow> string \<Rightarrow> pydict res" where
  [py_defs]: "pin_resolve float_of sha lstat file_opened mode stage =
     (if mode \<noteq> ''legacy'' \<and> mode \<noteq> ''pinned'' then Inl (ValueError ''mode'')
      else if stage \<notin> set KNOWN_STAGES then Inl (ValueError ''stage'')
      else if mode = ''legacy''
      then (case lstat of
          Inr info \<Rightarrow> Inl (ValueError ''SOURCE_PATH exists; cannot use legacy mode'')
        | Inl e \<Rightarrow> if e = FileNotFoundError then Inr [(''mode'', PStr ''legacy'')] else Inl e)
      else if stage \<notin> set PINNED_STAGES then Inl (ValueError ''pinned mode requires staging stage'')
      else bindE (pin_payload file_opened) (\<lambda>payload. decode_declaration float_of sha payload stage))"

text \<open>Standard output, standard error and exit code.\<close>

definition pin_source_main ::
    "(string \<Rightarrow> pyfloat) \<Rightarrow> (string \<Rightarrow> string) \<Rightarrow> stat_info res \<Rightarrow> opened res \<Rightarrow> string \<Rightarrow> string
       \<Rightarrow> (string \<times> string \<times> nat) res" where
  [py_defs]: "pin_source_main float_of sha lstat file_opened mode stage =
     (case pin_resolve float_of sha lstat file_opened mode stage of
        Inl e \<Rightarrow> if value_error e \<or> os_error e then Inr ([], PIN_ERR_MSG @ [CHR 0x0A], 2) else Inl e
      | Inr result \<Rightarrow>
          (if dget result ''mode'' = PStr ''legacy'' then Inr (''legacy - - -'' @ [CHR 0x0A], [], 0)
           else Inr (py_join '' '' (map (\<lambda>k. py_str (dget result k))
                [''mode'', ''infra_revision'', ''build_id'', ''declaration_sha256'']) @ [CHR 0x0A], [], 0)))"

end
