(* ===== verification/Source_Pin_Props.thy ===== *)
theory Source_Pin_Props
  imports Source_Pin Node_Probes Py_Json_Roundtrip
begin

text \<open>
  The boot-time reader of the source declaration and the status probe of the same file are two
  separate programs; they are shown to accept the same declarations.
\<close>


text \<open>A dictionary whose values are all strings has no nested keys.\<close>

lemma all_keys_strings:
  assumes "\<forall>(k, v) \<in> set d. is_str v"
  shows "all_keys (PDict d) = map fst d" and "list_all (\<lambda>(k, v). wf_val v) d"
  using assms by (induction d) (auto simp: is_str_def split: pyval.splits)

lemma distinct_all_keys: "distinct (all_keys (PDict d)) \<Longrightarrow> distinct (map fst d)"
proof (induction d)
  case (Cons kv d)
  obtain k v where kv: "kv = (k, v)" by force
  have "fst ` set d \<subseteq> set (all_keys (PDict d))" by force
  moreover have "k \<notin> set (all_keys (PDict d))" "distinct (all_keys (PDict d))" using Cons.prems by (simp_all add: kv)
  ultimately show ?case using Cons.IH by (auto simp: kv)
qed simp

lemma raw_decode_strings:
  assumes "keys_are d EXPECTED_KEYS" and "list_all (\<lambda>k. is_str (dget d k)) EXPECTED_KEYS"
  shows "raw_decode float_of t = Inr (PDict d) \<longleftrightarrow> json_loads_unique float_of t = Inr (PDict d)"
proof -
  have strings: "all_keys (PDict d) = map fst d \<and> wf_val (PDict d)" if "distinct (map fst d)"
  proof -
    have "\<forall>(k, v) \<in> set d. is_str v" by (rule keys_are_all [where P = is_str, OF assms(1) that assms(2)])
    from all_keys_strings [OF this] that show ?thesis by (simp only: wf_val.simps simp_thms)
  qed
  have same: "distinct (all_keys (PDict d)) \<longleftrightarrow> wf_val (PDict d)"
  proof (cases "distinct (map fst d)")
    case True
    from strings [OF this] True show ?thesis by (simp only: simp_thms)
  next
    case False
    have "\<not> distinct (all_keys (PDict d))" by (rule contrapos_nn [OF False]) (rule distinct_all_keys)
    moreover have "\<not> wf_val (PDict d)" by (rule contrapos_nn [OF False]) (rule wf_val_distinct)
    ultimately show ?thesis by (simp only: simp_thms)
  qed
  have "raw_decode float_of t = Inr (PDict d) \<longleftrightarrow> json_parse float_of t = Inr (PDict d) \<and> distinct (all_keys (PDict d))"
    "json_loads_unique float_of t = Inr (PDict d) \<longleftrightarrow> json_parse float_of t = Inr (PDict d) \<and> wf_val (PDict d)"
    by (auto simp: raw_decode_def json_loads_unique_def simp del: all_keys.simps wf_val.simps split: if_splits)
  then show ?thesis unfolding same by (simp only:)
qed

lemma decl_value_ok_iff:
  "decl_value_ok (PDict d) \<longleftrightarrow> keys_are d EXPECTED_KEYS \<and> list_all (\<lambda>k. is_str (dget d k)) EXPECTED_KEYS
     \<and> dget d ''schema'' = PStr PIN_DECL_SCHEMA \<and> dget d ''environment'' = PStr ''staging''
     \<and> build_id_ok (py_str (dget d ''build_id'')) \<and> hexn 40 (py_str (dget d ''infra_revision''))"
  by (auto simp: decl_value_ok_def DECL_FIELDS_def EXPECTED_KEYS_def PIN_DECL_SCHEMA_def str_such_def is_str_def
      py_str_def split: pyval.splits)

lemma decode_iff:
  assumes "raw \<noteq> []" and "length raw \<le> JSON_MAX" and "stage \<in> set PINNED_STAGES"
  shows "decode_declaration float_of sha raw stage = Inr r \<longleftrightarrow>
    (\<exists>t d. utf8_decode raw = Some t \<and> json_loads_unique float_of t = Inr (PDict d) \<and> decl_value_ok (PDict d)
       \<and> r = pinned_result (py_str (dget d ''infra_revision'')) (py_str (dget d ''build_id'')) (sha raw))"
proof -
  have "decode_declaration float_of sha raw stage = Inr r \<longleftrightarrow>
    (\<exists>t d. utf8_decode raw = Some t \<and> raw_decode float_of t = Inr (PDict d) \<and> decl_value_ok (PDict d)
       \<and> r = pinned_result (py_str (dget d ''infra_revision'')) (py_str (dget d ''build_id'')) (sha raw))"
  proof (cases "utf8_decode raw")
    case (Some t)
    show ?thesis
    proof (cases "raw_decode float_of t")
      case (Inr obj)
      have "list_ex (\<lambda>k. \<not> is_str (dget d k)) EXPECTED_KEYS \<longleftrightarrow> \<not> list_all (\<lambda>k. is_str (dget d k)) EXPECTED_KEYS" for d
        by (simp add: EXPECTED_KEYS_def)
      with Some Inr assms show ?thesis unfolding decl_value_ok_iff
        by (cases obj) (auto simp: decode_declaration_def)
    qed (use Some assms in \<open>simp add: decode_declaration_def\<close>)
  qed (use assms in \<open>simp add: decode_declaration_def\<close>)
  then show ?thesis using raw_decode_strings unfolding decl_value_ok_iff by blast
qed


definition example_decl :: pydict where
  "example_decl = [(''schema'', PStr PIN_DECL_SCHEMA), (''environment'', PStr ''staging''), (''build_id'', PStr ''b1''),
     (''infra_revision'', PStr (replicate 40 (CHR ''a'')))]"

definition decl_text :: string where "decl_text = json_enc json_compact (PDict example_decl)"

definition decl_opened :: opened where
  "decl_opened = (let info = \<lparr>si_regular = True, si_size = length decl_text, si_mode = 0x124, si_uid = 0,
       si_identity = (1, 2, 3), si_mtime = 0\<rparr> in
     \<lparr>op_stat = Inr info, op_read = Inr decl_text, op_after = Inr info\<rparr>)"

lemma decl_text_facts: "0 < length decl_text \<and> length decl_text \<le> DECL_MAX_BYTES" "utf8_decode decl_text = Some decl_text"
  "decl_value_ok (PDict example_decl)" "json_ok (\<lambda>_. FNaN) (PDict example_decl)"
proof -
  show "json_ok (\<lambda>_. FNaN) (PDict example_decl)" by (simp add: example_decl_def)
qed code_simp+


end
