(* ===== verification/Producer_Contract.thy ===== *)
theory Producer_Contract
  imports Status_Common Identity_Probes
begin

text \<open>
  The producer receipt of a pair of build artifacts, \<open>pxe_producer_receipt_contract.py\<close> of the
  role \<open>openwrt_gentoo_rootfs\<close>: how an input file is read without following links, what a valid
  receipt is, how its identifier binds its contents, and the read-only probe of a stored receipt.
  SHA-256 and the results of the system calls are arguments.
\<close>

section \<open>Scalars\<close>

definition RECEIPT_SCHEMA :: string where [py_defs]: "RECEIPT_SCHEMA = ''homecluster-pxe-producer-receipt-v1''"
definition RECEIPT_DOMAIN :: string where
  [py_defs]: "RECEIPT_DOMAIN = ''homecluster-pxe-producer-receipt-v1'' @ [CHR 0x00]"
definition GENERATIONS :: "string list" where [py_defs]: "GENERATIONS = [''rpi4'', ''rpi5'']"
definition RECEIPT_KEYS :: "string list" where
  [py_defs]: "RECEIPT_KEYS = [''schema'', ''scope'', ''environment'', ''build_id'', ''generation_profile'',
     ''bundle_date'', ''infra_generation_revision'', ''artifact_manifest_sha256'', ''source_declarations'',
     ''artifacts'', ''capture_window'', ''receipt_id'']"
definition MAX_RECEIPT :: nat where [py_defs]: "MAX_RECEIPT = 256 * 1024"
definition MAX_TFTP_FILE :: int where [py_defs]: "MAX_TFTP_FILE = 2 * 1024 * 1024 * 1024"
definition RECEIPT_ROOT :: string where [py_defs]: "RECEIPT_ROOT = ''/srv/gentoo''"

definition bad :: "string \<Rightarrow> 'a res" where [py_defs]: "bad m = Inl (ValueError m)"

definition pc_string :: "pyval \<Rightarrow> (string \<Rightarrow> bool) \<Rightarrow> string res" where
  [py_defs]: "pc_string v pattern = (case v of
       PStr s \<Rightarrow> if pattern s then Inr s else bad ''invalid producer identity''
     | _ \<Rightarrow> bad ''invalid producer identity'')"

definition digits8 :: "string \<Rightarrow> bool" where
  [py_defs]: "digits8 s \<longleftrightarrow> length s = 8 \<and> list_all ascii_digit s"

definition pc_date :: "pyval \<Rightarrow> string res" where
  [py_defs]: "pc_date v = bindE (pc_string v digits8) (\<lambda>s.
     if date8 s then Inr s else bad ''time data does not match format'')"

text \<open>\<open>2024-02-29T12:34:56Z\<close>: the form, and what \<open>strptime\<close> takes of it.\<close>

definition number_in :: "nat \<Rightarrow> nat \<Rightarrow> string \<Rightarrow> nat" where
  [py_defs]: "number_in i n s = nat_of_digits (take n (drop i s))"

definition stamp_form :: "string \<Rightarrow> bool" where
  [py_defs]: "stamp_form s \<longleftrightarrow> length s = 20
     \<and> list_all (\<lambda>i. ascii_digit (s ! i)) [0, 1, 2, 3, 5, 6, 8, 9, 11, 12, 14, 15, 17, 18]
     \<and> s ! 4 = CHR ''-'' \<and> s ! 7 = CHR ''-'' \<and> s ! 10 = CHR ''T'' \<and> s ! 13 = CHR '':'' \<and> s ! 16 = CHR '':''
     \<and> s ! 19 = CHR ''Z''"

definition stamp_ok :: "string \<Rightarrow> bool" where
  [py_defs]: "stamp_ok s \<longleftrightarrow> date8 (take 4 s @ take 2 (drop 5 s) @ take 2 (drop 8 s))
     \<and> number_in 11 2 s < 24 \<and> number_in 14 2 s < 60 \<and> number_in 17 2 s < 60"

definition pc_timestamp :: "pyval \<Rightarrow> string res" where
  [py_defs]: "pc_timestamp v = bindE (pc_string v stamp_form) (\<lambda>s.
     if stamp_ok s then Inr s else bad ''time data does not match format'')"

definition pc_object :: "pyval \<Rightarrow> string list \<Rightarrow> pydict res" where
  [py_defs]: "pc_object v ks = (case v of
       PDict d \<Rightarrow> if keys_are d ks then Inr d else bad ''invalid producer object''
     | _ \<Rightarrow> bad ''invalid producer object'')"

section \<open>JSON\<close>

text \<open>
  The parser with both hooks: repeated keys and the constants \<open>NaN\<close> and \<open>Infinity\<close> raise.  A
  constant is told from a literal that overflows by parsing with every literal read as zero.
\<close>

definition pc_json :: "(string \<Rightarrow> pyfloat) \<Rightarrow> string \<Rightarrow> pyval res" where
  [py_defs]: "pc_json float_of raw = (case utf8_decode raw of
       None \<Rightarrow> Inl json_error
     | Some t \<Rightarrow> bindE (json_parse (\<lambda>_. FFin [] 0) t) (\<lambda>shape.
         if \<not> all_finite shape then bad ''invalid JSON constant'' else json_loads_unique float_of t))"

definition pc_canonical :: "pyval \<Rightarrow> string res" where
  [py_defs]: "pc_canonical v = json_dumps_finite json_compact (sorted_value v)"

definition pc_receipt_id :: "(string \<Rightarrow> string) \<Rightarrow> pydict \<Rightarrow> string res" where
  [py_defs]: "pc_receipt_id sha d =
     bindE (pc_canonical (PDict (filter (\<lambda>(k, v). k \<noteq> ''receipt_id'') d))) (\<lambda>payload.
       Inr (''sha256:'' @ sha (RECEIPT_DOMAIN @ payload)))"

section \<open>Reading a file\<close>

text \<open>\<open>os.stat_result\<close>, and what the calls on the way to a file answer: \<open>stat\<close> of each
  directory by name, \<open>fstat\<close> of the descriptor opened for it, \<open>stat\<close> by name when
  the block is left; then the file's \<open>fstat\<close>, the chunks read, and its two last \<open>stat\<close>s.\<close>

record node_stat =
  ns_dev :: int
  ns_ino :: int
  ns_mode :: nat
  ns_size :: nat
  ns_uid :: int
  ns_gid :: int
  ns_mtime :: int
  ns_ctime :: int

record dir_step =
  ds_before :: "node_stat res"
  ds_child :: "node_stat res"
  ds_after :: "node_stat res"

record file_read =
  fr_before :: "node_stat res"
  fr_chunks :: "string res list"
  fr_after :: "node_stat res"
  fr_named :: "node_stat res"

record producer_io =
  io_dirs :: "string \<Rightarrow> dir_step list"
  io_open :: "string \<Rightarrow> file_read res"

text \<open>The binding of a directory: device, inode and mode.\<close>

definition same_binding :: "node_stat \<Rightarrow> node_stat \<Rightarrow> bool" where
  [py_defs]: "same_binding a b \<longleftrightarrow> ns_dev a = ns_dev b \<and> ns_ino a = ns_ino b \<and> ns_mode a = ns_mode b"

text \<open>\<open>S_ISREG\<close>.\<close>

definition regular_mode :: "nat \<Rightarrow> bool" where
  [py_defs]: "regular_mode m \<longleftrightarrow> and m 0xF000 = 0x8000"

fun enter_dirs :: "dir_step list \<Rightarrow> unit res" where
  "enter_dirs [] = Inr ()"
| "enter_dirs (s # ss) = bindE (ds_before s) (\<lambda>before. bindE (ds_child s) (\<lambda>child.
     if before \<noteq> child then bad ''producer directory changed'' else enter_dirs ss))"

fun leave_dirs :: "dir_step list \<Rightarrow> unit res" where
  "leave_dirs [] = Inr ()"
| "leave_dirs (s # ss) = bindE (ds_before s) (\<lambda>before. bindE (ds_after s) (\<lambda>after.
     if \<not> same_binding before after then bad ''producer directory binding changed'' else leave_dirs ss))"

text \<open>The context manager around a block.\<close>

definition in_directory :: "producer_io \<Rightarrow> string \<Rightarrow> 'a res \<Rightarrow> 'a res" where
  [py_defs]: "in_directory io path block =
     (if ''..'' \<in> set (path_parts path) then bad ''invalid producer path''
      else bindE (enter_dirs (io_dirs io path)) (\<lambda>u. bindE block (\<lambda>x. bindE (leave_dirs (io_dirs io path)) (\<lambda>u. Inr x))))"

text \<open>The loop over the chunks: an empty one is the end of the file.\<close>

fun read_chunks :: "nat \<Rightarrow> nat \<Rightarrow> string res list \<Rightarrow> string res" where
  "read_chunks limit n [] = Inr []"
| "read_chunks limit n (r # rs) = bindE r (\<lambda>chunk.
     if chunk = [] then Inr []
     else if n + length chunk > limit then bad ''producer input exceeds budget''
     else bindE (read_chunks limit (n + length chunk) rs) (\<lambda>rest. Inr (chunk @ rest)))"

definition read_stable :: "file_read \<Rightarrow> nat \<Rightarrow> string res" where
  [py_defs]: "read_stable h limit = bindE (fr_before h) (\<lambda>before.
     if \<not> regular_mode (ns_mode before) \<or> \<not> (0 < ns_size before \<and> ns_size before \<le> limit)
     then bad ''invalid producer input file''
     else bindE (read_chunks limit 0 (fr_chunks h)) (\<lambda>raw.
       if length raw \<noteq> ns_size before then bad ''producer input changed''
       else bindE (fr_after h) (\<lambda>after.
         if before \<noteq> after then bad ''producer input changed''
         else bindE (fr_named h) (\<lambda>named.
           if before \<noteq> named then bad ''producer input changed'' else Inr raw))))"

definition pc_file :: "producer_io \<Rightarrow> string \<Rightarrow> string \<Rightarrow> nat \<Rightarrow> string res" where
  [py_defs]: "pc_file io parent name limit =
     in_directory io parent (bindE (io_open io (parent @ ''/'' @ name)) (\<lambda>h. read_stable h limit))"


section \<open>The receipt\<close>

definition pc_window :: "pyval \<Rightarrow> unit res" where
  [py_defs]: "pc_window v = bindE (pc_object v [''started_at'', ''finished_at'']) (\<lambda>d.
     bindE (pc_timestamp (dget d ''started_at'')) (\<lambda>a. bindE (pc_timestamp (dget d ''finished_at'')) (\<lambda>b.
       if b < a then bad ''producer clock moved backwards'' else Inr ())))"

definition required_form :: "string \<Rightarrow> bool" where
  [py_defs]: "required_form s \<longleftrightarrow> s \<noteq> [] \<and> length s \<le> 512 \<and> ascii_alnum (hd s) \<and> list_all path_char (tl s)"

definition pc_required_path :: "pyval \<Rightarrow> string res" where
  [py_defs]: "pc_required_path v = bindE (pc_string v required_form) (\<lambda>s.
     if list_ex (\<lambda>part. part \<in> {[], ''.'', ''..''}) (split_on CHR ''/'' s) then bad ''unsafe required artifact path''
     else Inr s)"

definition int_in :: "int \<Rightarrow> int \<Rightarrow> pyval \<Rightarrow> bool" where
  [py_defs]: "int_in lo hi v \<longleftrightarrow> (case v of PInt i \<Rightarrow> lo \<le> i \<and> i \<le> hi | _ \<Rightarrow> False)"

definition pc_tree :: "pyval \<Rightarrow> unit res" where
  [py_defs]: "pc_tree v =
     bindE (pc_object v [''schema'', ''algorithm'', ''digest'', ''entries'', ''regular_file_bytes'']) (\<lambda>t.
       if dget t ''schema'' \<noteq> PStr ''homecluster-pxe-artifact-tree-v1'' \<or> dget t ''algorithm'' \<noteq> PStr ''sha256-posix-tree-v1''
       then bad ''unsupported producer artifact digest''
       else bindE (pc_string (dget t ''digest'') (hexn 64)) (\<lambda>u.
         if \<not> int_in 1 1000000 (dget t ''entries'') \<or> \<not> int_in 0 (1024 ^ 4) (dget t ''regular_file_bytes'')
         then bad ''invalid producer artifact counts'' else Inr ()))"

text \<open>One required file; the result is its path.\<close>

definition pc_required_item :: "pyval \<Rightarrow> string res" where
  [py_defs]: "pc_required_item item = (case item of
       PDict d \<Rightarrow> bindE (pc_required_path (dget d ''path'')) (\<lambda>name.
         if name = ''overlays'' then
           bindE (pc_object item [''path'', ''type'']) (\<lambda>u.
             if dget d ''type'' \<noteq> PStr ''directory'' then bad ''invalid producer overlays'' else Inr name)
         else
           bindE (pc_object item [''path'', ''type'', ''sha256'', ''size'']) (\<lambda>u.
             if dget d ''type'' \<noteq> PStr ''regular'' \<or> \<not> int_in 1 MAX_TFTP_FILE (dget d ''size'')
             then bad ''invalid required producer file''
             else bindE (pc_string (dget d ''sha256'') (hexn 64)) (\<lambda>u. Inr name)))
     | _ \<Rightarrow> bad ''invalid required producer artifact'')"

text \<open>\<open>kernel[A-Za-z0-9._-]*\.img\<close>, and the files without which a board does not boot.\<close>

definition image_named :: "string \<Rightarrow> string \<Rightarrow> bool" where
  [py_defs]: "image_named stem name \<longleftrightarrow> startswith name stem \<and> length stem + 4 \<le> length name
     \<and> drop (length name - 4) name = ''.img'' \<and> list_all build_char (drop (length stem) name)"

definition boot_complete :: "string \<Rightarrow> string list \<Rightarrow> bool" where
  [py_defs]: "boot_complete generation names \<longleftrightarrow>
     (if generation = ''rpi4'' then ''bcm2711-rpi-4-b.dtb'' else ''bcm2712-rpi-5-b.dtb'') \<in> set names
     \<and> ''overlays'' \<in> set names \<and> list_ex (image_named ''kernel'') names \<and> list_ex (image_named ''initramfs'') names"

text \<open>One generation's artifact; the result is the number of its required files.\<close>

definition pc_artifact :: "string \<times> pyval \<Rightarrow> nat res" where
  [py_defs]: "pc_artifact ga = (case ga of (generation, v) \<Rightarrow>
     bindE (pc_object v [''rootfs'', ''tftp'', ''required_tftp'']) (\<lambda>a.
     bindE (pc_tree (dget a ''rootfs'')) (\<lambda>u. bindE (pc_tree (dget a ''tftp'')) (\<lambda>u.
       case dget a ''required_tftp'' of
         PList items \<Rightarrow>
           (if \<not> (1 \<le> length items \<and> length items \<le> 128) then bad ''invalid required producer artifacts''
            else bindE (mapE pc_required_item items) (\<lambda>names.
              if names \<noteq> sort (remdups names) then bad ''noncanonical required producer artifacts''
              else if \<not> boot_complete generation names then bad ''required producer boot artifacts incomplete''
              else Inr (length items)))
       | _ \<Rightarrow> bad ''invalid required producer artifacts''))))"

definition pc_profile :: "string \<Rightarrow> bool" where
  [py_defs]: "pc_profile s \<longleftrightarrow> s = ''standard'' \<or> s = ''rpi5-common-kernel''"

text \<open>The scalar members of a receipt.\<close>

definition pc_identity :: "pydict \<Rightarrow> unit res" where
  [py_defs]: "pc_identity d =
     (if dget d ''schema'' \<noteq> PStr RECEIPT_SCHEMA \<or> dget d ''scope'' \<noteq> PStr ''measured_build_artifacts''
         \<or> dget d ''environment'' \<noteq> PStr ''staging'' then bad ''invalid producer receipt scope''
      else bindE (pc_date (dget d ''bundle_date'')) (\<lambda>u.
           bindE (pc_string (dget d ''build_id'') build_id_ok) (\<lambda>u.
           bindE (pc_string (dget d ''generation_profile'') pc_profile) (\<lambda>u.
           bindE (pc_string (dget d ''infra_generation_revision'') (hexn 40)) (\<lambda>u.
           bindE (pc_string (dget d ''artifact_manifest_sha256'') (hexn 64)) (\<lambda>u. Inr ()))))))"

definition pc_declarations :: "pyval \<Rightarrow> unit res" where
  [py_defs]: "pc_declarations v = bindE (pc_object v GENERATIONS) (\<lambda>sd.
     bindE (mapE (\<lambda>(g, digest). pc_string digest (hexn 64)) sd) (\<lambda>digests.
       if length (remdups digests) \<noteq> 1 then bad ''paired producer declarations differ'' else Inr ()))"

definition validate_receipt :: "(string \<Rightarrow> string) \<Rightarrow> pyval \<Rightarrow> pydict res" where
  [py_defs]: "validate_receipt sha v = bindE (pc_object v RECEIPT_KEYS) (\<lambda>d.
     bindE (pc_identity d) (\<lambda>u.
     bindE (pc_declarations (dget d ''source_declarations'')) (\<lambda>u.
     bindE (pc_window (dget d ''capture_window'')) (\<lambda>u.
     bindE (pc_object (dget d ''artifacts'') GENERATIONS) (\<lambda>arts.
     bindE (mapE pc_artifact arts) (\<lambda>counts.
       if sum_list counts > 128 then bad ''invalid producer receipt identity''
       else bindE (pc_receipt_id sha d) (\<lambda>rid.
         if dget d ''receipt_id'' \<noteq> PStr rid then bad ''invalid producer receipt identity'' else Inr d)))))))"

definition read_receipt ::
    "(string \<Rightarrow> pyfloat) \<Rightarrow> (string \<Rightarrow> string) \<Rightarrow> producer_io \<Rightarrow> string \<Rightarrow> (pydict \<times> string) res" where
  [py_defs]: "read_receipt float_of sha io date =
     bindE (pc_date (PStr date)) (\<lambda>u.
     bindE (pc_file io (RECEIPT_ROOT @ ''/releases/producer'') (date @ ''.json'') MAX_RECEIPT) (\<lambda>raw.
     bindE (pc_json float_of raw) (\<lambda>v.
     bindE (validate_receipt sha v) (\<lambda>d.
     bindE (pc_canonical (PDict d)) (\<lambda>text.
       if dget d ''bundle_date'' \<noteq> PStr date \<or> raw \<noteq> text @ [CHR 0x0A]
       then bad ''producer receipt date or bytes mismatch'' else Inr (d, sha raw))))))"

section \<open>The probe\<close>

definition receipt_observation :: "string \<Rightarrow> (pydict \<times> string \<times> string \<times> string) option \<Rightarrow> pyval" where
  [py_defs]: "receipt_observation reason found =
     (let known = (\<lambda>f. case found of None \<Rightarrow> PNone | Some x \<Rightarrow> f x) in PDict
       [(''schema'', PStr ''pxe-producer-receipt-readonly-observation-v1''),
        (''status'', PStr (if found = None then ''unknown'' else ''pass'')), (''reason'', PStr reason),
        (''scope'', PStr ''stored_producer_receipt_not_current_artifact_verification''),
        (''receipt'', known (\<lambda>(d, digest, started, finished). PDict d)),
        (''receipt_sha256'', known (\<lambda>(d, digest, started, finished). PStr digest)),
        (''capture_started_at'', known (\<lambda>(d, digest, started, finished). PStr started)),
        (''capture_finished_at'', known (\<lambda>(d, digest, started, finished). PStr finished)),
        (''observed_at'', known (\<lambda>(d, digest, started, finished). PStr finished))])"

text \<open>\<open>started\<close> and \<open>finished\<close> are the clock's answers around the reading.\<close>

definition observe_receipt ::
    "(string \<Rightarrow> pyfloat) \<Rightarrow> (string \<Rightarrow> string) \<Rightarrow> producer_io \<Rightarrow> string \<Rightarrow> string \<Rightarrow> string \<Rightarrow> pyval res" where
  [py_defs]: "observe_receipt float_of sha io started finished date =
     (case bindE (read_receipt float_of sha io date) (\<lambda>(d, digest).
         if \<not> (py_str (dict_value (dget d ''capture_window'') ''finished_at'') \<le> started \<and> started \<le> finished)
         then bad ''producer observation clock invalid'' else Inr (d, digest)) of
        Inr (d, digest) \<Rightarrow> Inr (receipt_observation ''producer_receipt_observed'' (Some (d, digest, started, finished)))
      | Inl e \<Rightarrow>
          (if e = FileNotFoundError then Inr (receipt_observation ''producer_receipt_missing'' None)
           else if os_error e \<or> value_error e \<or> e = TypeError
           then Inr (receipt_observation ''producer_receipt_invalid'' None) else Inl e))"

definition receipt_main ::
    "(string \<Rightarrow> pyfloat) \<Rightarrow> (string \<Rightarrow> string) \<Rightarrow> producer_io \<Rightarrow> string \<Rightarrow> string \<Rightarrow> string \<Rightarrow> (string \<times> nat) res" where
  [py_defs]: "receipt_main float_of sha io started finished date =
     bindE (observe_receipt float_of sha io started finished date) (\<lambda>result.
       Inr (json_line result, if dict_value result ''status'' = PStr ''pass'' then 0 else 3))"

end
