(* ===== verification/Producer.thy ===== *)
theory Producer
  imports Producer_Contract
begin

text \<open>
  \<open>pxe_producer_receipt.py\<close> of the role \<open>openwrt_gentoo_rootfs\<close>: measure a completed pair of
  artifacts and publish an immutable receipt of it.  The answers of the system are arguments, one
  \<open>producer_io\<close> for each phase of the run, since a file may have changed between two readings of it; the
  measurement of a tree is an argument too.  The directory of the receipts is the state.
\<close>

section \<open>The manifest of the pair\<close>

definition PAIR_MANIFEST_KEYS :: "string list" where
  [py_defs]: "PAIR_MANIFEST_KEYS = [''schema'', ''policy'', ''bundle_date'', ''releases'', ''target_hosts'',
     ''target_stages'', ''required_tftp_paths'', ''markers'', ''metadata'']"

definition release_of :: "string \<Rightarrow> string \<Rightarrow> string" where
  [py_defs]: "release_of date generation = date @ ''-'' @ generation"

definition pair_releases :: "string \<Rightarrow> pydict" where
  [py_defs]: "pair_releases date = map (\<lambda>g. (g, PStr (release_of date g))) GENERATIONS"

definition is_generation :: "string \<Rightarrow> bool" where
  [py_defs]: "is_generation s \<longleftrightarrow> s = ''rpi4'' \<or> s = ''rpi5''"

type_synonym name_lists = "(string \<times> string list) list"

definition names_of :: "name_lists \<Rightarrow> string \<Rightarrow> string list" where
  [py_defs]: "names_of paths g = (case map_of paths g of None \<Rightarrow> [] | Some names \<Rightarrow> names)"

definition add_required :: "string \<Rightarrow> pyval \<Rightarrow> name_lists \<Rightarrow> name_lists res" where
  [py_defs]: "add_required date item paths =
     bindE (pc_object item [''generation'', ''release'', ''path'']) (\<lambda>d.
     bindE (pc_string (dget d ''generation'') is_generation) (\<lambda>generation.
       if dget d ''release'' \<noteq> PStr (release_of date generation) then bad ''required artifact release mismatch''
       else bindE (pc_required_path (dget d ''path'')) (\<lambda>path.
         if path \<in> set (names_of paths generation) then bad ''duplicate required artifact''
         else Inr (AList.update generation (names_of paths generation @ [path]) paths))))"

definition is_list :: "pyval \<Rightarrow> bool" where
  [py_defs]: "is_list v \<longleftrightarrow> (case v of PList xs \<Rightarrow> True | _ \<Rightarrow> False)"

definition stage_ok :: "pyval \<Rightarrow> bool" where
  [py_defs]: "stage_ok v \<longleftrightarrow> v = PStr ''stg'' \<or> v = PStr ''staging''"

definition pair_manifest :: "(string \<Rightarrow> pyfloat) \<Rightarrow> string \<Rightarrow> string \<Rightarrow> name_lists res" where
  [py_defs]: "pair_manifest float_of raw date =
     bindE (pc_json float_of raw) (\<lambda>v. bindE (pc_object v PAIR_MANIFEST_KEYS) (\<lambda>d.
       if dget d ''schema'' \<noteq> PInt 1 \<or> dget d ''bundle_date'' \<noteq> PStr date \<or> dget d ''policy'' \<noteq> PStr ''paired_clean''
          \<or> \<not> py_eq (dget d ''releases'') (PDict (pair_releases date)) \<or> \<not> is_mapping (dget d ''metadata'')
          \<or> list_ex (\<lambda>k. \<not> is_list (dget d k)) [''target_hosts'', ''target_stages'', ''markers'']
       then bad ''paired manifest mismatch''
       else (case (dget d ''target_stages'', dget d ''required_tftp_paths'') of
           (PList stages, required_value) \<Rightarrow>
             (if stages = [] \<or> \<not> list_all stage_ok stages then bad ''paired manifest is not staging scoped''
              else (case required_value of
                  PList required \<Rightarrow>
                    (if \<not> (1 \<le> length required \<and> length required \<le> 128) then bad ''required artifact list invalid''
                     else bindE (foldE (add_required date) required (map (\<lambda>g. (g, [])) GENERATIONS)) (\<lambda>paths.
                       if \<not> list_all (\<lambda>(g, names). boot_complete g names) paths
                       then bad ''required boot artifacts incomplete''
                       else Inr (map (\<lambda>(g, names). (g, sort names)) paths)))
                | _ \<Rightarrow> bad ''required artifact list invalid''))
         | _ \<Rightarrow> bad ''paired manifest mismatch'')))"

definition pair_declaration ::
    "(string \<Rightarrow> pyfloat) \<Rightarrow> (string \<Rightarrow> string) \<Rightarrow> string \<Rightarrow> string \<Rightarrow> string \<Rightarrow> string res" where
  [py_defs]: "pair_declaration float_of sha raw build_id revision =
     bindE (pc_json float_of raw) (\<lambda>v.
     bindE (pc_object v [''schema'', ''environment'', ''build_id'', ''infra_revision'']) (\<lambda>d.
       if \<not> py_eq (PDict d) (PDict
           [(''schema'', PStr ''homecluster-pxe-source-declaration-v1''), (''environment'', PStr ''staging''),
            (''build_id'', PStr build_id), (''infra_revision'', PStr revision)])
       then bad ''source declaration mismatch'' else Inr (sha raw)))"

section \<open>Measuring\<close>

definition required_file :: "(string \<Rightarrow> string) \<Rightarrow> producer_io \<Rightarrow> string \<Rightarrow> string \<Rightarrow> pyval res" where
  [py_defs]: "required_file sha io base name =
     (if name = ''overlays'' then
        bindE (in_directory io (base @ ''/'' @ name) (Inr ())) (\<lambda>u.
          Inr (PDict [(''path'', PStr name), (''type'', PStr ''directory'')]))
      else bindE (pc_file io (path_text (butlast (path_parts (base @ ''/'' @ name)))) (last (path_parts (base @ ''/'' @ name)))
          (nat MAX_TFTP_FILE)) (\<lambda>raw.
        Inr (PDict [(''path'', PStr name), (''type'', PStr ''regular''), (''sha256'', PStr (sha raw)),
          (''size'', PInt (int (length raw)))])))"

definition required_files :: "(string \<Rightarrow> string) \<Rightarrow> producer_io \<Rightarrow> string \<Rightarrow> string list \<Rightarrow> pyval list res" where
  [py_defs]: "required_files sha io base names = mapE (required_file sha io base) names"

text \<open>What a run asks of the system: the clock at its ends, the file answers of each phase, the
  measurement of a tree with its timing, and the calls of the publication.\<close>

record produce_env =
  pe_started :: string
  pe_finished :: string
  pe_io :: "nat \<Rightarrow> producer_io"
  pe_tree :: "string \<Rightarrow> (pydict \<times> pydict) res"
  pe_temp :: string
  pe_create :: "unit res"
  pe_write :: "string \<times> unit res"
  pe_link :: "unit res"
  pe_sync :: "unit res"
  pe_unlink :: "unit res"

definition DECLARATION_PARENT :: string where [py_defs]: "DECLARATION_PARENT = ''/nfs/etc/ansible-pull''"
definition DECLARATION_NAME :: string where [py_defs]: "DECLARATION_NAME = ''source-declaration.json''"

definition declaration_digest ::
    "(string \<Rightarrow> pyfloat) \<Rightarrow> (string \<Rightarrow> string) \<Rightarrow> producer_io \<Rightarrow> string \<Rightarrow> string \<Rightarrow> string \<Rightarrow> string \<Rightarrow> string res" where
  [py_defs]: "declaration_digest float_of sha io date build_id revision generation =
     bindE (pc_file io (RECEIPT_ROOT @ ''/'' @ release_of date generation @ DECLARATION_PARENT) DECLARATION_NAME 4096)
       (\<lambda>raw. pair_declaration float_of sha raw build_id revision)"

text \<open>One generation: digest of its declaration, its artifact, its timing.\<close>

definition measure_generation ::
    "(string \<Rightarrow> pyfloat) \<Rightarrow> (string \<Rightarrow> string) \<Rightarrow> produce_env \<Rightarrow> string \<Rightarrow> string \<Rightarrow> string \<Rightarrow> name_lists \<Rightarrow> nat
       \<Rightarrow> string \<Rightarrow> (string \<times> pyval \<times> pyval) res" where
  [py_defs]: "measure_generation float_of sha env date build_id revision paths phase generation =
     (let release = release_of date generation; rootfs = RECEIPT_ROOT @ ''/'' @ release @ ''/nfs'';
          tftp = RECEIPT_ROOT @ ''/tftp-root/dates/'' @ release; names = names_of paths generation in
      bindE (declaration_digest float_of sha (pe_io env phase) date build_id revision generation) (\<lambda>declaration.
      bindE (required_files sha (pe_io env phase) tftp names) (\<lambda>required.
      bindE (pe_tree env rootfs) (\<lambda>(rootfs_tree, rootfs_timing).
      bindE (pe_tree env tftp) (\<lambda>(tftp_tree, tftp_timing).
      bindE (required_files sha (pe_io env (phase + 1)) tftp names) (\<lambda>again.
        if required \<noteq> again then bad ''required artifacts changed during measurement''
        else Inr (declaration,
          PDict [(''rootfs'', PDict rootfs_tree), (''tftp'', PDict tftp_tree), (''required_tftp'', PList required)],
          PDict [(''rootfs'', PDict rootfs_timing), (''tftp'', PDict tftp_timing)])))))))"

text \<open>The receipt without its identifier, and the timing.\<close>

definition measure_pair ::
    "(string \<Rightarrow> pyfloat) \<Rightarrow> (string \<Rightarrow> string) \<Rightarrow> produce_env \<Rightarrow> string \<Rightarrow> string \<Rightarrow> string \<Rightarrow> string
       \<Rightarrow> (pydict \<times> pyval) res" where
  [py_defs]: "measure_pair float_of sha env date build_id revision profile =
     bindE (pc_file (pe_io env 0) (RECEIPT_ROOT @ ''/releases'') (date @ ''.json'') (512 * 1024)) (\<lambda>manifest.
     bindE (pair_manifest float_of manifest date) (\<lambda>paths.
     bindE (measure_generation float_of sha env date build_id revision paths 1 ''rpi4'') (\<lambda>(decl4, artifact4, timing4).
     bindE (measure_generation float_of sha env date build_id revision paths 3 ''rpi5'') (\<lambda>(decl5, artifact5, timing5).
       if decl4 \<noteq> decl5 then bad ''paired declarations differ''
       else bindE (declaration_digest float_of sha (pe_io env 5) date build_id revision ''rpi4'') (\<lambda>again4.
         if again4 \<noteq> decl4 then bad ''source declaration changed during measurement''
         else bindE (declaration_digest float_of sha (pe_io env 5) date build_id revision ''rpi5'') (\<lambda>again5.
           if again5 \<noteq> decl5 then bad ''source declaration changed during measurement''
           else bindE (pc_file (pe_io env 6) (RECEIPT_ROOT @ ''/releases'') (date @ ''.json'') (512 * 1024)) (\<lambda>again.
             if again \<noteq> manifest then bad ''paired manifest changed during measurement''
             else Inr
               ([(''schema'', PStr RECEIPT_SCHEMA), (''scope'', PStr ''measured_build_artifacts''),
                 (''environment'', PStr ''staging''), (''bundle_date'', PStr date), (''build_id'', PStr build_id),
                 (''generation_profile'', PStr profile), (''infra_generation_revision'', PStr revision),
                 (''artifact_manifest_sha256'', PStr (sha manifest)),
                 (''source_declarations'', PDict [(''rpi4'', PStr decl4), (''rpi5'', PStr decl5)]),
                 (''artifacts'', PDict [(''rpi4'', artifact4), (''rpi5'', artifact5)]),
                 (''capture_window'', PDict [(''started_at'', PStr (pe_started env)), (''finished_at'', PStr (pe_finished env))])],
                PDict [(''rpi4'', timing4), (''rpi5'', timing5)]))))))))"

section \<open>Publishing\<close>

type_synonym receipts = "string \<Rightarrow> string option"

text \<open>\<open>finally: os.unlink(temporary)\<close>: a failing \<open>unlink\<close> replaces the outcome.\<close>

definition unlink_temp :: "produce_env \<Rightarrow> receipts \<Rightarrow> 'a res \<Rightarrow> receipts \<times> 'a res" where
  [py_defs]: "unlink_temp env fs outcome = (case pe_unlink env of
       Inl e \<Rightarrow> (fs, Inl e) | Inr u \<Rightarrow> (fs(pe_temp env := None), outcome))"

text \<open>
  Write a temporary file, then a hard link under the receipt's name: \<open>O_EXCL\<close> and \<open>link\<close> fail when
  the name is taken.  A failed write leaves some contents in the temporary file, \<open>fst (pe_write env)\<close>.
\<close>

definition publish_bytes :: "produce_env \<Rightarrow> receipts \<Rightarrow> string \<Rightarrow> string \<Rightarrow> receipts \<times> unit res" where
  [py_defs]: "publish_bytes env fs name raw =
     (if fs (pe_temp env) \<noteq> None then (fs, Inl OSError)
      else (case pe_create env of
          Inl e \<Rightarrow> (fs, Inl e)
        | Inr u \<Rightarrow>
            (case snd (pe_write env) of
               Inl e \<Rightarrow> unlink_temp env (fs(pe_temp env := Some (fst (pe_write env)))) (Inl e)
             | Inr u \<Rightarrow>
                 (let written = fs(pe_temp env := Some raw) in
                  if written name \<noteq> None then unlink_temp env written (Inl OSError)
                  else (case pe_link env of
                      Inl e \<Rightarrow> unlink_temp env written (Inl e)
                    | Inr u \<Rightarrow> unlink_temp env (written(name := Some raw)) (pe_sync env))))))"

definition publish :: "produce_env \<Rightarrow> receipts \<Rightarrow> string \<Rightarrow> pydict \<Rightarrow> receipts \<times> string res" where
  [py_defs]: "publish env fs name value = (case pc_canonical (PDict value) of
       Inl e \<Rightarrow> (fs, Inl e)
     | Inr text \<Rightarrow>
         (let raw = text @ [CHR 0x0A] in
          if length raw > MAX_RECEIPT then (fs, bad ''producer receipt too large'')
          else (case publish_bytes env fs name raw of (fs', outcome) \<Rightarrow> (fs', bindE outcome (\<lambda>u. Inr raw)))))"

section \<open>A run\<close>

text \<open>The measured and valid receipt, before it is stored.\<close>

definition produced_value ::
    "(string \<Rightarrow> pyfloat) \<Rightarrow> (string \<Rightarrow> string) \<Rightarrow> produce_env \<Rightarrow> string \<Rightarrow> string \<Rightarrow> string \<Rightarrow> string
       \<Rightarrow> (pydict \<times> pyval) res" where
  [py_defs]: "produced_value float_of sha env date build_id revision profile =
     bindE (pc_date (PStr date)) (\<lambda>u. bindE (pc_string (PStr build_id) build_id_ok) (\<lambda>u.
     bindE (pc_string (PStr revision) (hexn 40)) (\<lambda>u. bindE (pc_string (PStr profile) pc_profile) (\<lambda>u.
     bindE (measure_pair float_of sha env date build_id revision profile) (\<lambda>(measured, timing).
     bindE (pc_window (dget measured ''capture_window'')) (\<lambda>u.
     bindE (pc_receipt_id sha measured) (\<lambda>rid.
     bindE (validate_receipt sha (PDict (dput ''receipt_id'' (PStr rid) measured))) (\<lambda>value.
       Inr (value, timing)))))))))"

text \<open>An existing receipt must be the same but for its window of measurement.\<close>

definition check_existing :: "(string \<Rightarrow> pyfloat) \<Rightarrow> (string \<Rightarrow> string) \<Rightarrow> pydict \<Rightarrow> string \<Rightarrow> pydict res" where
  [py_defs]: "check_existing float_of sha value existing_raw =
     bindE (pc_json float_of existing_raw) (\<lambda>v. bindE (validate_receipt sha v) (\<lambda>existing.
       let expected = dput ''capture_window'' (dget existing ''capture_window'') value in
       bindE (pc_receipt_id sha expected) (\<lambda>rid.
       bindE (pc_canonical (PDict (dput ''receipt_id'' (PStr rid) expected))) (\<lambda>text.
         if existing_raw \<noteq> text @ [CHR 0x0A] then bad ''existing producer receipt conflicts''
         else Inr existing))))"

definition produce_result :: "(string \<Rightarrow> string) \<Rightarrow> string \<Rightarrow> string \<Rightarrow> pydict \<Rightarrow> string \<Rightarrow> pyval \<Rightarrow> pyval" where
  [py_defs]: "produce_result sha status date value raw timing = PDict
     [(''status'', PStr status), (''bundle_date'', PStr date), (''receipt_id'', dget value ''receipt_id''),
      (''receipt_sha256'', PStr (sha raw)), (''measurement'', timing)]"

definition produce ::
    "(string \<Rightarrow> pyfloat) \<Rightarrow> (string \<Rightarrow> string) \<Rightarrow> produce_env \<Rightarrow> string \<Rightarrow> string \<Rightarrow> string \<Rightarrow> string
       \<Rightarrow> receipts \<Rightarrow> receipts \<times> pyval res" where
  [py_defs]: "produce float_of sha env date build_id revision profile fs =
     (case produced_value float_of sha env date build_id revision profile of
        Inl e \<Rightarrow> (fs, Inl e)
      | Inr (value, timing) \<Rightarrow>
          (case pc_file (pe_io env 7) (RECEIPT_ROOT @ ''/releases/producer'') (date @ ''.json'') MAX_RECEIPT of
             Inr existing_raw \<Rightarrow>
               (fs, bindE (check_existing float_of sha value existing_raw) (\<lambda>existing.
                 Inr (produce_result sha ''unchanged'' date existing existing_raw timing)))
           | Inl e \<Rightarrow>
               (if e \<noteq> FileNotFoundError then (fs, Inl e)
                else (case publish env fs (date @ ''.json'') value of
                    (fs', outcome) \<Rightarrow> (fs', bindE outcome (\<lambda>raw.
                      Inr (produce_result sha ''written'' date value raw timing)))))))"

text \<open>Standard output, standard error and exit code.\<close>

definition PRODUCE_ERROR :: string where
  [py_defs]: "PRODUCE_ERROR = json_enc json_compact (PDict
     [(''status'', PStr ''blocked''), (''reason'', PStr ''producer_receipt_failed'')]) @ [CHR 0x0A]"

definition produce_main ::
    "(string \<Rightarrow> pyfloat) \<Rightarrow> (string \<Rightarrow> string) \<Rightarrow> produce_env \<Rightarrow> string \<Rightarrow> string \<Rightarrow> string \<Rightarrow> string
       \<Rightarrow> receipts \<Rightarrow> receipts \<times> (string \<times> string \<times> nat) res" where
  [py_defs]: "produce_main float_of sha env date build_id revision profile fs =
     (case produce float_of sha env date build_id revision profile fs of
        (fs', Inl e) \<Rightarrow>
          (fs', if value_error e \<or> os_error e \<or> e = TypeError then Inr ([], PRODUCE_ERROR, 2) else Inl e)
      | (fs', Inr result) \<Rightarrow> (fs', Inr (json_line result, [], 0)))"

end
