(* ===== verification/Canonical_Json.thy ===== *)
theory Canonical_Json
  imports Producer_Contract Py_Json_Roundtrip "HOL-Library.Multiset"
begin

text \<open>
  Canonical JSON: sorting the keys of a value changes nothing a reader of the value can see,
  is idempotent, and the canonical bytes are read back as the value with its keys sorted.
\<close>


section \<open>Sorting the keys\<close>

definition sorted_pairs :: "pydict \<Rightarrow> pydict" where
  "sorted_pairs d = sort_key fst (map (\<lambda>(k, v). (k, sorted_value v)) d)"

lemma sorted_value_dict: "sorted_value (PDict d) = PDict (sorted_pairs d)"
  by (simp add: sorted_pairs_def)

lemma set_sorted_pairs: "set (sorted_pairs d) = (\<lambda>(k, v). (k, sorted_value v)) ` set d"
  by (simp add: sorted_pairs_def)

lemma keys_sorted_pairs: "fst ` set (sorted_pairs d) = fst ` set d"
  by (force simp: set_sorted_pairs)

lemma distinct_sorted_pairs: "distinct (map fst (sorted_pairs d)) \<longleftrightarrow> distinct (map fst d)"
proof -
  have fsts: "map fst (map (\<lambda>(k, v). (k, sorted_value v)) d) = map fst d" by auto
  have "mset (map fst (sorted_pairs d)) = mset (map fst d)"
    by (simp only: sorted_pairs_def mset_map mset_sort flip: fsts)
  then show ?thesis by (metis mset_eq_imp_distinct_iff)
qed

lemma keys_are_sorted: "keys_are (sorted_pairs d) ks = keys_are d ks"
  by (simp add: keys_are_iff keys_sorted_pairs)

lemma dget_sorted:
  assumes "distinct (map fst d)"
  shows "dget (sorted_pairs d) k = sorted_value (dget d k)"
proof (cases "map_of d k")
  case None
  then have "k \<notin> fst ` set (sorted_pairs d)" by (simp add: keys_sorted_pairs map_of_eq_None_iff)
  then have "map_of (sorted_pairs d) k = None" by (simp add: map_of_eq_None_iff)
  with None show ?thesis by (simp add: dget_or_def)
next
  case (Some v)
  then have "(k, sorted_value v) \<in> set (sorted_pairs d)" by (force simp: set_sorted_pairs dest: map_of_SomeD)
  then have "map_of (sorted_pairs d) k = Some (sorted_value v)"
    using assms by (intro map_of_is_SomeI) (simp_all add: distinct_sorted_pairs)
  with Some show ?thesis by (simp add: dget_or_def)
qed

lemma sorted_value_simple: "sorted_value v = PStr s \<longleftrightarrow> v = PStr s" "sorted_value v = PInt i \<longleftrightarrow> v = PInt i"
  by (cases v; simp)+

lemma sorted_value_idem: "sorted_value (sorted_value v) = sorted_value v"
proof (induction v rule: sorted_value.induct)
  case (1 d)
  have "map (\<lambda>(k, v). (k, sorted_value v)) (sorted_pairs d) = sorted_pairs d"
    using 1 by (intro map_idI) (force simp: set_sorted_pairs)
  moreover have "sort_key fst (sorted_pairs d) = sorted_pairs d"
    unfolding sorted_pairs_def by (intro sort_key_id_if_sorted) simp
  ultimately have "sorted_pairs (sorted_pairs d) = sorted_pairs d" by (simp add: sorted_pairs_def [of "sorted_pairs d"])
  then show ?case by (simp only: sorted_value_dict)
qed simp_all

lemma filter_sorted_pairs: "filter (\<lambda>(k, v). P k) (sorted_pairs d) = sorted_pairs (filter (\<lambda>(k, v). P k) d)"
proof -
  have "filter (\<lambda>(k, v). P k) (map (\<lambda>(k, v). (k, sorted_value v)) d)
      = map (\<lambda>(k, v). (k, sorted_value v)) (filter (\<lambda>(k, v). P k) d)"
    by (induction d) auto
  then show ?thesis by (simp add: sorted_pairs_def filter_sort)
qed

lemma wf_sorted: "wf_val v \<Longrightarrow> wf_val (sorted_value v)"
proof (induction v rule: sorted_value.induct)
  case (1 d)
  then have "distinct (map fst (sorted_pairs d))" by (simp add: distinct_sorted_pairs)
  moreover have "list_all (\<lambda>(k, v). wf_val v) (sorted_pairs d)"
    using 1 by (fastforce simp: list_all_iff set_sorted_pairs)
  ultimately show ?case by (simp only: sorted_value_dict wf_val.simps simp_thms)
qed (auto simp: list_all_iff)

section \<open>Values without floats\<close>

function no_floats :: "pyval \<Rightarrow> bool" where
  "no_floats (PFloat f) = False"
| "no_floats (PList xs) = list_all no_floats xs"
| "no_floats (PDict d) = list_all (\<lambda>(k, v). no_floats v) d"
| "no_floats PNone = True"
| "no_floats (PBool b) = True"
| "no_floats (PInt i) = True"
| "no_floats (PStr s) = True"
  by pat_completeness auto
termination
  by (relation "measure size")
    (auto simp: size_list_estimation' less_Suc_eq_le dest: size_pair_item size_pair_item')

lemma no_floats_json_ok: "no_floats v \<Longrightarrow> wf_val v \<Longrightarrow> json_ok float_of v"
  by (induction v rule: no_floats.induct) (fastforce simp: list_all_iff)+

lemma no_floats_finite: "no_floats v \<Longrightarrow> all_finite v"
  by (induction v rule: no_floats.induct) (auto simp: list_all_iff)

lemma no_floats_sorted: "no_floats v \<Longrightarrow> no_floats (sorted_value v)"
proof (induction v rule: sorted_value.induct)
  case (1 d)
  then have "list_all (\<lambda>(k, v). no_floats v) (sorted_pairs d)"
    by (fastforce simp: list_all_iff set_sorted_pairs)
  then show ?case by (simp only: sorted_value_dict no_floats.simps)
qed (auto simp: list_all_iff)

lemma ascii_str_nat: "is_ascii (str_nat n)"
  using str_nat_digits [of n] by (auto simp: is_ascii_def list_all_iff ascii_digit_def)

lemma ascii_json_escape: "is_ascii (json_escape True c)"
proof -
  have "ord_of c < 256" using nat_of_char_less_256 [of c] by (simp add: of_char_def)
  then have "ord_of c div 16 < 16" by (intro less_mult_imp_div_less) simp
  then show ?thesis by (auto simp: is_ascii_def json_escape_def Let_def hex_digit_def)
qed

lemma is_ascii_append [simp]: "is_ascii (s @ t) \<longleftrightarrow> is_ascii s \<and> is_ascii t"
  by (simp add: is_ascii_def)

lemma is_ascii_concat: "is_ascii (concat xs) \<longleftrightarrow> (\<forall>x \<in> set xs. is_ascii x)"
  by (induction xs) (simp_all add: is_ascii_def)

lemma is_ascii_join: "is_ascii sep \<Longrightarrow> \<forall>x \<in> set xs. is_ascii x \<Longrightarrow> is_ascii (py_join sep xs)"
  by (induction sep xs rule: py_join.induct) (simp_all add: is_ascii_def)

lemma ascii_json_str: "is_ascii (json_str True s)"
proof -
  have "is_ascii (concat (map (json_escape True) s))" by (simp add: is_ascii_concat ascii_json_escape)
  then show ?thesis by (simp add: json_str_def) (simp add: is_ascii_def)
qed

lemma ascii_json_enc: "no_floats v \<Longrightarrow> is_ascii (json_enc json_compact v)"
proof (induction v rule: no_floats.induct)
  case (2 xs)
  then have "is_ascii (py_join '','' (map (json_enc json_compact) xs))"
    by (intro is_ascii_join) (auto simp: list_all_iff is_ascii_def)
  then show ?case by (simp add: json_compact_def is_ascii_def)
next
  case (3 d)
  have "is_ascii (json_str True k @ '':'' @ json_enc json_compact v)" if "(k, v) \<in> set d" for k v
    using 3 that ascii_json_str [of k] by (fastforce simp: list_all_iff is_ascii_def)
  then have "is_ascii (py_join '','' (map (\<lambda>(k, v). json_str True k @ '':'' @ json_enc json_compact v) d))"
    by (intro is_ascii_join) (auto simp: is_ascii_def)
  then show ?case by (simp add: json_compact_def is_ascii_def)
next
  case (6 i)
  then show ?case using ascii_str_nat by (auto simp: str_int_def is_ascii_def)
next
  case (7 s)
  then show ?case using ascii_json_str by (simp add: json_compact_def)
qed (auto simp: is_ascii_def)

lemma utf8_json_enc:
  assumes "no_floats v"
  shows "utf8_decode (json_enc json_compact v) = Some (json_enc json_compact v)"
proof -
  have "list_all (\<lambda>c. ord_of c < 128) (json_enc json_compact v)"
    using ascii_json_enc [OF assms] by (simp add: is_ascii_def)
  then show ?thesis
    using utf8_roundtrip [of "json_enc json_compact v"] by (simp only: utf8_encode_ascii)
qed

section \<open>Canonical bytes\<close>

lemma canonical_sorted: "pc_canonical (sorted_value v) = pc_canonical v"
  by (simp add: pc_canonical_def sorted_value_idem)

lemma canonical_no_floats: "no_floats v \<Longrightarrow> pc_canonical v = Inr (json_enc json_compact (sorted_value v))"
  by (simp add: pc_canonical_def json_dumps_finite_def no_floats_sorted no_floats_finite)

lemma parse_line:
  assumes "format_ok fmt" and "json_ok float_of v"
  shows "json_parse float_of (json_enc fmt v @ [CHR 0x0A]) = Inr v"
proof -
  let ?s = "json_enc fmt v" and ?t = "[CHR 0x0A]"
  have "ends_number ?t" by (simp add: ends_number_def)
  with json_value_enc [OF assms] have "json_value float_of (Suc (length (?s @ ?t))) (?s @ ?t) = Some (v, ?t)"
    by (intro readsD) auto
  moreover have "skip_ws (?s @ ?t) = ?s @ ?t"
    by (intro starts_value_skip starts_value_enc [OF assms(2)])
  ultimately show ?thesis by (simp add: json_parse_def skip_ws_def json_ws_def)
qed

text \<open>Canonical bytes and a newline are read back as the value with sorted keys.\<close>

lemma canonical_roundtrip:
  assumes "no_floats v" and "wf_val v" and "pc_canonical v = Inr text"
  shows "pc_json float_of (text @ [CHR 0x0A]) = Inr (sorted_value v)"
proof -
  let ?v = "sorted_value v"
  have enc: "text = json_enc json_compact ?v" using assms(1,3) by (simp add: canonical_no_floats)
  have v: "no_floats ?v" "wf_val ?v" using assms(1,2) by (simp_all add: no_floats_sorted wf_sorted)
  have parse: "json_parse f (text @ [CHR 0x0A]) = Inr ?v" for f
    unfolding enc using no_floats_json_ok [OF v] by (intro parse_line) simp_all
  have "list_all (\<lambda>c. ord_of c < 128) (text @ [CHR 0x0A])"
    using ascii_json_enc [OF v(1)] by (simp add: enc is_ascii_def)
  then have "utf8_decode (text @ [CHR 0x0A]) = Some (text @ [CHR 0x0A])"
    using utf8_roundtrip [of "text @ [CHR 0x0A]"] by (simp only: utf8_encode_ascii)
  then show ?thesis using no_floats_finite [OF v(1)] v(2)
    by (simp add: pc_json_def parse json_loads_unique_def)
qed

text \<open>Canonical bytes determine the value up to the order of keys.\<close>

lemma canonical_inject:
  assumes "no_floats v" "wf_val v" "no_floats w" "wf_val w" and "pc_canonical v = Inr text" "pc_canonical w = Inr text"
  shows "sorted_value v = sorted_value w"
  using canonical_roundtrip [OF assms(1,2,5), of undefined] canonical_roundtrip [OF assms(3,4,6), of undefined] by simp

end
