(* ===== verification/Producer_Valid.thy ===== *)
theory Producer_Valid
  imports Canonical_Json
begin

text \<open>
  What validation of a producer receipt says, member by member: a valid receipt has no floats,
  and validation reads only what the order of keys does not change.
\<close>


section \<open>What validation says\<close>

lemma pc_string_Inr: "pc_string v p = Inr s \<longleftrightarrow> v = PStr s \<and> p s"
  by (cases v) (auto simp: pc_string_def bad_def)

lemma pc_object_Inr: "pc_object v ks = Inr d \<longleftrightarrow> v = PDict d \<and> keys_are d ks"
  by (cases v) (auto simp: pc_object_def bad_def)

lemma if_bad_Inr: "(if b then bad m else r) = Inr y \<longleftrightarrow> \<not> b \<and> r = Inr y"
  by (simp add: bad_def)

lemma bad_Inr: "bad m \<noteq> Inr y"
  by (simp add: bad_def)

lemma list_case_Inr: "(case v of PList xs \<Rightarrow> f xs | _ \<Rightarrow> bad m) = Inr y \<longleftrightarrow> (\<exists>xs. v = PList xs \<and> f xs = Inr y)"
  by (cases v) (simp_all add: bad_Inr)

lemmas pc_Inr = pc_string_Inr pc_object_Inr if_bad_Inr bad_Inr list_case_Inr

lemma keys_no_floats:
  "keys_are d ks \<Longrightarrow> distinct (map fst d) \<Longrightarrow> list_all (\<lambda>k. no_floats (dget d k)) ks \<Longrightarrow> no_floats (PDict d)"
  using keys_are_all [of d ks no_floats] by (simp add: list_all_iff)

lemma wf_dget: "wf_val (PDict d) \<Longrightarrow> wf_val (dget d k)"
  using wf_val_lookup [of d k] by (cases "map_of d k") (simp_all add: dget_or_def del: wf_val.simps(1))

lemma validate_Inr:
  "validate_receipt sha v = Inr d \<longleftrightarrow> v = PDict d \<and> keys_are d RECEIPT_KEYS \<and> pc_identity d = Inr ()
     \<and> pc_declarations (dget d ''source_declarations'') = Inr () \<and> pc_window (dget d ''capture_window'') = Inr ()
     \<and> (\<exists>arts counts. dget d ''artifacts'' = PDict arts \<and> keys_are arts GENERATIONS \<and> mapE pc_artifact arts = Inr counts
          \<and> sum_list counts \<le> 128)
     \<and> (\<exists>rid. pc_receipt_id sha d = Inr rid \<and> dget d ''receipt_id'' = PStr rid)"
  by (auto simp: validate_receipt_def pc_Inr not_less)

lemma pc_date_Inr: "pc_date v = Inr s \<longleftrightarrow> v = PStr s \<and> digits8 s \<and> date8 s"
  by (auto simp: pc_date_def pc_Inr if_bad_Inr bad_Inr bad_def)

lemma pc_timestamp_Inr: "pc_timestamp v = Inr s \<longleftrightarrow> v = PStr s \<and> stamp_form s \<and> stamp_ok s"
  by (auto simp: pc_timestamp_def pc_string_Inr bad_def split: if_splits)

lemma identity_strings:
  assumes "pc_identity d = Inr ()"
    and "k \<in> {''schema'', ''scope'', ''environment'', ''bundle_date'', ''build_id'', ''generation_profile'',
      ''infra_generation_revision'', ''artifact_manifest_sha256''}"
  shows "\<exists>s. dget d k = PStr s"
  using assms by (auto simp: pc_identity_def pc_string_Inr pc_date_Inr bad_def split: if_splits)

lemma window_Inr: "pc_window v = Inr () \<longleftrightarrow> (\<exists>d a b. v = PDict d \<and> keys_are d [''started_at'', ''finished_at'']
    \<and> pc_timestamp (dget d ''started_at'') = Inr a \<and> pc_timestamp (dget d ''finished_at'') = Inr b \<and> a \<le> b)"
  by (auto simp: pc_window_def pc_Inr not_less)

lemma int_in_Int: "int_in lo hi v \<Longrightarrow> \<exists>i. v = PInt i"
  by (auto simp: int_in_def split: pyval.splits)

lemma tree_Inr: "pc_tree v = Inr () \<longleftrightarrow> (\<exists>t digest. v = PDict t
    \<and> keys_are t [''schema'', ''algorithm'', ''digest'', ''entries'', ''regular_file_bytes'']
    \<and> dget t ''schema'' = PStr ''homecluster-pxe-artifact-tree-v1'' \<and> dget t ''algorithm'' = PStr ''sha256-posix-tree-v1''
    \<and> dget t ''digest'' = PStr digest \<and> hexn 64 digest
    \<and> int_in 1 1000000 (dget t ''entries'') \<and> int_in 0 (1024 ^ 4) (dget t ''regular_file_bytes''))"
  by (auto simp: pc_tree_def pc_Inr)

lemma required_path_Inr: "pc_required_path v = Inr s \<Longrightarrow> v = PStr s"
  by (auto simp: pc_required_path_def pc_string_Inr bad_def split: if_splits)

lemma required_item_Inr:
  "pc_required_item item = Inr name \<longleftrightarrow> (\<exists>d. item = PDict d \<and> pc_required_path (dget d ''path'') = Inr name \<and>
     (if name = ''overlays'' then keys_are d [''path'', ''type''] \<and> dget d ''type'' = PStr ''directory''
      else keys_are d [''path'', ''type'', ''sha256'', ''size''] \<and> dget d ''type'' = PStr ''regular''
        \<and> int_in 1 MAX_TFTP_FILE (dget d ''size'') \<and> (\<exists>digest. dget d ''sha256'' = PStr digest \<and> hexn 64 digest)))"
  by (cases item) (auto simp: pc_required_item_def pc_object_Inr pc_string_Inr bad_def split: if_splits)

lemma artifact_Inr:
  "pc_artifact (generation, v) = Inr n \<longleftrightarrow> (\<exists>a items names. v = PDict a \<and> keys_are a [''rootfs'', ''tftp'', ''required_tftp'']
     \<and> pc_tree (dget a ''rootfs'') = Inr () \<and> pc_tree (dget a ''tftp'') = Inr () \<and> dget a ''required_tftp'' = PList items
     \<and> 1 \<le> length items \<and> length items \<le> 128 \<and> mapE pc_required_item items = Inr names
     \<and> names = sort (remdups names) \<and> boot_complete generation names \<and> n = length items)"
  by (auto simp: pc_artifact_def pc_Inr not_less)

lemma declarations_Inr:
  "pc_declarations v = Inr () \<longleftrightarrow> (\<exists>sd digests. v = PDict sd \<and> keys_are sd GENERATIONS
     \<and> mapE (\<lambda>(g, digest). pc_string digest (hexn 64)) sd = Inr digests \<and> length (remdups digests) = 1)"
  by (auto simp: pc_declarations_def pc_Inr)

section \<open>A valid receipt has no floats\<close>

lemma tree_no_floats: "pc_tree v = Inr () \<Longrightarrow> wf_val v \<Longrightarrow> no_floats v"
  unfolding tree_Inr by (elim exE conjE) (auto dest!: int_in_Int intro!: keys_no_floats simp del: no_floats.simps(3))

lemma mapE_all: "mapE f xs = Inr ys \<Longrightarrow> x \<in> set xs \<Longrightarrow> \<exists>y. f x = Inr y"
  by (induction xs arbitrary: ys) auto

lemma item_no_floats: "pc_required_item v = Inr name \<Longrightarrow> wf_val v \<Longrightarrow> no_floats v"
  unfolding required_item_Inr
  by (elim exE conjE) (auto dest!: int_in_Int required_path_Inr intro!: keys_no_floats
      simp del: no_floats.simps(3) split: if_splits)

lemma items_no_floats:
  "mapE pc_required_item items = Inr names \<Longrightarrow> wf_val (PList items) \<Longrightarrow> no_floats (PList items)"
  using mapE_all [of pc_required_item items names] item_no_floats by (fastforce simp: list_all_iff)

lemma artifact_no_floats: "pc_artifact (generation, v) = Inr n \<Longrightarrow> wf_val v \<Longrightarrow> no_floats v"
  unfolding artifact_Inr
proof (elim exE conjE)
  fix a items names
  assume v: "v = PDict a" "wf_val v" and keys: "keys_are a [''rootfs'', ''tftp'', ''required_tftp'']"
    and trees: "pc_tree (dget a ''rootfs'') = Inr ()" "pc_tree (dget a ''tftp'') = Inr ()"
    and items: "dget a ''required_tftp'' = PList items" "mapE pc_required_item items = Inr names"
  have wf: "wf_val (dget a k)" for k using v by (auto intro: wf_dget simp del: wf_val.simps)
  have "no_floats (dget a ''rootfs'')" "no_floats (dget a ''tftp'')" using tree_no_floats trees wf by simp_all
  moreover have "no_floats (dget a ''required_tftp'')"
    unfolding items(1) using items(2) wf [of "''required_tftp''", unfolded items(1)] by (rule items_no_floats)
  ultimately have "no_floats (PDict a)" using v by (intro keys_no_floats [OF keys]) simp_all
  then show "no_floats v" using v(1) by simp
qed

lemma artifacts_no_floats:
  assumes "mapE pc_artifact arts = Inr counts" and "wf_val (PDict arts)"
  shows "no_floats (PDict arts)"
proof -
  have "no_floats v" if "(g, v) \<in> set arts" for g v
    using mapE_all [OF assms(1) that] that assms(2) artifact_no_floats [of g v] by (auto simp: list_all_iff)
  then show ?thesis by (auto simp: list_all_iff)
qed

lemma declarations_no_floats: "pc_declarations v = Inr () \<Longrightarrow> wf_val v \<Longrightarrow> no_floats v"
  unfolding declarations_Inr
  by (elim exE conjE) (auto simp: list_all_iff pc_string_Inr dest!: mapE_all)

lemma window_no_floats: "pc_window v = Inr () \<Longrightarrow> wf_val v \<Longrightarrow> no_floats v"
  unfolding window_Inr
  by (elim exE conjE) (auto simp: pc_timestamp_Inr intro!: keys_no_floats simp del: no_floats.simps(3))

lemma valid_no_floats:
  assumes "validate_receipt sha v = Inr d" and "wf_val (PDict d)"
  shows "no_floats (PDict d)"
proof -
  from assms(1) obtain arts counts rid where keys: "keys_are d RECEIPT_KEYS" and id: "pc_identity d = Inr ()"
    and parts: "pc_declarations (dget d ''source_declarations'') = Inr ()" "pc_window (dget d ''capture_window'') = Inr ()"
      "dget d ''artifacts'' = PDict arts" "mapE pc_artifact arts = Inr counts" "dget d ''receipt_id'' = PStr rid"
    unfolding validate_Inr by blast
  have wf: "wf_val (dget d k)" for k using assms(2) by (rule wf_dget)
  have "no_floats (dget d ''artifacts'')"
    unfolding parts(3) using parts(4) wf [of "''artifacts''", unfolded parts(3)] by (rule artifacts_no_floats)
  moreover have "no_floats (dget d ''source_declarations'')" "no_floats (dget d ''capture_window'')"
    using declarations_no_floats [OF parts(1) wf] window_no_floats [OF parts(2) wf] .
  moreover have "no_floats (dget d k)" if "k \<in> {''schema'', ''scope'', ''environment'', ''bundle_date'', ''build_id'',
      ''generation_profile'', ''infra_generation_revision'', ''artifact_manifest_sha256''}" for k
    using identity_strings [OF id that] by auto
  ultimately have "list_all (\<lambda>k. no_floats (dget d k)) RECEIPT_KEYS"
    using parts(5) by (simp add: RECEIPT_KEYS_def)
  with assms(2) show ?thesis by (intro keys_no_floats [OF keys]) simp_all
qed

section \<open>Validation does not see the order of keys\<close>

lemma string_sorted: "pc_string (sorted_value v) p = pc_string v p"
  by (cases v) (simp_all add: pc_string_def)

lemma date_sorted: "pc_date (sorted_value v) = pc_date v"
  by (simp add: pc_date_def string_sorted)

lemma stamp_sorted: "pc_timestamp (sorted_value v) = pc_timestamp v"
  by (simp add: pc_timestamp_def string_sorted)

lemma required_path_sorted: "pc_required_path (sorted_value v) = pc_required_path v"
  by (simp add: pc_required_path_def string_sorted)

lemma int_in_sorted: "int_in lo hi (sorted_value v) = int_in lo hi v"
  by (cases v) (simp_all add: int_in_def)

lemmas sorted_sees = keys_are_sorted dget_sorted string_sorted date_sorted stamp_sorted required_path_sorted
  int_in_sorted sorted_value_simple

lemma identity_sorted: "distinct (map fst d) \<Longrightarrow> pc_identity (sorted_pairs d) = pc_identity d"
  by (simp add: pc_identity_def sorted_sees)

lemma window_sorted: "pc_window v = Inr () \<Longrightarrow> wf_val v \<Longrightarrow> pc_window (sorted_value v) = Inr ()"
  unfolding window_Inr
  by (elim exE conjE) (simp add: sorted_sees sorted_value_dict del: sorted_value.simps(1))

lemma tree_sorted: "pc_tree v = Inr () \<Longrightarrow> wf_val v \<Longrightarrow> pc_tree (sorted_value v) = Inr ()"
  unfolding tree_Inr
  by (elim exE conjE) (simp add: sorted_sees sorted_value_dict del: sorted_value.simps(1))

lemma item_sorted: "pc_required_item v = Inr name \<Longrightarrow> wf_val v \<Longrightarrow> pc_required_item (sorted_value v) = Inr name"
  unfolding required_item_Inr
  by (elim exE conjE) (simp add: sorted_sees sorted_value_dict del: sorted_value.simps(1) split: if_splits)

lemma items_sorted:
  "mapE pc_required_item items = Inr names \<Longrightarrow> wf_val (PList items) \<Longrightarrow>
     mapE pc_required_item (map sorted_value items) = Inr names"
  by (induction items arbitrary: names) (auto simp: item_sorted)

lemma artifact_sorted:
  "pc_artifact (generation, v) = Inr n \<Longrightarrow> wf_val v \<Longrightarrow> pc_artifact (generation, sorted_value v) = Inr n"
  unfolding artifact_Inr
proof (elim exE conjE)
  fix a items names
  assume v: "v = PDict a" "wf_val v" and keys: "keys_are a [''rootfs'', ''tftp'', ''required_tftp'']"
    and trees: "pc_tree (dget a ''rootfs'') = Inr ()" "pc_tree (dget a ''tftp'') = Inr ()"
    and items: "dget a ''required_tftp'' = PList items" "1 \<le> length items" "length items \<le> 128"
      "mapE pc_required_item items = Inr names"
    and rest: "names = sort (remdups names)" "boot_complete generation names" "n = length items"
  have wf: "wf_val (dget a k)" for k using v by (auto intro: wf_dget simp del: wf_val.simps)
  have d: "distinct (map fst a)" using v by simp
  have "mapE pc_required_item (map sorted_value items) = Inr names"
    using items(4) wf [of "''required_tftp''", unfolded items(1)] by (rule items_sorted)
  with keys items(1,2,3) rest trees tree_sorted wf d show "\<exists>a items names. sorted_value v = PDict a
     \<and> keys_are a [''rootfs'', ''tftp'', ''required_tftp'']
     \<and> pc_tree (dget a ''rootfs'') = Inr () \<and> pc_tree (dget a ''tftp'') = Inr () \<and> dget a ''required_tftp'' = PList items
     \<and> 1 \<le> length items \<and> length items \<le> 128 \<and> mapE pc_required_item items = Inr names
     \<and> names = sort (remdups names) \<and> boot_complete generation names \<and> n = length items"
    by (intro exI [of _ "sorted_pairs a"] exI [of _ "map sorted_value items"] exI [of _ names])
      (simp add: v(1) sorted_sees sorted_value_dict del: sorted_value.simps(1))
qed

lemma mapE_mset:
  assumes "mapE f xs = Inr ys" and "mset zs = mset xs"
  shows "\<exists>ws. mapE f zs = Inr ws \<and> mset ws = mset ys"
proof -
  have ys: "list_all2 (\<lambda>x y. f x = Inr y) xs ys" using assms(1) by (simp only: mapE_Inr_iff)
  then have "ys = map (\<lambda>x. projr (f x)) xs" by (induction rule: list_all2_induct) auto
  moreover have "f x = Inr (projr (f x))" if "x \<in> set zs" for x
  proof -
    from that assms(2) have "x \<in> set xs" by (metis mset_eq_setD)
    from mapE_all [OF assms(1) this] show ?thesis by auto
  qed
  then have "list_all2 (\<lambda>x y. f x = Inr y) zs (map (\<lambda>x. projr (f x)) zs)"
    by (simp add: list_all2_map2 list_all2_same)
  ultimately show ?thesis using assms(2) by (auto simp only: mapE_Inr_iff mset_map)
qed

lemma mapE_sorted_pairs:
  assumes "mapE f d = Inr ys" and "\<And>k v y. (k, v) \<in> set d \<Longrightarrow> f (k, v) = Inr y \<Longrightarrow> f (k, sorted_value v) = Inr y"
  shows "\<exists>ws. mapE f (sorted_pairs d) = Inr ws \<and> mset ws = mset ys"
proof -
  have "mapE f (map (\<lambda>(k, v). (k, sorted_value v)) d) = Inr ys"
    using assms by (induction d arbitrary: ys) (auto split: prod.splits)
  then show ?thesis by (rule mapE_mset) (simp add: sorted_pairs_def)
qed

lemma remdups_mset: "mset xs = mset ys \<Longrightarrow> length (remdups xs) = length (remdups ys)"
  by (metis length_remdups_card_conv set_mset_mset)

lemma declarations_sorted:
  "pc_declarations v = Inr () \<Longrightarrow> wf_val v \<Longrightarrow> pc_declarations (sorted_value v) = Inr ()"
  unfolding declarations_Inr
proof (elim exE conjE)
  fix sd digests
  assume v: "v = PDict sd" "wf_val v" and keys: "keys_are sd GENERATIONS"
    and digests: "mapE (\<lambda>(g, digest). pc_string digest (hexn 64)) sd = Inr digests" "length (remdups digests) = 1"
  from mapE_sorted_pairs [OF digests(1)] obtain ws where
    "mapE (\<lambda>(g, digest). pc_string digest (hexn 64)) (sorted_pairs sd) = Inr ws" "mset ws = mset digests"
    by (auto simp: string_sorted)
  then show "\<exists>sd digests. sorted_value v = PDict sd \<and> keys_are sd GENERATIONS
     \<and> mapE (\<lambda>(g, digest). pc_string digest (hexn 64)) sd = Inr digests \<and> length (remdups digests) = 1"
    using keys digests(2) remdups_mset [of ws digests]
    by (simp add: v(1) sorted_value_dict keys_are_sorted del: sorted_value.simps(1))
qed

lemma receipt_id_sorted: "pc_receipt_id sha (sorted_pairs d) = pc_receipt_id sha d"
proof -
  have "PDict (filter (\<lambda>(k, v). k \<noteq> ''receipt_id'') (sorted_pairs d))
      = sorted_value (PDict (filter (\<lambda>(k, v). k \<noteq> ''receipt_id'') d))"
    by (simp only: filter_sorted_pairs sorted_value_dict)
  then show ?thesis by (simp only: pc_receipt_id_def canonical_sorted)
qed

lemma validate_sorted:
  assumes "validate_receipt sha (PDict d) = Inr d" and "wf_val (PDict d)"
  shows "validate_receipt sha (sorted_value (PDict d)) = Inr (sorted_pairs d)"
proof -
  from assms(1) obtain arts counts rid where keys: "keys_are d RECEIPT_KEYS" and id: "pc_identity d = Inr ()"
    and parts: "pc_declarations (dget d ''source_declarations'') = Inr ()" "pc_window (dget d ''capture_window'') = Inr ()"
    and arts: "dget d ''artifacts'' = PDict arts" "keys_are arts GENERATIONS" "mapE pc_artifact arts = Inr counts"
      "sum_list counts \<le> 128"
    and rid: "pc_receipt_id sha d = Inr rid" "dget d ''receipt_id'' = PStr rid"
    unfolding validate_Inr by blast
  have wf: "wf_val (dget d k)" for k using assms(2) by (rule wf_dget)
  have dist: "distinct (map fst d)" using assms(2) by simp
  have "wf_val v" if "(g, v) \<in> set arts" for g v
    using wf [of "''artifacts''", unfolded arts(1)] that by (auto simp: list_all_iff)
  with mapE_sorted_pairs [OF arts(3)] artifact_sorted obtain ws where
    ws: "mapE pc_artifact (sorted_pairs arts) = Inr ws" "mset ws = mset counts" by blast
  then have "sum_list ws \<le> 128" using arts(4) by (metis sum_mset_sum_list)
  moreover have "dget (sorted_pairs d) ''artifacts'' = PDict (sorted_pairs arts)"
    by (simp only: dget_sorted [OF dist] arts(1) sorted_value_dict)
  moreover have "dget (sorted_pairs d) ''receipt_id'' = PStr rid"
    by (simp only: dget_sorted [OF dist] rid(2) sorted_value.simps)
  moreover have "pc_declarations (dget (sorted_pairs d) ''source_declarations'') = Inr ()"
    "pc_window (dget (sorted_pairs d) ''capture_window'') = Inr ()"
    unfolding dget_sorted [OF dist] using declarations_sorted [OF parts(1) wf] window_sorted [OF parts(2) wf] .
  moreover have "keys_are (sorted_pairs d) RECEIPT_KEYS" "keys_are (sorted_pairs arts) GENERATIONS"
    using keys arts(2) by (simp_all only: keys_are_sorted)
  moreover have "pc_identity (sorted_pairs d) = Inr ()" "pc_receipt_id sha (sorted_pairs d) = Inr rid"
    using id rid(1) by (simp_all only: identity_sorted [OF dist] receipt_id_sorted)
  ultimately show ?thesis using ws(1) unfolding validate_Inr sorted_value_dict by blast
qed

end
