(* ===== verification/Producer_Props.thy ===== *)
theory Producer_Props
  imports Producer Producer_Valid
begin

text \<open>
  Properties of the producer receipt: receipts are immutable, what is written can be read, and
  the identifier binds the contents.  A complete example run at the end shows that their hypotheses can hold.
\<close>

section \<open>Stored receipts\<close>

text \<open>The canonical bytes of a valid receipt of a date.\<close>

definition stored_receipt :: "(string \<Rightarrow> string) \<Rightarrow> string \<Rightarrow> string \<Rightarrow> bool" where
  "stored_receipt sha date raw \<longleftrightarrow> (\<exists>d t. wf_val (PDict d) \<and> validate_receipt sha (PDict d) = Inr d
     \<and> dget d ''bundle_date'' = PStr date \<and> pc_canonical (PDict d) = Inr t \<and> raw = t @ [CHR 0x0A] \<and> length raw \<le> MAX_RECEIPT)"

lemma valid_date: "validate_receipt sha v = Inr d \<Longrightarrow> dget d ''bundle_date'' = PStr date \<Longrightarrow> pc_date (PStr date) = Inr date"
  by (auto simp: validate_Inr pc_identity_def pc_Inr pc_date_Inr)

lemma read_back:
  assumes "wf_val (PDict d)" and "validate_receipt sha (PDict d) = Inr d" and "dget d ''bundle_date'' = PStr date"
    and "pc_canonical (PDict d) = Inr t"
    and "pc_file io (RECEIPT_ROOT @ ''/releases/producer'') (date @ ''.json'') MAX_RECEIPT = Inr (t @ [CHR 0x0A])"
  shows "read_receipt float_of sha io date = Inr (sorted_pairs d, sha (t @ [CHR 0x0A]))"
proof -
  have dist: "distinct (map fst d)" using assms(1) by simp
  have "pc_json float_of (t @ [CHR 0x0A]) = Inr (sorted_value (PDict d))"
    using valid_no_floats [OF assms(2,1)] assms(1,4) by (rule canonical_roundtrip)
  moreover have "validate_receipt sha (sorted_value (PDict d)) = Inr (sorted_pairs d)"
    using assms(2,1) by (rule validate_sorted)
  moreover have "pc_canonical (PDict (sorted_pairs d)) = Inr t"
    using assms(4) by (simp only: canonical_sorted flip: sorted_value_dict)
  moreover have "dget (sorted_pairs d) ''bundle_date'' = PStr date"
    by (simp only: dget_sorted [OF dist] assms(3) sorted_value.simps)
  ultimately show ?thesis
    unfolding read_receipt_def assms(5) valid_date [OF assms(2,3)] by (simp only: bindE_simps if_False simp_thms)
qed

section \<open>Publication\<close>

text \<open>What a run is given: the tree measurement answers with a dictionary, and the temporary file
  has a name of its own.\<close>

definition env_ok :: "produce_env \<Rightarrow> bool" where
  "env_ok env \<longleftrightarrow> startswith (pe_temp env) ''.producer-''
     \<and> (\<forall>base t m. pe_tree env base = Inr (t, m) \<longrightarrow> wf_val (PDict t))"

lemma date_name_not_temp:
  assumes "date8 date" and "startswith temp ''.producer-''"
  shows "date @ ''.json'' \<noteq> temp"
proof -
  have "length date = 8" "list_all ascii_digit date" using assms(1) by (simp_all add: date8_def)
  then obtain c r where "date = c # r" "ascii_digit c" by (cases date) auto
  moreover obtain r' where "temp = CHR ''.'' # r'" using assms(2) by (cases temp) (auto simp: startswith_def)
  ultimately show ?thesis by (auto simp: ascii_digit_def)
qed

text \<open>Every outcome of the publication: other names keep their contents, and the receipt's name
  keeps its own or gets the new bytes when it had none.\<close>

lemma unlink_temp_other: "name \<noteq> pe_temp env \<Longrightarrow> fst (unlink_temp env fs r) name = fs name"
  by (simp add: unlink_temp_def split: sum.split)

lemma publish_bytes_other:
  assumes "name' \<noteq> pe_temp env" and "name' \<noteq> name"
  shows "fst (publish_bytes env fs name raw) name' = fs name'"
  using assms by (auto simp: publish_bytes_def unlink_temp_other Let_def split: sum.split)

lemma publish_bytes_name:
  assumes "name \<noteq> pe_temp env"
  shows "fst (publish_bytes env fs name raw) name = fs name
    \<or> fs name = None \<and> fst (publish_bytes env fs name raw) name = Some raw"
  using assms by (auto simp: publish_bytes_def unlink_temp_other Let_def split: sum.split)

lemma publish_bytes_done:
  assumes "name \<noteq> pe_temp env" and "publish_bytes env fs name raw = (fs', Inr ())"
  shows "fs name = None \<and> fs' name = Some raw"
  using assms unlink_temp_other [of name env]
  by (auto simp: publish_bytes_def Let_def unlink_temp_def split: sum.splits if_splits)

lemma measure_generation_wf:
  assumes "measure_generation float_of sha env date build_id revision paths phase g = Inr (decl, artifact, timing)" and "env_ok env"
  shows "wf_val artifact"
proof -
  have "wf_val x" if "required_file sha io base name = Inr x" for io base name x
    using that by (auto simp: required_file_def split: if_splits)
  then have "list_all wf_val xs" if "required_files sha io base names = Inr xs" for io base names xs
    using that mapE_Inr_set by (fastforce simp: required_files_def list_all_iff)
  moreover from assms(1) obtain t1 m1 b1 t2 m2 b2 io base names req where
    "pe_tree env b1 = Inr (t1, m1)" "pe_tree env b2 = Inr (t2, m2)" "required_files sha io base names = Inr req"
    "artifact = PDict [(''rootfs'', PDict t1), (''tftp'', PDict t2), (''required_tftp'', PList req)]"
    by (auto simp: measure_generation_def Let_def pc_Inr)
  moreover from this(1,2) assms(2) have "wf_val (PDict t1)" "wf_val (PDict t2)" unfolding env_ok_def by blast+
  ultimately show ?thesis by simp
qed

lemma wf_dput: "wf_val (PDict d) \<Longrightarrow> wf_val v \<Longrightarrow> wf_val (PDict (dput k v d))"
  using set_dput [of k v d] by (fastforce simp: list_all_iff)

lemma produced_valid:
  assumes "produced_value float_of sha env date build_id revision profile = Inr (d, timing)" and "env_ok env"
  shows "wf_val (PDict d) \<and> validate_receipt sha (PDict d) = Inr d \<and> dget d ''bundle_date'' = PStr date"
proof -
  from assms(1) obtain measured rid where m: "measure_pair float_of sha env date build_id revision profile = Inr (measured, timing)"
    and v: "validate_receipt sha (PDict (dput ''receipt_id'' (PStr rid) measured)) = Inr d"
    by (auto simp: produced_value_def)
  from v have d: "d = dput ''receipt_id'' (PStr rid) measured" by (simp add: validate_Inr)
  from m obtain decl4 artifact4 timing4 decl5 artifact5 timing5 manifest paths where
    gens: "measure_generation float_of sha env date build_id revision paths 1 ''rpi4'' = Inr (decl4, artifact4, timing4)"
      "measure_generation float_of sha env date build_id revision paths 3 ''rpi5'' = Inr (decl5, artifact5, timing5)"
    and measured: "measured =
      [(''schema'', PStr RECEIPT_SCHEMA), (''scope'', PStr ''measured_build_artifacts''),
       (''environment'', PStr ''staging''), (''bundle_date'', PStr date), (''build_id'', PStr build_id),
       (''generation_profile'', PStr profile), (''infra_generation_revision'', PStr revision),
       (''artifact_manifest_sha256'', PStr (sha manifest)),
       (''source_declarations'', PDict [(''rpi4'', PStr decl4), (''rpi5'', PStr decl5)]),
       (''artifacts'', PDict [(''rpi4'', artifact4), (''rpi5'', artifact5)]),
       (''capture_window'', PDict [(''started_at'', PStr (pe_started env)), (''finished_at'', PStr (pe_finished env))])]"
    by (auto simp: measure_pair_def pc_Inr)
  have "wf_val artifact4" "wf_val artifact5" using gens assms(2) by (blast intro: measure_generation_wf)+
  then have "wf_val (PDict measured)" by (simp add: measured)
  then have "wf_val (PDict d)" unfolding d by (rule wf_dput) simp
  moreover have "dget d ''bundle_date'' = PStr date" by (simp add: d) (simp add: measured dget_or_def)
  ultimately show ?thesis using v by (simp add: d)
qed

text \<open>A run: either nothing happens to a receipt's name, or it had none and gets a stored receipt.\<close>

lemma produce_stores:
  assumes "produce float_of sha env date build_id revision profile fs = (fs', r)" and "env_ok env" and "date8 day"
  shows "fs' (day @ ''.json'') = fs (day @ ''.json'')
    \<or> fs (day @ ''.json'') = None \<and> (\<exists>raw. fs' (day @ ''.json'') = Some raw \<and> stored_receipt sha day raw)"
proof (cases "fs' = fs")
  case False
  with assms(1) obtain doc timing where made: "produced_value float_of sha env date build_id revision profile = Inr (doc, timing)"
    and published: "fst (publish env fs (date @ ''.json'') doc) = fs'"
    by (auto simp: produce_def split: sum.splits prod.splits if_splits)
  from False published obtain t where t: "pc_canonical (PDict doc) = Inr t" "length (t @ [CHR 0x0A]) \<le> MAX_RECEIPT"
    and fs': "fs' = fst (publish_bytes env fs (date @ ''.json'') (t @ [CHR 0x0A]))"
    by (auto simp: publish_def Let_def split: sum.splits prod.splits if_splits)
  have other: "day @ ''.json'' \<noteq> pe_temp env" using assms(2,3) by (intro date_name_not_temp) (simp_all add: env_ok_def)
  show ?thesis
  proof (cases "day = date")
    case True
    have "stored_receipt sha day (t @ [CHR 0x0A])"
      unfolding stored_receipt_def True using produced_valid [OF made assms(2)] t by blast
    with publish_bytes_name [of "date @ ''.json''" env fs "t @ [CHR 0x0A]"] other show ?thesis
      unfolding fs' True by blast
  next
    case False
    then have "day @ ''.json'' \<noteq> date @ ''.json''" by simp
    from publish_bytes_other [OF other this] show ?thesis unfolding fs' by blast
  qed
qed simp

text \<open>Any number of runs, each with its own arguments and answers of the system.\<close>

inductive producer_runs :: "(string \<Rightarrow> pyfloat) \<Rightarrow> (string \<Rightarrow> string) \<Rightarrow> receipts \<Rightarrow> receipts \<Rightarrow> bool"
  for float_of sha fs where
  no_run: "producer_runs float_of sha fs fs"
| one_run: "producer_runs float_of sha fs fs1 \<Longrightarrow> env_ok env \<Longrightarrow>
    produce float_of sha env date build_id revision profile fs1 = (fs2, r) \<Longrightarrow> producer_runs float_of sha fs fs2"

text \<open>
  Property C3.  Receipts are immutable: whatever the system answers, over any number of runs of the
  producer a stored receipt is never changed or removed, and every receipt that appears under a date
  is the canonical text of a valid receipt of that date.
\<close>

theorem receipts_are_immutable:
  assumes "producer_runs float_of sha fs fs'" and "date8 day"
    and "\<And>raw. fs (day @ ''.json'') = Some raw \<Longrightarrow> stored_receipt sha day raw"
  shows "(fs (day @ ''.json'') \<noteq> None \<longrightarrow> fs' (day @ ''.json'') = fs (day @ ''.json''))
    \<and> (\<forall>raw. fs' (day @ ''.json'') = Some raw \<longrightarrow> stored_receipt sha day raw)"
  using assms(1)
proof induction
  case no_run
  then show ?case using assms(3) by simp
next
  case (one_run fs1 env date build_id revision profile fs2 r)
  from produce_stores [OF one_run.hyps(3,2) assms(2)] one_run.IH show ?case by auto
qed

text \<open>
  Property C29.  What a run has written can be read: the status probe accepts the receipt, with the
  digest and the identifier the producer has reported, when the file it opens is the one in the directory.
\<close>

theorem written_receipt_is_read:
  assumes "produce float_of sha env date build_id revision profile fs = (fs', Inr result)" and "env_ok env"
    and "dict_value result ''status'' = PStr ''written''"
    and "\<And>raw. fs' (date @ ''.json'') = Some raw \<Longrightarrow>
      pc_file io (RECEIPT_ROOT @ ''/releases/producer'') (date @ ''.json'') MAX_RECEIPT = Inr raw"
  shows "\<exists>d raw. fs' (date @ ''.json'') = Some raw \<and> read_receipt float_of sha io date = Inr (d, sha raw)
    \<and> dict_value result ''receipt_sha256'' = PStr (sha raw) \<and> dict_value result ''receipt_id'' = dget d ''receipt_id''"
proof -
  have unchanged: "dict_value (produce_result sha ''unchanged'' date d raw timing) ''status'' \<noteq> PStr ''written''" for d raw timing
    by (simp add: produce_result_def dict_value_def dget_or_def)
  from assms(1,3) unchanged obtain doc timing raw where
    made: "produced_value float_of sha env date build_id revision profile = Inr (doc, timing)"
    and published: "publish env fs (date @ ''.json'') doc = (fs', Inr raw)"
    and result: "result = produce_result sha ''written'' date doc raw timing"
    by (auto simp: produce_def split: sum.splits prod.splits if_splits)
  note valid = produced_valid [OF made assms(2)]
  from valid have "date8 date" by (auto simp: validate_Inr pc_identity_def pc_Inr pc_date_Inr)
  with assms(2) have other: "date @ ''.json'' \<noteq> pe_temp env" by (intro date_name_not_temp) (simp_all add: env_ok_def)
  from published obtain t where t: "pc_canonical (PDict doc) = Inr t" "raw = t @ [CHR 0x0A]"
    and bytes: "publish_bytes env fs (date @ ''.json'') raw = (fs', Inr ())"
    by (auto simp: publish_def Let_def bad_def split: sum.splits prod.splits if_splits)
  from publish_bytes_done [OF other bytes] have stored: "fs' (date @ ''.json'') = Some raw" ..
  from read_back [of doc, OF _ _ _ t(1) assms(4) [OF stored, unfolded t(2)]] valid
  have read: "read_receipt float_of sha io date = Inr (sorted_pairs doc, sha raw)" unfolding t(2) by blast
  from valid obtain rid where rid: "dget doc ''receipt_id'' = PStr rid" "distinct (map fst doc)"
    by (auto simp: validate_Inr)
  have "dget (sorted_pairs doc) ''receipt_id'' = PStr rid"
    by (simp only: dget_sorted [OF rid(2)] rid(1) sorted_value.simps)
  moreover have "dict_value result ''receipt_sha256'' = PStr (sha raw)" "dict_value result ''receipt_id'' = PStr rid"
    using rid(1) by (simp_all add: result produce_result_def dict_value_def dget_or_def)
  ultimately show ?thesis using stored read by metis
qed

section \<open>The identifier\<close>

text \<open>The text the identifier is the digest of.\<close>

definition receipt_payload :: "pydict \<Rightarrow> string res" where
  "receipt_payload d = pc_canonical (PDict (filter (\<lambda>(k, v). k \<noteq> ''receipt_id'') d))"

lemma read_receipt_Inr:
  assumes "read_receipt float_of sha io date = Inr (d, h)"
  shows "\<exists>raw t. pc_json float_of raw = Inr (PDict d) \<and> wf_val (PDict d) \<and> validate_receipt sha (PDict d) = Inr d
     \<and> pc_canonical (PDict d) = Inr t \<and> raw = t @ [CHR 0x0A] \<and> h = sha raw"
proof -
  from assms obtain raw v t where raw: "pc_json float_of raw = Inr v" "validate_receipt sha v = Inr d"
    "pc_canonical (PDict d) = Inr t" "raw = t @ [CHR 0x0A]" "h = sha raw"
    by (auto simp: read_receipt_def bad_def split: if_splits)
  moreover from raw(2) have "v = PDict d" by (simp add: validate_Inr)
  moreover from raw(1) have "wf_val v"
    by (auto simp: pc_json_def json_loads_unique_def bad_def split: option.splits if_splits)
  ultimately show ?thesis by blast
qed

lemma no_floats_filter: "no_floats (PDict d) \<Longrightarrow> no_floats (PDict (filter P d))"
  by (auto simp: list_all_iff)

lemma wf_filter: "wf_val (PDict d) \<Longrightarrow> wf_val (PDict (filter P d))"
  by (auto simp: list_all_iff distinct_map_filter)

lemma set_filter_key:
  assumes "distinct (map fst d)" and "(k, v) \<in> set d"
  shows "set d = insert (k, v) (set (filter (\<lambda>(x, y). x \<noteq> k) d))"
  using assms by (auto dest: eq_key_imp_eq_value)

lemma set_sorted_filter:
  assumes "distinct (map fst d)" and "(k, PStr s) \<in> set d"
  shows "set (sorted_pairs d) = insert (k, PStr s) (set (sorted_pairs (filter (\<lambda>(x, y). x \<noteq> k) d)))"
proof -
  have "(\<lambda>(k, v). (k, sorted_value v)) ` set d
      = (\<lambda>(k, v). (k, sorted_value v)) ` insert (k, PStr s) (set (filter (\<lambda>(x, y). x \<noteq> k) d))"
    by (rule arg_cong [OF set_filter_key [OF assms]])
  then show ?thesis by (simp only: set_sorted_pairs image_insert case_prod_conv sorted_value.simps)
qed

lemma sorted_pairs_eq:
  assumes "distinct (map fst d)" and "distinct (map fst e)" and "set (sorted_pairs d) = set (sorted_pairs e)"
  shows "sorted_pairs d = sorted_pairs e"
proof (rule map_sorted_distinct_set_unique [of fst])
  show "inj_on fst (set (sorted_pairs d) \<union> set (sorted_pairs e))"
    using assms by (metis Un_absorb distinct_map distinct_sorted_pairs)
qed (use assms in \<open>simp_all add: distinct_sorted_pairs\<close>, simp_all add: sorted_pairs_def)

text \<open>Two valid receipts with one identifier are the same up to the order of keys, or their payloads collide.\<close>

lemma same_identifier:
  assumes one: "wf_val (PDict d1)" "validate_receipt sha (PDict d1) = Inr d1"
    and two: "wf_val (PDict d2)" "validate_receipt sha (PDict d2) = Inr d2"
    and "dget d1 ''receipt_id'' = dget d2 ''receipt_id''"
  shows "sorted_value (PDict d1) = sorted_value (PDict d2)
    \<or> (\<exists>p q. receipt_payload d1 = Inr p \<and> receipt_payload d2 = Inr q \<and> p \<noteq> q
     \<and> sha (RECEIPT_DOMAIN @ p) = sha (RECEIPT_DOMAIN @ q))"
proof -
  from one(2) obtain p where p: "receipt_payload d1 = Inr p" "dget d1 ''receipt_id'' = PStr (''sha256:'' @ sha (RECEIPT_DOMAIN @ p))"
    unfolding validate_Inr pc_receipt_id_def receipt_payload_def by auto
  from two(2) obtain q where q: "receipt_payload d2 = Inr q" "dget d2 ''receipt_id'' = PStr (''sha256:'' @ sha (RECEIPT_DOMAIN @ q))"
    unfolding validate_Inr pc_receipt_id_def receipt_payload_def by auto
  have digests: "sha (RECEIPT_DOMAIN @ p) = sha (RECEIPT_DOMAIN @ q)" using assms(5) p(2) q(2) by simp
  show ?thesis
  proof (cases "p = q")
    case True
    let ?f = "filter (\<lambda>(k, v). k \<noteq> ''receipt_id'')"
    note floats = valid_no_floats [OF one(2,1)] valid_no_floats [OF two(2,1)]
    have "sorted_value (PDict (?f d1)) = sorted_value (PDict (?f d2))"
      using canonical_inject [OF no_floats_filter [OF floats(1)] wf_filter [OF one(1)]
          no_floats_filter [OF floats(2)] wf_filter [OF two(1)]] p(1) q(1) True
      unfolding receipt_payload_def by blast
    then have same: "sorted_pairs (?f d1) = sorted_pairs (?f d2)" by (simp only: sorted_value_dict pyval.inject)
    have dist: "distinct (map fst d1)" "distinct (map fst d2)" using one(1) two(1) by simp_all
    let ?id = "PStr (''sha256:'' @ sha (RECEIPT_DOMAIN @ p))"
    have member: "(k, v) \<in> set d" if "dget d k = v" "v \<noteq> PNone" for d k v
      using that map_of_SomeD by (fastforce simp: dget_or_def split: option.splits)
    have "(''receipt_id'', ?id) \<in> set d1" "(''receipt_id'', ?id) \<in> set d2"
      using member [OF p(2)] member [OF q(2)] True by simp_all
    from this [THEN set_sorted_filter [rotated]] same dist
    have "set (sorted_pairs d1) = set (sorted_pairs d2)" by (simp only:)
    then have "sorted_pairs d1 = sorted_pairs d2" using dist by (intro sorted_pairs_eq)
    then show ?thesis by (simp only: sorted_value_dict simp_thms)
  qed (use p(1) q(1) digests in blast)
qed

text \<open>
  The identifier binds the contents: two receipts that the reader accepts under one
  identifier are equal, or their two payloads are different texts of equal digest.
\<close>

lemma identifier_binds_contents:
  assumes "read_receipt float_of sha io1 date1 = Inr (d1, h1)" and "read_receipt float_of sha io2 date2 = Inr (d2, h2)"
    and "dget d1 ''receipt_id'' = dget d2 ''receipt_id''"
  shows "d1 = d2 \<or> (\<exists>p q. receipt_payload d1 = Inr p \<and> receipt_payload d2 = Inr q \<and> p \<noteq> q
     \<and> sha (RECEIPT_DOMAIN @ p) = sha (RECEIPT_DOMAIN @ q))"
proof -
  from read_receipt_Inr [OF assms(1)] obtain raw1 t1 where one: "pc_json float_of raw1 = Inr (PDict d1)"
    "wf_val (PDict d1)" "validate_receipt sha (PDict d1) = Inr d1" "pc_canonical (PDict d1) = Inr t1" "raw1 = t1 @ [CHR 0x0A]" by blast
  from read_receipt_Inr [OF assms(2)] obtain raw2 t2 where two: "pc_json float_of raw2 = Inr (PDict d2)"
    "wf_val (PDict d2)" "validate_receipt sha (PDict d2) = Inr d2" "pc_canonical (PDict d2) = Inr t2" "raw2 = t2 @ [CHR 0x0A]" by blast
  have "d1 = d2" if "sorted_value (PDict d1) = sorted_value (PDict d2)"
  proof -
    have "t1 = t2" using that one(4) two(4) canonical_sorted [of "PDict d1"] canonical_sorted [of "PDict d2"] by simp
    then show ?thesis using one(1,5) two(1,5) by simp
  qed
  with same_identifier [OF one(2,3) two(2,3) assms(3)] show ?thesis by blast
qed

section \<open>An example run\<close>

definition ex_sha :: "string \<Rightarrow> string" where "ex_sha s = replicate 64 (CHR ''0'')"

definition ex_names :: "string \<Rightarrow> string list" where
  "ex_names generation = [if generation = ''rpi4'' then ''bcm2711-rpi-4-b.dtb'' else ''bcm2712-rpi-5-b.dtb'',
     ''initramfs.img'', ''kernel8.img'', ''overlays'']"

definition ex_pair :: pydict where
  "ex_pair = [(''schema'', PInt 1), (''policy'', PStr ''paired_clean''), (''bundle_date'', PStr ''20240101''),
     (''releases'', PDict (pair_releases ''20240101'')), (''target_hosts'', PList []), (''target_stages'', PList [PStr ''stg'']),
     (''required_tftp_paths'', PList (concat (map (\<lambda>g. map (\<lambda>n. PDict [(''generation'', PStr g),
        (''release'', PStr (release_of ''20240101'' g)), (''path'', PStr n)]) (ex_names g)) GENERATIONS))),
     (''markers'', PList []), (''metadata'', PDict [])]"

definition ex_declaration :: pydict where
  "ex_declaration = [(''schema'', PStr ''homecluster-pxe-source-declaration-v1''), (''environment'', PStr ''staging''),
     (''build_id'', PStr ''b1''), (''infra_revision'', PStr (replicate 40 (CHR ''a'')))]"

definition ex_tree :: pydict where
  "ex_tree = [(''schema'', PStr ''homecluster-pxe-artifact-tree-v1''), (''algorithm'', PStr ''sha256-posix-tree-v1''),
     (''digest'', PStr (replicate 64 (CHR ''0''))), (''entries'', PInt 1), (''regular_file_bytes'', PInt 0)]"

definition ex_text :: "pydict \<Rightarrow> string" where "ex_text d = json_enc json_compact (PDict d)"

definition ex_stat :: "nat \<Rightarrow> node_stat" where
  "ex_stat n = \<lparr>ns_dev = 1, ns_ino = 2, ns_mode = 0x8124, ns_size = n, ns_uid = 0, ns_gid = 0, ns_mtime = 3, ns_ctime = 4\<rparr>"

definition ex_file :: "string \<Rightarrow> file_read" where
  "ex_file s = \<lparr>fr_before = Inr (ex_stat (length s)), fr_chunks = [Inr s, Inr []],
     fr_after = Inr (ex_stat (length s)), fr_named = Inr (ex_stat (length s))\<rparr>"

definition ex_io :: "string option \<Rightarrow> producer_io" where
  "ex_io receipt = \<lparr>io_dirs = (\<lambda>_. []), io_open = (\<lambda>path.
     if path = ''/srv/gentoo/releases/20240101.json'' then Inr (ex_file (ex_text ex_pair))
     else if path = ''/srv/gentoo/releases/producer/20240101.json''
     then (case receipt of None \<Rightarrow> Inl FileNotFoundError | Some raw \<Rightarrow> Inr (ex_file raw))
     else if drop (length path - 23) path = ''source-declaration.json'' then Inr (ex_file (ex_text ex_declaration))
     else Inr (ex_file ''x''))\<rparr>"

definition ex_env :: produce_env where
  "ex_env = \<lparr>pe_started = ''2024-01-01T00:00:00Z'', pe_finished = ''2024-01-01T00:01:00Z'', pe_io = (\<lambda>_. ex_io None),
     pe_tree = (\<lambda>_. Inr (ex_tree, [])), pe_temp = ''.producer-0'', pe_create = Inr (), pe_write = ([], Inr ()),
     pe_link = Inr (), pe_sync = Inr (), pe_unlink = Inr ()\<rparr>"

definition ex_required_value :: "string \<Rightarrow> pyval" where
  "ex_required_value n = (if n = ''overlays'' then PDict [(''path'', PStr n), (''type'', PStr ''directory'')]
     else PDict [(''path'', PStr n), (''type'', PStr ''regular''), (''sha256'', PStr (replicate 64 (CHR ''0''))), (''size'', PInt 1)])"

definition ex_artifact :: "string \<Rightarrow> pyval" where
  "ex_artifact g = PDict [(''rootfs'', PDict ex_tree), (''tftp'', PDict ex_tree),
     (''required_tftp'', PList (map ex_required_value (ex_names g)))]"

definition ex_measured :: pydict where
  "ex_measured = [(''schema'', PStr RECEIPT_SCHEMA), (''scope'', PStr ''measured_build_artifacts''),
     (''environment'', PStr ''staging''), (''bundle_date'', PStr ''20240101''), (''build_id'', PStr ''b1''),
     (''generation_profile'', PStr ''standard''), (''infra_generation_revision'', PStr (replicate 40 (CHR ''a''))),
     (''artifact_manifest_sha256'', PStr (replicate 64 (CHR ''0''))),
     (''source_declarations'', PDict [(''rpi4'', PStr (replicate 64 (CHR ''0''))), (''rpi5'', PStr (replicate 64 (CHR ''0'')))]),
     (''artifacts'', PDict [(''rpi4'', ex_artifact ''rpi4''), (''rpi5'', ex_artifact ''rpi5'')]),
     (''capture_window'', PDict [(''started_at'', PStr ''2024-01-01T00:00:00Z''), (''finished_at'', PStr ''2024-01-01T00:01:00Z'')])]"

definition ex_id :: string where "ex_id = ''sha256:'' @ replicate 64 (CHR ''0'')"

definition ex_receipt :: pydict where "ex_receipt = dput ''receipt_id'' (PStr ex_id) ex_measured"

lemma ex_read: "0 < length s \<Longrightarrow> length s \<le> limit \<Longrightarrow> read_stable (ex_file s) limit = Inr s"
  by (simp add: read_stable_def ex_file_def ex_stat_def regular_mode_def)

lemma ex_floats: "no_floats (PDict ex_measured)" "no_floats (PDict ex_receipt)" "no_floats (PDict ex_pair)"
    "no_floats (PDict ex_declaration)" "wf_val (PDict ex_measured)" "wf_val (PDict ex_receipt)"
    "wf_val (PDict ex_pair)" "wf_val (PDict ex_declaration)"
  by code_simp+

lemma ex_identity: "pc_identity ex_receipt = Inr ()" by code_simp
lemma ex_window: "pc_window (dget ex_receipt ''capture_window'') = Inr ()" "pc_window (dget ex_measured ''capture_window'') = Inr ()" by code_simp+
lemma ex_declarations: "pc_declarations (dget ex_receipt ''source_declarations'') = Inr ()" by code_simp
lemma ex_artifacts: "bindE (pc_object (dget ex_receipt ''artifacts'') GENERATIONS) (mapE pc_artifact) = Inr [4, 4]" by code_simp

lemma ex_receipt_id: "no_floats (PDict d) \<Longrightarrow> pc_receipt_id ex_sha d = Inr ex_id"
  using canonical_no_floats [OF no_floats_filter] by (simp add: pc_receipt_id_def ex_sha_def ex_id_def)

lemma ex_valid: "validate_receipt ex_sha (PDict ex_receipt) = Inr ex_receipt"
proof -
  obtain arts where arts: "dget ex_receipt ''artifacts'' = PDict arts" "keys_are arts GENERATIONS" "mapE pc_artifact arts = Inr [4, 4]"
    using ex_artifacts by (auto simp: pc_object_Inr)
  have "keys_are ex_receipt RECEIPT_KEYS" by code_simp
  moreover have "dget ex_receipt ''receipt_id'' = PStr ex_id" by (simp add: ex_receipt_def)
  ultimately show ?thesis unfolding validate_Inr
    using ex_identity ex_window ex_declarations arts ex_receipt_id [OF ex_floats(2)] by fastforce
qed

definition ex_canonical :: string where "ex_canonical = json_enc json_compact (sorted_value (PDict ex_receipt))"

text \<open>A bound on the length of an encoding, for the sizes of the example files.\<close>

function enc_size :: "pyval \<Rightarrow> nat" where
  "enc_size (PList xs) = Suc (Suc (sum_list (map (\<lambda>x. Suc (enc_size x)) xs)))"
| "enc_size (PDict d) = Suc (Suc (sum_list (map (\<lambda>(k, v). 6 * length k + 4 + enc_size v) d)))"
| "enc_size (PStr s) = 6 * length s + 2"
| "enc_size (PInt i) = length (str_int i)"
| "enc_size (PFloat f) = length (json_float f)"
| "enc_size PNone = 4"
| "enc_size (PBool b) = 5"
  by pat_completeness auto
termination
  by (relation "measure size")
    (auto simp: size_list_estimation' less_Suc_eq_le dest: size_pair_item size_pair_item')

lemma length_join_1: "length (py_join [c] xs) \<le> sum_list (map (\<lambda>x. Suc (length x)) xs)"
  by (induction "[c]" xs rule: py_join.induct) auto

lemma length_enc: "length (json_enc json_compact v) \<le> enc_size v"
proof (induction v rule: enc_size.induct)
  case (1 xs)
  have "sum_list (map (\<lambda>x. Suc (length (json_enc json_compact x))) xs) \<le> sum_list (map (\<lambda>x. Suc (enc_size x)) xs)"
    using 1 by (intro sum_list_mono) simp
  with length_join_1 [of "CHR '',''" "map (json_enc json_compact) xs"] show ?case
    by (simp add: json_compact_def comp_def)
next
  case (2 d)
  let ?e = "\<lambda>(k, v). json_str True k @ '':'' @ json_enc json_compact v"
  have "Suc (length (?e p)) \<le> (\<lambda>(k, v). 6 * length k + 4 + enc_size v) p" if "p \<in> set d" for p
    using 2 that length_json_str [of True "fst p"] by (cases p) fastforce
  then have "sum_list (map (\<lambda>p. Suc (length (?e p))) d) \<le> sum_list (map (\<lambda>(k, v). 6 * length k + 4 + enc_size v) d)"
    by (intro sum_list_mono) simp
  with length_join_1 [of "CHR '',''" "map ?e d"] show ?case
    by (simp add: json_compact_def comp_def)
qed (use length_json_str in \<open>simp_all add: json_compact_def\<close>)

lemma enc_size_sorted: "enc_size (sorted_value v) = enc_size v"
proof (induction v rule: sorted_value.induct)
  case (1 d)
  let ?g = "\<lambda>(k, v). 6 * length k + 4 + enc_size v"
  have "sum_list (map ?g (sorted_pairs d)) = sum_list (map ?g (map (\<lambda>(k, v). (k, sorted_value v)) d))"
    unfolding sorted_pairs_def by (simp only: mset_map mset_sort flip: sum_mset_sum_list)
  also have "\<dots> = sum_list (map ?g d)" using 1 by (intro arg_cong [of _ _ sum_list]) auto
  finally show ?case by (simp only: sorted_value_dict enc_size.simps)
next
  case (2 xs)
  then show ?case by (simp add: comp_def cong: map_cong)
qed simp_all

lemma ex_sizes: "0 < length (ex_text ex_pair) \<and> length (ex_text ex_pair) \<le> 100000"
    "0 < length (ex_text ex_declaration) \<and> length (ex_text ex_declaration) \<le> 4000"
    "length ex_canonical \<le> 100000"
proof -
  have "enc_size (PDict ex_pair) \<le> 100000" "enc_size (PDict ex_declaration) \<le> 4000"
    by (simp_all add: ex_pair_def ex_declaration_def ex_names_def GENERATIONS_def pair_releases_def release_of_def str_int_def str_nat_unfold)
  moreover have "enc_size (sorted_value (PDict ex_receipt)) \<le> 100000"
    unfolding enc_size_sorted ex_receipt_def dput_def
    by (simp add: ex_measured_def ex_artifact_def ex_required_value_def ex_tree_def ex_names_def ex_id_def RECEIPT_SCHEMA_def str_int_def str_nat_unfold)
  moreover have "0 < length (ex_text d)" for d by (simp add: ex_text_def)
  ultimately show "0 < length (ex_text ex_pair) \<and> length (ex_text ex_pair) \<le> 100000"
    "0 < length (ex_text ex_declaration) \<and> length (ex_text ex_declaration) \<le> 4000"
    "length ex_canonical \<le> 100000"
    unfolding ex_text_def ex_canonical_def
    by (simp_all only: order_trans [OF length_enc] simp_thms)
qed

lemma ex_canonical: "pc_canonical (PDict ex_receipt) = Inr ex_canonical"
  unfolding ex_canonical_def by (rule canonical_no_floats [OF ex_floats(2)])

lemma pc_json_text:
  assumes "no_floats (PDict d)" and "wf_val (PDict d)"
  shows "pc_json float_of (ex_text d) = Inr (PDict d)"
proof -
  have parse: "json_parse f (ex_text d) = Inr (PDict d)" for f
    unfolding ex_text_def using no_floats_json_ok [OF assms] by (intro json_parse_enc) simp_all
  have "list_all (\<lambda>c. ord_of c < 128) (ex_text d)"
    using ascii_json_enc [OF assms(1)] by (simp add: ex_text_def is_ascii_def)
  then have "utf8_decode (ex_text d) = Some (ex_text d)"
    using utf8_roundtrip [of "ex_text d"] by (simp only: utf8_encode_ascii)
  with no_floats_finite [OF assms(1)] assms(2) show ?thesis
    by (simp add: pc_json_def parse json_loads_unique_def)
qed

definition ex_paths :: name_lists where "ex_paths = map (\<lambda>g. (g, ex_names g)) GENERATIONS"

lemma ex_manifest: "pair_manifest float_of (ex_text ex_pair) ''20240101'' = Inr ex_paths"
  unfolding pair_manifest_def pc_json_text [OF ex_floats(3,7)] bindE_simps by code_simp

lemma ex_pair_declaration:
  "pair_declaration float_of ex_sha (ex_text ex_declaration) ''b1'' (replicate 40 (CHR ''a'')) = Inr (replicate 64 (CHR ''0''))"
  unfolding pair_declaration_def pc_json_text [OF ex_floats(4,8)] bindE_simps by code_simp

definition plain_path :: "string \<Rightarrow> bool" where
  "plain_path p \<longleftrightarrow> p \<noteq> ''/srv/gentoo/releases/20240101.json'' \<and> p \<noteq> ''/srv/gentoo/releases/producer/20240101.json''
     \<and> drop (length p - 23) p \<noteq> ''source-declaration.json''"

definition ex_dir :: "string \<Rightarrow> string" where
  "ex_dir g = RECEIPT_ROOT @ ''/tftp-root/dates/'' @ release_of ''20240101'' g"

definition ex_path_ok :: "string \<Rightarrow> string \<Rightarrow> bool" where
  "ex_path_ok g name \<longleftrightarrow> (let parts = path_parts (ex_dir g @ ''/'' @ name); dir = path_text (butlast parts) in
     ''..'' \<notin> set parts \<and> ''..'' \<notin> set (path_parts dir) \<and> plain_path (dir @ ''/'' @ last parts))"

lemma ex_paths_ok: "list_all (\<lambda>g. list_all (ex_path_ok g) (ex_names g)) GENERATIONS"
  by code_simp

lemma ex_io_plain: "plain_path p \<Longrightarrow> io_open (ex_io r) p = Inr (ex_file ''x'')" "io_dirs (ex_io r) p = []"
  by (simp_all add: ex_io_def plain_path_def)

lemma ex_required:
  assumes "ex_path_ok g name"
  shows "required_file ex_sha (ex_io r) (ex_dir g) name = Inr (ex_required_value name)"
proof (cases "name = ''overlays''")
  case True
  with assms show ?thesis
    by (simp only: ex_path_ok_def Let_def required_file_def in_directory_def ex_io_plain enter_dirs.simps leave_dirs.simps
        bindE_simps if_True if_False ex_required_value_def simp_thms)
next
  case False
  let ?parts = "path_parts (ex_dir g @ ''/'' @ name)"
  from assms have "''..'' \<notin> set (path_parts (path_text (butlast ?parts)))"
    "io_open (ex_io r) (path_text (butlast ?parts) @ ''/'' @ last ?parts) = Inr (ex_file ''x'')"
    unfolding ex_path_ok_def Let_def by (blast, blast intro: ex_io_plain)
  moreover have "read_stable (ex_file ''x'') (nat MAX_TFTP_FILE) = Inr ''x''"
    by (rule ex_read) (simp_all add: MAX_TFTP_FILE_def)
  ultimately have "pc_file (ex_io r) (path_text (butlast ?parts)) (last ?parts) (nat MAX_TFTP_FILE) = Inr ''x''"
    by (simp only: pc_file_def in_directory_def ex_io_plain(2) enter_dirs.simps leave_dirs.simps bindE_simps if_False simp_thms)
  with False show ?thesis
    by (simp only: required_file_def bindE_simps if_False ex_required_value_def ex_sha_def) simp
qed

lemma ex_required_files:
  assumes "g \<in> set GENERATIONS"
  shows "required_files ex_sha (ex_io r) (ex_dir g) (ex_names g) = Inr (map ex_required_value (ex_names g))"
proof -
  have "list_all (ex_path_ok g) (ex_names g)" using ex_paths_ok assms by (simp add: list_all_iff)
  then show ?thesis unfolding required_files_def
    by (induction "ex_names g") (auto simp: mapE_Inr_iff list_all2_map2 list_all2_same list_all_iff ex_required)
qed

lemma ex_declaration_digest:
  assumes "g \<in> set GENERATIONS"
  shows "declaration_digest float_of ex_sha (ex_io r) ''20240101'' ''b1'' (replicate 40 (CHR ''a'')) g = Inr (replicate 64 (CHR ''0''))"
proof -
  let ?dir = "RECEIPT_ROOT @ ''/'' @ release_of ''20240101'' g @ DECLARATION_PARENT"
  have "list_all (\<lambda>g. let dir = RECEIPT_ROOT @ ''/'' @ release_of ''20240101'' g @ DECLARATION_PARENT;
      path = dir @ ''/'' @ DECLARATION_NAME in ''..'' \<notin> set (path_parts dir)
      \<and> path \<noteq> ''/srv/gentoo/releases/20240101.json'' \<and> path \<noteq> ''/srv/gentoo/releases/producer/20240101.json'') GENERATIONS"
    by code_simp
  with assms have dir: "''..'' \<notin> set (path_parts ?dir)" and other: "?dir @ ''/'' @ DECLARATION_NAME \<noteq> ''/srv/gentoo/releases/20240101.json''"
      "?dir @ ''/'' @ DECLARATION_NAME \<noteq> ''/srv/gentoo/releases/producer/20240101.json''"
    unfolding list_all_iff Let_def by blast+
  have "drop (length p - 23) p = ''source-declaration.json''" if "p = x @ DECLARATION_NAME" for p x
    using that by (simp add: DECLARATION_NAME_def)
  then have "io_open (ex_io r) (?dir @ ''/'' @ DECLARATION_NAME) = Inr (ex_file (ex_text ex_declaration))"
    using other by (simp only: ex_io_def producer_io.select_convs if_False if_True append_assoc [symmetric] simp_thms)
  then have "pc_file (ex_io r) ?dir DECLARATION_NAME 4096 = Inr (ex_text ex_declaration)"
    using dir ex_sizes(2) by (simp only: pc_file_def in_directory_def ex_io_plain(2) enter_dirs.simps leave_dirs.simps
        bindE_simps if_False simp_thms) (simp add: ex_read)
  then show ?thesis by (simp only: declaration_digest_def bindE_simps ex_pair_declaration)
qed

lemma ex_generation:
  assumes "g \<in> set GENERATIONS"
  shows "measure_generation float_of ex_sha ex_env ''20240101'' ''b1'' (replicate 40 (CHR ''a'')) ex_paths k g =
    Inr (replicate 64 (CHR ''0''), ex_artifact g, PDict [(''rootfs'', PDict []), (''tftp'', PDict [])])"
proof -
  have names: "names_of ex_paths g = ex_names g" using assms by (auto simp: names_of_def ex_paths_def GENERATIONS_def)
  have env: "pe_io ex_env n = ex_io None" "pe_tree ex_env base = Inr (ex_tree, [])" for n base by (simp_all add: ex_env_def)
  have tftp: "RECEIPT_ROOT @ ''/tftp-root/dates/'' @ release_of ''20240101'' g = ex_dir g" by (simp only: ex_dir_def)
  show ?thesis
    by (simp only: measure_generation_def Let_def tftp names env ex_declaration_digest [OF assms]
        ex_required_files [OF assms] bindE_simps case_prod_conv if_False simp_thms ex_artifact_def)
qed

lemma ex_pair_file: "pc_file (ex_io r) (RECEIPT_ROOT @ ''/releases'') (''20240101'' @ ''.json'') (512 * 1024) = Inr (ex_text ex_pair)"
proof -
  have "''..'' \<notin> set (path_parts (RECEIPT_ROOT @ ''/releases''))" by code_simp
  moreover have "(RECEIPT_ROOT @ ''/releases'') @ ''/'' @ (''20240101'' @ ''.json'') = ''/srv/gentoo/releases/20240101.json''" by code_simp
  then have "io_open (ex_io r) ((RECEIPT_ROOT @ ''/releases'') @ ''/'' @ (''20240101'' @ ''.json'')) = Inr (ex_file (ex_text ex_pair))"
    by (simp only: ex_io_def producer_io.select_convs if_True simp_thms)
  moreover have "read_stable (ex_file (ex_text ex_pair)) (512 * 1024) = Inr (ex_text ex_pair)"
    using ex_sizes(1) by (intro ex_read) auto
  ultimately show ?thesis
    by (simp only: pc_file_def in_directory_def ex_io_plain(2) enter_dirs.simps leave_dirs.simps bindE_simps if_False simp_thms)
qed

lemma ex_measure: "measure_pair float_of ex_sha ex_env ''20240101'' ''b1'' (replicate 40 (CHR ''a'')) ''standard'' =
    Inr (ex_measured, PDict [(''rpi4'', PDict [(''rootfs'', PDict []), (''tftp'', PDict [])]),
      (''rpi5'', PDict [(''rootfs'', PDict []), (''tftp'', PDict [])])])"
proof -
  have g: "''rpi4'' \<in> set GENERATIONS" "''rpi5'' \<in> set GENERATIONS" by (simp_all add: GENERATIONS_def)
  have env: "pe_io ex_env n = ex_io None" "pe_started ex_env = ''2024-01-01T00:00:00Z''" "pe_finished ex_env = ''2024-01-01T00:01:00Z''"
    for n by (simp_all add: ex_env_def)
  show ?thesis
    unfolding measure_pair_def env ex_pair_file bindE_simps ex_manifest ex_generation [OF g(1)] ex_generation [OF g(2)]
      case_prod_conv ex_declaration_digest [OF g(1)] ex_declaration_digest [OF g(2)] ex_measured_def
    by (simp add: ex_sha_def)
qed

lemma ex_produced: "produced_value float_of ex_sha ex_env ''20240101'' ''b1'' (replicate 40 (CHR ''a'')) ''standard'' =
    Inr (ex_receipt, PDict [(''rpi4'', PDict [(''rootfs'', PDict []), (''tftp'', PDict [])]),
      (''rpi5'', PDict [(''rootfs'', PDict []), (''tftp'', PDict [])])])"
proof -
  have "pc_date (PStr ''20240101'') = Inr ''20240101''" "pc_string (PStr ''b1'') build_id_ok = Inr ''b1''"
    "pc_string (PStr (replicate 40 (CHR ''a''))) (hexn 40) = Inr (replicate 40 (CHR ''a''))"
    "pc_string (PStr ''standard'') pc_profile = Inr ''standard''" by code_simp+
  then show ?thesis
    unfolding produced_value_def ex_measure ex_window(2) ex_receipt_id [OF ex_floats(1)]
    using ex_valid by (simp only: bindE_simps case_prod_conv ex_window(2) ex_receipt_id [OF ex_floats(1)] flip: ex_receipt_def)
qed

definition ex_fs :: receipts where
  "ex_fs = (\<lambda>name. None)(''20240101.json'' := Some (ex_canonical @ [CHR 0x0A]))"

lemma ex_destination:
  "pc_file (ex_io r) (RECEIPT_ROOT @ ''/releases/producer'') (''20240101'' @ ''.json'') MAX_RECEIPT =
     (case r of None \<Rightarrow> Inl FileNotFoundError | Some raw \<Rightarrow> read_stable (ex_file raw) MAX_RECEIPT)"
proof -
  have "''..'' \<notin> set (path_parts (RECEIPT_ROOT @ ''/releases/producer''))" by code_simp
  moreover have "(RECEIPT_ROOT @ ''/releases/producer'') @ ''/'' @ (''20240101'' @ ''.json'') = ''/srv/gentoo/releases/producer/20240101.json''" by code_simp
  moreover have "''/srv/gentoo/releases/producer/20240101.json'' \<noteq> ''/srv/gentoo/releases/20240101.json''" by simp
  ultimately have "''..'' \<notin> set (path_parts (RECEIPT_ROOT @ ''/releases/producer''))" and
    "io_open (ex_io r) ((RECEIPT_ROOT @ ''/releases/producer'') @ ''/'' @ (''20240101'' @ ''.json'')) =
      (case r of None \<Rightarrow> Inl FileNotFoundError | Some raw \<Rightarrow> Inr (ex_file raw))"
    by (simp_all only: ex_io_def producer_io.select_convs if_True if_False simp_thms not_False_eq_True)
  then show ?thesis
    by (cases r) (simp_all only: pc_file_def in_directory_def ex_io_plain(2) enter_dirs.simps leave_dirs.simps bindE_simps
        if_False simp_thms option.case, cases "read_stable (ex_file (the r)) MAX_RECEIPT", auto)
qed

lemma ex_produce: "\<exists>result. produce float_of ex_sha ex_env ''20240101'' ''b1'' (replicate 40 (CHR ''a'')) ''standard'' (\<lambda>_. None) =
    (ex_fs, Inr result) \<and> dict_value result ''status'' = PStr ''written''"
proof -
  have "publish_bytes ex_env (\<lambda>_. None) ''20240101.json'' raw = ((\<lambda>_. None)(''20240101.json'' := Some raw), Inr ())" for raw
    by (auto simp: publish_bytes_def ex_env_def unlink_temp_def Let_def)
  moreover have "length (ex_canonical @ [CHR 0x0A]) \<le> MAX_RECEIPT" using ex_sizes(3) by (simp add: MAX_RECEIPT_def)
  ultimately have "publish ex_env (\<lambda>_. None) ''20240101.json'' ex_receipt = (ex_fs, Inr (ex_canonical @ [CHR 0x0A]))"
    unfolding publish_def ex_canonical ex_fs_def Let_def by simp
  moreover have "pe_io ex_env 7 = ex_io None" by (simp add: ex_env_def)
  ultimately show ?thesis
    using ex_destination [of None] by (simp add: produce_def ex_produced produce_result_def dict_value_def dget_or_def)
qed

lemma ex_env_ok: "env_ok ex_env"
  using ex_floats by (auto simp: env_ok_def ex_env_def startswith_def) (simp_all add: ex_tree_def)

lemma written_receipt_is_read_witness:
  "\<exists>d. read_receipt (\<lambda>_. FNaN) ex_sha (ex_io (Some (ex_canonical @ [CHR 0x0A]))) ''20240101'' = Inr (d, ex_sha (ex_canonical @ [CHR 0x0A]))"
proof -
  obtain result where r: "produce (\<lambda>_. FNaN) ex_sha ex_env ''20240101'' ''b1'' (replicate 40 (CHR ''a'')) ''standard'' (\<lambda>_. None) =
    (ex_fs, Inr result)" "dict_value result ''status'' = PStr ''written''" using ex_produce by blast
  have fs: "ex_fs (''20240101'' @ ''.json'') = Some raw \<longleftrightarrow> raw = ex_canonical @ [CHR 0x0A]" for raw
    by (auto simp: ex_fs_def)
  have "read_stable (ex_file (ex_canonical @ [CHR 0x0A])) MAX_RECEIPT = Inr (ex_canonical @ [CHR 0x0A])"
    using ex_sizes(3) by (intro ex_read) (simp_all add: MAX_RECEIPT_def)
  then have "pc_file (ex_io (Some (ex_canonical @ [CHR 0x0A]))) (RECEIPT_ROOT @ ''/releases/producer'') (''20240101'' @ ''.json'')
      MAX_RECEIPT = Inr raw" if "ex_fs (''20240101'' @ ''.json'') = Some raw" for raw
    using that unfolding fs ex_destination by (simp only: option.case)
  from written_receipt_is_read [OF r(1) ex_env_ok r(2) this] show ?thesis unfolding fs by blast
qed

lemma receipts_are_immutable_witness:
  "producer_runs (\<lambda>_. FNaN) ex_sha (\<lambda>_. None) ex_fs \<and> stored_receipt ex_sha ''20240101'' (ex_canonical @ [CHR 0x0A])"
proof -
  obtain result where r: "produce (\<lambda>_. FNaN) ex_sha ex_env ''20240101'' ''b1'' (replicate 40 (CHR ''a'')) ''standard'' (\<lambda>_. None) =
    (ex_fs, Inr result)" using ex_produce by blast
  have runs: "producer_runs (\<lambda>_. FNaN) ex_sha (\<lambda>_. None) ex_fs" by (rule one_run [OF no_run ex_env_ok r])
  have "date8 ''20240101''" by code_simp
  from receipts_are_immutable [OF runs this] have
    "\<forall>raw. ex_fs (''20240101'' @ ''.json'') = Some raw \<longrightarrow> stored_receipt ex_sha ''20240101'' raw" by simp
  moreover have "ex_fs (''20240101'' @ ''.json'') = Some (ex_canonical @ [CHR 0x0A])" by (simp add: ex_fs_def)
  ultimately show ?thesis using runs by blast
qed
end
