(* ===== verification/Artifact_Tree.thy ===== *)
theory Artifact_Tree
  imports Producer_Contract
begin

text \<open>
  \<open>pxe_artifact_fingerprint.py\<close>: two passes over a directory tree that hash a record of every entry, with the
  checks that nothing changed meanwhile and that nothing is mounted below.  The answers of the system
  calls are arguments; those of a visit form a tree, because the names that \<open>listdir\<close> answers decide which
  visits follow.  Names of files are their bytes.
\<close>

section \<open>Mount points\<close>

definition TREE_DOMAIN :: string where [py_defs]: "TREE_DOMAIN = ''homecluster-pxe-artifact-tree-v1'' @ [CHR 0x00]"
definition MOUNTINFO_MAX :: nat where [py_defs]: "MOUNTINFO_MAX = 8 * 1024 * 1024"

definition mount_escape :: "string \<Rightarrow> char option" where
  [py_defs]: "mount_escape s = map_of [(''040'', CHR 0x20), (''011'', CHR 0x09), (''012'', CHR 0x0A), (''134'', CHR 0x5C)] s"

function unescape :: "string \<Rightarrow> string res" where
  "unescape [] = Inr []"
| "unescape (c # s) =
     (if c = CHR 0x5C then
        (case mount_escape (take 3 s) of
           None \<Rightarrow> bad ''invalid mountinfo escape''
         | Some e \<Rightarrow> bindE (unescape (drop 3 s)) (\<lambda>t. Inr (e # t)))
      else bindE (unescape s) (\<lambda>t. Inr (c # t)))"
  by pat_completeness auto
termination by (relation "measure length") auto

text \<open>\<open>parts.index("-", 6)\<close>.\<close>

definition separator_index :: "string list \<Rightarrow> nat option" where
  [py_defs]: "separator_index parts = (case filter (\<lambda>i. parts ! i = ''-'') [6..<length parts] of
       [] \<Rightarrow> None | i # is \<Rightarrow> Some i)"

definition digits :: "string \<Rightarrow> bool" where
  [py_defs]: "digits s \<longleftrightarrow> s \<noteq> [] \<and> list_all ascii_digit s"

definition device_number :: "string \<Rightarrow> bool" where
  [py_defs]: "device_number s \<longleftrightarrow> (case split_by (\<lambda>c. c = CHR '':'') s of [a, b] \<Rightarrow> digits a \<and> digits b | _ \<Rightarrow> False)"

definition mount_point :: "string \<Rightarrow> string res" where
  [py_defs]: "mount_point line =
     (let parts = split_by (\<lambda>c. c = CHR 0x20) line in
      case separator_index parts of
        None \<Rightarrow> bad ''mountinfo separator missing''
      | Some i \<Rightarrow>
          if length parts \<noteq> i + 4 \<or> [] \<in> set parts
             \<or> \<not> (digits (parts ! 0) \<and> hd (parts ! 0) \<noteq> CHR ''0'') \<or> \<not> digits (parts ! 1) \<or> \<not> device_number (parts ! 2)
          then bad ''invalid mountinfo fields''
          else bindE (unescape (parts ! 3)) (\<lambda>mount_root. bindE (unescape (parts ! 4)) (\<lambda>mountpoint.
            if \<not> startswith mount_root ''/'' \<or> \<not> startswith mountpoint ''/'' then bad ''mountinfo paths must be absolute''
            else if CHR 0x09 \<in> set line \<or> CHR 0x0D \<in> set line then bad ''unescaped mountinfo whitespace''
            else Inr mountpoint)))"

definition parse_mountinfo :: "string \<Rightarrow> string list res" where
  [py_defs]: "parse_mountinfo raw =
     (if raw = [] \<or> CHR 0x00 \<in> set raw then bad ''mountinfo missing or invalid''
      else bindE (mapE mount_point (py_splitlines raw)) (\<lambda>result.
        if result = [] then bad ''mountinfo missing'' else Inr result))"

definition below :: "string \<Rightarrow> string \<Rightarrow> bool" where
  [py_defs]: "below base point \<longleftrightarrow> point \<noteq> base \<and> startswith point (rstrip_by (\<lambda>c. c = CHR ''/'') base @ ''/'')"

text \<open>\<open>decode\<close>: bytes to text with \<open>surrogateescape\<close>.\<close>

definition mounts :: "(string \<Rightarrow> string) \<Rightarrow> string \<Rightarrow> string res \<Rightarrow> string res" where
  [py_defs]: "mounts decode base source = bindE source (\<lambda>raw.
     if MOUNTINFO_MAX < length raw then bad ''mountinfo too large''
     else bindE (parse_mountinfo (decode raw)) (\<lambda>points.
       if list_ex (below base) points then bad ''descendant mount present'' else Inr raw))"

section \<open>Entries\<close>

record artifact_stat =
  as_dev :: int
  as_ino :: int
  as_mode :: nat
  as_uid :: int
  as_gid :: int
  as_size :: int
  as_mtime :: int
  as_ctime :: int
  as_nlink :: int
  as_rdev :: nat

text \<open>The record holds exactly the ten fields of \<open>_identity\<close>.\<close>

definition same_stat :: "artifact_stat \<Rightarrow> artifact_stat \<Rightarrow> unit res" where
  [py_defs]: "same_stat before after = (if before \<noteq> after then bad ''artifact changed during measurement'' else Inr ())"

definition file_type :: "nat \<Rightarrow> nat" where [py_defs]: "file_type mode = mode div 0x1000 mod 16"

definition is_directory :: "artifact_stat \<Rightarrow> bool" where [py_defs]: "is_directory s \<longleftrightarrow> file_type (as_mode s) = 4"
definition is_regular :: "artifact_stat \<Rightarrow> bool" where [py_defs]: "is_regular s \<longleftrightarrow> file_type (as_mode s) = 8"
definition has_descriptor :: "artifact_stat \<Rightarrow> bool" where [py_defs]: "has_descriptor s \<longleftrightarrow> is_directory s \<or> is_regular s"

text \<open>\<open>os.major\<close>, \<open>os.minor\<close> of a 64-bit number.\<close>

definition dev_major :: "nat \<Rightarrow> nat" where [py_defs]: "dev_major d = d div 2 ^ 8 mod 2 ^ 12 + d div 2 ^ 44 * 2 ^ 12"
definition dev_minor :: "nat \<Rightarrow> nat" where [py_defs]: "dev_minor d = d mod 2 ^ 8 + d div 2 ^ 20 mod 2 ^ 24 * 2 ^ 8"

definition bytes_hex :: "string \<Rightarrow> string" where
  [py_defs]: "bytes_hex s = concat (map (\<lambda>c. [hex_digit (ord_of c div 16), hex_digit (ord_of c mod 16)]) s)"

text \<open>What a visit asks: \<open>stat\<close>, \<open>open\<close> and \<open>fstat\<close>; extended attributes; the chunks that are read; the
  target of a link; the names, before and after; \<open>fstat\<close> and \<open>stat\<close> at the end.\<close>

record node_io =
  ni_before :: "artifact_stat res"
  ni_open :: "unit res"
  ni_opened :: "artifact_stat res"
  ni_xattrs :: "string list res"
  ni_xattr :: "string \<Rightarrow> string res"
  ni_chunks :: "string res list"
  ni_target :: "string res"
  ni_names :: "string list res"
  ni_names_after :: "string list res"
  ni_closing :: "artifact_stat res"
  ni_after :: "artifact_stat res"

text \<open>A name without a visit is gone when \<open>stat\<close> asks for it.\<close>

datatype visit_io = Visit node_io "string \<Rightarrow> visit_io option"

definition gone :: node_io where
  [py_defs]: "gone = \<lparr>ni_before = Inl FileNotFoundError, ni_open = Inl FileNotFoundError, ni_opened = Inl FileNotFoundError,
     ni_xattrs = Inl FileNotFoundError, ni_xattr = (\<lambda>_. Inl FileNotFoundError), ni_chunks = [], ni_target = Inl FileNotFoundError,
     ni_names = Inl FileNotFoundError, ni_names_after = Inl FileNotFoundError, ni_closing = Inl FileNotFoundError,
     ni_after = Inl FileNotFoundError\<rparr>"

definition attribute_step :: "node_io \<Rightarrow> string \<Rightarrow> pyval list \<times> nat \<Rightarrow> (pyval list \<times> nat) res" where
  [py_defs]: "attribute_step io name acc = (case acc of (result, used) \<Rightarrow>
     bindE (ni_xattr io name) (\<lambda>v.
       if 262144 < used + length v then bad ''xattr size exceeds budget''
       else Inr (result @ [PList [PStr (bytes_hex name), PStr (bytes_hex v)]], used + length v)))"

definition attributes :: "node_io \<Rightarrow> pyval list res" where
  [py_defs]: "attributes io = bindE (ni_xattrs io) (\<lambda>listed.
     let names = sort listed in
     if 64 < length names then bad ''xattr count exceeds budget''
     else bindE (foldE (attribute_step io) names ([], 0)) (\<lambda>(result, used). Inr result))"

definition encoded :: "pyval \<Rightarrow> string" where
  [py_defs]: "encoded v = json_enc json_compact (sorted_value v) @ [CHR 0x0A]"

definition read_chunk :: "int \<Rightarrow> int \<Rightarrow> int \<Rightarrow> string res \<Rightarrow> string \<Rightarrow> string res" where
  [py_defs]: "read_chunk stated regular_bytes max_bytes chunk content = bindE chunk (\<lambda>c.
     let actual = int (length (content @ c)) in
     if stated < actual \<or> max_bytes < regular_bytes + actual then bad ''file grew or byte budget exceeded''
     else Inr (content @ c))"

definition read_content :: "int \<Rightarrow> int \<Rightarrow> int \<Rightarrow> string res list \<Rightarrow> string res" where
  [py_defs]: "read_content stated regular_bytes max_bytes chunks =
     (if stated < 0 \<or> max_bytes < regular_bytes + stated then bad ''regular bytes exceed budget''
      else bindE (foldE (read_chunk stated regular_bytes max_bytes) (takeWhile (\<lambda>c. c \<noteq> Inr []) chunks) []) (\<lambda>content.
        if int (length content) \<noteq> stated then bad ''file size changed during read'' else Inr content))"

section \<open>The walk\<close>

text \<open>What has been hashed so far, the names of files with several links, and the two counts.\<close>

record walk =
  wk_digest :: string
  wk_stability :: string
  wk_links :: "((int \<times> int) \<times> string) list"
  wk_entries :: int
  wk_bytes :: int

definition node_record :: "string \<Rightarrow> artifact_stat \<Rightarrow> pyval list \<Rightarrow> pydict" where
  [py_defs]: "node_record relative s xattrs =
     [(''path_hex'', PStr (bytes_hex relative)), (''mode'', PInt (int (as_mode s mod 4096))), (''uid'', PInt (as_uid s)),
      (''gid'', PInt (as_gid s)), (''mtime_ns'', PInt (as_mtime s)), (''xattrs'', PList xattrs)]"

definition identity_value :: "string \<Rightarrow> artifact_stat \<Rightarrow> pyval" where
  [py_defs]: "identity_value relative s = PList [PStr (bytes_hex relative), PList
     [PInt (as_dev s), PInt (as_ino s), PInt (int (as_mode s)), PInt (as_uid s), PInt (as_gid s), PInt (as_size s),
      PInt (as_mtime s), PInt (as_ctime s), PInt (as_nlink s), PInt (int (as_rdev s))]]"

definition opt_str :: "string option \<Rightarrow> pyval" where
  [py_defs]: "opt_str s = (case s of None \<Rightarrow> PNone | Some t \<Rightarrow> PStr t)"

text \<open>The fields that depend on the type of the entry.\<close>

definition typed_fields ::
    "(string \<Rightarrow> string) \<Rightarrow> int \<Rightarrow> node_io \<Rightarrow> string \<Rightarrow> artifact_stat \<Rightarrow> walk \<Rightarrow> (pydict \<times> walk) res" where
  [py_defs]: "typed_fields sha max_bytes io relative s w =
     (if is_directory s then Inr ([(''type'', PStr ''directory'')], w)
      else if is_regular s then
        bindE (read_content (as_size s) (wk_bytes w) max_bytes (ni_chunks io)) (\<lambda>content.
        let key = (as_dev s, as_ino s); first = map_of (wk_links w) key in
        Inr ([(''type'', PStr ''regular''), (''size'', PInt (int (length content))),
              (''content_sha256'', PStr (sha content)), (''hardlink_to'', opt_str first)],
             w\<lparr>wk_bytes := wk_bytes w + int (length content),
               wk_links := (if 1 < as_nlink s \<and> first = None then (key, bytes_hex relative) # wk_links w else wk_links w)\<rparr>))
      else if file_type (as_mode s) = 10 then
        bindE (ni_target io) (\<lambda>target. Inr ([(''type'', PStr ''symlink''), (''target_hex'', PStr (bytes_hex target))], w))
      else if file_type (as_mode s) = 1 then Inr ([(''type'', PStr ''fifo'')], w)
      else if file_type (as_mode s) = 2 \<or> file_type (as_mode s) = 6 then
        Inr ([(''type'', PStr (if file_type (as_mode s) = 2 then ''character'' else ''block'')),
              (''major'', PInt (int (dev_major (as_rdev s)))), (''minor'', PInt (int (dev_minor (as_rdev s))))], w)
      else bad ''unsupported artifact file type'')"

definition entry_xattrs :: "node_io \<Rightarrow> artifact_stat \<Rightarrow> pyval list res" where
  [py_defs]: "entry_xattrs io before =
     (if has_descriptor before then
        bindE (ni_open io) (\<lambda>_. bindE (ni_opened io) (\<lambda>opened. bindE (same_stat before opened) (\<lambda>_. attributes io)))
      else attributes io)"

text \<open>From the count of the entry to the two updates of the hashes.\<close>

definition enter :: "(string \<Rightarrow> string) \<Rightarrow> int \<Rightarrow> int \<Rightarrow> node_io \<Rightarrow> string \<Rightarrow> nat \<Rightarrow> walk \<Rightarrow> (artifact_stat \<times> walk) res" where
  [py_defs]: "enter sha max_entries max_bytes io relative depth w =
     (let w = w\<lparr>wk_entries := wk_entries w + 1\<rparr> in
      if max_entries < wk_entries w \<or> 128 < depth then bad ''tree traversal budget exceeded''
      else bindE (ni_before io) (\<lambda>before.
        if relative = [] \<and> \<not> is_directory before then bad ''root must be a directory''
        else bindE (entry_xattrs io before) (\<lambda>xattrs.
          bindE (typed_fields sha max_bytes io relative before w) (\<lambda>(fields, w).
          Inr (before, w\<lparr>wk_digest := wk_digest w @ encoded (PDict (node_record relative before xattrs @ fields)),
                         wk_stability := wk_stability w @ encoded (identity_value relative before)\<rparr>)))))"

definition child_path :: "string \<Rightarrow> string \<Rightarrow> string" where
  [py_defs]: "child_path relative name = (if relative = [] then [] else relative @ ''/'') @ name"

definition leave :: "node_io \<Rightarrow> artifact_stat \<Rightarrow> unit res" where
  [py_defs]: "leave io before = bindE (if has_descriptor before then bindE (ni_closing io) (same_stat before) else Inr ()) (\<lambda>_.
     bindE (ni_after io) (same_stat before))"

primrec visit :: "(string \<Rightarrow> string) \<Rightarrow> int \<Rightarrow> int \<Rightarrow> visit_io \<Rightarrow> string \<Rightarrow> nat \<Rightarrow> walk \<Rightarrow> walk res" where
  "visit sha max_entries max_bytes (Visit io child) = (\<lambda>relative depth w.
     bindE (enter sha max_entries max_bytes io relative depth w) (\<lambda>(before, w1).
     bindE (if is_directory before then
         bindE (ni_names io) (\<lambda>listed.
         let names = sort listed in
         if max_entries - wk_entries w1 < int (length names) then bad ''directory entries exceed budget''
         else bindE (foldE (\<lambda>name. (case map_option (visit sha max_entries max_bytes) (child name) of
               None \<Rightarrow> (\<lambda>relative depth w. map_sum id snd (enter sha max_entries max_bytes gone relative depth w))
             | Some v \<Rightarrow> v) (child_path relative name) (depth + 1)) names w1) (\<lambda>w2.
           bindE (ni_names_after io) (\<lambda>again. if names \<noteq> sort again then bad ''directory entries changed'' else Inr w2)))
       else Inr w1) (\<lambda>w2.
     bindE (leave io before) (\<lambda>_. Inr w2))))"

definition new_walk :: walk where
  [py_defs]: "new_walk = \<lparr>wk_digest = TREE_DOMAIN, wk_stability = [], wk_links = [], wk_entries = 0, wk_bytes = 0\<rparr>"

definition walk_tree :: "(string \<Rightarrow> string) \<Rightarrow> int \<Rightarrow> int \<Rightarrow> visit_io \<Rightarrow> (string \<times> string \<times> int \<times> int) res" where
  [py_defs]: "walk_tree sha max_entries max_bytes io = bindE (visit sha max_entries max_bytes io [] 0 new_walk) (\<lambda>w.
     Inr (sha (wk_digest w), sha (wk_stability w), wk_entries w, wk_bytes w))"

section \<open>The fingerprint\<close>

text \<open>An ancestor of the root: \<open>stat\<close>, \<open>open\<close> and \<open>fstat\<close> before, \<open>fstat\<close> and \<open>stat\<close> afterwards.\<close>

record ancestor_io =
  ai_before :: "artifact_stat res"
  ai_open :: "unit res"
  ai_opened :: "artifact_stat res"
  ai_held :: "artifact_stat res"
  ai_named :: "artifact_stat res"

record tree_io =
  ti_mounts :: "string res"
  ti_slash :: "unit res"
  ti_ancestor :: "nat \<Rightarrow> ancestor_io"
  ti_first :: visit_io
  ti_second :: visit_io
  ti_mounts_after :: "string res"
  ti_clock :: "nat \<Rightarrow> int"

definition hold_ancestor :: "ancestor_io \<Rightarrow> artifact_stat res" where
  [py_defs]: "hold_ancestor a = bindE (ai_before a) (\<lambda>before. bindE (ai_open a) (\<lambda>_. bindE (ai_opened a) (\<lambda>opened.
     bindE (same_stat before opened) (\<lambda>_. Inr before))))"

definition same_ancestor :: "artifact_stat \<Rightarrow> artifact_stat res \<Rightarrow> unit res" where
  [py_defs]: "same_ancestor before answer = bindE answer (\<lambda>after.
     if (as_dev before, as_ino before, file_type (as_mode before)) \<noteq> (as_dev after, as_ino after, file_type (as_mode after))
     then bad ''root ancestor binding changed'' else Inr ())"

definition check_ancestor :: "ancestor_io \<times> artifact_stat \<Rightarrow> unit res" where
  [py_defs]: "check_ancestor binding = (case binding of (a, before) \<Rightarrow>
     bindE (same_ancestor before (ai_held a)) (\<lambda>_. same_ancestor before (ai_named a)))"

definition root_text :: "string list \<Rightarrow> string" where
  [py_defs]: "root_text parts = ''/'' @ py_join ''/'' parts"

text \<open>The exceptions that become a \<open>ValueError\<close> of one message.\<close>

definition unavailable :: "'a res \<Rightarrow> 'a res" where
  [py_defs]: "unavailable r = (case r of
       Inl e \<Rightarrow> if os_error e \<or> e = TypeError \<or> e = OverflowError then bad ''artifact measurement unavailable'' else Inl e
     | Inr x \<Rightarrow> Inr x)"

text \<open>\<open>parts\<close>: the names of the path that is given; \<open>cwd\<close>: those put before it when it is relative.
  The result and the timing.\<close>

definition fingerprint_tree ::
    "(string \<Rightarrow> string) \<Rightarrow> (string \<Rightarrow> string) \<Rightarrow> tree_io \<Rightarrow> string list \<Rightarrow> string list \<Rightarrow> int \<Rightarrow> int \<Rightarrow> (pydict \<times> pydict) res" where
  [py_defs]: "fingerprint_tree sha decode io cwd parts max_entries max_bytes =
     (if max_entries \<le> 0 \<or> max_bytes \<le> 0 then bad ''budgets must be positive integers''
      else unavailable (
        if ''..'' \<in> set parts then bad ''parent traversal is not supported''
        else (let path = cwd @ parts; base = root_text path in
          bindE (mounts decode base (ti_mounts io)) (\<lambda>before.
          bindE (ti_slash io) (\<lambda>_.
          let ancestors = map (ti_ancestor io) [0..<length path - 1] in
          bindE (mapE hold_ancestor ancestors) (\<lambda>held.
          bindE (walk_tree sha max_entries max_bytes (ti_first io)) (\<lambda>first.
          bindE (walk_tree sha max_entries max_bytes (ti_second io)) (\<lambda>second.
          if first \<noteq> second then bad ''artifact changed between verification passes''
          else bindE (mapE check_ancestor (zip ancestors held)) (\<lambda>_.
            bindE (mounts decode base (ti_mounts_after io)) (\<lambda>after.
            if before \<noteq> after then bad ''mount topology changed during measurement''
            else (case first of (digest, stability, entries, regular_bytes) \<Rightarrow>
              Inr ([(''schema'', PStr ''homecluster-pxe-artifact-tree-v1''), (''algorithm'', PStr ''sha256-posix-tree-v1''),
                    (''digest'', PStr digest), (''entries'', PInt entries), (''regular_file_bytes'', PInt regular_bytes)],
                   [(''first_pass_ms'', PInt ((ti_clock io 1 - ti_clock io 0) div 1000000)),
                    (''second_pass_ms'', PInt ((ti_clock io 2 - ti_clock io 1) div 1000000)),
                    (''entries'', PInt entries), (''regular_file_bytes'', PInt regular_bytes)]))))))))))))"

end
