(* ===== verification/Artifact_Props.thy ===== *)
theory Artifact_Props
  imports Artifact_Tree Canonical_Json
begin

text \<open>
  Properties of \<open>pxe_artifact_fingerprint.py\<close>.  What a visit sees is written down as a list of rows, one for
  each entry with everything the fingerprint covers, by a function that checks and hashes nothing;
  the walk is then shown to hash exactly these rows, to count them, and to check that they are stable.
\<close>

section \<open>What a visit sees\<close>

datatype node_kind = Folder | Content string "string option" | Target string | Pipe | Device bool nat nat

record row =
  rw_path :: string
  rw_mode :: nat
  rw_uid :: int
  rw_gid :: int
  rw_mtime :: int
  rw_xattrs :: "(string \<times> string) list"
  rw_kind :: node_kind

type_synonym links = "((int \<times> int) \<times> string) list"

definition answer :: "'a \<Rightarrow> 'a res \<Rightarrow> 'a" where
  "answer d r = (case r of Inl e \<Rightarrow> d | Inr x \<Rightarrow> x)"

lemma answer_Inr [simp]: "answer d (Inr x) = x"
  by (simp add: answer_def)

definition content_of :: "node_io \<Rightarrow> string" where
  "content_of io = concat (map (answer []) (takeWhile (\<lambda>c. c \<noteq> Inr []) (ni_chunks io)))"

definition kind_of :: "node_io \<Rightarrow> artifact_stat \<Rightarrow> links \<Rightarrow> node_kind" where
  "kind_of io s links =
     (if is_directory s then Folder
      else if is_regular s then Content (content_of io) (map_of links (as_dev s, as_ino s))
      else if file_type (as_mode s) = 10 then Target (answer [] (ni_target io))
      else if file_type (as_mode s) = 1 then Pipe
      else Device (file_type (as_mode s) = 2) (dev_major (as_rdev s)) (dev_minor (as_rdev s)))"

definition row_of :: "node_io \<Rightarrow> artifact_stat \<Rightarrow> string \<Rightarrow> links \<Rightarrow> row" where
  "row_of io s relative links = \<lparr>rw_path = relative, rw_mode = as_mode s mod 4096, rw_uid = as_uid s, rw_gid = as_gid s,
     rw_mtime = as_mtime s, rw_xattrs = map (\<lambda>n. (n, answer [] (ni_xattr io n))) (sort (answer [] (ni_xattrs io))),
     rw_kind = kind_of io s links\<rparr>"

text \<open>The first path of a file with several links is remembered.\<close>

definition links_after :: "artifact_stat \<Rightarrow> string \<Rightarrow> links \<Rightarrow> links" where
  "links_after s relative links =
     (if is_regular s \<and> 1 < as_nlink s \<and> map_of links (as_dev s, as_ino s) = None
      then ((as_dev s, as_ino s), bytes_hex relative) # links else links)"

definition no_stat :: artifact_stat where
  "no_stat = \<lparr>as_dev = 0, as_ino = 0, as_mode = 0, as_uid = 0, as_gid = 0, as_size = 0, as_mtime = 0, as_ctime = 0,
     as_nlink = 0, as_rdev = 0\<rparr>"

fun gather :: "('a \<Rightarrow> links \<Rightarrow> row list \<times> links) \<Rightarrow> 'a list \<Rightarrow> links \<Rightarrow> row list \<times> links" where
  "gather f [] l = ([], l)"
| "gather f (x # xs) l = (let (rs, l1) = f x l; (rs', l2) = gather f xs l1 in (rs @ rs', l2))"

primrec rows :: "visit_io \<Rightarrow> string \<Rightarrow> links \<Rightarrow> row list \<times> links" where
  "rows (Visit io child) = (\<lambda>relative links.
     (let s = answer no_stat (ni_before io); here = row_of io s relative links; l = links_after s relative links in
      if is_directory s then
        (let (rs, l') = gather (\<lambda>name. (case map_option rows (child name) of None \<Rightarrow> (\<lambda>_ l. ([], l)) | Some f \<Rightarrow> f)
             (child_path relative name)) (sort (answer [] (ni_names io))) l in (here # rs, l'))
      else ([here], l)))"

definition tree_rows :: "visit_io \<Rightarrow> row list" where
  "tree_rows v = fst (rows v [] [])"

text \<open>The rows as the records that are hashed.\<close>

definition kind_fields :: "(string \<Rightarrow> string) \<Rightarrow> node_kind \<Rightarrow> pydict" where
  "kind_fields sha k = (case k of
       Folder \<Rightarrow> [(''type'', PStr ''directory'')]
     | Content c first \<Rightarrow> [(''type'', PStr ''regular''), (''size'', PInt (int (length c))),
         (''content_sha256'', PStr (sha c)), (''hardlink_to'', opt_str first)]
     | Target t \<Rightarrow> [(''type'', PStr ''symlink''), (''target_hex'', PStr (bytes_hex t))]
     | Pipe \<Rightarrow> [(''type'', PStr ''fifo'')]
     | Device c major minor \<Rightarrow> [(''type'', PStr (if c then ''character'' else ''block'')),
         (''major'', PInt (int major)), (''minor'', PInt (int minor))])"

definition xattr_values :: "(string \<times> string) list \<Rightarrow> pyval list" where
  "xattr_values xs = map (\<lambda>(n, v). PList [PStr (bytes_hex n), PStr (bytes_hex v)]) xs"

definition row_dict :: "(string \<Rightarrow> string) \<Rightarrow> row \<Rightarrow> pydict" where
  "row_dict sha r =
     [(''path_hex'', PStr (bytes_hex (rw_path r))), (''mode'', PInt (int (rw_mode r))), (''uid'', PInt (rw_uid r)),
      (''gid'', PInt (rw_gid r)), (''mtime_ns'', PInt (rw_mtime r)), (''xattrs'', PList (xattr_values (rw_xattrs r)))]
     @ kind_fields sha (rw_kind r)"

definition row_stream :: "(string \<Rightarrow> string) \<Rightarrow> row list \<Rightarrow> string" where
  "row_stream sha rs = concat (map (\<lambda>r. encoded (PDict (row_dict sha r))) rs)"

definition row_bytes :: "row \<Rightarrow> nat" where
  "row_bytes r = (case rw_kind r of Content c first \<Rightarrow> length c | _ \<Rightarrow> 0)"

section \<open>The walk hashes these rows\<close>

definition adds :: "(string \<Rightarrow> string) \<Rightarrow> walk \<Rightarrow> walk \<Rightarrow> row list \<times> links \<Rightarrow> bool" where
  "adds sha w w' p \<longleftrightarrow> wk_digest w' = wk_digest w @ row_stream sha (fst p) \<and> wk_links w' = snd p
     \<and> wk_entries w' = wk_entries w + int (length (fst p)) \<and> wk_bytes w' = wk_bytes w + int (sum_list (map row_bytes (fst p)))"

lemma adds_append: "adds sha w w1 (rs, l1) \<Longrightarrow> adds sha w1 w2 (rs', l2) \<Longrightarrow> adds sha w w2 (rs @ rs', l2)"
  by (simp add: adds_def row_stream_def)

lemma attribute_step_Inr:
  "attribute_step io name (acc, n) = Inr p \<Longrightarrow>
     \<exists>v. ni_xattr io name = Inr v \<and> p = (acc @ xattr_values [(name, v)], n + length v)"
  by (auto simp: attribute_step_def xattr_values_def bad_def split: if_splits)

lemma attributes_Inr:
  assumes "attributes io = Inr xs"
  shows "xs = xattr_values (map (\<lambda>n. (n, answer [] (ni_xattr io n))) (sort (answer [] (ni_xattrs io))))"
proof -
  have "foldE (attribute_step io) names (acc, n) = Inr (ys, m) \<Longrightarrow>
      ys = acc @ xattr_values (map (\<lambda>n. (n, answer [] (ni_xattr io n))) names)" for names acc n ys m
  proof (induction names arbitrary: acc n)
    case (Cons name names)
    then obtain v where "ni_xattr io name = Inr v"
      "foldE (attribute_step io) names (acc @ xattr_values [(name, v)], n + length v) = Inr (ys, m)"
      by (force dest: attribute_step_Inr)
    with Cons.IH [OF this(2)] show ?case by (simp add: xattr_values_def)
  qed (simp add: xattr_values_def)
  from this [of _ "[]"] assms show ?thesis by (fastforce simp: attributes_def bad_def Let_def split: if_splits)
qed

lemma read_chunk_Inr: "read_chunk stated used limit r acc = Inr c \<Longrightarrow> c = acc @ answer [] r"
  by (auto simp: read_chunk_def bad_def Let_def split: if_splits)

lemma read_content_Inr:
  assumes "read_content stated used limit (ni_chunks io) = Inr content"
  shows "content = content_of io \<and> int (length content) = stated \<and> used + int (length content) \<le> limit"
proof -
  have "foldE (read_chunk stated used limit) cs acc = Inr c \<Longrightarrow> c = acc @ concat (map (answer []) cs)" for cs acc c
  proof (induction cs arbitrary: acc)
    case (Cons r cs)
    then have "foldE (read_chunk stated used limit) cs (acc @ answer [] r) = Inr c" by (auto dest: read_chunk_Inr)
    with Cons.IH show ?case by fastforce
  qed simp
  from this [of _ "[]"] assms show ?thesis
    by (auto simp: read_content_def content_of_def bad_def split: if_splits)
qed

lemma entry_xattrs_Inr: "entry_xattrs io before = Inr xs \<Longrightarrow> attributes io = Inr xs"
  by (auto simp: entry_xattrs_def split: if_splits)

lemma typed_fields_Inr:
  assumes "typed_fields sha limit io relative s w = Inr (typed, w')"
  shows "typed = kind_fields sha (kind_of io s (wk_links w)) \<and> wk_links w' = links_after s relative (wk_links w)
    \<and> wk_bytes w' = wk_bytes w + int (row_bytes (row_of io s relative (wk_links w)))
    \<and> wk_digest w' = wk_digest w \<and> wk_entries w' = wk_entries w"
  using assms
  by (auto simp: typed_fields_def kind_of_def kind_fields_def links_after_def row_bytes_def row_of_def is_directory_def
      is_regular_def bad_def Let_def dest!: read_content_Inr split: if_splits option.splits)

lemma enter_Inr:
  assumes "enter sha me mb io relative depth w = Inr (before, w')"
  shows "ni_before io = Inr before \<and> adds sha w w' ([row_of io before relative (wk_links w)], links_after before relative (wk_links w))"
proof -
  define w0 where "w0 = w\<lparr>wk_entries := wk_entries w + 1\<rparr>"
  obtain xs typed w1 where one: "ni_before io = Inr before" "entry_xattrs io before = Inr xs"
      "typed_fields sha mb io relative before w0 = Inr (typed, w1)"
      "w' = w1\<lparr>wk_digest := wk_digest w1 @ encoded (PDict (node_record relative before xs @ typed)),
               wk_stability := wk_stability w1 @ encoded (identity_value relative before)\<rparr>"
    using assms unfolding enter_def Let_def bad_def w0_def [symmetric] by (auto split: if_splits)
  from typed_fields_Inr [OF one(3)] attributes_Inr [OF entry_xattrs_Inr [OF one(2)]] show ?thesis
    by (simp add: one(1,4) w0_def adds_def row_stream_def row_dict_def node_record_def) (simp add: row_of_def)
qed

lemma gather_adds:
  assumes "foldE f names w = Inr w'"
    and "\<And>name w w'. name \<in> set names \<Longrightarrow> f name w = Inr w' \<Longrightarrow> adds sha w w' (g name (wk_links w))"
  shows "adds sha w w' (gather g names (wk_links w))"
  using assms
proof (induction names arbitrary: w)
  case (Cons name names)
  then obtain w1 where w1: "f name w = Inr w1" "foldE f names w1 = Inr w'" by auto
  obtain rs l1 where g: "g name (wk_links w) = (rs, l1)" by (cases "g name (wk_links w)")
  obtain rs' l2 where h: "gather g names l1 = (rs', l2)" by (cases "gather g names l1")
  have one: "adds sha w w1 (rs, l1)" using Cons.prems(2) [OF _ w1(1)] g by simp
  moreover have "wk_links w1 = l1" using one by (simp add: adds_def)
  ultimately show ?case using Cons.IH [OF w1(2) Cons.prems(2)] g h adds_append by fastforce
qed (simp add: adds_def row_stream_def)

text \<open>The visit of a name, and the visit of an entry in terms of it.\<close>

definition visit_name :: "(string \<Rightarrow> string) \<Rightarrow> int \<Rightarrow> int \<Rightarrow> (string \<Rightarrow> visit_io option) \<Rightarrow> string \<Rightarrow> nat \<Rightarrow> string \<Rightarrow> walk \<Rightarrow> walk res" where
  "visit_name sha me mb child relative depth name = (case map_option (visit sha me mb) (child name) of
       None \<Rightarrow> (\<lambda>relative depth w. map_sum id snd (enter sha me mb gone relative depth w))
     | Some v \<Rightarrow> v) (child_path relative name) (depth + 1)"

lemma visit_name_Inr:
  assumes "visit_name sha me mb child relative depth name w = Inr w'"
  shows "\<exists>v. child name = Some v \<and> visit sha me mb v (child_path relative name) (depth + 1) w = Inr w'"
  using assms
  by (cases "child name") (auto simp: visit_name_def enter_def gone_def bad_def Let_def split: if_splits)

lemma visit_Inr:
  assumes "visit sha me mb (Visit io child) relative depth w = Inr w'"
  obtains before w1 where "enter sha me mb io relative depth w = Inr (before, w1)" "leave io before = Inr ()"
    "\<not> is_directory before \<Longrightarrow> w' = w1"
    "is_directory before \<Longrightarrow> \<exists>listed again. ni_names io = Inr listed \<and> ni_names_after io = Inr again \<and> sort again = sort listed
       \<and> foldE (visit_name sha me mb child relative depth) (sort listed) w1 = Inr w'"
proof -
  have eq: "visit sha me mb (Visit io child) relative depth w =
     bindE (enter sha me mb io relative depth w) (\<lambda>(before, w1).
     bindE (if is_directory before then
         bindE (ni_names io) (\<lambda>listed.
         let names = sort listed in
         if me - wk_entries w1 < int (length names) then bad ''directory entries exceed budget''
         else bindE (foldE (visit_name sha me mb child relative depth) names w1) (\<lambda>w2.
           bindE (ni_names_after io) (\<lambda>again. if names \<noteq> sort again then bad ''directory entries changed'' else Inr w2)))
       else Inr w1) (\<lambda>w2.
     bindE (leave io before) (\<lambda>_. Inr w2)))"
    by (simp only: visit.simps visit_name_def [abs_def])
  from assms show thesis
    unfolding eq by (auto intro!: that simp: bad_def Let_def split: if_splits)
qed

definition rows_name :: "(string \<Rightarrow> visit_io option) \<Rightarrow> string \<Rightarrow> string \<Rightarrow> links \<Rightarrow> row list \<times> links" where
  "rows_name child relative name = (case map_option rows (child name) of None \<Rightarrow> (\<lambda>_ l. ([], l)) | Some f \<Rightarrow> f)
     (child_path relative name)"

lemma rows_Visit: "rows (Visit io child) relative links =
     (let s = answer no_stat (ni_before io); here = row_of io s relative links; l = links_after s relative links in
      if is_directory s then
        (let (rs, l') = gather (rows_name child relative) (sort (answer [] (ni_names io))) l in (here # rs, l'))
      else ([here], l))"
  by (simp only: rows.simps rows_name_def [abs_def])

declare rows.simps [simp del] visit.simps [simp del]

lemma visit_adds:
  "visit sha me mb v relative depth w = Inr w' \<Longrightarrow> adds sha w w' (rows v relative (wk_links w))"
proof (induction v arbitrary: relative depth w w')
  case (Visit io child)
  from visit_Inr [OF Visit.prems] obtain before w1 where e: "enter sha me mb io relative depth w = Inr (before, w1)"
    "\<not> is_directory before \<Longrightarrow> w' = w1"
    "is_directory before \<Longrightarrow> \<exists>listed. ni_names io = Inr listed
       \<and> foldE (visit_name sha me mb child relative depth) (sort listed) w1 = Inr w'" by metis
  note one = enter_Inr [OF e(1)]
  define l where "l = links_after before relative (wk_links w)"
  have l: "wk_links w1 = l" using one by (simp add: adds_def l_def)
  show ?case
  proof (cases "is_directory before")
    case False
    with e(2) one show ?thesis by (simp add: rows_Visit Let_def)
  next
    case True
    define g where "g = rows_name child relative"
    obtain listed where listed: "ni_names io = Inr listed"
        "foldE (visit_name sha me mb child relative depth) (sort listed) w1 = Inr w'"
      using e(3) [OF True] by blast
    have "adds sha u u' (g name (wk_links u))" if step: "visit_name sha me mb child relative depth name u = Inr u'" for name u u'
    proof -
      obtain v where v: "child name = Some v" "visit sha me mb v (child_path relative name) (depth + 1) u = Inr u'"
        using visit_name_Inr [OF step] by blast
      with Visit.IH [of "Some v" v] show ?thesis by (simp add: g_def rows_name_def) (metis option.set_intros rangeI)
    qed
    from gather_adds [OF listed(2) this] have rest: "adds sha w1 w' (gather g (sort listed) l)" by (simp add: l)
    obtain rs l' where gs: "gather g (sort listed) l = (rs, l')" by (cases "gather g (sort listed) l")
    have "rows (Visit io child) relative (wk_links w) = (row_of io before relative (wk_links w) # rs, l')"
      using one True listed(1) gs by (simp add: rows_Visit Let_def flip: g_def l_def)
    with adds_append [of sha w w1 "[row_of io before relative (wk_links w)]" l w' rs l'] one rest gs show ?thesis
      by (simp add: l_def)
  qed
qed

lemma walk_tree_Inr:
  assumes "walk_tree sha me mb v = Inr (digest, stability, n, b)"
  shows "digest = sha (TREE_DOMAIN @ row_stream sha (tree_rows v)) \<and> n = int (length (tree_rows v))
    \<and> b = int (sum_list (map row_bytes (tree_rows v)))"
proof -
  obtain w where w: "visit sha me mb v [] 0 new_walk = Inr w" "digest = sha (wk_digest w)" "n = wk_entries w" "b = wk_bytes w"
    using assms by (auto simp: walk_tree_def)
  from visit_adds [OF w(1)] w(2-4) show ?thesis by (simp add: adds_def new_walk_def tree_rows_def)
qed

lemma unavailable_Inr [simp]: "unavailable r = Inr x \<longleftrightarrow> r = Inr x"
  by (auto simp: unavailable_def bad_def split: sum.splits if_splits)

lemma fingerprint_Inr:
  assumes "fingerprint_tree sha decode io cwd parts me mb = Inr (d, t)"
  obtains digest stability n b where "walk_tree sha me mb (ti_first io) = Inr (digest, stability, n, b)"
    "walk_tree sha me mb (ti_second io) = Inr (digest, stability, n, b)"
    "dget d ''digest'' = PStr digest" "dget d ''entries'' = PInt n" "dget d ''regular_file_bytes'' = PInt b"
  using assms
  by (auto simp: fingerprint_tree_def bad_def Let_def dget_or_def intro!: that split: if_splits)

section \<open>The records determine the rows\<close>

lemma hex_digit_inject: "a < 16 \<Longrightarrow> b < 16 \<Longrightarrow> hex_digit a = hex_digit b \<Longrightarrow> a = b"
  using hex_val_hex_digit by (metis option.inject)

lemma bytes_hex_inject [simp]: "bytes_hex s = bytes_hex t \<longleftrightarrow> s = t"
proof (induction s arbitrary: t)
  case Nil
  then show ?case by (cases t) (simp_all add: bytes_hex_def)
next
  case (Cons c s)
  have small: "ord_of c < 256" for c using nat_of_char_less_256 [of c] by (simp add: of_char_def)
  have "c = d" if "hex_digit (ord_of c div 16) = hex_digit (ord_of d div 16)" "hex_digit (ord_of c mod 16) = hex_digit (ord_of d mod 16)" for d
  proof -
    have "ord_of c div 16 = ord_of d div 16" "ord_of c mod 16 = ord_of d mod 16"
      using that small [of c] small [of d] by (auto intro!: hex_digit_inject less_mult_imp_div_less)
    then have "ord_of c = ord_of d" by (metis mult_div_mod_eq)
    then show ?thesis by (metis char_of_ord)
  qed
  with Cons show ?case by (cases t) (auto simp: bytes_hex_def)
qed

lemma xattr_values_inject [simp]: "xattr_values xs = xattr_values ys \<longleftrightarrow> xs = ys"
proof -
  have "inj (\<lambda>(n, v). PList [PStr (bytes_hex n), PStr (bytes_hex v)])" by (auto simp: inj_def)
  then show ?thesis by (auto simp: xattr_values_def inj_map_eq_map)
qed

lemma sorted_xattr_values [simp]: "map sorted_value (xattr_values xs) = xattr_values xs"
  by (induction xs) (auto simp: xattr_values_def)

lemma row_dict_facts: "no_floats (PDict (row_dict sha r))" "wf_val (PDict (row_dict sha r))"
  by (auto simp: row_dict_def kind_fields_def xattr_values_def opt_str_def list_all_iff split: node_kind.splits option.splits)

lemma encoded_prefix:
  assumes "encoded v @ s = encoded w @ t" and "no_floats v" "wf_val v" "no_floats w" "wf_val w"
  shows "sorted_value v = sorted_value w \<and> s = t"
proof -
  have read: "json_value undefined n (json_enc json_compact (sorted_value x) @ CHR 0x0A # t) = Some (sorted_value x, CHR 0x0A # t)"
    if "no_floats x" "wf_val x" "length (json_enc json_compact (sorted_value x)) \<le> n" for x n t
  proof -
    have "json_ok undefined (sorted_value x)" using that(1,2) by (intro no_floats_json_ok no_floats_sorted wf_sorted)
    from json_value_enc [OF _ this, of json_compact] show ?thesis
      by (rule readsD) (simp_all add: ends_number_def that(3))
  qed
  define n where "n = length (json_enc json_compact (sorted_value v)) + length (json_enc json_compact (sorted_value w))"
  have "json_enc json_compact (sorted_value v) @ CHR 0x0A # s = json_enc json_compact (sorted_value w) @ CHR 0x0A # t"
    using assms(1) by (simp add: encoded_def)
  then show ?thesis
    using read [OF assms(2,3), of n s] read [OF assms(4,5), of n t] by (simp add: n_def)
qed

lemma row_stream_inject:
  "row_stream sha rs = row_stream sha rs' \<Longrightarrow>
     map (\<lambda>r. sorted_pairs (row_dict sha r)) rs = map (\<lambda>r. sorted_pairs (row_dict sha r)) rs'"
proof (induction rs arbitrary: rs')
  case Nil
  then show ?case by (cases rs') (simp_all add: row_stream_def encoded_def)
next
  case (Cons r rs)
  then obtain r' rs'' where rs': "rs' = r' # rs''" by (cases rs') (simp_all add: row_stream_def encoded_def)
  have "encoded (PDict (row_dict sha r)) @ row_stream sha rs = encoded (PDict (row_dict sha r')) @ row_stream sha rs''"
    using Cons.prems by (simp add: row_stream_def rs')
  from encoded_prefix [OF this row_dict_facts row_dict_facts] Cons.IH [of rs''] show ?case
    by (simp add: rs' sorted_value_dict del: sorted_value.simps)
qed

lemma sorted_row_value:
  assumes "sorted_pairs (row_dict sha r) = sorted_pairs (row_dict sha r')"
  shows "sorted_value (dget (row_dict sha r) k) = sorted_value (dget (row_dict sha r') k)"
proof -
  have "distinct (map fst (row_dict sha r))" for r
    using row_dict_facts(2) [of sha r] by simp
  from dget_sorted [OF this, of r k] dget_sorted [OF this, of r' k] assms show ?thesis by simp
qed

lemma kind_fields_inject:
  assumes "\<And>k. sorted_value (dget (kind_fields sha a) k) = sorted_value (dget (kind_fields sha b) k)"
  shows "a = b \<or> (\<exists>c d first. a = Content c first \<and> b = Content d first \<and> c \<noteq> d \<and> sha c = sha d)"
proof -
  note key = assms [of "''type''"] assms [of "''content_sha256''"] assms [of "''hardlink_to''"] assms [of "''target_hex''"]
    assms [of "''major''"] assms [of "''minor''"]
  show ?thesis
    using key by (cases a; cases b) (auto simp: kind_fields_def dget_or_def opt_str_def split: if_splits option.splits)
qed

text \<open>Rows that are hashed as the same record are the same, or files whose contents collide.\<close>

definition colliding :: "(string \<Rightarrow> string) \<Rightarrow> row \<Rightarrow> row \<Rightarrow> bool" where
  "colliding sha r r' \<longleftrightarrow> (\<exists>c d first. rw_kind r = Content c first \<and> rw_kind r' = Content d first \<and> c \<noteq> d \<and> sha c = sha d)"

lemma row_dict_inject:
  assumes "sorted_pairs (row_dict sha r) = sorted_pairs (row_dict sha r')"
  shows "r = r' \<or> colliding sha r r'"
proof -
  note key = sorted_row_value [OF assms]
  have other: "dget (row_dict sha r) k = dget (kind_fields sha (rw_kind r)) k"
    if "k \<notin> {''path_hex'', ''mode'', ''uid'', ''gid'', ''mtime_ns'', ''xattrs''}" for r k
    using that by (simp add: row_dict_def dget_or_def)
  have none: "dget (kind_fields sha k) x = PNone" if "x \<in> {''path_hex'', ''mode'', ''uid'', ''gid'', ''mtime_ns'', ''xattrs''}" for k x
    using that by (auto simp: kind_fields_def dget_or_def split: node_kind.splits)
  have kinds: "rw_kind r = rw_kind r' \<or> colliding sha r r'"
    unfolding colliding_def
  proof (rule kind_fields_inject)
    fix k
    show "sorted_value (dget (kind_fields sha (rw_kind r)) k) = sorted_value (dget (kind_fields sha (rw_kind r')) k)"
      using key [of k] other [of k] none [of k] by metis
  qed
  have "rw_path r = rw_path r'" using key [of "''path_hex''"] by (simp add: row_dict_def dget_or_def)
  moreover have "rw_mode r = rw_mode r'" using key [of "''mode''"] by (simp add: row_dict_def dget_or_def)
  moreover have "rw_uid r = rw_uid r'" using key [of "''uid''"] by (simp add: row_dict_def dget_or_def)
  moreover have "rw_gid r = rw_gid r'" using key [of "''gid''"] by (simp add: row_dict_def dget_or_def)
  moreover have "rw_mtime r = rw_mtime r'" using key [of "''mtime_ns''"] by (simp add: row_dict_def dget_or_def)
  moreover have "rw_xattrs r = rw_xattrs r'" using key [of "''xattrs''"] by (simp add: row_dict_def dget_or_def)
  ultimately show ?thesis using kinds by (cases r, cases r') simp
qed

text \<open>Everything that a measurement hashes for the digest of the tree.\<close>

definition contents_of :: "row list \<Rightarrow> string set" where
  "contents_of rs = {c. \<exists>r \<in> set rs. \<exists>first. rw_kind r = Content c first}"

definition hashed :: "(string \<Rightarrow> string) \<Rightarrow> row list \<Rightarrow> string set" where
  "hashed sha rs = insert (TREE_DOMAIN @ row_stream sha rs) (contents_of rs)"

definition collision :: "(string \<Rightarrow> string) \<Rightarrow> string set \<Rightarrow> string set \<Rightarrow> bool" where
  "collision sha A B \<longleftrightarrow> (\<exists>a \<in> A. \<exists>b \<in> B. a \<noteq> b \<and> sha a = sha b)"

lemma collision_mono: "A \<subseteq> A' \<Longrightarrow> B \<subseteq> B' \<Longrightarrow> collision sha A B \<Longrightarrow> collision sha A' B'"
  by (auto simp: collision_def)

lemma rows_inject:
  "map (\<lambda>r. sorted_pairs (row_dict sha r)) rs = map (\<lambda>r. sorted_pairs (row_dict sha r)) rs' \<Longrightarrow>
     rs = rs' \<or> collision sha (contents_of rs) (contents_of rs')"
proof (induction rs arbitrary: rs')
  case (Cons r rs)
  then obtain r' rs'' where rs': "rs' = r' # rs''" "sorted_pairs (row_dict sha r) = sorted_pairs (row_dict sha r')"
      "map (\<lambda>r. sorted_pairs (row_dict sha r)) rs = map (\<lambda>r. sorted_pairs (row_dict sha r)) rs''" by auto
  have more: "contents_of rs \<subseteq> contents_of (r # rs)" for r rs by (auto simp: contents_of_def)
  from row_dict_inject [OF rs'(2)] show ?case
  proof
    assume "r = r'"
    with Cons.IH [OF rs'(3)] show ?thesis
      using collision_mono [OF more more] unfolding rs'(1) by blast
  next
    assume "colliding sha r r'"
    then have "collision sha (contents_of (r # rs)) (contents_of (r' # rs''))"
      unfolding colliding_def collision_def contents_of_def by auto
    then show ?thesis by (simp add: rs'(1))
  qed
qed simp

lemma same_digest_same_rows:
  assumes "sha (TREE_DOMAIN @ row_stream sha rs) = sha (TREE_DOMAIN @ row_stream sha rs')"
  shows "rs = rs' \<or> collision sha (hashed sha rs) (hashed sha rs')"
proof (cases "row_stream sha rs = row_stream sha rs'")
  case True
  from rows_inject [OF row_stream_inject [OF True]] show ?thesis by (auto simp: collision_def hashed_def)
next
  case False
  with assms show ?thesis by (auto simp: collision_def hashed_def)
qed

lemma same_fingerprint_same_rows:
  assumes "fingerprint_tree sha decode io cwd parts me mb = Inr (d, t)"
    and "fingerprint_tree sha decode' io' cwd' parts' me' mb' = Inr (d', t')"
    and "dget d ''digest'' = dget d' ''digest''"
  shows "tree_rows (ti_first io) = tree_rows (ti_first io')
    \<or> collision sha (hashed sha (tree_rows (ti_first io))) (hashed sha (tree_rows (ti_first io')))"
proof -
  obtain h stability n b where one: "walk_tree sha me mb (ti_first io) = Inr (h, stability, n, b)" "dget d ''digest'' = PStr h"
    using fingerprint_Inr [OF assms(1)] by metis
  obtain h' stability' n' b' where two: "walk_tree sha me' mb' (ti_first io') = Inr (h', stability', n', b')" "dget d' ''digest'' = PStr h'"
    using fingerprint_Inr [OF assms(2)] by metis
  have "h = h'" using one(2) two(2) assms(3) by simp
  with walk_tree_Inr [OF one(1)] walk_tree_Inr [OF two(1)] show ?thesis by (intro same_digest_same_rows) simp
qed

text \<open>
  The fingerprint binds the tree: two measurements with one digest saw the same tree, that is, the same
  paths in the same order, each with the same mode, owner, time, extended attributes and type, and the same
  contents, link target, device numbers and earlier link to the same file; or two different texts that were
  hashed have one SHA-256 digest.
\<close>

lemma fingerprint_binds_tree:
  assumes "fingerprint_tree sha decode io cwd parts me mb = Inr (d, t)"
    and "fingerprint_tree sha decode' io' cwd' parts' me' mb' = Inr (d', t')"
    and "dget d ''digest'' = dget d' ''digest''"
  shows "tree_rows (ti_first io) = tree_rows (ti_first io')
    \<or> collision sha (hashed sha (tree_rows (ti_first io))) (hashed sha (tree_rows (ti_first io')))"
  using assms by (rule same_fingerprint_same_rows)

section \<open>Budgets and stability\<close>

lemma foldE_keeps:
  assumes "foldE f xs w = Inr w'" and "P w" and "\<And>x w w'. x \<in> set xs \<Longrightarrow> P w \<Longrightarrow> f x w = Inr w' \<Longrightarrow> P w'"
  shows "P w'"
  using assms
proof (induction xs arbitrary: w)
  case (Cons x xs)
  then obtain w1 where "f x w = Inr w1" "foldE f xs w1 = Inr w'" by auto
  with Cons.IH [of w1] Cons.prems(2,3) show ?case by (meson list.set_intros)
qed simp

lemma enter_within:
  assumes "enter sha me mb io relative depth w = Inr (before, w')" and "wk_bytes w \<le> mb"
  shows "wk_entries w' \<le> me \<and> wk_bytes w' \<le> mb"
proof -
  define w0 where "w0 = w\<lparr>wk_entries := wk_entries w + 1\<rparr>"
  obtain typed w1 where one: "typed_fields sha mb io relative before w0 = Inr (typed, w1)" "wk_entries w0 \<le> me"
      "wk_entries w' = wk_entries w1" "wk_bytes w' = wk_bytes w1"
    using assms(1) unfolding enter_def Let_def bad_def w0_def [symmetric] by (auto split: if_splits)
  then have "wk_bytes w1 = wk_bytes w0 \<or> (\<exists>c. read_content (as_size before) (wk_bytes w0) mb (ni_chunks io) = Inr c
      \<and> wk_bytes w1 = wk_bytes w0 + int (length c))"
    by (auto simp: typed_fields_def bad_def Let_def split: if_splits)
  moreover have "wk_bytes w0 \<le> mb" using assms(2) by (simp add: w0_def)
  ultimately show ?thesis using one typed_fields_Inr [OF one(1)] by (auto dest: read_content_Inr)
qed

lemma visit_within:
  "visit sha me mb v relative depth w = Inr w' \<Longrightarrow> wk_bytes w \<le> mb \<Longrightarrow> wk_entries w' \<le> me \<and> wk_bytes w' \<le> mb"
proof (induction v arbitrary: relative depth w w')
  case (Visit io child)
  from visit_Inr [OF Visit.prems(1)] obtain before w1 where e: "enter sha me mb io relative depth w = Inr (before, w1)"
    "\<not> is_directory before \<Longrightarrow> w' = w1"
    "is_directory before \<Longrightarrow> \<exists>listed. foldE (visit_name sha me mb child relative depth) (sort listed) w1 = Inr w'" by metis
  note one = enter_within [OF e(1) Visit.prems(2)]
  show ?case
  proof (cases "is_directory before")
    case True
    then obtain listed where fold: "foldE (visit_name sha me mb child relative depth) (sort listed) w1 = Inr w'" using e(3) by blast
    show ?thesis
    proof (rule foldE_keeps [where P = "\<lambda>u. wk_entries u \<le> me \<and> wk_bytes u \<le> mb", OF fold one])
      fix name u u' assume u: "wk_entries u \<le> me \<and> wk_bytes u \<le> mb" and step: "visit_name sha me mb child relative depth name u = Inr u'"
      obtain v where "child name = Some v" "visit sha me mb v (child_path relative name) (depth + 1) u = Inr u'"
        using visit_name_Inr [OF step] by blast
      with Visit.IH [of "Some v" v] u show "wk_entries u' \<le> me \<and> wk_bytes u' \<le> mb" by (metis option.set_intros rangeI)
    qed
  qed (use e one in simp)
qed

text \<open>
  The counts of a fingerprint are exact and within the budgets: the number of entries is that of the
  rows, the number of bytes is the sum of the lengths of the files' contents, and neither exceeds its budget.
\<close>

lemma fingerprint_counts:
  assumes "fingerprint_tree sha decode io cwd parts me mb = Inr (d, t)"
  shows "dget d ''entries'' = PInt (int (length (tree_rows (ti_first io))))
    \<and> dget d ''regular_file_bytes'' = PInt (int (sum_list (map row_bytes (tree_rows (ti_first io)))))
    \<and> int (length (tree_rows (ti_first io))) \<le> me \<and> int (sum_list (map row_bytes (tree_rows (ti_first io)))) \<le> mb"
proof -
  obtain h stability n b where one: "walk_tree sha me mb (ti_first io) = Inr (h, stability, n, b)"
      "dget d ''entries'' = PInt n" "dget d ''regular_file_bytes'' = PInt b"
    using fingerprint_Inr [OF assms] by metis
  then obtain w where w: "visit sha me mb (ti_first io) [] 0 new_walk = Inr w" "n = wk_entries w" "b = wk_bytes w"
    by (auto simp: walk_tree_def)
  have "0 < mb" using assms by (auto simp: fingerprint_tree_def bad_def split: if_splits)
  then have "n \<le> me" "b \<le> mb" using visit_within [OF w(1)] w(2,3) by (simp_all add: new_walk_def)
  with one walk_tree_Inr [OF one(1)] show ?thesis by simp
qed

text \<open>Nothing changed under a visit: all its answers agree, and a file has the length that was stated.\<close>

primrec stable :: "visit_io \<Rightarrow> bool" where
  "stable (Visit io child) \<longleftrightarrow> (\<exists>s. ni_before io = Inr s \<and> ni_after io = Inr s
     \<and> (has_descriptor s \<longrightarrow> ni_opened io = Inr s \<and> ni_closing io = Inr s)
     \<and> (is_regular s \<longrightarrow> as_size s = int (length (content_of io)))
     \<and> (is_directory s \<longrightarrow> (\<exists>listed again. ni_names io = Inr listed \<and> ni_names_after io = Inr again \<and> sort again = sort listed
          \<and> (\<forall>name \<in> set listed. (case map_option stable (child name) of None \<Rightarrow> False | Some b \<Rightarrow> b)))))"

lemma same_stat_Inr [simp]: "same_stat s s' = Inr u \<longleftrightarrow> s = s'"
  by (auto simp: same_stat_def bad_def)

lemma foldE_steps: "foldE f xs w = Inr w' \<Longrightarrow> x \<in> set xs \<Longrightarrow> \<exists>u u'. f x u = Inr u'"
  by (induction xs arbitrary: w) auto

lemma enter_stable:
  assumes "enter sha me mb io relative depth w = Inr (s, w')"
  shows "ni_before io = Inr s \<and> (has_descriptor s \<longrightarrow> ni_opened io = Inr s)
    \<and> (is_regular s \<longrightarrow> as_size s = int (length (content_of io)))"
  using assms
  by (auto simp: enter_def entry_xattrs_def typed_fields_def is_directory_def is_regular_def bad_def Let_def
      dest!: read_content_Inr split: if_splits)

lemma visit_stable: "visit sha me mb v relative depth w = Inr w' \<Longrightarrow> stable v"
proof (induction v arbitrary: relative depth w w')
  case (Visit io child)
  from visit_Inr [OF Visit.prems] obtain s w1 where e: "enter sha me mb io relative depth w = Inr (s, w1)" "leave io s = Inr ()"
    "is_directory s \<Longrightarrow> \<exists>listed again. ni_names io = Inr listed \<and> ni_names_after io = Inr again \<and> sort again = sort listed
       \<and> foldE (visit_name sha me mb child relative depth) (sort listed) w1 = Inr w'" by metis
  have child: "case map_option stable (child name) of None \<Rightarrow> False | Some b \<Rightarrow> b"
    if fold: "foldE (visit_name sha me mb child relative depth) (sort listed) w1 = Inr w'" and name: "name \<in> set listed" for name listed
  proof -
    obtain u u' where "visit_name sha me mb child relative depth name u = Inr u'"
      using foldE_steps [OF fold, of name] name by auto
    then obtain v where "child name = Some v" "visit sha me mb v (child_path relative name) (depth + 1) u = Inr u'"
      using visit_name_Inr by blast
    with Visit.IH [of "Some v" v] show ?thesis by simp (metis option.set_intros rangeI)
  qed
  have "ni_after io = Inr s" "has_descriptor s \<Longrightarrow> ni_closing io = Inr s"
    using e(2) by (auto simp: leave_def split: if_splits)
  moreover have "is_directory s \<longrightarrow> (\<exists>listed again. ni_names io = Inr listed \<and> ni_names_after io = Inr again \<and> sort again = sort listed
      \<and> (\<forall>name \<in> set listed. (case map_option stable (child name) of None \<Rightarrow> False | Some b \<Rightarrow> b)))"
    using e(3) child by blast
  ultimately show ?case unfolding stable.simps using enter_stable [OF e(1)] by blast
qed

lemma mounts_Inr:
  "mounts decode base source = Inr raw \<Longrightarrow>
     source = Inr raw \<and> (\<exists>points. parse_mountinfo (decode raw) = Inr points \<and> (\<forall>p \<in> set points. \<not> below base p))"
  by (auto simp: mounts_def bad_def list_ex_iff split: if_splits)

text \<open>
  Property C15.  A fingerprint is that of a tree that stood still: in both passes every entry had one identity at
  each look, every file the length that was stated and every directory the same names before and after; both
  passes saw the same rows, unless SHA-256 collides; and before and after nothing was mounted below.
\<close>

theorem measured_tree_is_stable:
  assumes "fingerprint_tree sha decode io cwd parts me mb = Inr (d, t)"
  shows "stable (ti_first io) \<and> stable (ti_second io)
    \<and> (tree_rows (ti_first io) = tree_rows (ti_second io)
       \<or> collision sha (hashed sha (tree_rows (ti_first io))) (hashed sha (tree_rows (ti_second io))))
    \<and> (\<exists>raw points. ti_mounts io = Inr raw \<and> ti_mounts_after io = Inr raw \<and> parse_mountinfo (decode raw) = Inr points
         \<and> (\<forall>p \<in> set points. \<not> below (root_text (cwd @ parts)) p))"
proof -
  obtain h stability n b where one: "walk_tree sha me mb (ti_first io) = Inr (h, stability, n, b)"
      "walk_tree sha me mb (ti_second io) = Inr (h, stability, n, b)"
    using fingerprint_Inr [OF assms] by metis
  then have stable: "stable (ti_first io)" "stable (ti_second io)"
    by (auto simp: walk_tree_def dest: visit_stable)
  have rows: "tree_rows (ti_first io) = tree_rows (ti_second io)
       \<or> collision sha (hashed sha (tree_rows (ti_first io))) (hashed sha (tree_rows (ti_second io)))"
    using walk_tree_Inr [OF one(1)] walk_tree_Inr [OF one(2)] by (intro same_digest_same_rows) simp
  obtain raw where "mounts decode (root_text (cwd @ parts)) (ti_mounts io) = Inr raw"
      "mounts decode (root_text (cwd @ parts)) (ti_mounts_after io) = Inr raw"
    using assms by (auto simp: fingerprint_tree_def bad_def Let_def split: if_splits)
  from this [THEN mounts_Inr] stable rows show ?thesis by blast
qed

section \<open>Examples\<close>

text \<open>A directory with one file, at inode \<open>i\<close>, measured with a hash that is the text itself.\<close>

definition tree_stat :: "nat \<Rightarrow> int \<Rightarrow> int \<Rightarrow> artifact_stat" where
  "tree_stat mode ino size_bytes = \<lparr>as_dev = 1, as_ino = ino, as_mode = mode, as_uid = 0, as_gid = 0, as_size = size_bytes,
     as_mtime = 5, as_ctime = 6, as_nlink = 1, as_rdev = 0\<rparr>"

definition quiet_node :: "artifact_stat \<Rightarrow> string list \<Rightarrow> string res list \<Rightarrow> node_io" where
  "quiet_node s names chunks = \<lparr>ni_before = Inr s, ni_open = Inr (), ni_opened = Inr s, ni_xattrs = Inr [],
     ni_xattr = (\<lambda>_. Inr []), ni_chunks = chunks, ni_target = Inr [], ni_names = Inr names, ni_names_after = Inr names,
     ni_closing = Inr s, ni_after = Inr s\<rparr>"

definition example_visit :: "int \<Rightarrow> visit_io" where
  "example_visit i = Visit (quiet_node (tree_stat 0x41ED i 4096) [''a''] [])
     [''a'' \<mapsto> Visit (quiet_node (tree_stat 0x81A4 (i + 1) 2) [] [Inr ''hi'']) Map.empty]"

definition example_mountinfo :: string where "example_mountinfo = ''22 1 0:21 / / rw - ext4 /dev/sda rw''"

definition example_tree :: "int \<Rightarrow> tree_io" where
  "example_tree i = \<lparr>ti_mounts = Inr example_mountinfo, ti_slash = Inr (),
     ti_ancestor = (\<lambda>_. \<lparr>ai_before = Inr (tree_stat 0x41ED 9 4096), ai_open = Inr (), ai_opened = Inr (tree_stat 0x41ED 9 4096),
       ai_held = Inr (tree_stat 0x41ED 9 4096), ai_named = Inr (tree_stat 0x41ED 9 4096)\<rparr>),
     ti_first = example_visit i, ti_second = example_visit i, ti_mounts_after = Inr example_mountinfo, ti_clock = int\<rparr>"

lemma example_mounts: "mounts (\<lambda>s. s) (root_text [''srv'', ''tree'']) (Inr example_mountinfo) = Inr example_mountinfo"
proof -
  have "parse_mountinfo example_mountinfo = Inr [''/'']" "length example_mountinfo \<le> 50" by code_simp+
  then show ?thesis by (simp add: mounts_def MOUNTINFO_MAX_def below_def root_text_def startswith_def rstrip_by_def)
qed

lemma example_walk: "\<exists>stability. walk_tree (\<lambda>s. s) 10 100 (example_visit i)
    = Inr (TREE_DOMAIN @ row_stream (\<lambda>s. s) (tree_rows (example_visit i)), stability, 2, 2)"
proof -
  have "\<exists>w. visit (\<lambda>s. s) 10 100 (example_visit i) [] 0 new_walk = Inr w"
    by (simp add: example_visit_def visit.simps enter_def new_walk_def quiet_node_def tree_stat_def is_directory_def
        is_regular_def has_descriptor_def file_type_def entry_xattrs_def attributes_def typed_fields_def read_content_def
        read_chunk_def leave_def child_path_def Let_def same_stat_def)
  then obtain w where w: "visit (\<lambda>s. s) 10 100 (example_visit i) [] 0 new_walk = Inr w" by blast
  have "length (tree_rows (example_visit i)) = 2" "sum_list (map row_bytes (tree_rows (example_visit i))) = 2"
    by (simp_all add: tree_rows_def example_visit_def rows_Visit rows_name_def quiet_node_def tree_stat_def is_directory_def
        is_regular_def file_type_def row_of_def links_after_def row_bytes_def kind_of_def content_of_def Let_def)
  with visit_adds [OF w] show ?thesis
    unfolding walk_tree_def w by (simp add: adds_def new_walk_def tree_rows_def)
qed

lemma example_fingerprint: "\<exists>d t. fingerprint_tree (\<lambda>s. s) (\<lambda>s. s) (example_tree i) [] [''srv'', ''tree''] 10 100 = Inr (d, t)
    \<and> dget d ''digest'' = PStr (TREE_DOMAIN @ row_stream (\<lambda>s. s) (tree_rows (example_visit i)))"
proof -
  obtain stability where walk: "walk_tree (\<lambda>s. s) 10 100 (example_visit i)
    = Inr (TREE_DOMAIN @ row_stream (\<lambda>s. s) (tree_rows (example_visit i)), stability, 2, 2)" using example_walk by blast
  show ?thesis
    by (simp add: fingerprint_tree_def example_tree_def example_mounts walk Let_def hold_ancestor_def same_stat_def
        check_ancestor_def same_ancestor_def dget_or_def)
qed

lemma example_visit_rows: "tree_rows (example_visit i) = tree_rows (example_visit j)"
  by (simp add: tree_rows_def example_visit_def rows_Visit rows_name_def quiet_node_def tree_stat_def is_directory_def
      is_regular_def file_type_def row_of_def links_after_def kind_of_def content_of_def Let_def)

lemma example_first: "ti_first (example_tree i) = example_visit i" "ti_second (example_tree i) = example_visit i"
  by (simp_all add: example_tree_def)

theorem measured_tree_is_stable_witness:
  "stable (example_visit 10) \<and> (\<exists>points. parse_mountinfo example_mountinfo = Inr points)"
proof -
  obtain d t where "fingerprint_tree (\<lambda>s. s) (\<lambda>s. s) (example_tree 10) [] [''srv'', ''tree''] 10 100 = Inr (d, t)"
    using example_fingerprint by blast
  from measured_tree_is_stable [OF this] show ?thesis by (auto simp: example_first) (auto simp: example_tree_def)
qed

end
