(* ===== verification/Producer_Trees.thy ===== *)
theory Producer_Trees
  imports Producer_Props Artifact_Props
begin

text \<open>
  The producer with its measurement: \<open>pxe_producer_receipt.py\<close> calls \<open>fingerprint_tree\<close> of
  \<open>pxe_artifact_fingerprint.py\<close> on the two trees of each generation.  A receipt identifier thus binds the
  four trees.
\<close>

section \<open>Reaching into sorted values\<close>

lemma sorted_dict_value:
  assumes "sorted_value v = sorted_value w" and "wf_val v" "wf_val w"
  shows "sorted_value (dict_value v k) = sorted_value (dict_value w k)"
proof (cases v)
  case (PDict d)
  with assms(1) obtain e where e: "w = PDict e" by (cases w) auto
  have "distinct (map fst d)" "distinct (map fst e)" using assms(2,3) PDict e by simp_all
  moreover have "sorted_pairs d = sorted_pairs e" using assms(1) unfolding PDict e sorted_value_dict by simp
  ultimately have "sorted_value (dget d k) = sorted_value (dget e k)" by (metis dget_sorted)
  then show ?thesis by (simp add: PDict e dict_value_def)
next
  case (PList xs)
  with assms(1) show ?thesis by (cases w) (auto simp: dict_value_def mapping_or_empty_def)
qed (use assms(1) in \<open>cases w; simp add: dict_value_def mapping_or_empty_def\<close>)+

lemma wf_dict_value: "wf_val v \<Longrightarrow> wf_val (dict_value v k)"
  by (cases v) (auto simp: dict_value_def mapping_or_empty_def dget_or_def list_all_iff dest: map_of_SomeD split: option.splits)

section \<open>The receipt of fingerprinted trees\<close>

text \<open>Every answer of the measurement is that of \<open>fingerprint_tree\<close> on the path, with its default budgets.\<close>

definition fingerprinted :: "(string \<Rightarrow> string) \<Rightarrow> (string \<Rightarrow> string) \<Rightarrow> produce_env \<Rightarrow> (string \<Rightarrow> tree_io) \<Rightarrow> bool" where
  "fingerprinted sha decode env io \<longleftrightarrow> (\<forall>path t m. pe_tree env path = Inr (t, m) \<longrightarrow>
     (\<exists>m'. fingerprint_tree sha decode (io path) [] (path_parts path) 1000000 1099511627776 = Inr (t, m')))"

text \<open>The two trees of a generation.\<close>

definition rootfs_of :: "string \<Rightarrow> string \<Rightarrow> string" where
  "rootfs_of date g = RECEIPT_ROOT @ ''/'' @ release_of date g @ ''/nfs''"

definition tftp_of :: "string \<Rightarrow> string \<Rightarrow> string" where
  "tftp_of date g = RECEIPT_ROOT @ ''/tftp-root/dates/'' @ release_of date g"

text \<open>A run depends on nothing else of its environment.\<close>

lemma produced_value_cong:
  assumes "pe_io env' = pe_io env" "pe_started env' = pe_started env" "pe_finished env' = pe_finished env"
    and trees: "\<And>g. g \<in> {''rpi4'', ''rpi5''} \<Longrightarrow> pe_tree env' (rootfs_of date g) = pe_tree env (rootfs_of date g)"
      "\<And>g. g \<in> {''rpi4'', ''rpi5''} \<Longrightarrow> pe_tree env' (tftp_of date g) = pe_tree env (tftp_of date g)"
  shows "produced_value float_of sha env' date build_id revision profile = produced_value float_of sha env date build_id revision profile"
proof -
  have "measure_generation float_of sha env' date build_id revision paths n g
      = measure_generation float_of sha env date build_id revision paths n g" if "g \<in> {''rpi4'', ''rpi5''}" for paths n g
    unfolding measure_generation_def Let_def assms(1) trees [OF that, unfolded rootfs_of_def tftp_of_def] ..
  then have "measure_generation float_of sha env' date build_id revision paths n ''rpi4''
      = measure_generation float_of sha env date build_id revision paths n ''rpi4''"
    "measure_generation float_of sha env' date build_id revision paths n ''rpi5''
      = measure_generation float_of sha env date build_id revision paths n ''rpi5''" for paths n
    by simp_all
  then have "measure_pair float_of sha env' date build_id revision profile = measure_pair float_of sha env date build_id revision profile"
    by (simp only: measure_pair_def assms)
  then show ?thesis by (simp only: produced_value_def)
qed

lemma fingerprint_wf: "fingerprint_tree sha decode io cwd parts me mb = Inr (t, m) \<Longrightarrow> wf_val (PDict t)"
  by (auto simp: fingerprint_tree_def bad_def Let_def split: if_splits)

lemma produced_fingerprints:
  assumes "produced_value float_of sha env date build_id revision profile = Inr (d, timing)" and "fingerprinted sha decode env io"
  shows "wf_val (PDict d) \<and> validate_receipt sha (PDict d) = Inr d \<and> dget d ''bundle_date'' = PStr date
    \<and> (\<forall>g \<in> {''rpi4'', ''rpi5''}. \<forall>(k, path) \<in> {(''rootfs'', rootfs_of date g), (''tftp'', tftp_of date g)}.
        \<exists>t m. fingerprint_tree sha decode (io path) [] (path_parts path) 1000000 1099511627776 = Inr (t, m)
           \<and> dict_value (dict_value (dict_value (PDict d) ''artifacts'') g) k = PDict t)"
proof -
  have free: "produced_value float_of sha (env\<lparr>pe_temp := temp\<rparr>) date build_id revision profile
      = produced_value float_of sha env date build_id revision profile" for temp
    by (rule produced_value_cong) simp_all
  have "env_ok (env\<lparr>pe_temp := ''.producer-''\<rparr>)"
  proof -
    have "wf_val (PDict t)" if "pe_tree env path = Inr (t, m)" for path t m
      using assms(2) that fingerprint_wf unfolding fingerprinted_def by meson
    then show ?thesis by (simp only: env_ok_def produce_env.simps) (simp add: startswith_def)
  qed
  from produced_valid [OF _ this] assms(1) free have valid: "wf_val (PDict d)" "validate_receipt sha (PDict d) = Inr d"
      "dget d ''bundle_date'' = PStr date" by metis+
  from assms(1) obtain measured rid where m: "measure_pair float_of sha env date build_id revision profile = Inr (measured, timing)"
    and v: "validate_receipt sha (PDict (dput ''receipt_id'' (PStr rid) measured)) = Inr d"
    by (auto simp: produced_value_def)
  from v have d: "d = dput ''receipt_id'' (PStr rid) measured" by (simp add: validate_Inr)
  obtain decl4 artifact4 timing4 decl5 artifact5 timing5 paths where
    gens: "measure_generation float_of sha env date build_id revision paths 1 ''rpi4'' = Inr (decl4, artifact4, timing4)"
      "measure_generation float_of sha env date build_id revision paths 3 ''rpi5'' = Inr (decl5, artifact5, timing5)"
    and measured: "dget measured ''artifacts'' = PDict [(''rpi4'', artifact4), (''rpi5'', artifact5)]"
    using m by (auto simp: measure_pair_def pc_Inr dget_or_def)
  have arts: "dget d ''artifacts'' = PDict [(''rpi4'', artifact4), (''rpi5'', artifact5)]"
    by (simp add: d measured)
  have gen: "\<exists>t m. fingerprint_tree sha decode (io path) [] (path_parts path) 1000000 1099511627776 = Inr (t, m) \<and> dict_value artifact k = PDict t"
    if step: "measure_generation float_of sha env date build_id revision paths n g = Inr (decl, artifact, timing)"
      and k: "(k, path) \<in> {(''rootfs'', rootfs_of date g), (''tftp'', tftp_of date g)}" for n g decl artifact timing k path
  proof -
    obtain t m t' m' required where "pe_tree env (rootfs_of date g) = Inr (t, m)" "pe_tree env (tftp_of date g) = Inr (t', m')"
        "artifact = PDict [(''rootfs'', PDict t), (''tftp'', PDict t'), (''required_tftp'', PList required)]"
      using step by (auto simp: measure_generation_def pc_Inr Let_def rootfs_of_def tftp_of_def)
    with assms(2) k show ?thesis unfolding fingerprinted_def by (fastforce simp: dict_value_def dget_or_def)
  qed
  have "dict_value (dict_value (PDict d) ''artifacts'') ''rpi4'' = artifact4"
    "dict_value (dict_value (PDict d) ''artifacts'') ''rpi5'' = artifact5"
    by (simp_all add: dict_value_def arts) (simp_all add: dget_or_def)
  with gen [OF gens(1)] gen [OF gens(2)] valid show ?thesis by simp
qed

text \<open>
  Property C6.  The identifier of a receipt binds the trees: if two runs of the producer, which measure with
  \<open>fingerprint_tree\<close>, make receipts with one identifier, then they saw the same trees for both generations, the
  root file systems and the boot files, down to contents, modes, owners, times and attributes; or SHA-256
  collides on two texts that were hashed.
\<close>

theorem receipt_binds_trees:
  assumes one: "produced_value float_of sha env date build_id revision profile = Inr (d, timing)" "fingerprinted sha decode env io"
    and two: "produced_value float_of sha env' date' build_id' revision' profile' = Inr (d', timing')" "fingerprinted sha decode env' io'"
    and same: "dget d ''receipt_id'' = dget d' ''receipt_id''" and "g \<in> {''rpi4'', ''rpi5''}"
    and path: "(path, path') \<in> {(rootfs_of date g, rootfs_of date' g), (tftp_of date g, tftp_of date' g)}"
  shows "tree_rows (ti_first (io path)) = tree_rows (ti_first (io' path'))
    \<or> collision sha (hashed sha (tree_rows (ti_first (io path)))) (hashed sha (tree_rows (ti_first (io' path'))))
    \<or> (\<exists>p q. receipt_payload d = Inr p \<and> receipt_payload d' = Inr q \<and> p \<noteq> q
       \<and> sha (RECEIPT_DOMAIN @ p) = sha (RECEIPT_DOMAIN @ q))"
proof -
  note first = produced_fingerprints [OF one] and second = produced_fingerprints [OF two]
  define k where "k = (if path = rootfs_of date g \<and> path' = rootfs_of date' g then ''rootfs'' else ''tftp'')"
  have k: "(k, path) \<in> {(''rootfs'', rootfs_of date g), (''tftp'', tftp_of date g)}"
    "(k, path') \<in> {(''rootfs'', rootfs_of date' g), (''tftp'', tftp_of date' g)}"
    using path by (auto simp: k_def)
  obtain t m where t: "fingerprint_tree sha decode (io path) [] (path_parts path) 1000000 1099511627776 = Inr (t, m)"
      "dict_value (dict_value (dict_value (PDict d) ''artifacts'') g) k = PDict t"
    using first assms(6) k(1) by blast
  obtain t' m' where t': "fingerprint_tree sha decode (io' path') [] (path_parts path') 1000000 1099511627776 = Inr (t', m')"
      "dict_value (dict_value (dict_value (PDict d') ''artifacts'') g) k = PDict t'"
    using second assms(6) k(2) by blast
  have trees: "tree_rows (ti_first (io path)) = tree_rows (ti_first (io' path'))
      \<or> collision sha (hashed sha (tree_rows (ti_first (io path)))) (hashed sha (tree_rows (ti_first (io' path'))))"
    if "sorted_value (PDict d) = sorted_value (PDict d')"
  proof -
    have "sorted_value (dict_value (PDict t) ''digest'') = sorted_value (dict_value (PDict t') ''digest'')"
      unfolding t(2) [symmetric] t'(2) [symmetric] using that first second by (intro sorted_dict_value wf_dict_value) auto
    moreover obtain h where "dget t ''digest'' = PStr h" using fingerprint_Inr [OF t(1)] by metis
    moreover obtain h' where "dget t' ''digest'' = PStr h'" using fingerprint_Inr [OF t'(1)] by metis
    ultimately have "dget t ''digest'' = dget t' ''digest''" by (simp add: dict_value_def)
    from same_fingerprint_same_rows [OF t(1) t'(1) this] show ?thesis .
  qed
  from same_identifier [of d sha d'] first second same trees show ?thesis by blast
qed

section \<open>An example\<close>

text \<open>The example run, measuring empty directories at inode \<open>i\<close>.\<close>

definition empty_tree :: "int \<Rightarrow> tree_io" where
  "empty_tree i = (example_tree i)\<lparr>ti_first := Visit (quiet_node (tree_stat 0x41ED i 4096) [] []) Map.empty,
     ti_second := Visit (quiet_node (tree_stat 0x41ED i 4096) [] []) Map.empty\<rparr>"

definition tree_env :: "int \<Rightarrow> produce_env" where
  "tree_env i = ex_env\<lparr>pe_tree := (\<lambda>path. map_sum id (\<lambda>(t, m). (t, []))
     (fingerprint_tree ex_sha (\<lambda>s. s) (empty_tree i) [] (path_parts path) 1000000 1099511627776))\<rparr>"

lemma tree_env_fingerprinted: "fingerprinted ex_sha (\<lambda>s. s) (tree_env i) (\<lambda>_. empty_tree i)"
  unfolding fingerprinted_def tree_env_def
  by (auto split: sum.splits simp: map_sum_def)

lemma mapE_const: "f x = Inr y \<Longrightarrow> mapE f (map (\<lambda>_. x) xs) = Inr (map (\<lambda>_. y) xs)"
  by (induction xs) simp_all

lemma empty_walk: "\<exists>stability. walk_tree ex_sha 1000000 1099511627776 (ti_first (empty_tree i))
    = Inr (replicate 64 (CHR ''0''), stability, 1, 0)"
  by (simp add: walk_tree_def empty_tree_def visit.simps enter_def new_walk_def quiet_node_def tree_stat_def is_directory_def
      is_regular_def has_descriptor_def file_type_def entry_xattrs_def attributes_def typed_fields_def leave_def Let_def
      same_stat_def ex_sha_def)

definition plain_root :: "string \<Rightarrow> bool" where
  "plain_root path \<longleftrightarrow> ''..'' \<notin> set (path_parts path) \<and> rstrip_by (\<lambda>c. c = CHR ''/'') (root_text (path_parts path)) \<noteq> []"

lemma empty_fingerprint:
  assumes "plain_root path"
  shows "\<exists>m. fingerprint_tree ex_sha (\<lambda>s. s) (empty_tree i) [] (path_parts path) 1000000 1099511627776 = Inr (ex_tree, m)"
proof -
  obtain stability where walk: "walk_tree ex_sha 1000000 1099511627776 (ti_first (empty_tree i))
    = Inr (replicate 64 (CHR ''0''), stability, 1, 0)" using empty_walk by blast
  define a where "a = ti_ancestor (empty_tree i) 0"
  have io: "ti_second (empty_tree i) = ti_first (empty_tree i)" "ti_ancestor (empty_tree i) = (\<lambda>_. a)"
      "ti_slash (empty_tree i) = Inr ()" "ti_mounts (empty_tree i) = Inr example_mountinfo"
      "ti_mounts_after (empty_tree i) = Inr example_mountinfo"
    by (simp_all add: empty_tree_def example_tree_def a_def)
  have hold: "hold_ancestor a = Inr (tree_stat 0x41ED 9 4096)"
    by (simp add: a_def empty_tree_def example_tree_def hold_ancestor_def)
  have check: "mapE check_ancestor (zip (map (\<lambda>_. a) xs) (map (\<lambda>_. tree_stat 0x41ED 9 4096) xs)) = Inr (map (\<lambda>_. ()) xs)" for xs :: "nat list"
    by (induction xs)
      (simp_all add: a_def empty_tree_def example_tree_def check_ancestor_def same_ancestor_def)
  have parse: "parse_mountinfo example_mountinfo = Inr [''/'']" "length example_mountinfo \<le> 50" by code_simp+
  obtain c cs where "rstrip_by (\<lambda>c. c = CHR ''/'') (root_text (path_parts path)) = c # cs"
    using assms unfolding plain_root_def by (cases "rstrip_by (\<lambda>c. c = CHR ''/'') (root_text (path_parts path))") auto
  then have "\<not> below (root_text (path_parts path)) ''/''" by (simp add: below_def startswith_def)
  with parse have m: "mounts (\<lambda>s. s) (root_text (path_parts path)) (Inr example_mountinfo) = Inr example_mountinfo"
    by (simp add: mounts_def MOUNTINFO_MAX_def)
  have "''..'' \<notin> set (path_parts path)" using assms by (simp add: plain_root_def)
  then show ?thesis
    by (simp add: fingerprint_tree_def io m walk mapE_const [where f = hold_ancestor and x = a, OF hold] check Let_def ex_tree_def)
qed

lemma tree_env_produced: "produced_value float_of ex_sha (tree_env i) ''20240101'' ''b1'' (replicate 40 (CHR ''a'')) ''standard'' =
    Inr (ex_receipt, PDict [(''rpi4'', PDict [(''rootfs'', PDict []), (''tftp'', PDict [])]),
      (''rpi5'', PDict [(''rootfs'', PDict []), (''tftp'', PDict [])])])"
proof -
  have roots: "list_all (\<lambda>g. plain_root (rootfs_of ''20240101'' g) \<and> plain_root (tftp_of ''20240101'' g)) [''rpi4'', ''rpi5'']"
    by code_simp
  have tree: "pe_tree (tree_env i) path = Inr (ex_tree, [])" if "plain_root path" for path
    using empty_fingerprint [OF that, of i] by (auto simp: tree_env_def)
  have "produced_value float_of ex_sha (tree_env i) ''20240101'' ''b1'' (replicate 40 (CHR ''a'')) ''standard''
      = produced_value float_of ex_sha ex_env ''20240101'' ''b1'' (replicate 40 (CHR ''a'')) ''standard''"
  proof (rule produced_value_cong)
    fix g :: string assume "g \<in> {''rpi4'', ''rpi5''}"
    with roots have "plain_root (rootfs_of ''20240101'' g)" "plain_root (tftp_of ''20240101'' g)" by auto
    then show "pe_tree (tree_env i) (rootfs_of ''20240101'' g) = pe_tree ex_env (rootfs_of ''20240101'' g)"
      "pe_tree (tree_env i) (tftp_of ''20240101'' g) = pe_tree ex_env (tftp_of ''20240101'' g)"
      by (simp_all only: tree) (simp_all add: ex_env_def)
  qed (simp_all add: tree_env_def)
  then show ?thesis by (simp only: ex_produced)
qed

theorem receipt_binds_trees_witness:
  "fingerprinted ex_sha (\<lambda>s. s) (tree_env 10) (\<lambda>_. empty_tree 10) \<and> fingerprinted ex_sha (\<lambda>s. s) (tree_env 20) (\<lambda>_. empty_tree 20)
   \<and> (\<exists>timing. produced_value (\<lambda>_. FNaN) ex_sha (tree_env 10) ''20240101'' ''b1'' (replicate 40 (CHR ''a'')) ''standard'' = Inr (ex_receipt, timing)
       \<and> produced_value (\<lambda>_. FNaN) ex_sha (tree_env 20) ''20240101'' ''b1'' (replicate 40 (CHR ''a'')) ''standard'' = Inr (ex_receipt, timing))
   \<and> (tree_rows (ti_first (empty_tree 10)) = tree_rows (ti_first (empty_tree 20))
      \<or> collision ex_sha (hashed ex_sha (tree_rows (ti_first (empty_tree 10)))) (hashed ex_sha (tree_rows (ti_first (empty_tree 20)))))"
proof -
  have path: "(rootfs_of ''20240101'' g, rootfs_of ''20240101'' g) \<in> {(rootfs_of ''20240101'' g, rootfs_of ''20240101'' g),
      (tftp_of ''20240101'' g, tftp_of ''20240101'' g)}" for g by simp
  have g: "''rpi4'' \<in> {''rpi4'', ''rpi5''}" by simp
  from receipt_binds_trees [OF tree_env_produced [where i = 10 and float_of = "\<lambda>_. FNaN"] tree_env_fingerprinted
      tree_env_produced [where i = 20 and float_of = "\<lambda>_. FNaN"] tree_env_fingerprinted refl g path]
  have "tree_rows (ti_first (empty_tree 10)) = tree_rows (ti_first (empty_tree 20))
      \<or> collision ex_sha (hashed ex_sha (tree_rows (ti_first (empty_tree 10)))) (hashed ex_sha (tree_rows (ti_first (empty_tree 20))))"
    by auto
  then show ?thesis using tree_env_fingerprinted tree_env_produced by blast
qed

end
