(* ===== verification/Py_Networks.thy ===== *)
theory Py_Networks
  imports Py_Time "HOL-Library.Product_Lexorder"
begin

text \<open>
  \<open>ipaddress.IPv4Network\<close> of the standard library as the feed proof uses it: construction from
  text, the classes of a network, \<open>summarize_address_range\<close> and \<open>collapse_addresses\<close>, whose
  loops are written out.  A network is its first address, as a number, and its prefix length;
  two networks are ordered by address and then by netmask, that is by prefix length.
  \<open>Networks_Facts\<close> proves what the collapsed list is.
\<close>

type_synonym net = "int \<times> nat"

section \<open>Addresses and networks\<close>

definition ipv4_number :: "nat list \<Rightarrow> int" where
  [py_defs]: "ipv4_number ip = foldl (\<lambda>a b. 256 * a + int b) 0 ip"

definition address_error :: py_exc where
  [py_defs]: "address_error = ValueError ''AddressValueError''"

definition ipv4_address :: "string \<Rightarrow> int res" where
  [py_defs]: "ipv4_address s = (case ipv4_parse s of
       None \<Rightarrow> Inl address_error | Some ip \<Rightarrow> Inr (ipv4_number ip))"

definition address_text :: "int \<Rightarrow> string" where
  [py_defs]: "address_text x = ipv4_str
     [nat (x div 16777216), nat (x div 65536 mod 256), nat (x div 256 mod 256), nat (x mod 256)]"

definition block :: "nat \<Rightarrow> int" where
  [py_defs]: "block p = 2 ^ (32 - p)"

definition net_last :: "net \<Rightarrow> int" where
  [py_defs]: "net_last n = fst n + block (snd n) - 1"

definition net_text :: "net \<Rightarrow> string" where
  [py_defs]: "net_text n = address_text (fst n) @ ''/'' @ str_nat (snd n)"

text \<open>\<open>address in network\<close>.\<close>

definition in_network :: "int \<Rightarrow> net \<Rightarrow> bool" where
  [py_defs]: "in_network x n \<longleftrightarrow> x div block (snd n) = fst n div block (snd n)"

subsection \<open>Construction\<close>

text \<open>The number of zero bits at the right end.\<close>

function ctz :: "int \<Rightarrow> nat" where
  "ctz i = (if i \<le> 0 \<or> odd i then 0 else Suc (ctz (i div 2)))"
  by pat_completeness auto
termination
  by (relation "measure nat") auto

function bit_length :: "int \<Rightarrow> nat" where
  "bit_length i = (if i \<le> 0 then 0 else Suc (bit_length (i div 2)))"
  by pat_completeness auto
termination
  by (relation "measure nat") auto

declare ctz.simps [simp del] bit_length.simps [simp del]

definition righthand_zero_bits :: "int \<Rightarrow> nat \<Rightarrow> nat" where
  [py_defs]: "righthand_zero_bits i n = (if i = 0 then n else min n (ctz i))"

definition ALL_ONES :: int where [py_defs]: "ALL_ONES = 4294967295"

definition prefix_from_int :: "int \<Rightarrow> nat option" where
  [py_defs]: "prefix_from_int i =
     (let zeroes = righthand_zero_bits i 32; prefixlen = 32 - zeroes in
      if i div 2 ^ zeroes = 2 ^ prefixlen - 1 then Some prefixlen else None)"

text \<open>What follows the slash: a prefix length, or a netmask or hostmask in four octets.\<close>

definition prefix_from_text :: "string \<Rightarrow> nat res" where
  [py_defs]: "prefix_from_text s =
     (let invalid = Inl (ValueError ''NetmaskValueError'') in
      if py_isdecimal s \<and> nat_of_digits s \<le> 32 then Inr (nat_of_digits s)
      else (case ipv4_parse s of
          None \<Rightarrow> invalid
        | Some ip \<Rightarrow>
            (case prefix_from_int (ipv4_number ip) of
               Some p \<Rightarrow> Inr p
             | None \<Rightarrow>
                 (case prefix_from_int (ALL_ONES - ipv4_number ip) of Some p \<Rightarrow> Inr p | None \<Rightarrow> invalid))))"

definition network_of :: "bool \<Rightarrow> int \<Rightarrow> nat \<Rightarrow> net res" where
  [py_defs]: "network_of strict a p =
     (if a mod block p = 0 then Inr (a, p)
      else if strict then Inl (ValueError ''host bits set'') else Inr (a - a mod block p, p))"

definition ipv4_network :: "bool \<Rightarrow> string \<Rightarrow> net res" where
  [py_defs]: "ipv4_network strict s = (case split_on CHR ''/'' s of
       [left] \<Rightarrow> bindE (ipv4_address left) (\<lambda>a. network_of strict a 32)
     | [left, right] \<Rightarrow> bindE (ipv4_address left) (\<lambda>a. bindE (prefix_from_text right) (network_of strict a))
     | _ \<Rightarrow> Inl address_error)"

subsection \<open>Classes\<close>

definition constant_net :: "nat list \<times> nat \<Rightarrow> net" where
  [py_defs]: "constant_net c = (ipv4_number (fst c), snd c)"

definition both_in :: "net \<Rightarrow> net \<Rightarrow> bool" where
  [py_defs]: "both_in n m \<longleftrightarrow> in_network (fst n) m \<and> in_network (net_last n) m"

definition net_is_private :: "net \<Rightarrow> bool" where
  [py_defs]: "net_is_private n \<longleftrightarrow> list_ex (\<lambda>c. both_in n (constant_net c)) PRIVATE_NETWORKS
     \<and> list_all (\<lambda>c. \<not> in_network (fst n) (constant_net c) \<and> \<not> in_network (net_last n) (constant_net c))
         PRIVATE_EXCEPTIONS"

definition net_is_global :: "net \<Rightarrow> bool" where
  [py_defs]: "net_is_global n \<longleftrightarrow> \<not> both_in n (constant_net ([100, 64, 0, 0], 10)) \<and> \<not> net_is_private n"

definition net_is_multicast :: "net \<Rightarrow> bool" where
  [py_defs]: "net_is_multicast n \<longleftrightarrow> both_in n (constant_net ([224, 0, 0, 0], 4))"

section \<open>Ranges\<close>

text \<open>\<open>summarize_address_range(first, last)\<close>: the largest block that starts at \<open>first\<close> and does not pass
  \<open>last\<close>, and so on; \<open>nbits\<close> is the exponent of its size.\<close>

definition range_bits :: "int \<Rightarrow> int \<Rightarrow> nat" where
  [py_defs]: "range_bits first final = min (righthand_zero_bits first 32) (bit_length (final - first + 1) - 1)"

function range_loop :: "int \<Rightarrow> int \<Rightarrow> net list" where
  "range_loop first final =
     (if final < first then []
      else (let nbits = range_bits first final; next = first + 2 ^ nbits in
        (first, 32 - nbits) # (if next - 1 = ALL_ONES then [] else range_loop next final)))"
  by pat_completeness auto
termination
  by (relation "measure (\<lambda>(first, final). nat (final + 1 - first))") auto

declare range_loop.simps [simp del]

definition summarize_range :: "int \<Rightarrow> int \<Rightarrow> net list res" where
  [py_defs]: "summarize_range first final =
     (if final < first then Inl (ValueError ''last IP address must be greater than first'')
      else Inr (range_loop first final))"

section \<open>Collapsing\<close>

text \<open>\<open>_find_address_range\<close> on the sorted addresses: the runs of consecutive ones.\<close>

fun address_runs :: "int \<Rightarrow> int \<Rightarrow> int list \<Rightarrow> (int \<times> int) list" where
  "address_runs first prev [] = [(first, prev)]"
| "address_runs first prev (x # xs) =
     (if x \<noteq> prev + 1 then (first, prev) # address_runs x x xs else address_runs first x xs)"

definition find_ranges :: "int list \<Rightarrow> (int \<times> int) list" where
  [py_defs]: "find_ranges xs = (case xs of [] \<Rightarrow> [] | x # rest \<Rightarrow> address_runs x x rest)"

definition supernet :: "net \<Rightarrow> net" where
  [py_defs]: "supernet n =
     (if snd n = 0 then n
      else (fst n div block (snd n - 1) * block (snd n - 1), snd n - 1))"

text \<open>The merging loop.  \<open>to_merge\<close> is kept with its end first, so that \<open>pop\<close> and \<open>append\<close> work on the
  head; \<open>subnets\<close> is the dictionary from supernet to network.\<close>

lemma length_delete_less: "map_of d k = Some v \<Longrightarrow> length (AList.delete k d) < length d"
  by (induction d) (auto simp: less_Suc_eq_le length_delete_le split: if_splits)

function merge_loop :: "net list \<Rightarrow> (net \<times> net) list \<Rightarrow> (net \<times> net) list" where
  "merge_loop [] subnets = subnets"
| "merge_loop (n # to_merge) subnets =
     (case map_of subnets (supernet n) of
        None \<Rightarrow> merge_loop to_merge (AList.update (supernet n) n subnets)
      | Some existing \<Rightarrow>
          (if existing \<noteq> n then merge_loop (supernet n # to_merge) (AList.delete (supernet n) subnets)
           else merge_loop to_merge subnets))"
  by pat_completeness auto
termination
proof (relation "measure (\<lambda>(ns, d). 2 * length ns + length d)", goal_cases)
  case (2 n to_merge subnets)
  then have "AList.update (supernet n) n subnets = subnets @ [(supernet n, n)]"
    by (induction subnets) (auto split: if_splits)
  then show ?case by simp
next
  case (3 n to_merge subnets existing)
  then show ?case using length_delete_less [of subnets "supernet n" existing] by simp
qed simp_all

text \<open>The last loop, over the sorted networks: one that ends inside the last one kept is skipped.\<close>

fun skip_subsumed :: "net option \<Rightarrow> net list \<Rightarrow> net list" where
  "skip_subsumed prev [] = []"
| "skip_subsumed prev (n # ns) =
     (case prev of
        Some m \<Rightarrow> if net_last n \<le> net_last m then skip_subsumed prev ns else n # skip_subsumed (Some n) ns
      | None \<Rightarrow> n # skip_subsumed (Some n) ns)"

definition collapse_internal :: "net list \<Rightarrow> net list" where
  [py_defs]: "collapse_internal ns = skip_subsumed None (sort (map snd (merge_loop (rev ns) [])))"

definition collapse_addresses :: "net list \<Rightarrow> net list" where
  [py_defs]: "collapse_addresses ns =
     (let ips = sort (remdups (map fst (filter (\<lambda>n. snd n = 32) ns)));
          nets = filter (\<lambda>n. snd n \<noteq> 32) ns;
          addrs = concat (map (\<lambda>(first, final). range_loop first final) (find_ranges ips))
      in collapse_internal (addrs @ nets))"

end
