(* ===== verification/Networks_Facts.thy ===== *)
theory Networks_Facts
  imports Py_Networks
begin

text \<open>
  What collapsing a list of networks gives: the sorted list of the maximal blocks inside the
  set of addresses the networks cover, so that the result depends on that set only
  (\<open>collapse_addresses_spec\<close>), and with it the text the feed proof digests
  (\<open>collapsed_text_inject\<close>).
\<close>

section \<open>Blocks\<close>

definition net_addrs :: "net \<Rightarrow> int set" where
  "net_addrs n = {fst n ..< fst n + block (snd n)}"

definition valid_net :: "net \<Rightarrow> bool" where
  "valid_net n \<longleftrightarrow> snd n \<le> 32 \<and> 0 \<le> fst n \<and> fst n \<le> ALL_ONES \<and> fst n mod block (snd n) = 0"

definition covered :: "net set \<Rightarrow> int set" where
  "covered ns = (\<Union>n \<in> ns. net_addrs n)"

lemma block_pos [simp]: "0 < block p"
  by (simp add: block_def)

lemma block_nz [simp]: "block p \<noteq> 0"
  using block_pos [of p] by linarith

lemma block_nonneg [simp]: "0 \<le> block p" "\<not> block p \<le> 0"
  by (simp_all add: block_def)

lemma block_0: "block 0 = ALL_ONES + 1"
  by (simp add: block_def ALL_ONES_def)

lemma block_32 [simp]: "block 32 = 1"
  by (simp add: block_def)

lemma block_le: "q \<le> p \<Longrightarrow> p \<le> 32 \<Longrightarrow> block q = block p * 2 ^ (p - q)"
  by (simp add: block_def flip: power_add)

lemma block_step: "0 < p \<Longrightarrow> p \<le> 32 \<Longrightarrow> block (p - 1) = 2 * block p"
  using block_le [of "p - 1" p] by simp

lemma block_less: "q < p \<Longrightarrow> p \<le> 32 \<Longrightarrow> block p < block q"
  using block_le [of q p] by (simp add: power_gt1_lemma one_less_power)

lemma div_block: "q \<le> p \<Longrightarrow> p \<le> 32 \<Longrightarrow> x div block q = x div block p div 2 ^ (p - q)"
  by (simp add: block_le zdiv_zmult2_eq)

lemma valid_start: "valid_net n \<Longrightarrow> fst n = fst n div block (snd n) * block (snd n)"
  by (simp add: valid_net_def mod_0_imp_dvd)

lemma net_addrs_iff:
  assumes "valid_net n"
  shows "x \<in> net_addrs n \<longleftrightarrow> in_network x n"
proof -
  define k b where "k = fst n div block (snd n)" and "b = block (snd n)"
  have n: "fst n = k * b" and b: "0 < b" using valid_start [OF assms] by (simp_all add: k_def b_def)
  have "k * b \<le> x \<and> x < k * b + b \<longleftrightarrow> x div b = k"
  proof
    assume "k * b \<le> x \<and> x < k * b + b"
    then show "x div b = k" using b by (intro int_div_pos_eq [where r = "x - k * b"]) (auto simp: algebra_simps)
  next
    assume "x div b = k"
    then show "k * b \<le> x \<and> x < k * b + b"
      using b pos_mod_bound [of b x] pos_mod_sign [of b x] by (auto simp: minus_mod_eq_div_mult [symmetric])
  qed
  then show ?thesis by (simp add: net_addrs_def in_network_def k_def b_def flip: n [unfolded k_def b_def])
qed

lemma start_in [simp]: "fst n \<in> net_addrs n"
  by (simp add: net_addrs_def)

lemma last_in: "net_last n \<in> net_addrs n"
  using block_pos [of "snd n"] by (simp add: net_addrs_def net_last_def)

lemma card_net_addrs: "card (net_addrs n) = nat (block (snd n))"
  by (simp add: net_addrs_def)

lemma finite_net_addrs [simp]: "finite (net_addrs n)"
  by (simp add: net_addrs_def)

lemma subset_of_member:
  assumes "valid_net n" "valid_net m" "snd m \<le> snd n" "x \<in> net_addrs n" "x \<in> net_addrs m"
  shows "net_addrs n \<subseteq> net_addrs m"
  using assms div_block [of "snd m" "snd n"]
  by (auto simp: net_addrs_iff in_network_def valid_net_def)

lemma subset_prefix:
  assumes "net_addrs n \<subseteq> net_addrs m" "snd m \<le> 32"
  shows "snd m \<le> snd n"
proof (rule ccontr)
  assume "\<not> snd m \<le> snd n"
  then have "block (snd m) < block (snd n)" using assms by (intro block_less) auto
  moreover have "card (net_addrs n) \<le> card (net_addrs m)" using assms by (intro card_mono) auto
  ultimately show False by (simp add: card_net_addrs nat_le_eq_zle order_less_imp_le)
qed

lemma laminar:
  assumes "valid_net n" "valid_net m" "x \<in> net_addrs n" "x \<in> net_addrs m"
  shows "net_addrs n \<subseteq> net_addrs m \<or> net_addrs m \<subseteq> net_addrs n"
  using subset_of_member [OF assms(1,2) _ assms(3,4)] subset_of_member [OF assms(2,1) _ assms(4,3)]
  by (meson nat_le_linear)

lemma net_eqI:
  assumes "valid_net n" "valid_net m" "net_addrs n = net_addrs m"
  shows "n = m"
proof -
  have "snd n = snd m"
    using assms subset_prefix [of n m] subset_prefix [of m n] by (simp add: valid_net_def)
  moreover have "fst n = fst m"
  proof -
    have "fst n \<in> net_addrs m" "fst m \<in> net_addrs n" using assms(3) start_in by blast+
    then show ?thesis by (simp add: net_addrs_def)
  qed
  ultimately show ?thesis by (simp add: prod_eq_iff)
qed

section \<open>Supernets\<close>

lemma supernet_valid:
  assumes "valid_net n"
  shows "valid_net (supernet n)"
proof (cases "snd n = 0")
  case False
  let ?b = "block (snd n - 1)"
  have "fst n div ?b * ?b \<le> fst n" by (simp add: minus_mod_eq_div_mult [symmetric])
  moreover have "0 \<le> fst n div ?b * ?b"
    using assms block_pos [of "snd n - 1"] by (simp add: valid_net_def pos_imp_zdiv_nonneg_iff del: block_pos)
  ultimately show ?thesis using assms False by (auto simp: supernet_def valid_net_def)
qed (use assms in \<open>simp add: supernet_def\<close>)

lemma supernet_prefix: "snd (supernet n) = snd n - 1"
  by (simp add: supernet_def)

lemma supernet_contains:
  assumes "valid_net n"
  shows "net_addrs n \<subseteq> net_addrs (supernet n)"
proof (rule subset_of_member [OF assms supernet_valid [OF assms], where x = "fst n"])
  have "in_network (fst n) (supernet n)"
    by (simp add: in_network_def supernet_def)
  then show "fst n \<in> net_addrs (supernet n)"
    by (simp add: net_addrs_iff supernet_valid assms)
qed (simp_all add: supernet_prefix)

text \<open>A block that strictly contains another contains its supernet.\<close>

lemma supernet_least:
  assumes "valid_net n" "valid_net m" "net_addrs n \<subseteq> net_addrs m" "n \<noteq> m"
  shows "net_addrs (supernet n) \<subseteq> net_addrs m"
proof (rule subset_of_member [OF supernet_valid [OF assms(1)] assms(2), where x = "fst n"])
  have "snd m \<le> snd n" using assms by (intro subset_prefix) (auto simp: valid_net_def)
  moreover have "snd m \<noteq> snd n"
  proof
    assume "snd m = snd n"
    then have "net_addrs m \<subseteq> net_addrs n"
      using assms start_in [of n] by (intro subset_of_member [where x = "fst n"]) auto
    with assms show False using net_eqI [of n m] by blast
  qed
  ultimately show "snd m \<le> snd (supernet n)" by (simp add: supernet_prefix)
  show "fst n \<in> net_addrs (supernet n)" using supernet_contains [OF assms(1)] start_in by blast
  show "fst n \<in> net_addrs m" using assms(3) start_in by blast
qed

text \<open>The two halves of a block.\<close>

lemma halves:
  assumes "valid_net n" "valid_net m" "supernet n = supernet m" "n \<noteq> m"
  shows "net_addrs (supernet n) = net_addrs n \<union> net_addrs m"
proof (cases "snd n = 0 \<or> snd m = 0")
  case True
  then have "supernet n = n \<or> supernet m = m" by (auto simp: supernet_def)
  then show ?thesis using supernet_contains [OF assms(1)] supernet_contains [OF assms(2)] assms(3) by auto
next
  case False
  then have p: "snd n = snd m" "0 < snd n" "snd n \<le> 32"
    using assms(1,3) supernet_prefix [of n] supernet_prefix [of m] by (auto simp: valid_net_def)
  define b where "b = block (snd n)"
  define i where "i = fst n div b"
  define j where "j = fst m div b"
  have bb: "block (snd n - 1) = 2 * b" "0 < b" using p block_step [of "snd n"] by (simp_all add: b_def)
  have ij: "fst n = i * b" "fst m = j * b"
    using valid_start [OF assms(1)] valid_start [OF assms(2)] p by (simp_all add: i_def j_def b_def)
  have s: "fst (supernet n) = i div 2 * (2 * b)" "fst (supernet m) = j div 2 * (2 * b)"
    using p bb ij by (simp_all add: supernet_def)
  then have half: "i div 2 = j div 2" using assms(3) bb by simp
  have "i \<noteq> j" using assms(4) ij p by (auto simp: prod_eq_iff)
  define h where "h = i div 2"
  from \<open>i \<noteq> j\<close> half have "i = 2 * h \<and> j = 2 * h + 1 \<or> j = 2 * h \<and> i = 2 * h + 1" unfolding h_def by presburger
  then have "fst n = fst (supernet n) \<and> fst m = fst n + b \<or> fst m = fst (supernet n) \<and> fst n = fst m + b"
    unfolding s ij half [symmetric] h_def [symmetric] by (elim disjE) (simp_all add: algebra_simps)
  then show ?thesis
    using p bb by (auto simp: net_addrs_def supernet_prefix b_def)
qed

section \<open>Ranges\<close>

lemma power_ctz_dvd: "2 ^ ctz i dvd i"
proof (induction i rule: ctz.induct)
  case (1 i)
  show ?case
  proof (cases "i \<le> 0 \<or> odd i")
    case False
    with 1 have "2 ^ ctz (i div 2) dvd i div 2" by blast
    then have "2 * 2 ^ ctz (i div 2) dvd 2 * (i div 2)" by (rule mult_dvd_mono [OF dvd_refl])
    with False show ?thesis by (subst ctz.simps) simp
  qed (subst ctz.simps; simp)
qed

lemma bit_length_power: "0 < i \<Longrightarrow> 2 ^ (bit_length i - 1) \<le> i"
proof (induction i rule: bit_length.induct)
  case (1 i)
  show ?case
  proof (cases "i = 1")
    case True
    then show ?thesis by (simp add: bit_length.simps)
  next
    case False
    with 1 have i: "1 < i" and IH: "2 ^ (bit_length (i div 2) - 1) \<le> i div 2" by simp_all
    then have "bit_length (i div 2) \<noteq> 0" by (subst bit_length.simps) simp
    then obtain k where k: "bit_length (i div 2) = Suc k" by (cases "bit_length (i div 2)") auto
    with IH have "2 * 2 ^ k \<le> i" by simp
    with i k show ?thesis by (subst bit_length.simps) simp
  qed
qed

lemma range_bits:
  assumes "0 \<le> first" and "first \<le> final" and "nbits = range_bits first final"
  shows "nbits \<le> 32" and "first mod 2 ^ nbits = 0" and "first + 2 ^ nbits \<le> final + 1"
proof -
  have z: "2 ^ righthand_zero_bits first 32 dvd first"
    using power_ctz_dvd [of first] le_imp_power_dvd [of "min 32 (ctz first)" "ctz first" "2 :: int"]
    by (simp add: righthand_zero_bits_def) (meson dvd_trans min.cobounded2)
  have le: "nbits \<le> righthand_zero_bits first 32" "nbits \<le> bit_length (final - first + 1) - 1"
    using assms(3) by (simp_all add: range_bits_def)
  show "nbits \<le> 32" using le(1) by (simp add: righthand_zero_bits_def split: if_splits)
  have "(2 :: int) ^ nbits dvd 2 ^ righthand_zero_bits first 32"
    by (intro le_imp_power_dvd le)
  with z show "first mod 2 ^ nbits = 0" by (metis dvd_imp_mod_0 dvd_trans)
  have "(2 :: int) ^ nbits \<le> 2 ^ (bit_length (final - first + 1) - 1)"
    using le(2) by (intro power_increasing) simp_all
  also have "\<dots> \<le> final - first + 1" using assms by (intro bit_length_power) simp
  finally show "first + 2 ^ nbits \<le> final + 1" by simp
qed

lemma covered_simps [simp]:
  "covered {} = {}" "covered (insert n ns) = net_addrs n \<union> covered ns" "covered (A \<union> B) = covered A \<union> covered B"
  by (auto simp: covered_def)

lemma range_loop_covers:
  "0 \<le> first \<Longrightarrow> final \<le> ALL_ONES \<Longrightarrow>
     (\<forall>n \<in> set (range_loop first final). valid_net n) \<and> covered (set (range_loop first final)) = {first..final}"
proof (induction first final rule: range_loop.induct)
  case (1 first final)
  show ?case
  proof (cases "final < first")
    case True
    then show ?thesis by (simp add: range_loop.simps)
  next
    case False
    define k where "k = range_bits first final"
    have le: "first \<le> final" using False by simp
    note b = range_bits [OF \<open>0 \<le> first\<close> le k_def]
    have n: "valid_net (first, 32 - k)" "net_addrs (first, 32 - k) = {first ..< first + 2 ^ k}"
      using b 1 False by (simp_all add: valid_net_def net_addrs_def block_def)
    have interval: "{first..final} = {first ..< first + w} \<union> {first + w .. final}" if "0 < w" "first + w \<le> final + 1" for w
      using that by auto
    have split: "{first..final} = {first ..< first + 2 ^ k} \<union> {first + 2 ^ k .. final}"
      using b(3) by (intro interval) simp_all
    show ?thesis
    proof (cases "first + 2 ^ k - 1 = ALL_ONES")
      case True
      then have "range_loop first final = [(first, 32 - k)]"
        using False by (subst range_loop.simps) (simp add: k_def Let_def)
      moreover have "{first + 2 ^ k .. final} = {}" using True 1 by simp
      ultimately show ?thesis using n split by simp
    next
      case go: False
      then have "range_loop first final = (first, 32 - k) # range_loop (first + 2 ^ k) final"
        using False by (subst range_loop.simps) (simp add: k_def Let_def)
      moreover have "(\<forall>n \<in> set (range_loop (first + 2 ^ k) final). valid_net n)
          \<and> covered (set (range_loop (first + 2 ^ k) final)) = {first + 2 ^ k .. final}"
        using 1 False go by (simp add: k_def)
      ultimately show ?thesis using n split by simp
    qed
  qed
qed

lemma address_runs_cover:
  "sorted_wrt (<) (prev # xs) \<Longrightarrow> first \<le> prev \<Longrightarrow>
     (\<Union>r \<in> set (address_runs first prev xs). {fst r..snd r}) = {first..prev} \<union> set xs"
proof (induction first prev xs rule: address_runs.induct)
  case (2 first prev x xs)
  show ?case
  proof (cases "x \<noteq> prev + 1")
    case True
    with 2 show ?thesis by simp
  next
    case False
    then have "{first..x} = insert x {first..prev}" using 2 by auto
    with 2 False show ?thesis by simp
  qed
qed simp

lemma address_runs_ends:
  "r \<in> set (address_runs first prev xs) \<Longrightarrow> fst r \<in> insert first (set xs) \<and> snd r \<in> insert prev (set xs)"
  by (induction first prev xs rule: address_runs.induct) (auto split: if_splits)

lemma find_ranges_cover:
  "sorted_wrt (<) xs \<Longrightarrow> (\<Union>r \<in> set (find_ranges xs). {fst r..snd r}) = set xs"
  using address_runs_cover [of "hd xs" "tl xs" "hd xs"] by (cases xs) (simp_all add: find_ranges_def)

lemma find_ranges_ends: "r \<in> set (find_ranges xs) \<Longrightarrow> fst r \<in> set xs \<and> snd r \<in> set xs"
  using address_runs_ends [of r "hd xs" "hd xs" "tl xs"] by (cases xs) (auto simp: find_ranges_def)

section \<open>The merging loop\<close>

text \<open>What holds when the networks \<open>seen\<close> were popped: a network waits in the dictionary under its
  supernet, or the supernet was pushed.\<close>

definition waits :: "net set \<Rightarrow> net list \<Rightarrow> (net \<times> net) list \<Rightarrow> net \<Rightarrow> bool" where
  "waits seen ns d n \<longleftrightarrow> map_of d (supernet n) = Some n \<or> supernet n \<in> set ns
     \<or> supernet n \<in> seen \<and> supernet n \<noteq> n"

definition merge_inv :: "int set \<Rightarrow> net set \<Rightarrow> net list \<Rightarrow> (net \<times> net) list \<Rightarrow> bool" where
  "merge_inv U seen ns d \<longleftrightarrow>
     (\<forall>n \<in> seen \<union> set ns. valid_net n) \<and> covered (seen \<union> set ns) = U \<and> distinct (map fst d)
     \<and> (\<forall>k v. map_of d k = Some v \<longrightarrow> supernet v = k \<and> v \<in> seen)
     \<and> (\<forall>n \<in> seen. waits seen ns d n)"

lemma merge_invD:
  assumes "merge_inv U seen ns d"
  shows "n \<in> seen \<Longrightarrow> valid_net n" "n \<in> set ns \<Longrightarrow> valid_net n" "covered seen \<union> covered (set ns) = U"
    "distinct (map fst d)" "map_of d k = Some v \<Longrightarrow> supernet v = k" "map_of d k = Some v \<Longrightarrow> v \<in> seen"
    "n \<in> seen \<Longrightarrow> waits seen ns d n"
  using assms unfolding merge_inv_def by (blast, blast, simp, simp, blast, blast, blast)

lemma waits_mono:
  assumes "waits seen (n # ns) d m" and "set ns \<subseteq> set ns'" and "waits (insert n seen) ns' d' n"
    and "map_of d (supernet m) = Some m \<Longrightarrow> map_of d' (supernet m) = Some m \<or> supernet m \<in> set ns'"
  shows "waits (insert n seen) ns' d' m"
  using assms by (cases "m = n") (auto simp: waits_def)

lemma merge_step:
  assumes inv: "merge_inv U seen (n # ns) d" and sub: "set ns \<subseteq> set ns'"
    and valid: "\<And>m. m \<in> set ns' \<Longrightarrow> valid_net m" and cov: "covered (insert n seen) \<union> covered (set ns') = U"
    and dict: "distinct (map fst d')" "\<And>k v. map_of d' k = Some v \<Longrightarrow> supernet v = k \<and> v \<in> insert n seen"
    and self: "waits (insert n seen) ns' d' n"
    and kept: "\<And>m. m \<in> seen \<Longrightarrow> map_of d (supernet m) = Some m \<Longrightarrow>
      map_of d' (supernet m) = Some m \<or> supernet m \<in> set ns'"
  shows "merge_inv U (insert n seen) ns' d'"
proof -
  have "waits (insert n seen) ns' d' m" if "m \<in> insert n seen" for m
  proof (cases "m = n")
    case False
    with that have "m \<in> seen" by simp
    then show ?thesis by (intro waits_mono [OF merge_invD(7) [OF inv] sub self] kept)
  qed (simp add: self)
  moreover have "valid_net m" if "m \<in> insert n seen \<union> set ns'" for m
    using that valid merge_invD(1) [OF inv] merge_invD(2) [OF inv list.set_intros(1)] by blast
  ultimately show ?thesis
    unfolding merge_inv_def using cov dict by (intro conjI ballI allI impI) (simp_all del: map_of_eq_Some_iff add: Un_assoc)
qed

lemma merge_loop_inv: "merge_inv U seen ns d \<Longrightarrow> \<exists>seen'. merge_inv U seen' [] (merge_loop ns d)"
proof (induction ns d arbitrary: seen rule: merge_loop.induct)
  case (2 n ns d)
  let ?seen = "insert n seen"
  note inv = merge_invD [OF 2(4)]
  have n: "valid_net n" using inv(2) by simp
  show ?case
  proof (cases "map_of d (supernet n)")
    case None
    have "merge_inv U ?seen ns (AList.update (supernet n) n d)"
      using 2(4)
    proof (rule merge_step)
      show "covered ?seen \<union> covered (set ns) = U" using inv(3) by auto
      show "waits ?seen ns (AList.update (supernet n) n d) n" by (simp add: waits_def update_conv')
      show "map_of (AList.update (supernet n) n d) (supernet m) = Some m \<or> supernet m \<in> set ns"
        if "map_of d (supernet m) = Some m" for m
        using that None by (auto simp: update_conv')
      show "supernet v = k \<and> v \<in> ?seen" if "map_of (AList.update (supernet n) n d) k = Some v" for k v
        using that inv(5,6) by (auto simp: update_conv' split: if_splits)
      show "distinct (map fst (AList.update (supernet n) n d))" by (rule distinct_update [OF inv(4)])
    qed (use inv(2) in auto)
    with 2(1) None show ?thesis by simp
  next
    case (Some old)
    then have old: "supernet old = supernet n" "old \<in> seen" "valid_net old"
      using inv(1,5,6) by auto
    show ?thesis
    proof (cases "old = n")
      case True
      have "merge_inv U ?seen ns d"
        using 2(4)
      proof (rule merge_step)
        show "waits ?seen ns d n" using Some True by (simp add: waits_def)
        show "covered ?seen \<union> covered (set ns) = U" using inv(3) by auto
        show "supernet v = k \<and> v \<in> ?seen" if "map_of d k = Some v" for k v
          using that inv(5,6) by blast
        show "valid_net m" if "m \<in> set ns" for m using inv(2) that by simp
      qed (simp_all add: inv(4))
      moreover have "merge_loop (n # ns) d = merge_loop ns d" using Some True by simp
      ultimately show ?thesis using 2(3) [OF Some] True by auto
    next
      case False
      have "net_addrs (supernet n) = net_addrs n \<union> net_addrs old" using n old False by (intro halves) auto
      moreover have "net_addrs old \<subseteq> covered seen" using old by (auto simp: covered_def)
      ultimately have cov: "covered ?seen \<union> covered (set (supernet n # ns)) = U"
        using inv(3) by auto
      have "merge_inv U ?seen (supernet n # ns) (AList.delete (supernet n) d)"
        using 2(4)
      proof (rule merge_step)
        show "map_of (AList.delete (supernet n) d) (supernet m) = Some m \<or> supernet m \<in> set (supernet n # ns)"
          if "map_of d (supernet m) = Some m" for m
          using that by (auto simp: delete_conv')
        show "supernet v = k \<and> v \<in> ?seen" if "map_of (AList.delete (supernet n) d) k = Some v" for k v
          using that inv(5,6) by (auto simp: delete_conv' split: if_splits)
        show "valid_net m" if "m \<in> set (supernet n # ns)" for m
          using that inv(2) supernet_valid [OF n] by (metis list.set_intros(2) set_ConsD)
        show "waits ?seen (supernet n # ns) (AList.delete (supernet n) d) n" by (simp add: waits_def)
        show "distinct (map fst (AList.delete (supernet n) d))" by (rule distinct_delete [OF inv(4)])
      qed (use cov in auto)
      with 2(2) Some False show ?thesis by simp
    qed
  qed
qed auto

section \<open>The result\<close>

definition max_blocks :: "int set \<Rightarrow> net set" where
  "max_blocks U = {n. valid_net n \<and> net_addrs n \<subseteq> U
     \<and> (\<forall>m. valid_net m \<and> net_addrs m \<subseteq> U \<and> net_addrs n \<subseteq> net_addrs m \<longrightarrow> m = n)}"

text \<open>Every block inside the covered set lies inside one of the networks seen.\<close>

lemma block_in_seen:
  assumes "merge_inv U seen [] d" and "valid_net n" and "net_addrs n \<subseteq> U"
  shows "\<exists>m \<in> seen. net_addrs n \<subseteq> net_addrs m"
  using assms(2,3)
proof (induction "32 - snd n" arbitrary: n)
  case 0
  then have "snd n = 32" by (simp add: valid_net_def)
  then have n: "net_addrs n = {fst n}" by (auto simp: net_addrs_def)
  moreover have "covered seen = U" using merge_invD(3) [OF assms(1)] by simp
  ultimately show ?case using 0(3) by (auto simp: covered_def)
next
  case (Suc k)
  let ?p = "Suc (snd n)"
  define l where "l = (fst n, ?p)"
  define r where "r = (fst n + block ?p, ?p)"
  have p: "?p \<le> 32" "block (snd n) = 2 * block ?p" using Suc(2) block_step [of ?p] by simp_all
  have "2 * block ?p dvd fst n" using Suc(3) p by (simp add: valid_net_def mod_0_imp_dvd)
  then obtain q where q: "fst n = 2 * block ?p * q" by (rule dvdE)
  have bound: "fst n + block ?p \<le> ALL_ONES"
  proof -
    have "block (snd n) dvd ALL_ONES + 1"
      using p(1) unfolding block_0 [symmetric] block_def by (intro le_imp_power_dvd) simp
    then obtain t where t: "ALL_ONES + 1 = 2 * block ?p * t" using p(2) by (auto elim: dvdE)
    have "fst n < ALL_ONES + 1" using Suc(3) by (simp add: valid_net_def)
    then have "q < t" unfolding q t by simp
    then have "2 * block ?p * (q + 1) \<le> 2 * block ?p * t" by (intro mult_left_mono) simp_all
    then have "fst n + 2 * block ?p \<le> ALL_ONES + 1" unfolding q t by (simp add: algebra_simps)
    then show ?thesis using block_pos [of ?p] by linarith
  qed
  have valid: "valid_net l" "valid_net r"
  proof -
    have "block ?p dvd fst n" unfolding q by simp
    with Suc(3) p(1) bound show "valid_net l" "valid_net r" by (simp_all add: valid_net_def l_def r_def mod_eq_0_iff_dvd)
  qed
  have lr: "net_addrs n = net_addrs l \<union> net_addrs r"
    using p block_pos [of ?p] by (auto simp: net_addrs_def l_def r_def)
  have super: "supernet l = n" "supernet r = n"
  proof -
    have "(fst n + block ?p) div (2 * block ?p) = q"
      using block_pos [of ?p] unfolding q by (intro int_div_pos_eq [where r = "block ?p"]) auto
    then show "supernet r = n" "supernet l = n"
      using p q by (simp_all add: supernet_def l_def r_def prod_eq_iff)
  qed
  have "l \<noteq> r" by (simp add: l_def r_def)
  have k: "k = 32 - snd l" "k = 32 - snd r" using Suc(2) by (simp_all add: l_def r_def)
  obtain a where a: "a \<in> seen" "net_addrs l \<subseteq> net_addrs a" using Suc(1) [OF k(1) valid(1)] Suc(4) lr by auto
  obtain b where b: "b \<in> seen" "net_addrs r \<subseteq> net_addrs b" using Suc(1) [OF k(2) valid(2)] Suc(4) lr by auto
  note seen = merge_invD(1) [OF assms(1)]
  show ?case
  proof (cases "a = l \<and> b = r")
    case False
    then have "net_addrs n \<subseteq> net_addrs a \<or> net_addrs n \<subseteq> net_addrs b"
      using supernet_least [OF valid(1) seen [OF a(1)] a(2)] supernet_least [OF valid(2) seen [OF b(1)] b(2)] super
      by metis
    with a b show ?thesis by blast
  next
    case True
    have "waits seen [] d l" "waits seen [] d r" using merge_invD(7) [OF assms(1)] a b True by blast+
    with super \<open>l \<noteq> r\<close> have "n \<in> seen" by (auto simp: waits_def)
    then show ?thesis by blast
  qed
qed

lemma max_block_above:
  assumes "valid_net n" and "net_addrs n \<subseteq> U"
  shows "\<exists>m \<in> max_blocks U. net_addrs n \<subseteq> net_addrs m"
proof -
  define above where "above m \<longleftrightarrow> valid_net m \<and> net_addrs m \<subseteq> U \<and> net_addrs n \<subseteq> net_addrs m" for m
  have "above n" using assms by (simp add: above_def)
  from ex_has_least_nat [of above, OF this, of snd]
  obtain m where m: "above m" and least: "\<And>k. above k \<Longrightarrow> snd m \<le> snd k" by blast
  have "k = m" if "valid_net k" "net_addrs k \<subseteq> U" "net_addrs m \<subseteq> net_addrs k" for k
  proof -
    have "above k" using that m unfolding above_def by blast
    then have "snd m \<le> snd k" by (rule least)
    moreover have "valid_net m" using m by (simp add: above_def)
    moreover have "fst m \<in> net_addrs k" using that(3) start_in by blast
    ultimately have "net_addrs k \<subseteq> net_addrs m"
      using that(1) by (intro subset_of_member [OF _ _ _ _ start_in])
    with that(3) \<open>valid_net m\<close> show ?thesis using net_eqI [OF that(1)] by blast
  qed
  with m show ?thesis unfolding max_blocks_def above_def by blast
qed

lemma max_block_stored:
  assumes "merge_inv U seen [] d" and "n \<in> max_blocks U"
  shows "map_of d (supernet n) = Some n"
proof -
  have n: "valid_net n" "net_addrs n \<subseteq> U"
    and top: "\<And>m. valid_net m \<Longrightarrow> net_addrs m \<subseteq> U \<Longrightarrow> net_addrs n \<subseteq> net_addrs m \<Longrightarrow> m = n"
    using assms(2) unfolding max_blocks_def by blast+
  note inv = merge_invD [OF assms(1)]
  have in_U: "m \<in> seen \<Longrightarrow> net_addrs m \<subseteq> U" for m using inv(3) by (auto simp: covered_def)
  obtain m where "m \<in> seen" "net_addrs n \<subseteq> net_addrs m" using block_in_seen [OF assms(1) n] by blast
  with top inv(1) in_U have "n \<in> seen" by metis
  with inv(7) have "waits seen [] d n" by blast
  moreover have "supernet n \<in> seen \<Longrightarrow> supernet n = n"
    using top supernet_valid [OF n(1)] supernet_contains [OF n(1)] in_U by blast
  ultimately show ?thesis by (auto simp: waits_def)
qed

lemma subsumed_iff: "m \<le> n \<Longrightarrow> net_last n \<le> net_last m \<longleftrightarrow> net_addrs n \<subseteq> net_addrs m"
  using block_pos [of "snd n"]
  by (cases m; cases n) (auto simp: net_last_def net_addrs_def less_eq_prod_def)

lemma after_not_above:
  assumes "valid_net n" "valid_net m" "n < m" 
  shows "\<not> net_addrs n \<subseteq> net_addrs m"
proof
  assume sub: "net_addrs n \<subseteq> net_addrs m"
  then have "fst m \<le> fst n" using start_in [of n] by (auto simp: net_addrs_def)
  moreover have "snd m \<le> snd n" using sub assms by (intro subset_prefix) (auto simp: valid_net_def)
  ultimately show False using assms(3) by (auto simp: less_prod_def)
qed

lemma between:
  assumes "valid_net m" "valid_net n" "valid_net k" "m \<le> n" "n < k" "net_addrs k \<subseteq> net_addrs m"
    "\<not> net_addrs n \<subseteq> net_addrs m"
  shows "net_addrs k \<subseteq> net_addrs n"
proof -
  have "fst k \<in> net_addrs m" using assms(6) start_in by blast
  then have "fst n \<in> net_addrs m" using assms(4,5) by (auto simp: net_addrs_def less_eq_prod_def less_prod_def)
  then have "net_addrs n \<subseteq> net_addrs m \<or> net_addrs m \<subseteq> net_addrs n"
    using assms(1,2) start_in by (intro laminar) auto
  with assms show ?thesis by blast
qed

lemma skip_subsumed_some:
  "sorted_wrt (<) ns \<Longrightarrow> \<forall>n \<in> set ns. valid_net n \<and> m \<le> n \<Longrightarrow> valid_net m \<Longrightarrow>
     set (skip_subsumed (Some m) ns) =
       {n \<in> set ns. \<not> net_addrs n \<subseteq> net_addrs m \<and> (\<forall>k \<in> set ns. net_addrs n \<subseteq> net_addrs k \<longrightarrow> k = n)}"
proof (induction ns arbitrary: m)
  case (Cons n ns)
  have le: "m \<le> n" and val: "valid_net n" "\<And>k. k \<in> set ns \<Longrightarrow> valid_net k" and less: "\<And>k. k \<in> set ns \<Longrightarrow> n < k"
    using Cons.prems by auto
  show ?case
  proof (cases "net_addrs n \<subseteq> net_addrs m")
    case True
    have "set (skip_subsumed (Some m) ns) =
        {k \<in> set ns. \<not> net_addrs k \<subseteq> net_addrs m \<and> (\<forall>j \<in> set ns. net_addrs k \<subseteq> net_addrs j \<longrightarrow> j = k)}"
      using Cons.prems by (intro Cons.IH) auto
    with True subsumed_iff [OF le] show ?thesis by auto
  next
    case False
    have "set (skip_subsumed (Some n) ns) =
        {k \<in> set ns. \<not> net_addrs k \<subseteq> net_addrs n \<and> (\<forall>j \<in> set ns. net_addrs k \<subseteq> net_addrs j \<longrightarrow> j = k)}"
      using Cons.prems less val by (intro Cons.IH) (auto intro: less_imp_le)
    moreover have "\<not> net_addrs n \<subseteq> net_addrs k" if "k \<in> set ns" for k
      using after_not_above val less that by blast
    moreover have "\<not> net_addrs k \<subseteq> net_addrs m" if "k \<in> set ns" "\<not> net_addrs k \<subseteq> net_addrs n" for k
      using between [OF Cons.prems(3) val(1) val(2) le less] that False by blast
    moreover have "k \<noteq> n" if "k \<in> set ns" for k using less that by blast
    ultimately show ?thesis using False subsumed_iff [OF le] by (simp del: skip_subsumed.simps add: skip_subsumed.simps(2)) blast
  qed
qed simp

lemma skip_subsumed_none:
  assumes "sorted_wrt (<) ns" and "\<forall>n \<in> set ns. valid_net n"
  shows "set (skip_subsumed None ns) = {n \<in> set ns. \<forall>k \<in> set ns. net_addrs n \<subseteq> net_addrs k \<longrightarrow> k = n}"
proof (cases ns)
  case (Cons n rest)
  with assms have val: "valid_net n" "\<And>k. k \<in> set rest \<Longrightarrow> valid_net k" and less: "\<And>k. k \<in> set rest \<Longrightarrow> n < k"
    by auto
  have "set (skip_subsumed (Some n) rest) =
      {k \<in> set rest. \<not> net_addrs k \<subseteq> net_addrs n \<and> (\<forall>j \<in> set rest. net_addrs k \<subseteq> net_addrs j \<longrightarrow> j = k)}"
    using assms Cons less val by (intro skip_subsumed_some) (auto intro: less_imp_le)
  moreover have "\<not> net_addrs n \<subseteq> net_addrs k" if "k \<in> set rest" for k
    using after_not_above val less that by blast
  moreover have "k \<noteq> n" if "k \<in> set rest" for k using less that by blast
  ultimately show ?thesis unfolding Cons by simp blast
qed simp

lemma set_skip_subsumed: "set (skip_subsumed p ns) \<subseteq> set ns"
  by (induction p ns rule: skip_subsumed.induct) (auto split: option.splits)

lemma sorted_skip_subsumed: "sorted_wrt (<) ns \<Longrightarrow> sorted_wrt (<) (skip_subsumed p ns)"
proof (induction p ns rule: skip_subsumed.induct)
  case (2 p n ns)
  then show ?case using set_skip_subsumed [of _ ns] by (force split: option.splits)
qed simp

lemma sort_strict: "distinct xs \<Longrightarrow> sorted_wrt (<) (sort xs)"
  by (simp add: strict_sorted_iff)

lemma collapse_internal_blocks:
  assumes "\<forall>n \<in> set ns. valid_net n"
  shows "sorted_wrt (<) (collapse_internal ns) \<and> set (collapse_internal ns) = max_blocks (covered (set ns))"
proof -
  let ?U = "covered (set ns)"
  have "merge_inv ?U {} (rev ns) []" using assms by (simp add: merge_inv_def)
  then obtain seen where m: "merge_inv ?U seen [] (merge_loop (rev ns) [])" by (blast dest: merge_loop_inv)
  define d where "d = merge_loop (rev ns) []"
  note inv = merge_invD [OF m, folded d_def]
  have kv: "k = supernet v" if "(k, v) \<in> set d" for k v
    using inv(5) [of k v] inv(4) that by (simp add: map_of_is_SomeI)
  have "map fst d = map supernet (map snd d)" using kv by auto
  with inv(4) have "distinct (map supernet (map snd d))" by simp
  then have "distinct (map snd d)" by (simp only: distinct_map)
  then have sorted: "sorted_wrt (<) (sort (map snd d))" by (rule sort_strict)
  have stored: "v \<in> seen" if "v \<in> snd ` set d" for v
  proof -
    from that obtain k where "(k, v) \<in> set d" by auto
    with inv(4) have "map_of d k = Some v" by simp
    then show ?thesis by (rule inv(6))
  qed
  have in_U: "net_addrs v \<subseteq> ?U" if "v \<in> seen" for v using that inv(3) by (auto simp: covered_def)
  have maxed: "v \<in> snd ` set d" if "v \<in> max_blocks ?U" for v
    using max_block_stored [OF m that, folded d_def] by (force dest: map_of_SomeD)
  have "\<forall>n \<in> set (sort (map snd d)). valid_net n"
    unfolding set_sort set_map using stored inv(1) by blast
  note kept = skip_subsumed_none [OF sorted this, unfolded set_sort set_map]
  have "set (skip_subsumed None (sort (map snd d))) = max_blocks ?U"
  proof (intro equalityI subsetI)
    fix n assume "n \<in> set (skip_subsumed None (sort (map snd d)))"
    then have n: "n \<in> snd ` set d" and top: "\<And>k. k \<in> snd ` set d \<Longrightarrow> net_addrs n \<subseteq> net_addrs k \<Longrightarrow> k = n"
      unfolding kept by blast+
    have val: "valid_net n" "net_addrs n \<subseteq> ?U" using n stored inv(1) in_U by blast+
    obtain m where "m \<in> max_blocks ?U" "net_addrs n \<subseteq> net_addrs m" using max_block_above [OF val] by blast
    with top maxed show "n \<in> max_blocks ?U" by metis
  next
    fix n assume n: "n \<in> max_blocks ?U"
    have "k = n" if "k \<in> snd ` set d" "net_addrs n \<subseteq> net_addrs k" for k
      using n that stored inv(1) in_U unfolding max_blocks_def by blast
    with n maxed show "n \<in> set (skip_subsumed None (sort (map snd d)))" unfolding kept by blast
  qed
  then show ?thesis
    using sorted_skip_subsumed [OF sorted] by (simp add: collapse_internal_def d_def)
qed

text \<open>The single addresses, collapsed through their ranges, and the other networks.\<close>

lemma range_of_ips:
  assumes "\<forall>n \<in> set ns. valid_net n"
    and "ips = sort (remdups (map fst (filter (\<lambda>n. snd n = 32) ns)))"
    and "addrs = concat (map (\<lambda>(first, final). range_loop first final) (find_ranges ips))"
  shows "\<forall>n \<in> set addrs. valid_net n"
    and "covered (set addrs) = covered {n \<in> set ns. snd n = 32}"
proof -
  have sorted: "sorted_wrt (<) ips" unfolding assms(2) by (intro sort_strict) simp
  have range: "0 \<le> i \<and> i \<le> ALL_ONES" if "i \<in> set ips" for i
    using that assms(1) unfolding assms(2) by (auto simp: valid_net_def)
  have loops: "(\<forall>n \<in> set (range_loop (fst r) (snd r)). valid_net n)
      \<and> covered (set (range_loop (fst r) (snd r))) = {fst r..snd r}" if "r \<in> set (find_ranges ips)" for r
    using range find_ranges_ends [OF that] by (intro range_loop_covers) auto
  show "\<forall>n \<in> set addrs. valid_net n"
    unfolding assms(3) using loops by (fastforce simp: case_prod_unfold)
  have "covered (set addrs) = (\<Union>r \<in> set (find_ranges ips). covered (set (range_loop (fst r) (snd r))))"
    unfolding assms(3) by (simp add: covered_def case_prod_unfold)
  also have "\<dots> = set ips" using loops find_ranges_cover [OF sorted] by simp
  also have "\<dots> = covered {n \<in> set ns. snd n = 32}"
  proof -
    have "net_addrs n = {fst n}" if "snd n = 32" for n using that by (auto simp: net_addrs_def)
    then have "covered {n \<in> set ns. snd n = 32} = fst ` {n \<in> set ns. snd n = 32}" unfolding covered_def by blast
    then show ?thesis unfolding assms(2) set_sort set_remdups set_map set_filter by (rule sym)
  qed
  finally show "covered (set addrs) = covered {n \<in> set ns. snd n = 32}" .
qed

lemma collapse_addresses_blocks:
  assumes "\<forall>n \<in> set ns. valid_net n"
  shows "sorted_wrt (<) (collapse_addresses ns) \<and> set (collapse_addresses ns) = max_blocks (covered (set ns))"
proof -
  define ips where "ips = sort (remdups (map fst (filter (\<lambda>n. snd n = 32) ns)))"
  define addrs where "addrs = concat (map (\<lambda>(first, final). range_loop first final) (find_ranges ips))"
  define nets where "nets = filter (\<lambda>n. snd n \<noteq> 32) ns"
  note ranges = range_of_ips [OF assms ips_def addrs_def]
  have "covered (set (addrs @ nets)) = covered ({n \<in> set ns. snd n = 32} \<union> {n \<in> set ns. snd n \<noteq> 32})"
    using ranges(2) by (simp add: nets_def)
  also have "{n \<in> set ns. snd n = 32} \<union> {n \<in> set ns. snd n \<noteq> 32} = set ns" by blast
  finally have "covered (set (addrs @ nets)) = covered (set ns)" .
  moreover have "\<forall>n \<in> set (addrs @ nets). valid_net n"
    using ranges(1) assms unfolding nets_def set_append set_filter by blast
  ultimately show ?thesis
    using collapse_internal_blocks [of "addrs @ nets"]
    by (simp add: collapse_addresses_def Let_def ips_def addrs_def nets_def)
qed

lemma finite_max_blocks:
  assumes "\<forall>n \<in> set ns. valid_net n"
  shows "finite (max_blocks (covered (set ns)))"
  using collapse_addresses_blocks [OF assms] finite_set by metis

text \<open>The specification: the sorted list of the maximal blocks.\<close>

theorem collapse_addresses_spec:
  assumes "\<forall>n \<in> set ns. valid_net n"
  shows "collapse_addresses ns = sorted_list_of_set (max_blocks (covered (set ns)))"
  using collapse_addresses_blocks [OF assms] finite_max_blocks [OF assms]
  by (intro strict_sorted_equal) simp_all

lemma covered_max_blocks:
  assumes "\<forall>n \<in> set ns. valid_net n"
  shows "covered (max_blocks (covered (set ns))) = covered (set ns)"
proof
  show "covered (max_blocks (covered (set ns))) \<subseteq> covered (set ns)"
    by (auto simp: covered_def max_blocks_def)
  show "covered (set ns) \<subseteq> covered (max_blocks (covered (set ns)))"
  proof
    fix x assume "x \<in> covered (set ns)"
    then obtain n where "n \<in> set ns" "x \<in> net_addrs n" by (auto simp: covered_def)
    moreover from this assms have "valid_net n" "net_addrs n \<subseteq> covered (set ns)" by (auto simp: covered_def)
    ultimately show "x \<in> covered (max_blocks (covered (set ns)))"
      using max_block_above [of n "covered (set ns)"] unfolding covered_def by blast
  qed
qed

corollary collapse_eq_iff:
  assumes "\<forall>n \<in> set ns. valid_net n" and "\<forall>n \<in> set ms. valid_net n"
  shows "collapse_addresses ns = collapse_addresses ms \<longleftrightarrow> covered (set ns) = covered (set ms)"
  using assms collapse_addresses_blocks [of ns] collapse_addresses_blocks [of ms]
    covered_max_blocks [of ns] covered_max_blocks [of ms] collapse_addresses_spec [of ns] collapse_addresses_spec [of ms]
  by metis

text \<open>Collapsing never gives more networks than it was given: every maximal block holds one of them.\<close>

lemma max_block_holds:
  assumes "\<forall>n \<in> set ns. valid_net n" and "b \<in> max_blocks (covered (set ns))"
  shows "\<exists>n \<in> set ns. net_addrs n \<subseteq> net_addrs b"
proof -
  have b: "valid_net b" "net_addrs b \<subseteq> covered (set ns)"
    and top: "\<And>m. valid_net m \<Longrightarrow> net_addrs m \<subseteq> covered (set ns) \<Longrightarrow> net_addrs b \<subseteq> net_addrs m \<Longrightarrow> m = b"
    using assms(2) unfolding max_blocks_def by blast+
  then obtain n where n: "n \<in> set ns" "fst b \<in> net_addrs n"
    using start_in [of b] unfolding covered_def by blast
  then have "net_addrs b \<subseteq> net_addrs n \<or> net_addrs n \<subseteq> net_addrs b"
    using assms(1) b(1) start_in by (intro laminar) auto
  moreover have "net_addrs n \<subseteq> covered (set ns)" using n(1) unfolding covered_def by blast
  ultimately show ?thesis using n(1) top assms(1) by blast
qed

lemma max_blocks_disjoint:
  assumes "a \<in> max_blocks U" "b \<in> max_blocks U" "x \<in> net_addrs a" "x \<in> net_addrs b"
  shows "a = b"
proof -
  have ab: "valid_net a" "valid_net b" using assms(1,2) by (simp_all add: max_blocks_def)
  from laminar [OF ab assms(3,4)] assms(1,2) show ?thesis unfolding max_blocks_def by blast
qed

lemma length_collapse:
  assumes "\<forall>n \<in> set ns. valid_net n"
  shows "length (collapse_addresses ns) \<le> length ns"
proof -
  let ?B = "max_blocks (covered (set ns))"
  obtain f where f: "\<And>b. b \<in> ?B \<Longrightarrow> f b \<in> set ns \<and> net_addrs (f b) \<subseteq> net_addrs b"
    using max_block_holds [OF assms] by metis
  have "inj_on f ?B"
  proof (rule inj_onI)
    fix a b assume ab: "a \<in> ?B" "b \<in> ?B" "f a = f b"
    have "fst (f a) \<in> net_addrs a" using f [OF ab(1)] start_in by blast
    moreover have "fst (f a) \<in> net_addrs b" using f [OF ab(2)] start_in ab(3) by (metis subsetD)
    ultimately show "a = b" by (rule max_blocks_disjoint [OF ab(1,2)])
  qed
  then have "card ?B \<le> card (set ns)" using f by (intro card_inj_on_le) auto
  also have "\<dots> \<le> length ns" by (rule card_length)
  finally show ?thesis by (simp add: collapse_addresses_spec [OF assms] finite_max_blocks [OF assms])
qed

lemma collapse_not_empty:
  assumes "\<forall>n \<in> set ns. valid_net n" and "ns \<noteq> []"
  shows "collapse_addresses ns \<noteq> []"
proof -
  have "net_addrs (hd ns) \<subseteq> covered (set ns)" using assms(2) hd_in_set [of ns] unfolding covered_def by blast
  moreover have "valid_net (hd ns)" using assms by simp
  ultimately have "max_blocks (covered (set ns)) \<noteq> {}" using max_block_above by blast
  then show ?thesis using collapse_addresses_blocks [OF assms(1)] by auto
qed

section \<open>The text of networks\<close>

lemma digits_no: "ascii_digit c \<Longrightarrow> c \<noteq> CHR ''.'' \<and> c \<noteq> CHR ''/'' \<and> c \<noteq> CHR 0x0A"
  by (auto simp: ascii_digit_def)

lemma str_nat_no: "CHR ''.'' \<notin> set (str_nat n)" "CHR ''/'' \<notin> set (str_nat n)" "CHR 0x0A \<notin> set (str_nat n)"
  using str_nat_digits [of n] digits_no by (auto simp: list_all_iff)

lemma ipv4_str_inject: "ip \<noteq> [] \<Longrightarrow> jp \<noteq> [] \<Longrightarrow> ipv4_str ip = ipv4_str jp \<Longrightarrow> ip = jp"
proof -
  assume ne: "ip \<noteq> []" "jp \<noteq> []" and eq: "ipv4_str ip = ipv4_str jp"
  have "split_on CHR ''.'' (ipv4_str xs) = map str_nat xs" if "xs \<noteq> []" for xs
    unfolding ipv4_str_def using that str_nat_no(1) by (intro split_by_join) auto
  with ne eq have "map str_nat ip = map str_nat jp" by metis
  then show "ip = jp" by (rule map_injective) (simp add: inj_def)
qed

lemma address_text_no: "CHR ''/'' \<notin> set (address_text x)" "CHR 0x0A \<notin> set (address_text x)"
proof -
  have "c \<notin> set (address_text x)" if "c \<noteq> CHR ''.''" "\<And>n. c \<notin> set (str_nat n)" for c
    using set_py_join [of "''.''" "map str_nat [nat (x div 16777216), nat (x div 65536 mod 256), nat (x div 256 mod 256), nat (x mod 256)]"] that
    unfolding address_text_def ipv4_str_def by auto
  then show "CHR ''/'' \<notin> set (address_text x)" "CHR 0x0A \<notin> set (address_text x)"
    using str_nat_no(2,3) by simp_all
qed

lemma address_text_inject:
  assumes "address_text x = address_text y" and "0 \<le> x" and "0 \<le> y"
  shows "x = y"
proof -
  from assms(1) have "[nat (x div 16777216), nat (x div 65536 mod 256), nat (x div 256 mod 256), nat (x mod 256)]
      = [nat (y div 16777216), nat (y div 65536 mod 256), nat (y div 256 mod 256), nat (y mod 256)]"
    unfolding address_text_def by (intro ipv4_str_inject) simp_all
  then have "x div 16777216 = y div 16777216" "x div 65536 mod 256 = y div 65536 mod 256"
    "x div 256 mod 256 = y div 256 mod 256" "x mod 256 = y mod 256"
    using assms(2,3) by (simp_all add: pos_imp_zdiv_nonneg_iff eq_nat_nat_iff)
  moreover have "z div 16777216 = z div 65536 div 256" "z div 65536 = z div 256 div 256" for z :: int
    by (simp_all flip: zdiv_zmult2_eq)
  ultimately show ?thesis by (metis div_mult_mod_eq)
qed

lemma net_text_inject:
  assumes "net_text n = net_text m" and "valid_net n" and "valid_net m"
  shows "n = m"
proof -
  have "split_on CHR ''/'' (net_text k) = [address_text (fst k), str_nat (snd k)]" for k
    using split_by_join [of "[address_text (fst k), str_nat (snd k)]" "CHR ''/''"] address_text_no str_nat_no
    by (simp add: net_text_def)
  with assms(1) have "address_text (fst n) = address_text (fst m)" "snd n = snd m" by (metis list.inject str_nat_inject)+
  with assms(2,3) address_text_inject show ?thesis by (simp add: prod_eq_iff valid_net_def)
qed

text \<open>The text that is digested, and what it determines.\<close>

definition nets_text :: "net list \<Rightarrow> string" where
  [py_defs]: "nets_text ns = py_join [CHR 0x0A] (map net_text ns)"

lemma nets_text_inject:
  assumes "nets_text ns = nets_text ms" and "ns \<noteq> []" and "ms \<noteq> []"
    and "\<forall>n \<in> set ns \<union> set ms. valid_net n"
  shows "ns = ms"
proof -
  have "split_on CHR 0x0A (nets_text ks) = map net_text ks" if "ks \<noteq> []" for ks
    unfolding nets_text_def using that address_text_no str_nat_no
    by (intro split_by_join) (auto simp: net_text_def)
  with assms(1-3) have "map net_text ns = map net_text ms" by metis
  then show ?thesis
    using assms(4) net_text_inject by (intro map_inj_on [where f = net_text]) (auto intro!: inj_onI)
qed

lemma collapsed_text_inject:
  assumes "\<forall>n \<in> set ns. valid_net n" "\<forall>n \<in> set ms. valid_net n" "ns \<noteq> []" "ms \<noteq> []"
  shows "nets_text (collapse_addresses ns) = nets_text (collapse_addresses ms)
    \<longleftrightarrow> covered (set ns) = covered (set ms)"
proof
  assume eq: "nets_text (collapse_addresses ns) = nets_text (collapse_addresses ms)"
  have "\<forall>n \<in> set (collapse_addresses ks). valid_net n" if "\<forall>n \<in> set ks. valid_net n" for ks
    using collapse_addresses_blocks [OF that] by (simp add: max_blocks_def)
  with assms collapse_not_empty have "collapse_addresses ns = collapse_addresses ms"
    by (intro nets_text_inject [OF eq]) auto
  then show "covered (set ns) = covered (set ms)" using collapse_eq_iff assms by blast
next
  assume "covered (set ns) = covered (set ms)"
  then have "collapse_addresses ns = collapse_addresses ms" using collapse_eq_iff assms by blast
  then show "nets_text (collapse_addresses ns) = nets_text (collapse_addresses ms)" by simp
qed

end
