(* ===== verification/Feed_Networks.thy ===== *)
theory Feed_Networks
  imports Networks_Facts Py_Json
begin

text \<open>
  The first half of \<open>banip_feed_proof.py\<close>: running a command and downloading a feed within
  bounds of time and size, reading the networks of a feed and of an nftables set, and the
  canonical digest of a list of networks.  SHA-256, the reading of float literals, the HTTPS
  library and the processes are parameters: a clock reading with the block that was read is one
  event of a loop, and a loop that never ends has the value \<open>None\<close>.
\<close>

abbreviation ProofError :: "string \<Rightarrow> py_exc" where
  "ProofError m \<equiv> ScriptError ''ProofError'' m"

abbreviation require_proof :: "bool \<Rightarrow> string \<Rightarrow> unit res" where
  "require_proof b m \<equiv> require b (ProofError m)"

section \<open>Constants\<close>

definition REGISTRY :: "(string \<times> pydict) list" where
  [py_defs]: "REGISTRY =
     [(''dshield'', [(''url_4'', PStr ''https://feeds.dshield.org/block.txt''), (''rule'', PStr ''feed 13''),
        (''chain'', PStr ''in'')]),
      (''feodo'', [(''url_4'', PStr ''https://feodotracker.abuse.ch/downloads/ipblocklist.txt''), (''rule'', PStr ''feed 1''),
        (''chain'', PStr ''inout'')])]"

definition in_registry :: "string \<Rightarrow> bool" where
  [py_defs]: "in_registry name \<longleftrightarrow> name \<in> fst ` set REGISTRY"

definition MAX_BYTES :: nat where [py_defs]: "MAX_BYTES = 1024 * 1024"
definition MAX_NETWORKS :: nat where [py_defs]: "MAX_NETWORKS = 5000"

section \<open>A bounded command\<close>

text \<open>One turn of the loop: the clock, and the block that was ready, if one was; the empty
  block is the end of the output.\<close>

type_synonym read_event = "rat \<times> string option"

partial_function (option) run_loop ::
  "(nat \<Rightarrow> read_event) \<Rightarrow> rat \<Rightarrow> nat \<Rightarrow> nat \<Rightarrow> string \<Rightarrow> string res option" where
  "run_loop ev deadline maximum n output =
     (if \<not> fst (ev n) < deadline then Some (Inl (ProofError ''command_timeout''))
      else (case snd (ev n) of
          None \<Rightarrow> run_loop ev deadline maximum (Suc n) output
        | Some chunk \<Rightarrow>
            (if chunk = [] then Some (Inr output)
             else if length (output @ chunk) \<le> maximum
               then run_loop ev deadline maximum (Suc n) (output @ chunk)
             else Some (Inl (ProofError ''command_output_limit'')))))"

record child_io =
  ch_start :: "unit res"
  ch_clock :: rat
  ch_events :: "nat \<Rightarrow> read_event"
  ch_code :: "int res"
  ch_alive :: bool
  ch_reap :: "unit res"

text \<open>The \<open>finally\<close> clause kills and reaps a child that still runs; its exception wins.\<close>

definition run_command :: "child_io \<Rightarrow> nat \<Rightarrow> rat \<Rightarrow> bool \<Rightarrow> string res option" where
  [py_defs]: "run_command io maximum timeout allow_missing = (case ch_start io of
       Inl e \<Rightarrow> Some (Inl e)
     | Inr u \<Rightarrow>
         map_option (\<lambda>r.
           let body = bindE r (\<lambda>output. bindE (ch_code io) (\<lambda>code.
             bindE (require_proof (code = 0 \<or> allow_missing \<and> code = 1) ''command_failed'') (\<lambda>_.
             Inr (if code = 1 then [] else output))))
           in if ch_alive io then bindE (ch_reap io) (\<lambda>_. body) else body)
         (run_loop (ch_events io) (fl (ch_clock io + timeout)) maximum 0 []))"

section \<open>A bounded download\<close>

record url_parts =
  url_scheme :: string
  url_host :: "string option"
  url_username :: "string option"
  url_password :: "string option"
  url_port :: "nat option res"

definition absent :: "string option \<Rightarrow> bool" where
  [py_defs]: "absent x \<longleftrightarrow> x = None \<or> x = Some []"

definition redirect_request :: "url_parts \<Rightarrow> unit res" where
  [py_defs]: "redirect_request u =
     (if url_scheme u = ''https'' \<and> url_host u \<in> {Some ''feeds.dshield.org'', Some ''feodotracker.abuse.ch''}
         \<and> absent (url_username u) \<and> absent (url_password u)
      then bindE (url_port u) (\<lambda>port. require_proof (port \<in> {None, Some 443}) ''unsafe_feed_redirect'')
      else Inl (ProofError ''unsafe_feed_redirect''))"

record response =
  rs_opened :: "unit res"
  rs_redirects :: "url_parts list"
  rs_clock :: rat
  rs_status :: int
  rs_length :: "string option"
  rs_events :: "nat \<Rightarrow> rat \<times> string res"

definition length_allowed :: "string option \<Rightarrow> bool res" where
  [py_defs]: "length_allowed header = (case header of
       None \<Rightarrow> Inr True
     | Some s \<Rightarrow>
         (if \<not> py_isdigit s then Inr False
          else if \<not> py_isdecimal s then Inl (ValueError ''invalid literal for int()'')
          else Inr (0 < nat_of_digits s \<and> nat_of_digits s \<le> MAX_BYTES)))"

partial_function (option) fetch_loop ::
  "(nat \<Rightarrow> rat \<times> string res) \<Rightarrow> rat \<Rightarrow> nat \<Rightarrow> string \<Rightarrow> string res option" where
  "fetch_loop ev deadline n data =
     (if \<not> fst (ev n) < deadline then Some (Inl (ProofError ''feed_download_timeout''))
      else (case snd (ev n) of
          Inl e \<Rightarrow> Some (Inl e)
        | Inr chunk \<Rightarrow>
            (if chunk = [] then Some (Inr data)
             else if length (data @ chunk) \<le> MAX_BYTES then fetch_loop ev deadline (Suc n) (data @ chunk)
             else Some (Inl (ProofError ''feed_size_limit'')))))"

definition fetch :: "response \<Rightarrow> string res option" where
  [py_defs]: "fetch r =
     (case bindE (foldE (\<lambda>u _. redirect_request u) (rs_redirects r) ()) (\<lambda>_. bindE (rs_opened r) (\<lambda>_.
        bindE (require_proof (rs_status r = 200) ''feed_http_status'') (\<lambda>_.
        bindE (length_allowed (rs_length r)) (\<lambda>ok. require_proof ok ''feed_size_limit'')))) of
        Inl e \<Rightarrow> Some (Inl e)
      | Inr u \<Rightarrow> fetch_loop (rs_events r) (fl (rs_clock r + 20)) 0 [])"

section \<open>The canonical digest\<close>

record canon =
  cn_sha :: string
  cn_count :: nat

definition canonical :: "(string \<Rightarrow> string) \<Rightarrow> net list \<Rightarrow> canon res" where
  [py_defs]: "canonical sha256 networks =
     bindE (require_proof (networks \<noteq> [] \<and> length networks \<le> MAX_NETWORKS) ''feed_record_limit'') (\<lambda>_.
     bindE (require_proof (list_all (\<lambda>n. 0 < snd n) networks) ''invalid_address_family'') (\<lambda>_.
     let normalized = collapse_addresses networks in
     Inr \<lparr>cn_sha = sha256 (nets_text normalized), cn_count = length normalized\<rparr>))"

section \<open>The networks of a feed\<close>

text \<open>The line of a feed, stripped: nothing for a comment, or the network it names.\<close>

definition dshield_network :: "string list \<Rightarrow> net res" where
  [py_defs]: "dshield_network parts =
     bindE (require_proof (3 \<le> length parts \<and> py_isdigit (parts ! 2)) ''feed_format_invalid'') (\<lambda>_.
     bindE (ipv4_address (parts ! 0)) (\<lambda>start. bindE (ipv4_address (parts ! 1)) (\<lambda>end'.
     let prefix = nat_of_digits (parts ! 2) in
     bindE (require_proof (16 \<le> prefix \<and> prefix \<le> 32) ''unsupported_prefix_size'') (\<lambda>_.
     bindE (ipv4_network True (address_text start @ ''/'' @ str_nat prefix)) (\<lambda>network.
     bindE (require_proof (net_last network = end') ''feed_range_mismatch'') (\<lambda>_. Inr network))))))"

definition plain_network :: "string list \<Rightarrow> net res" where
  [py_defs]: "plain_network parts =
     bindE (require_proof (length parts = 1) ''feed_format_invalid'') (\<lambda>_.
     bindE (ipv4_address (parts ! 0)) (\<lambda>address. ipv4_network True (address_text address @ ''/32'')))"

definition line_network :: "string \<Rightarrow> string \<Rightarrow> net option res" where
  [py_defs]: "line_network name raw =
     (let line = py_strip raw in
      if line = [] \<or> startswith line ''#'' then Inr None
      else bindE ((if name = ''dshield'' then dshield_network else plain_network) (split_ws line)) (\<lambda>network.
        bindE (require_proof (net_is_global network \<and> \<not> net_is_multicast network) ''nonpublic_feed_prefix'') (\<lambda>_.
        Inr (Some network))))"

definition feed_step :: "string \<Rightarrow> string \<Rightarrow> net list \<Rightarrow> net list res" where
  [py_defs]: "feed_step name raw networks = bindE (line_network name raw) (\<lambda>found. case found of
       None \<Rightarrow> Inr networks
     | Some network \<Rightarrow>
         bindE (require_proof (Suc (length networks) \<le> MAX_NETWORKS) ''feed_record_limit'') (\<lambda>_.
         Inr (networks @ [network])))"

definition feed_networks :: "string \<Rightarrow> string \<Rightarrow> net list res" where
  [py_defs]: "feed_networks name data =
     (if is_ascii data then foldE (feed_step name) (py_splitlines data) []
      else Inl (ValueError ''UnicodeDecodeError''))"

record feed_result =
  fr_canon :: canon
  fr_records :: nat
  fr_sha :: string

definition is_proof_error :: "py_exc \<Rightarrow> bool" where
  [py_defs]: "is_proof_error e \<longleftrightarrow> (case e of ScriptError c m \<Rightarrow> c = ''ProofError'' | _ \<Rightarrow> False)"

text \<open>\<open>except ValueError\<close>, which a \<open>ProofError\<close> is too.\<close>

definition is_value_error :: "py_exc \<Rightarrow> bool" where
  [py_defs]: "is_value_error e \<longleftrightarrow> (case e of ValueError m \<Rightarrow> True | _ \<Rightarrow> is_proof_error e)"

definition parse_feed :: "(string \<Rightarrow> string) \<Rightarrow> string \<Rightarrow> string \<Rightarrow> feed_result res" where
  [py_defs]: "parse_feed sha256 name data =
     bindE (require_proof (in_registry name \<and> 0 < length data \<and> length data \<le> MAX_BYTES) ''feed_size_limit'') (\<lambda>_.
     case bindE (feed_networks name data) (\<lambda>networks. bindE (canonical sha256 networks) (\<lambda>c.
         Inr \<lparr>fr_canon = c, fr_records = length networks, fr_sha = sha256 data\<rparr>)) of
       Inr r \<Rightarrow> Inr r
     | Inl e \<Rightarrow>
         (if is_proof_error e then Inl e
          else if is_value_error e \<or> e = TypeError then Inl (ProofError ''feed_format_invalid'')
          else Inl e))"

section \<open>The networks of an nftables set\<close>

text \<open>\<open>k in x\<close> and \<open>x[k]\<close> with a string \<open>k\<close>, on any value; \<open>set(x) == keys\<close>, for keys of
  more than one character.\<close>

fun substring :: "string \<Rightarrow> string \<Rightarrow> bool" where
  "substring k [] \<longleftrightarrow> k = []"
| "substring k (c # s) \<longleftrightarrow> startswith (c # s) k \<or> substring k s"

definition key_in :: "string \<Rightarrow> pyval \<Rightarrow> bool res" where
  [py_defs]: "key_in k x = (case x of
       PDict d \<Rightarrow> Inr (dhas d k)
     | PList xs \<Rightarrow> Inr (list_ex (\<lambda>y. py_eq y (PStr k)) xs)
     | PStr s \<Rightarrow> Inr (substring k s)
     | _ \<Rightarrow> Inl TypeError)"

definition py_item :: "pyval \<Rightarrow> string \<Rightarrow> pyval res" where
  [py_defs]: "py_item x k = (case x of PDict d \<Rightarrow> dindex d k | _ \<Rightarrow> Inl TypeError)"

definition unhashable :: "pyval \<Rightarrow> bool" where
  [py_defs]: "unhashable x \<longleftrightarrow> (case x of PList xs \<Rightarrow> True | PDict d \<Rightarrow> True | _ \<Rightarrow> False)"

definition set_is :: "pyval \<Rightarrow> string list \<Rightarrow> bool res" where
  [py_defs]: "set_is x ks = (case x of
       PDict d \<Rightarrow> Inr (keys_are d ks)
     | PList xs \<Rightarrow> if list_ex unhashable xs then Inl TypeError
         else Inr (list_all (\<lambda>y. case y of PStr s \<Rightarrow> s \<in> set ks | _ \<Rightarrow> False) xs \<and> list_all (\<lambda>k. PStr k \<in> set xs) ks)
     | PStr s \<Rightarrow> Inr False
     | _ \<Rightarrow> Inl TypeError)"

definition nft_wrapper :: "pyval \<Rightarrow> pyval res" where
  [py_defs]: "nft_wrapper element = (case element of
       PDict d \<Rightarrow>
         (if \<not> keys_are d [''elem''] then Inr element
          else (case dget d ''elem'' of
              PDict w \<Rightarrow>
                bindE (require_proof (dhas w ''val'' \<and> list_all (\<lambda>(k, v). k \<in> {''val'', ''counter''}) w) ''nft_element_invalid'')
                  (\<lambda>_. case dget_or w ''counter'' (PDict []) of
                     PDict counter \<Rightarrow>
                       bindE (require_proof (list_all (\<lambda>(k, v). k \<in> {''packets'', ''bytes''}
                           \<and> (case v of PInt i \<Rightarrow> 0 \<le> i | _ \<Rightarrow> False)) counter) ''nft_element_invalid'')
                         (\<lambda>_. Inr (dget w ''val''))
                   | _ \<Rightarrow> Inl (ProofError ''nft_element_invalid''))
            | _ \<Rightarrow> Inl (ProofError ''nft_element_invalid'')))
     | _ \<Rightarrow> Inr element)"

definition prefix_network :: "pyval \<Rightarrow> pyval \<Rightarrow> net list res" where
  [py_defs]: "prefix_network prefix len = (case len of
       PInt i \<Rightarrow> bindE (py_item prefix ''addr'') (\<lambda>a.
         bindE (ipv4_network True (py_str a @ ''/'' @ str_int i)) (\<lambda>n. Inr [n]))
     | _ \<Rightarrow> Inl (ProofError ''nft_element_invalid''))"

definition nft_prefix :: "pyval \<Rightarrow> net list res" where
  [py_defs]: "nft_prefix prefix = bindE (set_is prefix [''addr'', ''len'']) (\<lambda>ok.
     if ok then bindE (py_item prefix ''len'') (prefix_network prefix)
     else Inl (ProofError ''nft_element_invalid''))"

definition nft_range :: "pyval \<Rightarrow> net list res" where
  [py_defs]: "nft_range pair = (case pair of
       PList [PStr a, PStr b] \<Rightarrow> bindE (ipv4_address a) (\<lambda>first. bindE (ipv4_address b) (\<lambda>final.
         summarize_range first final))
     | _ \<Rightarrow> Inl (ProofError ''nft_element_invalid''))"

definition plain_element :: "pyval \<Rightarrow> net list res" where
  [py_defs]: "plain_element e = (case e of
       PStr s \<Rightarrow> bindE (ipv4_network False s) (\<lambda>n. Inr [n])
     | PDict d \<Rightarrow>
         (if keys_are d [''prefix''] then nft_prefix (dget d ''prefix'')
          else if keys_are d [''range''] then nft_range (dget d ''range'')
          else Inl (ProofError ''nft_element_invalid''))
     | _ \<Rightarrow> Inl (ProofError ''nft_element_invalid''))"

definition nft_networks :: "pyval \<Rightarrow> net list res" where
  [py_defs]: "nft_networks element = bindE (nft_wrapper element) plain_element"

definition nft_step :: "pyval \<Rightarrow> net list \<Rightarrow> net list res" where
  [py_defs]: "nft_step element networks = bindE (nft_networks element) (\<lambda>new.
     bindE (require_proof (length (networks @ new) \<le> MAX_NETWORKS) ''nft_element_limit'') (\<lambda>_.
     Inr (networks @ new)))"

definition nft_collect :: "pyval \<Rightarrow> pyval list \<Rightarrow> pyval list res" where
  [py_defs]: "nft_collect x sets = bindE (key_in ''set'' x) (\<lambda>found.
     if found then bindE (py_item x ''set'') (\<lambda>s. Inr (sets @ [s])) else Inr sets)"

text \<open>The conditions on the set, in order; a comparison is reached only when those before hold.\<close>

fun all_equal :: "pyval \<Rightarrow> (string \<times> string) list \<Rightarrow> bool res" where
  "all_equal x [] = Inr True"
| "all_equal x ((k, s) # rest) = bindE (py_item x k) (\<lambda>v. if v = PStr s then all_equal x rest else Inr False)"

definition nft_identity :: "string \<Rightarrow> pyval \<Rightarrow> bool res" where
  [py_defs]: "nft_identity name current =
     bindE (all_equal current [(''family'', ''inet''), (''table'', ''banIP''), (''name'', name @ ''.v4''),
       (''type'', ''ipv4_addr'')]) (\<lambda>same.
     if \<not> same then Inr False
     else bindE (py_item current ''flags'') (\<lambda>flags. set_is flags [''interval'']))"

definition nft_elements :: "(string \<Rightarrow> pyfloat) \<Rightarrow> string \<Rightarrow> string \<Rightarrow> pyval list res" where
  [py_defs]: "nft_elements float_of name data =
     bindE (require_proof (length data \<le> MAX_BYTES) ''nft_size_limit'') (\<lambda>_.
     bindE (json_loads_bytes float_of data) (\<lambda>v. bindE (py_item v ''nftables'') (\<lambda>tables.
     bindE (py_list_of tables) (\<lambda>items. bindE (foldE nft_collect items []) (\<lambda>sets.
     bindE (require_proof (length sets = 1) ''nft_set_identity'') (\<lambda>_.
     let current = hd sets in
     bindE (nft_identity name current) (\<lambda>ok.
     bindE (require_proof ok ''nft_set_identity'') (\<lambda>_.
     case dget_or (mapping_or_empty current) ''elem'' (PList []) of
       PList elements \<Rightarrow>
         bindE (require_proof (1 \<le> length elements \<and> length elements \<le> MAX_NETWORKS) ''nft_element_limit'') (\<lambda>_. Inr elements)
     | _ \<Rightarrow> Inl (ProofError ''nft_element_limit'')))))))))"

record nft_result =
  nr_canon :: canon
  nr_elements :: nat

definition nft_set :: "(string \<Rightarrow> string) \<Rightarrow> (string \<Rightarrow> pyfloat) \<Rightarrow> string \<Rightarrow> string \<Rightarrow> nft_result res" where
  [py_defs]: "nft_set sha256 float_of name data =
     bindE (nft_elements float_of name data) (\<lambda>elements. bindE (foldE nft_step elements []) (\<lambda>networks.
     bindE (canonical sha256 networks) (\<lambda>c. Inr \<lparr>nr_canon = c, nr_elements = length elements\<rparr>)))"

end
