(* ===== verification/Feed_Proof.thy ===== *)
theory Feed_Proof
  imports Feed_Networks Status_Common Atomic_File
begin

text \<open>
  The second half of \<open>banip_feed_proof.py\<close>: the configuration, a snapshot of the router's
  ban sets, the stored proof state and its check, the verification of a feed against two
  snapshots, the summary, and the command with its actions \<open>verify\<close>, \<open>refresh\<close> and
  \<open>status\<close>.  What \<open>lstat\<close> and \<open>read_text\<close> answer, the commands, the clock and the
  downloads are arguments; the stored state is a file of the model of \<open>Atomic_File\<close>.
\<close>

definition PROOF_SCOPE :: string where
  [py_defs]: "PROOF_SCOPE = ''independent_https_content_equals_active_nft_set''"
definition MAX_PROOF_AGE :: int where [py_defs]: "MAX_PROOF_AGE = 48 * 3600"
definition PROOF_STATE :: string where
  [py_defs]: "PROOF_STATE = ''/etc/homecluster-security/banip-proof-state.json''"
definition DEFINITIONS_PATH :: string where [py_defs]: "DEFINITIONS_PATH = ''/etc/banip/banip.feeds''"
definition CUSTOM_PATH :: string where [py_defs]: "CUSTOM_PATH = ''/etc/banip/banip.custom.feeds''"

section \<open>Values and clocks\<close>

text \<open>A clock reading is a float: its text and its value.\<close>

type_synonym clock = "string \<times> rat"

definition clock_value :: "clock \<Rightarrow> pyval" where
  [py_defs]: "clock_value now = PFloat (FFin (fst now) (snd now))"

definition number_of :: "pyval \<Rightarrow> rat option" where
  [py_defs]: "number_of v = (case v of PInt i \<Rightarrow> Some (of_int i) | PFloat (FFin r q) \<Rightarrow> Some q | _ \<Rightarrow> None)"

text \<open>An integer that no double can hold makes \<open>math.isfinite\<close> raise.\<close>

definition too_large :: "pyval \<Rightarrow> bool" where
  [py_defs]: "too_large v \<longleftrightarrow> (case v of PInt i \<Rightarrow> 2 ^ 1024 - 2 ^ 970 \<le> \<bar>i\<bar> | _ \<Rightarrow> False)"

definition in_time :: "pyval \<Rightarrow> rat \<Rightarrow> bool" where
  [py_defs]: "in_time v now \<longleftrightarrow> (case number_of v of
       None \<Rightarrow> False | Some q \<Rightarrow> 1600000000 \<le> q \<and> q \<le> fl (now + 300))"

definition epoch :: "pyval \<Rightarrow> rat \<Rightarrow> bool res" where
  [py_defs]: "epoch v now = (if too_large v then Inl OverflowError else Inr (in_time v now))"

definition py_get :: "pyval \<Rightarrow> string \<Rightarrow> pyval \<Rightarrow> pyval res" where
  [py_defs]: "py_get v k x = (case v of PDict d \<Rightarrow> Inr (dget_or d k x) | _ \<Rightarrow> Inl AttributeError)"

text \<open>A conjunction whose later members are looked at only when the earlier ones hold.\<close>

fun allE :: "bool res list \<Rightarrow> bool res" where
  "allE [] = Inr True"
| "allE (a # as) = bindE a (\<lambda>x. if x then allE as else Inr False)"

section \<open>Files\<close>

record bp_stat =
  bs_regular :: bool
  bs_directory :: bool
  bs_links :: nat
  bs_uid :: int
  bs_mode :: nat
  bs_size :: nat

record json_file =
  jf_lstat :: "bp_stat res"
  jf_text :: "string res"

definition read_json :: "(string \<Rightarrow> pyfloat) \<Rightarrow> int \<Rightarrow> json_file \<Rightarrow> nat \<Rightarrow> bool \<Rightarrow> pydict res" where
  [py_defs]: "read_json float_of uid f maximum private = bindE (jf_lstat f) (\<lambda>info.
     bindE (require_proof (bs_regular info \<and> bs_links info = 1) ''unsafe_json_file'') (\<lambda>_.
     bindE (require_proof (private \<longrightarrow> bs_uid info = uid \<and> bs_mode info = 384) ''nonprivate_json_file'') (\<lambda>_.
     bindE (require_proof (bs_size info \<le> maximum) ''json_size_limit'') (\<lambda>_.
     bindE (jf_text f) (\<lambda>t. bindE (json_loads float_of t) (\<lambda>v. case v of
         PDict d \<Rightarrow> Inr d | _ \<Rightarrow> Inl (ProofError ''invalid_json_object'')))))))"

definition private_directory :: "int \<Rightarrow> bp_stat res \<Rightarrow> unit res" where
  [py_defs]: "private_directory uid info = bindE info (\<lambda>i.
     require_proof (bs_directory i \<and> bs_uid i = uid \<and> bs_mode i = 448) ''unsafe_state_directory'')"

section \<open>Configuration\<close>

definition str_member :: "(string \<Rightarrow> bool) \<Rightarrow> pyval \<Rightarrow> bool" where
  [py_defs]: "str_member P v \<longleftrightarrow> (case v of PStr s \<Rightarrow> P s | _ \<Rightarrow> False)"

definition str_of :: "pyval \<Rightarrow> string" where
  [py_defs]: "str_of v = (case v of PStr s \<Rightarrow> s | _ \<Rightarrow> [])"

text \<open>The configuration is its sorted list of feeds.\<close>

definition configuration :: "(string \<Rightarrow> pyfloat) \<Rightarrow> int \<Rightarrow> json_file \<Rightarrow> string list res" where
  [py_defs]: "configuration float_of uid f = bindE (read_json float_of uid f 4096 True) (\<lambda>d.
     bindE (require_proof (keys_are d [''schema'', ''feeds''] \<and> dget d ''schema'' = PInt 1) ''invalid_configuration'') (\<lambda>_.
     case dget d ''feeds'' of
       PList feeds \<Rightarrow>
         bindE (require_proof (1 \<le> length feeds \<and> length feeds \<le> 2 \<and> list_all (str_member in_registry) feeds
             \<and> distinct feeds) ''unsupported_feed_configuration'') (\<lambda>_. Inr (sort (map str_of feeds)))
     | _ \<Rightarrow> Inl (ProofError ''unsupported_feed_configuration'')))"

definition registry_entry :: "string \<Rightarrow> pydict" where
  [py_defs]: "registry_entry name = (case map_of REGISTRY name of None \<Rightarrow> [] | Some d \<Rightarrow> d)"

definition definition_hash :: "(string \<Rightarrow> string) \<Rightarrow> string list \<Rightarrow> string" where
  [py_defs]: "definition_hash sha256 config =
     sha256 (json_enc json_compact (sorted_value (PDict (map (\<lambda>n. (n, PDict (registry_entry n))) config))))"

section \<open>A snapshot\<close>

record snap_io =
  sn_runtime :: json_file
  sn_run :: "string list \<Rightarrow> nat \<Rightarrow> bool \<Rightarrow> string res"
  sn_definitions :: json_file
  sn_custom_symlink :: bool
  sn_custom_size :: "nat option res"
  sn_runtime_end :: json_file

record snap =
  sn_generation :: string
  sn_sets :: "(string \<times> nft_result) list"

definition digit_rx :: rx where [py_defs]: "digit_rx = Cls ascii_digit"

definition RUNTIME_RX :: rx where
  [py_defs]: "RUNTIME_RX = rseq [StartOfText, rlit ''mode: '', ralt (map rlit [''reload'', ''start'', ''restart'', ''boot'']),
     rlit '', date / time: '', Grp 1 (rseq [rtimes 2 digit_rx, lit_char CHR ''/'', rtimes 2 digit_rx, lit_char CHR ''/'',
       rtimes 4 digit_rx, lit_char CHR '' '', rtimes 2 digit_rx, lit_char CHR '':'', rtimes 2 digit_rx, lit_char CHR '':'',
       rtimes 2 digit_rx]), lit_char CHR '','']"

text \<open>\<open>strptime(s, '%d/%m/%Y %H:%M:%S')\<close> on a text of that shape.\<close>

definition strptime_ok :: "string \<Rightarrow> bool" where
  [py_defs]: "strptime_ok s \<longleftrightarrow>
     (let num = (\<lambda>i n. int (nat_of_digits (take n (drop i s))));
          d = num 0 2; m = num 3 2; y = num 6 4 in
      1 \<le> y \<and> 1 \<le> m \<and> m \<le> 12 \<and> 1 \<le> d \<and> d \<le> month_days y m
      \<and> num 11 2 < 24 \<and> num 14 2 < 60 \<and> num 17 2 < 60)"

definition runtime_generation :: "pydict \<Rightarrow> string res" where
  [py_defs]: "runtime_generation runtime =
     (case (dget runtime ''status'', dget runtime ''last_run'') of
        (PStr s, PStr last_run) \<Rightarrow>
          (if s \<noteq> ''active'' \<or> last_run = [] then Inl (ProofError ''banip_not_active'')
           else (case re_match RUNTIME_RX last_run of
               None \<Rightarrow> Inl (ProofError ''invalid_runtime_generation'')
             | Some (b, t, caps) \<Rightarrow>
                 if length last_run \<le> 512 \<and> strptime_ok (group caps 1) then Inr last_run
                 else Inl (ProofError ''invalid_runtime_generation'')))
      | _ \<Rightarrow> Inl (ProofError ''banip_not_active''))"

definition ascii_ws :: "char \<Rightarrow> bool" where
  [py_defs]: "ascii_ws c \<longleftrightarrow> c = CHR 0x20 \<or> c = CHR 0x09 \<or> c = CHR 0x0A \<or> c = CHR 0x0B \<or> c = CHR 0x0C \<or> c = CHR 0x0D"

definition bytes_strip :: "string \<Rightarrow> string" where
  [py_defs]: "bytes_strip s = rstrip_by ascii_ws (dropWhile ascii_ws s)"

definition uci_get :: "snap_io \<Rightarrow> string \<Rightarrow> nat \<Rightarrow> bool \<Rightarrow> string res" where
  [py_defs]: "uci_get io key maximum missing =
     sn_run io [''uci'', ''-q'', ''get'', ''banip.global.'' @ key] maximum missing"

definition decode_utf8 :: "string \<Rightarrow> string res" where
  [py_defs]: "decode_utf8 b = (case utf8_decode b of None \<Rightarrow> Inl (ValueError ''UnicodeDecodeError'') | Some s \<Rightarrow> Inr s)"

definition configured_feeds :: "snap_io \<Rightarrow> string list \<Rightarrow> unit res" where
  [py_defs]: "configured_feeds io config =
     bindE (uci_get io ''ban_feed'' 4096 False) (\<lambda>out. bindE (decode_utf8 out) (\<lambda>s.
     if sort (split_ws s) \<noteq> config then Inl (ProofError ''configured_feeds_changed'')
     else bindE (uci_get io ''ban_enabled'' 64 False) (\<lambda>e.
       require_proof (bytes_strip e = ''1'') ''configured_feeds_changed'')))"

definition definition_path :: "snap_io \<Rightarrow> string \<times> string \<Rightarrow> unit res" where
  [py_defs]: "definition_path io kv = bindE (uci_get io (fst kv) 4096 True) (\<lambda>out.
     require_proof (bytes_strip out \<in> {[], snd kv}) ''unsupported_feed_definition_path'')"

definition feed_char :: "char \<Rightarrow> bool" where
  [py_defs]: "feed_char c \<longleftrightarrow> ascii_alnum c \<or> c \<in> set ''_.-''"

definition feed_name_ok :: "string \<Rightarrow> bool" where
  [py_defs]: "feed_name_ok s \<longleftrightarrow> s \<noteq> [] \<and> length s \<le> 80 \<and> list_all feed_char s"

definition active_feeds :: "pyval \<Rightarrow> pyval list res" where
  [py_defs]: "active_feeds v = (case v of
       PList xs \<Rightarrow> bindE (require_proof (length xs \<le> 128 \<and> list_all (str_member feed_name_ok) xs \<and> distinct xs)
           ''invalid_active_feeds'') (\<lambda>_. Inr xs)
     | _ \<Rightarrow> Inl (ProofError ''invalid_active_feeds''))"

definition definition_same :: "string \<Rightarrow> pyval \<Rightarrow> bool res" where
  [py_defs]: "definition_same name d = bindE
     (allE (map (\<lambda>(k, v). bindE (py_get d k PNone) (\<lambda>x. Inr (py_eq x v))) (registry_entry name))) (\<lambda>same.
     if same then bindE (py_get d ''url_6'' PNone) (\<lambda>u. Inr (\<not> py_truthy u)) else Inr False)"

definition snapshot_set ::
  "(string \<Rightarrow> string) \<Rightarrow> (string \<Rightarrow> pyfloat) \<Rightarrow> snap_io \<Rightarrow> pydict \<Rightarrow> pyval list \<Rightarrow> string \<Rightarrow> (string \<times> nft_result) res" where
  [py_defs]: "snapshot_set sha256 float_of io definitions active name =
     bindE (dindex definitions name) (\<lambda>d. bindE (definition_same name d) (\<lambda>same.
     bindE (require_proof same ''feed_definition_changed'') (\<lambda>_.
     bindE (require_proof (PStr (name @ ''.v4'') \<in> set active \<and> PStr (name @ ''.v6'') \<notin> set active)
       ''active_family_changed'') (\<lambda>_.
     bindE (sn_run io [''nft'', ''-j'', ''list'', ''set'', ''inet'', ''banIP'', name @ ''.v4''] MAX_BYTES False) (\<lambda>out.
     bindE (nft_set sha256 float_of name out) (\<lambda>r. Inr (name, r)))))))"

text \<open>Nothing may have changed at the end.\<close>

definition same_runtime :: "pydict \<Rightarrow> string \<Rightarrow> pyval list \<Rightarrow> bool" where
  [py_defs]: "same_runtime e generation active \<longleftrightarrow> dget e ''status'' = PStr ''active''
     \<and> dget e ''last_run'' = PStr generation \<and> dget e ''active_feeds'' = PList active"

definition snapshot ::
  "(string \<Rightarrow> string) \<Rightarrow> (string \<Rightarrow> pyfloat) \<Rightarrow> int \<Rightarrow> snap_io \<Rightarrow> string list \<Rightarrow> snap res" where
  [py_defs]: "snapshot sha256 float_of uid io config =
     bindE (read_json float_of uid (sn_runtime io) 32768 False) (\<lambda>runtime.
     bindE (runtime_generation runtime) (\<lambda>generation.
     bindE (configured_feeds io config) (\<lambda>_.
     bindE (mapE (definition_path io) [(''ban_feedfile'', DEFINITIONS_PATH), (''ban_customfeedfile'', CUSTOM_PATH)]) (\<lambda>_.
     bindE (read_json float_of uid (sn_definitions io) (512 * 1024) False) (\<lambda>definitions.
     bindE (if sn_custom_symlink io then Inl (ProofError ''custom_feed_definition_unsupported'') else sn_custom_size io) (\<lambda>n.
     bindE (require_proof (n \<in> {None, Some 0}) ''custom_feed_definition_unsupported'') (\<lambda>_.
     bindE (active_feeds (dget runtime ''active_feeds'')) (\<lambda>active.
     bindE (mapE (snapshot_set sha256 float_of io definitions active) config) (\<lambda>sets.
     bindE (read_json float_of uid (sn_runtime_end io) 32768 False) (\<lambda>e.
     bindE (require_proof (same_runtime e generation active) ''runtime_changed_during_snapshot'') (\<lambda>_.
     Inr \<lparr>sn_generation = generation, sn_sets = sets\<rparr>)))))))))))"

section \<open>The stored state\<close>

record state_io =
  st_parent :: "bp_stat res"
  st_part :: bool
  st_exists :: bool
  st_symlink :: bool
  st_file :: json_file

definition initial_state :: "(string \<Rightarrow> string) \<Rightarrow> string list \<Rightarrow> pydict" where
  [py_defs]: "initial_state sha256 config =
     [(''schema'', PInt 1), (''definition_sha256'', PStr (definition_hash sha256 config)), (''feeds'', PDict [])]"

definition reason_char :: "char \<Rightarrow> bool" where [py_defs]: "reason_char c \<longleftrightarrow> ascii_lower c \<or> c = CHR ''_''"

definition reason_ok :: "string \<Rightarrow> bool" where
  [py_defs]: "reason_ok s \<longleftrightarrow> s \<noteq> [] \<and> length s \<le> 64 \<and> list_all reason_char s"

definition check_ok :: "pyval \<Rightarrow> rat \<Rightarrow> bool res" where
  [py_defs]: "check_ok check now = allE
     [bindE (py_item check ''status'') (\<lambda>s. Inr (s \<in> {PStr ''verified'', PStr ''error'', PStr ''unknown''})),
      bindE (py_item check ''at'') (\<lambda>t. epoch t now),
      bindE (py_item check ''reason'') (\<lambda>r. Inr (str_member reason_ok r))]"

definition count_ok :: "pyval \<Rightarrow> bool" where
  [py_defs]: "count_ok v \<longleftrightarrow> (case v of PInt i \<Rightarrow> 1 \<le> i \<and> i \<le> int MAX_NETWORKS | _ \<Rightarrow> False)"

definition good_ok :: "pyval \<Rightarrow> rat \<Rightarrow> bool res" where
  [py_defs]: "good_ok good now = allE
     [bindE (py_item good ''at'') (\<lambda>t. epoch t now),
      bindE (py_item good ''scope'') (\<lambda>s. Inr (s = PStr PROOF_SCOPE)),
      bindE (py_item good ''source_sha256'') (\<lambda>s. Inr (str_member (hexn 64) s)),
      bindE (py_item good ''canonical_sha256'') (\<lambda>s. Inr (str_member (hexn 64) s)),
      bindE (py_item good ''count'') (\<lambda>n. Inr (count_ok n))]"

definition record_ok :: "rat \<Rightarrow> string \<times> pyval \<Rightarrow> unit res" where
  [py_defs]: "record_ok now kv = (case snd kv of
       PDict rec \<Rightarrow>
         bindE (require_proof (list_all (\<lambda>(k, v). k \<in> {''last_check'', ''last_verified''}) rec) ''invalid_proof_state'') (\<lambda>_.
         bindE (dindex rec ''last_check'') (\<lambda>check. bindE (check_ok check now) (\<lambda>ok.
         bindE (require_proof ok ''invalid_proof_state'') (\<lambda>_.
         if dhas rec ''last_verified'' then
           bindE (good_ok (dget rec ''last_verified'') now) (\<lambda>ok. require_proof ok ''invalid_proof_state'')
         else Inr ()))))
     | _ \<Rightarrow> Inl (ProofError ''invalid_proof_state''))"

definition checked_state :: "(string \<Rightarrow> string) \<Rightarrow> string list \<Rightarrow> rat \<Rightarrow> pydict \<Rightarrow> pydict res" where
  [py_defs]: "checked_state sha256 config now d =
     (case dget d ''feeds'' of
        PDict feeds \<Rightarrow>
          bindE (require_proof (dget d ''schema'' = PInt 1
              \<and> dget d ''definition_sha256'' = PStr (definition_hash sha256 config)
              \<and> list_all (\<lambda>(k, v). k \<in> set config) feeds) ''invalid_proof_state'') (\<lambda>_.
          bindE (mapE (record_ok now) feeds) (\<lambda>_. Inr d))
      | _ \<Rightarrow> Inl (ProofError ''invalid_proof_state''))"

definition trusted_clock :: "clock \<Rightarrow> unit res" where
  [py_defs]: "trusted_clock now = bindE (epoch (clock_value now) (snd now)) (\<lambda>ok.
     require_proof ok ''clock_untrusted'')"

definition proof_state ::
  "(string \<Rightarrow> string) \<Rightarrow> (string \<Rightarrow> pyfloat) \<Rightarrow> int \<Rightarrow> state_io \<Rightarrow> string list \<Rightarrow> clock \<Rightarrow> pydict res" where
  [py_defs]: "proof_state sha256 float_of uid io config now =
     bindE (trusted_clock now) (\<lambda>_.
     bindE (private_directory uid (st_parent io)) (\<lambda>_.
     bindE (require_proof (\<not> st_part io) ''partial_proof_requires_reconciliation'') (\<lambda>_.
     if \<not> st_exists io then
       bindE (require_proof (\<not> st_symlink io) ''unsafe_state_file'') (\<lambda>_. Inr (initial_state sha256 config))
     else bindE (read_json float_of uid (st_file io) 16384 True) (checked_state sha256 config (snd now)))))"

end
