(* ===== verification/Feed_Verify.thy ===== *)
theory Feed_Verify
  imports Feed_Proof
begin

text \<open>
  The last part of \<open>banip_feed_proof.py\<close>: verifying the feeds between two snapshots, the
  summary of a stored proof, saving the state, and the command.
\<close>

section \<open>Verification\<close>

definition is_subprocess_error :: "py_exc \<Rightarrow> bool" where
  [py_defs]: "is_subprocess_error e \<longleftrightarrow> e \<in> {RuntimeError ''SubprocessError'', RuntimeError ''TimeoutExpired''}"

text \<open>\<open>except (ValueError, OSError, KeyError, TypeError)\<close>, and the same with \<open>SubprocessError\<close>.\<close>

definition caught_wait :: "py_exc \<Rightarrow> bool" where
  [py_defs]: "caught_wait e \<longleftrightarrow> is_value_error e \<or> os_error e \<or> e = KeyError \<or> e = TypeError"

definition caught :: "py_exc \<Rightarrow> bool" where
  [py_defs]: "caught e \<longleftrightarrow> caught_wait e \<or> is_subprocess_error e"

definition proof_reason :: "string \<Rightarrow> py_exc \<Rightarrow> string" where
  [py_defs]: "proof_reason other e = (case e of ScriptError c m \<Rightarrow> if c = ''ProofError'' then m else other | _ \<Rightarrow> other)"

text \<open>The result for one feed: the reason of a failure, or what was parsed.\<close>

definition feed_outcome ::
  "(string \<Rightarrow> string) \<Rightarrow> (string \<Rightarrow> string res) \<Rightarrow> string \<Rightarrow> (string \<times> (string + feed_result)) res" where
  [py_defs]: "feed_outcome sha256 downloader name =
     (case bindE (downloader name) (parse_feed sha256 name) of
        Inr r \<Rightarrow> Inr (name, Inr r)
      | Inl e \<Rightarrow> if is_value_error e \<or> os_error e then Inr (name, Inl (proof_reason ''feed_download_failed'' e))
          else Inl e)"

record verify_io =
  vf_before :: "snap res"
  vf_download :: "string \<Rightarrow> string res"
  vf_after :: "snap res"
  vf_start :: clock
  vf_finish :: clock

definition gather ::
  "(string \<Rightarrow> string) \<Rightarrow> verify_io \<Rightarrow> string list \<Rightarrow>
     ((string \<times> (string + feed_result)) list \<times> (snap \<times> snap) option) res" where
  [py_defs]: "gather sha256 io config =
     (case bindE (vf_before io) (\<lambda>before. bindE (mapE (feed_outcome sha256 (vf_download io)) config) (\<lambda>results.
         bindE (vf_after io) (\<lambda>after. Inr (results, Some (before, after))))) of
        Inr r \<Rightarrow> Inr r
      | Inl e \<Rightarrow> if caught e then Inr (map (\<lambda>n. (n, Inl (proof_reason ''snapshot_unavailable'' e))) config, None)
          else Inl e)"

text \<open>The check of a feed: status, reason, and the result to store when it is verified.\<close>

definition check_feed ::
  "(snap \<times> snap) option \<Rightarrow> string \<times> (string + feed_result) \<Rightarrow> (string \<times> string \<times> feed_result option) res" where
  [py_defs]: "check_feed snaps outcome = (case snd outcome of
       Inl reason \<Rightarrow> Inr (''error'', reason, None)
     | Inr r \<Rightarrow>
         (case snaps of
            None \<Rightarrow> Inl TypeError
          | Some (before, after) \<Rightarrow>
              (if before \<noteq> after then Inr (''unknown'', ''concurrent_set_or_runtime_change'', None)
               else (case map_of (sn_sets after) (fst outcome) of
                   None \<Rightarrow> Inl KeyError
                 | Some s \<Rightarrow>
                     (if cn_sha (fr_canon r) \<noteq> cn_sha (nr_canon s)
                      then Inr (''error'', ''active_set_content_mismatch'', None)
                      else Inr (''verified'', ''verified'', Some r))))))"

definition verified_value :: "feed_result \<Rightarrow> clock \<Rightarrow> pyval" where
  [py_defs]: "verified_value r now = PDict
     [(''canonical_sha256'', PStr (cn_sha (fr_canon r))), (''count'', PInt (int (cn_count (fr_canon r)))),
      (''source_records'', PInt (int (fr_records r))), (''source_sha256'', PStr (fr_sha r)),
      (''at'', clock_value now), (''scope'', PStr PROOF_SCOPE)]"

definition check_value :: "string \<Rightarrow> string \<Rightarrow> clock \<Rightarrow> pyval" where
  [py_defs]: "check_value status reason now = PDict
     [(''status'', PStr status), (''reason'', PStr reason), (''at'', clock_value now)]"

definition updated_record :: "pydict \<Rightarrow> string \<times> string \<times> feed_result option \<Rightarrow> clock \<Rightarrow> pydict" where
  [py_defs]: "updated_record rec check now = (case check of (status, reason, good) \<Rightarrow>
     dput ''last_check'' (check_value status reason now)
       (case good of None \<Rightarrow> rec | Some r \<Rightarrow> dput ''last_verified'' (verified_value r now) rec))"

text \<open>\<open>feeds.setdefault(name, {})\<close>, updated in place.\<close>

definition put_record :: "(pydict \<Rightarrow> pydict) \<Rightarrow> string \<Rightarrow> pydict \<Rightarrow> pydict res" where
  [py_defs]: "put_record f name feeds = (case dget_or feeds name (PDict []) of
       PDict rec \<Rightarrow> Inr (dput name (PDict (f rec)) feeds) | _ \<Rightarrow> Inl TypeError)"

definition store_check ::
  "(snap \<times> snap) option \<Rightarrow> clock \<Rightarrow> string \<times> (string + feed_result) \<Rightarrow> pydict \<Rightarrow> pydict res" where
  [py_defs]: "store_check snaps now outcome feeds = bindE (check_feed snaps outcome) (\<lambda>check.
     put_record (\<lambda>rec. updated_record rec check now) (fst outcome) feeds)"

definition with_feeds :: "(pydict \<Rightarrow> pydict res) \<Rightarrow> pyval \<Rightarrow> pydict res" where
  [py_defs]: "with_feeds f v = bindE (py_item v ''feeds'') (\<lambda>x. case (v, x) of
       (PDict d, PDict feeds) \<Rightarrow> bindE (f feeds) (\<lambda>new. Inr (dput ''feeds'' (PDict new) d))
     | _ \<Rightarrow> Inl AttributeError)"

definition json_copy :: "(string \<Rightarrow> pyfloat) \<Rightarrow> pydict \<Rightarrow> pyval res" where
  [py_defs]: "json_copy float_of d = json_loads float_of (json_enc json_default (PDict d))"

definition finished :: "verify_io \<Rightarrow> unit res" where
  [py_defs]: "finished io = bindE (epoch (clock_value (vf_finish io)) (snd (vf_finish io))) (\<lambda>ok.
     require_proof (ok \<and> (let d = fl (snd (vf_finish io) - snd (vf_start io)) in - 1 \<le> d \<and> d \<le> 90))
       ''clock_shift_during_verification'')"

definition verify ::
  "(string \<Rightarrow> string) \<Rightarrow> (string \<Rightarrow> pyfloat) \<Rightarrow> verify_io \<Rightarrow> string list \<Rightarrow> pydict \<Rightarrow> pydict res" where
  [py_defs]: "verify sha256 float_of io config prior =
     bindE (trusted_clock (vf_start io)) (\<lambda>_. bindE (json_copy float_of prior) (\<lambda>out.
     bindE (gather sha256 io config) (\<lambda>(results, snaps). bindE (finished io) (\<lambda>_.
     with_feeds (foldE (store_check snaps (vf_finish io)) results) out))))"

definition failed_check ::
  "(string \<Rightarrow> pyfloat) \<Rightarrow> clock \<Rightarrow> string list \<Rightarrow> pydict \<Rightarrow> string \<Rightarrow> pydict res" where
  [py_defs]: "failed_check float_of now config prior reason =
     bindE (trusted_clock now) (\<lambda>_. bindE (json_copy float_of prior) (\<lambda>out.
     with_feeds (foldE (put_record (dput ''last_check'' (check_value ''error'' reason now))) config) out))"

section \<open>Resources\<close>

definition py_int_text :: "string \<Rightarrow> int res" where
  [py_defs]: "py_int_text s =
     (let t = py_strip s; (neg, u) = (case t of c # r \<Rightarrow> if c = CHR ''-'' then (True, r)
            else if c = CHR ''+'' then (False, r) else (False, t) | [] \<Rightarrow> (False, t));
          parts = split_on CHR ''_'' u in
      if list_all py_isdecimal parts
      then Inr ((if neg then - 1 else 1) * int (nat_of_digits (concat parts)))
      else Inl (ValueError ''invalid literal for int()''))"

definition item_at :: "string list \<Rightarrow> nat \<Rightarrow> string res" where
  [py_defs]: "item_at xs i = (if i < length xs then Inr (xs ! i) else Inl IndexError)"

definition resource_guard :: "string res \<Rightarrow> rat res \<Rightarrow> int \<Rightarrow> unit res" where
  [py_defs]: "resource_guard meminfo loadavg cpus = bindE meminfo (\<lambda>m.
     let lines = map split_ws (filter (\<lambda>l. startswith l ''MemAvailable:'') (py_splitlines m)) in
     bindE (require_proof (length lines = 1) ''memory_reserve_low'') (\<lambda>_.
     bindE (item_at (hd lines) 2) (\<lambda>unit.
     bindE (require_proof (unit = ''kB'') ''memory_reserve_low'') (\<lambda>_.
     bindE (bindE (item_at (hd lines) 1) py_int_text) (\<lambda>n.
     bindE (require_proof (64 * 1024 \<le> n) ''memory_reserve_low'') (\<lambda>_.
     bindE loadavg (\<lambda>l. require_proof (l \<le> 2 * of_int cpus) ''router_load_high'')))))))"

section \<open>The summary\<close>

text \<open>\<open>int(now - at)\<close> and not below zero.\<close>

definition age_at :: "rat \<Rightarrow> rat \<Rightarrow> int" where
  [py_defs]: "age_at now t = (let d = fl (now - t) in max 0 (if d < 0 then \<lceil>d\<rceil> else \<lfloor>d\<rfloor>))"

definition age_of :: "rat \<Rightarrow> pyval \<Rightarrow> int res" where
  [py_defs]: "age_of now good = bindE (py_item good ''at'') (\<lambda>t. case number_of t of
       None \<Rightarrow> Inl TypeError | Some q \<Rightarrow> Inr (age_at now q))"

definition current_digest :: "snap \<Rightarrow> string \<Rightarrow> string res" where
  [py_defs]: "current_digest s name = (case map_of (sn_sets s) name of
       None \<Rightarrow> Inl KeyError | Some r \<Rightarrow> Inr (cn_sha (nr_canon r)))"

definition row_status ::
  "snap option \<Rightarrow> string \<Rightarrow> pyval \<Rightarrow> pyval \<Rightarrow> int option \<Rightarrow> (pyval \<times> pyval) res" where
  [py_defs]: "row_status current name check good age = (case current of
       None \<Rightarrow> Inr (PStr ''unknown'', PStr ''current_snapshot_unavailable'')
     | Some s \<Rightarrow>
         bindE (py_get check ''status'' PNone) (\<lambda>status.
         if status \<noteq> PStr ''verified'' then
           bindE (py_get check ''status'' (PStr ''unknown'')) (\<lambda>st.
           bindE (py_get check ''reason'' (PStr ''proof_missing'')) (\<lambda>r. Inr (st, r)))
         else bindE (if \<not> py_truthy good then Inr True
                     else bindE (py_item good ''canonical_sha256'') (\<lambda>d. bindE (current_digest s name) (\<lambda>c. Inr (d \<noteq> PStr c))))
           (\<lambda>changed. if changed then Inr (PStr ''unknown'', PStr ''current_set_changed'')
            else (case age of
                None \<Rightarrow> Inl TypeError
              | Some a \<Rightarrow> if a > MAX_PROOF_AGE then Inr (PStr ''stale'', PStr ''proof_expired'')
                  else Inr (PStr ''verified'', PStr ''verified'')))))"

definition opt_int :: "int option \<Rightarrow> pyval" where
  [py_defs]: "opt_int x = (case x of None \<Rightarrow> PNone | Some i \<Rightarrow> PInt i)"

definition when_good :: "pyval \<Rightarrow> string \<Rightarrow> pyval res" where
  [py_defs]: "when_good good k = (if py_truthy good then py_item good k else Inr PNone)"

definition feed_row :: "string \<Rightarrow> pyval \<Rightarrow> pyval \<Rightarrow> pyval \<Rightarrow> int option \<Rightarrow> pyval \<Rightarrow> pyval" where
  [py_defs]: "feed_row name status reason stamp age count = PDict
     [(''feed'', PStr (name @ ''.v4'')), (''status'', status), (''reason'', reason), (''verified_at'', stamp),
      (''age_seconds'', opt_int age), (''last_verified_count'', count)]"

text \<open>One row of the summary, with its status and age.\<close>

definition summary_row ::
  "pyval \<Rightarrow> snap option \<Rightarrow> rat \<Rightarrow> string \<Rightarrow> (pyval \<times> pyval \<times> int option) res" where
  [py_defs]: "summary_row feeds current now name =
     bindE (py_get feeds name (PDict [])) (\<lambda>rec. bindE (py_get rec ''last_verified'' PNone) (\<lambda>good.
     bindE (py_get rec ''last_check'' (PDict [])) (\<lambda>check.
     bindE (if py_truthy good then bindE (age_of now good) (\<lambda>a. Inr (Some a)) else Inr None) (\<lambda>age.
     bindE (row_status current name check good age) (\<lambda>(status, reason).
     bindE (when_good good ''at'') (\<lambda>stamp. bindE (when_good good ''count'') (\<lambda>count.
     Inr (feed_row name status reason stamp age count, status, age))))))))"

definition combined_status :: "pyval list \<Rightarrow> string" where
  [py_defs]: "combined_status statuses =
     (if PStr ''error'' \<in> set statuses then ''error'' else if PStr ''unknown'' \<in> set statuses then ''unknown''
      else if PStr ''stale'' \<in> set statuses then ''stale'' else ''verified'')"

definition largest_age :: "int option list \<Rightarrow> int option" where
  [py_defs]: "largest_age ages = (if None \<in> set ages then None
     else (case map the ages of [] \<Rightarrow> None | a # rest \<Rightarrow> Some (foldl max a rest)))"

definition summary_value :: "string \<Rightarrow> int option \<Rightarrow> pyval list \<Rightarrow> pyval" where
  [py_defs]: "summary_value status age rows = PDict
     [(''status'', PStr status), (''age_seconds'', opt_int age), (''feeds'', PList rows)]"

definition summary :: "string list \<Rightarrow> pydict \<Rightarrow> snap option \<Rightarrow> rat \<Rightarrow> pyval res" where
  [py_defs]: "summary config proof current now =
     bindE (if config = [] then Inr PNone else dindex proof ''feeds'') (\<lambda>feeds.
     bindE (mapE (summary_row feeds current now) config) (\<lambda>rows.
     if rows = [] then Inl (ValueError ''max() arg is an empty sequence'')
     else Inr (summary_value (combined_status (map (fst \<circ> snd) rows)) (largest_age (map (snd \<circ> snd) rows)) (map fst rows))))"

section \<open>Saving\<close>

text \<open>The partial file is created exclusively, and stays when a later operation fails.\<close>

definition part_path :: "string \<Rightarrow> string" where [py_defs]: "part_path path = path @ ''.part''"

definition PROOF_SAVE_OPS :: "save_op list" where
  [py_defs]: "PROOF_SAVE_OPS = [MakeTemp, WriteData, FlushData, SyncFile, ReplaceFile, OpenDir, SyncDir]"

fun proof_ops :: "save_io \<Rightarrow> string \<Rightarrow> string \<Rightarrow> save_op list \<Rightarrow> fs \<Rightarrow> fs \<times> unit res" where
  "proof_ops io path data [] f = (f, Inr ())"
| "proof_ops io path data (op # ops) f =
     (if io_ok io op \<and> (op = MakeTemp \<longrightarrow> fs_now f (io_temp io) = None \<and> io_temp io \<notin> set (fs_symlinks f))
      then proof_ops io path data ops (op_effect io path data op f)
      else (op_fault io data op f, Inl OSError))"

definition state_text :: "pydict \<Rightarrow> string" where
  [py_defs]: "state_text d = json_enc json_compact (sorted_value (PDict d))"

definition save_proof :: "int \<Rightarrow> bp_stat res \<Rightarrow> save_io \<Rightarrow> string \<Rightarrow> pydict \<Rightarrow> fs \<Rightarrow> fs \<times> unit res" where
  [py_defs]: "save_proof uid parent io path d f = (case private_directory uid parent of
       Inl e \<Rightarrow> (f, Inl e)
     | Inr u \<Rightarrow> proof_ops (io\<lparr>io_temp := part_path path\<rparr>) path (state_text d) PROOF_SAVE_OPS f)"

section \<open>The command\<close>

text \<open>Waiting for the reload: each turn reads the clock and takes a snapshot.\<close>

partial_function (option) wait_reload ::
  "(nat \<Rightarrow> rat \<times> snap res) \<Rightarrow> rat \<Rightarrow> string \<Rightarrow> nat \<Rightarrow> unit res option" where
  "wait_reload ev deadline generation n =
     (if \<not> fst (ev n) < deadline then Some (Inl (ProofError ''banip_reload_deadline''))
      else (case snd (ev n) of
          Inr s \<Rightarrow> if sn_generation s \<noteq> generation then Some (Inr ()) else wait_reload ev deadline generation (Suc n)
        | Inl e \<Rightarrow> if caught_wait e then wait_reload ev deadline generation (Suc n) else Some (Inl e)))"

datatype proof_action = Verify | Refresh | Status

record proof_io =
  pf_uid :: int
  pf_config :: json_file
  pf_meminfo :: "string res"
  pf_loadavg :: "rat res"
  pf_cpus :: int
  pf_state :: state_io
  pf_state_now :: clock
  pf_lock :: "bp_stat res"
  pf_flock :: "unit res"
  pf_locked_state :: state_io
  pf_locked_now :: clock
  pf_refresh :: "snap res"
  pf_reload :: "string res option"
  pf_reload_clock :: rat
  pf_wait :: "nat \<Rightarrow> rat \<times> snap res"
  pf_verify :: verify_io
  pf_failed_now :: clock
  pf_parent :: "bp_stat res"
  pf_save :: save_io
  pf_current :: "snap res"
  pf_summary_now :: rat

definition lock_taken :: "proof_io \<Rightarrow> unit res" where
  [py_defs]: "lock_taken io = bindE (pf_lock io) (\<lambda>i.
     bindE (require_proof (bs_regular i \<and> bs_links i = 1 \<and> bs_uid i = pf_uid io \<and> bs_mode i = 384) ''unsafe_proof_lock'')
       (\<lambda>_. pf_flock io))"

definition refresh :: "proof_io \<Rightarrow> unit res option" where
  [py_defs]: "refresh io = (case pf_refresh io of
       Inl e \<Rightarrow> Some (Inl e)
     | Inr before \<Rightarrow>
         (case pf_reload io of
            None \<Rightarrow> None
          | Some (Inl e) \<Rightarrow> Some (Inl e)
          | Some (Inr u) \<Rightarrow> wait_reload (pf_wait io) (fl (pf_reload_clock io + 120)) (sn_generation before) 0))"

definition new_state ::
  "(string \<Rightarrow> string) \<Rightarrow> (string \<Rightarrow> pyfloat) \<Rightarrow> proof_action \<Rightarrow> proof_io \<Rightarrow> string list \<Rightarrow> pydict \<Rightarrow> pydict res option" where
  [py_defs]: "new_state sha256 float_of action io config prior =
     map_option (\<lambda>r. case bindE r (\<lambda>_. verify sha256 float_of (pf_verify io) config prior) of
         Inr d \<Rightarrow> Inr d
       | Inl e \<Rightarrow> if caught e
           then failed_check float_of (pf_failed_now io) config prior ''refresh_or_verification_failed'' else Inl e)
       (if action = Refresh then refresh io else Some (Inr ()))"

definition current_snapshot :: "proof_io \<Rightarrow> snap option res" where
  [py_defs]: "current_snapshot io = (case pf_current io of
       Inr s \<Rightarrow> Inr (Some s) | Inl e \<Rightarrow> if caught e then Inr None else Inl e)"

definition printed_summary :: "proof_io \<Rightarrow> string list \<Rightarrow> pydict \<Rightarrow> (pyval \<times> int) res" where
  [py_defs]: "printed_summary io config proof = bindE (current_snapshot io) (\<lambda>current.
     bindE (summary config proof current (pf_summary_now io)) (\<lambda>v.
     Inr (v, if dict_value v ''status'' = PStr ''verified'' then 0 else 1)))"

text \<open>\<open>main\<close>: the files afterwards, and what is printed with the exit code.\<close>

definition proof_command ::
  "(string \<Rightarrow> string) \<Rightarrow> (string \<Rightarrow> pyfloat) \<Rightarrow> proof_action \<Rightarrow> proof_io \<Rightarrow> fs \<Rightarrow> (fs \<times> (pyval \<times> int) res) option" where
  [py_defs]: "proof_command sha256 float_of action io f =
     (case bindE (configuration float_of (pf_uid io) (pf_config io)) (\<lambda>config.
         bindE (resource_guard (pf_meminfo io) (pf_loadavg io) (pf_cpus io)) (\<lambda>_.
         bindE (proof_state sha256 float_of (pf_uid io) (pf_state io) config (pf_state_now io)) (\<lambda>prior.
         Inr (config, prior)))) of
        Inl e \<Rightarrow> Some (f, Inl e)
      | Inr (config, prior) \<Rightarrow>
          (if action = Status then
             Some (f, bindE (printed_summary io config prior) (\<lambda>(v, code). Inr (v, 0)))
           else
             (case bindE (lock_taken io) (\<lambda>_.
                 proof_state sha256 float_of (pf_uid io) (pf_locked_state io) config (pf_locked_now io)) of
                Inl e \<Rightarrow> Some (f, Inl e)
              | Inr prior' \<Rightarrow>
                  map_option (\<lambda>r. case r of
                      Inl e \<Rightarrow> (f, Inl e)
                    | Inr d \<Rightarrow>
                        (case save_proof (pf_uid io) (pf_parent io) (pf_save io) PROOF_STATE d f of
                           (f', Inl e) \<Rightarrow> (f', Inl e)
                         | (f', Inr u) \<Rightarrow> (f', printed_summary io config d)))
                    (new_state sha256 float_of action io config prior'))))"

definition proof_unavailable :: "py_exc \<Rightarrow> (string \<times> int) res" where
  [py_defs]: "proof_unavailable e = (if caught e
     then Inr (json_enc json_default (PDict [(''status'', PStr ''unknown''), (''reason'', PStr (proof_reason ''proof_unavailable'' e))]), 2)
     else Inl e)"

definition proof_main ::
  "(string \<Rightarrow> string) \<Rightarrow> (string \<Rightarrow> pyfloat) \<Rightarrow> proof_action \<Rightarrow> proof_io \<Rightarrow> fs \<Rightarrow> (fs \<times> (string \<times> int) res) option" where
  [py_defs]: "proof_main sha256 float_of action io f =
     map_option (\<lambda>(f', r). (f', case r of
         Inr (v, code) \<Rightarrow> Inr (json_enc json_compact v, code)
       | Inl e \<Rightarrow> proof_unavailable e))
       (proof_command sha256 float_of action io f)"

end
