(* ===== verification/Feed_Facts.thy ===== *)
theory Feed_Facts
  imports Feed_Verify
begin

text \<open>
  Facts for the properties of \<open>banip_feed_proof.py\<close>: the networks read from a feed or a set are
  valid, the addresses of a feed are those its lines list, and equal digests stand for equal
  sets of addresses.
\<close>

section \<open>The networks that are read are valid\<close>

lemma ipv4_address_range: "ipv4_address s = Inr a \<Longrightarrow> 0 \<le> a \<and> a \<le> ALL_ONES"
proof -
  assume "ipv4_address s = Inr a"
  then obtain ip where ip: "ipv4_parse s = Some ip" "a = ipv4_number ip"
    by (auto simp: ipv4_address_def split: option.splits)
  then have len: "length ip = 4" and le: "\<forall>x \<in> set ip. x \<le> 255"
    by (auto simp: ipv4_parse_def Let_def list_all_iff octet_ok_def split: if_splits)
  from len obtain w x y z where "ip = [w, x, y, z]"
    by (auto simp: numeral_eq_Suc length_Suc_conv)
  with le ip(2) show ?thesis by (simp add: ipv4_number_def ALL_ONES_def)
qed

lemma network_of_valid:
  assumes "network_of strict a p = Inr n" and "0 \<le> a" and "a \<le> ALL_ONES" and "p \<le> 32"
  shows "valid_net n"
proof -
  have "a - a mod block p = a div block p * block p" by (simp add: minus_mod_eq_div_mult)
  moreover have "0 \<le> a div block p * block p" using assms(2) by (simp add: pos_imp_zdiv_nonneg_iff)
  moreover have "a - a mod block p \<le> a" by simp
  ultimately show ?thesis
    using assms by (auto simp: network_of_def valid_net_def split: if_splits)
qed

lemma prefix_from_text_le: "prefix_from_text s = Inr p \<Longrightarrow> p \<le> 32"
  by (auto simp: prefix_from_text_def prefix_from_int_def Let_def split: if_splits option.splits)

lemma ipv4_network_valid:
  assumes "ipv4_network strict s = Inr n"
  shows "valid_net n"
proof -
  have "\<exists>a p. network_of strict a p = Inr n \<and> 0 \<le> a \<and> a \<le> ALL_ONES \<and> p \<le> 32"
    using assms ipv4_address_range prefix_from_text_le
    by (fastforce simp: ipv4_network_def address_error_def split: list.splits)
  then show ?thesis using network_of_valid by blast
qed

lemma line_network_valid: "line_network name raw = Inr (Some n) \<Longrightarrow> valid_net n"
  by (auto simp: line_network_def dshield_network_def plain_network_def Let_def dest: ipv4_network_valid split: if_splits)

lemma feed_networks_valid:
  assumes "feed_networks name data = Inr ns"
  shows "\<forall>n \<in> set ns. valid_net n"
proof -
  have run: "foldE (feed_step name) (py_splitlines data) [] = Inr ns"
    using assms by (simp add: feed_networks_def split: if_splits)
  show ?thesis
  proof (rule foldE_invariant [where P = "\<lambda>ns. \<forall>n \<in> set ns. valid_net n", OF run])
    show "\<forall>n \<in> set t. valid_net n" if "\<forall>n \<in> set s. valid_net n" "feed_step name x s = Inr t" for x s t
      using that line_network_valid [of name x] by (auto simp: feed_step_def split: option.splits)
  qed simp
qed

lemma prefix_network_valid: "prefix_network p l = Inr ns \<Longrightarrow> \<forall>n \<in> set ns. valid_net n"
  by (cases l) (auto simp: prefix_network_def dest: ipv4_network_valid)

lemma nft_prefix_valid: "nft_prefix v = Inr ns \<Longrightarrow> \<forall>n \<in> set ns. valid_net n"
  by (auto simp: nft_prefix_def dest: prefix_network_valid split: if_splits)

lemma nft_range_valid: "nft_range v = Inr ns \<Longrightarrow> \<forall>n \<in> set ns. valid_net n"
  using range_loop_covers
  by (fastforce simp: nft_range_def summarize_range_def dest: ipv4_address_range split: pyval.split_asm list.split_asm if_split_asm)

lemma plain_element_valid: "plain_element e = Inr ns \<Longrightarrow> \<forall>n \<in> set ns. valid_net n"
  using nft_prefix_valid nft_range_valid
  by (cases e) (auto simp: plain_element_def dest: ipv4_network_valid split: if_split_asm)

lemma nft_networks_valid: "nft_networks e = Inr ns \<Longrightarrow> \<forall>n \<in> set ns. valid_net n"
  using plain_element_valid by (auto simp: nft_networks_def)

lemma nft_fold_valid:
  assumes "foldE nft_step es [] = Inr ns"
  shows "\<forall>n \<in> set ns. valid_net n"
proof (rule foldE_invariant [where P = "\<lambda>ns. \<forall>n \<in> set ns. valid_net n", OF assms])
  show "\<forall>n \<in> set t. valid_net n" if "\<forall>n \<in> set s. valid_net n" "nft_step x s = Inr t" for x s t
    using that nft_networks_valid [of x] by (auto simp: nft_step_def)
qed simp

section \<open>The addresses a feed lists\<close>

lemma octet_ok_str_nat: "k \<le> 255 \<Longrightarrow> octet_ok (str_nat k)"
proof -
  assume k: "k \<le> 255"
  have "digit_char d \<noteq> CHR ''0''" if "0 < d" "d < 10" for d :: nat
    using that digit_val_digit_char [of d] digit_val_digit_char [of 0] digit_char_zero by (metis neq0_conv zero_less_numeral)
  moreover have "k < 10 \<or> (10 \<le> k \<and> k div 10 < 10) \<or> (10 \<le> k \<and> 10 \<le> k div 10 \<and> k div 10 div 10 < 10)"
    using k by linarith
  ultimately have "length (str_nat k) \<le> 3 \<and> (length (str_nat k) > 1 \<longrightarrow> hd (str_nat k) \<noteq> CHR ''0'')"
    by (elim disjE) (auto simp: str_nat_unfold)
  then show ?thesis using k str_nat_digits [of k] by (simp add: octet_ok_def py_isdecimal_def)
qed

lemma ipv4_address_text:
  assumes "0 \<le> x" and "x \<le> ALL_ONES"
  shows "ipv4_address (address_text x) = Inr x"
proof -
  define os where "os = [nat (x div 16777216), nat (x div 65536 mod 256), nat (x div 256 mod 256), nat (x mod 256)]"
  have "x div 16777216 \<le> 255" using assms by (simp add: ALL_ONES_def)
  moreover have "y mod 256 \<le> 255" for y :: int using pos_mod_bound [of 256 y] by linarith
  ultimately have le: "\<forall>k \<in> set os. k \<le> 255" by (simp add: os_def nat_le_iff)
  have "split_on CHR ''.'' (ipv4_str os) = map str_nat os"
    unfolding ipv4_str_def using str_nat_no(1) by (intro split_by_join) (auto simp: os_def)
  then have "ipv4_parse (address_text x) = Some os"
    using le octet_ok_str_nat
    unfolding address_text_def os_def [symmetric]
    by (auto simp: ipv4_parse_def Let_def list_all_iff comp_def) (simp_all add: os_def)
  moreover have "ipv4_number os = x"
  proof -
    have "x div 16777216 = x div 65536 div 256" "x div 65536 = x div 256 div 256"
      by (simp_all flip: zdiv_zmult2_eq)
    then show ?thesis
      using assms(1) by (simp add: ipv4_number_def os_def pos_imp_zdiv_nonneg_iff)
  qed
  ultimately show ?thesis by (simp add: ipv4_address_def)
qed

lemma ipv4_network_text:
  assumes "0 \<le> x" and "x \<le> ALL_ONES" and "p \<le> 32"
  shows "ipv4_network strict (address_text x @ ''/'' @ str_nat p) = network_of strict x p"
proof -
  have "split_on CHR ''/'' (address_text x @ ''/'' @ str_nat p) = [address_text x, str_nat p]"
    using split_by_join [of "[address_text x, str_nat p]" "CHR ''/''"] address_text_no str_nat_no by simp
  moreover have "prefix_from_text (str_nat p) = Inr p"
    using assms(3) str_nat_digits [of p] by (simp add: prefix_from_text_def py_isdecimal_def)
  ultimately show ?thesis by (simp add: ipv4_network_def ipv4_address_text [OF assms(1,2)])
qed

text \<open>A line lists the addresses from its first word to its second, or its only one.\<close>

definition listed :: "string \<Rightarrow> string \<Rightarrow> int \<Rightarrow> bool" where
  "listed name raw x \<longleftrightarrow>
     (let line = py_strip raw; words = split_ws line in
      line \<noteq> [] \<and> \<not> startswith line ''#''
      \<and> (\<exists>a b. ipv4_address (words ! 0) = Inr a
           \<and> ipv4_address (words ! (if name = ''dshield'' then 1 else 0)) = Inr b \<and> a \<le> x \<and> x \<le> b))"

lemma listed_range:
  assumes "py_strip raw \<noteq> []" "\<not> startswith (py_strip raw) ''#''" and "ipv4_address (split_ws (py_strip raw) ! 0) = Inr a"
    and "ipv4_address (split_ws (py_strip raw) ! (if name = ''dshield'' then 1 else 0)) = Inr b"
  shows "{x. listed name raw x} = {a..b}"
  unfolding listed_def Let_def using assms by simp (simp add: atLeastAtMost_def atLeast_def atMost_def Int_def)

lemma net_addrs_ends: "net_addrs n = {fst n .. net_last n}"
  by (auto simp: net_addrs_def net_last_def)

lemma dshield_network_addrs:
  assumes "dshield_network parts = Inr n"
  shows "\<exists>a b. ipv4_address (parts ! 0) = Inr a \<and> ipv4_address (parts ! 1) = Inr b \<and> net_addrs n = {a..b}"
proof -
  obtain a b p where ab: "ipv4_address (parts ! 0) = Inr a" "ipv4_address (parts ! 1) = Inr b" "p \<le> 32"
      "ipv4_network True (address_text a @ ''/'' @ str_nat p) = Inr n" "net_last n = b"
    using assms by (auto simp: dshield_network_def Let_def)
  then have "network_of True a p = Inr n"
    using ipv4_network_text ipv4_address_range [OF ab(1)] by simp
  then have "fst n = a" by (auto simp: network_of_def split: if_splits)
  with ab net_addrs_ends [of n] show ?thesis by auto
qed

lemma plain_network_addrs:
  assumes "plain_network parts = Inr n"
  shows "\<exists>a. ipv4_address (parts ! 0) = Inr a \<and> net_addrs n = {a..a}"
proof -
  obtain a where a: "ipv4_address (parts ! 0) = Inr a" "ipv4_network True (address_text a @ ''/32'') = Inr n"
    using assms by (auto simp: plain_network_def)
  moreover have "str_nat 32 = ''32''" by code_simp
  ultimately have "network_of True a 32 = Inr n"
    using ipv4_network_text [of a 32 True] ipv4_address_range [OF a(1)] by simp
  then have "n = (a, 32)" by (auto simp: network_of_def split: if_splits)
  with a show ?thesis by (auto simp: net_addrs_def)
qed

lemma line_network_addrs:
  assumes "line_network name raw = Inr found"
  shows "{x. listed name raw x} = (case found of None \<Rightarrow> {} | Some n \<Rightarrow> net_addrs n)"
proof (cases "py_strip raw = [] \<or> startswith (py_strip raw) ''#''")
  case True
  with assms show ?thesis by (auto simp: line_network_def listed_def Let_def)
next
  case False
  define parse where "parse = (if name = ''dshield'' then dshield_network else plain_network)"
  obtain n where n: "found = Some n" "parse (split_ws (py_strip raw)) = Inr n"
    using assms False by (auto simp: line_network_def Let_def parse_def [symmetric])
  show ?thesis
  proof (cases "name = ''dshield''")
    case True
    with n have "dshield_network (split_ws (py_strip raw)) = Inr n" by (simp add: parse_def)
    then obtain a b where ab: "ipv4_address (split_ws (py_strip raw) ! 0) = Inr a"
        "ipv4_address (split_ws (py_strip raw) ! 1) = Inr b" "net_addrs n = {a..b}"
      using dshield_network_addrs by blast
    have "{x. listed name raw x} = {a..b}" using False True ab(1,2) by (intro listed_range) simp_all
    with n(1) ab(3) show ?thesis by simp
  next
    case plain: False
    with n have "plain_network (split_ws (py_strip raw)) = Inr n" by (simp add: parse_def)
    then obtain a where a: "ipv4_address (split_ws (py_strip raw) ! 0) = Inr a" "net_addrs n = {a..a}"
      using plain_network_addrs by blast
    have "{x. listed name raw x} = {a..a}" using False plain a(1) by (intro listed_range) simp_all
    with n(1) a(2) show ?thesis by simp
  qed
qed

lemma feed_fold_addrs:
  "foldE (feed_step name) ls ns = Inr ms \<Longrightarrow>
     covered (set ms) = covered (set ns) \<union> {x. \<exists>l \<in> set ls. listed name l x}"
proof (induction ls arbitrary: ns)
  case (Cons l ls)
  then obtain ks where ks: "feed_step name l ns = Inr ks" "foldE (feed_step name) ls ks = Inr ms" by auto
  obtain found where found: "line_network name l = Inr found" and step: "(case found of
       None \<Rightarrow> Inr ns
     | Some network \<Rightarrow>
         bindE (require_proof (Suc (length ns) \<le> MAX_NETWORKS) ''feed_record_limit'') (\<lambda>_.
         Inr (ns @ [network]))) = Inr ks"
    using ks(1) unfolding feed_step_def bindE_Inr_iff by blast
  from step have ks_eq: "ks = ns @ (case found of None \<Rightarrow> [] | Some n \<Rightarrow> [n])"
    by (cases found) auto
  have "covered (set ks) = covered (set ns) \<union> {x. listed name l x}"
    by (cases found) (simp_all add: ks_eq line_network_addrs [OF found] Un_commute)
  with Cons.IH [OF ks(2)] show ?case by auto
qed simp

lemma feed_networks_addrs:
  "feed_networks name data = Inr ns \<Longrightarrow> covered (set ns) = {x. \<exists>l \<in> set (py_splitlines data). listed name l x}"
  using feed_fold_addrs [of name "py_splitlines data" "[]" ns] by (simp add: feed_networks_def split: if_splits)

section \<open>The canonical digest\<close>

lemma canonical_same:
  assumes "canonical sha256 ns = Inr c" "canonical sha256 ms = Inr d"
    and "\<forall>n \<in> set ns. valid_net n" "\<forall>n \<in> set ms. valid_net n"
  shows "covered (set ns) = covered (set ms) \<Longrightarrow> c = d"
    and "cn_sha c = cn_sha d \<Longrightarrow> covered (set ns) = covered (set ms) \<or> (\<exists>x y. x \<noteq> y \<and> sha256 x = sha256 y)"
proof -
  have c: "c = \<lparr>cn_sha = sha256 (nets_text (collapse_addresses ns)), cn_count = length (collapse_addresses ns)\<rparr>" "ns \<noteq> []"
    and d: "d = \<lparr>cn_sha = sha256 (nets_text (collapse_addresses ms)), cn_count = length (collapse_addresses ms)\<rparr>" "ms \<noteq> []"
    using assms(1,2) by (auto simp: canonical_def Let_def)
  show "c = d" if "covered (set ns) = covered (set ms)"
    using that c d collapse_eq_iff [OF assms(3,4)] by simp
  show "covered (set ns) = covered (set ms) \<or> (\<exists>x y. x \<noteq> y \<and> sha256 x = sha256 y)" if "cn_sha c = cn_sha d"
    using that c d collapsed_text_inject [OF assms(3,4)] by auto
qed

end
