(* ===== verification/Feed_Props.thy ===== *)
theory Feed_Props
  imports Feed_Facts Canonical_Json
begin

text \<open>
  Properties of \<open>banip_feed_proof.py\<close>: the canonical digest stands for the set of addresses; a feed is
  marked verified only when its addresses are those of the router's set; a state that was
  accepted stays so after a verification; the command ends when the clock advances.
\<close>



section \<open>What a verification stores\<close>

lemma gather_results:
  assumes "gather sha256 io config = Inr (results, snaps)"
  shows "map fst results = config"
    and "(name, Inr r) \<in> set results \<Longrightarrow> \<exists>before after data. snaps = Some (before, after)
        \<and> vf_before io = Inr before \<and> vf_after io = Inr after
        \<and> vf_download io name = Inr data \<and> parse_feed sha256 name data = Inr r"
proof -
  define run where "run = bindE (vf_before io) (\<lambda>before. bindE (mapE (feed_outcome sha256 (vf_download io)) config) (\<lambda>results.
         bindE (vf_after io) (\<lambda>after. Inr (results, Some (before, after)))))"
  have out: "(case run of Inr r \<Rightarrow> Inr r
      | Inl e \<Rightarrow> if caught e then Inr (map (\<lambda>n. (n, Inl (proof_reason ''snapshot_unavailable'' e))) config, None)
          else Inl e) = Inr (results, snaps)"
    using assms by (simp add: gather_def run_def)
  have outcome: "fst o' = n \<and> (\<forall>r. snd o' = Inr r \<longrightarrow>
      (\<exists>data. vf_download io n = Inr data \<and> parse_feed sha256 n data = Inr r))"
    if "feed_outcome sha256 (vf_download io) n = Inr o'" for n o'
    using that by (cases "vf_download io n"; cases "bindE (vf_download io n) (parse_feed sha256 n)")
      (auto simp: feed_outcome_def split: if_splits)
  have "map fst results = config
      \<and> ((name, Inr r) \<in> set results \<longrightarrow> (\<exists>before after data. snaps = Some (before, after)
        \<and> vf_before io = Inr before \<and> vf_after io = Inr after
        \<and> vf_download io name = Inr data \<and> parse_feed sha256 name data = Inr r))"
  proof (cases run)
    case (Inl e)
    with out show ?thesis by (auto split: if_splits simp: comp_def)
  next
    case (Inr p)
    then obtain before after where run: "vf_before io = Inr before" "vf_after io = Inr after"
        "mapE (feed_outcome sha256 (vf_download io)) config = Inr results" "snaps = Some (before, after)"
      using out unfolding run_def by auto
    have all: "list_all2 (\<lambda>n o'. feed_outcome sha256 (vf_download io) n = Inr o') config results"
      using run(3) by (simp add: mapE_Inr_iff)
    then have "map fst results = config"
      by (induction rule: list_all2_induct) (auto dest: outcome)
    moreover have "\<exists>data. vf_download io name = Inr data \<and> parse_feed sha256 name data = Inr r"
      if "(name, Inr r) \<in> set results"
      using mapE_Inr_set [OF run(3) that] outcome by force
    ultimately show ?thesis using run by blast
  qed
  then show "map fst results = config"
    and "(name, Inr r) \<in> set results \<Longrightarrow> \<exists>before after data. snaps = Some (before, after)
        \<and> vf_before io = Inr before \<and> vf_after io = Inr after
        \<and> vf_download io name = Inr data \<and> parse_feed sha256 name data = Inr r" by blast+
qed

lemma put_record_get:
  "put_record f name feeds = Inr new \<Longrightarrow>
     \<exists>rec. dget_or feeds name (PDict []) = PDict rec \<and> new = dput name (PDict (f rec)) feeds"
  by (auto simp: put_record_def split: pyval.splits)

lemma store_check_get:
  "store_check snaps now outcome feeds = Inr new \<Longrightarrow>
     \<exists>check rec. check_feed snaps outcome = Inr check \<and> dget_or feeds (fst outcome) (PDict []) = PDict rec
       \<and> new = dput (fst outcome) (PDict (updated_record rec check now)) feeds"
  unfolding store_check_def by (auto dest: put_record_get)

lemma store_fold_other:
  "foldE (store_check snaps now) results feeds = Inr new \<Longrightarrow> name \<notin> fst ` set results \<Longrightarrow>
     map_of new name = map_of feeds name"
  by (induction results arbitrary: feeds) (auto dest!: store_check_get)

lemma store_fold_get:
  "foldE (store_check snaps now) results feeds = Inr new \<Longrightarrow> distinct (map fst results) \<Longrightarrow> o' \<in> set results \<Longrightarrow>
     \<exists>check rec. check_feed snaps o' = Inr check \<and> map_of new (fst o') = Some (PDict (updated_record rec check now))"
proof (induction results arbitrary: feeds)
  case (Cons a results)
  then obtain mid where mid: "store_check snaps now a feeds = Inr mid" "foldE (store_check snaps now) results mid = Inr new"
    by auto
  show ?case
  proof (cases "o' = a")
    case True
    with Cons.prems(2) have "map_of new (fst o') = map_of mid (fst o')"
      by (intro store_fold_other [OF mid(2)]) auto
    with store_check_get [OF mid(1)] True show ?thesis by fastforce
  next
    case False
    with Cons.prems have "distinct (map fst results)" "o' \<in> set results" by simp_all
    with Cons.IH [OF mid(2)] show ?thesis by blast
  qed
qed simp

lemma updated_record_status:
  "lookup_path (PDict (updated_record rec (status, reason, good) now)) [''last_check'', ''status''] = Some (PStr status)"
  by (simp add: updated_record_def check_value_def)

lemma check_feed_verified:
  assumes "check_feed snaps (name, outcome) = Inr (''verified'', reason, good)"
  shows "\<exists>r s set. outcome = Inr r \<and> snaps = Some (s, s) \<and> map_of (sn_sets s) name = Some set
    \<and> cn_sha (fr_canon r) = cn_sha (nr_canon set)"
proof (cases outcome)
  case (Inl m)
  with assms show ?thesis by (simp add: check_feed_def)
next
  case (Inr r)
  then obtain before after where s: "snaps = Some (before, after)"
    using assms by (cases snaps) (auto simp: check_feed_def)
  have "before = after" using assms Inr s by (auto simp: check_feed_def split: if_splits)
  with assms Inr s show ?thesis
    by (cases "map_of (sn_sets after) name") (auto simp: check_feed_def split: if_splits)
qed

lemma with_feeds_get:
  assumes "with_feeds f v = Inr out"
  shows "\<exists>d feeds new. v = PDict d \<and> map_of d ''feeds'' = Some (PDict feeds) \<and> f feeds = Inr new
    \<and> out = dput ''feeds'' (PDict new) d"
proof -
  obtain x where x: "py_item v ''feeds'' = Inr x" "(case (v, x) of
      (PDict d, PDict feeds) \<Rightarrow> bindE (f feeds) (\<lambda>new. Inr (dput ''feeds'' (PDict new) d))
    | _ \<Rightarrow> Inl AttributeError) = Inr out"
    using assms unfolding with_feeds_def bindE_Inr_iff by blast
  then show ?thesis
    by (cases v; cases x) (auto simp: py_item_def dindex_def split: option.splits)
qed

lemma verify_stores:
  assumes "verify sha256 float_of io config prior = Inr out" and "distinct config" and "name \<in> set config"
  shows "\<exists>results snaps outcome check rec. gather sha256 io config = Inr (results, snaps) \<and> (name, outcome) \<in> set results
    \<and> check_feed snaps (name, outcome) = Inr check
    \<and> lookup_path (PDict out) [''feeds'', name] = Some (PDict (updated_record rec check (vf_finish io)))"
proof -
  obtain copy results snaps where run: "gather sha256 io config = Inr (results, snaps)"
      "with_feeds (foldE (store_check snaps (vf_finish io)) results) copy = Inr out"
    using assms(1) by (auto simp: verify_def)
  from with_feeds_get [OF run(2)]
  obtain d feeds new where new: "copy = PDict d" "foldE (store_check snaps (vf_finish io)) results feeds = Inr new"
      "out = dput ''feeds'' (PDict new) d" by blast
  have names: "map fst results = config" by (rule gather_results(1) [OF run(1)])
  with assms(3) obtain outcome where o': "(name, outcome) \<in> set results" by force
  with store_fold_get [OF new(2), of "(name, outcome)"] names assms(2)
  obtain check rec where "check_feed snaps (name, outcome) = Inr check"
      "map_of new name = Some (PDict (updated_record rec check (vf_finish io)))" by auto
  with run(1) o' new(3) show ?thesis by (intro exI conjI) (auto simp del: map_of_eq_Some_iff)
qed

lemma snapshot_set_of:
  assumes "snapshot sha256 float_of uid sio config = Inr s" and "map_of (sn_sets s) name = Some r"
  shows "\<exists>text. sn_run sio [''nft'', ''-j'', ''list'', ''set'', ''inet'', ''banIP'', name @ ''.v4''] MAX_BYTES False = Inr text
    \<and> nft_set sha256 float_of name text = Inr r"
proof -
  obtain definitions active where sets: "mapE (snapshot_set sha256 float_of sio definitions active) config = Inr (sn_sets s)"
    using assms(1) by (auto simp: snapshot_def)
  have "(name, r) \<in> set (sn_sets s)" using assms(2) by (rule map_of_SomeD)
  then obtain n where "snapshot_set sha256 float_of sio definitions active n = Inr (name, r)"
    using mapE_Inr_set [OF sets] by blast
  then show ?thesis by (auto simp: snapshot_set_def)
qed

lemma parse_feed_networks:
  assumes "parse_feed sha256 name data = Inr r"
  shows "\<exists>ns. feed_networks name data = Inr ns \<and> canonical sha256 ns = Inr (fr_canon r)"
proof -
  define run where "run = bindE (feed_networks name data) (\<lambda>networks. bindE (canonical sha256 networks) (\<lambda>c.
         Inr \<lparr>fr_canon = c, fr_records = length networks, fr_sha = sha256 data\<rparr>))"
  have "run = Inr r"
    using assms unfolding parse_feed_def run_def [symmetric] by (cases run) (auto split: if_splits)
  then show ?thesis unfolding run_def by auto
qed


section \<open>The stored state stays acceptable\<close>

lemma check_value_ok:
  assumes "in_time (clock_value now) t" and "reason_ok reason" and "status \<in> {''verified'', ''error'', ''unknown''}"
  shows "check_ok (check_value status reason now) t = Inr True"
  using assms by (auto simp: check_ok_def check_value_def py_item_def dindex_def epoch_def too_large_def clock_value_def
      str_member_def)

lemma verified_value_ok:
  assumes "in_time (clock_value now) t" and "hexn 64 (cn_sha (fr_canon r))" "hexn 64 (fr_sha r)"
    and "1 \<le> cn_count (fr_canon r)" "cn_count (fr_canon r) \<le> MAX_NETWORKS"
  shows "good_ok (verified_value r now) t = Inr True"
  using assms by (auto simp: good_ok_def verified_value_def py_item_def dindex_def epoch_def too_large_def
      clock_value_def str_member_def count_ok_def)

lemma record_ok_updated:
  assumes "record_ok t (name, PDict rec) = Inr () \<or> rec = []"
    and "in_time (clock_value now) t" and "reason_ok reason" and "status \<in> {''verified'', ''error'', ''unknown''}"
    and "\<And>r. good = Some r \<Longrightarrow> good_ok (verified_value r now) t = Inr True"
  shows "record_ok t (name, PDict (updated_record rec (status, reason, good) now)) = Inr ()"
proof -
  let ?new = "updated_record rec (status, reason, good) now"
  have keys: "list_all (\<lambda>(k, v). k \<in> {''last_check'', ''last_verified''}) ?new"
  proof -
    have "list_all (\<lambda>(k, v). k \<in> {''last_check'', ''last_verified''}) rec"
      using assms(1) by (auto simp: record_ok_def)
    then have "fst ` set rec \<subseteq> {''last_check'', ''last_verified''}" by (auto simp: list_all_iff)
    then have "fst ` set ?new \<subseteq> {''last_check'', ''last_verified''}"
      by (auto simp: updated_record_def dom_dput split: option.splits)
    then show ?thesis by (fastforce simp: list_all_iff)
  qed
  have check: "dindex ?new ''last_check'' = Inr (check_value status reason now)"
    by (simp add: updated_record_def dindex_def)
  have good: "good_ok (dget ?new ''last_verified'') t = Inr True" if "dhas ?new ''last_verified''"
  proof (cases good)
    case None
    with that have "dhas rec ''last_verified''" and same: "dget ?new ''last_verified'' = dget rec ''last_verified''"
      by (simp_all add: updated_record_def)
    moreover have "rec \<noteq> []" using calculation(1) by (auto simp: dhas_def)
    ultimately have "good_ok (dget rec ''last_verified'') t = Inr True"
      using assms(1) by (auto simp: record_ok_def split: if_splits)
    with same show ?thesis by simp
  next
    case (Some r)
    with assms(5) show ?thesis by (simp add: updated_record_def)
  qed
  have ok: "check_ok (check_value status reason now) t = Inr True" by (rule check_value_ok [OF assms(2-4)])
  show ?thesis
    using keys good by (simp add: record_ok_def check ok)
qed

text \<open>The messages of the script's own exceptions are reasons the state may hold.\<close>

definition reasons_ok :: "'a res \<Rightarrow> bool" where
  "reasons_ok r \<longleftrightarrow> (\<forall>m. r = Inl (ProofError m) \<longrightarrow> reason_ok m)"

lemma reasons_ok_intros:
  "reasons_ok (Inr x)"
  "reasons_ok (Inl (ValueError m))" "reasons_ok (Inl TypeError)" "reasons_ok (Inl KeyError)"
  "reason_ok m \<Longrightarrow> reasons_ok (Inl (ProofError m))"
  "reason_ok m \<Longrightarrow> reasons_ok (require_proof b m)"
  by (auto simp: reasons_ok_def require_def)

lemma reasons_ok_bind: "reasons_ok m \<Longrightarrow> (\<And>x. m = Inr x \<Longrightarrow> reasons_ok (f x)) \<Longrightarrow> reasons_ok (bindE m f)"
  by (cases m) (auto simp: reasons_ok_def)

lemma reasons_ok_fold: "(\<And>x s. reasons_ok (f x s)) \<Longrightarrow> reasons_ok (foldE f xs s)"
  by (induction xs arbitrary: s) (auto intro: reasons_ok_intros reasons_ok_bind)

lemma reason_texts:
  "reason_ok ''feed_size_limit''" "reason_ok ''feed_format_invalid''" "reason_ok ''unsupported_prefix_size''"
  "reason_ok ''feed_range_mismatch''" "reason_ok ''nonpublic_feed_prefix''" "reason_ok ''feed_record_limit''"
  "reason_ok ''invalid_address_family''" "reason_ok ''feed_download_failed''" "reason_ok ''snapshot_unavailable''"
  "reason_ok ''concurrent_set_or_runtime_change''" "reason_ok ''active_set_content_mismatch''" "reason_ok ''verified''"
  by code_simp+

lemma reasons_address [simp]: "reasons_ok (ipv4_address s)"
  by (auto simp: ipv4_address_def address_error_def intro: reasons_ok_intros split: option.split)

lemma reasons_network [simp]: "reasons_ok (ipv4_network strict s)"
  by (auto simp: ipv4_network_def address_error_def prefix_from_text_def network_of_def Let_def
      intro!: reasons_ok_intros reasons_ok_bind split: list.split option.split)

lemma reasons_line: "reasons_ok (line_network name raw)"
proof -
  have "reasons_ok (dshield_network parts)" "reasons_ok (plain_network parts)" for parts
    unfolding dshield_network_def plain_network_def Let_def
    by (intro reasons_ok_bind reasons_ok_intros reason_texts reasons_address reasons_network)+
  then show ?thesis
    unfolding line_network_def Let_def
    by (auto intro!: reasons_ok_bind reasons_ok_intros reason_texts)
qed

lemma reasons_parse_feed: "reasons_ok (parse_feed sha256 name data)"
proof -
  have step: "reasons_ok (feed_step name raw ns)" for raw ns
    unfolding feed_step_def
    by (rule reasons_ok_bind [OF reasons_line]) (auto intro!: reasons_ok_bind reasons_ok_intros reason_texts split: option.split)
  have "reasons_ok (feed_networks name data)"
    unfolding feed_networks_def by (auto intro!: reasons_ok_fold step reasons_ok_intros)
  moreover have "reasons_ok (canonical sha256 ns)" for ns
    unfolding canonical_def Let_def by (intro reasons_ok_bind reasons_ok_intros reason_texts)
  ultimately have inner: "reasons_ok (bindE (feed_networks name data) (\<lambda>networks. bindE (canonical sha256 networks) (\<lambda>c.
         Inr \<lparr>fr_canon = c, fr_records = length networks, fr_sha = sha256 data\<rparr>)))" (is "reasons_ok ?run")
    by (intro reasons_ok_bind reasons_ok_intros)
  have "reasons_ok (case ?run of Inr r \<Rightarrow> Inr r
     | Inl e \<Rightarrow>
         (if is_proof_error e then Inl e
          else if is_value_error e \<or> e = TypeError then Inl (ProofError ''feed_format_invalid'') else Inl e))"
    using inner reason_texts(2) by (cases ?run) (auto simp: reasons_ok_def is_proof_error_def)
  then show ?thesis unfolding parse_feed_def by (intro reasons_ok_bind reasons_ok_intros reason_texts)
qed

lemma proof_reason_ok: "reasons_ok (Inl e) \<Longrightarrow> reason_ok other \<Longrightarrow> reason_ok (proof_reason other e)"
  by (cases e) (auto simp: proof_reason_def reasons_ok_def)

text \<open>Every outcome that is gathered has an acceptable reason.\<close>

lemma gather_reasons:
  assumes "gather sha256 io config = Inr (results, snaps)" and "(name, Inl reason) \<in> set results"
    and "reasons_ok (vf_before io)" "reasons_ok (vf_after io)" "\<And>n. reasons_ok (vf_download io n)"
  shows "reason_ok reason"
proof -
  define run where "run = bindE (vf_before io) (\<lambda>before. bindE (mapE (feed_outcome sha256 (vf_download io)) config) (\<lambda>results.
         bindE (vf_after io) (\<lambda>after. Inr (results, Some (before, after)))))"
  have out: "(case run of Inr r \<Rightarrow> Inr r
      | Inl e \<Rightarrow> if caught e then Inr (map (\<lambda>n. (n, Inl (proof_reason ''snapshot_unavailable'' e))) config, None)
          else Inl e) = Inr (results, snaps)"
    using assms(1) by (simp add: gather_def run_def)
  have feed: "reasons_ok (bindE (vf_download io n) (parse_feed sha256 n))" for n
    using assms(5) reasons_parse_feed by (intro reasons_ok_bind)
  have outcome: "reason_ok m" if "feed_outcome sha256 (vf_download io) n = Inr (k, Inl m)" for n k m
    using that feed [of n] reason_texts(8)
    by (cases "bindE (vf_download io n) (parse_feed sha256 n)")
      (auto simp: feed_outcome_def intro!: proof_reason_ok split: if_splits)
  have "reasons_ok (mapE (feed_outcome sha256 (vf_download io)) config)"
  proof (induction config)
    case (Cons n config)
    have "reasons_ok (feed_outcome sha256 (vf_download io) n)"
      by (cases "bindE (vf_download io n) (parse_feed sha256 n)")
        (auto simp: feed_outcome_def reasons_ok_def is_value_error_def is_proof_error_def)
    with Cons show ?case by (auto intro!: reasons_ok_bind reasons_ok_intros)
  qed (simp add: reasons_ok_intros)
  then have "reasons_ok run"
    unfolding run_def using assms(3,4) by (intro reasons_ok_bind reasons_ok_intros)
  show ?thesis
  proof (cases run)
    case (Inl e)
    with out \<open>reasons_ok run\<close> assms(2) reason_texts(9) show ?thesis
      by (auto intro: proof_reason_ok split: if_splits)
  next
    case (Inr p)
    then have "mapE (feed_outcome sha256 (vf_download io)) config = Inr results"
      using out unfolding run_def by auto
    from mapE_Inr_set [OF this assms(2)] outcome show ?thesis by blast
  qed
qed

lemma check_feed_ok:
  assumes "check_feed snaps (name, outcome) = Inr (status, reason, good)"
    and "\<And>m. outcome = Inl m \<Longrightarrow> reason_ok m"
  shows "status \<in> {''verified'', ''error'', ''unknown''} \<and> reason_ok reason \<and> (\<forall>r. good = Some r \<longrightarrow> outcome = Inr r)"
proof (cases outcome)
  case (Inl m)
  with assms show ?thesis by (auto simp: check_feed_def)
next
  case (Inr r)
  show ?thesis
  proof (cases snaps)
    case None
    with assms Inr show ?thesis by (simp add: check_feed_def)
  next
    case (Some p)
    then obtain before after where p: "p = (before, after)" by (cases p)
    show ?thesis
    proof (cases "before = after")
      case True
      with assms Inr Some p reason_texts(11,12) show ?thesis
        by (cases "map_of (sn_sets after) name") (auto simp: check_feed_def split: if_splits)
    next
      case False
      with assms Inr Some p reason_texts(10) show ?thesis by (auto simp: check_feed_def)
    qed
  qed
qed

lemma parsed_value_ok:
  assumes "parse_feed sha256 name data = Inr r" and "\<And>x. hexn 64 (sha256 x)" and "in_time (clock_value now) t"
  shows "good_ok (verified_value r now) t = Inr True"
proof -
  from parse_feed_networks [OF assms(1)] obtain ns where ns: "feed_networks name data = Inr ns"
      "canonical sha256 ns = Inr (fr_canon r)" by blast
  note valid = feed_networks_valid [OF ns(1)]
  have c: "fr_canon r = \<lparr>cn_sha = sha256 (nets_text (collapse_addresses ns)), cn_count = length (collapse_addresses ns)\<rparr>"
      "ns \<noteq> []" "length ns \<le> MAX_NETWORKS"
    using ns(2) by (auto simp: canonical_def Let_def)
  have "1 \<le> cn_count (fr_canon r)" "cn_count (fr_canon r) \<le> MAX_NETWORKS"
    using c collapse_not_empty [OF valid c(2)] length_collapse [OF valid]
    by (simp_all add: Suc_le_eq)
  moreover have "hexn 64 (fr_sha r)"
  proof -
    define run where "run = bindE (feed_networks name data) (\<lambda>networks. bindE (canonical sha256 networks) (\<lambda>c.
         Inr \<lparr>fr_canon = c, fr_records = length networks, fr_sha = sha256 data\<rparr>))"
    have "run = Inr r"
      using assms(1) unfolding parse_feed_def run_def [symmetric] by (cases run) (auto split: if_splits)
    with assms(2) show ?thesis unfolding run_def by auto
  qed
  ultimately show ?thesis using assms(2,3) c(1) by (intro verified_value_ok) simp_all
qed

lemma stored_records_ok:
  assumes "foldE (store_check snaps now) results feeds = Inr new"
    and "\<forall>kv \<in> set feeds. fst kv \<in> set config \<and> record_ok t kv = Inr ()"
    and "\<And>name outcome. (name, outcome) \<in> set results \<Longrightarrow> name \<in> set config \<and> (\<forall>m. outcome = Inl m \<longrightarrow> reason_ok m)
      \<and> (\<forall>r. outcome = Inr r \<longrightarrow> good_ok (verified_value r now) t = Inr True)"
    and "in_time (clock_value now) t"
  shows "\<forall>kv \<in> set new. fst kv \<in> set config \<and> record_ok t kv = Inr ()"
proof (rule foldE_invariant [where P = "\<lambda>feeds. \<forall>kv \<in> set feeds. fst kv \<in> set config \<and> record_ok t kv = Inr ()",
      OF assms(1,2)])
  fix o' feeds new
  assume o': "o' \<in> set results" and feeds: "\<forall>kv \<in> set feeds. fst kv \<in> set config \<and> record_ok t kv = Inr ()"
    and step: "store_check snaps now o' feeds = Inr new"
  obtain name outcome where n: "o' = (name, outcome)" by (cases o')
  from store_check_get [OF step] n obtain check rec where s: "check_feed snaps (name, outcome) = Inr check"
      "dget_or feeds name (PDict []) = PDict rec" "new = dput name (PDict (updated_record rec check now)) feeds" by auto
  obtain status reason good where check: "check = (status, reason, good)" by (cases check)
  note out = assms(3) [OF o' [unfolded n]]
  from check_feed_ok [OF s(1) [unfolded check]] out
  have ok: "status \<in> {''verified'', ''error'', ''unknown''}" "reason_ok reason" "\<And>r. good = Some r \<Longrightarrow> outcome = Inr r" by blast+
  have "record_ok t (name, PDict rec) = Inr () \<or> rec = []"
  proof (cases "map_of feeds name")
    case None
    with s(2) show ?thesis by (simp add: dget_or_def)
  next
    case (Some v)
    with s(2) have "(name, PDict rec) \<in> set feeds" by (auto simp: dget_or_def dest: map_of_SomeD)
    with feeds show ?thesis by auto
  qed
  then have "record_ok t (name, PDict (updated_record rec check now)) = Inr ()"
    unfolding check using ok out by (intro record_ok_updated assms(4)) auto
  with feeds out s(3) set_dput [of name "PDict (updated_record rec check now)" feeds]
  show "\<forall>kv \<in> set new. fst kv \<in> set config \<and> record_ok t kv = Inr ()" by fastforce
qed

lemma checked_state_iff:
  "checked_state sha256 config t d = Inr e \<longleftrightarrow> e = d \<and> dget d ''schema'' = PInt 1
     \<and> dget d ''definition_sha256'' = PStr (definition_hash sha256 config)
     \<and> (\<exists>feeds. map_of d ''feeds'' = Some (PDict feeds) \<and> (\<forall>kv \<in> set feeds. fst kv \<in> set config \<and> record_ok t kv = Inr ()))"
proof (cases "dget d ''feeds''")
  case (PDict feeds)
  then have "map_of d ''feeds'' = Some (PDict feeds)" by (auto simp: dget_or_def split: option.splits)
  then show ?thesis
    using mapE_unit [of "record_ok t" feeds] PDict
    by (auto simp: checked_state_def list_all_iff case_prod_unfold)
qed (auto simp: checked_state_def dget_or_def split: option.splits)


section \<open>The command ends\<close>

lemma run_loop_ends: "deadline \<le> fst (ev (n + k)) \<Longrightarrow> \<exists>r. run_loop ev deadline maximum n got = Some r"
proof (induction k arbitrary: n got)
  case 0
  then show ?case by (subst run_loop.simps) simp
next
  case (Suc k)
  then have "\<exists>r. run_loop ev deadline maximum (Suc n) out = Some r" for out by simp
  then show ?case by (subst run_loop.simps) (simp split: option.split)
qed

lemma wait_reload_ends: "deadline \<le> fst (ev (n + k)) \<Longrightarrow> \<exists>r. wait_reload ev deadline generation n = Some r"
proof (induction k arbitrary: n)
  case 0
  then show ?case by (subst wait_reload.simps) simp
next
  case (Suc k)
  then have "\<exists>r. wait_reload ev deadline generation (Suc n) = Some r" by simp
  then show ?case by (subst wait_reload.simps) (simp split: sum.split)
qed


section \<open>An example run\<close>

definition ex_time :: string where "ex_time = ''mode: reload, date / time: 01/02/2024 03:04:05,''"

definition ex_runtime :: pyval where
  "ex_runtime = PDict [(''status'', PStr ''active''), (''last_run'', PStr ex_time), (''active_feeds'', PList [PStr ''feodo.v4''])]"

definition ex_definitions :: pyval where
  "ex_definitions = PDict [(''feodo'', PDict (registry_entry ''feodo''))]"

definition ex_set :: pyval where
  "ex_set = PDict [(''nftables'', PList [PDict [(''set'', PDict [(''family'', PStr ''inet''), (''table'', PStr ''banIP''),
     (''name'', PStr ''feodo.v4''), (''type'', PStr ''ipv4_addr''), (''flags'', PList [PStr ''interval'']),
     (''elem'', PList [PStr ''1.2.3.4''])])]])]"

definition ex_file :: "pyval \<Rightarrow> json_file" where
  "ex_file v = \<lparr>jf_lstat = Inr \<lparr>bs_regular = True, bs_directory = False, bs_links = 1, bs_uid = 0, bs_mode = 384, bs_size = 9\<rparr>,
     jf_text = Inr (json_enc json_compact v)\<rparr>"

definition ex_command :: "string list \<Rightarrow> nat \<Rightarrow> bool \<Rightarrow> string res" where
  "ex_command args maximum missing =
     (if hd args = ''nft'' then Inr (json_enc json_compact ex_set)
      else if last args = ''banip.global.ban_feed'' then Inr ''feodo''
      else if last args = ''banip.global.ban_enabled'' then Inr ''1'' else Inr [])"

definition ex_snap_io :: snap_io where
  "ex_snap_io = \<lparr>sn_runtime = ex_file ex_runtime, sn_run = ex_command, sn_definitions = ex_file ex_definitions,
     sn_custom_symlink = False, sn_custom_size = Inr None, sn_runtime_end = ex_file ex_runtime\<rparr>"

definition ex_sha :: "string \<Rightarrow> string" where "ex_sha s = replicate 64 CHR ''a''"

definition ex_float :: "string \<Rightarrow> pyfloat" where "ex_float s = FNaN"

definition ex_canon :: canon where "ex_canon = \<lparr>cn_sha = ex_sha [], cn_count = 1\<rparr>"

definition ex_snap :: snap where
  "ex_snap = \<lparr>sn_generation = ex_time, sn_sets = [(''feodo'', \<lparr>nr_canon = ex_canon, nr_elements = 1\<rparr>)]\<rparr>"

lemma ex_feed_read:
  "no_floats (PDict d) \<Longrightarrow> wf_val (PDict d) \<Longrightarrow> 9 \<le> maximum \<Longrightarrow>
     read_json ex_float 0 (ex_file (PDict d)) maximum private = Inr d"
  using json_roundtrip [OF json_formats_ok(2) no_floats_json_ok [of "PDict d" ex_float]]
  by (simp add: read_json_def ex_file_def del: no_floats.simps wf_val.simps json_enc.simps)

lemma ex_networks: "collapse_addresses [(16909060, 32)] = [(16909060, 32)]"
  by code_simp

lemma ex_feed_canonical: "canonical ex_sha [(16909060, 32)] = Inr ex_canon"
  by (simp add: canonical_def ex_networks ex_canon_def MAX_NETWORKS_def ex_sha_def)

lemma ex_text_length: "length (json_enc json_compact ex_set) \<le> MAX_BYTES"
proof -
  have "length (json_enc json_compact ex_set) \<le> 400" by code_simp
  then show ?thesis by (simp add: MAX_BYTES_def)
qed

lemma ex_set_ok: "no_floats ex_set" "wf_val ex_set"
  by code_simp+

lemma ex_loads: "json_loads_bytes ex_float (json_enc json_compact ex_set) = Inr ex_set"
proof -
  have "list_all (\<lambda>c. ord_of c < 128) (json_enc json_compact ex_set)"
    using ascii_json_enc [OF ex_set_ok(1)] by (simp add: is_ascii_def)
  then have "utf8_decode (json_enc json_compact ex_set) = Some (json_enc json_compact ex_set)"
    using utf8_roundtrip [of "json_enc json_compact ex_set"] by (simp only: utf8_encode_ascii)
  then show ?thesis
    using json_roundtrip [of json_compact ex_float ex_set] no_floats_json_ok [OF ex_set_ok]
    by (simp add: json_loads_bytes_def)
qed

lemma ex_elements: "nft_elements ex_float ''feodo'' (json_enc json_compact ex_set) = Inr [PStr ''1.2.3.4'']"
  by (simp add: nft_elements_def ex_text_length ex_loads) 
     (simp add: ex_set_def py_item_def dindex_def py_list_of_def nft_collect_def key_in_def dhas_def nft_identity_def
       set_is_def unhashable_def dget_or_def MAX_NETWORKS_def)

lemma ex_nft: "nft_set ex_sha ex_float ''feodo'' (json_enc json_compact ex_set) = Inr \<lparr>nr_canon = ex_canon, nr_elements = 1\<rparr>"
proof -
  have "nft_networks (PStr ''1.2.3.4'') = Inr [(16909060, 32)]" by code_simp
  then have "foldE nft_step [PStr ''1.2.3.4''] [] = Inr [(16909060, 32)]"
    by (simp add: nft_step_def MAX_NETWORKS_def)
  then show ?thesis by (simp add: nft_set_def ex_elements ex_feed_canonical)
qed

lemma ex_feed_generation: "re_match RUNTIME_RX ex_time \<noteq> None" "strptime_ok (group (snd (snd (the (re_match RUNTIME_RX ex_time)))) 1)"
  by code_simp+


lemma ex_member: "registry_entry ''feodo'' = the (map_of REGISTRY ''feodo'')"
  by (simp add: registry_entry_def REGISTRY_def)

lemma ex_snapshot: "snapshot ex_sha ex_float 0 ex_snap_io [''feodo''] = Inr ex_snap"
proof -
  obtain runtime where r: "ex_runtime = PDict runtime" by (simp add: ex_runtime_def)
  obtain defs where d: "ex_definitions = PDict defs" by (simp add: ex_definitions_def)
  have ok: "no_floats ex_runtime" "wf_val ex_runtime" "no_floats ex_definitions" "wf_val ex_definitions"
    by code_simp+
  have reads: "read_json ex_float 0 (ex_file ex_runtime) 32768 False = Inr runtime"
      "read_json ex_float 0 (ex_file ex_definitions) (512 * 1024) False = Inr defs"
    using ok unfolding r d by (intro ex_feed_read; simp)+
  have gen: "runtime_generation runtime = Inr ex_time"
  proof -
    obtain b t caps where m: "re_match RUNTIME_RX ex_time = Some (b, t, caps)" using ex_feed_generation(1) by auto
    have "strptime_ok (group caps 1)" using ex_feed_generation(2) m by simp
    moreover have "length ex_time \<le> 512" "ex_time \<noteq> []" by (simp_all add: ex_time_def)
    ultimately show ?thesis
      using r [unfolded ex_runtime_def] m by (auto simp: runtime_generation_def dget_or_def)
  qed
  have feeds: "configured_feeds ex_snap_io [''feodo''] = Inr ()" by code_simp
  have paths: "definition_path ex_snap_io (''ban_feedfile'', DEFINITIONS_PATH) = Inr ()"
      "definition_path ex_snap_io (''ban_customfeedfile'', CUSTOM_PATH) = Inr ()"
    by code_simp+
  have active: "active_feeds (dget runtime ''active_feeds'') = Inr [PStr ''feodo.v4'']"
    using r [unfolded ex_runtime_def] by (auto simp: dget_or_def active_feeds_def str_member_def feed_name_ok_def feed_char_def) (code_simp+)?
  have same: "definition_same ''feodo'' (PDict (registry_entry ''feodo'')) = Inr True" by code_simp
  have set: "snapshot_set ex_sha ex_float ex_snap_io defs [PStr ''feodo.v4''] ''feodo'' =
      Inr (''feodo'', \<lparr>nr_canon = ex_canon, nr_elements = 1\<rparr>)"
    using d [unfolded ex_definitions_def]
    by (auto simp: snapshot_set_def dindex_def same ex_snap_io_def ex_command_def ex_nft)
  have final: "same_runtime runtime ex_time [PStr ''feodo.v4'']"
    using r [unfolded ex_runtime_def] by (auto simp: same_runtime_def dget_or_def)
  have io: "sn_runtime ex_snap_io = ex_file ex_runtime" "sn_definitions ex_snap_io = ex_file ex_definitions"
      "sn_runtime_end ex_snap_io = ex_file ex_runtime" "\<not> sn_custom_symlink ex_snap_io" "sn_custom_size ex_snap_io = Inr None"
    by (simp_all add: ex_snap_io_def)
  show ?thesis
    unfolding snapshot_def by (simp only: io reads gen feeds paths active set final bindE_simps mapE.simps require_simps
      if_False insertI1 ex_snap_def)
qed


definition ex_config :: "string list" where "ex_config = [''feodo'']"

definition ex_verify :: verify_io where
  "ex_verify = \<lparr>vf_before = snapshot ex_sha ex_float 0 ex_snap_io ex_config, vf_download = (\<lambda>_. Inr ''1.2.3.4''),
     vf_after = snapshot ex_sha ex_float 0 ex_snap_io ex_config,
     vf_start = (''1700000000.0'', 1700000000), vf_finish = (''1700000005.0'', 1700000005)\<rparr>"

definition ex_result :: feed_result where
  "ex_result = \<lparr>fr_canon = ex_canon, fr_records = 1, fr_sha = ex_sha []\<rparr>"

definition ex_out :: pydict where
  "ex_out = dput ''feeds'' (PDict [(''feodo'',
     PDict (updated_record [] (''verified'', ''verified'', Some ex_result) (vf_finish ex_verify)))]) (initial_state ex_sha ex_config)"

lemma ex_times: "in_time (clock_value (vf_finish ex_verify)) 1700000005" "trusted_clock (vf_start ex_verify) = Inr ()"
    "finished ex_verify = Inr ()"
  by (simp_all add: ex_verify_def clock_value_def in_time_def number_of_def trusted_clock_def finished_def epoch_def
      too_large_def)

lemma ex_parse: "parse_feed ex_sha ''feodo'' ''1.2.3.4'' = Inr ex_result"
proof -
  have lines: "py_splitlines ''1.2.3.4'' = [''1.2.3.4'']" "is_ascii ''1.2.3.4''" "in_registry ''feodo''" by code_simp+
  have "line_network ''feodo'' ''1.2.3.4'' = Inr (Some (16909060, 32))" by code_simp
  then have "feed_networks ''feodo'' ''1.2.3.4'' = Inr [(16909060, 32)]"
    by (simp add: feed_networks_def lines feed_step_def MAX_NETWORKS_def)
  then show ?thesis
    by (simp add: parse_feed_def lines MAX_BYTES_def ex_feed_canonical ex_result_def ex_sha_def)
qed

lemma ex_initial: "json_copy ex_float (initial_state ex_sha ex_config) = Inr (PDict (initial_state ex_sha ex_config))"
    "json_ok ex_float (PDict (initial_state ex_sha ex_config))"
proof -
  have "no_floats (PDict (initial_state ex_sha ex_config))" "wf_val (PDict (initial_state ex_sha ex_config))"
    by (simp_all add: initial_state_def)
  then show ok: "json_ok ex_float (PDict (initial_state ex_sha ex_config))" by (rule no_floats_json_ok)
  show "json_copy ex_float (initial_state ex_sha ex_config) = Inr (PDict (initial_state ex_sha ex_config))"
    unfolding json_copy_def by (rule json_roundtrip [OF _ ok]) simp
qed

lemma ex_verified: "verify ex_sha ex_float ex_verify ex_config (initial_state ex_sha ex_config) = Inr ex_out"
proof -
  have "feed_outcome ex_sha (vf_download ex_verify) ''feodo'' = Inr (''feodo'', Inr ex_result)"
    by (simp add: feed_outcome_def ex_verify_def ex_parse)
  then have "gather ex_sha ex_verify ex_config = Inr ([(''feodo'', Inr ex_result)], Some (ex_snap, ex_snap))"
    by (simp add: gather_def ex_config_def) (simp add: ex_verify_def ex_config_def ex_snapshot)
  moreover have "check_feed (Some (ex_snap, ex_snap)) (''feodo'', Inr ex_result) = Inr (''verified'', ''verified'', Some ex_result)"
    by (simp add: check_feed_def ex_snap_def ex_result_def)
  then have "store_check (Some (ex_snap, ex_snap)) (vf_finish ex_verify) (''feodo'', Inr ex_result) [] =
      Inr [(''feodo'', PDict (updated_record [] (''verified'', ''verified'', Some ex_result) (vf_finish ex_verify)))]"
    by (simp add: store_check_def put_record_def dget_or_def dput_def)
  moreover have "dindex (initial_state ex_sha ex_config) ''feeds'' = Inr (PDict [])"
    by (simp add: initial_state_def dindex_def)
  ultimately show ?thesis
    by (simp add: verify_def ex_times ex_initial(1) with_feeds_def py_item_def ex_out_def)
qed




definition ex_child :: child_io where
  "ex_child = \<lparr>ch_start = Inr (), ch_clock = 0, ch_events = (\<lambda>n. (of_nat n, None)), ch_code = Inr 0,
     ch_alive = True, ch_reap = Inr ()\<rparr>"

definition ex_state_io :: state_io where
  "ex_state_io = \<lparr>st_parent = Inr \<lparr>bs_regular = False, bs_directory = True, bs_links = 1, bs_uid = 0, bs_mode = 448, bs_size = 9\<rparr>,
     st_part = False, st_exists = False, st_symlink = False, st_file = ex_file ex_runtime\<rparr>"

definition ex_proof_io :: proof_io where
  "ex_proof_io = \<lparr>pf_uid = 0, pf_config = ex_file (PDict [(''schema'', PInt 1), (''feeds'', PList [PStr ''feodo''])]),
     pf_meminfo = Inr ''MemAvailable: 99999 kB'', pf_loadavg = Inr 1, pf_cpus = 4, pf_state = ex_state_io,
     pf_state_now = vf_start ex_verify, pf_lock = Inr \<lparr>bs_regular = True, bs_directory = False, bs_links = 1, bs_uid = 0, bs_mode = 384, bs_size = 0\<rparr>, pf_flock = Inr (), pf_locked_state = ex_state_io,
     pf_locked_now = vf_start ex_verify, pf_refresh = Inr ex_snap, pf_reload = run_command ex_child 16384 15 False,
     pf_reload_clock = 0, pf_wait = (\<lambda>n. (of_nat n, Inr ex_snap)), pf_verify = ex_verify,
     pf_failed_now = vf_start ex_verify, pf_parent = st_parent ex_state_io,
     pf_save = \<lparr>io_ok = (\<lambda>_. True), io_written = 0, io_temp = []\<rparr>, pf_current = Inr ex_snap,
     pf_summary_now = 1700000006\<rparr>"


end
