(* ===== verification/Security_Monitor.thy ===== *)
theory Security_Monitor
  imports Feed_Verify
begin

text \<open>
  \<open>security_monitor.py\<close>: the configuration, the check of the feed proof that
  \<open>banip_feed_proof.py status\<close> prints, the heartbeat, and the loop that delivers it.  The
  runtime file, the local time zone, the helper process, \<open>logger\<close> and the stop signal are
  arguments.
\<close>

section \<open>Reading\<close>

text \<open>\<open>mo_data\<close> is what \<open>open\<close> and one read of \<open>maximum + 1\<close> bytes give.\<close>

definition read_bounded :: "(string \<Rightarrow> pyfloat) \<Rightarrow> string res \<Rightarrow> nat \<Rightarrow> pydict res" where
  [py_defs]: "read_bounded float_of answer maximum = bindE answer (\<lambda>data.
     if length data > maximum then Inl (ValueError ''oversized_json'')
     else bindE (json_loads_bytes float_of data) (\<lambda>v. case v of
         PDict d \<Rightarrow> Inr d | _ \<Rightarrow> Inl (ValueError ''invalid_json_object'')))"

definition sensor_char :: "char \<Rightarrow> bool" where
  [py_defs]: "sensor_char c \<longleftrightarrow> ascii_lower c \<or> ascii_digit c \<or> c \<in> set ''_.-''"

definition sensor_ok :: "string \<Rightarrow> bool" where
  [py_defs]: "sensor_ok s \<longleftrightarrow> s \<noteq> [] \<and> (ascii_lower (hd s) \<or> ascii_digit (hd s)) \<and> length s \<le> 64
     \<and> list_all sensor_char (tl s)"

record monitor_config =
  mc_sensor :: string
  mc_interval :: int
  mc_feeds :: bool

definition monitor_settings :: "(string \<Rightarrow> pyfloat) \<Rightarrow> string res \<Rightarrow> monitor_config res" where
  [py_defs]: "monitor_settings float_of answer = bindE (read_bounded float_of answer 4096) (\<lambda>d.
     case dget d ''sensor'' of
       PStr sensor \<Rightarrow>
         (if \<not> sensor_ok sensor then Inl (ValueError ''invalid_sensor'')
          else (case dget d ''interval_seconds'' of
              PInt interval \<Rightarrow>
                (if \<not> (60 \<le> interval \<and> interval \<le> 300) then Inl (ValueError ''invalid_interval'')
                 else (case dget_or d ''feed_verification_enabled'' (PBool False) of
                     PBool b \<Rightarrow> Inr \<lparr>mc_sensor = sensor, mc_interval = interval, mc_feeds = b\<rparr>
                   | _ \<Rightarrow> Inl (ValueError ''invalid_feed_verification_flag'')))
            | _ \<Rightarrow> Inl (ValueError ''invalid_interval'')))
     | _ \<Rightarrow> Inl (ValueError ''invalid_sensor''))"

section \<open>The helper process\<close>

definition PROOF_LIMIT :: nat where [py_defs]: "PROOF_LIMIT = 2048"

partial_function (option) proof_loop :: "(nat \<Rightarrow> read_event) \<Rightarrow> rat \<Rightarrow> nat \<Rightarrow> string \<Rightarrow> string res option" where
  "proof_loop ev deadline n output =
     (if deadline \<le> fst (ev n) then Some (Inl (ValueError ''feed_proof_timeout''))
      else (case snd (ev n) of
          None \<Rightarrow> proof_loop ev deadline (Suc n) output
        | Some chunk \<Rightarrow>
            (if chunk = [] then Some (Inr output)
             else if length (output @ chunk) > PROOF_LIMIT then Some (Inl (ValueError ''oversized_feed_proof''))
             else proof_loop ev deadline (Suc n) (output @ chunk))))"

definition read_feed_proof :: "(string \<Rightarrow> pyfloat) \<Rightarrow> child_io \<Rightarrow> pyval res option" where
  [py_defs]: "read_feed_proof float_of io = (case ch_start io of
       Inl e \<Rightarrow> Some (Inl e)
     | Inr u \<Rightarrow>
         map_option (\<lambda>r.
           let body = bindE r (\<lambda>output. bindE (ch_code io) (\<lambda>code.
             if code \<noteq> 0 then Inl (ValueError ''feed_proof_unavailable'') else json_loads_bytes float_of output))
           in if ch_alive io then bindE (ch_reap io) (\<lambda>_. body) else body)
         (proof_loop (ch_events io) (fl (ch_clock io + 12)) 0 []))"

section \<open>Checking the proof\<close>

definition invalid_proof :: "'a res" where [py_defs]: "invalid_proof = Inl (ValueError ''invalid_feed_proof'')"

text \<open>\<open>x in {...}\<close>: an unhashable value raises.\<close>

definition in_set :: "pyval \<Rightarrow> string list \<Rightarrow> bool res" where
  [py_defs]: "in_set x ks = (if unhashable x then Inl TypeError else Inr (\<exists>k \<in> set ks. x = PStr k))"

definition STATUSES :: "string list" where
  [py_defs]: "STATUSES = [''verified'', ''error'', ''unknown'', ''stale'']"

text \<open>The times of a row: with a time of verification, an age that fits the clock and a count.\<close>

definition age_fits :: "pyval \<Rightarrow> rat \<Rightarrow> pyval \<Rightarrow> bool" where
  [py_defs]: "age_fits age now stamp \<longleftrightarrow> (case (age, number_of stamp) of
       (PInt a, Some t) \<Rightarrow> 0 \<le> a \<and> \<bar>a - age_at now t\<bar> \<le> 30 | _ \<Rightarrow> False)"

definition int_value :: "pyval \<Rightarrow> int" where
  [py_defs]: "int_value v = (case v of PInt i \<Rightarrow> i | _ \<Rightarrow> 0)"

definition checked_times :: "rat \<Rightarrow> pyval \<Rightarrow> pyval \<Rightarrow> pyval \<Rightarrow> pyval \<Rightarrow> unit res" where
  [py_defs]: "checked_times now status stamp age count =
     (if stamp = PNone then
        (if age \<noteq> PNone \<or> count \<noteq> PNone \<or> status \<in> {PStr ''verified'', PStr ''stale''} then invalid_proof else Inr ())
      else bindE (epoch stamp now) (\<lambda>ok.
        if \<not> ok \<or> \<not> age_fits age now stamp \<or> \<not> count_ok count
           \<or> status = PStr ''verified'' \<and> int_value age > MAX_PROOF_AGE then invalid_proof else Inr ()))"

definition checked_row :: "rat \<Rightarrow> pyval \<Rightarrow> pyval res" where
  [py_defs]: "checked_row now row = (case row of
       PDict d \<Rightarrow>
         bindE (in_set (dget d ''feed'') [''dshield.v4'', ''feodo.v4'']) (\<lambda>known.
         if \<not> known then invalid_proof
         else bindE (in_set (dget d ''status'') STATUSES) (\<lambda>valid.
           if \<not> valid then invalid_proof
           else bindE (checked_times now (dget d ''status'') (dget d ''verified_at'') (dget d ''age_seconds'')
                  (dget d ''last_verified_count'')) (\<lambda>_.
             Inr (PDict [(''feed'', dget d ''feed''), (''status'', dget d ''status''), (''verified_at'', dget d ''verified_at''),
               (''age_seconds'', dget d ''age_seconds''), (''last_verified_count'', dget d ''last_verified_count'')]))))
     | _ \<Rightarrow> invalid_proof)"

definition row_age :: "pyval \<Rightarrow> int option" where
  [py_defs]: "row_age row = (case dict_value row ''age_seconds'' of PInt i \<Rightarrow> Some i | _ \<Rightarrow> None)"

definition checked_feed_proof :: "pyval \<Rightarrow> rat \<Rightarrow> pydict res" where
  [py_defs]: "checked_feed_proof v now = (case v of
       PDict d \<Rightarrow>
         bindE (in_set (dget d ''status'') STATUSES) (\<lambda>valid.
         if \<not> valid then invalid_proof
         else (case dget d ''feeds'' of
             PList rows \<Rightarrow>
               (if \<not> (1 \<le> length rows \<and> length rows \<le> 2) then invalid_proof
                else bindE (mapE (checked_row now) rows) (\<lambda>result.
                  let combined = combined_status (map (\<lambda>r. dict_value r ''status'') result);
                      maximum = opt_int (largest_age (map row_age result)) in
                  if \<not> distinct (map (\<lambda>r. dict_value r ''feed'') result) then invalid_proof
                  else if dget d ''status'' \<noteq> PStr combined \<or> \<not> py_eq (dget d ''age_seconds'') maximum then invalid_proof
                  else Inr [(''banip_feed_verification'', PStr combined), (''banip_feed_max_age_seconds'', maximum),
                    (''banip_feed_results'', PList result)]))
           | _ \<Rightarrow> invalid_proof))
     | _ \<Rightarrow> invalid_proof)"

section \<open>The heartbeat\<close>

text \<open>\<open>isoformat\<close> of a time in UTC, with microseconds unless they are zero.\<close>

definition iso_offset :: "int \<Rightarrow> int \<Rightarrow> string" where
  [py_defs]: "iso_offset secs us = butlast (iso_text secs) @ (if us = 0 then [] else ''.'' @ pad 6 us) @ ''+00:00''"

definition utc_iso :: "rat \<Rightarrow> string res" where
  [py_defs]: "utc_iso x =
     (let whole = (if x < 0 then \<lceil>x\<rceil> else \<lfloor>x\<rfloor>); us = round_even (fl ((x - of_int whole) * 1000000));
          secs = whole + us div 1000000 in
      if MIN_SECONDS \<le> secs \<and> secs < MAX_SECONDS then Inr (iso_offset secs (us mod 1000000))
      else Inl (ValueError ''year is out of range''))"

record heartbeat_io =
  hb_runtime :: "string res"
  hb_local :: "string \<Rightarrow> int res"
  hb_proof :: "pyval res"

definition version_char :: "char \<Rightarrow> bool" where
  [py_defs]: "version_char c \<longleftrightarrow> ascii_alnum c \<or> c \<in> set ''_.+-''"

definition version_ok :: "pyval \<Rightarrow> bool" where
  [py_defs]: "version_ok v \<longleftrightarrow> str_member (\<lambda>s. s \<noteq> [] \<and> length s \<le> 64 \<and> list_all version_char s) v"

definition LAST_RUN :: rx where
  [py_defs]: "LAST_RUN = rseq [StartOfText, rlit ''mode: '', Grp 1 (rplus (Cls ascii_lower)),
     rlit '', date / time: '', Grp 2 (rseq [rtimes 2 digit_rx, lit_char CHR ''/'', rtimes 2 digit_rx, lit_char CHR ''/'',
       rtimes 4 digit_rx, lit_char CHR '' '', rtimes 2 digit_rx, lit_char CHR '':'', rtimes 2 digit_rx, lit_char CHR '':'',
       rtimes 2 digit_rx]), lit_char CHR '','']"

definition base_record :: "string \<Rightarrow> string \<Rightarrow> pydict" where
  [py_defs]: "base_record sensor timestamp =
     [(''schema'', PInt 1), (''security_source'', PStr ''openwrt''), (''sensor'', PStr sensor),
      (''log_type'', PStr ''heartbeat''), (''timestamp'', PStr timestamp), (''banip_status'', PStr ''unknown''),
      (''banip_last_run_utc'', PNone), (''banip_run_age_seconds'', PNone), (''banip_run_mode'', PNone),
      (''banip_feed_verification'', PStr ''unknown'')]"

text \<open>The time of the last run: the record after this part, or what was raised.\<close>

definition last_run_fields :: "heartbeat_io \<Rightarrow> rat \<Rightarrow> pyval \<Rightarrow> pydict \<Rightarrow> pydict res" where
  [py_defs]: "last_run_fields io now last_run rec =
     (case (case last_run of PStr s \<Rightarrow> re_match LAST_RUN s | _ \<Rightarrow> None) of
        None \<Rightarrow> Inr (dput ''banip_error'' (PStr ''last_run_unknown'') rec)
      | Some (b, t, caps) \<Rightarrow>
          (if \<not> strptime_ok (group caps 2) then Inl (ValueError ''time data does not match format'')
           else bindE (hb_local io (group caps 2)) (\<lambda>stamp.
             let age = fl (now - of_int stamp) in
             if age < - 300 then Inr (dput ''banip_error'' (PStr ''runtime_clock_skew'') rec)
             else Inr (dput ''banip_run_mode'' (PStr (group caps 1))
               (dput ''banip_run_age_seconds'' (PInt (max 0 (if age < 0 then \<lceil>age\<rceil> else \<lfloor>age\<rfloor>)))
               (dput ''banip_last_run_utc'' (PStr (iso_offset stamp 0)) rec))))))"

definition RUNTIME_STATUSES :: "string list" where
  [py_defs]: "RUNTIME_STATUSES = [''active'', ''processing'', ''stopped'', ''error'', ''disabled'']"

text \<open>The body of the \<open>try\<close>: what it stored before it raised stays in the record.\<close>

definition active_fields :: "heartbeat_io \<Rightarrow> rat \<Rightarrow> pydict \<Rightarrow> pydict \<Rightarrow> pydict \<times> py_exc option" where
  [py_defs]: "active_fields io now data rec = (case dget data ''active_feeds'' of
       PList feeds \<Rightarrow>
         (if length feeds \<le> 128 \<and> list_all (str_member feed_name_ok) feeds
          then (let counted = dput ''banip_feed_count'' (PInt (int (length feeds))) rec in
            case last_run_fields io now (dget data ''last_run'') counted of
              Inl e \<Rightarrow> (counted, Some e) | Inr rec' \<Rightarrow> (rec', None))
          else (rec, Some (ValueError ''invalid_runtime_feeds'')))
     | _ \<Rightarrow> (rec, Some (ValueError ''invalid_runtime_feeds'')))"

definition version_field :: "pydict \<Rightarrow> pydict \<Rightarrow> pydict" where
  [py_defs]: "version_field data rec = (let version = dget_or data ''backend_ver'' (PStr ''unknown'') in
     if version_ok version then dput ''banip_version'' version rec else rec)"

definition runtime_fields :: "heartbeat_io \<Rightarrow> rat \<Rightarrow> pydict \<Rightarrow> pydict \<Rightarrow> pydict \<times> py_exc option" where
  [py_defs]: "runtime_fields io now data rec =
     (case in_set (dget data ''status'') RUNTIME_STATUSES of
        Inl e \<Rightarrow> (rec, Some e)
      | Inr False \<Rightarrow> (rec, Some (ValueError ''invalid_runtime_status''))
      | Inr True \<Rightarrow> active_fields io now data (version_field data (dput ''banip_status'' (dget data ''status'') rec)))"

definition runtime_handled :: "pydict \<times> py_exc option \<Rightarrow> pydict res" where
  [py_defs]: "runtime_handled r = (case r of
       (rec, None) \<Rightarrow> Inr rec
     | (rec, Some e) \<Rightarrow>
         (if e = FileNotFoundError then Inr (dput ''banip_error'' (PStr ''runtime_missing'') rec)
          else if e = OSError then Inr (dput ''banip_error'' (PStr ''runtime_unreadable'') rec)
          else if is_value_error e \<or> e = TypeError
            then Inr (dput ''banip_error'' (PStr ''runtime_invalid'') (dput ''banip_status'' (PStr ''unknown'') rec))
          else Inl e))"

definition proof_fields :: "heartbeat_io \<Rightarrow> rat \<Rightarrow> pydict \<Rightarrow> pydict res" where
  [py_defs]: "proof_fields io now rec =
     (case bindE (hb_proof io) (\<lambda>v. checked_feed_proof v now) of
        Inr fs \<Rightarrow> Inr (dupdate rec fs)
      | Inl e \<Rightarrow>
          (if os_error e \<or> is_value_error e \<or> e = TypeError \<or> is_subprocess_error e
           then Inr (dupdate rec [(''banip_feed_verification'', PStr ''unknown''), (''banip_feed_error'', PStr ''proof_unavailable''),
             (''banip_feed_max_age_seconds'', PNone), (''banip_feed_results'', PNone)])
           else Inl e))"

definition heartbeat ::
  "(string \<Rightarrow> pyfloat) \<Rightarrow> heartbeat_io \<Rightarrow> string \<Rightarrow> rat \<Rightarrow> bool \<Rightarrow> pydict res" where
  [py_defs]: "heartbeat float_of io sensor now feed_verification = bindE (utc_iso now) (\<lambda>timestamp.
     let rec = base_record sensor timestamp in
     bindE (runtime_handled (case read_bounded float_of (hb_runtime io) 32768 of
         Inl e \<Rightarrow> (rec, Some e) | Inr data \<Rightarrow> runtime_fields io now data rec)) (\<lambda>rec1.
     if feed_verification \<and> dget rec1 ''banip_status'' = PStr ''active'' \<and> \<not> dhas rec1 ''banip_error''
     then proof_fields io now rec1 else Inr rec1))"

section \<open>The loop\<close>

text \<open>One turn: the system's answers for the heartbeat, the clock, whether \<open>logger\<close> took the
  message, and whether the stop event was set during the wait.\<close>

record monitor_turn =
  mt_io :: heartbeat_io
  mt_now :: rat
  mt_logger :: "unit res"
  mt_stop :: bool

datatype monitor_exit = Stopped | Exit string | Crashed py_exc | Running

definition heartbeat_line :: "pydict \<Rightarrow> string" where
  [py_defs]: "heartbeat_line rec = json_enc json_compact (PDict rec)"

fun monitor_loop :: "(string \<Rightarrow> pyfloat) \<Rightarrow> monitor_config \<Rightarrow> monitor_turn list \<Rightarrow> string list \<times> monitor_exit" where
  "monitor_loop float_of c [] = ([], Running)"
| "monitor_loop float_of c (t # ts) =
     (case heartbeat float_of (mt_io t) (mc_sensor c) (mt_now t) (mc_feeds c) of
        Inl e \<Rightarrow> ([], Crashed e)
      | Inr rec \<Rightarrow>
          (case mt_logger t of
             Inl e \<Rightarrow> if os_error e \<or> is_subprocess_error e then ([], Exit ''security heartbeat delivery failed'')
               else ([], Crashed e)
           | Inr u \<Rightarrow>
               (if mt_stop t then ([heartbeat_line rec], Stopped)
                else (let (sent, r) = monitor_loop float_of c ts in (heartbeat_line rec # sent, r)))))"

definition monitor_once :: "(string \<Rightarrow> pyfloat) \<Rightarrow> monitor_config \<Rightarrow> monitor_turn \<Rightarrow> string res" where
  [py_defs]: "monitor_once float_of c t = bindE (heartbeat float_of (mt_io t) (mc_sensor c) (mt_now t) (mc_feeds c)) (\<lambda>rec.
     Inr (heartbeat_line rec))"

definition monitor_main ::
  "(string \<Rightarrow> pyfloat) \<Rightarrow> string res \<Rightarrow> bool \<Rightarrow> monitor_turn list \<Rightarrow> string list \<times> monitor_exit" where
  [py_defs]: "monitor_main float_of answer once turns = (case monitor_settings float_of answer of
       Inl e \<Rightarrow> if os_error e \<or> is_value_error e then ([], Exit ''invalid security monitor configuration'')
         else ([], Crashed e)
     | Inr c \<Rightarrow>
         (if once then (case turns of
              [] \<Rightarrow> ([], Running)
            | t # ts \<Rightarrow> (case monitor_once float_of c t of Inl e \<Rightarrow> ([], Crashed e) | Inr line \<Rightarrow> ([line], Stopped)))
          else monitor_loop float_of c turns))"

end
