(* ===== verification/Py_Double.thy ===== *)
theory Py_Double
  imports Py_Time
begin

text \<open>
  Facts about rounding to doubles: a number below \<open>2 ^ 53\<close> is never rounded across an integer
  (\<open>fl_between\<close>), so truncating the rounded number is off by less than one.
\<close>

lemma bits_ge: "0 < n \<Longrightarrow> 2 ^ (bits n - 1) \<le> n"
proof (induction n rule: bits.induct)
  case (1 n)
  show ?case
  proof (cases "n = 1")
    case True
    then show ?thesis by (simp add: bits.simps)
  next
    case False
    with 1 have n: "1 < n" and IH: "2 ^ (bits (n div 2) - 1) \<le> n div 2" by simp_all
    then have "bits (n div 2) \<noteq> 0" by (subst bits.simps) simp
    then obtain k where k: "bits (n div 2) = Suc k" by (cases "bits (n div 2)") auto
    with IH have "2 * 2 ^ k \<le> n" by simp
    with n k show ?thesis by (subst bits.simps) simp
  qed
qed

lemma bits_less: "n < 2 ^ bits n"
proof (induction n rule: bits.induct)
  case (1 n)
  show ?case
  proof (cases "n = 0")
    case False
    with 1 have "n div 2 < 2 ^ bits (n div 2)" by simp
    then have "n < 2 * 2 ^ bits (n div 2)" by linarith
    with False show ?thesis by (subst bits.simps) simp
  qed simp
qed

text \<open>Below \<open>2 ^ 53\<close> a double has no coarser grid than the integers.\<close>

lemma double_exponent_small:
  assumes "\<bar>x\<bar> < 2 ^ 53"
  shows "double_exponent x \<le> 0"
proof -
  obtain n d where q: "quotient_of \<bar>x\<bar> = (n, d)" by (cases "quotient_of \<bar>x\<bar>")
  then have d: "0 < d" and x: "\<bar>x\<bar> = of_int n / of_int d"
    by (simp_all add: quotient_of_denom_pos quotient_of_div)
  define e where "e = int (bits (nat n)) - int (bits (nat d)) - 53"
  have "e \<le> 0"
  proof (rule ccontr)
    assume "\<not> e \<le> 0"
    then have b: "bits (nat d) + 54 \<le> bits (nat n)" by (simp add: e_def)
    then have "bits (nat n) \<noteq> 0" by simp
    then have "0 < nat n" by (cases "nat n") (simp_all add: bits.simps)
    then have n: "0 < n" and low: "2 ^ (bits (nat n) - 1) \<le> nat n" by (simp, rule bits_ge)
    have "nat d * 2 ^ 53 \<le> 2 ^ bits (nat d) * 2 ^ 53" using bits_less [of "nat d"] by simp
    also have "\<dots> = (2 :: nat) ^ (bits (nat d) + 53)" by (simp add: power_add)
    also have "\<dots> \<le> 2 ^ (bits (nat n) - 1)" using b by (intro power_increasing) simp_all
    also have "\<dots> \<le> nat n" by (rule low)
    finally have "int (nat d * 2 ^ 53) \<le> int (nat n)" by (simp only: of_nat_le_iff)
    then have "d * 2 ^ 53 \<le> n" using d n by simp
    then have "rat_of_int (d * 2 ^ 53) \<le> of_int n" by (simp only: of_int_le_iff)
    then have "2 ^ 53 \<le> \<bar>x\<bar>" using d by (simp add: x field_simps)
    with assms show False by simp
  qed
  then show ?thesis
    using assms q by (cases "e = 0") (simp_all add: double_exponent_def e_def Let_def two_power_def)
qed

lemma round_even_bounds: "\<lfloor>y\<rfloor> \<le> round_even y \<and> round_even y \<le> \<lceil>y\<rceil>"
proof -
  have "\<lfloor>y\<rfloor> < \<lceil>y\<rceil>" if "of_int \<lfloor>y\<rfloor> \<noteq> y"
    using that by (metis ceiling_of_int floor_le_ceiling le_less of_int_floor_le ceiling_le_iff order_antisym)
  then show ?thesis
    by (cases "of_int \<lfloor>y\<rfloor> = y") (auto simp: round_even_def Let_def floor_le_ceiling)
qed

lemma fl_between:
  assumes "\<bar>x\<bar> < 2 ^ 53"
  shows "of_int \<lfloor>x\<rfloor> \<le> fl x" and "fl x \<le> of_int \<lceil>x\<rceil>"
proof -
  define k where "k = nat (- double_exponent x)"
  have tp: "two_power (double_exponent x) = 1 / 2 ^ k"
    using double_exponent_small [OF assms] by (auto simp: two_power_def k_def)
  have fl: "fl x = of_int (round_even (x * 2 ^ k)) / 2 ^ k" if "x \<noteq> 0"
    using that by (simp add: fl_def Let_def tp)
  have "of_int (\<lfloor>x\<rfloor> * 2 ^ k) \<le> x * 2 ^ k" by (simp add: mult_right_mono)
  then have "\<lfloor>x\<rfloor> * 2 ^ k \<le> \<lfloor>x * 2 ^ k\<rfloor>" by (simp add: le_floor_iff)
  then have "\<lfloor>x\<rfloor> * 2 ^ k \<le> round_even (x * 2 ^ k)" using round_even_bounds by (meson order_trans)
  then have low: "rat_of_int \<lfloor>x\<rfloor> * 2 ^ k \<le> of_int (round_even (x * 2 ^ k))"
    by (metis of_int_le_iff of_int_mult of_int_numeral of_int_power)
  have "x * 2 ^ k \<le> of_int (\<lceil>x\<rceil> * 2 ^ k)" by (simp add: mult_right_mono)
  then have "\<lceil>x * 2 ^ k\<rceil> \<le> \<lceil>x\<rceil> * 2 ^ k" by (simp add: ceiling_le_iff)
  then have "round_even (x * 2 ^ k) \<le> \<lceil>x\<rceil> * 2 ^ k" using round_even_bounds by (meson order_trans)
  then have high: "rat_of_int (round_even (x * 2 ^ k)) \<le> of_int \<lceil>x\<rceil> * 2 ^ k"
    by (metis of_int_le_iff of_int_mult of_int_numeral of_int_power)
  show "of_int \<lfloor>x\<rfloor> \<le> fl x"
    using fl low by (cases "x = 0") (simp_all add: pos_le_divide_eq)
  show "fl x \<le> of_int \<lceil>x\<rceil>"
    using fl high by (cases "x = 0") (simp_all add: pos_divide_le_eq)
qed

lemma trunc_between:
  fixes d :: rat
  assumes "of_int a \<le> d" and "d \<le> of_int b"
  shows "a \<le> (if d < 0 then \<lceil>d\<rceil> else \<lfloor>d\<rfloor>) \<and> (if d < 0 then \<lceil>d\<rceil> else \<lfloor>d\<rfloor>) \<le> b"
proof -
  have "a \<le> \<lfloor>d\<rfloor>" "\<lceil>d\<rceil> \<le> b" using assms by (simp_all add: le_floor_iff ceiling_le_iff)
  moreover have "\<lfloor>d\<rfloor> \<le> \<lceil>d\<rceil>" by (rule floor_le_ceiling)
  ultimately show ?thesis by (cases "d < 0") (simp_all, linarith+)
qed

end
