(* ===== verification/Monitor_Props.thy ===== *)
theory Monitor_Props
  imports Security_Monitor Feed_Props Py_Double
begin

text \<open>
  Properties of \<open>security_monitor.py\<close> and of its composition with \<open>banip_feed_proof.py\<close>: the
  monitor accepts the summary of a checked state, and the heartbeat reports no verification it was
  not given.
\<close>

section \<open>Ages\<close>

text \<open>Two readings of the clock at most 29 seconds apart give ages at most 30 apart.\<close>

lemma ages_close:
  assumes "now \<le> now'" "now' \<le> now + 29" "\<bar>now - t\<bar> < 2 ^ 53" "\<bar>now' - t\<bar> < 2 ^ 53"
  shows "\<bar>age_at now t - age_at now' t\<bar> \<le> 30"
proof -
  define x y where "x = now - t" and "y = now' - t"
  define tr where "tr d = (if d < 0 then \<lceil>d\<rceil> else \<lfloor>d\<rfloor>)" for d :: rat
  have "\<lfloor>z\<rfloor> \<le> tr (fl z) \<and> tr (fl z) \<le> \<lceil>z\<rceil>" if "\<bar>z\<bar> < 2 ^ 53" for z
    unfolding tr_def by (rule trunc_between [OF fl_between [OF that]])
  from this [of x] this [of y] have x: "\<lfloor>x\<rfloor> \<le> tr (fl x) \<and> tr (fl x) \<le> \<lceil>x\<rceil>"
    and y: "\<lfloor>y\<rfloor> \<le> tr (fl y) \<and> tr (fl y) \<le> \<lceil>y\<rceil>" using assms(3,4) by (simp_all add: x_def y_def)
  have "\<lceil>x\<rceil> \<le> \<lceil>y\<rceil>" using assms(1) by (intro ceiling_mono) (simp add: x_def y_def)
  moreover have "\<lceil>y\<rceil> \<le> \<lceil>x\<rceil> + 29"
  proof -
    have "y \<le> x + 29" using assms(2) by (simp add: x_def y_def)
    moreover have "x \<le> of_int \<lceil>x\<rceil>" by (rule le_of_int_ceiling)
    ultimately have "y \<le> of_int \<lceil>x\<rceil> + 29" by linarith
    then have "y \<le> of_int (\<lceil>x\<rceil> + 29)" by simp
    then show ?thesis by (simp only: ceiling_le_iff)
  qed
  moreover have "\<lceil>x\<rceil> \<le> \<lfloor>x\<rfloor> + 1" "\<lceil>y\<rceil> \<le> \<lfloor>y\<rfloor> + 1" 
    using ceiling_diff_floor_le_1 [of x] ceiling_diff_floor_le_1 [of y] by linarith+
  ultimately have "tr (fl x) \<le> tr (fl y) + 1" "tr (fl y) \<le> tr (fl x) + 30" using x y by linarith+
  moreover have "age_at now t = max 0 (tr (fl x))" "age_at now' t = max 0 (tr (fl y))"
    by (simp_all add: age_at_def Let_def tr_def x_def y_def)
  ultimately show ?thesis by linarith
qed

section \<open>The rows of the summary\<close>

text \<open>What a stored record that passed the check gives: its last check, and its last verification.\<close>

definition stored_good :: "rat \<Rightarrow> pyval \<Rightarrow> bool" where
  "stored_good now good \<longleftrightarrow> good = PNone \<or> (\<exists>g t q n. good = PDict g \<and> map_of g ''at'' = Some t \<and> number_of t = Some q
     \<and> epoch t now = Inr True \<and> map_of g ''count'' = Some n \<and> count_ok n)"

definition stored_check :: "pyval \<Rightarrow> bool" where
  "stored_check check \<longleftrightarrow> (\<exists>d. check = PDict d \<and> (map_of d ''status'' = None
     \<or> (\<exists>s \<in> {''verified'', ''error'', ''unknown''}. map_of d ''status'' = Some (PStr s))))"

lemma allE_Inr_True: "allE (a # as) = Inr True \<longleftrightarrow> a = Inr True \<and> allE as = Inr True"
  by (cases a) auto

lemma py_item_Inr: "bindE (py_item v k) f = Inr x \<Longrightarrow> \<exists>d w. v = PDict d \<and> map_of d k = Some w \<and> f w = Inr x"
  by (cases v) (auto simp: py_item_def dindex_def split: option.splits)

lemma good_ok_stored:
  assumes "good_ok good now = Inr True"
  shows "stored_good now good"
proof -
  have at': "bindE (py_item good ''at'') (\<lambda>t. epoch t now) = Inr True"
    and count: "bindE (py_item good ''count'') (\<lambda>n. Inr (count_ok n)) = Inr True"
    using assms by (simp_all only: good_ok_def allE_Inr_True)
  from py_item_Inr [OF at'] obtain g t where g: "good = PDict g" "map_of g ''at'' = Some t" "epoch t now = Inr True" by blast
  from py_item_Inr [OF count] g(1) obtain n where n: "map_of g ''count'' = Some n" "count_ok n" by auto
  have "in_time t now" using g(3) by (simp add: epoch_def split: if_splits)
  then obtain q where "number_of t = Some q" by (auto simp: in_time_def split: option.splits)
  with g n show ?thesis unfolding stored_good_def by blast
qed

lemma check_ok_stored:
  assumes "check_ok check now = Inr True"
  shows "stored_check check"
proof -
  have "bindE (py_item check ''status'') (\<lambda>s. Inr (s \<in> {PStr ''verified'', PStr ''error'', PStr ''unknown''})) = Inr True"
    using assms by (simp only: check_ok_def allE_Inr_True)
  from py_item_Inr [OF this] show ?thesis unfolding stored_check_def by auto
qed

lemma stored_record:
  assumes "\<forall>kv \<in> set feeds. record_ok now kv = Inr ()"
  shows "\<exists>rec. dget_or feeds name (PDict []) = PDict rec \<and> stored_good now (dget rec ''last_verified'')
    \<and> stored_check (dget_or rec ''last_check'' (PDict []))"
proof (cases "map_of feeds name")
  case None
  then show ?thesis by (simp add: dget_or_def stored_good_def stored_check_def)
next
  case (Some v)
  then have ok: "record_ok now (name, v) = Inr ()" using assms by (blast dest: map_of_SomeD)
  then obtain rec where v: "v = PDict rec" by (cases v) (auto simp: record_ok_def)
  with ok obtain check where c: "dindex rec ''last_check'' = Inr check" "check_ok check now = Inr True"
    by (auto simp: record_ok_def)
  have good: "stored_good now (dget rec ''last_verified'')"
  proof (cases "dhas rec ''last_verified''")
    case True
    with ok v show ?thesis by (auto simp: record_ok_def intro: good_ok_stored)
  next
    case False
    then show ?thesis by (simp add: dhas_def dget_or_def stored_good_def)
  qed
  have "dget_or rec ''last_check'' (PDict []) = check"
    using c(1) by (auto simp: dindex_def dget_or_def split: option.splits)
  with check_ok_stored [OF c(2)] good Some v show ?thesis by (simp add: dget_or_def)
qed

lemma row_status_values:
  assumes "row_status current name check good age = Inr (status, reason)" and "stored_check check"
  shows "status \<in> {PStr ''verified'', PStr ''error'', PStr ''unknown'', PStr ''stale''}
    \<and> (status \<in> {PStr ''verified'', PStr ''stale''} \<longrightarrow> py_truthy good)
    \<and> (status = PStr ''verified'' \<longrightarrow> (\<exists>a. age = Some a \<and> a \<le> MAX_PROOF_AGE))"
proof (cases current)
  case None
  with assms(1) show ?thesis by (auto simp: row_status_def)
next
  case (Some s)
  from assms(2) obtain d where d: "check = PDict d" and st: "map_of d ''status'' = None
     \<or> (\<exists>s \<in> {''verified'', ''error'', ''unknown''}. map_of d ''status'' = Some (PStr s))"
    unfolding stored_check_def by blast
  show ?thesis
  proof (cases "dget d ''status'' = PStr ''verified''")
    case False
    with assms(1) Some d have "status = dget_or d ''status'' (PStr ''unknown'')"
      by (auto simp: row_status_def py_get_def)
    with st False show ?thesis by (auto simp: dget_or_def)
  next
    case True
    then obtain changed where c: "(if \<not> py_truthy good then Inr True
        else bindE (py_item good ''canonical_sha256'') (\<lambda>d. bindE (current_digest s name) (\<lambda>c. Inr (d \<noteq> PStr c)))) = Inr changed"
      "(if changed then Inr (PStr ''unknown'', PStr ''current_set_changed'')
        else (case age of None \<Rightarrow> Inl TypeError
          | Some a \<Rightarrow> if a > MAX_PROOF_AGE then Inr (PStr ''stale'', PStr ''proof_expired'')
              else Inr (PStr ''verified'', PStr ''verified''))) = Inr (status, reason)"
      using assms(1) Some d unfolding row_status_def by (auto simp: py_get_def simp del: if_split)
    show ?thesis
    proof (cases changed)
      case True
      with c(2) show ?thesis by auto
    next
      case False
      with c(1) have "py_truthy good" by (auto split: if_splits)
      with False c(2) show ?thesis by (cases age) (auto split: if_splits)
    qed
  qed
qed

lemma stored_good_truthy: "stored_good now good \<Longrightarrow> py_truthy good \<longleftrightarrow> good \<noteq> PNone"
  by (auto simp: stored_good_def py_truthy_def)

lemma in_set_PStr: "in_set (PStr s) ks = Inr (s \<in> set ks)"
  by (auto simp: in_set_def unhashable_def)

text \<open>A row of the summary passes the check of the monitor, which keeps its feed, status and age.\<close>

lemma row_accepted:
  assumes "\<forall>kv \<in> set feeds. record_ok now' kv = Inr ()" and "summary_row (PDict feeds) current now name = Inr (row, status, age)"
    and "name \<in> {''dshield'', ''feodo''}" and "now \<le> now'" "now' \<le> now + 29" "0 \<le> now" "now' < 2 ^ 50"
  shows "\<exists>r. checked_row now' row = Inr r \<and> dict_value r ''status'' = status \<and> row_age r = age
    \<and> dict_value r ''feed'' = PStr (name @ ''.v4'') \<and> status \<in> {PStr ''verified'', PStr ''error'', PStr ''unknown'', PStr ''stale''}"
proof -
  from stored_record [OF assms(1), of name] obtain rec where rec: "dget_or feeds name (PDict []) = PDict rec"
    and good': "stored_good now' (dget rec ''last_verified'')" and check: "stored_check (dget_or rec ''last_check'' (PDict []))" by blast
  define good where "good = dget rec ''last_verified''"
  define chk where "chk = dget_or rec ''last_check'' (PDict [])"
  have get: "py_get (PDict feeds) name (PDict []) = Inr (PDict rec)" "py_get (PDict rec) ''last_verified'' PNone = Inr good"
      "py_get (PDict rec) ''last_check'' (PDict []) = Inr chk"
    using rec by (simp_all add: py_get_def good_def chk_def)
  from assms(2) obtain reason stamp count where run:
      "(if py_truthy good then bindE (age_of now good) (\<lambda>a. Inr (Some a)) else Inr None) = Inr age"
      "row_status current name chk good age = Inr (status, reason)" "when_good good ''at'' = Inr stamp"
      "when_good good ''count'' = Inr count" "row = feed_row name status reason stamp age count"
    unfolding summary_row_def get bindE_simps by (auto simp del: if_split)
  note vals = row_status_values [OF run(2) check [folded chk_def]]
  have feed: "in_set (PStr (name @ ''.v4'')) [''dshield.v4'', ''feodo.v4''] = Inr True"
    using assms(3) by (auto simp: in_set_PStr)
  have "in_set s STATUSES = Inr True" if "s \<in> {PStr ''verified'', PStr ''error'', PStr ''unknown'', PStr ''stale''}" for s
    using that by (elim insertE emptyE) (simp_all add: in_set_PStr STATUSES_def)
  then have st: "in_set status STATUSES = Inr True" using conjunct1 [OF vals] by blast
  have times: "checked_times now' status stamp (opt_int age) count = Inr () \<and> (age = None \<longrightarrow> opt_int age = PNone)"
  proof (cases "good = PNone")
    case True
    then have "age = None" "stamp = PNone" "count = PNone" "status \<notin> {PStr ''verified'', PStr ''stale''}"
      using run vals by (auto simp: py_truthy_def when_good_def)
    then show ?thesis by (simp add: checked_times_def opt_int_def)
  next
    case False
    with good' [folded good_def] obtain g t q n where g: "good = PDict g" "map_of g ''at'' = Some t" "number_of t = Some q"
        "epoch t now' = Inr True" "map_of g ''count'' = Some n" "count_ok n"
      unfolding stored_good_def by blast
    have truthy: "py_truthy good" using False stored_good_truthy [OF good' [folded good_def]] by simp
    have a: "age = Some (age_at now q)" "stamp = t" "count = n"
      using run(1,3,4) truthy g by (auto simp: age_of_def when_good_def py_item_def dindex_def)
    have q: "1600000000 \<le> q" "q \<le> fl (now' + 300)"
      using g(3,4) by (auto simp: epoch_def in_time_def split: if_splits)
    have "fl (now' + 300) \<le> of_int \<lceil>now' + 300\<rceil>" using assms(4,6,7) by (intro fl_between) auto
    moreover have "of_int \<lceil>now' + 300\<rceil> \<le> now' + 301" by linarith
    ultimately have "q \<le> now' + 301" using q(2) by linarith
    then have "\<bar>age_at now q - age_at now' q\<bar> \<le> 30"
      using q(1) assms(4-7) by (intro ages_close) auto
    moreover have "0 \<le> age_at now q" by (simp add: age_at_def Let_def)
    ultimately have fits: "age_fits (PInt (age_at now q)) now' t" by (simp add: age_fits_def g(3))
    have "stamp \<noteq> PNone" using a(2) g(3) by (auto simp: number_of_def)
    moreover have "status = PStr ''verified'' \<longrightarrow> age_at now q \<le> MAX_PROOF_AGE" using vals a(1) by auto
    ultimately show ?thesis using a g(4,6) fits by (auto simp: checked_times_def opt_int_def int_value_def)
  qed
  define r where "r = PDict [(''feed'', PStr (name @ ''.v4'')), (''status'', status), (''verified_at'', stamp),
    (''age_seconds'', opt_int age), (''last_verified_count'', count)]"
  have "checked_row now' row = Inr r"
    unfolding run(5) feed_row_def checked_row_def r_def
    using feed st times by (simp add: dget_or_def)
  moreover have "dict_value r ''status'' = status" "row_age r = age" "dict_value r ''feed'' = PStr (name @ ''.v4'')"
    by (simp_all add: r_def dict_value_def row_age_def dget_or_def opt_int_def split: option.split)
  ultimately show ?thesis using vals by blast
qed

lemma rows_accepted:
  assumes "\<forall>kv \<in> set feeds. record_ok now' kv = Inr ()" and "mapE (summary_row (PDict feeds) current now) names = Inr rows"
    and "set names \<subseteq> {''dshield'', ''feodo''}" and "now \<le> now'" "now' \<le> now + 29" "0 \<le> now" "now' < 2 ^ 50"
  shows "\<exists>rs. mapE (checked_row now') (map fst rows) = Inr rs \<and> map (\<lambda>r. dict_value r ''status'') rs = map (fst \<circ> snd) rows
    \<and> map row_age rs = map (snd \<circ> snd) rows \<and> map (\<lambda>r. dict_value r ''feed'') rs = map (\<lambda>n. PStr (n @ ''.v4'')) names
    \<and> length rs = length names"
  using assms(2,3)
proof (induction names arbitrary: rows)
  case (Cons n names)
  then obtain a rest where rows: "rows = a # rest" "summary_row (PDict feeds) current now n = Inr a"
      "mapE (summary_row (PDict feeds) current now) names = Inr rest" by auto
  obtain row status age where a: "a = (row, status, age)" by (cases a)
  from row_accepted [OF assms(1) rows(2) [unfolded a] _ assms(4-7)] Cons.prems(2) obtain r where
      "checked_row now' row = Inr r" "dict_value r ''status'' = status" "row_age r = age" "dict_value r ''feed'' = PStr (n @ ''.v4'')"
    by auto
  with Cons.IH [OF rows(3)] Cons.prems(2) rows(1) a show ?case by auto
qed simp

lemma combined_in: "combined_status ss \<in> set STATUSES"
  by (auto simp: combined_status_def STATUSES_def)

lemma py_eq_opt_int: "py_eq (opt_int x) (opt_int x)"
  by (cases x) (simp_all add: opt_int_def scalar_eq_def num_val_def)

text \<open>Property C5.  The monitor accepts what the feed proof prints: the summary of a stored state that
  passes the check is never refused as long as the monitor reads it within 29 seconds, and the
  heartbeat then reports the same status and the same largest age.\<close>

theorem monitor_accepts_summary:
  assumes "checked_state sha256 config now' proof = Inr proof" and "summary config proof current now = Inr v"
    and "distinct config" "1 \<le> length config" "length config \<le> 2" "set config \<subseteq> {''dshield'', ''feodo''}"
    and "now \<le> now'" "now' \<le> now + 29" "0 \<le> now" "now' < 2 ^ 50"
  shows "\<exists>rs. checked_feed_proof v now' = Inr [(''banip_feed_verification'', dict_value v ''status''),
    (''banip_feed_max_age_seconds'', dict_value v ''age_seconds''), (''banip_feed_results'', PList rs)] \<and> length rs = length config"
proof -
  from assms(1) obtain feeds where feeds: "map_of proof ''feeds'' = Some (PDict feeds)"
      "\<forall>kv \<in> set feeds. record_ok now' kv = Inr ()" by (auto simp: checked_state_iff simp del: map_of_eq_Some_iff)
  from assms(2,4) feeds(1) obtain rows where rows: "mapE (summary_row (PDict feeds) current now) config = Inr rows"
      "v = summary_value (combined_status (map (fst \<circ> snd) rows)) (largest_age (map (snd \<circ> snd) rows)) (map fst rows)"
    by (auto simp: summary_def dindex_def split: if_splits)
  from rows_accepted [OF feeds(2) rows(1) assms(6-10)] obtain rs where rs:
      "mapE (checked_row now') (map fst rows) = Inr rs" "map (\<lambda>r. dict_value r ''status'') rs = map (fst \<circ> snd) rows"
      "map row_age rs = map (snd \<circ> snd) rows" "map (\<lambda>r. dict_value r ''feed'') rs = map (\<lambda>n. PStr (n @ ''.v4'')) config"
      "length rs = length config" by blast
  define status where "status = combined_status (map (fst \<circ> snd) rows)"
  define age where "age = largest_age (map (snd \<circ> snd) rows)"
  have dist: "distinct (map (\<lambda>r. dict_value r ''feed'') rs)"
    unfolding rs(4) using assms(3) by (simp add: distinct_map inj_on_def)
  have len: "length rows = length config" using mapE_Inr_length [OF rows(1)] .
  have st: "in_set (PStr status) STATUSES = Inr True" using combined_in by (simp add: in_set_PStr status_def)
  have "checked_feed_proof v now' = Inr [(''banip_feed_verification'', PStr status), (''banip_feed_max_age_seconds'', opt_int age),
      (''banip_feed_results'', PList rs)]"
    unfolding rows(2) summary_value_def checked_feed_proof_def status_def [symmetric] age_def [symmetric]
    using dist st len assms(4,5)
    by (simp add: dget_or_def rs(1-3) status_def [symmetric] age_def [symmetric] py_eq_opt_int Let_def)
  then show ?thesis using rs(5)
    by (simp add: rows(2) summary_value_def dict_value_def dget_or_def status_def age_def)
qed

section \<open>The heartbeat\<close>

text \<open>The parts of the heartbeat that gather evidence leave the other fields alone.\<close>

definition same_claims :: "pydict \<Rightarrow> pydict \<Rightarrow> bool" where
  "same_claims rec rec' \<longleftrightarrow> dget rec' ''banip_feed_verification'' = dget rec ''banip_feed_verification''
     \<and> (dget rec' ''banip_status'' = dget rec ''banip_status'' \<or> dget rec' ''banip_status'' \<in> PStr ` set (''unknown'' # RUNTIME_STATUSES))"

lemma same_claims_refl [simp]: "same_claims rec rec"
  by (simp add: same_claims_def)

lemma same_claims_put:
  "k \<noteq> ''banip_feed_verification'' \<Longrightarrow> k \<noteq> ''banip_status'' \<Longrightarrow> same_claims rec rec' \<Longrightarrow> same_claims rec (dput k v rec')"
  by (simp add: same_claims_def)

lemma same_claims_status:
  "v \<in> PStr ` set (''unknown'' # RUNTIME_STATUSES) \<Longrightarrow> same_claims rec rec' \<Longrightarrow> same_claims rec (dput ''banip_status'' v rec')"
  by (simp add: same_claims_def)

lemma last_run_claims:
  assumes "last_run_fields io now last_run rec' = Inr rec''" and "same_claims rec rec'"
  shows "same_claims rec rec''"
proof (cases "case last_run of PStr s \<Rightarrow> re_match LAST_RUN s | _ \<Rightarrow> None")
  case None
  with assms show ?thesis by (auto simp: last_run_fields_def intro: same_claims_put)
next
  case (Some m)
  obtain b t caps where m: "m = (b, t, caps)" by (cases m)
  with assms Some obtain stamp where "hb_local io (group caps 2) = Inr stamp"
    by (auto simp: last_run_fields_def split: if_splits)
  with assms Some m show ?thesis
    by (auto simp: last_run_fields_def Let_def intro!: same_claims_put split: if_splits)
qed

lemma active_claims:
  assumes "active_fields io now data rec' = (rec'', e)" and "same_claims rec rec'"
  shows "same_claims rec rec''"
proof (cases "dget data ''active_feeds''")
  case (PList feeds)
  define counted where "counted = dput ''banip_feed_count'' (PInt (int (length feeds))) rec'"
  have c: "same_claims rec counted" unfolding counted_def using assms(2) by (intro same_claims_put) simp_all
  show ?thesis
  proof (cases "last_run_fields io now (dget data ''last_run'') counted")
    case (Inl e')
    with assms PList c show ?thesis by (auto simp: active_fields_def Let_def counted_def [symmetric] split: if_splits)
  next
    case (Inr rec4)
    with assms PList last_run_claims [OF Inr c] show ?thesis
      by (auto simp: active_fields_def Let_def counted_def [symmetric] split: if_splits)
  qed
qed (use assms in \<open>simp_all add: active_fields_def\<close>)

lemma in_set_True: "in_set x ks = Inr True \<Longrightarrow> x \<in> PStr ` set ks"
  by (auto simp: in_set_def split: if_split_asm)

lemma in_set_cases: "in_set x ks = Inr True \<or> in_set x ks = Inr False \<or> in_set x ks = Inl TypeError"
  unfolding in_set_def by (cases "unhashable x"; cases "\<exists>k \<in> set ks. x = PStr k"; simp)

lemma version_claims: "same_claims rec rec' \<Longrightarrow> same_claims rec (version_field data rec')"
  unfolding version_field_def Let_def by (simp add: same_claims_put)

lemma runtime_claims:
  assumes "runtime_fields io now data rec = (rec', e)"
  shows "same_claims rec rec'"
  using in_set_cases [of "dget data ''status''" RUNTIME_STATUSES]
proof (elim disjE)
  assume status: "in_set (dget data ''status'') RUNTIME_STATUSES = Inr True"
  have "dget data ''status'' \<in> PStr ` set (''unknown'' # RUNTIME_STATUSES)"
    using in_set_True [OF status] by (rule rev_subsetD) (simp add: subset_insertI)
  then have "same_claims rec (version_field data (dput ''banip_status'' (dget data ''status'') rec))"
    by (intro version_claims same_claims_status same_claims_refl)
  moreover have "active_fields io now data (version_field data (dput ''banip_status'' (dget data ''status'') rec)) = (rec', e)"
    using assms status by (simp add: runtime_fields_def)
  ultimately show ?thesis by (rule active_claims [rotated])
qed (use assms in \<open>simp_all add: runtime_fields_def\<close>)

lemma handled_claims: "runtime_handled (rec', e) = Inr rec'' \<Longrightarrow> same_claims rec rec' \<Longrightarrow> same_claims rec rec''"
  by (auto simp: runtime_handled_def intro!: same_claims_put same_claims_status split: option.splits if_splits)

lemma checked_proof_fields:
  assumes "checked_feed_proof v now = Inr fs"
  shows "\<exists>status age rs. fs = [(''banip_feed_verification'', PStr status), (''banip_feed_max_age_seconds'', age),
      (''banip_feed_results'', PList rs)] \<and> status \<in> set STATUSES"
proof -
  obtain d where d: "v = PDict d" using assms by (cases v) (simp_all add: checked_feed_proof_def invalid_proof_def)
  obtain valid where valid: "in_set (dget d ''status'') STATUSES = Inr valid" "valid"
    using assms d by (auto simp: checked_feed_proof_def invalid_proof_def split: if_splits)
  show ?thesis
  proof (cases "dget d ''feeds''")
    case (PList rows)
    with assms d valid combined_in show ?thesis
      by (auto simp: checked_feed_proof_def invalid_proof_def Let_def split: if_splits)
  qed (use assms d valid in \<open>simp_all add: checked_feed_proof_def invalid_proof_def\<close>)
qed

text \<open>Property C6.  The heartbeat never makes up evidence: its states are those of the two closed lists,
  and it reports anything but an unknown verification only when verification is enabled, banIP is
  active and its runtime file is sound, and the helper's answer passed the check with that very status.\<close>

theorem heartbeat_is_honest:
  assumes "heartbeat float_of io sensor now flag = Inr rec"
  shows "dget rec ''banip_status'' \<in> PStr ` set (''unknown'' # RUNTIME_STATUSES)
    \<and> dget rec ''banip_feed_verification'' \<in> PStr ` set STATUSES
    \<and> (dget rec ''banip_feed_verification'' = PStr ''unknown''
       \<or> flag \<and> dget rec ''banip_status'' = PStr ''active'' \<and> \<not> dhas rec ''banip_error''
         \<and> (\<exists>v fs. hb_proof io = Inr v \<and> checked_feed_proof v now = Inr fs
              \<and> dget fs ''banip_feed_verification'' = dget rec ''banip_feed_verification''))"
proof -
  obtain timestamp rec0 rec1 where base: "rec0 = base_record sensor timestamp"
    and handled: "runtime_handled (case read_bounded float_of (hb_runtime io) 32768 of
         Inl e \<Rightarrow> (rec0, Some e) | Inr data \<Rightarrow> runtime_fields io now data rec0) = Inr rec1"
    and final: "(if flag \<and> dget rec1 ''banip_status'' = PStr ''active'' \<and> \<not> dhas rec1 ''banip_error''
     then proof_fields io now rec1 else Inr rec1) = Inr rec"
    using assms by (auto simp: heartbeat_def Let_def simp del: if_split)
  have "\<exists>rec' e. (case read_bounded float_of (hb_runtime io) 32768 of
         Inl e \<Rightarrow> (rec0, Some e) | Inr data \<Rightarrow> runtime_fields io now data rec0) = (rec', e) \<and> same_claims rec0 rec'"
  proof (cases "read_bounded float_of (hb_runtime io) 32768")
    case (Inr data)
    obtain rec' e where "runtime_fields io now data rec0 = (rec', e)" by (cases "runtime_fields io now data rec0")
    with runtime_claims [OF this] Inr show ?thesis by simp
  qed simp
  with handled have "same_claims rec0 rec1" using handled_claims by force
  then have rec1: "dget rec1 ''banip_feed_verification'' = PStr ''unknown''"
      "dget rec1 ''banip_status'' \<in> PStr ` set (''unknown'' # RUNTIME_STATUSES)"
    by (auto simp: same_claims_def base base_record_def dget_or_def)
  have unknown: "PStr ''unknown'' \<in> PStr ` set STATUSES" by (simp add: STATUSES_def)
  show ?thesis
  proof (cases "flag \<and> dget rec1 ''banip_status'' = PStr ''active'' \<and> \<not> dhas rec1 ''banip_error''")
    case False
    with final rec1 unknown show ?thesis by auto
  next
    case True
    with final have pf: "proof_fields io now rec1 = Inr rec" by simp
    show ?thesis
    proof (cases "bindE (hb_proof io) (\<lambda>v. checked_feed_proof v now)")
      case (Inl e)
      then have "rec = dupdate rec1 [(''banip_feed_verification'', PStr ''unknown''), (''banip_feed_error'', PStr ''proof_unavailable''),
             (''banip_feed_max_age_seconds'', PNone), (''banip_feed_results'', PNone)]"
        using pf by (auto simp: proof_fields_def split: if_splits)
      with rec1 unknown show ?thesis by simp
    next
      case (Inr fs)
      then obtain v where v: "hb_proof io = Inr v" "checked_feed_proof v now = Inr fs" by auto
      from checked_proof_fields [OF v(2)] obtain status age rs where fs: "fs = [(''banip_feed_verification'', PStr status),
          (''banip_feed_max_age_seconds'', age), (''banip_feed_results'', PList rs)]" "status \<in> set STATUSES" by blast
      have "rec = dupdate rec1 fs" using pf Inr by (simp add: proof_fields_def)
      with fs(1) have rec: "dget rec ''banip_feed_verification'' = PStr status" "dget rec ''banip_status'' = dget rec1 ''banip_status''"
          "dhas rec ''banip_error'' = dhas rec1 ''banip_error''" by simp_all
      have "dget fs ''banip_feed_verification'' = PStr status" by (simp add: fs(1) dget_or_def)
      with rec rec1 True v fs(2) show ?thesis by auto
    qed
  qed
qed

section \<open>An example run\<close>

lemma ex_out_checked: "checked_state ex_sha ex_config 1700000010 ex_out = Inr ex_out"
proof -
  have time: "in_time (clock_value (vf_finish ex_verify)) 1700000010"
    by (simp add: ex_verify_def clock_value_def in_time_def number_of_def)
  have hex: "hexn 64 (ex_sha x)" for x by (simp add: ex_sha_def hexn_def lower_hex_def list_all_iff)
  have "record_ok 1700000010 (''feodo'', PDict (updated_record [] (''verified'', ''verified'', Some ex_result) (vf_finish ex_verify))) = Inr ()"
    using time hex reason_texts(12)
    by (intro record_ok_updated) (auto simp: ex_result_def ex_canon_def MAX_NETWORKS_def intro!: verified_value_ok)
  then show ?thesis
    by (simp add: checked_state_iff ex_out_def initial_state_def dput_def dget_or_def ex_config_def)
qed

definition ex_summary :: pyval where
  "ex_summary = summary_value ''verified'' (Some 1)
     [feed_row ''feodo'' (PStr ''verified'') (PStr ''verified'') (clock_value (vf_finish ex_verify)) (Some 1) (PInt 1)]"

lemma ex_age: "age_at 1700000006 1700000005 = 1"
  by (simp add: age_at_def Let_def)

lemma ex_summarized: "summary ex_config ex_out (Some ex_snap) 1700000006 = Inr ex_summary"
proof -
  define good where "good = verified_value ex_result (vf_finish ex_verify)"
  define check where "check = check_value ''verified'' ''verified'' (vf_finish ex_verify)"
  have rec: "dget_or [(''feodo'', PDict (updated_record [] (''verified'', ''verified'', Some ex_result) (vf_finish ex_verify)))]
      ''feodo'' (PDict []) = PDict [(''last_verified'', good), (''last_check'', check)]"
    by (simp add: updated_record_def dget_or_def dput_def good_def check_def)
  have "py_truthy good" "py_item good ''at'' = Inr (clock_value (vf_finish ex_verify))" "py_item good ''count'' = Inr (PInt 1)"
      "py_item good ''canonical_sha256'' = Inr (PStr (cn_sha ex_canon))"
    by (simp_all add: good_def verified_value_def py_truthy_def py_item_def dindex_def ex_result_def ex_canon_def)
  moreover have "number_of (clock_value (vf_finish ex_verify)) = Some 1700000005"
    by (simp add: ex_verify_def clock_value_def number_of_def)
  moreover have "py_get check ''status'' x = Inr (PStr ''verified'')" for x
    by (simp add: check_def check_value_def py_get_def dget_or_def)
  ultimately have "summary_row (PDict [(''feodo'', PDict (updated_record [] (''verified'', ''verified'', Some ex_result) (vf_finish ex_verify)))])
      (Some ex_snap) 1700000006 ''feodo'' = Inr (feed_row ''feodo'' (PStr ''verified'') (PStr ''verified'')
        (clock_value (vf_finish ex_verify)) (Some 1) (PInt 1), PStr ''verified'', Some 1)"
    unfolding summary_row_def
    by (simp add: py_get_def [of "PDict _"] rec) 
       (simp add: dget_or_def age_of_def ex_age row_status_def current_digest_def ex_snap_def when_good_def MAX_PROOF_AGE_def)
  moreover have "dindex ex_out ''feeds'' = Inr (PDict [(''feodo'', PDict (updated_record [] (''verified'', ''verified'', Some ex_result) (vf_finish ex_verify)))])"
    by (simp add: ex_out_def dindex_def)
  ultimately show ?thesis
    by (simp add: summary_def ex_config_def ex_summary_def combined_status_def largest_age_def)
qed

theorem monitor_accepts_summary_witness:
  "\<exists>rs. checked_feed_proof ex_summary 1700000010 = Inr [(''banip_feed_verification'', PStr ''verified''),
    (''banip_feed_max_age_seconds'', PInt 1), (''banip_feed_results'', PList rs)] \<and> length rs = 1"
  using monitor_accepts_summary [OF ex_out_checked ex_summarized]
  by (simp add: ex_config_def) (simp add: ex_summary_def summary_value_def dict_value_def dget_or_def opt_int_def)

lemma json_bytes_read:
  assumes "no_floats v" "wf_val v"
  shows "json_loads_bytes float_of (json_enc json_compact v) = Inr v"
  using json_roundtrip [of json_compact float_of v] no_floats_json_ok [OF assms] utf8_json_enc [OF assms(1)]
  by (simp add: json_loads_bytes_def)

definition ex_heartbeat :: heartbeat_io where
  "ex_heartbeat = \<lparr>hb_runtime = Inr (json_enc json_compact ex_runtime), hb_local = (\<lambda>_. Inr 1700000000), hb_proof = Inr ex_summary\<rparr>"

lemma ex_runtime_read: "read_bounded ex_float (hb_runtime ex_heartbeat) 32768 = Inr (mapping_or_empty ex_runtime)"
proof -
  have "no_floats ex_runtime" "wf_val ex_runtime" "length (json_enc json_compact ex_runtime) \<le> 400" by code_simp+
  moreover have "(case ex_runtime of PDict d \<Rightarrow> Inr d | _ \<Rightarrow> Inl e) = Inr (mapping_or_empty ex_runtime)" for e :: py_exc
    by (simp add: ex_runtime_def mapping_or_empty_def)
  ultimately show ?thesis
    by (simp add: read_bounded_def ex_heartbeat_def json_bytes_read)
qed

lemma ex_last_run: "\<exists>b t caps. re_match LAST_RUN ex_time = Some (b, t, caps) \<and> strptime_ok (group caps 2)"
proof -
  have "re_match LAST_RUN ex_time \<noteq> None \<and> strptime_ok (group (snd (snd (the (re_match LAST_RUN ex_time)))) 2)"
    by code_simp
  then show ?thesis by auto
qed

lemma ex_proof_accepted: "\<exists>rest. checked_feed_proof ex_summary 1700000010 = Inr ((''banip_feed_verification'', PStr ''verified'') # rest)"
proof -
  have time: "number_of (clock_value (vf_finish ex_verify)) = Some 1700000005" "clock_value (vf_finish ex_verify) \<noteq> PNone"
      "epoch (clock_value (vf_finish ex_verify)) 1700000010 = Inr True"
    by (simp_all add: ex_verify_def clock_value_def number_of_def epoch_def too_large_def in_time_def)
  have "age_at 1700000010 1700000005 = 5" by (simp add: age_at_def Let_def)
  then have "checked_times 1700000010 (PStr ''verified'') (clock_value (vf_finish ex_verify)) (PInt 1) (PInt 1) = Inr ()"
    by (simp add: checked_times_def time age_fits_def count_ok_def MAX_NETWORKS_def MAX_PROOF_AGE_def int_value_def)
  then show ?thesis
    by (simp add: checked_feed_proof_def ex_summary_def summary_value_def feed_row_def checked_row_def dget_or_def
        in_set_PStr STATUSES_def opt_int_def dict_value_def row_age_def combined_status_def largest_age_def
        py_eq.simps scalar_eq_def num_val_def Let_def)
qed

lemma ex_heartbeat_returns: "\<exists>rec. heartbeat ex_float ex_heartbeat ''router'' 1700000010 True = Inr rec"
proof -
  obtain d where d: "ex_runtime = PDict d" by (simp add: ex_runtime_def)
  obtain b t caps where m: "re_match LAST_RUN ex_time = Some (b, t, caps)" "strptime_ok (group caps 2)"
    using ex_last_run by blast
  have fields: "dget d ''status'' = PStr ''active''" "dget d ''active_feeds'' = PList [PStr ''feodo.v4'']"
      "dget d ''last_run'' = PStr ex_time"
    using d by (auto simp: ex_runtime_def dget_or_def)
  have "list_all (str_member feed_name_ok) [PStr ''feodo.v4'']" by code_simp
  then have "\<exists>rec'. runtime_fields ex_heartbeat 1700000010 d rec = (rec', None)" for rec
    using fields m by (simp add: runtime_fields_def in_set_PStr RUNTIME_STATUSES_def active_fields_def last_run_fields_def
        Let_def ex_heartbeat_def)
  then have run: "\<exists>rec'. runtime_handled (runtime_fields ex_heartbeat 1700000010 d rec) = Inr rec'" for rec
    by (metis (no_types, lifting) old.prod.case option.case(1) runtime_handled_def)
  have "\<exists>ts. utc_iso 1700000010 = Inr ts"
    by (simp add: utc_iso_def MIN_SECONDS_def MAX_SECONDS_def Let_def round_even_def)
  then obtain ts where ts: "utc_iso 1700000010 = Inr ts" by blast
  obtain rec1 where rec1: "runtime_handled (runtime_fields ex_heartbeat 1700000010 d (base_record ''router'' ts)) = Inr rec1"
    using run by blast
  have "\<exists>rec'. proof_fields ex_heartbeat 1700000010 rec = Inr rec'" for rec
    using ex_proof_accepted by (auto simp: proof_fields_def ex_heartbeat_def)
  then show ?thesis
    by (simp add: heartbeat_def Let_def ex_runtime_read d ts rec1)
qed

theorem heartbeat_is_honest_witness:
  "\<exists>rec. heartbeat ex_float ex_heartbeat ''router'' 1700000010 True = Inr rec
     \<and> dget rec ''banip_feed_verification'' \<in> PStr ` set STATUSES"
  using ex_heartbeat_returns heartbeat_is_honest by blast

text \<open>A last run in the last hours of the year 9999, west of Greenwich, is later than the calendar in UTC:
  the conversion raises \<open>OverflowError\<close>, which no handler of the heartbeat names, so the monitor ends
  instead of reporting an unknown state.\<close>

definition late_time :: string where "late_time = ''mode: reload, date / time: 31/12/9999 23:59:59,''"

lemma runtime_handled_overflow: "runtime_handled (rec, Some OverflowError) = Inl OverflowError"
  by (simp add: runtime_handled_def is_value_error_def is_proof_error_def)

lemma heartbeat_overflows:
  assumes "hb_local io ''31/12/9999 23:59:59'' = Inl OverflowError"
    and "read_bounded float_of (hb_runtime io) 32768 = Inr [(''status'', PStr ''active''), (''active_feeds'', PList []),
      (''last_run'', PStr late_time)]"
    and "utc_iso now = Inr ts"
  shows "heartbeat float_of io sensor now flag = Inl OverflowError"
proof -
  have "re_match LAST_RUN late_time \<noteq> None \<and> strptime_ok (group (snd (snd (the (re_match LAST_RUN late_time)))) 2)
      \<and> group (snd (snd (the (re_match LAST_RUN late_time)))) 2 = ''31/12/9999 23:59:59''"
    by code_simp
  then obtain b t caps where m: "re_match LAST_RUN late_time = Some (b, t, caps)" "strptime_ok (group caps 2)"
      "group caps 2 = ''31/12/9999 23:59:59''" by auto
  let ?data = "[(''status'', PStr ''active''), (''active_feeds'', PList []), (''last_run'', PStr late_time)]"
  have "last_run_fields io now (PStr late_time) rec = Inl OverflowError" for rec
    using m assms(1) by (simp add: last_run_fields_def)
  then have "\<exists>rec'. runtime_fields io now ?data rec = (rec', Some OverflowError)" for rec
    by (simp add: runtime_fields_def active_fields_def dget_or_def in_set_PStr RUNTIME_STATUSES_def)
  then have "runtime_handled (runtime_fields io now ?data rec) = Inl OverflowError" for rec
    by (metis (no_types, lifting) runtime_handled_overflow)
  then show ?thesis by (simp add: heartbeat_def Let_def assms(2,3))
qed

end
