(* ===== verification/Kernel_Cleanup.thy ===== *)
theory Kernel_Cleanup
  imports Canonical_Json
begin

text \<open>
  \<open>cleanup_old_builds.py\<close> of the kernel build role: planning the removal of old work
  directories, and applying a plan that was reviewed by its digest.  The arguments are the
  answers of the system: the entries of the work root, what \<open>os.walk\<close> and \<open>lstat\<close> say of a
  directory tree, the links below \<open>/proc\<close>, and free space; SHA-256 is a parameter.
\<close>

abbreviation CleanupBlocked :: "string \<Rightarrow> py_exc" where
  "CleanupBlocked m \<equiv> ScriptError ''CleanupBlocked'' m"

section \<open>Labels\<close>

definition cl_label :: "string \<Rightarrow> bool" where
  [py_defs]: "cl_label s \<longleftrightarrow> length (take 8 s) = 8 \<and> list_all (\<lambda>c. CHR ''0'' \<le> c \<and> c \<le> CHR ''9'') (take 8 s)
     \<and> drop 8 s = ''-rpi5-homecluster''"

definition PRODUCTION_ROOT :: string where
  [py_defs]: "PRODUCTION_ROOT = ''/var/lib/rancher/k3s/kernel-build''"

definition validate_labels :: "string \<Rightarrow> string \<Rightarrow> string \<Rightarrow> string list res" where
  [py_defs]: "validate_labels candidate accepted rollback =
     (let labels = [candidate, accepted, rollback] in
      if list_ex (\<lambda>l. \<not> cl_label l) labels then Inl (CleanupBlocked ''invalid_protected_label'')
      else if \<not> distinct labels then Inl (CleanupBlocked ''protected_labels_not_distinct'')
      else Inr labels)"

section \<open>The size of a directory\<close>

text \<open>A tree as \<open>os.walk\<close> without following links sees it: the \<open>st_blocks\<close> of the entry's
  \<open>lstat\<close>, and the entries the walk lists below it (none below a file, a link, or a directory
  that cannot be listed).\<close>

datatype fs_tree = FsTree (ft_blocks: "int res") (ft_entries: "fs_tree list")

lemma foldE_cong [fundef_cong]:
  "xs = ys \<Longrightarrow> s = t \<Longrightarrow> (\<And>x s. x \<in> set ys \<Longrightarrow> f x s = g x s) \<Longrightarrow> foldE f xs s = foldE g ys t"
proof (induction xs arbitrary: ys s t)
  case (Cons a xs)
  then have "foldE f xs u = foldE g xs u" for u by auto
  with Cons show ?case by (cases "g a t") auto
qed simp

fun walk_bytes :: "fs_tree \<Rightarrow> int \<Rightarrow> int res" where
  "walk_bytes (FsTree b entries) acc =
     bindE (foldE (\<lambda>e n. bindE (ft_blocks e) (\<lambda>k. Inr (n + k * 512))) entries acc)
       (foldE walk_bytes entries)"

definition directory_bytes :: "fs_tree \<Rightarrow> int res" where
  [py_defs]: "directory_bytes t = bindE (walk_bytes t 0) (\<lambda>n.
     bindE (ft_blocks t) (\<lambda>b. Inr (n + b * 512)))"

section \<open>References from running processes\<close>

text \<open>An entry of \<open>/proc\<close>: its name, the answers of \<open>readlink\<close> for \<open>cwd\<close> and \<open>exe\<close>, and
  the listing of \<open>fd\<close> with the answers for its links.\<close>

record proc_entry =
  pe_name :: string
  pe_cwd_exe :: "string res list"
  pe_fds :: "string res list res"

definition removesuffix :: "string \<Rightarrow> string \<Rightarrow> string" where
  [py_defs]: "removesuffix s suffix =
     (if suffix \<noteq> [] \<and> length suffix \<le> length s \<and> drop (length s - length suffix) s = suffix
      then take (length s - length suffix) s else s)"

definition target_in :: "string list \<Rightarrow> string \<Rightarrow> bool" where
  [py_defs]: "target_in paths target \<longleftrightarrow>
     target \<in> set paths \<or> list_ex (\<lambda>p. startswith target (p @ ''/'')) paths"

definition proc_references :: "proc_entry \<Rightarrow> string res list" where
  [py_defs]: "proc_references p = pe_cwd_exe p @ (case pe_fds p of Inl e \<Rightarrow> [] | Inr fds \<Rightarrow> fds)"

definition refers_to :: "string list \<Rightarrow> string res \<Rightarrow> bool" where
  [py_defs]: "refers_to paths r = (case r of Inl e \<Rightarrow> False
     | Inr link \<Rightarrow> target_in paths (removesuffix link '' (deleted)''))"

definition active_references :: "string list \<Rightarrow> proc_entry list res \<Rightarrow> bool res" where
  [py_defs]: "active_references paths procs = bindE procs (\<lambda>ps.
     Inr (list_ex (\<lambda>p. py_isdigit (pe_name p) \<and> list_ex (refers_to paths) (proc_references p)) ps))"

section \<open>The plan\<close>

text \<open>\<open>a or not b\<close>, where either test may raise.\<close>

definition or_not :: "bool res \<Rightarrow> bool res \<Rightarrow> bool res" where
  [py_defs]: "or_not a b = bindE a (\<lambda>x. if x then Inr True else bindE b (\<lambda>y. Inr (\<not> y)))"

record work_entry =
  we_name :: string
  we_directory :: "bool res"
  we_inode :: "int res"
  we_tree :: fs_tree

record work_root =
  wr_symlink :: "bool res"
  wr_directory :: "bool res"
  wr_entries :: "work_entry list res"
  wr_procs :: "proc_entry list res"

definition child :: "string \<Rightarrow> string \<Rightarrow> string" where
  [py_defs]: "child base label = base @ ''/'' @ label"

definition first_label :: "string list \<Rightarrow> string" where
  [py_defs]: "first_label ls = foldr min ls (hd ls)"

text \<open>The loop over the entries: what it appends to \<open>eligible\<close> for one of them.\<close>

definition eligible_step :: "string list \<Rightarrow> work_entry \<Rightarrow> work_entry list \<Rightarrow> work_entry list res" where
  [py_defs]: "eligible_step protected path eligible =
     (if \<not> cl_label (we_name path) then Inr eligible
      else bindE (we_directory path) (\<lambda>is_dir.
        if \<not> is_dir then Inl (CleanupBlocked ''dated_entry_not_directory'')
        else if we_name path \<in> set protected then Inr eligible
        else if first_label protected \<le> we_name path then Inr eligible
        else Inr (eligible @ [path])))"

text \<open>Oldest first until enough would be free: the selected entries and the projected space.\<close>

fun select_oldest :: "int \<Rightarrow> work_entry list \<Rightarrow> work_entry list \<Rightarrow> int \<Rightarrow> (work_entry list \<times> int) res" where
  "select_oldest minimum [] selected free = Inr (selected, free)"
| "select_oldest minimum (p # ps) selected free =
     (if minimum \<le> free then Inr (selected, free)
      else bindE (directory_bytes (we_tree p)) (\<lambda>n. select_oldest minimum ps (selected @ [p]) (free + n)))"

record cleanup_plan =
  cp_digest :: string
  cp_delete :: "string list"
  cp_protected :: "string list"
  cp_before :: int
  cp_projected :: int

definition delete_item :: "string \<Rightarrow> int \<Rightarrow> pyval" where
  [py_defs]: "delete_item label inode = PDict [(''label'', PStr label), (''inode'', PInt inode)]"

definition plan_identity :: "string \<Rightarrow> string list \<Rightarrow> (string \<times> int) list \<Rightarrow> int \<Rightarrow> pyval" where
  [py_defs]: "plan_identity base protected delete minimum = PDict
     [(''root'', PStr base), (''protected'', PList (map PStr protected)),
      (''delete'', PList (map (\<lambda>(l, i). delete_item l i) delete)), (''min_free_bytes'', PInt minimum)]"

definition identity_text :: "pyval \<Rightarrow> string" where
  [py_defs]: "identity_text v = json_enc json_default (sorted_value v)"

definition entry_identity :: "work_entry \<Rightarrow> (string \<times> int) res" where
  [py_defs]: "entry_identity p = bindE (we_inode p) (\<lambda>i. Inr (we_name p, i))"

definition build_plan ::
  "(string \<Rightarrow> string) \<Rightarrow> string \<Rightarrow> work_root \<Rightarrow> string list \<Rightarrow> int \<Rightarrow> int \<Rightarrow> cleanup_plan res" where
  [py_defs]: "build_plan sha256 base work protected minimum free =
     bindE (or_not (wr_symlink work) (wr_directory work)) (\<lambda>invalid.
      if invalid then Inl (CleanupBlocked ''invalid_work_root'')
      else bindE (wr_entries work) (\<lambda>entries.
        bindE (foldE (eligible_step protected) entries []) (\<lambda>found.
        let eligible = sort_key we_name found in
        bindE (active_references (map (\<lambda>p. child base (we_name p)) eligible) (wr_procs work)) (\<lambda>active.
        if active then Inl (CleanupBlocked ''active_build_reference'')
        else bindE (select_oldest minimum eligible [] free) (\<lambda>(selected, projected).
          if projected < minimum then Inl (CleanupBlocked ''insufficient_reclaimable_space'')
          else bindE (mapE entry_identity selected) (\<lambda>delete.
            Inr \<lparr>cp_digest = sha256 (identity_text (plan_identity base (sort protected) delete minimum)),
                 cp_delete = map we_name selected, cp_protected = sort protected,
                 cp_before = free, cp_projected = projected\<rparr>))))))"

section \<open>The command\<close>

text \<open>What the apply loop finds when it comes to a label, and whether \<open>rmtree\<close> succeeds.\<close>

record label_state =
  ls_symlink :: "bool res"
  ls_directory :: "bool res"
  ls_procs :: "proc_entry list res"
  ls_rmtree :: "unit res"

record cleanup_io =
  ci_symlink :: "bool res"
  ci_free :: "int res"
  ci_work :: work_root
  ci_label :: "string \<Rightarrow> label_state"
  ci_free_after :: "int res"

record cleanup_args =
  ca_root :: string
  ca_candidate :: string
  ca_accepted :: string
  ca_rollback :: string
  ca_min_free_gib :: int
  ca_apply :: bool
  ca_expected :: string

definition GIB :: int where [py_defs]: "GIB = 1024 * 1024 * 1024"

text \<open>The apply loop: the labels whose trees \<open>rmtree\<close> was called on, and the first exception.\<close>

fun remove_labels :: "string \<Rightarrow> (string \<Rightarrow> label_state) \<Rightarrow> string list \<Rightarrow> string list \<times> unit res" where
  "remove_labels base world [] = ([], Inr ())"
| "remove_labels base world (l # ls) =
     (let s = world l in
      case bindE (or_not (ls_symlink s) (ls_directory s)) (\<lambda>changed.
             if changed then Inr True else active_references [child base l] (ls_procs s)) of
        Inl e \<Rightarrow> ([], Inl e)
      | Inr True \<Rightarrow> ([], Inl (CleanupBlocked ''candidate_changed_or_active''))
      | Inr False \<Rightarrow>
          (case ls_rmtree s of
             Inl e \<Rightarrow> ([l], Inl e)
           | Inr u \<Rightarrow> (let (removed, r) = remove_labels base world ls in (l # removed, r))))"

definition checked_plan :: "(string \<Rightarrow> string) \<Rightarrow> cleanup_args \<Rightarrow> cleanup_io \<Rightarrow> cleanup_plan res" where
  [py_defs]: "checked_plan sha256 args io =
     bindE (validate_labels (ca_candidate args) (ca_accepted args) (ca_rollback args)) (\<lambda>protected.
     bindE (if ca_root args \<noteq> PRODUCTION_ROOT then Inr True else ci_symlink io) (\<lambda>unexpected.
     if unexpected then Inl (CleanupBlocked ''unexpected_work_root'')
     else if \<not> (1 \<le> ca_min_free_gib args \<and> ca_min_free_gib args \<le> 200)
       then Inl (CleanupBlocked ''invalid_min_free_gib'')
     else if ca_apply args \<and> \<not> (length (ca_expected args) = 64 \<and> list_all lower_hex (ca_expected args))
       then Inl (CleanupBlocked ''plan_digest_required'')
     else if \<not> ca_apply args \<and> ca_expected args \<noteq> [] then Inl (CleanupBlocked ''plan_digest_without_apply'')
     else bindE (ci_free io) (\<lambda>free.
       build_plan sha256 (ca_root args) (ci_work io) protected (ca_min_free_gib args * GIB) free)))"

definition plan_value :: "cleanup_plan \<Rightarrow> (string \<times> pyval) list \<Rightarrow> pyval" where
  [py_defs]: "plan_value p rest = PDict
     ([(''status'', PStr ''pass''), (''plan_sha256'', PStr (cp_digest p)),
       (''delete_labels'', PList (map PStr (cp_delete p))),
       (''protected_labels'', PList (map PStr (cp_protected p))),
       (''free_bytes_before'', PInt (cp_before p)), (''projected_free_bytes'', PInt (cp_projected p))] @ rest)"

definition apply_plan :: "cleanup_args \<Rightarrow> cleanup_io \<Rightarrow> cleanup_plan \<Rightarrow> string list \<times> pyval res" where
  [py_defs]: "apply_plan args io p =
     (if \<not> ca_apply args then ([], Inr (plan_value p [(''mode'', PStr ''preview'')]))
      else if cp_digest p \<noteq> ca_expected args then ([], Inl (CleanupBlocked ''plan_changed''))
      else (let (removed, r) = remove_labels (ca_root args) (ci_label io) (cp_delete p) in
        (removed, bindE r (\<lambda>_. bindE (ci_free_after io) (\<lambda>free.
           if free < ca_min_free_gib args * GIB then Inl (CleanupBlocked ''free_space_goal_not_met'')
           else Inr (plan_value p [(''free_bytes_after'', PInt free), (''mode'', PStr ''apply'')]))))))"

text \<open>The labels removed, the value printed with its keys sorted, and the exit code.  An
  exception that is neither a \<open>CleanupBlocked\<close> nor an \<open>OSError\<close> ends the program.\<close>

definition cleanup_reason :: "py_exc \<Rightarrow> string option" where
  [py_defs]: "cleanup_reason e = (case e of
       ScriptError c m \<Rightarrow> if c = ''CleanupBlocked'' then Some m else None
     | OSError \<Rightarrow> Some ''filesystem_error'' | FileNotFoundError \<Rightarrow> Some ''filesystem_error'' | _ \<Rightarrow> None)"

definition cleanup_main ::
  "(string \<Rightarrow> string) \<Rightarrow> cleanup_args \<Rightarrow> cleanup_io \<Rightarrow> string list \<times> (string \<times> nat) res" where
  [py_defs]: "cleanup_main sha256 args io =
     (let (removed, r) = (case checked_plan sha256 args io of
            Inl e \<Rightarrow> ([], Inl e) | Inr p \<Rightarrow> apply_plan args io p) in
      (removed, case r of
         Inr v \<Rightarrow> Inr (identity_text v, 0)
       | Inl e \<Rightarrow> (case cleanup_reason e of
           None \<Rightarrow> Inl e
         | Some m \<Rightarrow> Inr (identity_text (PDict [(''status'', PStr ''blocked''), (''reason'', PStr m)]), 2))))"

end
