(* ===== verification/Cleanup_Props.thy ===== *)
theory Cleanup_Props
  imports Kernel_Cleanup
begin

text \<open>
  Properties of \<open>cleanup_old_builds.py\<close>: what it removes is stale, unreferenced, needed for the
  space that was asked for, and on the plan that was reviewed.
\<close>

section \<open>The plan\<close>

lemma select_oldest_prefix:
  "select_oldest minimum ps sel free = Inr (sel', free') \<Longrightarrow>
     \<exists>taken rest. ps = taken @ rest \<and> sel' = sel @ taken \<and> (rest = [] \<or> minimum \<le> free')"
proof (induction minimum ps sel free rule: select_oldest.induct)
  case (2 minimum p ps sel free)
  show ?case
  proof (cases "minimum \<le> free")
    case True
    with 2 show ?thesis by auto
  next
    case False
    with 2 obtain n where n: "directory_bytes (we_tree p) = Inr n"
        "select_oldest minimum ps (sel @ [p]) (free + n) = Inr (sel', free')" by auto
    from 2(1) [OF False n(1) n(2)] show ?thesis by (metis append.assoc append_Cons append_Nil)
  qed
qed auto

text \<open>Every selected directory was needed: without it and the later ones there was not enough space.\<close>

definition reclaimed :: "work_entry list \<Rightarrow> int res" where
  "reclaimed ps = foldE (\<lambda>p n. bindE (directory_bytes (we_tree p)) (\<lambda>k. Inr (n + k))) ps 0"

lemma reclaimed_shift:
  "foldE (\<lambda>p n. bindE (directory_bytes (we_tree p)) (\<lambda>k. Inr (n + k))) ps m = Inr r \<longleftrightarrow> reclaimed ps = Inr (r - m)"
proof (induction ps arbitrary: m r)
  case (Cons p ps)
  show ?case
  proof (cases "directory_bytes (we_tree p)")
    case (Inr k)
    have "reclaimed (p # ps) = Inr (r - m) \<longleftrightarrow> reclaimed ps = Inr (r - m - k)"
      using Cons.IH [of k "r - m"] Inr by (simp add: reclaimed_def)
    then show ?thesis using Cons.IH [of "m + k" r] Inr by (simp add: algebra_simps)
  qed (simp add: reclaimed_def)
qed (auto simp: reclaimed_def)

lemma select_oldest_needed:
  "select_oldest minimum ps sel free = Inr (sel @ taken, free') \<Longrightarrow>
     reclaimed taken = Inr (free' - free)
     \<and> (\<forall>xs p ys. taken = xs @ p # ys \<longrightarrow> (\<exists>k. reclaimed xs = Inr k \<and> free + k < minimum))"
proof (induction minimum ps sel free arbitrary: taken rule: select_oldest.induct)
  case (2 minimum p ps sel free)
  show ?case
  proof (cases "minimum \<le> free")
    case True
    with 2 show ?thesis by (simp add: reclaimed_def)
  next
    case False
    with 2 obtain n where n: "directory_bytes (we_tree p) = Inr n"
        "select_oldest minimum ps (sel @ [p]) (free + n) = Inr (sel @ taken, free')" by auto
    from select_oldest_prefix [OF n(2)] obtain t where t: "taken = p # t" by auto
    with n(2) have "select_oldest minimum ps (sel @ [p]) (free + n) = Inr ((sel @ [p]) @ t, free')" by simp
    note IH = 2(1) [OF False n(1) this]
    have cons: "reclaimed (p # xs) = Inr (k + n)" if "reclaimed xs = Inr k" for xs k
      using that reclaimed_shift [of xs n "k + n"] n(1) by (simp add: reclaimed_def)
    have "\<exists>k. reclaimed xs = Inr k \<and> free + k < minimum" if "taken = xs @ q # ys" for xs q ys
    proof (cases xs)
      case Nil
      with False show ?thesis by (simp add: reclaimed_def)
    next
      case (Cons x rest)
      with that t have "t = rest @ q # ys" "x = p" by auto
      with IH obtain k where k: "reclaimed rest = Inr k" "free + n + k < minimum" by blast
      have "reclaimed xs = Inr (k + n) \<and> free + (k + n) < minimum"
        using cons [OF k(1)] k(2) Cons \<open>x = p\<close> by simp
      then show ?thesis by blast
    qed
    moreover have "reclaimed taken = Inr (free' - free)"
      using IH cons [of t "free' - (free + n)"] t by (simp add: algebra_simps)
    ultimately show ?thesis by blast
  qed
qed (simp add: reclaimed_def)

lemma first_label_le: "l \<in> set ls \<Longrightarrow> first_label ls \<le> l"
proof -
  have "x \<in> set xs \<Longrightarrow> foldr min xs b \<le> x" for x :: string and xs b
    by (induction xs) (auto simp: min.coboundedI1 min.coboundedI2)
  then show "l \<in> set ls \<Longrightarrow> first_label ls \<le> l" by (simp add: first_label_def)
qed

lemma eligible_ok:
  assumes "foldE (eligible_step protected) entries [] = Inr found" and "p \<in> set found"
  shows "p \<in> set entries \<and> cl_label (we_name p) \<and> we_directory p = Inr True
    \<and> (\<forall>l \<in> set protected. we_name p < l)"
proof -
  define ok where "ok p \<longleftrightarrow> p \<in> set entries \<and> cl_label (we_name p) \<and> we_directory p = Inr True
    \<and> (\<forall>l \<in> set protected. we_name p < l)" for p
  have "\<forall>p \<in> set found. ok p"
  proof (rule foldE_invariant [where P = "\<lambda>s. \<forall>p \<in> set s. ok p", OF assms(1)])
    fix x s t assume x: "x \<in> set entries" and s: "\<forall>p \<in> set s. ok p" and step: "eligible_step protected x s = Inr t"
    show "\<forall>p \<in> set t. ok p"
    proof (cases "t = s")
      case False
      with step have new: "t = s @ [x]" "cl_label (we_name x)" "we_directory x = Inr True"
          "\<not> first_label protected \<le> we_name x"
        by (auto simp: eligible_step_def split: if_splits)
      then have "\<forall>l \<in> set protected. we_name x < l" using first_label_le by fastforce
      with new x s show ?thesis by (auto simp: ok_def)
    qed (use s in simp)
  qed simp
  with assms(2) show ?thesis by (simp add: ok_def)
qed

lemma build_plan_cases:
  assumes "build_plan sha256 base work protected minimum free = Inr p"
  shows "\<exists>entries found selected projected delete. wr_entries work = Inr entries
    \<and> foldE (eligible_step protected) entries [] = Inr found
    \<and> select_oldest minimum (sort_key we_name found) [] free = Inr (selected, projected)
    \<and> minimum \<le> projected \<and> mapE entry_identity selected = Inr delete
    \<and> p = \<lparr>cp_digest = sha256 (identity_text (plan_identity base (sort protected) delete minimum)),
          cp_delete = map we_name selected, cp_protected = sort protected, cp_before = free, cp_projected = projected\<rparr>"
proof -
  obtain entries where entries: "wr_entries work = Inr entries"
    and run: "bindE (foldE (eligible_step protected) entries []) (\<lambda>found.
        let eligible = sort_key we_name found in
        bindE (active_references (map (\<lambda>p. child base (we_name p)) eligible) (wr_procs work)) (\<lambda>active.
        if active then Inl (CleanupBlocked ''active_build_reference'')
        else bindE (select_oldest minimum eligible [] free) (\<lambda>(selected, projected).
          if projected < minimum then Inl (CleanupBlocked ''insufficient_reclaimable_space'')
          else bindE (mapE entry_identity selected) (\<lambda>delete.
            Inr \<lparr>cp_digest = sha256 (identity_text (plan_identity base (sort protected) delete minimum)),
                 cp_delete = map we_name selected, cp_protected = sort protected,
                 cp_before = free, cp_projected = projected\<rparr>)))) = Inr p"
    using assms unfolding build_plan_def by (auto simp del: Let_def if_split split: if_split_asm)
  obtain found where found: "foldE (eligible_step protected) entries [] = Inr found"
    using run by auto
  obtain selected projected where sel: "select_oldest minimum (sort_key we_name found) [] free = Inr (selected, projected)"
      "\<not> projected < minimum" "bindE (mapE entry_identity selected) (\<lambda>delete.
            Inr \<lparr>cp_digest = sha256 (identity_text (plan_identity base (sort protected) delete minimum)),
                 cp_delete = map we_name selected, cp_protected = sort protected,
                 cp_before = free, cp_projected = projected\<rparr>) = Inr p"
    using run found by (auto simp: Let_def simp del: if_split split: if_split_asm)
  then show ?thesis using entries found by force
qed

lemma remove_labels_safe:
  "remove_labels base world ls = (removed, r) \<Longrightarrow> (\<exists>rest. ls = removed @ rest)
     \<and> (\<forall>l \<in> set removed. ls_symlink (world l) = Inr False \<and> ls_directory (world l) = Inr True
          \<and> active_references [child base l] (ls_procs (world l)) = Inr False)"
proof (induction ls arbitrary: removed r)
  case (Cons l ls)
  define test where "test = bindE (or_not (ls_symlink (world l)) (ls_directory (world l))) (\<lambda>changed.
     if changed then Inr True else active_references [child base l] (ls_procs (world l)))"
  have run: "(case test of
        Inl e \<Rightarrow> ([], Inl e)
      | Inr True \<Rightarrow> ([], Inl (CleanupBlocked ''candidate_changed_or_active''))
      | Inr False \<Rightarrow>
          (case ls_rmtree (world l) of
             Inl e \<Rightarrow> ([l], Inl e)
           | Inr u \<Rightarrow> (let (removed, r) = remove_labels base world ls in (l # removed, r)))) = (removed, r)"
    using Cons.prems by (simp add: Let_def test_def)
  show ?case
  proof (cases "test = Inr False")
    case False
    then have "removed = []" using run by (cases test) (auto split: bool.splits)
    then show ?thesis by simp
  next
    case True
    then have safe: "ls_symlink (world l) = Inr False \<and> ls_directory (world l) = Inr True
        \<and> active_references [child base l] (ls_procs (world l)) = Inr False"
      by (auto simp: test_def or_not_def split: if_splits)
    show ?thesis
    proof (cases "ls_rmtree (world l)")
      case (Inl e)
      with run True safe show ?thesis by auto
    next
      case (Inr u)
      obtain rem' r' where rest: "remove_labels base world ls = (rem', r')" by (cases "remove_labels base world ls")
      with run True Inr have "removed = l # rem'" by simp
      with Cons.IH [OF rest] safe show ?thesis by auto
    qed
  qed
qed simp

lemma checked_plan_cases:
  assumes "checked_plan sha256 args io = Inr p"
  shows "\<exists>free. ci_free io = Inr free \<and> ca_root args = PRODUCTION_ROOT
    \<and> build_plan sha256 PRODUCTION_ROOT (ci_work io) [ca_candidate args, ca_accepted args, ca_rollback args]
        (ca_min_free_gib args * GIB) free = Inr p
    \<and> list_all cl_label [ca_candidate args, ca_accepted args, ca_rollback args]
    \<and> distinct [ca_candidate args, ca_accepted args, ca_rollback args]"
proof -
  obtain protected where v: "validate_labels (ca_candidate args) (ca_accepted args) (ca_rollback args) = Inr protected"
    using assms by (auto simp: checked_plan_def)
  then have labels: "protected = [ca_candidate args, ca_accepted args, ca_rollback args]"
      "list_all cl_label protected" "distinct protected"
    by (auto simp: validate_labels_def Let_def split: if_splits)
  with assms v show ?thesis
    by (auto simp: checked_plan_def split: if_splits)
qed

section \<open>The digest names the plan\<close>

lemma sorted_field:
  assumes "sorted_value (PDict d) = sorted_value (PDict e)" and "distinct (map fst d)" and "distinct (map fst e)"
  shows "sorted_value (dget d k) = sorted_value (dget e k)"
proof -
  from assms(1) have "sorted_pairs d = sorted_pairs e" unfolding sorted_value_dict by simp
  then show ?thesis using dget_sorted [OF assms(2)] dget_sorted [OF assms(3)] by metis
qed

lemma sorted_delete_item:
  assumes "sorted_value (delete_item l i) = sorted_value (delete_item l' i')"
  shows "l = l' \<and> i = i'"
  using sorted_field [OF assms [unfolded delete_item_def], of "''label''"]
    sorted_field [OF assms [unfolded delete_item_def], of "''inode''"]
  by (simp add: dget_or_def)

lemma identity_text_inject:
  assumes "identity_text (plan_identity base ps ds m) = identity_text (plan_identity base' ps' ds' m')"
  shows "ds = ds'"
proof -
  have ok: "no_floats (sorted_value (plan_identity b q d n)) \<and> wf_val (sorted_value (plan_identity b q d n))" for b q d n
    by (intro conjI no_floats_sorted wf_sorted)
      (auto simp: plan_identity_def delete_item_def list_all_iff)
  have "json_parse (\<lambda>_. undefined) (identity_text (plan_identity b q d n)) = Inr (sorted_value (plan_identity b q d n))" for b q d n
    unfolding identity_text_def using ok no_floats_json_ok by (intro json_parse_enc) auto
  with assms have same: "sorted_value (plan_identity base ps ds m) = sorted_value (plan_identity base' ps' ds' m')"
    by (metis Inr_inject)
  have "map (\<lambda>(l, i). sorted_value (delete_item l i)) ds = map (\<lambda>(l, i). sorted_value (delete_item l i)) ds'"
    using sorted_field [OF same [unfolded plan_identity_def], of "''delete''"]
    by (simp add: dget_or_def split_def comp_def)
  then show ?thesis
    by (rule map_injective) (auto simp: inj_def dest!: sorted_delete_item)
qed

lemma digest_fixes_deletions:
  assumes "build_plan sha256 base work ps m free = Inr p" and "build_plan sha256 base' work' ps' m' free' = Inr p'"
    and "cp_digest p = cp_digest p'"
  shows "cp_delete p = cp_delete p' \<or> (\<exists>a b. a \<noteq> b \<and> sha256 a = sha256 b)"
proof (rule disjCI)
  assume no: "\<nexists>a b. a \<noteq> b \<and> sha256 a = sha256 b"
  have names: "map fst ds = map we_name ss" if "mapE entry_identity ss = Inr ds" for ss ds
    using that by (induction ss arbitrary: ds) (auto simp: entry_identity_def)
  from build_plan_cases [OF assms(1)] obtain ds where ds: "map fst ds = cp_delete p"
      "cp_digest p = sha256 (identity_text (plan_identity base (sort ps) ds m))" using names by fastforce
  from build_plan_cases [OF assms(2)] obtain ds' where ds': "map fst ds' = cp_delete p'"
      "cp_digest p' = sha256 (identity_text (plan_identity base' (sort ps') ds' m'))" using names by fastforce
  from assms(3) ds(2) ds'(2) no identity_text_inject have "ds = ds'" by metis
  with ds(1) ds'(1) show "cp_delete p = cp_delete p'" by simp
qed

section \<open>What is removed\<close>

lemma cleanup_main_removes:
  assumes "cleanup_main sha256 args io = (removed, r)" and "removed \<noteq> []"
  shows "\<exists>p r'. checked_plan sha256 args io = Inr p \<and> ca_apply args \<and> cp_digest p = ca_expected args
    \<and> remove_labels (ca_root args) (ci_label io) (cp_delete p) = (removed, r')"
proof (cases "checked_plan sha256 args io")
  case (Inl e)
  with assms show ?thesis by (simp add: cleanup_main_def)
next
  case (Inr p)
  obtain ls r' where run: "remove_labels (ca_root args) (ci_label io) (cp_delete p) = (ls, r')"
    by (cases "remove_labels (ca_root args) (ci_label io) (cp_delete p)")
  have "removed = fst (apply_plan args io p)"
    using assms(1) Inr by (simp add: cleanup_main_def Let_def split_def)
  with assms(2) run have "ca_apply args" "cp_digest p = ca_expected args" "removed = ls"
    by (simp_all add: apply_plan_def split: if_splits)
  with Inr run show ?thesis by simp
qed

lemma planned_entry:
  assumes "build_plan sha256 base work protected minimum free = Inr p" and "cp_delete p = xs @ l # ys"
  shows "cl_label l \<and> (\<forall>q \<in> set protected. l < q)
    \<and> (\<exists>older k entries. wr_entries work = Inr entries \<and> set older \<subseteq> set entries
        \<and> map we_name older = xs \<and> reclaimed older = Inr k \<and> free + k < minimum)"
proof -
  from build_plan_cases [OF assms(1)] obtain entries found selected projected
    where entries: "wr_entries work = Inr entries" "foldE (eligible_step protected) entries [] = Inr found"
      and sel: "select_oldest minimum (sort_key we_name found) [] free = Inr (selected, projected)"
      and del: "cp_delete p = map we_name selected" by auto
  from del assms(2) have "map we_name selected = xs @ l # ys" by simp
  then obtain older q rest where split: "selected = older @ q # rest" "map we_name older = xs" "we_name q = l"
    by (auto simp: map_eq_append_conv map_eq_Cons_conv)
  from select_oldest_prefix [OF sel] have "set selected \<subseteq> set found"
    by (metis append_Nil set_append set_sort Un_upper1)
  with split have "q \<in> set found" "set older \<subseteq> set found" by auto
  with eligible_ok [OF entries(2)] split(3)
  have "cl_label l \<and> (\<forall>q \<in> set protected. l < q)" and "set older \<subseteq> set entries" by blast+
  moreover from select_oldest_needed [of minimum _ "[]" free selected projected] sel split(1)
  have "\<exists>k. reclaimed older = Inr k \<and> free + k < minimum" by (metis append_Nil)
  ultimately show ?thesis using entries(1) split(2) by blast
qed

text \<open>
  Property C7.  When \<open>--apply\<close> runs with the digest printed by an earlier preview, every directory
  the program removes carries a dated label strictly older than the candidate, the accepted and
  the rollback build, is at that moment a real directory (not a link) that no process refers to,
  was needed (the older directories on the list did not yet free the requested space), and stands
  on the previewed list, which is worked through from its beginning; unless SHA-256 collides.
\<close>

theorem cleanup_removes_only_stale:
  assumes "checked_plan sha256 args0 io0 = Inr reviewed" and "ca_expected args = cp_digest reviewed"
    and "cleanup_main sha256 args io = (removed, r)" and "removed = older @ l # later"
  shows "ca_apply args \<and> cl_label l \<and> l < ca_candidate args \<and> l < ca_accepted args \<and> l < ca_rollback args
    \<and> ls_symlink (ci_label io l) = Inr False \<and> ls_directory (ci_label io l) = Inr True
    \<and> active_references [child PRODUCTION_ROOT l] (ls_procs (ci_label io l)) = Inr False
    \<and> (\<exists>taken k entries free. wr_entries (ci_work io) = Inr entries \<and> set taken \<subseteq> set entries
        \<and> map we_name taken = older \<and> reclaimed taken = Inr k
        \<and> ci_free io = Inr free \<and> free + k < ca_min_free_gib args * GIB)
    \<and> ((\<exists>rest. cp_delete reviewed = removed @ rest) \<or> (\<exists>a b. a \<noteq> b \<and> sha256 a = sha256 b))"
proof -
  from cleanup_main_removes [OF assms(3)] assms(4) obtain p r' where p: "checked_plan sha256 args io = Inr p"
      "ca_apply args" "cp_digest p = ca_expected args"
      "remove_labels (ca_root args) (ci_label io) (cp_delete p) = (removed, r')" by auto
  from checked_plan_cases [OF p(1)] obtain free where free: "ci_free io = Inr free" "ca_root args = PRODUCTION_ROOT"
      "build_plan sha256 PRODUCTION_ROOT (ci_work io) [ca_candidate args, ca_accepted args, ca_rollback args]
        (ca_min_free_gib args * GIB) free = Inr p" by auto
  from remove_labels_safe [OF p(4)] assms(4) obtain rest where rest: "cp_delete p = removed @ rest"
      and safe: "ls_symlink (ci_label io l) = Inr False \<and> ls_directory (ci_label io l) = Inr True
        \<and> active_references [child PRODUCTION_ROOT l] (ls_procs (ci_label io l)) = Inr False"
    using free(2) by auto
  from rest assms(4) have "cp_delete p = older @ l # later @ rest" by simp
  note planned = planned_entry [OF free(3) this]
  from checked_plan_cases [OF assms(1)] digest_fixes_deletions [OF free(3)] p(3) assms(2) rest
  have "(\<exists>rest. cp_delete reviewed = removed @ rest) \<or> (\<exists>a b. a \<noteq> b \<and> sha256 a = sha256 b)" by metis
  with planned p(2) safe free(1) show ?thesis by auto
qed

text \<open>Two stale builds, of which removing the older one is enough.\<close>

definition ex_label :: "string \<Rightarrow> string" where "ex_label d = d @ ''-rpi5-homecluster''"

definition ex_entry :: "string \<Rightarrow> int \<Rightarrow> work_entry" where
  "ex_entry d n = \<lparr>we_name = ex_label d, we_directory = Inr True, we_inode = Inr n,
     we_tree = FsTree (Inr 8) [FsTree (Inr 2097152) []]\<rparr>"

definition ex_cleanup_args :: "bool \<Rightarrow> cleanup_args" where
  "ex_cleanup_args apply = \<lparr>ca_root = PRODUCTION_ROOT, ca_candidate = ex_label ''20260301'',
     ca_accepted = ex_label ''20260201'', ca_rollback = ex_label ''20260115'', ca_min_free_gib = 2,
     ca_apply = apply, ca_expected = (if apply then replicate 64 CHR ''a'' else [])\<rparr>"

definition ex_cleanup_io :: cleanup_io where
  "ex_cleanup_io = \<lparr>ci_symlink = Inr False, ci_free = Inr 1073741824,
     ci_work = \<lparr>wr_symlink = Inr False, wr_directory = Inr True,
        wr_entries = Inr [ex_entry ''20260110'' 12, ex_entry ''20260301'' 14, ex_entry ''20260101'' 11],
        wr_procs = Inr [\<lparr>pe_name = ''1'', pe_cwd_exe = [Inr ''/''], pe_fds = Inr []\<rparr>]\<rparr>,
     ci_label = (\<lambda>l. \<lparr>ls_symlink = Inr False, ls_directory = Inr True, ls_procs = Inr [], ls_rmtree = Inr ()\<rparr>),
     ci_free_after = Inr 2147483648\<rparr>"

definition ex_digest :: "string \<Rightarrow> string" where "ex_digest s = replicate 64 CHR ''a''"

lemma ex_hex: "list_all lower_hex (replicate n CHR ''a'')"
  by (induction n) (simp_all add: lower_hex_def)

lemma ex_cleanup_plans:
  "map_sum (\<lambda>_. ()) (\<lambda>p. (cp_delete p, cp_digest p)) (checked_plan ex_digest (ex_cleanup_args False) ex_cleanup_io)
     = Inr ([ex_label ''20260101''], replicate 64 CHR ''a'')"
  "map_sum (\<lambda>_. ()) (\<lambda>p. (cp_delete p, cp_digest p)) (checked_plan ex_digest (ex_cleanup_args True) ex_cleanup_io)
     = Inr ([ex_label ''20260101''], replicate 64 CHR ''a'')"
  by (simp_all add: py_defs ex_cleanup_args_def ex_cleanup_io_def ex_entry_def ex_label_def ex_digest_def ex_hex
      del: identity_text_def)

lemma ex_cleanup_removed: "fst (cleanup_main ex_digest (ex_cleanup_args True) ex_cleanup_io) = [] @ ex_label ''20260101'' # []"
proof -
  obtain p where p: "checked_plan ex_digest (ex_cleanup_args True) ex_cleanup_io = Inr p"
      "cp_delete p = [ex_label ''20260101'']" "cp_digest p = replicate 64 CHR ''a''"
    using ex_cleanup_plans(2) by (cases "checked_plan ex_digest (ex_cleanup_args True) ex_cleanup_io") auto
  have "remove_labels (ca_root (ex_cleanup_args True)) (ci_label ex_cleanup_io) [ex_label ''20260101'']
      = ([ex_label ''20260101''], Inr ())"
    by code_simp
  moreover have "ca_apply (ex_cleanup_args True)" "ca_expected (ex_cleanup_args True) = replicate 64 CHR ''a''"
    by (simp_all add: ex_cleanup_args_def)
  ultimately show ?thesis using p by (simp add: cleanup_main_def apply_plan_def split_def)
qed

theorem cleanup_removes_only_stale_witness:
  "ca_apply (ex_cleanup_args True) \<and> cl_label (ex_label ''20260101'')
   \<and> ex_label ''20260101'' < ca_rollback (ex_cleanup_args True)"
proof -
  obtain p where p: "checked_plan ex_digest (ex_cleanup_args False) ex_cleanup_io = Inr p"
      "cp_digest p = replicate 64 CHR ''a''"
    using ex_cleanup_plans(1) by (cases "checked_plan ex_digest (ex_cleanup_args False) ex_cleanup_io") auto
  have "ca_expected (ex_cleanup_args True) = cp_digest p" using p(2) by (simp add: ex_cleanup_args_def)
  moreover obtain removed r where "cleanup_main ex_digest (ex_cleanup_args True) ex_cleanup_io = (removed, r)"
    by (cases "cleanup_main ex_digest (ex_cleanup_args True) ex_cleanup_io")
  moreover from this have "removed = [] @ ex_label ''20260101'' # []" using ex_cleanup_removed by simp
  ultimately show ?thesis using cleanup_removes_only_stale [OF p(1)] by blast
qed

end
