(* ===== verification/Capture_Pcap.thy ===== *)
theory Capture_Pcap
  imports Feed_Verify
begin

text \<open>
  The capture files of \<open>security_capture.py\<close>: the validator of classic PCAP files, which reads
  every record, and what a well-formed file is.  The validator accepts
  exactly the well-formed files, and its summary is that of the packets in the file.
\<close>

abbreviation CaptureError :: "string \<Rightarrow> py_exc" where
  "CaptureError m \<equiv> ScriptError ''CaptureError'' m"

section \<open>The validator\<close>

definition CAPTURE_LIMIT :: nat where [py_defs]: "CAPTURE_LIMIT = 24 + 1000 * (16 + 65535)"
definition SNAPLEN :: nat where [py_defs]: "SNAPLEN = 65535"
definition MAX_PACKETS :: nat where [py_defs]: "MAX_PACKETS = 1000"

text \<open>\<open>struct.unpack\<close> of an unsigned field, in either byte order.\<close>

definition le_uint :: "string \<Rightarrow> nat" where
  [py_defs]: "le_uint s = foldr (\<lambda>c n. of_char c + 256 * n) s 0"

definition uint_of :: "bool \<Rightarrow> string \<Rightarrow> nat" where
  [py_defs]: "uint_of big s = le_uint (if big then rev s else s)"

definition field :: "nat \<Rightarrow> nat \<Rightarrow> string \<Rightarrow> string" where
  [py_defs]: "field i n s = take n (drop i s)"

definition pcap_endian :: "string \<Rightarrow> bool option" where
  [py_defs]: "pcap_endian magic = map_of
     [([CHR 0xD4, CHR 0xC3, CHR 0xB2, CHR 0xA1], False), ([CHR 0xA1, CHR 0xB2, CHR 0xC3, CHR 0xD4], True),
      ([CHR 0x4D, CHR 0x3C, CHR 0xB2, CHR 0xA1], False), ([CHR 0xA1, CHR 0xB2, CHR 0x3C, CHR 0x4D], True)] magic"

text \<open>The loop over the records: the numbers of packets and of truncated ones.\<close>

function pcap_loop :: "bool \<Rightarrow> nat \<Rightarrow> nat \<Rightarrow> string \<Rightarrow> (nat \<times> nat) res" where
  "pcap_loop big count truncated data =
     (if data = [] then Inr (count, truncated)
      else (let header = take 16 data; rest = drop 16 data;
                included = uint_of big (field 8 4 header); original = uint_of big (field 12 4 header) in
        if length header \<noteq> 16 then Inl (CaptureError ''pcap_record_header'')
        else if SNAPLEN < included \<or> original < included \<or> length (take included rest) \<noteq> included
          then Inl (CaptureError ''pcap_record_length'')
        else if MAX_PACKETS < count + 1 then Inl (CaptureError ''pcap_packet_limit'')
        else pcap_loop big (count + 1) (truncated + (if included < original then 1 else 0)) (drop included rest)))"
  by pat_completeness auto
termination
  by (relation "measure (\<lambda>(big, count, truncated, data). length data)") auto

declare pcap_loop.simps [simp del]

record pcap_summary =
  ps_size :: nat
  ps_packets :: nat
  ps_truncated :: nat
  ps_linktype :: nat
  ps_sha :: string

text \<open>\<open>pcap\<close>, given the size \<open>stat\<close> answers and the bytes of the file.\<close>

definition pcap_check :: "(string \<Rightarrow> string) \<Rightarrow> nat \<Rightarrow> string \<Rightarrow> pcap_summary res" where
  [py_defs]: "pcap_check sha256 n data =
     (if n < 24 \<or> CAPTURE_LIMIT < n then Inl (CaptureError ''pcap_size'')
      else (case pcap_endian (field 0 4 data) of
          None \<Rightarrow> Inl (CaptureError ''pcap_magic'')
        | Some big \<Rightarrow>
            (let head = take 24 data in
             if (uint_of big (field 4 2 head), uint_of big (field 6 2 head)) \<noteq> (2, 4)
                 \<or> uint_of big (field 16 4 head) \<noteq> SNAPLEN
             then Inl (CaptureError ''pcap_header'')
             else bindE (pcap_loop big 0 0 (drop 24 data)) (\<lambda>(count, truncated).
               Inr \<lparr>ps_size = n, ps_packets = count, ps_truncated = truncated,
                    ps_linktype = uint_of big (field 20 4 head), ps_sha = sha256 data\<rparr>))))"

definition summary_dict :: "pcap_summary \<Rightarrow> pydict" where
  [py_defs]: "summary_dict s =
     [(''size_bytes'', PInt (int (ps_size s))), (''packet_count'', PInt (int (ps_packets s))),
      (''truncated_packet_count'', PInt (int (ps_truncated s))), (''snaplen'', PInt (int SNAPLEN)),
      (''linktype'', PInt (int (ps_linktype s))), (''pcap_sha256'', PStr (ps_sha s))]"

section \<open>Well-formed files\<close>

text \<open>A packet: its eight bytes of time, what was kept of it, and its length on the wire.\<close>

record packet =
  pk_time :: string
  pk_kept :: string
  pk_length :: nat

fun le_bytes :: "nat \<Rightarrow> nat \<Rightarrow> string" where
  "le_bytes 0 n = []"
| "le_bytes (Suc k) n = char_of (n mod 256) # le_bytes k (n div 256)"

definition uint_bytes :: "bool \<Rightarrow> nat \<Rightarrow> nat \<Rightarrow> string" where
  "uint_bytes big k n = (if big then rev (le_bytes k n) else le_bytes k n)"

definition packet_bytes :: "bool \<Rightarrow> packet \<Rightarrow> string" where
  "packet_bytes big p = pk_time p @ uint_bytes big 4 (length (pk_kept p)) @ uint_bytes big 4 (pk_length p) @ pk_kept p"

definition packet_ok :: "packet \<Rightarrow> bool" where
  "packet_ok p \<longleftrightarrow> length (pk_time p) = 8 \<and> length (pk_kept p) \<le> SNAPLEN
     \<and> length (pk_kept p) \<le> pk_length p \<and> pk_length p < 2 ^ 32"

definition pcap_bytes :: "bool \<Rightarrow> string \<Rightarrow> string \<Rightarrow> nat \<Rightarrow> packet list \<Rightarrow> string" where
  "pcap_bytes big magic zone linktype ps = magic @ uint_bytes big 2 2 @ uint_bytes big 2 4 @ zone
     @ uint_bytes big 4 SNAPLEN @ uint_bytes big 4 linktype @ concat (map (packet_bytes big) ps)"

definition truncated_packets :: "packet list \<Rightarrow> nat" where
  "truncated_packets ps = length (filter (\<lambda>p. length (pk_kept p) < pk_length p) ps)"

section \<open>Numbers in bytes\<close>

lemma le_uint_simps [simp]: "le_uint [] = 0" "le_uint (c # s) = of_char c + 256 * le_uint s"
  by (simp_all add: le_uint_def)

lemma le_uint_bytes: "n < 256 ^ k \<Longrightarrow> le_uint (le_bytes k n) = n"
proof (induction k arbitrary: n)
  case (Suc k)
  then have "n div 256 < 256 ^ k" by (simp add: less_mult_imp_div_less mult.commute)
  with Suc.IH have "le_uint (le_bytes k (n div 256)) = n div 256" by blast
  then show ?case by simp
qed simp

lemma le_bytes_uint: "le_bytes (length s) (le_uint s) = s"
proof (induction s)
  case (Cons c s)
  have "(of_char c :: nat) < 256" by (rule nat_of_char_less_256)
  then have "(of_char c + 256 * le_uint s) mod 256 = of_char c" "(of_char c + 256 * le_uint s) div 256 = le_uint s"
    by simp_all
  with Cons show ?case by simp
qed simp

lemma length_le_bytes [simp]: "length (le_bytes k n) = k"
  by (induction k arbitrary: n) simp_all

lemma le_uint_less: "le_uint s < 256 ^ length s"
proof (induction s)
  case (Cons c s)
  have "(of_char c :: nat) < 256" by (rule nat_of_char_less_256)
  moreover define n :: nat where "n = 256 ^ length s"
  ultimately have "of_char c + 256 * le_uint s < 256 * n" using Cons by linarith
  then show ?case by (simp add: n_def)
qed simp

lemma length_uint_bytes [simp]: "length (uint_bytes big k n) = k"
  by (simp add: uint_bytes_def)

lemma uint_of_bytes: "n < 256 ^ k \<Longrightarrow> uint_of big (uint_bytes big k n) = n"
  by (simp add: uint_of_def uint_bytes_def le_uint_bytes)

lemma uint_bytes_of: "length s = k \<Longrightarrow> uint_bytes big k (uint_of big s) = s"
  using le_bytes_uint [of s] le_bytes_uint [of "rev s"] by (auto simp: uint_of_def uint_bytes_def)

lemma uint_of_less: "length s = k \<Longrightarrow> uint_of big s < 256 ^ k"
  using le_uint_less [of s] le_uint_less [of "rev s"] by (auto simp: uint_of_def)

lemma uint_of_iff: "length s = k \<Longrightarrow> n < 256 ^ k \<Longrightarrow> uint_of big s = n \<longleftrightarrow> s = uint_bytes big k n"
  using uint_of_bytes uint_bytes_of by metis

section \<open>What the validator accepts\<close>

lemma packet_bytes_parts:
  assumes "packet_ok p"
  shows "length (take 16 (packet_bytes big p @ rest)) = 16"
    "uint_of big (field 8 4 (take 16 (packet_bytes big p @ rest))) = length (pk_kept p)"
    "uint_of big (field 12 4 (take 16 (packet_bytes big p @ rest))) = pk_length p"
    "drop 16 (packet_bytes big p @ rest) = pk_kept p @ rest"
  using assms by (simp_all add: packet_bytes_def packet_ok_def field_def uint_of_bytes SNAPLEN_def)

lemma loop_accepts:
  "list_all packet_ok ps \<Longrightarrow> count + length ps \<le> MAX_PACKETS \<Longrightarrow>
     pcap_loop big count truncated (concat (map (packet_bytes big) ps))
       = Inr (count + length ps, truncated + truncated_packets ps)"
proof (induction ps arbitrary: count truncated)
  case (Cons p ps)
  define rest where "rest = concat (map (packet_bytes big) ps)"
  have "packet_ok p" using Cons.prems(1) by simp
  note parts = packet_bytes_parts [OF this, of big rest]
  have "packet_bytes big p @ rest \<noteq> []" using parts(1) by force
  with parts Cons \<open>packet_ok p\<close> show ?case
    by (subst pcap_loop.simps) (simp add: Let_def truncated_packets_def packet_ok_def flip: rest_def)
qed (simp add: pcap_loop.simps truncated_packets_def)

lemma loop_accepted:
  "pcap_loop big count truncated data = Inr (c, t) \<Longrightarrow>
     \<exists>ps. data = concat (map (packet_bytes big) ps) \<and> list_all packet_ok ps
       \<and> c = count + length ps \<and> t = truncated + truncated_packets ps \<and> (ps \<noteq> [] \<longrightarrow> c \<le> MAX_PACKETS)"
proof (induction big count truncated data rule: pcap_loop.induct)
  case (1 big count truncated data)
  show ?case
  proof (cases "data = []")
    case True
    with 1(2) show ?thesis
      by (intro exI [of _ "[]"]) (simp add: pcap_loop.simps truncated_packets_def)
  next
    case False
    define header where "header = take 16 data"
    define included where "included = uint_of big (field 8 4 header)"
    define original where "original = uint_of big (field 12 4 header)"
    define kept where "kept = take included (drop 16 data)"
    have ok: "length header = 16" "included \<le> SNAPLEN" "included \<le> original" "length kept = included"
        "count + 1 \<le> MAX_PACKETS"
        "pcap_loop big (count + 1) (truncated + (if included < original then 1 else 0)) (drop included (drop 16 data)) = Inr (c, t)"
    proof -
      have run: "(if length header \<noteq> 16 then Inl (CaptureError ''pcap_record_header'')
        else if SNAPLEN < included \<or> original < included \<or> length kept \<noteq> included
          then Inl (CaptureError ''pcap_record_length'')
        else if MAX_PACKETS < count + 1 then Inl (CaptureError ''pcap_packet_limit'')
        else pcap_loop big (count + 1) (truncated + (if included < original then 1 else 0))
          (drop included (drop 16 data))) = Inr (c, t)"
        using 1(2) False unfolding pcap_loop.simps [of big count truncated data]
        by (simp only: Let_def if_False header_def included_def original_def kept_def)
      then show "length header = 16" "included \<le> SNAPLEN" "included \<le> original" "length kept = included"
          "count + 1 \<le> MAX_PACKETS"
          "pcap_loop big (count + 1) (truncated + (if included < original then 1 else 0)) (drop included (drop 16 data)) = Inr (c, t)"
        by (simp_all only: split: if_split_asm) (simp_all add: not_less)
    qed
    obtain ps where ps: "drop included (drop 16 data) = concat (map (packet_bytes big) ps)" "list_all packet_ok ps"
        "c = count + 1 + length ps" "t = truncated + (if included < original then 1 else 0) + truncated_packets ps"
        "ps \<noteq> [] \<longrightarrow> c \<le> MAX_PACKETS"
      using 1(1) [OF False refl refl refl refl] ok unfolding header_def included_def original_def kept_def
      by (auto simp: not_less)
    define p where "p = \<lparr>pk_time = take 8 header, pk_kept = kept, pk_length = original\<rparr>"
    have l: "length (field 8 4 header) = 4" "length (field 12 4 header) = 4" using ok(1) by (simp_all add: field_def)
    have "packet_ok p"
      using ok uint_of_less [OF l(2), of big] by (simp add: packet_ok_def p_def original_def)
    moreover have "packet_bytes big p = header @ kept"
    proof -
      have "drop 8 header = field 8 4 header @ field 12 4 header"
        using ok(1) append_take_drop_id [of 4 "drop 8 header"] by (simp add: field_def)
      then have "header = take 8 header @ field 8 4 header @ field 12 4 header"
        by (metis append_take_drop_id)
      with ok(4) l show ?thesis
        by (simp add: packet_bytes_def p_def included_def original_def uint_bytes_of)
    qed
    then have "data = packet_bytes big p @ concat (map (packet_bytes big) ps)"
      unfolding ps(1) [symmetric] header_def kept_def by (simp del: drop_drop)
    moreover have "truncated_packets (p # ps) = (if included < original then 1 else 0) + truncated_packets ps"
      using ok(4) by (simp add: truncated_packets_def p_def)
    ultimately show ?thesis using ps ok(5) by (intro exI [of _ "p # ps"]) (cases "ps = []"; simp)
  qed
qed

lemma pcap_check_accepts:
  assumes data: "data = pcap_bytes big magic zone linktype ps"
    and ok: "pcap_endian magic = Some big" "length zone = 8" "linktype < 2 ^ 32" "list_all packet_ok ps"
      "length ps \<le> MAX_PACKETS" "length data \<le> CAPTURE_LIMIT"
  shows "pcap_check sha256 (length data) data = Inr \<lparr>ps_size = length data, ps_packets = length ps,
    ps_truncated = truncated_packets ps, ps_linktype = linktype, ps_sha = sha256 data\<rparr>"
proof -
  define head where "head = magic @ uint_bytes big 2 2 @ uint_bytes big 2 4 @ zone
     @ uint_bytes big 4 SNAPLEN @ uint_bytes big 4 linktype"
  have m: "length magic = 4" using ok(1) by (auto simp: pcap_endian_def split: if_splits)
  have d: "data = head @ concat (map (packet_bytes big) ps)" by (simp add: data pcap_bytes_def head_def)
  have l: "length head = 24" using m ok(2) by (simp add: head_def)
  have h: "field 4 2 head = uint_bytes big 2 2" "field 6 2 head = uint_bytes big 2 4"
      "field 16 4 head = uint_bytes big 4 SNAPLEN" "field 20 4 head = uint_bytes big 4 linktype" "field 0 4 data = magic"
    using m ok(2) by (simp_all add: head_def field_def data pcap_bytes_def)
  have t: "take 24 data = head" "drop 24 data = concat (map (packet_bytes big) ps)" "24 \<le> length data"
    using l by (simp_all add: d)
  show ?thesis
    using loop_accepts [OF ok(4), of 0 big 0] ok t h
    by (simp add: pcap_check_def Let_def uint_of_bytes SNAPLEN_def)
qed

text \<open>The header of a file that passes the checks of the header.\<close>

lemma pcap_header:
  assumes n: "24 \<le> length data" and "head = take 24 data"
    and h: "uint_of big (field 4 2 head) = 2" "uint_of big (field 6 2 head) = 4" "uint_of big (field 16 4 head) = SNAPLEN"
  shows "data = field 0 4 data @ uint_bytes big 2 2 @ uint_bytes big 2 4 @ field 8 8 head @ uint_bytes big 4 SNAPLEN
      @ uint_bytes big 4 (uint_of big (field 20 4 head)) @ drop 24 data"
    "uint_of big (field 20 4 head) < 2 ^ 32" "length (field 8 8 head) = 8"
proof -
  have l: "length (field 4 2 head) = 2" "length (field 6 2 head) = 2" "length (field 16 4 head) = 4"
      "length (field 20 4 head) = 4" "length (field 8 8 head) = 8"
    using n assms(2) by (simp_all add: field_def)
  have "head = field 0 4 data @ field 4 2 head @ field 6 2 head @ field 8 8 head @ field 16 4 head @ field 20 4 head"
    using n by (intro nth_equalityI) (auto simp: assms(2) field_def nth_append nth_take)
  moreover have "field 4 2 head = uint_bytes big 2 2" "field 6 2 head = uint_bytes big 2 4"
      "field 16 4 head = uint_bytes big 4 SNAPLEN"
    using l h by (simp_all add: uint_of_iff SNAPLEN_def)
  moreover have "data = head @ drop 24 data" by (simp add: assms(2))
  ultimately show "data = field 0 4 data @ uint_bytes big 2 2 @ uint_bytes big 2 4 @ field 8 8 head @ uint_bytes big 4 SNAPLEN
      @ uint_bytes big 4 (uint_of big (field 20 4 head)) @ drop 24 data"
    using uint_bytes_of [OF l(4), of big] by (metis append_assoc)
  show "uint_of big (field 20 4 head) < 2 ^ 32" "length (field 8 8 head) = 8" using uint_of_less [OF l(4), of big] l by simp_all
qed

text \<open>
  Property C23.  The validator accepts exactly the well-formed captures: a file passes if and only if it is a
  header of either byte order with version 2.4 and the fixed snap length, followed by at most a thousand
  whole packets, none kept longer than the snap length or than it was; and its summary counts exactly those
  packets.
\<close>

theorem pcap_accepts_well_formed:
  "pcap_check sha256 (length data) data = Inr s \<longleftrightarrow>
     (\<exists>big magic zone linktype ps. data = pcap_bytes big magic zone linktype ps
        \<and> pcap_endian magic = Some big \<and> length zone = 8 \<and> linktype < 2 ^ 32
        \<and> list_all packet_ok ps \<and> length ps \<le> MAX_PACKETS \<and> length data \<le> CAPTURE_LIMIT
        \<and> s = \<lparr>ps_size = length data, ps_packets = length ps, ps_truncated = truncated_packets ps,
               ps_linktype = linktype, ps_sha = sha256 data\<rparr>)" (is "?l \<longleftrightarrow> ?r")
proof
  assume ?l
  then have n: "24 \<le> length data" "length data \<le> CAPTURE_LIMIT" by (auto simp: pcap_check_def split: if_splits)
  with \<open>?l\<close> obtain big where big: "pcap_endian (field 0 4 data) = Some big"
    by (auto simp: pcap_check_def split: option.splits)
  define head where "head = take 24 data"
  have h: "uint_of big (field 4 2 head) = 2" "uint_of big (field 6 2 head) = 4" "uint_of big (field 16 4 head) = SNAPLEN"
    and run: "bindE (pcap_loop big 0 0 (drop 24 data)) (\<lambda>(count, truncated).
               Inr \<lparr>ps_size = length data, ps_packets = count, ps_truncated = truncated,
                    ps_linktype = uint_of big (field 20 4 head), ps_sha = sha256 data\<rparr>) = Inr s"
    using \<open>?l\<close> n big by (auto simp: pcap_check_def Let_def simp flip: head_def simp del: bindE_Inr_iff split: if_splits)
  from run obtain c t where ct: "pcap_loop big 0 0 (drop 24 data) = Inr (c, t)"
      "s = \<lparr>ps_size = length data, ps_packets = c, ps_truncated = t,
            ps_linktype = uint_of big (field 20 4 head), ps_sha = sha256 data\<rparr>" by auto
  from loop_accepted [OF ct(1)] obtain ps where ps: "drop 24 data = concat (map (packet_bytes big) ps)" "list_all packet_ok ps"
      "c = length ps" "t = truncated_packets ps" "length ps \<le> MAX_PACKETS" by (auto simp: MAX_PACKETS_def)
  from pcap_header [OF n(1) head_def h]
  have "data = pcap_bytes big (field 0 4 data) (field 8 8 head) (uint_of big (field 20 4 head)) ps"
    unfolding pcap_bytes_def ps(1) [symmetric] by simp
  then show ?r using big pcap_header(2,3) [OF n(1) head_def h] ct(2) ps(2-5) n(2) by blast
next
  assume ?r
  then show ?l using pcap_check_accepts by blast
qed

end
