(* ===== verification/Capture_System.thy ===== *)
theory Capture_System
  imports Capture_Pcap
begin

text \<open>
  The system calls of \<open>security_capture.py\<close> on an explicit file system.  A program is a function from
  the world to its result and the world afterwards.  Every call may fail, or be the one at which the
  process is killed: \<open>ev_fault\<close> says for each call, by its number, which exception it raises, where
  \<open>Diverges\<close> stands for the end of the process; a write that fails may have written a part.  What a
  call leaves of the files is otherwise what POSIX says.  Opening a symbolic link is an error here: the program
  opens with \<open>O_NOFOLLOW\<close>, or what \<open>lstat\<close> found to be a regular file.  The rules about \<open>safe\<close> reduce a
  statement about a program to its calls.
\<close>

section \<open>Files and programs\<close>

type_synonym path = "string list"

datatype file_kind = Regular | Directory | Special | Symlink "file_kind option"

record node =
  nd_kind :: file_kind
  nd_uid :: int
  nd_mode :: nat
  nd_links :: nat
  nd_data :: string

type_synonym files = "(path \<times> node) list"

record world =
  w_files :: files
  w_step :: nat

record cap_env =
  ev_fault :: "nat \<Rightarrow> py_exc option"
  ev_torn :: "nat \<Rightarrow> nat"
  ev_clock :: "nat \<Rightarrow> clock"
  ev_mtime :: "nat \<Rightarrow> rat"
  ev_uuid :: "nat \<Rightarrow> string"
  ev_uid :: int
  ev_sha :: "string \<Rightarrow> string"
  ev_float :: "string \<Rightarrow> pyfloat"
  ev_class :: "py_exc \<Rightarrow> string"

type_synonym 'a cap = "world \<Rightarrow> 'a res \<times> world"

definition liftC :: "'a res \<Rightarrow> 'a cap" where [py_defs]: "liftC r w = (r, w)"

abbreviation returnC :: "'a \<Rightarrow> 'a cap" where "returnC x \<equiv> liftC (Inr x)"
abbreviation raiseC :: "py_exc \<Rightarrow> 'a cap" where "raiseC e \<equiv> liftC (Inl e)"

definition bindC :: "'a cap \<Rightarrow> ('a \<Rightarrow> 'b cap) \<Rightarrow> 'b cap" where
  [py_defs]: "bindC m f w = (case m w of (Inl e, w') \<Rightarrow> (Inl e, w') | (Inr x, w') \<Rightarrow> f x w')"

definition requireC :: "bool \<Rightarrow> string \<Rightarrow> unit cap" where
  [py_defs]: "requireC b m = liftC (require b (CaptureError m))"

text \<open>\<open>except Exception\<close>: a killed process runs no handler.\<close>

definition catchC :: "'a cap \<Rightarrow> (py_exc \<Rightarrow> 'a cap) \<Rightarrow> 'a cap" where
  [py_defs]: "catchC m h w = (case m w of
       (Inl e, w') \<Rightarrow> if e = Diverges then (Inl e, w') else h e w'
     | (Inr x, w') \<Rightarrow> (Inr x, w'))"

fun anyC :: "('a \<Rightarrow> bool cap) \<Rightarrow> 'a list \<Rightarrow> bool cap" where
  "anyC f [] = returnC False"
| "anyC f (x # xs) = bindC (f x) (\<lambda>b. if b then returnC True else anyC f xs)"

fun eachC :: "('a \<Rightarrow> unit cap) \<Rightarrow> 'a list \<Rightarrow> unit cap" where
  "eachC f [] = returnC ()"
| "eachC f (x # xs) = bindC (f x) (\<lambda>_. eachC f xs)"

definition nowC :: "cap_env \<Rightarrow> clock cap" where [py_defs]: "nowC env w = (Inr (ev_clock env (w_step w)), w)"

text \<open>One system call.\<close>

definition sys :: "cap_env \<Rightarrow> (files \<Rightarrow> 'a res \<times> files) \<Rightarrow> 'a cap" where
  [py_defs]: "sys env f w = (case ev_fault env (w_step w) of
       Some e \<Rightarrow> (Inl e, w\<lparr>w_step := Suc (w_step w)\<rparr>)
     | None \<Rightarrow> (case f (w_files w) of (r, fs) \<Rightarrow> (r, \<lparr>w_files = fs, w_step = Suc (w_step w)\<rparr>)))"

section \<open>The calls\<close>

definition look :: "files \<Rightarrow> path \<Rightarrow> node res" where
  [py_defs]: "look fs p = (case map_of fs p of None \<Rightarrow> Inl FileNotFoundError | Some n \<Rightarrow> Inr n)"

definition lstat :: "cap_env \<Rightarrow> path \<Rightarrow> node cap" where
  [py_defs]: "lstat env p = sys env (\<lambda>fs. (look fs p, fs))"

definition is_symlink :: "cap_env \<Rightarrow> path \<Rightarrow> bool cap" where
  [py_defs]: "is_symlink env p = sys env (\<lambda>fs. (Inr (case map_of fs p of
       None \<Rightarrow> False | Some n \<Rightarrow> (case nd_kind n of Symlink t \<Rightarrow> True | _ \<Rightarrow> False)), fs))"

definition followed :: "file_kind \<Rightarrow> file_kind option" where
  [py_defs]: "followed k = (case k of Symlink t \<Rightarrow> t | _ \<Rightarrow> Some k)"

definition kind_at :: "files \<Rightarrow> path \<Rightarrow> file_kind option" where
  [py_defs]: "kind_at fs p = (case map_of fs p of None \<Rightarrow> None | Some n \<Rightarrow> followed (nd_kind n))"

definition path_exists :: "cap_env \<Rightarrow> path \<Rightarrow> bool cap" where
  [py_defs]: "path_exists env p = sys env (\<lambda>fs. (Inr (kind_at fs p \<noteq> None), fs))"

definition is_dir :: "cap_env \<Rightarrow> path \<Rightarrow> bool cap" where
  [py_defs]: "is_dir env p = sys env (\<lambda>fs. (Inr (kind_at fs p = Some Directory), fs))"

definition children :: "files \<Rightarrow> path \<Rightarrow> string list" where
  [py_defs]: "children fs d = remdups (map (\<lambda>p. last p) (filter (\<lambda>p. p \<noteq> [] \<and> butlast p = d) (map fst fs)))"

definition iterdir :: "cap_env \<Rightarrow> path \<Rightarrow> string list cap" where
  [py_defs]: "iterdir env d = sys env (\<lambda>fs.
     (if kind_at fs d = None then Inl FileNotFoundError
      else if kind_at fs d = Some Directory then Inr (children fs d) else Inl OSError, fs))"

definition in_directory :: "files \<Rightarrow> path \<Rightarrow> bool" where
  [py_defs]: "in_directory fs p \<longleftrightarrow> butlast p = [] \<or> kind_at fs (butlast p) = Some Directory"

definition fresh :: "cap_env \<Rightarrow> file_kind \<Rightarrow> node" where
  [py_defs]: "fresh env k = \<lparr>nd_kind = k, nd_uid = ev_uid env, nd_mode = (if k = Directory then 448 else 384),
     nd_links = 1, nd_data = []\<rparr>"

definition put :: "path \<Rightarrow> node \<Rightarrow> files \<Rightarrow> files" where
  [py_defs]: "put p n fs = AList.update p n fs"

definition mkdir :: "cap_env \<Rightarrow> path \<Rightarrow> bool \<Rightarrow> unit cap" where
  [py_defs]: "mkdir env p exist_ok = sys env (\<lambda>fs.
     if map_of fs p = None then
       (if in_directory fs p then (Inr (), put p (fresh env Directory) fs) else (Inl FileNotFoundError, fs))
     else if exist_ok \<and> kind_at fs p = Some Directory then (Inr (), fs) else (Inl OSError, fs))"

text \<open>\<open>open\<close> for reading, with the bytes that are read; with \<open>O_CREAT | O_EXCL\<close>; with \<open>O_CREAT\<close> only; for
  writing a text.\<close>

definition read_bytes :: "cap_env \<Rightarrow> path \<Rightarrow> string cap" where
  [py_defs]: "read_bytes env p = sys env (\<lambda>fs. (bindE (look fs p) (\<lambda>n.
     if nd_kind n = Regular then Inr (nd_data n) else Inl OSError), fs))"

definition create_new :: "cap_env \<Rightarrow> path \<Rightarrow> unit cap" where
  [py_defs]: "create_new env p = sys env (\<lambda>fs.
     if map_of fs p \<noteq> None then (Inl OSError, fs)
     else if in_directory fs p then (Inr (), put p (fresh env Regular) fs) else (Inl FileNotFoundError, fs))"

definition open_create :: "cap_env \<Rightarrow> path \<Rightarrow> unit cap" where
  [py_defs]: "open_create env p = sys env (\<lambda>fs. case map_of fs p of
       None \<Rightarrow> if in_directory fs p then (Inr (), put p (fresh env Regular) fs) else (Inl FileNotFoundError, fs)
     | Some n \<Rightarrow> if nd_kind n = Regular then (Inr (), fs) else (Inl OSError, fs))"

definition open_write :: "cap_env \<Rightarrow> path \<Rightarrow> unit cap" where
  [py_defs]: "open_write env p = sys env (\<lambda>fs. case map_of fs p of
       None \<Rightarrow> if in_directory fs p then (Inr (), put p (fresh env Regular) fs) else (Inl FileNotFoundError, fs)
     | Some n \<Rightarrow> if nd_kind n = Regular then (Inr (), put p (n\<lparr>nd_data := []\<rparr>) fs) else (Inl OSError, fs))"

definition set_data :: "path \<Rightarrow> string \<Rightarrow> files \<Rightarrow> files" where
  [py_defs]: "set_data p s fs = (case map_of fs p of None \<Rightarrow> fs | Some n \<Rightarrow> put p (n\<lparr>nd_data := s\<rparr>) fs)"

definition write_file :: "cap_env \<Rightarrow> path \<Rightarrow> string \<Rightarrow> unit cap" where
  [py_defs]: "write_file env p s w =
     (let n = w_step w; cut = (case ev_fault env n of None \<Rightarrow> s | Some e \<Rightarrow> take (ev_torn env n) s) in
      (case ev_fault env n of None \<Rightarrow> Inr () | Some e \<Rightarrow> Inl e,
       \<lparr>w_files = set_data p cut (w_files w), w_step = Suc n\<rparr>))"

text \<open>\<open>fsync\<close>, and any other call that leaves the files alone.\<close>

definition quiet :: "cap_env \<Rightarrow> unit cap" where
  [py_defs]: "quiet env = sys env (\<lambda>fs. (Inr (), fs))"

definition rename :: "cap_env \<Rightarrow> path \<Rightarrow> path \<Rightarrow> unit cap" where
  [py_defs]: "rename env p q = sys env (\<lambda>fs. case map_of fs p of
       None \<Rightarrow> (Inl FileNotFoundError, fs)
     | Some n \<Rightarrow> if in_directory fs q \<and> (case map_of fs q of None \<Rightarrow> True | Some m \<Rightarrow> nd_kind m \<noteq> Directory)
         then (Inr (), put q n (AList.delete p fs)) else (Inl OSError, fs))"

definition chmod_private :: "cap_env \<Rightarrow> path \<Rightarrow> unit cap" where
  [py_defs]: "chmod_private env p = sys env (\<lambda>fs. case map_of fs p of
       None \<Rightarrow> (Inl FileNotFoundError, fs) | Some n \<Rightarrow> (Inr (), put p (n\<lparr>nd_mode := 384\<rparr>) fs))"

definition unlink :: "cap_env \<Rightarrow> path \<Rightarrow> unit cap" where
  [py_defs]: "unlink env p = sys env (\<lambda>fs. case map_of fs p of
       None \<Rightarrow> (Inl FileNotFoundError, fs)
     | Some n \<Rightarrow> if nd_kind n = Directory then (Inl OSError, fs) else (Inr (), AList.delete p fs))"

definition rmdir :: "cap_env \<Rightarrow> path \<Rightarrow> unit cap" where
  [py_defs]: "rmdir env p = sys env (\<lambda>fs. case map_of fs p of
       None \<Rightarrow> (Inl FileNotFoundError, fs)
     | Some n \<Rightarrow> if nd_kind n = Directory \<and> children fs p = [] then (Inr (), AList.delete p fs) else (Inl OSError, fs))"

section \<open>Rules\<close>

text \<open>Started where \<open>I\<close> holds, \<open>m\<close> ends where \<open>I\<close> holds, wherever it fails or is killed, and a result satisfies
  \<open>Q\<close>.\<close>

definition safe :: "(files \<Rightarrow> bool) \<Rightarrow> 'a cap \<Rightarrow> ('a \<Rightarrow> bool) \<Rightarrow> bool" where
  "safe I m Q \<longleftrightarrow> (\<forall>w r w'. I (w_files w) \<longrightarrow> m w = (r, w') \<longrightarrow> I (w_files w') \<and> (\<forall>x. r = Inr x \<longrightarrow> Q x))"

text \<open>\<open>I\<close> speaks only of what is at the paths in \<open>G\<close>.\<close>

definition speaks_of :: "path set \<Rightarrow> (files \<Rightarrow> bool) \<Rightarrow> bool" where
  "speaks_of G I \<longleftrightarrow> (\<forall>fs fs'. (\<forall>p \<in> G. map_of fs' p = map_of fs p) \<longrightarrow> I fs \<longrightarrow> I fs')"

text \<open>For programs of whose results nothing is to be known.\<close>

abbreviation keeps :: "(files \<Rightarrow> bool) \<Rightarrow> 'a cap \<Rightarrow> bool" where
  "keeps I m \<equiv> safe I m (\<lambda>_. True)"

named_theorems keep_rule \<open>rules for keeps, one for each construct\<close>

lemma bindC_Inr [simp]: "bindC m f w = (Inr y, w') \<longleftrightarrow> (\<exists>x w1. m w = (Inr x, w1) \<and> f x w1 = (Inr y, w'))"
  by (auto simp: bindC_def split: prod.splits sum.splits)

lemma liftC_eq [simp]: "liftC r w = (r', w') \<longleftrightarrow> r = r' \<and> w' = w"
  by (auto simp: liftC_def)

lemma requireC_Inr [simp]: "requireC b m w = (Inr u, w') \<longleftrightarrow> b \<and> w' = w"
  by (auto simp: requireC_def require_def)

lemma safe_bind:
  assumes "safe I m R" and "\<And>x. R x \<Longrightarrow> safe I (f x) Q"
  shows "safe I (bindC m f) Q"
  unfolding safe_def
proof (intro allI impI)
  fix w r w' assume i: "I (w_files w)" and run: "bindC m f w = (r, w')"
  obtain r1 w1 where m: "m w = (r1, w1)" by (cases "m w")
  with assms(1) i have one: "I (w_files w1)" "\<And>x. r1 = Inr x \<Longrightarrow> R x" unfolding safe_def by blast+
  show "I (w_files w') \<and> (\<forall>x. r = Inr x \<longrightarrow> Q x)"
  proof (cases r1)
    case (Inl e)
    with m run one(1) show ?thesis by (auto simp: bindC_def)
  next
    case (Inr x)
    then have "f x w1 = (r, w')" using m run by (simp add: bindC_def)
    moreover have "safe I (f x) Q" using assms(2) one(2) Inr by simp
    ultimately show ?thesis using one(1) unfolding safe_def by blast
  qed
qed

lemma safe_lift: "(\<And>x. r = Inr x \<Longrightarrow> Q x) \<Longrightarrow> safe I (liftC r) Q"
  by (auto simp: safe_def)

lemma safe_require: "safe I (requireC b m) (\<lambda>_. b)"
  by (auto simp: safe_def requireC_def require_def)

lemma safe_if: "(b \<Longrightarrow> safe I m Q) \<Longrightarrow> (\<not> b \<Longrightarrow> safe I n Q) \<Longrightarrow> safe I (if b then m else n) Q"
  by simp

lemma safe_prod: "(\<And>a b. x = (a, b) \<Longrightarrow> safe I (f a b) Q) \<Longrightarrow> safe I (case x of (a, b) \<Rightarrow> f a b) Q"
  by (cases x) simp

lemma keeps_simple [keep_rule]: "keeps I (liftC r)" "keeps I (requireC b m)"
  by (auto simp: safe_def requireC_def)

lemma keeps_bind [keep_rule]: "keeps I m \<Longrightarrow> (\<And>x. keeps I (f x)) \<Longrightarrow> keeps I (bindC m f)"
  by (rule safe_bind)

lemma keeps_if [keep_rule]: "keeps I m \<Longrightarrow> keeps I n \<Longrightarrow> keeps I (if b then m else n)"
  by simp

lemma keeps_prod [keep_rule]: "(\<And>a b. keeps I (f a b)) \<Longrightarrow> keeps I (case x of (a, b) \<Rightarrow> f a b)"
  by (cases x) simp

lemma keeps_option [keep_rule]:
  "keeps I m \<Longrightarrow> (\<And>a. keeps I (f a)) \<Longrightarrow> keeps I (case x of None \<Rightarrow> m | Some a \<Rightarrow> f a)"
  by (cases x) simp_all

lemma safe_weaken: "safe I m R \<Longrightarrow> (\<And>x. R x \<Longrightarrow> Q x) \<Longrightarrow> safe I m Q"
  by (simp add: safe_def)

lemma safe_bind_lift: "(\<And>x. r = Inr x \<Longrightarrow> safe I (f x) Q) \<Longrightarrow> safe I (bindC (liftC r) f) Q"
  by (rule safe_bind [OF safe_lift [where Q = "\<lambda>x. r = Inr x"]])

lemma safe_bind_require: "(b \<Longrightarrow> safe I (f ()) Q) \<Longrightarrow> safe I (bindC (requireC b m) f) Q"
  by (rule safe_bind [OF safe_require]) simp

lemma safe_catch:
  assumes "safe I m Q" and "\<And>e. safe I (h e) Q"
  shows "safe I (catchC m h) Q"
  unfolding safe_def
proof (intro allI impI)
  fix w r w' assume i: "I (w_files w)" and run: "catchC m h w = (r, w')"
  obtain r1 w1 where m: "m w = (r1, w1)" by (cases "m w")
  with assms(1) i have one: "I (w_files w1)" "\<And>x. r1 = Inr x \<Longrightarrow> Q x" unfolding safe_def by blast+
  show "I (w_files w') \<and> (\<forall>x. r = Inr x \<longrightarrow> Q x)"
  proof (cases r1)
    case (Inl e)
    show ?thesis
    proof (cases "e = Diverges")
      case False
      with Inl m run have "h e w1 = (r, w')" by (simp add: catchC_def)
      with assms(2) [of e] one(1) show ?thesis unfolding safe_def by blast
    qed (use Inl m run one in \<open>simp add: catchC_def\<close>)
  qed (use m run one in \<open>simp add: catchC_def\<close>)
qed

lemma keeps_each [keep_rule]:
  assumes "\<And>x. x \<in> set xs \<Longrightarrow> safe I (f x) (\<lambda>_. True)"
  shows "safe I (eachC f xs) (\<lambda>_. True)"
  using assms
proof (induction xs)
  case (Cons x xs)
  then have "safe I (f x) (\<lambda>_. True)" "safe I (eachC f xs) (\<lambda>_. True)" by simp_all
  then show ?case by (simp add: safe_bind)
qed (simp add: safe_lift)

lemma keeps_any [keep_rule]:
  assumes "\<And>x. safe I (f x) (\<lambda>_. True)"
  shows "safe I (anyC f xs) (\<lambda>_. True)"
proof (induction xs)
  case (Cons x xs)
  with assms show ?case by (auto intro!: keep_rule)
qed (simp add: safe_lift)

subsection \<open>Calls that only read\<close>

definition only_reads :: "'a cap \<Rightarrow> bool" where
  "only_reads m \<longleftrightarrow> (\<forall>w. w_files (snd (m w)) = w_files w)"

lemma safe_reads: "only_reads m \<Longrightarrow> safe I m (\<lambda>_. True)"
  by (auto simp: safe_def only_reads_def) (metis snd_conv)

lemma safe_bind_reads: "only_reads m \<Longrightarrow> (\<And>x. safe I (f x) Q) \<Longrightarrow> safe I (bindC m f) Q"
  by (rule safe_bind [OF safe_reads])

lemma reads_sys: "(\<And>fs. snd (f fs) = fs) \<Longrightarrow> only_reads (sys env f)"
  by (auto simp: only_reads_def sys_def split: option.split prod.splits) (metis snd_conv)

lemma reads_calls [simp]:
  "only_reads (lstat env p)" "only_reads (is_symlink env p)" "only_reads (path_exists env p)" "only_reads (is_dir env p)"
  "only_reads (iterdir env p)" "only_reads (read_bytes env p)" "only_reads (quiet env)" "only_reads (nowC env)" "only_reads (liftC r)"
  "only_reads (requireC b m)"
  by (simp_all add: lstat_def is_symlink_def path_exists_def is_dir_def iterdir_def read_bytes_def quiet_def reads_sys)
    (simp_all add: only_reads_def nowC_def liftC_def requireC_def)

lemma reads_bind: "only_reads m \<Longrightarrow> (\<And>x. only_reads (f x)) \<Longrightarrow> only_reads (bindC m f)"
  by (auto simp: only_reads_def bindC_def split: prod.split sum.split) (metis snd_conv)+

lemmas keeps_calls [keep_rule] =
  reads_calls(1) [THEN safe_reads] reads_calls(2) [THEN safe_reads] reads_calls(3) [THEN safe_reads]
  reads_calls(4) [THEN safe_reads] reads_calls(5) [THEN safe_reads] reads_calls(6) [THEN safe_reads]
  reads_calls(7) [THEN safe_reads] reads_calls(8) [THEN safe_reads]

lemma reads_any [simp]: "(\<And>x. only_reads (f x)) \<Longrightarrow> only_reads (anyC f xs)"
  by (induction xs) (auto intro!: reads_bind)

lemma reads_if [simp]: "only_reads m \<Longrightarrow> only_reads n \<Longrightarrow> only_reads (if b then m else n)"
  by simp

lemma reads_files: "only_reads m \<Longrightarrow> m w = (r, w') \<Longrightarrow> w_files w' = w_files w"
  unfolding only_reads_def by (metis snd_conv)

lemma lstat_Inr: "lstat env p w = (Inr n, w') \<Longrightarrow> map_of (w_files w) p = Some n \<and> w_files w' = w_files w"
  by (auto simp: lstat_def sys_def look_def split: option.splits)

lemma read_bytes_Inr:
  "read_bytes env p w = (Inr s, w') \<Longrightarrow> map_option nd_data (map_of (w_files w) p) = Some s \<and> w_files w' = w_files w"
  by (auto simp: read_bytes_def sys_def look_def split: option.splits if_splits)

lemma iterdir_Inr: "iterdir env d w = (Inr names, w') \<Longrightarrow> names = children (w_files w) d \<and> w_files w' = w_files w"
  by (auto simp: iterdir_def sys_def split: option.splits if_splits)

subsection \<open>Calls that change a path\<close>

lemma map_of_put [simp]: "map_of (put p n fs) = (map_of fs)(p \<mapsto> n)"
  by (simp add: put_def update_conv')

lemma speaks_of_put: "speaks_of G I \<Longrightarrow> p \<notin> G \<Longrightarrow> I fs \<Longrightarrow> I (put p n fs)"
  unfolding speaks_of_def by (metis fun_upd_other map_of_put)

lemma speaks_of_delete: "speaks_of G I \<Longrightarrow> p \<notin> G \<Longrightarrow> I fs \<Longrightarrow> I (AList.delete p fs)"
  unfolding speaks_of_def by (metis delete_conv' fun_upd_other)

lemma safe_sys:
  assumes "\<And>fs r fs'. I fs \<Longrightarrow> f fs = (r, fs') \<Longrightarrow> I fs' \<and> (\<forall>x. r = Inr x \<longrightarrow> Q x)"
  shows "safe I (sys env f) Q"
  using assms by (auto simp: safe_def sys_def split: option.splits prod.splits)

lemma keeps_changes:
  assumes "speaks_of G I" and "p \<notin> G"
  shows "safe I (mkdir env p b) (\<lambda>_. True)" "safe I (create_new env p) (\<lambda>_. True)"
    "safe I (open_create env p) (\<lambda>_. True)" "safe I (open_write env p) (\<lambda>_. True)"
    "safe I (chmod_private env p) (\<lambda>_. True)" "safe I (unlink env p) (\<lambda>_. True)" "safe I (rmdir env p) (\<lambda>_. True)"
    "safe I (write_file env p s) (\<lambda>_. True)"
proof -
  note intro = speaks_of_put [OF assms] speaks_of_delete [OF assms]
  show "safe I (mkdir env p b) (\<lambda>_. True)" "safe I (create_new env p) (\<lambda>_. True)"
    "safe I (open_create env p) (\<lambda>_. True)" "safe I (open_write env p) (\<lambda>_. True)"
    "safe I (chmod_private env p) (\<lambda>_. True)" "safe I (unlink env p) (\<lambda>_. True)" "safe I (rmdir env p) (\<lambda>_. True)"
    unfolding mkdir_def create_new_def open_create_def open_write_def chmod_private_def unlink_def rmdir_def
    by (rule safe_sys; auto intro: intro split: if_splits option.splits)+
  show "safe I (write_file env p s) (\<lambda>_. True)"
    by (auto simp: safe_def write_file_def set_data_def Let_def intro: intro split: option.splits)
qed

lemma keeps_rename:
  assumes "speaks_of G I" and "p \<notin> G" and "q \<notin> G"
  shows "safe I (rename env p q) (\<lambda>_. True)"
  unfolding rename_def
  by (rule safe_sys)
    (auto intro: speaks_of_put [OF assms(1,3)] speaks_of_delete [OF assms(1,2)] split: if_splits option.splits)

text \<open>What a read finds.\<close>

lemma safe_lstat:
  assumes "\<And>fs n. I fs \<Longrightarrow> map_of fs p = Some n \<Longrightarrow> Q n"
  shows "safe I (lstat env p) Q"
  unfolding lstat_def by (rule safe_sys) (auto simp: look_def intro: assms split: option.splits)

lemma safe_read_bytes:
  assumes "\<And>fs n. I fs \<Longrightarrow> map_of fs p = Some n \<Longrightarrow> Q (nd_data n)"
  shows "safe I (read_bytes env p) Q"
  unfolding read_bytes_def by (rule safe_sys) (auto simp: look_def intro: assms split: option.splits if_splits)

subsection \<open>What stays as it was\<close>

definition unchanged_but :: "path set \<Rightarrow> files \<Rightarrow> files \<Rightarrow> bool" where
  "unchanged_but P fs fs' \<longleftrightarrow> (\<forall>p. p \<notin> P \<longrightarrow> map_of fs' p = map_of fs p)"

lemma unchanged_speaks: "speaks_of (- P) (unchanged_but P fs)"
  by (simp add: speaks_of_def unchanged_but_def)

lemma unchanged_refl [simp]: "unchanged_but P fs fs"
  by (simp add: unchanged_but_def)

lemma unchanged_trans: "unchanged_but P a b \<Longrightarrow> unchanged_but P b c \<Longrightarrow> unchanged_but P a c"
  by (simp add: unchanged_but_def)

lemma unchanged_mono: "unchanged_but P a b \<Longrightarrow> P \<subseteq> Q \<Longrightarrow> unchanged_but Q a b"
  by (auto simp: unchanged_but_def)

lemma unchanged_run: "(\<And>fs. keeps (unchanged_but P fs) m) \<Longrightarrow> m w = (r, w') \<Longrightarrow> unchanged_but P (w_files w) (w_files w')"
  unfolding safe_def by (metis unchanged_refl)

lemmas unchanged_keep = keeps_changes [OF unchanged_speaks] keeps_rename [OF unchanged_speaks]

end
