(* ===== verification/Capture.thy ===== *)
theory Capture
  imports Capture_System Security_Monitor
begin

text \<open>
  \<open>security_capture.py\<close>: requesting a packet capture of a fixed profile, serving the request with
  \<open>tcpdump\<close>, exporting a finished capture over SSH, and deleting it once its digest has been
  acknowledged.  The file system and its failures are those of \<open>Capture_System\<close>; whether \<open>/srv\<close>
  is mounted, free space, memory and load, the locks and the other processes are arguments.
\<close>

section \<open>Places and names\<close>

definition CONFIG :: path where [py_defs]: "CONFIG = [''/etc/homecluster-security-capture.json'']"
definition STATE :: path where [py_defs]: "STATE = [''/var/run/homecluster-security-capture'']"
definition SPOOL :: path where [py_defs]: "SPOOL = [''/srv/security-capture'']"
definition ACKROOT :: path where [py_defs]: "ACKROOT = [''/srv/security-capture-acknowledged'']"

definition REQUEST :: path where [py_defs]: "REQUEST = STATE @ [''request.json'']"
definition LAST_RESULT :: path where [py_defs]: "LAST_RESULT = STATE @ [''last-result.json'']"
definition LOCK :: path where [py_defs]: "LOCK = STATE @ [''capture.lock'']"

definition capture_id_ok :: "string \<Rightarrow> bool" where
  [py_defs]: "capture_id_ok s \<longleftrightarrow> length s = 33 \<and> list_all ascii_digit (field 0 8 s) \<and> field 8 1 s = ''T''
     \<and> list_all ascii_digit (field 9 6 s) \<and> field 15 2 s = ''Z-'' \<and> list_all lower_hex (field 17 16 s)"

definition name_char :: "char \<Rightarrow> bool" where
  [py_defs]: "name_char c \<longleftrightarrow> ascii_lower c \<or> ascii_digit c \<or> c \<in> set ''_.-''"

definition profile_name_ok :: "string \<Rightarrow> bool" where
  [py_defs]: "profile_name_ok s \<longleftrightarrow> s \<noteq> [] \<and> (ascii_lower (hd s) \<or> ascii_digit (hd s)) \<and> length s \<le> 64
     \<and> list_all name_char (tl s)"

definition interface_ok :: "string \<Rightarrow> bool" where
  [py_defs]: "interface_ok s \<longleftrightarrow> s \<noteq> [] \<and> ascii_alnum (hd s) \<and> length s \<le> 32
     \<and> list_all (\<lambda>c. ascii_alnum c \<or> c \<in> set ''_.:-'') (tl s)"

text \<open>\<open>reason\<close>: the class of any other exception, whose name the environment knows.\<close>

definition exc_reason :: "cap_env \<Rightarrow> py_exc \<Rightarrow> string" where
  [py_defs]: "exc_reason env e = (case e of ScriptError c m \<Rightarrow> if c = ''CaptureError'' then m else ev_class env e
     | _ \<Rightarrow> ev_class env e)"

section \<open>Private files\<close>

definition group_bits :: "nat \<Rightarrow> nat" where [py_defs]: "group_bits mode = mode mod 64"

definition digest :: "cap_env \<Rightarrow> path \<Rightarrow> string cap" where
  [py_defs]: "digest env p = bindC (read_bytes env p) (\<lambda>data. returnC (ev_sha env data))"

definition read_private :: "cap_env \<Rightarrow> path \<Rightarrow> pyval cap" where
  [py_defs]: "read_private env p = bindC (lstat env p) (\<lambda>i.
     bindC (requireC (nd_kind i = Regular \<and> nd_uid i = ev_uid env \<and> group_bits (nd_mode i) = 0
         \<and> length (nd_data i) \<le> 16384) ''private_file_contract'') (\<lambda>_.
     bindC (read_bytes env p) (\<lambda>data.
     liftC (bindE (decode_utf8 data) (json_loads (ev_float env))))))"

definition private_dir :: "cap_env \<Rightarrow> path \<Rightarrow> unit cap" where
  [py_defs]: "private_dir env p = bindC (lstat env p) (\<lambda>i.
     requireC (nd_kind i = Directory \<and> nd_uid i = ev_uid env \<and> group_bits (nd_mode i) = 0) ''private_directory_contract'')"

definition make_private_dir :: "cap_env \<Rightarrow> path \<Rightarrow> unit cap" where
  [py_defs]: "make_private_dir env p = bindC (mkdir env p True) (\<lambda>_. private_dir env p)"

definition temp_path :: "path \<Rightarrow> string \<Rightarrow> path" where
  [py_defs]: "temp_path p uuid = butlast p @ [''.'' @ last p @ ''-'' @ uuid]"

definition publish :: "cap_env \<Rightarrow> path \<Rightarrow> pydict \<Rightarrow> unit cap" where
  [py_defs]: "publish env p d w =
     (let temporary = temp_path p (ev_uuid env (w_step w)) in
      bindC (create_new env temporary) (\<lambda>_.
      bindC (write_file env temporary (json_enc json_compact (PDict d) @ [CHR 0x0A])) (\<lambda>_.
      bindC (quiet env) (\<lambda>_.
      bindC (rename env temporary p) (\<lambda>_.
      bindC (quiet env) (\<lambda>_. quiet env))))) w)"

section \<open>Configuration\<close>

definition check_profile :: "string \<times> pyval \<Rightarrow> unit res" where
  [py_defs]: "check_profile item = (case item of (name, v) \<Rightarrow>
     (case v of
        PDict profile \<Rightarrow>
          (if \<not> profile_name_ok name then Inl (CaptureError ''profile_name'')
           else if \<not> keys_are profile [''interface'', ''filter'', ''duration_seconds'']
             then Inl (CaptureError ''profile_schema'')
           else (case dget profile ''interface'' of
               PStr interface \<Rightarrow>
                 (if \<not> interface_ok interface then Inl (CaptureError ''interface'')
                  else (case dget profile ''filter'' of
                      PStr bpf \<Rightarrow>
                        (if \<not> (1 \<le> length bpf \<and> length bpf \<le> 4096) \<or> CHR 0x00 \<in> set bpf \<or> CHR 0x0A \<in> set bpf
                         then Inl (CaptureError ''filter'')
                         else (case dget profile ''duration_seconds'' of
                             PInt duration \<Rightarrow>
                               (if 1 \<le> duration \<and> duration \<le> 180 then Inr () else Inl (CaptureError ''duration''))
                           | _ \<Rightarrow> Inl (CaptureError ''duration'')))
                    | _ \<Rightarrow> Inl (CaptureError ''filter'')))
             | _ \<Rightarrow> Inl (CaptureError ''interface'')))
      | _ \<Rightarrow> Inl (CaptureError ''profile_name'')))"

text \<open>The profiles of a valid configuration.\<close>

definition config_profiles :: "pyval \<Rightarrow> pydict res" where
  [py_defs]: "config_profiles v = bindE (set_is v [''schema'', ''profiles'']) (\<lambda>ok.
     if \<not> ok then Inl (CaptureError ''configuration_schema'')
     else bindE (py_item v ''schema'') (\<lambda>s.
       if s \<noteq> PInt 1 then Inl (CaptureError ''configuration_schema'')
       else bindE (py_item v ''profiles'') (\<lambda>p. case p of
           PDict profiles \<Rightarrow>
             (if \<not> (1 \<le> length profiles \<and> length profiles \<le> 8) then Inl (CaptureError ''profile_count'')
              else bindE (mapE check_profile profiles) (\<lambda>_. Inr profiles))
         | _ \<Rightarrow> Inl (CaptureError ''configuration_schema''))))"

definition capture_config :: "cap_env \<Rightarrow> path \<Rightarrow> pydict cap" where
  [py_defs]: "capture_config env p = bindC (read_private env p) (\<lambda>v. liftC (config_profiles v))"

section \<open>Guards\<close>

definition pcap :: "cap_env \<Rightarrow> path \<Rightarrow> pcap_summary cap" where
  [py_defs]: "pcap env p = bindC (lstat env p) (\<lambda>i. bindC (read_bytes env p) (\<lambda>data.
     bindC (liftC (pcap_check (ev_sha env) (length (nd_data i)) data)) (\<lambda>s.
     bindC (digest env p) (\<lambda>h. returnC (s\<lparr>ps_sha := h\<rparr>)))))"

record guard_io =
  gi_mounted :: "bool res"
  gi_link :: "bool res"
  gi_space :: "(int \<times> int) res"
  gi_meminfo :: "string res"
  gi_load :: "rat res"

definition before_colon :: "string \<Rightarrow> string" where
  [py_defs]: "before_colon s = takeWhile (\<lambda>c. c \<noteq> CHR '':'') s"

definition available_memory :: "string \<Rightarrow> int res" where
  [py_defs]: "available_memory meminfo =
     bindE (mapE (\<lambda>l. bindE (item_at (split_ws l) 1) (\<lambda>v. Inr (before_colon l, v))) (py_splitlines meminfo)) (\<lambda>items.
     case map_of (rev items) ''MemAvailable'' of None \<Rightarrow> Inl KeyError | Some v \<Rightarrow> py_int_text v)"

text \<open>An entry of the spool that is no directory, and one that is too old.\<close>

definition odd_entry :: "cap_env \<Rightarrow> path \<Rightarrow> bool cap" where
  [py_defs]: "odd_entry env p = bindC (is_symlink env p) (\<lambda>link.
     if link then returnC True else bindC (is_dir env p) (\<lambda>d. returnC (\<not> d)))"

definition mtimeC :: "cap_env \<Rightarrow> rat cap" where [py_defs]: "mtimeC env w = (Inr (ev_mtime env (w_step w)), w)"

definition old_entry :: "cap_env \<Rightarrow> path \<Rightarrow> bool cap" where
  [py_defs]: "old_entry env p = bindC (nowC env) (\<lambda>now. bindC (lstat env p) (\<lambda>_. bindC (mtimeC env) (\<lambda>m.
     returnC (fl (snd now - m) > 86400))))"

text \<open>\<open>a or b\<close>, where either may raise.\<close>

definition or_else :: "bool res \<Rightarrow> bool res \<Rightarrow> bool res" where
  [py_defs]: "or_else a b = bindE a (\<lambda>x. if x then Inr True else b)"

definition guards :: "cap_env \<Rightarrow> guard_io \<Rightarrow> unit cap" where
  [py_defs]: "guards env io =
     bindC (liftC (or_else (bindE (gi_mounted io) (\<lambda>m. Inr (\<not> m))) (gi_link io))) (\<lambda>bad.
     bindC (requireC (\<not> bad) ''srv_not_mounted'') (\<lambda>_.
     bindC (make_private_dir env SPOOL) (\<lambda>_.
     bindC (iterdir env SPOOL) (\<lambda>names.
     let entries = map (\<lambda>x. SPOOL @ [x]) names in
     bindC (anyC (odd_entry env) entries) (\<lambda>odd.
     bindC (requireC (\<not> odd) ''unexpected_spool_entry'') (\<lambda>_.
     bindC (requireC (length entries < 2) ''spool_count_limit'') (\<lambda>_.
     bindC (anyC (old_entry env) entries) (\<lambda>old.
     bindC (requireC (\<not> old) ''spool_expired_requires_review'') (\<lambda>_.
     bindC (liftC (gi_space io)) (\<lambda>(blocks, block_size).
     bindC (requireC (blocks * block_size \<ge> 8 * 1024 ^ 3 + int CAPTURE_LIMIT + 256 * 1024 ^ 2) ''shared_storage_reserve'') (\<lambda>_.
     bindC (liftC (bindE (gi_meminfo io) available_memory)) (\<lambda>memory.
     bindC (requireC (memory * 1024 \<ge> 256 * 1024 ^ 2) ''router_memory'') (\<lambda>_.
     bindC (liftC (gi_load io)) (\<lambda>load.
     requireC (load \<le> 2) ''router_load''))))))))))))))"

section \<open>Commands\<close>

type_synonym command_result = "(int \<times> string) res"

definition uci_flag :: "command_result \<Rightarrow> pyval res" where
  [py_defs]: "uci_flag r = (case r of
       Inl e \<Rightarrow> if os_error e \<or> e = RuntimeError ''TimeoutExpired'' then Inr PNone else Inl e
     | Inr (code, out) \<Rightarrow>
         Inr (if code = 0 \<and> (py_strip out = ''0'' \<or> py_strip out = ''1'') then PBool (py_strip out = ''1'') else PNone))"

definition flowtable :: "pyval \<Rightarrow> bool" where
  [py_defs]: "flowtable x \<longleftrightarrow> (case x of PDict d \<Rightarrow> dhas d ''flowtable'' | _ \<Rightarrow> False)"

definition flowtable_count :: "(string \<Rightarrow> pyfloat) \<Rightarrow> command_result \<Rightarrow> pyval res" where
  [py_defs]: "flowtable_count float_of r =
     (case bindE r (\<lambda>(code, out). if code \<noteq> 0 then Inr PNone
         else bindE (json_loads float_of out) (\<lambda>v. bindE (py_item v ''nftables'') (\<lambda>entries.
           Inr (case entries of PList xs \<Rightarrow> PInt (int (length (filter flowtable xs))) | _ \<Rightarrow> PNone)))) of
        Inl e \<Rightarrow> if os_error e \<or> e = RuntimeError ''TimeoutExpired'' \<or> value_error e \<or> e = KeyError \<or> e = TypeError
          then Inr PNone else Inl e
      | Inr v \<Rightarrow> Inr v)"

definition offload_state ::
  "(string \<Rightarrow> pyfloat) \<Rightarrow> command_result \<Rightarrow> command_result \<Rightarrow> command_result \<Rightarrow> pyval res" where
  [py_defs]: "offload_state float_of software hardware nft =
     bindE (uci_flag software) (\<lambda>s. bindE (uci_flag hardware) (\<lambda>h. bindE (flowtable_count float_of nft) (\<lambda>n.
     Inr (PDict [(''software_config'', s), (''hardware_config'', h), (''nft_flowtable_count'', n)]))))"

text \<open>\<open>tcpdump\<close>: whether it starts, what it prints when it ends in time and after the interrupt that
  follows (\<open>None\<close> for a timeout), whether a signal came, and its return code; \<open>du_file\<close> is what it
  wrote.\<close>

record dump_io =
  du_start :: "unit res"
  du_file :: "string option"
  du_ended :: "string option"
  du_flushed :: "string option"
  du_interrupted :: bool
  du_code :: int

definition DROPS :: rx where
  [py_defs]: "DROPS = rseq [Grp 1 (rplus digit_rx), rlit '' packets dropped by kernel'']"

definition dump_result :: "dump_io \<Rightarrow> string \<Rightarrow> string \<Rightarrow> (string \<times> int option) res" where
  [py_defs]: "dump_result io ended err =
     (if du_interrupted io \<or> (du_code io \<noteq> 0 \<and> du_code io \<noteq> - 2)
      then Inl (CaptureError ''tcpdump_failed_or_interrupted'')
      else Inr (ended, case re_search DROPS err of
          None \<Rightarrow> None | Some (matched, caps) \<Rightarrow> Some (int (nat_of_digits (group caps 1)))))"

definition run_tcpdump :: "dump_io \<Rightarrow> (string \<times> int option) res" where
  [py_defs]: "run_tcpdump io = bindE (du_start io) (\<lambda>_.
     case du_ended io of
       Some err \<Rightarrow> dump_result io (if du_interrupted io then ''interrupted'' else ''packet_limit'') err
     | None \<Rightarrow>
         (case du_flushed io of
            None \<Rightarrow> Inl (CaptureError ''tcpdump_flush_timeout'')
          | Some err \<Rightarrow> dump_result io (if du_interrupted io then ''interrupted'' else ''duration_limit'') err))"

text \<open>The file that \<open>tcpdump\<close> writes, once it has started.\<close>

definition dump_file :: "cap_env \<Rightarrow> dump_io \<Rightarrow> path \<Rightarrow> unit cap" where
  [py_defs]: "dump_file env io p w = (case (du_start io, du_file io) of
       (Inr u, Some data) \<Rightarrow> (Inr (), w\<lparr>w_files := put p ((fresh env Regular)\<lparr>nd_data := data\<rparr>) (w_files w)\<rparr>)
     | _ \<Rightarrow> (Inr (), w))"

section \<open>Locks\<close>

definition capture_lock :: "cap_env \<Rightarrow> unit res \<Rightarrow> unit cap" where
  [py_defs]: "capture_lock env flock = bindC (make_private_dir env STATE) (\<lambda>_.
     bindC (open_create env LOCK) (\<lambda>_. liftC flock))"

definition read_lock :: "cap_env \<Rightarrow> unit res \<Rightarrow> unit cap" where
  [py_defs]: "read_lock env flock = bindC (private_dir env STATE) (\<lambda>_. bindC (lstat env LOCK) (\<lambda>i.
     bindC (requireC (nd_kind i = Regular \<and> nd_uid i = ev_uid env \<and> group_bits (nd_mode i) = 0) ''private_file_contract'') (\<lambda>_.
     bindC (quiet env) (\<lambda>_. liftC flock))))"

section \<open>Request\<close>

record request_io =
  rq_flock :: "unit res"
  rq_guards :: guard_io
  rq_start :: "int res"

definition capture_stamp :: "rat \<Rightarrow> string" where
  [py_defs]: "capture_stamp t = filter (\<lambda>c. c \<notin> set ''-:'') (iso_text \<lfloor>t\<rfloor>) @ ''-''"

definition new_id :: "cap_env \<Rightarrow> string cap" where
  [py_defs]: "new_id env w = (Inr (capture_stamp (snd (ev_clock env (w_step w))) @ take 16 (ev_uuid env (w_step w))), w)"

definition result_dict :: "string \<Rightarrow> string \<Rightarrow> pydict" where
  [py_defs]: "result_dict status capture_id = [(''status'', PStr status), (''capture_id'', PStr capture_id)]"

definition request_dict :: "string \<Rightarrow> string \<Rightarrow> clock \<Rightarrow> string \<Rightarrow> pydict" where
  [py_defs]: "request_dict capture_id profile now sha =
     [(''schema'', PInt 1), (''capture_id'', PStr capture_id), (''profile'', PStr profile),
      (''created_epoch'', clock_value now), (''configuration_sha256'', PStr sha)]"

definition request :: "cap_env \<Rightarrow> request_io \<Rightarrow> string \<Rightarrow> pyval cap" where
  [py_defs]: "request env io profile = bindC (capture_config env CONFIG) (\<lambda>profiles.
     bindC (requireC (dhas profiles profile) ''profile_not_allowed'') (\<lambda>_.
     bindC (capture_lock env (rq_flock io)) (\<lambda>_.
     bindC (path_exists env REQUEST) (\<lambda>pending.
     bindC (requireC (\<not> pending) ''request_pending_requires_review'') (\<lambda>_.
     bindC (guards env (rq_guards io)) (\<lambda>_.
     bindC (new_id env) (\<lambda>capture_id.
     bindC (nowC env) (\<lambda>now.
     bindC (digest env CONFIG) (\<lambda>sha.
     bindC (publish env REQUEST (request_dict capture_id profile now sha)) (\<lambda>_.
     bindC (publish env LAST_RESULT (result_dict ''pending'' capture_id)) (\<lambda>_.
     bindC (liftC (rq_start io)) (\<lambda>code.
     bindC (requireC (code = 0) ''procd_start_failed_request_preserved'') (\<lambda>_.
     returnC (PDict [(''status'', PStr ''accepted''), (''capture_id'', PStr capture_id)]))))))))))))))"

section \<open>Serve\<close>

record serve_io =
  sv_flock :: "unit res"
  sv_guards :: guard_io
  sv_compile :: "int res"
  sv_software :: command_result
  sv_hardware :: command_result
  sv_nft :: command_result
  sv_dump :: dump_io

definition utc :: "cap_env \<Rightarrow> string cap" where
  [py_defs]: "utc env = bindC (nowC env) (\<lambda>now. liftC (utc_iso (snd now)))"

definition seconds_since :: "rat \<Rightarrow> pyval \<Rightarrow> rat option" where
  [py_defs]: "seconds_since now v = (case v of
       PInt i \<Rightarrow> Some (fl (now - fl (of_int i))) | PFloat (FFin r q) \<Rightarrow> Some (fl (now - q)) | _ \<Rightarrow> None)"

definition request_fresh :: "rat \<Rightarrow> pyval \<Rightarrow> bool res" where
  [py_defs]: "request_fresh now v = (if too_large v then Inl OverflowError
     else Inr (case seconds_since now v of None \<Rightarrow> False | Some d \<Rightarrow> 0 \<le> d \<and> d \<le> 120))"

definition request_item :: "pyval \<Rightarrow> pydict res" where
  [py_defs]: "request_item v =
     bindE (set_is v [''schema'', ''capture_id'', ''profile'', ''created_epoch'', ''configuration_sha256'']) (\<lambda>ok.
     if \<not> ok then Inl (CaptureError ''request_schema'')
     else bindE (py_item v ''schema'') (\<lambda>s.
       if s \<noteq> PInt 1 then Inl (CaptureError ''request_schema'')
       else bindE (py_item v ''capture_id'') (\<lambda>c.
         if str_member capture_id_ok c then Inr (mapping_or_empty v) else Inl (CaptureError ''capture_id''))))"

definition known_profile :: "pyval \<Rightarrow> pydict \<Rightarrow> bool res" where
  [py_defs]: "known_profile v profiles = (if unhashable v then Inl TypeError
     else Inr (case v of PStr s \<Rightarrow> dhas profiles s | _ \<Rightarrow> False))"

text \<open>The request and its profile, once everything is checked.\<close>

definition accepted_request :: "cap_env \<Rightarrow> serve_io \<Rightarrow> (pydict \<times> pydict) cap" where
  [py_defs]: "accepted_request env io = bindC (read_private env REQUEST) (\<lambda>v.
     bindC (liftC (request_item v)) (\<lambda>item.
     bindC (nowC env) (\<lambda>now.
     bindC (liftC (request_fresh (snd now) (dget item ''created_epoch''))) (\<lambda>fresh.
     bindC (requireC fresh ''request_expired'') (\<lambda>_.
     bindC (capture_config env CONFIG) (\<lambda>profiles.
     bindC (digest env CONFIG) (\<lambda>sha.
     bindC (if py_eq (dget item ''configuration_sha256'') (PStr sha)
            then liftC (known_profile (dget item ''profile'') profiles) else returnC False) (\<lambda>known.
     bindC (requireC known ''configuration_changed'') (\<lambda>_.
     bindC (guards env (sv_guards io)) (\<lambda>_.
     returnC (item, mapping_or_empty (dget profiles (str_of (dget item ''profile''))))))))))))))"

definition run_path :: "string \<Rightarrow> path" where [py_defs]: "run_path capture_id = SPOOL @ [capture_id]"
definition run_file :: "string \<Rightarrow> string \<Rightarrow> path" where [py_defs]: "run_file capture_id name = SPOOL @ [capture_id, name]"

definition manifest_rest :: "pydict \<Rightarrow> pydict \<Rightarrow> string \<Rightarrow> string \<Rightarrow> string \<Rightarrow> int option \<Rightarrow> pyval \<Rightarrow> pydict" where
  [py_defs]: "manifest_rest item profile start ended stop_reason drops offload =
     [(''schema'', PInt 1), (''capture_id'', dget item ''capture_id''), (''profile'', dget item ''profile''),
      (''interface'', dget profile ''interface''), (''started_at'', PStr start), (''ended_at'', PStr ended),
      (''stop_reason'', PStr stop_reason), (''kernel_drop_count'', opt_int drops),
      (''configuration_sha256'', dget item ''configuration_sha256''), (''offload_state'', offload),
      (''offload_visibility'', PStr ''unknown'')]"

definition capture_packets :: "cap_env \<Rightarrow> serve_io \<Rightarrow> pydict \<Rightarrow> pydict \<Rightarrow> string \<Rightarrow> string \<Rightarrow> unit cap" where
  [py_defs]: "capture_packets env io item profile capture_id start =
     (let filter_file = run_file capture_id ''filter.bpf''; part = run_file capture_id ''capture.pcap.part'' in
      bindC (open_write env filter_file) (\<lambda>_.
      bindC (write_file env filter_file (utf8_encode (str_of (dget profile ''filter'') @ [CHR 0x0A]))) (\<lambda>_.
      bindC (chmod_private env filter_file) (\<lambda>_.
      bindC (liftC (sv_compile io)) (\<lambda>code.
      bindC (requireC (code = 0) ''filter_compile_failed'') (\<lambda>_.
      bindC (liftC (offload_state (ev_float env) (sv_software io) (sv_hardware io) (sv_nft io))) (\<lambda>offload.
      bindC (dump_file env (sv_dump io) part) (\<lambda>_.
      bindC (liftC (run_tcpdump (sv_dump io))) (\<lambda>(stop_reason, drops).
      bindC (pcap env part) (\<lambda>s.
      bindC (requireC (\<not> (stop_reason = ''packet_limit'' \<and> ps_packets s \<noteq> 1000)) ''unexpected_early_exit'') (\<lambda>_.
      bindC (chmod_private env part) (\<lambda>_.
      bindC (quiet env) (\<lambda>_.
      bindC (quiet env) (\<lambda>_.
      bindC (rename env part (run_file capture_id ''capture.pcap'')) (\<lambda>_.
      bindC (utc env) (\<lambda>ended.
      bindC (publish env (run_file capture_id ''manifest.json'')
          (dupdate (summary_dict s) (manifest_rest item profile start ended stop_reason drops offload))) (\<lambda>_.
      publish env LAST_RESULT (result_dict ''complete'' capture_id @ [(''stop_reason'', PStr stop_reason)]))))))))))))))))))"

definition capture_failed :: "cap_env \<Rightarrow> string \<Rightarrow> py_exc \<Rightarrow> unit cap" where
  [py_defs]: "capture_failed env capture_id e = bindC (utc env) (\<lambda>ended.
     bindC (publish env (run_file capture_id ''failed.json'')
       (result_dict ''failed'' capture_id @ [(''reason'', PStr (exc_reason env e)), (''ended_at'', PStr ended)])) (\<lambda>_.
     bindC (publish env LAST_RESULT (result_dict ''failed'' capture_id)) (\<lambda>_. raiseC e)))"

definition serve :: "cap_env \<Rightarrow> serve_io \<Rightarrow> unit cap" where
  [py_defs]: "serve env io = bindC (capture_lock env (sv_flock io)) (\<lambda>_.
     bindC (accepted_request env io) (\<lambda>(item, profile).
     let capture_id = str_of (dget item ''capture_id'') in
     bindC (mkdir env (run_path capture_id) False) (\<lambda>_.
     bindC (publish env (run_file capture_id ''started.json'') item) (\<lambda>_.
     bindC (publish env LAST_RESULT (result_dict ''running'' capture_id)) (\<lambda>_.
     bindC (unlink env REQUEST) (\<lambda>_.
     bindC (utc env) (\<lambda>start.
     catchC (capture_packets env io item profile capture_id start) (capture_failed env capture_id))))))))"

section \<open>Status\<close>

text \<open>\<open>flock\<close> for the status answers \<open>False\<close> when the lock is held.\<close>

definition capture_status :: "cap_env \<Rightarrow> bool res \<Rightarrow> pyval cap" where
  [py_defs]: "capture_status env flock =
     (let unknown = PDict [(''status'', PStr ''unknown'')] in
      bindC (path_exists env LAST_RESULT) (\<lambda>there.
      if \<not> there then returnC unknown
      else bindC (read_private env LAST_RESULT) (\<lambda>result.
        bindC (liftC (py_get result ''status'' PNone)) (\<lambda>status.
        if \<not> str_member (\<lambda>s. s \<in> set [''pending'', ''running'', ''complete'', ''failed'']) status then returnC unknown
        else if status = PStr ''running'' then
          bindC (read_bytes env LOCK) (\<lambda>_. bindC (liftC flock) (\<lambda>free.
            if \<not> free then returnC result
            else returnC (PDict [(''status'', PStr ''unknown''), (''capture_id'', dict_value result ''capture_id''),
              (''reason'', PStr ''supervisor_not_active'')])))
        else returnC result))))"

section \<open>Finished captures\<close>

definition artifact :: "cap_env \<Rightarrow> bool res \<Rightarrow> string \<Rightarrow> pyval cap" where
  [py_defs]: "artifact env mounted capture_id = bindC (liftC mounted) (\<lambda>m.
     bindC (requireC m ''srv_not_mounted'') (\<lambda>_.
     bindC (requireC (capture_id_ok capture_id) ''capture_id'') (\<lambda>_.
     bindC (private_dir env SPOOL) (\<lambda>_.
     bindC (private_dir env (run_path capture_id)) (\<lambda>_.
     bindC (read_private env (run_file capture_id ''manifest.json'')) (\<lambda>manifest.
     bindC (lstat env (run_file capture_id ''capture.pcap'')) (\<lambda>i.
     bindC (requireC (nd_kind i = Regular \<and> nd_uid i = ev_uid env \<and> group_bits (nd_mode i) = 0 \<and> nd_links i = 1)
       ''private_file_contract'') (\<lambda>_.
     bindC (liftC (py_get manifest ''schema'' PNone)) (\<lambda>schema.
     bindC (if schema = PInt 1 \<and> py_eq (dict_value manifest ''capture_id'') (PStr capture_id)
            then path_exists env (run_file capture_id ''capture.pcap.part'') else returnC True) (\<lambda>incomplete.
     bindC (requireC (\<not> incomplete) ''artifact_incomplete'') (\<lambda>_.
     bindC (pcap env (run_file capture_id ''capture.pcap'')) (\<lambda>s.
     bindC (requireC (list_all (\<lambda>(k, v). py_eq (dict_value manifest k) v) (summary_dict s))
       ''artifact_hash_or_summary_mismatch'') (\<lambda>_.
     returnC manifest)))))))))))))"

section \<open>Export\<close>

text \<open>\<open>shlex.split\<close>: blank, in a word, in quotes, after a backslash (outside or inside quotes).\<close>

datatype lex_state = Blank | Word | Quote char | Escape bool

definition lex_space :: "char \<Rightarrow> bool" where
  [py_defs]: "lex_space c \<longleftrightarrow> c = CHR 0x20 \<or> c = CHR 0x09 \<or> c = CHR 0x0D \<or> c = CHR 0x0A"

fun lex :: "lex_state \<Rightarrow> string \<Rightarrow> string \<Rightarrow> string list res" where
  "lex Blank word [] = Inr []"
| "lex Word word [] = Inr [word]"
| "lex (Quote q) word [] = Inl (ValueError ''No closing quotation'')"
| "lex (Escape quoted) word [] = Inl (ValueError ''No escaped character'')"
| "lex Blank word (c # s) =
     (if lex_space c then lex Blank [] s
      else if c = CHR 0x5C then lex (Escape False) [] s
      else if c = CHR 0x27 \<or> c = CHR 0x22 then lex (Quote c) [] s
      else lex Word [c] s)"
| "lex Word word (c # s) =
     (if lex_space c then bindE (lex Blank [] s) (\<lambda>words. Inr (word # words))
      else if c = CHR 0x5C then lex (Escape False) word s
      else if c = CHR 0x27 \<or> c = CHR 0x22 then lex (Quote c) word s
      else lex Word (word @ [c]) s)"
| "lex (Quote q) word (c # s) =
     (if c = q then lex Word word s
      else if c = CHR 0x5C \<and> q = CHR 0x22 then lex (Escape True) word s
      else lex (Quote q) (word @ [c]) s)"
| "lex (Escape quoted) word (c # s) =
     (let kept = (if quoted \<and> c \<noteq> CHR 0x5C \<and> c \<noteq> CHR 0x22 then [CHR 0x5C, c] else [c]) in
      lex (if quoted then Quote (CHR 0x22) else Word) (word @ kept) s)"

definition export_request :: "string \<Rightarrow> (string \<times> string) res" where
  [py_defs]: "export_request original =
     (let refused = Inl (CaptureError ''ssh_command_not_allowed'') in
      if 160 < length original then refused
      else (case lex Blank [] original of
          Inr [kind, capture_id] \<Rightarrow>
            (if (kind = ''manifest'' \<or> kind = ''pcap'') \<and> capture_id_ok capture_id then Inr (kind, capture_id) else refused)
        | _ \<Rightarrow> refused))"

record export_io =
  ex_command :: "string option"
  ex_flock :: "unit res"
  ex_mounted :: "bool res"

text \<open>The bytes that are written to the reader.\<close>

definition ssh_export :: "cap_env \<Rightarrow> export_io \<Rightarrow> string cap" where
  [py_defs]: "ssh_export env io =
     bindC (liftC (export_request (case ex_command io of None \<Rightarrow> [] | Some c \<Rightarrow> c))) (\<lambda>(kind, capture_id).
     bindC (read_lock env (ex_flock io)) (\<lambda>_.
     bindC (artifact env (ex_mounted io) capture_id) (\<lambda>_.
     bindC (read_bytes env (run_file capture_id (if kind = ''manifest'' then ''manifest.json'' else ''capture.pcap''))) (\<lambda>data.
     bindC (quiet env) (\<lambda>_. returnC data)))))"

definition instance_command :: "pyval \<Rightarrow> pyval res" where
  [py_defs]: "instance_command x = py_get x ''command'' PNone"

definition dropbear_args :: "pyval \<Rightarrow> string list option" where
  [py_defs]: "dropbear_args x = (case x of
       PList (PStr c # args) \<Rightarrow>
         if c = ''/usr/sbin/dropbear'' \<and> list_all is_str args then Some (map str_of (PStr c # args)) else None
     | _ \<Rightarrow> None)"

definition forcing_arg :: "string \<Rightarrow> bool" where
  [py_defs]: "forcing_arg a \<longleftrightarrow> startswith a ''-'' \<and> (CHR ''c'' \<in> set (tl a) \<or> CHR ''t'' \<in> set (tl a))"

definition validate_reader_server :: "(string \<Rightarrow> pyfloat) \<Rightarrow> string res \<Rightarrow> pyval res" where
  [py_defs]: "validate_reader_server float_of out = bindE out (\<lambda>text.
     bindE (json_loads float_of text) (\<lambda>v. bindE (py_item v ''dropbear'') (\<lambda>d. bindE (py_item d ''instances'') (\<lambda>i.
     case i of
       PDict instances \<Rightarrow>
         bindE (mapE instance_command (map snd instances)) (\<lambda>commands.
         if commands = [] \<or> list_ex (\<lambda>c. dropbear_args c = None) commands
         then Inl (CaptureError ''dropbear_instance_unknown'')
         else if list_ex (\<lambda>c. list_ex forcing_arg (the (dropbear_args c))) commands
         then Inl (CaptureError ''dropbear_reader_contract_incompatible'')
         else Inr (PDict [(''status'', PStr ''pass''), (''server_forced_command'', PBool False), (''password_plus_key'', PBool False)]))
     | _ \<Rightarrow> Inl AttributeError))))"

section \<open>Acknowledgement\<close>

text \<open>\<open>path.stem\<close> and \<open>path.suffix\<close>.\<close>

definition split_suffix :: "string \<Rightarrow> string \<times> string" where
  [py_defs]: "split_suffix name =
     (let ext = rev (takeWhile (\<lambda>c. c \<noteq> CHR ''.'') (rev name)); i = length name - length ext - 1 in
      if ext \<noteq> [] \<and> CHR ''.'' \<in> set name \<and> 0 < i then (take i name, CHR ''.'' # ext) else (name, []))"

text \<open>\<open>math.isfinite(x) and x <= now + 300\<close>, for a number.\<close>

definition receipt_time :: "rat \<Rightarrow> pyval \<Rightarrow> bool res" where
  [py_defs]: "receipt_time now v = (if too_large v then Inl OverflowError
     else Inr (case number_of v of None \<Rightarrow> False | Some q \<Rightarrow> q \<le> fl (now + 300)))"

definition receipt_ok :: "string \<Rightarrow> rat \<Rightarrow> pyval \<Rightarrow> bool res" where
  [py_defs]: "receipt_ok stem now v = bindE (py_get v ''schema'' PNone) (\<lambda>s.
     if s \<noteq> PInt 1 \<or> \<not> py_eq (dict_value v ''capture_id'') (PStr stem)
         \<or> \<not> py_eq (dict_value v ''status'') (PStr ''acknowledged'') then Inr False
     else receipt_time now (dict_value v ''epoch''))"

definition check_receipt :: "cap_env \<Rightarrow> string \<Rightarrow> unit cap" where
  [py_defs]: "check_receipt env name =
     (let (stem, suffix) = split_suffix name in
      bindC (requireC (suffix = ''.json'' \<and> capture_id_ok stem) ''unexpected_acknowledgement_entry'') (\<lambda>_.
      bindC (read_private env (ACKROOT @ [name])) (\<lambda>receipt.
      bindC (nowC env) (\<lambda>now.
      bindC (liftC (receipt_ok stem (snd now) receipt)) (\<lambda>ok.
      bindC (requireC ok ''acknowledgement_schema'') (\<lambda>_.
      bindC (nowC env) (\<lambda>later.
      case seconds_since (snd later) (dict_value receipt ''epoch'') of
        Some d \<Rightarrow> if 72 * 3600 < d then unlink env (ACKROOT @ [name]) else returnC ()
      | None \<Rightarrow> returnC ())))))))"

definition acknowledged_receipts :: "cap_env \<Rightarrow> nat cap" where
  [py_defs]: "acknowledged_receipts env = bindC (make_private_dir env ACKROOT) (\<lambda>_.
     bindC (iterdir env ACKROOT) (\<lambda>names.
     bindC (eachC (check_receipt env) names) (\<lambda>_.
     bindC (iterdir env ACKROOT) (\<lambda>rest. returnC (length rest)))))"

definition receipt_path :: "string \<Rightarrow> path" where [py_defs]: "receipt_path capture_id = ACKROOT @ [capture_id @ ''.json'']"

definition new_receipt :: "string \<Rightarrow> string \<Rightarrow> clock \<Rightarrow> pydict" where
  [py_defs]: "new_receipt capture_id sha now =
     [(''schema'', PInt 1), (''status'', PStr ''acknowledged''), (''capture_id'', PStr capture_id),
      (''pcap_sha256'', PStr sha), (''epoch'', clock_value now)]"

text \<open>The receipt, and whether the capture it is of has already gone.\<close>

definition ack_receipt :: "cap_env \<Rightarrow> bool res \<Rightarrow> nat \<Rightarrow> string \<Rightarrow> string \<Rightarrow> (bool \<times> pydict) cap" where
  [py_defs]: "ack_receipt env mounted count capture_id expected =
     bindC (path_exists env (receipt_path capture_id)) (\<lambda>there.
     if there then
       bindC (read_private env (receipt_path capture_id)) (\<lambda>receipt.
       bindC (liftC (py_get receipt ''pcap_sha256'' PNone)) (\<lambda>h.
       bindC (requireC (py_eq h (PStr expected)) ''acknowledgement_hash_mismatch'') (\<lambda>_.
       bindC (path_exists env (run_path capture_id)) (\<lambda>run.
       returnC (\<not> run, mapping_or_empty receipt)))))
     else
       bindC (requireC (count < 64) ''acknowledgement_count_limit'') (\<lambda>_.
       bindC (artifact env mounted capture_id) (\<lambda>manifest.
       bindC (liftC (py_item manifest ''pcap_sha256'')) (\<lambda>h.
       bindC (requireC (py_eq h (PStr expected)) ''acknowledgement_hash_mismatch'') (\<lambda>_.
       bindC (nowC env) (\<lambda>now. returnC (False, new_receipt capture_id expected now)))))))"

definition RUN_FILES :: "string list" where
  [py_defs]: "RUN_FILES = [''started.json'', ''filter.bpf'', ''capture.pcap'', ''manifest.json'']"

definition foreign_entry :: "cap_env \<Rightarrow> path \<Rightarrow> bool cap" where
  [py_defs]: "foreign_entry env p =
     (if last p \<notin> set RUN_FILES then returnC True
      else bindC (is_symlink env p) (\<lambda>link. if link then returnC True
        else bindC (lstat env p) (\<lambda>i. if nd_kind i \<noteq> Regular then returnC True
          else bindC (lstat env p) (\<lambda>j. returnC (nd_uid j \<noteq> ev_uid env)))))"

definition delete_run :: "cap_env \<Rightarrow> string \<Rightarrow> pydict \<Rightarrow> unit cap" where
  [py_defs]: "delete_run env capture_id receipt = bindC (private_dir env SPOOL) (\<lambda>_.
     bindC (private_dir env (run_path capture_id)) (\<lambda>_.
     bindC (iterdir env (run_path capture_id)) (\<lambda>names.
     let entries = map (run_file capture_id) names in
     bindC (anyC (foreign_entry env) entries) (\<lambda>foreign.
     bindC (requireC (\<not> foreign) ''unexpected_capture_entry'') (\<lambda>_.
     bindC (path_exists env (receipt_path capture_id)) (\<lambda>there.
     bindC (if there then returnC () else publish env (receipt_path capture_id) receipt) (\<lambda>_.
     bindC (eachC (unlink env) entries) (\<lambda>_.
     rmdir env (run_path capture_id)))))))))"

record ack_io =
  ak_flock :: "unit res"
  ak_mounted :: "bool res"
  ak_artifact_mounted :: "bool res"

definition acknowledge :: "cap_env \<Rightarrow> ack_io \<Rightarrow> string \<Rightarrow> string \<Rightarrow> pyval cap" where
  [py_defs]: "acknowledge env io capture_id expected =
     bindC (requireC (capture_id_ok capture_id \<and> hexn 64 expected) ''acknowledgement_input'') (\<lambda>_.
     bindC (capture_lock env (ak_flock io)) (\<lambda>_.
     bindC (liftC (ak_mounted io)) (\<lambda>m.
     bindC (requireC m ''srv_not_mounted'') (\<lambda>_.
     bindC (acknowledged_receipts env) (\<lambda>count.
     bindC (ack_receipt env (ak_artifact_mounted io) count capture_id expected) (\<lambda>(gone, receipt).
     if gone then returnC (PDict (dput ''already_acknowledged'' (PBool True) receipt))
     else bindC (delete_run env capture_id receipt) (\<lambda>_. returnC (PDict receipt))))))))"

section \<open>The command\<close>

datatype capture_command =
    Request string request_io
  | Serve serve_io
  | ShowStatus "bool res"
  | Validate string
  | Export export_io
  | ValidateReader "string res"
  | Acknowledge string string ack_io

definition shown :: "pyval cap \<Rightarrow> string cap" where
  [py_defs]: "shown m = bindC m (\<lambda>v. returnC (json_enc json_default v @ [CHR 0x0A]))"

definition capture_action :: "cap_env \<Rightarrow> capture_command \<Rightarrow> string cap" where
  [py_defs]: "capture_action env a = (case a of
       Request profile io \<Rightarrow> shown (request env io profile)
     | Serve io \<Rightarrow> bindC (serve env io) (\<lambda>_. returnC [])
     | ShowStatus flock \<Rightarrow> shown (capture_status env flock)
     | Validate p \<Rightarrow> bindC (capture_config env [p]) (\<lambda>_. shown (returnC (PDict [(''status'', PStr ''valid'')])))
     | Export io \<Rightarrow> ssh_export env io
     | ValidateReader out \<Rightarrow> shown (liftC (validate_reader_server (ev_float env) out))
     | Acknowledge i h io \<Rightarrow> shown (acknowledge env io i h))"

text \<open>What is printed, and the exit code; a killed process prints nothing.\<close>

definition capture_main :: "cap_env \<Rightarrow> capture_command \<Rightarrow> (string \<times> nat) cap" where
  [py_defs]: "capture_main env a = catchC (bindC (capture_action env a) (\<lambda>out. returnC (out, 0)))
     (\<lambda>e. returnC (json_enc json_default (PDict [(''status'', PStr ''failed''), (''reason'', PStr (exc_reason env e))]) @ [CHR 0x0A], 1))"

end
