(* ===== verification/Capture_Props.thy ===== *)
theory Capture_Props
  imports Canonical_Json Capture
begin

text \<open>
  Properties of \<open>security_capture.py\<close> over runs of any commands, each with any failures and
  killed at any call: a finished capture survives until it is acknowledged with its own digest, the spool
  never holds more than two runs, what is exported is a well-formed capture whose manifest
  describes it; and an acknowledgement interrupted while its receipt is written blocks all later ones.
\<close>

section \<open>Composite calls\<close>

lemma safe_at: "(\<And>w. safe I (m w) Q) \<Longrightarrow> safe I (\<lambda>w. m w w) Q"
  unfolding safe_def by blast

lemma reads_programs [simp]:
  "only_reads (mtimeC env)" "only_reads (new_id env)" "only_reads (digest env p)" "only_reads (read_private env p)" "only_reads (private_dir env p)"
  "only_reads (capture_config env p)" "only_reads (pcap env p)" "only_reads (odd_entry env p)" "only_reads (old_entry env p)" "only_reads (utc env)"
  "only_reads (foreign_entry env p)"
proof -
  show "only_reads (mtimeC env)" "only_reads (new_id env)" by (simp_all add: only_reads_def mtimeC_def new_id_def)
  then show r: "only_reads (digest env p)" "only_reads (read_private env p)" "only_reads (private_dir env p)" "only_reads (utc env)"
      "only_reads (odd_entry env p)" "only_reads (old_entry env p)" "only_reads (foreign_entry env p)"
    unfolding digest_def read_private_def private_dir_def utc_def odd_entry_def old_entry_def foreign_entry_def
    by (auto intro!: reads_bind)
  then show "only_reads (capture_config env p)" "only_reads (pcap env p)"
    unfolding capture_config_def pcap_def by (auto intro!: reads_bind)
qed

lemmas keeps_programs [keep_rule] =
  reads_programs(1) [THEN safe_reads] reads_programs(2) [THEN safe_reads] reads_programs(3) [THEN safe_reads]
  reads_programs(4) [THEN safe_reads] reads_programs(5) [THEN safe_reads] reads_programs(6) [THEN safe_reads]
  reads_programs(7) [THEN safe_reads] reads_programs(8) [THEN safe_reads] reads_programs(9) [THEN safe_reads]
  reads_programs(10) [THEN safe_reads] reads_programs(11) [THEN safe_reads]

lemma reads_artifact [simp]: "only_reads (artifact env mounted i)"
  unfolding artifact_def by (auto intro!: reads_bind)

lemma reads_read_lock [simp]: "only_reads (read_lock env flock)"
  unfolding read_lock_def by (auto intro!: reads_bind)

lemma reads_export [simp]: "only_reads (ssh_export env io)"
  unfolding ssh_export_def by (auto intro!: reads_bind split: prod.split)

lemma reads_status [simp]: "only_reads (capture_status env flock)"
  unfolding capture_status_def Let_def by (auto intro!: reads_bind)

section \<open>The programs keep an invariant that does not speak of what they change\<close>

text \<open>Neither a published file nor its temporary file is among the paths.\<close>

definition apart :: "path set \<Rightarrow> path \<Rightarrow> bool" where
  "apart G p \<longleftrightarrow> p \<notin> G \<and> (\<forall>u. temp_path p u \<notin> G)"

lemma keeps_publish:
  assumes "speaks_of G I" and "apart G p"
  shows "keeps I (publish env p d)"
proof -
  have p: "p \<notin> G" "temp_path p u \<notin> G" for u using assms(2) by (simp_all add: apart_def)
  have "keeps I (bindC (create_new env t) (\<lambda>_. bindC (write_file env t s) (\<lambda>_. bindC (quiet env) (\<lambda>_.
      bindC (rename env t p) (\<lambda>_. bindC (quiet env) (\<lambda>_. quiet env))))))" if "t \<notin> G" for t s
    by (intro keep_rule keeps_changes [OF assms(1) that] keeps_rename [OF assms(1) that p(1)])
  from this [OF p(2)] show ?thesis by (simp add: safe_def publish_def Let_def)
qed

lemma keeps_dump_file:
  assumes "speaks_of G I" and "p \<notin> G"
  shows "keeps I (dump_file env io p)"
  by (auto simp: safe_def dump_file_def split: sum.splits option.splits intro: speaks_of_put [OF assms])

lemma keeps_make_private_dir: "speaks_of G I \<Longrightarrow> p \<notin> G \<Longrightarrow> keeps I (make_private_dir env p)"
  unfolding make_private_dir_def by (intro keep_rule keeps_changes(1))

lemma keeps_guards: "speaks_of G I \<Longrightarrow> SPOOL \<notin> G \<Longrightarrow> keeps I (guards env io)"
  unfolding guards_def Let_def by (intro keep_rule keeps_make_private_dir)

lemma keeps_capture_lock: "speaks_of G I \<Longrightarrow> STATE \<notin> G \<Longrightarrow> LOCK \<notin> G \<Longrightarrow> keeps I (capture_lock env flock)"
  unfolding capture_lock_def by (intro keep_rule keeps_make_private_dir keeps_changes(3))

lemma keeps_request:
  assumes "speaks_of G I" and "STATE \<notin> G" "LOCK \<notin> G" "SPOOL \<notin> G" and "apart G REQUEST" "apart G LAST_RESULT"
  shows "keeps I (request env io profile)"
  unfolding request_def
  by (intro keep_rule keeps_capture_lock [OF assms(1,2,3)] keeps_guards [OF assms(1,4)]
      keeps_publish [OF assms(1,5)] keeps_publish [OF assms(1,6)])

lemma keeps_accepted_request:
  assumes "speaks_of G I" and "SPOOL \<notin> G"
  shows "keeps I (accepted_request env io)"
  unfolding accepted_request_def by (intro keep_rule keeps_guards [OF assms])

lemma keeps_capture_packets:
  assumes "speaks_of G I" and "apart G LAST_RESULT" and "\<And>n. apart G (run_file i n)"
  shows "keeps I (capture_packets env io item profile i start)"
proof -
  have "run_file i n \<notin> G" for n using assms(3) [of n] by (simp add: apart_def)
  then show ?thesis
    unfolding capture_packets_def Let_def
    by (intro keep_rule keeps_changes [OF assms(1)] keeps_dump_file [OF assms(1)] keeps_rename [OF assms(1)]
      keeps_publish [OF assms(1)] assms(2,3))
qed

lemma keeps_capture_failed:
  assumes "speaks_of G I" and "apart G LAST_RESULT" and "\<And>n. apart G (run_file i n)"
  shows "keeps I (capture_failed env i e)"
  unfolding capture_failed_def by (intro keep_rule keeps_publish [OF assms(1)] assms(2,3))

section \<open>Runs\<close>

text \<open>Any sequence of commands on the files, each in an environment of its own: its clock, its failures, its
  death.\<close>

inductive capture_runs :: "(string \<Rightarrow> string) \<Rightarrow> (string \<Rightarrow> pyfloat) \<Rightarrow> capture_command list \<Rightarrow> files \<Rightarrow> files \<Rightarrow> bool"
  for sha256 float_of where
  no_run: "capture_runs sha256 float_of [] fs fs"
| next_run: "capture_runs sha256 float_of as fs fs' \<Longrightarrow> ev_sha env = sha256 \<Longrightarrow> ev_float env = float_of \<Longrightarrow>
     capture_runs sha256 float_of (as @ [a]) fs (w_files (snd (capture_main env a \<lparr>w_files = fs', w_step = n\<rparr>)))"

lemma runs_keep:
  assumes "capture_runs sha256 float_of as fs fs'" and "I fs"
    and "\<And>env a. a \<in> set as \<Longrightarrow> ev_sha env = sha256 \<Longrightarrow> ev_float env = float_of \<Longrightarrow> keeps I (capture_action env a)"
  shows "I fs'"
  using assms
proof (induction rule: capture_runs.induct)
  case (next_run as fs fs' env a n)
  then have "I fs'" "keeps I (capture_action env a)" by auto
  then have "keeps I (capture_main env a)"
    unfolding capture_main_def by (intro safe_catch keep_rule)
  with \<open>I fs'\<close> show ?case unfolding safe_def by (metis prod.collapse world.select_convs(1))
qed

section \<open>A finished capture survives\<close>

definition holds :: "files \<Rightarrow> path \<Rightarrow> string \<Rightarrow> bool" where
  "holds fs p s \<longleftrightarrow> map_option nd_data (map_of fs p) = Some s"

definition names_digest :: "(string \<Rightarrow> pyfloat) \<Rightarrow> string \<Rightarrow> string \<Rightarrow> bool" where
  "names_digest float_of data h \<longleftrightarrow> (\<exists>v. bindE (decode_utf8 data) (json_loads float_of) = Inr v
     \<and> py_eq (dict_value v ''pcap_sha256'') (PStr h))"

text \<open>The run \<open>i\<close> holds the capture \<open>d\<close> and the manifest \<open>m\<close>, and no receipt of it names another digest.\<close>

definition intact :: "(string \<Rightarrow> string) \<Rightarrow> (string \<Rightarrow> pyfloat) \<Rightarrow> string \<Rightarrow> string \<Rightarrow> string \<Rightarrow> files \<Rightarrow> bool" where
  "intact sha256 float_of i d m fs \<longleftrightarrow> capture_id_ok i \<and> kind_at fs (run_path i) = Some Directory
     \<and> holds fs (run_file i ''capture.pcap'') d \<and> holds fs (run_file i ''manifest.json'') m
     \<and> (\<forall>s h. holds fs (receipt_path i) s \<longrightarrow> names_digest float_of s h \<longrightarrow> h = sha256 d)"

definition intact_paths :: "string \<Rightarrow> path set" where
  "intact_paths i = {run_path i, run_file i ''capture.pcap'', run_file i ''manifest.json'', receipt_path i}"

lemmas place_defs = CONFIG_def STATE_def SPOOL_def ACKROOT_def REQUEST_def LAST_RESULT_def LOCK_def
  run_path_def run_file_def receipt_path_def

lemma intact_speaks: "speaks_of (intact_paths i) (intact sha256 float_of i d m)"
  by (auto simp: speaks_of_def intact_paths_def intact_def holds_def kind_at_def)

lemma capture_id_digit: "capture_id_ok i \<Longrightarrow> i \<noteq> [] \<and> hd i \<noteq> CHR ''.''"
  by (cases i) (auto simp: capture_id_ok_def field_def ascii_digit_def)

lemma intact_elsewhere:
  "STATE \<notin> intact_paths i" "LOCK \<notin> intact_paths i" "SPOOL \<notin> intact_paths i" "REQUEST \<notin> intact_paths i"
  "LAST_RESULT \<notin> intact_paths i" "ACKROOT \<notin> intact_paths i"
  "j \<noteq> i \<Longrightarrow> run_path j \<notin> intact_paths i" "j \<noteq> i \<Longrightarrow> run_file j n \<notin> intact_paths i"
  "j \<noteq> i \<Longrightarrow> receipt_path j \<notin> intact_paths i"
  by (auto simp: intact_paths_def place_defs)

text \<open>The names of temporary files start with a dot.\<close>

lemma intact_apart:
  assumes "capture_id_ok i"
  shows "apart (intact_paths i) REQUEST" "apart (intact_paths i) LAST_RESULT"
    "j \<noteq> i \<Longrightarrow> apart (intact_paths i) (run_file j n)" "j \<noteq> i \<Longrightarrow> apart (intact_paths i) (receipt_path j)"
proof -
  obtain c cs where "i = c # cs" "c \<noteq> CHR ''.''" using capture_id_digit [OF assms] by (cases i) auto
  then show "apart (intact_paths i) REQUEST" "apart (intact_paths i) LAST_RESULT"
    "j \<noteq> i \<Longrightarrow> apart (intact_paths i) (run_file j n)" "j \<noteq> i \<Longrightarrow> apart (intact_paths i) (receipt_path j)"
    by (auto simp: apart_def temp_path_def intact_paths_def place_defs)
qed

lemma keeps_serve_intact:
  assumes "capture_id_ok i"
  shows "keeps (intact sha256 float_of i d m) (serve env io)"
proof -
  define I where "I = intact sha256 float_of i d m"
  define G where "G = intact_paths i"
  have sp: "speaks_of G I" unfolding G_def I_def by (rule intact_speaks)
  note out = intact_elsewhere [where i = i, folded G_def]
  note apart = intact_apart [OF assms, folded G_def]
  have mkdir: "safe I (mkdir env (run_path c) False) (\<lambda>_. c \<noteq> i)" for c
  proof (cases "c = i")
    case True
    have "safe I (mkdir env (run_path i) False) (\<lambda>_. False)"
      unfolding mkdir_def
      by (rule safe_sys) (auto simp: I_def intact_def kind_at_def split: option.splits if_splits)
    with True show ?thesis by (auto intro: safe_weaken)
  next
    case False
    with keeps_changes(1) [OF sp out(7) [OF False]] show ?thesis unfolding safe_def by blast
  qed
  have body: "keeps I (bindC (publish env (run_file c ''started.json'') item) (\<lambda>_.
     bindC (publish env LAST_RESULT (result_dict ''running'' c)) (\<lambda>_.
     bindC (unlink env REQUEST) (\<lambda>_.
     bindC (utc env) (\<lambda>start.
     catchC (capture_packets env io item profile c start) (capture_failed env c))))))" if "c \<noteq> i" for c item profile
    by (intro keep_rule safe_catch keeps_publish [OF sp] keeps_changes(6) [OF sp] keeps_capture_packets [OF sp]
        keeps_capture_failed [OF sp] apart out that)
  have "keeps I (serve env io)"
    unfolding serve_def Let_def
    by (intro keep_rule keeps_capture_lock [OF sp out(1,2)] keeps_accepted_request [OF sp out(3)]
        safe_bind [OF mkdir] body)
  then show ?thesis by (simp add: I_def)
qed

lemma safe_read_private:
  assumes "\<And>fs n v. I fs \<Longrightarrow> map_of fs p = Some n \<Longrightarrow>
      bindE (decode_utf8 (nd_data n)) (json_loads (ev_float env)) = Inr v \<Longrightarrow> Q v"
  shows "safe I (read_private env p) Q"
proof -
  have read: "safe I (read_bytes env p) (\<lambda>data. \<forall>v. bindE (decode_utf8 data) (json_loads (ev_float env)) = Inr v \<longrightarrow> Q v)"
    using assms by (intro safe_read_bytes) blast
  show ?thesis
    unfolding read_private_def
    by (rule safe_bind [OF safe_reads]; simp; rule safe_bind [OF keeps_simple(2)]; rule safe_bind [OF read];
        rule safe_lift; blast)
qed

lemma py_eq_PStr [simp]: "py_eq v (PStr s) \<longleftrightarrow> v = PStr s"
  by (cases v) (auto simp: scalar_eq_def num_val_def split: pyfloat.splits)

lemma py_get_value: "py_get v k PNone = Inr x \<Longrightarrow> x = dict_value v k"
  by (cases v) (auto simp: py_get_def dict_value_def)

lemma py_item_value: "py_item v k = Inr x \<Longrightarrow> x = dict_value v k"
  by (cases v) (auto simp: py_item_def dindex_def dict_value_def dget_or_def split: option.splits)

lemma safe_pcap:
  assumes "\<And>fs n. I fs \<Longrightarrow> map_of fs p = Some n \<Longrightarrow> nd_data n = d"
  shows "safe I (pcap env p) (\<lambda>s. ps_sha s = ev_sha env d)"
proof -
  have "safe I (digest env p) (\<lambda>h. h = ev_sha env d)"
    unfolding digest_def by (rule safe_bind [OF safe_read_bytes [where Q = "\<lambda>x. x = d"]])
      (auto intro: assms safe_lift)
  then show ?thesis
    unfolding pcap_def
    by (intro safe_bind [OF safe_reads] safe_bind [OF keeps_simple(1)] safe_bind [OF \<open>safe I (digest env p) _\<close>]
        safe_lift reads_calls) auto
qed

lemma safe_artifact:
  assumes "\<And>fs n. I fs \<Longrightarrow> map_of fs (run_file i ''capture.pcap'') = Some n \<Longrightarrow> nd_data n = d"
  shows "safe I (artifact env mounted i) (\<lambda>v. dict_value v ''pcap_sha256'' = PStr (ev_sha env d))"
  unfolding artifact_def
  by (intro safe_bind [OF safe_reads] safe_bind [OF keeps_simple(2)] safe_bind [OF safe_pcap [OF assms]]
      safe_bind [OF safe_require] safe_lift reads_calls reads_programs reads_if)
    (auto simp: summary_dict_def)

text \<open>Of the run itself, with another digest, an acknowledgement fails before it deletes anything.\<close>

lemma ack_receipt_refused:
  assumes "h \<noteq> sha256 d" and "ev_sha env = sha256" "ev_float env = float_of"
  shows "safe (intact sha256 float_of i d m) (ack_receipt env mounted n i h) (\<lambda>_. False)"
proof -
  have receipt: "safe (intact sha256 float_of i d m) (read_private env (receipt_path i))
      (\<lambda>v. \<forall>x. dict_value v ''pcap_sha256'' = PStr x \<longrightarrow> x = sha256 d)"
    by (rule safe_read_private) (force simp: intact_def holds_def names_digest_def assms)
  have art: "safe (intact sha256 float_of i d m) (artifact env mounted i) (\<lambda>v. dict_value v ''pcap_sha256'' = PStr (sha256 d))"
    unfolding assms(2) [symmetric] by (rule safe_artifact) (auto simp: intact_def holds_def)
  show ?thesis
    unfolding ack_receipt_def
  proof (rule safe_bind_reads [OF reads_calls(3)], rule safe_if, goal_cases)
    case 1
    show ?case
      by (rule safe_bind [OF receipt], rule safe_bind_lift, rule safe_bind_require)
        (use assms(1) in \<open>auto dest!: py_get_value\<close>)
  next
    case 2
    show ?case
      by (rule safe_bind_require, rule safe_bind [OF art], rule safe_bind_lift, rule safe_bind_require)
        (use assms(1) in \<open>auto dest!: py_item_value\<close>)
  qed
qed

lemma keeps_check_receipt_intact: "keeps (intact sha256 float_of i d m) (check_receipt env name)"
proof -
  have "ACKROOT @ [name] \<notin> {run_path i, run_file i ''capture.pcap'', run_file i ''manifest.json''}"
    by (simp add: place_defs)
  then have "keeps (intact sha256 float_of i d m) (unlink env (ACKROOT @ [name]))"
    unfolding unlink_def
    by (intro safe_sys) (auto simp: intact_def holds_def kind_at_def delete_conv' split: option.splits if_splits)
  then show ?thesis
    unfolding check_receipt_def Let_def by (intro keep_rule)
qed

lemma keeps_acknowledge_intact:
  assumes "capture_id_ok i" and "j = i \<Longrightarrow> h \<noteq> sha256 d" and "ev_sha env = sha256" "ev_float env = float_of"
  shows "keeps (intact sha256 float_of i d m) (acknowledge env io j h)"
proof -
  define I where "I = intact sha256 float_of i d m"
  define G where "G = intact_paths i"
  have sp: "speaks_of G I" unfolding G_def I_def by (rule intact_speaks)
  note out = intact_elsewhere [where i = i, folded G_def]
  note apart = intact_apart [OF assms(1), folded G_def]
  have check: "keeps I (check_receipt env name)" for name
    unfolding I_def by (rule keeps_check_receipt_intact)
  have receipts: "keeps I (acknowledged_receipts env)"
    unfolding acknowledged_receipts_def
    by (intro keep_rule keeps_make_private_dir [OF sp out(6)] check)
  have unlink: "keeps I (unlink env p)" if "p \<in> set (map (run_file j) names)" "j \<noteq> i" for p names
    using that out(8) keeps_changes(6) [OF sp] by auto
  have delete: "keeps I (delete_run env j r)" if "j \<noteq> i" for r
    unfolding delete_run_def Let_def
    by (intro keep_rule keeps_publish [OF sp] keeps_changes(7) [OF sp] unlink that apart out)
  have ack: "safe I (ack_receipt env mounted n j h) (\<lambda>_. j \<noteq> i)" for mounted n
  proof (cases "j = i")
    case True
    with ack_receipt_refused [OF assms(2) [OF True] assms(3,4), of i m mounted n, folded I_def]
    show ?thesis unfolding safe_def by blast
  next
    case False
    have "only_reads (ack_receipt env mounted n j h)"
      unfolding ack_receipt_def by (auto intro!: reads_bind)
    with safe_reads [OF this, of I] False show ?thesis unfolding safe_def by blast
  qed
  have "keeps I (acknowledge env io j h)"
    unfolding acknowledge_def
    by (intro keep_rule keeps_capture_lock [OF sp out(1,2)] receipts safe_bind [OF ack] delete)
  then show ?thesis by (simp add: I_def)
qed

lemma keeps_action_intact:
  assumes "\<And>io. a \<noteq> Acknowledge i (sha256 d) io" and "ev_sha env = sha256" "ev_float env = float_of"
  shows "keeps (intact sha256 float_of i d m) (capture_action env a)"
proof (cases "capture_id_ok i")
  case True
  have ack: "keeps (intact sha256 float_of i d m) (acknowledge env io j h)" if "a = Acknowledge j h io" for io j h
    using assms(1) that by (intro keeps_acknowledge_intact True assms(2,3)) blast
  have reading: "keeps (intact sha256 float_of i d m) (capture_status env flock)"
      "keeps (intact sha256 float_of i d m) (ssh_export env eio)" for flock eio
    by (simp_all add: safe_reads)
  show ?thesis
    by (cases a; simp only: capture_action_def capture_command.case shown_def;
        intro keep_rule keeps_request [OF intact_speaks] keeps_serve_intact [OF True] reading ack
          intact_elsewhere intact_apart [OF True]; simp)
qed (simp add: safe_def intact_def)

text \<open>
  Property C5.  Once a capture is finished nothing but its own acknowledgement removes it: whatever
  commands run afterwards, in whatever order, and at whatever calls they fail or are killed, the capture file
  and its manifest stay as they are, unless one of the commands is the acknowledgement of this capture
  with the digest of this very file.
\<close>

theorem finished_capture_survives:
  assumes "capture_runs sha256 float_of as fs fs'" and "intact sha256 float_of i d m fs"
    and "\<And>io. Acknowledge i (sha256 d) io \<notin> set as"
  shows "intact sha256 float_of i d m fs'"
  using assms(1,2)
proof (rule runs_keep)
  fix env :: cap_env and a assume "a \<in> set as" "ev_sha env = sha256" "ev_float env = float_of"
  with assms(3) show "keeps (intact sha256 float_of i d m) (capture_action env a)"
    by (intro keeps_action_intact) auto
qed

section \<open>The spool is bounded\<close>

definition spool_runs :: "files \<Rightarrow> string set" where
  "spool_runs fs = {x. map_of fs (SPOOL @ [x]) \<noteq> None}"

lemma set_children: "set (children fs d) = {x. map_of fs (d @ [x]) \<noteq> None}"
proof -
  have "x \<in> set (children fs d) \<longleftrightarrow> d @ [x] \<in> fst ` set fs" for x
  proof
    assume "x \<in> set (children fs d)"
    then obtain p where "p \<in> fst ` set fs" "p \<noteq> []" "butlast p = d" "last p = x" by (auto simp: children_def)
    then show "d @ [x] \<in> fst ` set fs" by (metis append_butlast_last_id)
  next
    assume "d @ [x] \<in> fst ` set fs"
    then show "x \<in> set (children fs d)" by (force simp: children_def)
  qed
  then show ?thesis by (auto simp: map_of_eq_None_iff)
qed

lemma length_children: "length (children fs SPOOL) = card (spool_runs fs)"
proof -
  have "distinct (children fs SPOOL)" by (simp add: children_def)
  then have "length (children fs SPOOL) = card (set (children fs SPOOL))" by (simp add: distinct_card)
  then show ?thesis by (simp add: set_children spool_runs_def)
qed

lemma finite_spool_runs: "finite (spool_runs fs)"
  by (metis List.finite_set set_children spool_runs_def)

definition spool_bounded :: "files \<Rightarrow> bool" where "spool_bounded fs \<longleftrightarrow> card (spool_runs fs) \<le> 2"

definition spool_paths :: "path set" where "spool_paths = {SPOOL @ [x] |x. True}"

lemma spool_speaks: "speaks_of spool_paths spool_bounded"
proof -
  have "spool_runs fs' = spool_runs fs" if "\<forall>p \<in> spool_paths. map_of fs' p = map_of fs p" for fs fs'
    using that by (auto simp: spool_runs_def spool_paths_def)
  then show ?thesis by (metis speaks_of_def spool_bounded_def)
qed

lemma spool_elsewhere:
  "STATE \<notin> spool_paths" "LOCK \<notin> spool_paths" "SPOOL \<notin> spool_paths" "REQUEST \<notin> spool_paths" "ACKROOT \<notin> spool_paths"
  "ACKROOT @ [n] \<notin> spool_paths"
  "run_file j n \<notin> spool_paths" "apart spool_paths REQUEST" "apart spool_paths LAST_RESULT"
  "apart spool_paths (run_file j n)" "apart spool_paths (receipt_path j)"
  by (auto simp: apart_def temp_path_def spool_paths_def place_defs)

lemma guards_leave_room:
  assumes "guards env io w = (Inr u, w')"
  shows "card (spool_runs (w_files w')) < 2"
proof -
  obtain w1 w2 w3 w4 names b where names: "iterdir env SPOOL w1 = (Inr names, w2)" "length names < 2"
      "anyC (odd_entry env) (map (\<lambda>x. SPOOL @ [x]) names) w2 = (Inr b, w3)"
      "anyC (old_entry env) (map (\<lambda>x. SPOOL @ [x]) names) w3 = (Inr b, w4)" "w' = w4"
    using assms unfolding guards_def Let_def by fastforce
  from iterdir_Inr [OF names(1)] names(2)
  have "card (spool_runs (w_files w2)) < 2" by (simp add: length_children)
  moreover have "only_reads (anyC (odd_entry env) xs)" "only_reads (anyC (old_entry env) xs)" for xs by simp_all
  then have "w_files w' = w_files w2" using names(3-5) by (metis reads_files)
  ultimately show ?thesis by simp
qed

lemma accepted_request_leaves_room:
  assumes "accepted_request env io w = (Inr x, w')"
  shows "card (spool_runs (w_files w')) < 2"
proof -
  obtain w1 where "guards env (sv_guards io) w1 = (Inr (), w')"
    using assms unfolding accepted_request_def by auto
  then show ?thesis by (rule guards_leave_room)
qed

lemma mkdir_one_more: "snd (mkdir env p b w) = w' \<Longrightarrow> card (spool_runs (w_files w')) \<le> Suc (card (spool_runs (w_files w)))"
proof -
  have "spool_runs (put p n fs) \<subseteq> insert (last p) (spool_runs fs)" for n fs
    by (auto simp: spool_runs_def SPOOL_def)
  then have "card (spool_runs (put p n fs)) \<le> Suc (card (spool_runs fs))" for n fs
    using card_mono [of "insert (last p) (spool_runs fs)" "spool_runs (put p n fs)"] card_insert_le_m1
      card_insert_if [OF finite_spool_runs [of fs], of "last p"] finite_spool_runs [of fs] by (simp split: if_splits)
  then show "snd (mkdir env p b w) = w' \<Longrightarrow> card (spool_runs (w_files w')) \<le> Suc (card (spool_runs (w_files w)))"
    by (auto simp: mkdir_def sys_def split: option.splits)
qed

text \<open>A step after which there is room, and a step that uses it.\<close>

lemma keeps_with_room:
  assumes "\<And>w r w'. I (w_files w) \<Longrightarrow> m w = (r, w') \<Longrightarrow> I (w_files w') \<and> (\<forall>x. r = Inr x \<longrightarrow> J (w_files w'))"
    and "\<And>x w r w'. J (w_files w) \<Longrightarrow> f x w = (r, w') \<Longrightarrow> I (w_files w')" and "\<And>x y. keeps I (g x y)"
  shows "keeps I (bindC m (\<lambda>x. bindC (f x) (g x)))"
  unfolding safe_def
proof (intro allI impI)
  fix w r w' assume i: "I (w_files w)" and run: "bindC m (\<lambda>x. bindC (f x) (g x)) w = (r, w')"
  obtain r1 w1 where m: "m w = (r1, w1)" by (cases "m w")
  note one = assms(1) [OF i m]
  have "I (w_files w')"
  proof (cases r1)
    case (Inl e)
    with m run one show ?thesis by (auto simp: bindC_def)
  next
    case (Inr x)
    obtain r2 w2 where f: "f x w1 = (r2, w2)" by (cases "f x w1")
    have two: "I (w_files w2)" using assms(2) [OF _ f] one Inr by blast
    show ?thesis
    proof (cases r2)
      case (Inl e)
      with m f run \<open>r1 = Inr x\<close> two show ?thesis by (auto simp: bindC_def)
    next
      case (Inr y)
      then have "g x y w2 = (r, w')" using m f run \<open>r1 = Inr x\<close> by (simp add: bindC_def)
      with assms(3) [of x y] two show ?thesis unfolding safe_def by blast
    qed
  qed
  then show "I (w_files w') \<and> (\<forall>x. r = Inr x \<longrightarrow> True)" by simp
qed

lemma keeps_serve_spool: "keeps spool_bounded (serve env io)"
proof -
  note sp = spool_speaks and out = spool_elsewhere
  have acc: "spool_bounded (w_files w') \<and> (\<forall>x. r = Inr x \<longrightarrow> card (spool_runs (w_files w')) < 2)"
    if "spool_bounded (w_files w)" "accepted_request env io w = (r, w')" for w r w'
    using that keeps_accepted_request [OF sp out(3), of env io] accepted_request_leaves_room
    unfolding safe_def by blast
  have mkdir: "spool_bounded (w_files w')" if "card (spool_runs (w_files w)) < 2" "mkdir env p False w = (r, w')" for p w r w'
    using mkdir_one_more [of env p False w w'] that by (simp add: spool_bounded_def)
  have body: "keeps spool_bounded (bindC (publish env (run_file c ''started.json'') item) (\<lambda>_.
     bindC (publish env LAST_RESULT (result_dict ''running'' c)) (\<lambda>_.
     bindC (unlink env REQUEST) (\<lambda>_.
     bindC (utc env) (\<lambda>start.
     catchC (capture_packets env io item profile c start) (capture_failed env c))))))" for c item profile
    by (intro keep_rule safe_catch keeps_publish [OF sp] keeps_changes(6) [OF sp] keeps_capture_packets [OF sp]
        keeps_capture_failed [OF sp] out)
  show ?thesis
    unfolding serve_def Let_def split_def
  proof (rule keeps_bind [OF keeps_capture_lock [OF sp out(1,2)]],
      rule keeps_with_room [where J = "\<lambda>fs. card (spool_runs fs) < 2"], goal_cases)
    case (1 x w r w')
    then show ?case by (rule acc)
  next
    case (2 x y w r w')
    then show ?case by (rule mkdir)
  qed (rule body)
qed

lemma spool_runs_delete: "spool_bounded fs \<Longrightarrow> spool_bounded (AList.delete p fs)"
proof -
  have "spool_runs (AList.delete p fs) \<subseteq> spool_runs fs" by (auto simp: spool_runs_def delete_conv')
  from card_mono [OF finite_spool_runs this]
  show "spool_bounded fs \<Longrightarrow> spool_bounded (AList.delete p fs)" by (simp add: spool_bounded_def)
qed

lemma keeps_acknowledge_spool: "keeps spool_bounded (acknowledge env io j h)"
proof -
  note sp = spool_speaks and out = spool_elsewhere
  have rm: "keeps spool_bounded (rmdir env p)" for p
    unfolding rmdir_def by (intro safe_sys) (auto intro: spool_runs_delete split: option.splits if_splits)
  have receipts: "keeps spool_bounded (acknowledged_receipts env)"
    unfolding acknowledged_receipts_def check_receipt_def Let_def
    by (intro keep_rule keeps_make_private_dir [OF sp out(5)] keeps_changes(6) [OF sp] out)
  have unlink: "keeps spool_bounded (unlink env p)" if "p \<in> set (map (run_file j) names)" for p names
    using that out(7) keeps_changes(6) [OF sp] by auto
  have delete: "keeps spool_bounded (delete_run env j r)" for r
    unfolding delete_run_def Let_def by (intro keep_rule keeps_publish [OF sp] rm unlink out)
  have "only_reads (ack_receipt env mounted n j h)" for mounted n
    unfolding ack_receipt_def by (auto intro!: reads_bind)
  then show ?thesis
    unfolding acknowledge_def
    by (intro keep_rule keeps_capture_lock [OF sp out(1,2)] receipts delete safe_reads)
qed

text \<open>
  Property C14.  The spool never holds more than two runs: whatever commands run on a spool of at most two,
  finished, failed and interrupted ones together, and wherever they fail or are killed, there are at most two
  afterwards.
\<close>

theorem spool_holds_two:
  assumes "capture_runs sha256 float_of as fs fs'" and "length (children fs SPOOL) \<le> 2"
  shows "length (children fs' SPOOL) \<le> 2"
proof -
  have "keeps spool_bounded (capture_action env a)" for env :: cap_env and a
    by (cases a; simp only: capture_action_def capture_command.case shown_def;
        intro keep_rule keeps_request [OF spool_speaks] keeps_serve_spool keeps_acknowledge_spool
          safe_reads [OF reads_status] safe_reads [OF reads_export] spool_elsewhere)
  from runs_keep [OF assms(1), of spool_bounded, OF _ this] assms(2)
  show ?thesis by (simp add: spool_bounded_def length_children)
qed

section \<open>An interrupted receipt\<close>

text \<open>An entry of the acknowledgements that is no receipt.\<close>

definition stray :: "string \<Rightarrow> files \<Rightarrow> bool" where
  "stray x fs \<longleftrightarrow> map_of fs (ACKROOT @ [x]) \<noteq> None
     \<and> \<not> (snd (split_suffix x) = ''.json'' \<and> capture_id_ok (fst (split_suffix x)))"

lemma stray_speaks: "speaks_of {ACKROOT @ [x]} (stray x)"
  by (simp add: speaks_of_def stray_def)

lemma stray_elsewhere:
  "STATE \<notin> {ACKROOT @ [x]}" "LOCK \<notin> {ACKROOT @ [x]}" "SPOOL \<notin> {ACKROOT @ [x]}" "ACKROOT \<notin> {ACKROOT @ [x]}"
  "REQUEST \<notin> {ACKROOT @ [x]}" "run_path j \<notin> {ACKROOT @ [x]}"
  "apart {ACKROOT @ [x]} REQUEST" "apart {ACKROOT @ [x]} LAST_RESULT" "apart {ACKROOT @ [x]} (run_file j n)"
  by (auto simp: apart_def temp_path_def place_defs)

lemma check_receipt_stray: "safe (stray x) (check_receipt env name) (\<lambda>_. name \<noteq> x)"
proof (cases "name = x")
  case True
  show ?thesis
    unfolding check_receipt_def split_def Let_def
    by (rule safe_bind [where R = "\<lambda>_. False"]) (auto simp: safe_def requireC_def require_def stray_def True)
next
  case False
  then have "ACKROOT @ [name] \<notin> {ACKROOT @ [x]}" by simp
  then have "keeps (stray x) (check_receipt env name)"
    unfolding check_receipt_def Let_def by (intro keep_rule keeps_changes(6) [OF stray_speaks])
  with False show ?thesis by (simp add: safe_def)
qed

lemma each_stray: "safe (stray x) (eachC (check_receipt env) names) (\<lambda>_. x \<notin> set names)"
proof (induction names)
  case (Cons name names)
  have "safe (stray x) (bindC (check_receipt env name) (\<lambda>_. eachC (check_receipt env) names)) (\<lambda>_. x \<notin> set (name # names))"
    by (rule safe_bind [OF check_receipt_stray], rule safe_weaken [OF Cons]) simp
  then show ?case by simp
qed (simp add: safe_def)

lemma acknowledge_stray: "safe (stray x) (acknowledge env io j h) (\<lambda>_. False)"
proof -
  have names: "safe (stray x) (iterdir env ACKROOT) (\<lambda>names. x \<in> set names)"
    unfolding iterdir_def by (rule safe_sys) (auto simp: set_children stray_def split: if_splits)
  have receipts: "safe (stray x) (acknowledged_receipts env) (\<lambda>_. False)"
    unfolding acknowledged_receipts_def
    by (rule safe_bind [OF keeps_make_private_dir [OF stray_speaks stray_elsewhere(4)]], rule safe_bind [OF names],
        rule safe_bind [OF each_stray]) simp
  show ?thesis
    unfolding acknowledge_def
    by (rule safe_bind [OF keeps_simple(2)], rule safe_bind [OF keeps_capture_lock [OF stray_speaks stray_elsewhere(1,2)]],
        rule safe_bind [OF keeps_simple(1)], rule safe_bind [OF keeps_simple(2)], rule safe_bind [OF receipts]) simp
qed

lemma keeps_action_stray: "keeps (stray x) (capture_action env a)"
proof -
  have serve: "keeps (stray x) (serve env io)" for io
    unfolding serve_def Let_def
    by (intro keep_rule safe_catch keeps_capture_lock [OF stray_speaks] keeps_accepted_request [OF stray_speaks]
        keeps_changes [OF stray_speaks] keeps_publish [OF stray_speaks] keeps_capture_packets [OF stray_speaks]
        keeps_capture_failed [OF stray_speaks] stray_elsewhere)
  have ack: "keeps (stray x) (acknowledge env io j h)" for io j h
    using acknowledge_stray unfolding safe_def by blast
  show ?thesis
    by (cases a; simp only: capture_action_def capture_command.case shown_def;
        intro keep_rule keeps_request [OF stray_speaks] serve ack
          safe_reads [OF reads_status] safe_reads [OF reads_export] stray_elsewhere)
qed

lemma publish_leaves_temp:
  assumes run: "publish env p r w = (res, w')" and no: "ev_fault env (w_step w) = None"
    and new: "map_of (w_files w) (temp_path p (ev_uuid env (w_step w))) = None"
      "in_directory (w_files w) (temp_path p (ev_uuid env (w_step w)))"
    and fault: "ev_fault env (Suc (w_step w)) \<noteq> None \<or> ev_fault env (Suc (Suc (w_step w))) \<noteq> None
      \<or> ev_fault env (Suc (Suc (Suc (w_step w)))) \<noteq> None"
  shows "map_of (w_files w') (temp_path p (ev_uuid env (w_step w))) \<noteq> None"
proof -
  define t where "t = temp_path p (ev_uuid env (w_step w))"
  define s where "s = json_enc json_compact (PDict r) @ [CHR 0x0A]"
  define fs where "fs c = set_data t c (put t (fresh env Regular) (w_files w))" for c
  have there: "map_of (fs c) t \<noteq> None" for c by (simp add: fs_def set_data_def put_def update_conv')
  have create: "create_new env t w = (Inr (), \<lparr>w_files = put t (fresh env Regular) (w_files w), w_step = Suc (w_step w)\<rparr>)"
    using no new by (simp add: create_new_def sys_def t_def)
  define tail where "tail = bindC (quiet env) (\<lambda>_. bindC (rename env t p) (\<lambda>_. bindC (quiet env) (\<lambda>_. quiet env)))"
  have run': "bindC (write_file env t s) (\<lambda>_. tail) \<lparr>w_files = put t (fresh env Regular) (w_files w), w_step = Suc (w_step w)\<rparr>
      = (res, w')"
    using run create by (simp add: publish_def Let_def bindC_def s_def tail_def flip: t_def)
  have "map_of (w_files w') t \<noteq> None"
  proof (cases "ev_fault env (Suc (w_step w))")
    case (Some e)
    with run' there show ?thesis by (auto simp: bindC_def write_file_def Let_def simp flip: fs_def)
  next
    case None
    then have q: "tail \<lparr>w_files = fs s, w_step = Suc (Suc (w_step w))\<rparr> = (res, w')"
      using run' by (simp add: bindC_def write_file_def Let_def flip: fs_def)
    show ?thesis
    proof (cases "ev_fault env (Suc (Suc (w_step w)))")
      case (Some e)
      with q there show ?thesis by (auto simp: tail_def bindC_def quiet_def sys_def)
    next
      case none: None
      with fault None obtain e where "ev_fault env (Suc (Suc (Suc (w_step w)))) = Some e" by auto
      with q there none show ?thesis by (auto simp: tail_def bindC_def quiet_def rename_def sys_def)
    qed
  qed
  then show ?thesis by (simp add: t_def)
qed

text \<open>
  Property C35.  An acknowledgement that fails or is killed while it writes its receipt blocks all
  acknowledgements for good: its temporary file stays behind, no command removes it, and every later
  acknowledgement, of whatever capture, is refused because of it.
\<close>

theorem interrupted_receipt_blocks:
  assumes "publish env (receipt_path i) r w = (res, w')" and "ev_fault env (w_step w) = None"
    and "map_of (w_files w) (temp_path (receipt_path i) (ev_uuid env (w_step w))) = None"
    and "in_directory (w_files w) (temp_path (receipt_path i) (ev_uuid env (w_step w)))"
    and "ev_fault env (Suc (w_step w)) \<noteq> None \<or> ev_fault env (Suc (Suc (w_step w))) \<noteq> None
      \<or> ev_fault env (Suc (Suc (Suc (w_step w)))) \<noteq> None"
    and "capture_runs sha256 float_of as (w_files w') fs"
  shows "\<exists>e w''. acknowledge env' io j h \<lparr>w_files = fs, w_step = n\<rparr> = (Inl e, w'')"
proof -
  define x where "x = last (temp_path (receipt_path i) (ev_uuid env (w_step w)))"
  have t: "temp_path (receipt_path i) (ev_uuid env (w_step w)) = ACKROOT @ [x]"
    by (simp add: x_def temp_path_def receipt_path_def)
  have "hd x = CHR ''.''" "x \<noteq> []" by (simp_all add: x_def temp_path_def)
  then have "hd (fst (split_suffix x)) = CHR ''.''" by (auto simp: split_suffix_def Let_def hd_take)
  then have "\<not> capture_id_ok (fst (split_suffix x))" using capture_id_digit by auto
  with publish_leaves_temp [OF assms(1-5)] t have "stray x (w_files w')" by (simp add: stray_def)
  from runs_keep [OF assms(6) this keeps_action_stray] have "stray x fs" .
  moreover obtain res w'' where ack: "acknowledge env' io j h \<lparr>w_files = fs, w_step = n\<rparr> = (res, w'')" by fastforce
  ultimately have "\<nexists>v. res = Inr v"
    using acknowledge_stray [of x env' io j h] unfolding safe_def by (metis world.select_convs(1))
  with ack show ?thesis by (cases res) auto
qed

section \<open>Export\<close>

lemma read_private_Inr:
  assumes "read_private env p w = (Inr v, w')"
  shows "\<exists>s. holds (w_files w) p s \<and> bindE (decode_utf8 s) (json_loads (ev_float env)) = Inr v"
proof -
  obtain n w1 s w2 where one: "lstat env p w = (Inr n, w1)" "read_bytes env p w1 = (Inr s, w2)"
      "bindE (decode_utf8 s) (json_loads (ev_float env)) = Inr v"
    using assms unfolding read_private_def by auto
  have "w_files w1 = w_files w" using one(1) by (metis reads_files reads_calls(1))
  with read_bytes_Inr [OF one(2)] one(3) show ?thesis by (auto simp: holds_def)
qed

lemma pcap_Inr:
  assumes "pcap env p w = (Inr s, w')"
  shows "\<exists>d. holds (w_files w) p d \<and> pcap_check (ev_sha env) (length d) d = Inr s"
proof -
  obtain n w1 d w2 s' h w3 where one: "lstat env p w = (Inr n, w1)" "read_bytes env p w1 = (Inr d, w2)"
      "pcap_check (ev_sha env) (length (nd_data n)) d = Inr s'" "digest env p w2 = (Inr h, w3)" "s = s'\<lparr>ps_sha := h\<rparr>"
    using assms unfolding pcap_def by auto
  obtain d' w4 where two: "read_bytes env p w2 = (Inr d', w4)" "h = ev_sha env d'" using one(4) unfolding digest_def by auto
  have fs: "w_files w1 = w_files w" "w_files w2 = w_files w" using one(1,2) by (metis reads_files reads_calls(1,6))+
  with lstat_Inr [OF one(1)] read_bytes_Inr [OF one(2)] read_bytes_Inr [OF two(1)]
  have d: "map_of (w_files w) p = Some n" "nd_data n = d" "d' = d" by auto
  moreover have "ps_sha s' = ev_sha env d" using one(3) by (auto simp: pcap_check_def Let_def split: if_splits option.splits)
  ultimately show ?thesis using one(3,5) two(2) by (intro exI [of _ d]) (simp add: holds_def)
qed

text \<open>What a run holds that is complete: a capture that is well formed, and the manifest that describes it.\<close>

definition described :: "(string \<Rightarrow> string) \<Rightarrow> (string \<Rightarrow> pyfloat) \<Rightarrow> string \<Rightarrow> string \<Rightarrow> string \<Rightarrow> files \<Rightarrow> bool" where
  "described sha256 float_of i d m fs \<longleftrightarrow> capture_id_ok i
     \<and> holds fs (run_file i ''capture.pcap'') d \<and> holds fs (run_file i ''manifest.json'') m
     \<and> (\<exists>v s. bindE (decode_utf8 m) (json_loads float_of) = Inr v \<and> dict_value v ''capture_id'' = PStr i
        \<and> pcap_check sha256 (length d) d = Inr s \<and> list_all (\<lambda>(k, x). py_eq (dict_value v k) x) (summary_dict s))"

lemma artifact_described:
  assumes "artifact env mounted i w = (Inr v, w')"
  shows "\<exists>d m. described (ev_sha env) (ev_float env) i d m (w_files w)"
proof -
  obtain w1 w2 w3 n w4 b w5 s w6 schema where run: "private_dir env SPOOL w = (Inr (), w1)" "private_dir env (run_path i) w1 = (Inr (), w2)"
      "read_private env (run_file i ''manifest.json'') w2 = (Inr v, w3)" "lstat env (run_file i ''capture.pcap'') w3 = (Inr n, w4)"
      "(if schema = PInt 1 \<and> py_eq (dict_value v ''capture_id'') (PStr i)
        then path_exists env (run_file i ''capture.pcap.part'') else returnC True) w4 = (Inr False, w5)"
      "pcap env (run_file i ''capture.pcap'') w5 = (Inr s, w6)" "capture_id_ok i"
      "list_all (\<lambda>(k, x). py_eq (dict_value v k) x) (summary_dict s)"
    using assms unfolding artifact_def by auto
  have id: "dict_value v ''capture_id'' = PStr i" using run(5) by (auto split: if_splits)
  have "w_files w1 = w_files w" by (rule reads_files [of "private_dir env SPOOL"]) (simp_all add: run(1))
  moreover have "w_files w2 = w_files w1" by (rule reads_files [of "private_dir env (run_path i)"]) (simp_all add: run(2))
  moreover have "w_files w3 = w_files w2"
    by (rule reads_files [of "read_private env (run_file i ''manifest.json'')"]) (simp_all add: run(3))
  moreover have "w_files w4 = w_files w3" using lstat_Inr [OF run(4)] by simp
  moreover have "w_files w5 = w_files w4" using run(5) reads_files [OF reads_calls(3)] by (simp split: if_splits)
  ultimately have fs: "w_files w2 = w_files w" "w_files w5 = w_files w" by simp_all
  obtain m where m: "holds (w_files w) (run_file i ''manifest.json'') m" "bindE (decode_utf8 m) (json_loads (ev_float env)) = Inr v"
    using read_private_Inr [OF run(3)] unfolding fs by blast
  obtain d where "holds (w_files w) (run_file i ''capture.pcap'') d" "pcap_check (ev_sha env) (length d) d = Inr s"
    using pcap_Inr [OF run(6)] unfolding fs by blast
  with m run(7,8) id show ?thesis unfolding described_def by blast
qed

text \<open>
  Property C19.  What the SSH reader gets is the manifest or the capture of one complete run of the spool, the
  one the command names: the capture is a well-formed PCAP file, and has the digest, the size and the counts
  that the manifest states.  Nothing on disk changes.
\<close>

theorem export_is_described:
  assumes "ssh_export env io w = (Inr out, w')"
  shows "w_files w' = w_files w \<and> (\<exists>kind i d m.
     export_request (case ex_command io of None \<Rightarrow> [] | Some c \<Rightarrow> c) = Inr (kind, i)
     \<and> described (ev_sha env) (ev_float env) i d m (w_files w) \<and> out = (if kind = ''manifest'' then m else d))"
proof -
  obtain kind i v w1 w2 w3 where run: "export_request (case ex_command io of None \<Rightarrow> [] | Some c \<Rightarrow> c) = Inr (kind, i)"
      "read_lock env (ex_flock io) w = (Inr (), w1)" "artifact env (ex_mounted io) i w1 = (Inr v, w2)"
      "read_bytes env (run_file i (if kind = ''manifest'' then ''manifest.json'' else ''capture.pcap'')) w2 = (Inr out, w3)"
      "quiet env w3 = (Inr (), w')"
    using assms unfolding ssh_export_def by auto
  have fs: "w_files w1 = w_files w" "w_files w2 = w_files w1" 
    using reads_files [OF reads_read_lock run(2)] reads_files [OF reads_artifact run(3)] by simp_all
  have fs': "w_files w' = w_files w" using reads_files [OF reads_export assms] .
  obtain d m where dm: "described (ev_sha env) (ev_float env) i d m (w_files w)"
    using artifact_described [OF run(3)] fs by auto
  have "out = (if kind = ''manifest'' then m else d)"
    using read_bytes_Inr [OF run(4)] dm fs by (auto simp: described_def holds_def split: if_splits)
  with run(1) dm fs' show ?thesis by blast
qed

section \<open>Examples\<close>

lemma json_text_read:
  assumes "no_floats v" "wf_val v"
  shows "bindE (decode_utf8 (json_enc json_compact v)) (json_loads float_of) = Inr v"
  using json_roundtrip [of json_compact float_of v] no_floats_json_ok [OF assms] utf8_json_enc [OF assms(1)]
  by (simp add: decode_utf8_def)

definition cap_example_id :: string where "cap_example_id = ''20240501T120000Z-0123456789abcdef''"

definition cap_example_sha :: "string \<Rightarrow> string" where "cap_example_sha s = replicate 64 (CHR ''a'')"

definition cap_example_packets :: "packet list" where
  "cap_example_packets = [\<lparr>pk_time = replicate 8 (CHR 0x01), pk_kept = ''ab'', pk_length = 5\<rparr>]"

definition cap_example_pcap :: string where
  "cap_example_pcap = pcap_bytes False [CHR 0xD4, CHR 0xC3, CHR 0xB2, CHR 0xA1] (replicate 8 (CHR 0x00)) 1 cap_example_packets"

definition cap_example_summary :: pcap_summary where
  "cap_example_summary = \<lparr>ps_size = 42, ps_packets = 1, ps_truncated = 1, ps_linktype = 1, ps_sha = replicate 64 (CHR ''a'')\<rparr>"

definition cap_example_manifest :: pyval where
  "cap_example_manifest = PDict (summary_dict cap_example_summary @ [(''schema'', PInt 1), (''capture_id'', PStr cap_example_id)])"

definition cap_example_node :: "file_kind \<Rightarrow> string \<Rightarrow> node" where
  "cap_example_node k s = \<lparr>nd_kind = k, nd_uid = 0, nd_mode = (if k = Directory then 448 else 384), nd_links = 1, nd_data = s\<rparr>"

definition cap_example_files :: files where
  "cap_example_files =
     [(STATE, cap_example_node Directory []), (LOCK, cap_example_node Regular []), (SPOOL, cap_example_node Directory []),
      (ACKROOT, cap_example_node Directory []), (run_path cap_example_id, cap_example_node Directory []),
      (run_file cap_example_id ''capture.pcap'', cap_example_node Regular cap_example_pcap),
      (run_file cap_example_id ''manifest.json'', cap_example_node Regular (json_enc json_compact cap_example_manifest))]"

definition cap_example_env :: "(nat \<Rightarrow> py_exc option) \<Rightarrow> cap_env" where
  "cap_example_env fault = \<lparr>ev_fault = fault, ev_torn = (\<lambda>n. n), ev_clock = (\<lambda>n. (''1714564800.0'', 1714564800)), ev_mtime = (\<lambda>n. 1714564800),
     ev_uuid = (\<lambda>n. ''0123456789abcdef0123456789abcdef''), ev_uid = 0, ev_sha = cap_example_sha, ev_float = (\<lambda>s. FNaN),
     ev_class = (\<lambda>e. ''OSError'')\<rparr>"

definition cap_example_export :: export_io where
  "cap_example_export = \<lparr>ex_command = Some (''manifest '' @ cap_example_id), ex_flock = Inr (), ex_mounted = Inr True\<rparr>"

lemma cap_example_pcap_valid: "pcap_check cap_example_sha (length cap_example_pcap) cap_example_pcap = Inr cap_example_summary"
proof -
  have l: "length cap_example_pcap = 42"
    by (simp add: cap_example_pcap_def cap_example_packets_def pcap_bytes_def packet_bytes_def)
  have "list_all packet_ok cap_example_packets" "length cap_example_packets \<le> MAX_PACKETS" "length cap_example_pcap \<le> CAPTURE_LIMIT"
      "pcap_endian [CHR 0xD4, CHR 0xC3, CHR 0xB2, CHR 0xA1] = Some False"
    unfolding l by (simp_all add: cap_example_packets_def packet_ok_def pcap_endian_def MAX_PACKETS_def SNAPLEN_def CAPTURE_LIMIT_def)
  then have "pcap_check cap_example_sha (length cap_example_pcap) cap_example_pcap = Inr \<lparr>ps_size = length cap_example_pcap,
      ps_packets = length cap_example_packets, ps_truncated = truncated_packets cap_example_packets, ps_linktype = 1,
      ps_sha = cap_example_sha cap_example_pcap\<rparr>"
    by (intro pcap_check_accepts [OF cap_example_pcap_def]) simp_all
  then show ?thesis
    unfolding l by (simp add: cap_example_summary_def cap_example_packets_def truncated_packets_def cap_example_sha_def)
qed

lemma cap_example_manifest_eq: "cap_example_manifest = PDict
   [(''size_bytes'', PInt 42), (''packet_count'', PInt 1), (''truncated_packet_count'', PInt 1), (''snaplen'', PInt 65535),
    (''linktype'', PInt 1), (''pcap_sha256'', PStr (replicate 64 (CHR ''a''))), (''schema'', PInt 1), (''capture_id'', PStr cap_example_id)]"
  by (simp add: cap_example_manifest_def cap_example_summary_def summary_dict_def SNAPLEN_def)

lemma cap_example_manifest_size: "length (json_enc json_compact cap_example_manifest) \<le> 400"
proof -
  have snaplen: "str_int 65535 = ''65535''" by (simp add: str_int_def str_nat.simps) code_simp
  show ?thesis
    by (simp only: cap_example_manifest_eq json_enc.simps list.map prod.case snaplen) code_simp
qed

lemma cap_example_manifest_read:
  "bindE (decode_utf8 (json_enc json_compact cap_example_manifest)) (json_loads (\<lambda>s. FNaN)) = Inr cap_example_manifest"
  by (rule json_text_read) (simp_all add: cap_example_manifest_def summary_dict_def)

lemma cap_example_id_ok: "capture_id_ok cap_example_id" by code_simp

lemma cap_example_command: "export_request (''manifest '' @ cap_example_id) = Inr (''manifest'', cap_example_id)" by code_simp
lemma cap_example_exported: "ssh_export (cap_example_env (\<lambda>n. None)) cap_example_export \<lparr>w_files = cap_example_files, w_step = 0\<rparr>
  = (Inr (json_enc json_compact cap_example_manifest), \<lparr>w_files = cap_example_files, w_step = 14\<rparr>)"
proof -
  define i where "i = cap_example_id"
  define d where "d = cap_example_pcap"
  define m where "m = json_enc json_compact cap_example_manifest"
  define v where "v = cap_example_manifest"
  have i: "i \<noteq> []" "capture_id_ok i" "export_request (''manifest '' @ i) = Inr (''manifest'', i)"
    using cap_example_id_ok cap_example_command unfolding i_def [symmetric] by (simp_all add: i_def cap_example_id_def)
  have m: "length m \<le> 16384" using cap_example_manifest_size by (simp add: m_def)
  have mv: "bindE (decode_utf8 m) (json_loads (\<lambda>s. FNaN)) = Inr v" using cap_example_manifest_read by (simp add: m_def v_def)
  have p: "pcap_check cap_example_sha (length d) d = Inr cap_example_summary" using cap_example_pcap_valid by (simp add: d_def)
  have v: "py_get v ''schema'' PNone = Inr (PInt 1)" "dict_value v ''capture_id'' = PStr i"
    "list_all (\<lambda>(k, x). py_eq (dict_value v k) x) (summary_dict cap_example_summary)"
    by (simp_all add: v_def i_def cap_example_manifest_def py_get_def dict_value_def summary_dict_def dget_or_def cap_example_summary_def py_eq.simps scalar_eq_def num_val_def)
  define F where "F = cap_example_files"
  define E where "E = cap_example_env (\<lambda>n. None)"
  define W where "W n = \<lparr>w_files = F, w_step = n\<rparr>" for n
  have E: "ev_fault E n = None" "ev_uid E = 0" "ev_sha E = cap_example_sha" "ev_float E = (\<lambda>s. FNaN)" for n
    by (simp_all add: E_def cap_example_env_def)
  have at: "map_of F STATE = Some (cap_example_node Directory [])" "map_of F LOCK = Some (cap_example_node Regular [])"
      "map_of F SPOOL = Some (cap_example_node Directory [])" "map_of F (run_path i) = Some (cap_example_node Directory [])"
      "map_of F (run_file i ''capture.pcap'') = Some (cap_example_node Regular d)"
      "map_of F (run_file i ''manifest.json'') = Some (cap_example_node Regular m)"
      "map_of F (run_file i ''capture.pcap.part'') = None"
    by (simp_all add: F_def cap_example_files_def i_def d_def m_def place_defs)
  have sys: "sys E f (W n) = (case f F of (r, fs) \<Rightarrow> (r, \<lparr>w_files = fs, w_step = Suc n\<rparr>))" for f :: "files \<Rightarrow> 'a res \<times> files" and n
    by (simp add: sys_def E W_def)
  have calls: "lstat E p (W n) = (look F p, W (Suc n))" "quiet E (W n) = (Inr (), W (Suc n))"
      "read_bytes E p (W n) = (bindE (look F p) (\<lambda>n. if nd_kind n = Regular then Inr (nd_data n) else Inl OSError), W (Suc n))"
      "path_exists E p (W n) = (Inr (kind_at F p \<noteq> None), W (Suc n))" for p n
    by (simp_all add: lstat_def quiet_def read_bytes_def path_exists_def sys_def E W_def)
  note eval = numeral_2_eq_2 numeral_3_eq_3 bindC_def liftC_def requireC_def require_def look_def cap_example_node_def group_bits_def at calls E
  have dirs: "private_dir E STATE (W n) = (Inr (), W (Suc n))" "private_dir E SPOOL (W n) = (Inr (), W (Suc n))"
      "private_dir E (run_path i) (W n) = (Inr (), W (Suc n))" for n
    by (simp_all add: private_dir_def eval)
  have files: "read_private E (run_file i ''manifest.json'') (W n) = (Inr v, W (n + 2))"
      "pcap E (run_file i ''capture.pcap'') (W n) = (Inr cap_example_summary, W (n + 3))" for n
    using m mv p by (simp_all add: read_private_def pcap_def digest_def eval cap_example_summary_def cap_example_sha_def)
  have lock: "read_lock E (Inr ()) (W n) = (Inr (), W (n + 3))" for n
    by (simp add: read_lock_def eval dirs)
  have art: "artifact E (Inr True) i (W n) = (Inr v, W (Suc (Suc (Suc (Suc (Suc (Suc (Suc (Suc (Suc n))))))))))" for n
    using v i(2) by (simp add: artifact_def eval dirs files kind_at_def)
  have "ssh_export E cap_example_export (W 0) = (Inr m, W (Suc (Suc (Suc (Suc (Suc (Suc (Suc (Suc (Suc (Suc (Suc (Suc (Suc (Suc 0)))))))))))))))"
    using i(3) by (simp add: ssh_export_def cap_example_export_def eval lock art flip: i_def)
  then show ?thesis by (simp add: W_def F_def E_def m_def)
qed

theorem export_is_described_witness:
  "\<exists>kind i d m. export_request (''manifest '' @ cap_example_id) = Inr (kind, i)
     \<and> described cap_example_sha (\<lambda>s. FNaN) i d m cap_example_files
     \<and> json_enc json_compact cap_example_manifest = (if kind = ''manifest'' then m else d)"
proof -
  have "ex_command cap_example_export = Some (''manifest '' @ cap_example_id)" "ev_sha (cap_example_env f) = cap_example_sha"
      "ev_float (cap_example_env f) = (\<lambda>s. FNaN)" for f
    by (simp_all add: cap_example_export_def cap_example_env_def)
  note E = this
  from export_is_described [OF cap_example_exported] show ?thesis
    by (simp only: E option.case world.select_convs)
qed

lemma cap_example_intact:
  "intact cap_example_sha (\<lambda>s. FNaN) cap_example_id cap_example_pcap (json_enc json_compact cap_example_manifest) cap_example_files"
proof -
  have "kind_at cap_example_files (run_path cap_example_id) = Some Directory"
      "holds cap_example_files (run_file cap_example_id ''capture.pcap'') cap_example_pcap"
      "holds cap_example_files (run_file cap_example_id ''manifest.json'') (json_enc json_compact cap_example_manifest)"
      "\<not> holds cap_example_files (receipt_path cap_example_id) s" for s
    by (simp_all add: kind_at_def followed_def holds_def cap_example_files_def cap_example_node_def place_defs)
  with cap_example_id_ok show ?thesis by (simp add: intact_def)
qed

text \<open>One command, killed at its seventh call.\<close>

abbreviation cap_example_killed :: cap_env where
  "cap_example_killed \<equiv> cap_example_env (\<lambda>n. if n = 7 then Some Diverges else None)"

lemma cap_example_run:
  "capture_runs cap_example_sha (\<lambda>s. FNaN) [a] fs (w_files (snd (capture_main cap_example_killed a \<lparr>w_files = fs, w_step = 0\<rparr>)))"
  using next_run [OF no_run, of cap_example_killed] by (simp add: cap_example_env_def)

definition cap_example_ack :: capture_command where
  "cap_example_ack = Acknowledge cap_example_id (replicate 64 (CHR ''b''))
     \<lparr>ak_flock = Inr (), ak_mounted = Inr True, ak_artifact_mounted = Inr True\<rparr>"

theorem finished_capture_survives_witness:
  "intact cap_example_sha (\<lambda>s. FNaN) cap_example_id cap_example_pcap (json_enc json_compact cap_example_manifest)
     (w_files (snd (capture_main cap_example_killed cap_example_ack \<lparr>w_files = cap_example_files, w_step = 0\<rparr>)))"
proof -
  have "replicate 64 (CHR ''b'') \<noteq> cap_example_sha cap_example_pcap" by (simp add: cap_example_sha_def numeral_eq_Suc)
  then show ?thesis by (intro finished_capture_survives [OF cap_example_run cap_example_intact]) (simp add: cap_example_ack_def)
qed

theorem spool_holds_two_witness:
  "length (children (w_files (snd (capture_main cap_example_killed cap_example_ack \<lparr>w_files = cap_example_files, w_step = 0\<rparr>))) SPOOL) \<le> 2"
  by (rule spool_holds_two [OF cap_example_run])
    (simp add: children_def cap_example_files_def place_defs)

theorem interrupted_receipt_blocks_witness:
  "\<exists>w' fs e w''. snd (publish (cap_example_env (\<lambda>n. if n = 2 then Some OSError else None)) (receipt_path cap_example_id) []
       \<lparr>w_files = cap_example_files, w_step = 0\<rparr>) = w'
     \<and> capture_runs cap_example_sha (\<lambda>s. FNaN) [cap_example_ack] (w_files w') fs
     \<and> acknowledge (cap_example_env (\<lambda>n. None)) \<lparr>ak_flock = Inr (), ak_mounted = Inr True, ak_artifact_mounted = Inr True\<rparr>
          cap_example_id (replicate 64 (CHR ''a'')) \<lparr>w_files = fs, w_step = 0\<rparr> = (Inl e, w'')"
proof -
  define env where "env = cap_example_env (\<lambda>n. if n = 2 then Some OSError else None)"
  define w where "w = \<lparr>w_files = cap_example_files, w_step = 0\<rparr>"
  obtain res w' where run: "publish env (receipt_path cap_example_id) [] w = (res, w')" by fastforce
  have fault: "ev_fault env (w_step w) = None" "ev_fault env (Suc (Suc (w_step w))) = Some OSError"
    by (simp_all add: env_def w_def cap_example_env_def numeral_2_eq_2)
  have new: "map_of (w_files w) (temp_path (receipt_path cap_example_id) (ev_uuid env (w_step w))) = None"
      "in_directory (w_files w) (temp_path (receipt_path cap_example_id) (ev_uuid env (w_step w)))"
    by (simp_all add: w_def cap_example_files_def temp_path_def place_defs in_directory_def kind_at_def followed_def cap_example_node_def)
  note blocked = interrupted_receipt_blocks [OF run fault(1) new _ cap_example_run [of cap_example_ack "w_files w'"]]
  show ?thesis
    using blocked fault(2) run cap_example_run [of cap_example_ack "w_files w'"] unfolding env_def w_def
    by (metis option.distinct(1) snd_conv)
qed

end
