(* ===== verification/Host_Tailscale.thy ===== *)
theory Host_Tailscale
  imports Artifact_Tree Capture_System
begin

text \<open>
  \<open>host-tailscale.py\<close> on a node: the guard of the dedicated mount, the private directories of the daemon's
  state, its enrolment; \<open>host-tailscale-boot.py\<close>, which runs the playbook at boot; and the filter
  \<open>host_tailscale_boot_vars_safe\<close>.  The state directories are on the file system of \<open>Capture_System\<close>; which
  device a path is on, the mount table and the other commands are arguments.
\<close>

section \<open>Generated variables\<close>

function host_tailscale_boot_vars_safe :: "pyval \<Rightarrow> bool" where
  "host_tailscale_boot_vars_safe (PDict d) = list_all (\<lambda>(k, v). k \<noteq> ''host_tailscale_auth_key'' \<and> host_tailscale_boot_vars_safe v) d"
| "host_tailscale_boot_vars_safe (PList xs) = list_all host_tailscale_boot_vars_safe xs"
| "host_tailscale_boot_vars_safe PNone = True"
| "host_tailscale_boot_vars_safe (PBool b) = True"
| "host_tailscale_boot_vars_safe (PInt i) = True"
| "host_tailscale_boot_vars_safe (PFloat f) = True"
| "host_tailscale_boot_vars_safe (PStr s) = True"
  by pat_completeness auto
termination
  by (relation "measure size")
    (auto simp: size_list_estimation' less_Suc_eq_le dest: size_pair_item size_pair_item')

section \<open>The guard\<close>

abbreviation Refused :: "string \<Rightarrow> py_exc" where "Refused m \<equiv> ScriptError ''Refused'' m"

definition HOST_MOUNT :: path where [py_defs]: "HOST_MOUNT = [''var'', ''lib'', ''rancher'', ''k3s'']"
definition HOST_STATE :: path where [py_defs]: "HOST_STATE = HOST_MOUNT @ [''.homecluster-host-state'', ''tailscale'']"

definition device_text :: "nat \<Rightarrow> string" where
  [py_defs]: "device_text rdev = str_nat (dev_major rdev) @ '':'' @ str_nat (dev_minor rdev)"

definition mount_rows :: "string \<Rightarrow> string list list" where
  [py_defs]: "mount_rows mountinfo =
     filter (\<lambda>r. 9 < length r \<and> r ! 4 = root_text HOST_MOUNT) (map split_ws (py_splitlines mountinfo))"

text \<open>\<open>r[r.index('-') + 1]\<close>.\<close>

definition after_dash :: "string list \<Rightarrow> string option" where
  [py_defs]: "after_dash r = (case dropWhile (\<lambda>x. x \<noteq> ''-'') r of d # fs # rest \<Rightarrow> Some fs | _ \<Rightarrow> None)"

text \<open>The device's \<open>st_mode\<close> and \<open>st_rdev\<close>.\<close>

definition check_mount :: "string \<Rightarrow> nat \<times> nat \<Rightarrow> unit res" where
  [py_defs]: "check_mount mountinfo device = (case device of (mode, rdev) \<Rightarrow>
     if file_type mode \<noteq> 6 then Inl (Refused ''expected_device_not_block'')
     else (case mount_rows mountinfo of
         [r] \<Rightarrow> (case after_dash r of
             None \<Rightarrow> Inl (Refused ''mount_record_invalid'')
           | Some fs \<Rightarrow>
               if r ! 2 \<noteq> device_text rdev \<or> r ! 3 \<noteq> ''/'' \<or> fs \<noteq> ''ext4'' \<or> ''rw'' \<notin> set (split_by (\<lambda>c. c = CHR '','') (r ! 5))
               then Inl (Refused ''dedicated_mount_mismatch'') else Inr ())
       | _ \<Rightarrow> Inl (Refused ''dedicated_mount_missing_or_ambiguous'')))"

record host_guard_io =
  hg_link :: "bool res"
  hg_resolved :: "path res"
  hg_mountinfo :: "string res"
  hg_device :: "string \<Rightarrow> (nat \<times> nat) res"

definition device_char :: "char \<Rightarrow> bool" where
  [py_defs]: "device_char c \<longleftrightarrow> ascii_alnum c \<or> c \<in> set ''_./:+-''"

definition device_path_ok :: "string \<Rightarrow> bool" where
  [py_defs]: "device_path_ok s \<longleftrightarrow> startswith s ''/dev/'' \<and> drop 5 s \<noteq> [] \<and> list_all device_char (drop 5 s)"

definition host_char :: "char \<Rightarrow> bool" where
  [py_defs]: "host_char c \<longleftrightarrow> ascii_lower c \<or> ascii_digit c"

definition host_name_ok :: "string \<Rightarrow> bool" where
  [py_defs]: "host_name_ok s \<longleftrightarrow> s \<noteq> [] \<and> length s \<le> 63 \<and> host_char (hd s) \<and> host_char (last s)
     \<and> list_all (\<lambda>c. host_char c \<or> c = CHR ''-'') s"

text \<open>\<open>re.fullmatch\<close> on a value from the configuration.\<close>

definition matches :: "(string \<Rightarrow> bool) \<Rightarrow> pyval \<Rightarrow> bool res" where
  [py_defs]: "matches ok v = (case v of PStr s \<Rightarrow> Inr (ok s) | _ \<Rightarrow> Inl TypeError)"

definition host_guard :: "host_guard_io \<Rightarrow> pydict \<Rightarrow> unit res" where
  [py_defs]: "host_guard io config =
     (let device = dget_or config ''device'' (PStr []) in
      bindE (matches device_path_ok device) (\<lambda>ok.
      if \<not> ok then Inl (Refused ''device_invalid'')
      else bindE (matches host_name_ok (dget_or config ''hostname'' (PStr []))) (\<lambda>ok.
      if \<not> ok then Inl (Refused ''hostname_invalid'')
      else bindE (hg_link io) (\<lambda>link. bindE (if link then Inr [] else hg_resolved io) (\<lambda>resolved.
      if link \<or> resolved \<noteq> HOST_MOUNT then Inl (Refused ''mount_path_symlink'')
      else bindE (hg_mountinfo io) (\<lambda>mountinfo. bindE (hg_device io (str_of device)) (check_mount mountinfo)))))))"

section \<open>The state directories\<close>

definition new_dir :: "cap_env \<Rightarrow> path \<Rightarrow> bool cap" where
  [py_defs]: "new_dir env p = sys env (\<lambda>fs.
     if map_of fs p \<noteq> None then (Inr False, fs)
     else if Capture_System.in_directory fs p then (Inr True, put p (fresh env Directory) fs)
     else (Inl FileNotFoundError, fs))"

definition set_mode :: "cap_env \<Rightarrow> path \<Rightarrow> nat \<Rightarrow> unit cap" where
  [py_defs]: "set_mode env p mode = sys env (\<lambda>fs. case map_of fs p of
       None \<Rightarrow> (Inl FileNotFoundError, fs) | Some n \<Rightarrow> (Inr (), put p (n\<lparr>nd_mode := mode\<rparr>) fs))"

text \<open>\<open>dev\<close>: the device of each path; \<open>stat\<close> of the root may fail.\<close>

definition private_one :: "cap_env \<Rightarrow> (path \<Rightarrow> int) \<Rightarrow> path \<Rightarrow> path \<Rightarrow> bool cap" where
  [py_defs]: "private_one env dev base p =
     bindC (new_dir env p) (\<lambda>created.
     bindC (lstat env p) (\<lambda>i.
     bindC (if nd_kind i \<noteq> Directory \<or> nd_uid i \<noteq> 0 then returnC True
            else bindC (quiet env) (\<lambda>_. returnC (dev p \<noteq> dev base))) (\<lambda>unsafe.
     bindC (liftC (require (\<not> unsafe) (Refused ''state_directory_unsafe''))) (\<lambda>_.
     if nd_mode i \<noteq> 448 then bindC (set_mode env p 448) (\<lambda>_. returnC True) else returnC created))))"

fun private_each :: "cap_env \<Rightarrow> (path \<Rightarrow> int) \<Rightarrow> path \<Rightarrow> path list \<Rightarrow> bool cap" where
  "private_each env dev base [] = returnC False"
| "private_each env dev base (p # ps) = bindC (private_one env dev base p) (\<lambda>a.
     bindC (private_each env dev base ps) (\<lambda>b. returnC (a \<or> b)))"

definition state_file :: "path \<Rightarrow> path" where [py_defs]: "state_file p = p @ [''tailscaled.state'']"

definition private_file :: "cap_env \<Rightarrow> path \<Rightarrow> bool cap" where
  [py_defs]: "private_file env p =
     bindC (path_exists env p) (\<lambda>there. bindC (if there then returnC True else is_symlink env p) (\<lambda>present.
     if \<not> present then returnC False
     else bindC (lstat env p) (\<lambda>i.
       bindC (liftC (require (nd_kind i = Regular \<and> nd_uid i = 0 \<and> nd_links i = 1) (Refused ''state_file_unsafe''))) (\<lambda>_.
       if nd_mode i \<noteq> 384 then bindC (set_mode env p 384) (\<lambda>_. returnC True) else returnC False))))"

definition private_dirs :: "cap_env \<Rightarrow> (path \<Rightarrow> int) \<Rightarrow> path \<Rightarrow> path list \<Rightarrow> bool cap" where
  [py_defs]: "private_dirs env dev base ps = bindC (private_each env dev base ps) (\<lambda>a.
     bindC (private_file env (state_file (last ps))) (\<lambda>b. returnC (a \<or> b)))"

section \<open>Enrolment\<close>

type_synonym tailscale_run = "(int \<times> string) res"

definition backend_state :: "(string \<Rightarrow> pyfloat) \<Rightarrow> tailscale_run \<Rightarrow> string res" where
  [py_defs]: "backend_state float_of r = bindE r (\<lambda>(code, out).
     if code \<noteq> 0 \<and> code \<noteq> 1 then Inl (Refused ''daemon_status_failed'')
     else (case bindE (json_loads float_of out) (\<lambda>v. py_item v ''BackendState'') of
         Inl e \<Rightarrow> if value_error e \<or> e = KeyError \<or> e = TypeError then Inl (Refused ''daemon_state_unknown'') else Inl e
       | Inr state \<Rightarrow>
           if state \<notin> {PStr ''Running'', PStr ''NeedsLogin'', PStr ''NoState''} then Inl (Refused ''daemon_state_not_enrollable'')
           else if state = PStr ''Running'' \<and> code \<noteq> 0 then Inl (Refused ''daemon_status_failed'')
           else Inr (str_of state)))"

record key_stat =
  ks_type :: nat
  ks_uid :: int
  ks_mode :: nat
  ks_links :: int
  ks_size :: int

definition key_file_ok :: "path \<Rightarrow> key_stat \<Rightarrow> bool" where
  [py_defs]: "key_file_ok p s \<longleftrightarrow> butlast p = [''run''] \<and> startswith (last p) ''host-tailscale-auth-''
     \<and> ks_type s = 8 \<and> ks_uid s = 0 \<and> ks_mode s = 384 \<and> ks_links s = 1 \<and> ks_size s \<noteq> 0"

definition up_command :: "path \<Rightarrow> string \<Rightarrow> string list" where
  [py_defs]: "up_command key hostname =
     [''/usr/bin/tailscale'', ''up'', ''--auth-key=file:'' @ root_text key,
      ''--accept-dns=false'', ''--accept-routes=false'', ''--ssh=false'',
      ''--advertise-routes='', ''--advertise-exit-node=false'', ''--exit-node='',
      ''--hostname='' @ hostname, ''--timeout=60s'']"

record enroll_io =
  en_guard :: host_guard_io
  en_status :: tailscale_run
  en_key :: "key_stat res"
  en_up :: "int res"
  en_after :: tailscale_run

text \<open>The outcome, and the command that was started.\<close>

definition enroll :: "(string \<Rightarrow> pyfloat) \<Rightarrow> enroll_io \<Rightarrow> pydict \<Rightarrow> path \<Rightarrow> bool res \<times> string list option" where
  [py_defs]: "enroll float_of io config key =
     (case bindE (host_guard (en_guard io) config) (\<lambda>_. backend_state float_of (en_status io)) of
        Inl e \<Rightarrow> (Inl e, None)
      | Inr state \<Rightarrow>
          if state = ''Running'' then (Inr False, None)
          else (case en_key io of
              Inl e \<Rightarrow> (Inl e, None)
            | Inr s \<Rightarrow>
                if \<not> key_file_ok key s then (Inl (Refused ''auth_file_unsafe''), None)
                else (bindE (en_up io) (\<lambda>code.
                    if code \<noteq> 0 then Inl (Refused ''enrollment_failed'')
                    else bindE (backend_state float_of (en_after io)) (\<lambda>after.
                      if after \<noteq> ''Running'' then Inl (Refused ''enrollment_failed'') else Inr True)),
                  Some (up_command key (str_of (dget config ''hostname''))))))"

section \<open>The command\<close>

datatype host_request =
    Prepare "nat res" host_guard_io
  | ShowBackend tailscale_run
  | Enroll "path option" enroll_io

definition host_config :: "(string \<Rightarrow> pyfloat) \<Rightarrow> string res \<Rightarrow> pydict res" where
  [py_defs]: "host_config float_of source = bindE source (\<lambda>text. bindE (json_loads float_of text) (\<lambda>v.
     case v of PDict d \<Rightarrow> Inr d | _ \<Rightarrow> Inl (Refused ''host_config_invalid'')))"

text \<open>What is printed.  \<open>Prepare\<close> has the mode of \<open>/dev/net/tun\<close> and the answers of its second guard.\<close>

definition host_action :: "(string \<Rightarrow> pyfloat) \<Rightarrow> cap_env \<Rightarrow> (path \<Rightarrow> int) \<Rightarrow> string res \<Rightarrow> host_guard_io \<Rightarrow> host_request \<Rightarrow> pyval cap" where
  [py_defs]: "host_action float_of env dev source guard a =
     bindC (liftC (host_config float_of source)) (\<lambda>config.
     bindC (liftC (host_guard guard config)) (\<lambda>_.
     case a of
       Prepare tun again \<Rightarrow>
         bindC (liftC tun) (\<lambda>mode.
         bindC (liftC (require (file_type mode = 2) (Refused ''tun_unavailable''))) (\<lambda>_.
         bindC (private_dirs env dev HOST_MOUNT [butlast HOST_STATE, HOST_STATE]) (\<lambda>changed.
         bindC (liftC (host_guard again config)) (\<lambda>_. returnC (PDict [(''changed'', PBool changed)])))))
     | ShowBackend r \<Rightarrow> liftC (bindE (backend_state float_of r) (\<lambda>s. Inr (PDict [(''backend_state'', PStr s)])))
     | Enroll key io \<Rightarrow>
         (case key of
            None \<Rightarrow> raiseC (Refused ''auth_file_required'')
          | Some k \<Rightarrow> liftC (bindE (fst (enroll float_of io config k)) (\<lambda>changed. Inr (PDict [(''changed'', PBool changed)]))))))"

definition host_error :: "py_exc \<Rightarrow> string option" where
  [py_defs]: "host_error e = (case e of
       ScriptError c m \<Rightarrow> if c = ''Refused'' then Some m else None
     | _ \<Rightarrow> if os_error e \<or> value_error e \<or> e = TypeError \<or> e = RuntimeError ''TimeoutExpired''
           then Some ''host_tailscale_precondition_failed'' else None)"

definition host_main ::
    "(string \<Rightarrow> pyfloat) \<Rightarrow> cap_env \<Rightarrow> (path \<Rightarrow> int) \<Rightarrow> string res \<Rightarrow> host_guard_io \<Rightarrow> host_request \<Rightarrow> (pyval \<times> int) cap" where
  [py_defs]: "host_main float_of env dev source guard a =
     catchC (bindC (host_action float_of env dev source guard a) (\<lambda>v. returnC (v, 0)))
       (\<lambda>e. case host_error e of None \<Rightarrow> raiseC e | Some m \<Rightarrow> returnC (PDict [(''error'', PStr m)], 1))"

section \<open>At boot\<close>

record host_boot_io =
  bo_config :: bool
  bo_playbook :: bool
  bo_run :: "int option"

definition overlay_ok :: "string \<Rightarrow> bool" where
  [py_defs]: "overlay_ok s \<longleftrightarrow> s \<noteq> [] \<and> list_all (\<lambda>c. ascii_alnum c \<or> c = CHR ''_'' \<or> c = CHR ''-'') s"

definition BOOT_SOURCE :: string where [py_defs]: "BOOT_SOURCE = ''/var/lib/ansible-pull/ansible/arm64''"

definition boot_command :: "string \<Rightarrow> string \<Rightarrow> string list" where
  [py_defs]: "boot_command stage overlay =
     [''/usr/bin/ansible-playbook'', ''-i'', ''localhost,'', ''-c'', ''local'', ''--limit'', ''localhost'',
      ''-e'', ''@/etc/ansible-pull/client_vars/'' @ overlay @ ''/host_tailscale.yml'', ''-e'', ''stage='' @ stage,
      BOOT_SOURCE @ ''/playbooks/host-tailscale.yml'']"

text \<open>What is printed, the exit code, and the command that was started; \<open>bo_run\<close> is \<open>None\<close> for a timeout.\<close>

definition host_boot :: "string \<Rightarrow> string \<Rightarrow> host_boot_io \<Rightarrow> string \<times> int \<times> string list option" where
  [py_defs]: "host_boot stage overlay io =
     (if (stage \<noteq> ''stg'' \<and> stage \<noteq> ''prod'') \<or> \<not> overlay_ok overlay then (''host_tailscale_boot_identity_invalid'', 1, None)
      else if \<not> bo_config io then (''host_tailscale_not_opted_in'', 0, None)
      else if \<not> bo_playbook io then (''host_tailscale_source_unavailable'', 1, None)
      else (case bo_run io of
          None \<Rightarrow> (''host_tailscale_setup_timeout'', 1, Some (boot_command stage overlay))
        | Some code \<Rightarrow> ([], code, Some (boot_command stage overlay))))"

end
