(* ===== verification/Host_Props.thy ===== *)
theory Host_Props
  imports Host_Tailscale Canonical_Json
begin

text \<open>
  Properties of \<open>host-tailscale.py\<close> and its filter: no generated variable holds the enrolment key at any depth;
  preparing leaves private directories of root on the dedicated mount and touches nothing else; enrolment
  is attempted only behind the guard and with a private key file.
\<close>

section \<open>Generated variables\<close>

text \<open>The values that occur in a value, at any depth.\<close>

inductive occurs :: "pyval \<Rightarrow> pyval \<Rightarrow> bool" where
  occurs_here: "occurs v v"
| occurs_list: "x \<in> set xs \<Longrightarrow> occurs x w \<Longrightarrow> occurs (PList xs) w"
| occurs_dict: "(k, x) \<in> set d \<Longrightarrow> occurs x w \<Longrightarrow> occurs (PDict d) w"

inductive_simps occurs_simps:
  "occurs PNone w" "occurs (PBool b) w" "occurs (PInt i) w" "occurs (PFloat f) w" "occurs (PStr s) w" "occurs (PList xs) w"
  "occurs (PDict d) w"

text \<open>
  The filter on generated variables refuses exactly the values in which some mapping, at any depth of
  mappings and lists, has the key of the enrolment secret.
\<close>

lemma boot_vars_hold_no_key:
  "host_tailscale_boot_vars_safe v = (\<not> (\<exists>d. occurs v (PDict d) \<and> ''host_tailscale_auth_key'' \<in> fst ` set d))"
proof (induction v rule: host_tailscale_boot_vars_safe.induct)
  case (1 d)
  define key :: string where "key = ''host_tailscale_auth_key''"
  have "host_tailscale_boot_vars_safe (PDict d) \<longleftrightarrow> (\<forall>(k, v) \<in> set d. k \<noteq> key \<and> \<not> (\<exists>e. occurs v (PDict e) \<and> key \<in> fst ` set e))"
  proof -
    have "host_tailscale_boot_vars_safe v \<longleftrightarrow> \<not> (\<exists>e. occurs v (PDict e) \<and> key \<in> fst ` set e)" if "(k, v) \<in> set d" for k v
      unfolding key_def using 1 [OF that refl] .
    then show ?thesis by (simp only: host_tailscale_boot_vars_safe.simps list_all_iff key_def [symmetric]) blast
  qed
  also have "\<dots> \<longleftrightarrow> \<not> (\<exists>e. occurs (PDict d) (PDict e) \<and> key \<in> fst ` set e)"
  proof (intro iffI notI)
    assume fresh: "\<forall>(k, v) \<in> set d. k \<noteq> key \<and> \<not> (\<exists>e. occurs v (PDict e) \<and> key \<in> fst ` set e)"
      and "\<exists>e. occurs (PDict d) (PDict e) \<and> key \<in> fst ` set e"
    then obtain e where e: "occurs (PDict d) (PDict e)" "key \<in> fst ` set e" by blast
    from e(1) show False
    proof (cases rule: occurs.cases)
      case occurs_here
      with e(2) fresh show False by auto
    next
      case (occurs_dict k x)
      with e(2) fresh show False by blast
    qed
  next
    assume none: "\<not> (\<exists>e. occurs (PDict d) (PDict e) \<and> key \<in> fst ` set e)"
    have "k \<noteq> key \<and> \<not> (\<exists>e. occurs v (PDict e) \<and> key \<in> fst ` set e)" if "(k, v) \<in> set d" for k v
      using none that occurs_here [of "PDict d"] occurs_dict [OF that] by force
    then show "\<forall>(k, v) \<in> set d. k \<noteq> key \<and> \<not> (\<exists>e. occurs v (PDict e) \<and> key \<in> fst ` set e)" by blast
  qed
  finally show ?case by (simp only: key_def)
next
  case (2 xs)
  then show ?case by (auto simp: occurs_simps list_all_iff)
qed (simp_all add: occurs_simps)

section \<open>The state directories\<close>

text \<open>The three paths that preparing may change.\<close>

definition host_paths :: "path set" where
  "host_paths = {butlast HOST_STATE, HOST_STATE, state_file HOST_STATE}"

definition private_at :: "files \<Rightarrow> path \<Rightarrow> file_kind \<Rightarrow> nat \<Rightarrow> bool" where
  "private_at fs p kind mode \<longleftrightarrow> (\<exists>n. map_of fs p = Some n \<and> nd_kind n = kind \<and> nd_uid n = 0 \<and> nd_mode n = mode)"

lemma set_mode_private:
  assumes "set_mode env p mode w = (Inr u, w')" and "map_of (w_files w) p = Some n" "nd_uid n = 0"
  shows "private_at (w_files w') p (nd_kind n) mode \<and> unchanged_but {p} (w_files w) (w_files w')"
  using assms
  by (auto simp: set_mode_def sys_def private_at_def unchanged_but_def split: option.splits)

lemma new_dir_unchanged: "new_dir env p w = (r, w') \<Longrightarrow> unchanged_but {p} (w_files w) (w_files w')"
  by (auto simp: new_dir_def sys_def unchanged_but_def split: option.splits if_splits)

lemma private_one_Inr:
  assumes "private_one env dev base p w = (Inr b, w')"
  shows "private_at (w_files w') p Directory 448 \<and> dev p = dev base \<and> unchanged_but {p} (w_files w) (w_files w')"
proof -
  obtain created w1 i w2 unsafe w3 where run: "new_dir env p w = (Inr created, w1)" "lstat env p w1 = (Inr i, w2)"
      "(if nd_kind i \<noteq> Directory \<or> nd_uid i \<noteq> 0 then returnC True
        else bindC (quiet env) (\<lambda>_. returnC (dev p \<noteq> dev base))) w2 = (Inr unsafe, w3)" "\<not> unsafe"
      "(if nd_mode i \<noteq> 448 then bindC (set_mode env p 448) (\<lambda>_. returnC True) else returnC created) w3 = (Inr b, w')"
    using assms unfolding private_one_def by auto
  note new = new_dir_unchanged [OF run(1)] and stat = lstat_Inr [OF run(2)]
  have safe: "nd_kind i = Directory" "nd_uid i = 0" "dev p = dev base" "w_files w3 = w_files w2"
    using run(3,4) reads_files [OF reads_calls(7)] by (auto split: if_splits)
  have p: "map_of (w_files w3) p = Some i" "unchanged_but {p} (w_files w) (w_files w3)" using stat safe(4) new by simp_all
  show ?thesis
  proof (cases "nd_mode i = 448")
    case True
    with run(5) p safe show ?thesis by (auto simp: private_at_def)
  next
    case False
    with run(5) obtain u where "set_mode env p 448 w3 = (Inr u, w')" by auto
    from set_mode_private [OF this p(1) safe(2)] safe p(2) show ?thesis by (auto intro: unchanged_trans)
  qed
qed

lemma private_file_Inr:
  assumes "private_file env p w = (Inr b, w')"
  shows "(\<forall>n. map_of (w_files w') p = Some n \<longrightarrow> nd_kind n = Regular \<and> nd_uid n = 0 \<and> nd_mode n = 384 \<and> nd_links n = 1)
    \<and> unchanged_but {p} (w_files w) (w_files w')"
proof -
  obtain there w1 present w2 where run: "path_exists env p w = (Inr there, w1)"
      "(if there then returnC True else is_symlink env p) w1 = (Inr present, w2)"
      "(if \<not> present then returnC False
       else bindC (lstat env p) (\<lambda>i.
         bindC (liftC (require (nd_kind i = Regular \<and> nd_uid i = 0 \<and> nd_links i = 1) (Refused ''state_file_unsafe''))) (\<lambda>_.
         if nd_mode i \<noteq> 384 then bindC (set_mode env p 384) (\<lambda>_. returnC True) else returnC False))) w2 = (Inr b, w')"
    using assms unfolding private_file_def by auto
  have "w_files w1 = w_files w" using reads_files [OF reads_calls(3) run(1)] .
  moreover have "w_files w2 = w_files w1" using run(2) reads_files [OF reads_calls(2)] by (auto split: if_splits)
  ultimately have fs: "w_files w2 = w_files w" by simp
  show ?thesis
  proof (cases present)
    case False
    have "kind_at (w_files w) p = None" "\<not> (\<exists>n k. map_of (w_files w) p = Some n \<and> nd_kind n = Symlink k)"
      using run(1,2) False \<open>w_files w1 = w_files w\<close>
      by (auto simp: path_exists_def is_symlink_def sys_def split: option.splits if_splits file_kind.splits)
    then have "map_of (w_files w) p = None"
      by (auto simp: kind_at_def followed_def split: option.splits file_kind.splits)
    with run(3) False fs show ?thesis by (auto simp: unchanged_but_def)
  next
    case True
    then obtain i w3 where i: "lstat env p w2 = (Inr i, w3)" "nd_kind i = Regular" "nd_uid i = 0" "nd_links i = 1"
        "(if nd_mode i \<noteq> 384 then bindC (set_mode env p 384) (\<lambda>_. returnC True) else returnC False) w3 = (Inr b, w')"
      using run(3) by auto
    from lstat_Inr [OF i(1)] have p: "map_of (w_files w3) p = Some i" "w_files w3 = w_files w" using fs by simp_all
    show ?thesis
    proof (cases "nd_mode i = 384")
      case True
      with i p show ?thesis by (auto simp: unchanged_but_def)
    next
      case False
      with i(5) have "set_mode env p 384 w3 = (Inr (), w')" by auto
      with i p show ?thesis by (auto simp: set_mode_def sys_def unchanged_but_def split: option.splits)
    qed
  qed
qed

lemma keeps_host_paths:
  assumes "set ps \<subseteq> P" and "state_file (last ps) \<in> P"
  shows "keeps (unchanged_but P fs) (private_dirs env dev base ps)"
proof -
  have put: "unchanged_but P fs (put p n fs')" if "unchanged_but P fs fs'" "p \<in> P" for fs' p n
    using that by (auto simp: unchanged_but_def)
  have mode: "keeps (unchanged_but P fs) (set_mode env p mode)" if "p \<in> P" for p mode
    unfolding set_mode_def by (rule safe_sys) (auto intro: put [OF _ that] split: option.splits)
  have new: "keeps (unchanged_but P fs) (new_dir env p)" if "p \<in> P" for p
    unfolding new_dir_def by (rule safe_sys) (auto intro: put [OF _ that] split: if_splits)
  have one: "keeps (unchanged_but P fs) (private_one env dev base p)" if "p \<in> P" for p
    unfolding private_one_def by (intro keep_rule mode new that)
  have each: "set ps \<subseteq> P \<Longrightarrow> keeps (unchanged_but P fs) (private_each env dev base ps)" for ps
    by (induction ps) (auto intro!: keep_rule one)
  have state: "keeps (unchanged_but P fs) (private_file env p)" if "p \<in> P" for p
    unfolding private_file_def by (intro keep_rule mode that)
  show ?thesis unfolding private_dirs_def by (intro keep_rule each [OF assms(1)] state [OF assms(2)])
qed

lemma keeps_host_main: "keeps (unchanged_but host_paths fs) (host_main float_of env dev source guard a)"
proof -
  have dirs: "keeps (unchanged_but host_paths fs) (private_dirs env dev HOST_MOUNT [butlast HOST_STATE, HOST_STATE])"
    by (rule keeps_host_paths) (auto simp: host_paths_def)
  have "keeps (unchanged_but host_paths fs) (host_action float_of env dev source guard a)"
    unfolding host_action_def
    by (cases a; simp only: host_request.case; intro keep_rule dirs)
  then show ?thesis unfolding host_main_def by (intro safe_catch keep_rule)
qed

lemma host_places: "butlast HOST_STATE \<noteq> HOST_STATE" "state_file HOST_STATE \<noteq> HOST_STATE" "state_file HOST_STATE \<noteq> butlast HOST_STATE"
  by (simp_all add: HOST_STATE_def HOST_MOUNT_def state_file_def)

lemma private_dirs_Inr:
  assumes "private_dirs env dev HOST_MOUNT [butlast HOST_STATE, HOST_STATE] w = (Inr b, w')"
  shows "(\<forall>p \<in> {butlast HOST_STATE, HOST_STATE}. private_at (w_files w') p Directory 448 \<and> dev p = dev HOST_MOUNT)
    \<and> (\<forall>n. map_of (w_files w') (state_file HOST_STATE) = Some n \<longrightarrow>
         nd_kind n = Regular \<and> nd_uid n = 0 \<and> nd_mode n = 384 \<and> nd_links n = 1)"
proof -
  obtain b1 w1 b2 w2 b3 where run: "private_one env dev HOST_MOUNT (butlast HOST_STATE) w = (Inr b1, w1)"
      "private_one env dev HOST_MOUNT HOST_STATE w1 = (Inr b2, w2)" "private_file env (state_file HOST_STATE) w2 = (Inr b3, w')"
    using assms by (simp only: private_dirs_def private_each.simps bindC_Inr liftC_eq last.simps list.simps if_False if_True simp_thms) blast
  from private_one_Inr [OF run(1)] private_one_Inr [OF run(2)] private_file_Inr [OF run(3)] host_places
  show ?thesis by (auto simp: private_at_def unchanged_but_def)
qed

section \<open>What the guard guarantees\<close>

text \<open>The mount table has one row for the mount point: that device, its root, \<open>ext4\<close> and writable.\<close>

definition dedicated_mount :: "string \<Rightarrow> nat \<Rightarrow> bool" where
  "dedicated_mount mountinfo rdev \<longleftrightarrow> (\<exists>r. mount_rows mountinfo = [r] \<and> r ! 2 = device_text rdev \<and> r ! 3 = ''/''
     \<and> after_dash r = Some ''ext4'' \<and> ''rw'' \<in> set (split_by (\<lambda>c. c = CHR '','') (r ! 5)))"

lemma check_mount_Inr: "check_mount mountinfo (mode, rdev) = Inr u \<longleftrightarrow> file_type mode = 6 \<and> dedicated_mount mountinfo rdev"
  by (auto simp: check_mount_def dedicated_mount_def split: list.splits option.splits if_splits)

definition guarded :: "host_guard_io \<Rightarrow> pydict \<Rightarrow> bool" where
  "guarded io config \<longleftrightarrow> hg_link io = Inr False \<and> hg_resolved io = Inr HOST_MOUNT
     \<and> (\<exists>device name mountinfo mode rdev. dget config ''device'' = PStr device \<and> device_path_ok device
        \<and> dget config ''hostname'' = PStr name \<and> host_name_ok name
        \<and> hg_mountinfo io = Inr mountinfo \<and> hg_device io device = Inr (mode, rdev) \<and> file_type mode = 6 \<and> dedicated_mount mountinfo rdev)"

lemma matches_Inr: "matches ok v = Inr True \<longleftrightarrow> (\<exists>s. v = PStr s \<and> ok s)"
  by (cases v) (auto simp: matches_def)

lemma host_guard_Inr:
  assumes "host_guard io config = Inr u"
  shows "guarded io config"
proof -
  have empty: "\<not> device_path_ok []" "\<not> host_name_ok []" by (simp_all add: device_path_ok_def startswith_def host_name_ok_def)
  obtain resolved mountinfo dev where run: "matches device_path_ok (dget_or config ''device'' (PStr [])) = Inr True"
      "matches host_name_ok (dget_or config ''hostname'' (PStr [])) = Inr True" "hg_link io = Inr False" "hg_resolved io = Inr HOST_MOUNT"
      "hg_mountinfo io = Inr mountinfo" "hg_device io (str_of (dget_or config ''device'' (PStr []))) = Inr dev" "check_mount mountinfo dev = Inr ()"
    using assms by (auto simp: host_guard_def Let_def split: if_splits)
  obtain mode rdev where dev: "dev = (mode, rdev)" by (cases dev)
  have get: "dget config k = PStr s" if "dget_or config k (PStr []) = PStr s" "s \<noteq> []" for k s
    using that by (auto simp: dget_or_def split: option.splits)
  from run(1,2) obtain device name where "dget_or config ''device'' (PStr []) = PStr device" "device_path_ok device"
      "dget_or config ''hostname'' (PStr []) = PStr name" "host_name_ok name" by (auto simp: matches_Inr)
  with run(3-7) dev empty get show ?thesis unfolding guarded_def by (auto simp: check_mount_Inr str_of_def)
qed

text \<open>
  Property C13.  Preparing is private and confined: whatever fails, at most the two state directories and the state
  file change; and when it succeeds the guard held before and after, both directories are
  directories of root with mode 0700 on the device of the mount, and the state file, if there is one, is a regular file of root
  with mode 0600 and one link.
\<close>

theorem prepared_state_is_private:
  assumes "host_main float_of env dev source guard (Prepare tun again) w = (r, w')"
  shows "unchanged_but host_paths (w_files w) (w_files w') \<and> (\<forall>v. r = Inr (v, 0) \<longrightarrow>
     (\<exists>config. host_config float_of source = Inr config \<and> guarded guard config \<and> guarded again config)
     \<and> (\<forall>p \<in> {butlast HOST_STATE, HOST_STATE}. private_at (w_files w') p Directory 448 \<and> dev p = dev HOST_MOUNT)
     \<and> (\<forall>n. map_of (w_files w') (state_file HOST_STATE) = Some n \<longrightarrow>
          nd_kind n = Regular \<and> nd_uid n = 0 \<and> nd_mode n = 384 \<and> nd_links n = 1))"
proof -
  have "unchanged_but host_paths (w_files w) (w_files w)" by (simp add: unchanged_but_def)
  then have unchanged: "unchanged_but host_paths (w_files w) (w_files w')"
    using keeps_host_main [of "w_files w" float_of env dev source guard "Prepare tun again"] assms unfolding safe_def by blast
  have shut: "(\<exists>config. host_config float_of source = Inr config \<and> guarded guard config \<and> guarded again config)
     \<and> (\<forall>p \<in> {butlast HOST_STATE, HOST_STATE}. private_at (w_files w') p Directory 448 \<and> dev p = dev HOST_MOUNT)
     \<and> (\<forall>n. map_of (w_files w') (state_file HOST_STATE) = Some n \<longrightarrow>
          nd_kind n = Regular \<and> nd_uid n = 0 \<and> nd_mode n = 384 \<and> nd_links n = 1)" if ok: "r = Inr (v, 0)" for v
  proof -
    obtain x where "host_action float_of env dev source guard (Prepare tun again) w = (Inr x, w')"
      using assms ok unfolding host_main_def catchC_def
      by (auto simp: bindC_def split: prod.splits sum.splits if_splits option.splits)
    then obtain config b w1 where one: "host_config float_of source = Inr config" "host_guard guard config = Inr ()"
        "private_dirs env dev HOST_MOUNT [butlast HOST_STATE, HOST_STATE] w = (Inr b, w')" "host_guard again config = Inr ()"
      unfolding host_action_def by auto
    from private_dirs_Inr [OF one(3)] host_guard_Inr [OF one(2)] host_guard_Inr [OF one(4)] one(1) show ?thesis by blast
  qed
  from unchanged shut show ?thesis by blast
qed

section \<open>Enrolment\<close>

text \<open>
  Property C18.  Enrolment is guarded: \<open>tailscale up\<close> is started only behind the guard, while the daemon answers and is not
  running, and with the fixed arguments and a key file in \<open>/run\<close> that is a non-empty regular file of root with mode
  0600 and one link; and it is reported as done exactly when the command succeeded and the daemon then runs.
\<close>

theorem enrolment_is_guarded:
  assumes "enroll float_of io config key = (r, Some command)"
  shows "guarded (en_guard io) config
    \<and> (\<exists>state. backend_state float_of (en_status io) = Inr state \<and> state \<noteq> ''Running'')
    \<and> (\<exists>s name. en_key io = Inr s \<and> butlast key = [''run''] \<and> ks_type s = 8 \<and> ks_uid s = 0 \<and> ks_mode s = 384 \<and> ks_links s = 1
         \<and> ks_size s \<noteq> 0 \<and> dget config ''hostname'' = PStr name \<and> host_name_ok name
         \<and> command = up_command key name)
    \<and> (r = Inr True \<longleftrightarrow> en_up io = Inr 0 \<and> backend_state float_of (en_after io) = Inr ''Running'') \<and> r \<noteq> Inr False"
proof -
  obtain state s where one: "host_guard (en_guard io) config = Inr ()" "backend_state float_of (en_status io) = Inr state"
      "state \<noteq> ''Running''" "en_key io = Inr s" "key_file_ok key s" "command = up_command key (str_of (dget config ''hostname''))"
      "r = bindE (en_up io) (\<lambda>code. if code \<noteq> 0 then Inl (Refused ''enrollment_failed'')
         else bindE (backend_state float_of (en_after io)) (\<lambda>after.
           if after \<noteq> ''Running'' then Inl (Refused ''enrollment_failed'') else Inr True))"
    using assms by (auto simp: enroll_def split: sum.splits if_splits)
  note guard = host_guard_Inr [OF one(1)]
  then obtain name where name: "dget config ''hostname'' = PStr name" "host_name_ok name" by (auto simp: guarded_def)
  have "(r = Inr True \<longleftrightarrow> en_up io = Inr 0 \<and> backend_state float_of (en_after io) = Inr ''Running'') \<and> r \<noteq> Inr False"
    unfolding one(7) by (auto split: if_splits)
  with guard one(2-6) name show ?thesis by (auto simp: str_of_def key_file_ok_def)
qed

section \<open>Examples\<close>

definition host_example_config :: pydict where
  "host_example_config = [(''device'', PStr ''/dev/sda1''), (''hostname'', PStr ''n1'')]"

definition host_example_guard :: host_guard_io where
  "host_example_guard = \<lparr>hg_link = Inr False, hg_resolved = Inr HOST_MOUNT,
     hg_mountinfo = Inr ''22 1 8:1 / /var/lib/rancher/k3s rw - ext4 /dev/sda1 rw'', hg_device = (\<lambda>_. Inr (0x61B0, 0x801))\<rparr>"

definition host_example_env :: cap_env where
  "host_example_env = \<lparr>ev_fault = (\<lambda>_. None), ev_torn = (\<lambda>_. 0), ev_clock = (\<lambda>_. ([], 0)), ev_mtime = (\<lambda>_. 0), ev_uuid = (\<lambda>_. []),
     ev_uid = 0, ev_sha = (\<lambda>s. s), ev_float = (\<lambda>_. FNaN), ev_class = (\<lambda>_. [])\<rparr>"

definition host_example_files :: files where
  "host_example_files = [(HOST_MOUNT, \<lparr>nd_kind = Directory, nd_uid = 0, nd_mode = 493, nd_links = 1, nd_data = []\<rparr>)]"

lemma host_example_guarded: "host_guard host_example_guard host_example_config = Inr ()"
proof -
  let ?row = "[''22'', ''1'', ''8:1'', ''/'', ''/var/lib/rancher/k3s'', ''rw'', ''-'', ''ext4'', ''/dev/sda1'', ''rw'']"
  have rows: "mount_rows ''22 1 8:1 / /var/lib/rancher/k3s rw - ext4 /dev/sda1 rw'' = [?row]" by code_simp
  have "dev_major 0x801 = 8" "dev_minor 0x801 = 1" by (simp_all add: dev_major_def dev_minor_def)
  moreover have "str_nat 8 @ '':'' @ str_nat 1 = ''8:1''" by code_simp
  ultimately have major: "device_text 0x801 = ''8:1''" by (simp add: device_text_def)
  have dash: "after_dash ?row = Some ''ext4''" "''rw'' \<in> set (split_by (\<lambda>c. c = CHR '','') ''rw'')" by code_simp+
  have "check_mount ''22 1 8:1 / /var/lib/rancher/k3s rw - ext4 /dev/sda1 rw'' (0x61B0, 0x801) = Inr ()"
    unfolding check_mount_def prod.case rows list.case dash(1) major by (simp add: file_type_def dash(2))
  moreover have "device_path_ok ''/dev/sda1''" "host_name_ok ''n1''" by code_simp+
  ultimately show ?thesis
    by (simp add: host_guard_def host_example_guard_def host_example_config_def matches_def dget_or_def str_of_def Let_def)
qed

lemma host_example_config_read:
  "host_config (\<lambda>_. FNaN) (Inr (json_enc json_compact (PDict host_example_config))) = Inr host_example_config"
proof -
  have "json_loads (\<lambda>_. FNaN) (json_enc json_compact (PDict host_example_config)) = Inr (PDict host_example_config)"
    by (rule json_roundtrip) (simp_all add: host_example_config_def)
  then show ?thesis by (simp add: host_config_def)
qed

lemma private_one_fresh:
  assumes "\<And>n. ev_fault env n = None" and "ev_uid env = 0" and "dev p = dev base" and "map_of fs p = None" and "Capture_System.in_directory fs p"
  shows "private_one env dev base p \<lparr>w_files = fs, w_step = n\<rparr>
    = (Inr True, \<lparr>w_files = put p (fresh env Directory) fs, w_step = Suc (Suc (Suc n))\<rparr>)"
  using assms
  by (simp add: private_one_def new_dir_def lstat_def look_def quiet_def sys_def bindC_def liftC_def require_def fresh_def
      del: bindC_Inr liftC_eq)

lemma private_file_absent:
  assumes "\<And>n. ev_fault env n = None" and "map_of fs p = None"
  shows "private_file env p \<lparr>w_files = fs, w_step = n\<rparr> = (Inr False, \<lparr>w_files = fs, w_step = Suc (Suc n)\<rparr>)"
  using assms
  by (simp add: private_file_def path_exists_def is_symlink_def kind_at_def sys_def bindC_def liftC_def del: bindC_Inr liftC_eq)

lemma host_example_prepared:
  "\<exists>w'. host_main (\<lambda>_. FNaN) host_example_env (\<lambda>_. 1) (Inr (json_enc json_compact (PDict host_example_config))) host_example_guard
     (Prepare (Inr 0x21B6) host_example_guard) \<lparr>w_files = host_example_files, w_step = 0\<rparr> = (Inr (PDict [(''changed'', PBool True)], 0), w')"
proof -
  have env: "ev_fault host_example_env n = None" "ev_uid host_example_env = 0" for n by (simp_all add: host_example_env_def)
  define d where "d = fresh host_example_env Directory"
  define fs where "fs = put (butlast HOST_STATE) d host_example_files"
  have dir: "nd_kind d = Directory" by (simp add: d_def fresh_def)
  have one: "map_of host_example_files (butlast HOST_STATE) = None" "Capture_System.in_directory host_example_files (butlast HOST_STATE)"
    by (simp_all add: host_example_files_def HOST_STATE_def HOST_MOUNT_def Capture_System.in_directory_def kind_at_def followed_def)
  have two: "map_of fs HOST_STATE = None" "Capture_System.in_directory fs HOST_STATE"
    using dir by (simp_all add: fs_def host_example_files_def HOST_STATE_def HOST_MOUNT_def Capture_System.in_directory_def kind_at_def followed_def)
  have three: "map_of (put HOST_STATE d fs) (state_file HOST_STATE) = None"
    by (simp add: fs_def host_example_files_def HOST_STATE_def HOST_MOUNT_def state_file_def)
  have "\<exists>w'. private_dirs host_example_env (\<lambda>_. 1) HOST_MOUNT [butlast HOST_STATE, HOST_STATE]
      \<lparr>w_files = host_example_files, w_step = 0\<rparr> = (Inr True, w')"
    using private_one_fresh [where dev = "\<lambda>_. 1" and base = HOST_MOUNT, OF env _ one, simplified]
      private_one_fresh [where dev = "\<lambda>_. 1" and base = HOST_MOUNT, OF env _ two, simplified] private_file_absent [OF env(1) three]
    by (simp add: private_dirs_def bindC_def liftC_def del: bindC_Inr liftC_eq flip: d_def fs_def)
  then obtain w' where dirs: "private_dirs host_example_env (\<lambda>_. 1) HOST_MOUNT [butlast HOST_STATE, HOST_STATE]
      \<lparr>w_files = host_example_files, w_step = 0\<rparr> = (Inr True, w')" by blast
  have mode: "file_type 0x21B6 = 2" by (simp add: file_type_def)
  show ?thesis
    unfolding host_main_def host_action_def bindC_def catchC_def liftC_def require_def host_request.case
      host_example_config_read host_example_guarded sum.case prod.case dirs mode
    by (simp add: dirs bindC_def)
qed

theorem prepared_state_is_private_witness:
  "\<exists>w'. host_main (\<lambda>_. FNaN) host_example_env (\<lambda>_. 1) (Inr (json_enc json_compact (PDict host_example_config))) host_example_guard
     (Prepare (Inr 0x21B6) host_example_guard) \<lparr>w_files = host_example_files, w_step = 0\<rparr> = (Inr (PDict [(''changed'', PBool True)], 0), w')
   \<and> private_at (w_files w') HOST_STATE Directory 448 \<and> guarded host_example_guard host_example_config"
proof -
  obtain w' where run: "host_main (\<lambda>_. FNaN) host_example_env (\<lambda>_. 1) (Inr (json_enc json_compact (PDict host_example_config))) host_example_guard
     (Prepare (Inr 0x21B6) host_example_guard) \<lparr>w_files = host_example_files, w_step = 0\<rparr> = (Inr (PDict [(''changed'', PBool True)], 0), w')"
    using host_example_prepared by blast
  from prepared_state_is_private [OF run] host_example_config_read have
    "private_at (w_files w') HOST_STATE Directory 448" "guarded host_example_guard host_example_config" by auto
  with run show ?thesis by blast
qed

definition host_example_enroll :: enroll_io where
  "host_example_enroll = \<lparr>en_guard = host_example_guard,
     en_status = Inr (1, json_enc json_compact (PDict [(''BackendState'', PStr ''NeedsLogin'')])),
     en_key = Inr \<lparr>ks_type = 8, ks_uid = 0, ks_mode = 384, ks_links = 1, ks_size = 60\<rparr>, en_up = Inr 0,
     en_after = Inr (0, json_enc json_compact (PDict [(''BackendState'', PStr ''Running'')]))\<rparr>"

lemma host_example_backend:
  assumes "s \<in> {''Running'', ''NeedsLogin''}" and "code = 0 \<or> code = 1" and "s = ''Running'' \<longrightarrow> code = 0"
  shows "backend_state (\<lambda>_. FNaN) (Inr (code, json_enc json_compact (PDict [(''BackendState'', PStr s)]))) = Inr s"
proof -
  have "json_loads (\<lambda>_. FNaN) (json_enc json_compact (PDict [(''BackendState'', PStr s)])) = Inr (PDict [(''BackendState'', PStr s)])"
    by (rule json_roundtrip) simp_all
  with assms show ?thesis by (auto simp: backend_state_def py_item_def dindex_def str_of_def)
qed

theorem enrolment_is_guarded_witness:
  "\<exists>command. enroll (\<lambda>_. FNaN) host_example_enroll host_example_config [''run'', ''host-tailscale-auth-1''] = (Inr True, Some command)
     \<and> command = up_command [''run'', ''host-tailscale-auth-1''] ''n1'' \<and> guarded host_example_guard host_example_config"
proof -
  have "key_file_ok [''run'', ''host-tailscale-auth-1''] \<lparr>ks_type = 8, ks_uid = 0, ks_mode = 384, ks_links = 1, ks_size = 60\<rparr>"
    by code_simp
  then obtain command where run: "enroll (\<lambda>_. FNaN) host_example_enroll host_example_config [''run'', ''host-tailscale-auth-1''] = (Inr True, Some command)"
  proof -
    assume key: "key_file_ok [''run'', ''host-tailscale-auth-1''] \<lparr>ks_type = 8, ks_uid = 0, ks_mode = 384, ks_links = 1, ks_size = 60\<rparr>"
    have "backend_state (\<lambda>_. FNaN) (en_status host_example_enroll) = Inr ''NeedsLogin''"
        "backend_state (\<lambda>_. FNaN) (en_after host_example_enroll) = Inr ''Running''"
      unfolding host_example_enroll_def enroll_io.select_convs by (rule host_example_backend; simp)+
    moreover have "en_guard host_example_enroll = host_example_guard" "en_up host_example_enroll = Inr 0"
        "en_key host_example_enroll = Inr \<lparr>ks_type = 8, ks_uid = 0, ks_mode = 384, ks_links = 1, ks_size = 60\<rparr>"
      by (simp_all add: host_example_enroll_def)
    ultimately show thesis using that key by (simp add: enroll_def host_example_guarded)
  qed
  from enrolment_is_guarded [OF run] show ?thesis using run
    by (auto simp: host_example_enroll_def host_example_config_def dget_or_def)
qed

end
