(* ===== verification/Tar_Archive.thy ===== *)
theory Tar_Archive
  imports Py_Base
begin

text \<open>
  The bytes that \<open>tarfile.open(mode="w|")\<close> writes for regular files without owner, time or link, as
  \<open>k3s_sqlite_backup.py\<close> adds them, with the extended header of a member of 8 GiB or more; and a
  reader, which gives the members back.
\<close>

section \<open>Writing\<close>

definition zeros :: "nat \<Rightarrow> string" where [py_defs]: "zeros n = replicate n (CHR 0x00)"

text \<open>\<open>"%0*o" % (k, n)\<close> for \<open>n < 8 ** k\<close>.\<close>

primrec octal :: "nat \<Rightarrow> nat \<Rightarrow> string" where
  "octal 0 n = []"
| "octal (Suc k) n = octal k (n div 8) @ [digit_char (n mod 8)]"

text \<open>\<open>stn\<close> and \<open>itn\<close>.\<close>

definition tar_text :: "nat \<Rightarrow> string \<Rightarrow> string" where
  [py_defs]: "tar_text n s = take n s @ zeros (n - length s)"

definition tar_number :: "nat \<Rightarrow> nat \<Rightarrow> string" where
  [py_defs]: "tar_number n i = octal (n - 1) i @ [CHR 0x00]"

text \<open>The fields of a header before and after its checksum, and the sum of their bytes with eight spaces.\<close>

definition tar_front :: "string \<Rightarrow> nat \<Rightarrow> nat \<Rightarrow> string" where
  [py_defs]: "tar_front name mode len =
     tar_text 100 name @ tar_number 8 mode @ tar_number 8 0 @ tar_number 8 0 @ tar_number 12 len @ tar_number 12 0"

definition tar_rear :: "char \<Rightarrow> string" where
  [py_defs]: "tar_rear type =
     [type] @ tar_text 100 [] @ ''ustar'' @ [CHR 0x00] @ ''00'' @ tar_text 32 [] @ tar_text 32 []
     @ tar_text 8 [] @ tar_text 8 [] @ tar_text 155 [] @ zeros 12"

definition tar_sum :: "string \<Rightarrow> nat" where
  [py_defs]: "tar_sum s = 256 + sum_list (map of_char s)"

definition tar_header :: "string \<Rightarrow> nat \<Rightarrow> nat \<Rightarrow> char \<Rightarrow> string" where
  [py_defs]: "tar_header name mode len type =
     (let front = tar_front name mode len; rear = tar_rear type in
      front @ octal 6 (tar_sum (front @ rear)) @ [CHR 0x00, CHR 0x20] @ rear)"

definition tar_pad :: "nat \<Rightarrow> string" where
  [py_defs]: "tar_pad n = zeros ((512 - n mod 512) mod 512)"

text \<open>The length of an extended record counts its own digits; three rounds reach it (\<open>pax_length_fixed\<close>).\<close>

primrec pax_length :: "nat \<Rightarrow> nat \<Rightarrow> nat \<Rightarrow> nat" where
  "pax_length 0 l p = p"
| "pax_length (Suc k) l p = (let n = l + length (str_nat p) in if n = p then p else pax_length k l n)"

definition pax_record :: "string \<Rightarrow> string \<Rightarrow> string" where
  [py_defs]: "pax_record keyword v =
     str_nat (pax_length 3 (length keyword + length v + 3) 0) @ '' '' @ keyword @ ''='' @ v @ [CHR 0x0A]"

definition tar_extended :: "nat \<Rightarrow> string" where
  [py_defs]: "tar_extended len =
     (let r = pax_record ''size'' (str_nat len) in
      tar_header ''././@PaxHeader'' 0 (length r) (CHR ''x'') @ r @ tar_pad (length r))"

definition tar_member :: "string \<times> string \<Rightarrow> string" where
  [py_defs]: "tar_member m = (case m of (name, data) \<Rightarrow>
     (if length data < 8 ^ 11 then tar_header name 384 (length data) (CHR ''0'')
      else tar_extended (length data) @ tar_header name 384 0 (CHR ''0''))
     @ data @ tar_pad (length data))"

definition tar_archive :: "(string \<times> string) list \<Rightarrow> string" where
  [py_defs]: "tar_archive members =
     (let body = concat (map tar_member members) @ zeros 1024 in
      body @ zeros ((10240 - length body mod 10240) mod 10240))"

section \<open>Reading\<close>

definition octal_value :: "string \<Rightarrow> nat" where
  "octal_value s = foldl (\<lambda>n c. n * 8 + (of_char c - 48)) 0 s"

text \<open>The members up to the first block of zeros; \<open>None\<close> where a checksum is wrong or something is missing.\<close>

function untar :: "string \<Rightarrow> (string \<times> string) list option" where
  "untar s =
     (let h = take 512 s; len = octal_value (take 11 (drop 124 h)) in
      if length s < 512 then None
      else if h = zeros 512 then Some []
      else if octal_value (take 6 (drop 148 h)) \<noteq> tar_sum (take 148 h @ drop 156 h) \<or> length s < 512 + len then None
      else map_option (Cons (takeWhile (\<lambda>c. c \<noteq> CHR 0x00) (take 100 h), take len (drop 512 s)))
        (untar (drop (512 + len + length (tar_pad len)) s)))"
  by pat_completeness auto
termination by (relation "measure length") auto

declare untar.simps [simp del]

section \<open>Round trip\<close>

lemma length_zeros [simp]: "length (zeros n) = n"
  by (simp add: zeros_def)

lemma length_octal [simp]: "length (octal k n) = k"
  by (induction k arbitrary: n) simp_all

lemma length_tar_text [simp]: "length (tar_text n s) = n"
  by (simp add: tar_text_def)

lemma length_tar_number [simp]: "0 < n \<Longrightarrow> length (tar_number n i) = n"
  by (simp add: tar_number_def)

lemma length_tar_parts [simp]: "length (tar_front name mode len) = 148" "length (tar_rear type) = 356"
  by (simp_all add: tar_front_def tar_rear_def)

lemma length_tar_header [simp]: "length (tar_header name mode len type) = 512"
  by (simp add: tar_header_def Let_def)

lemma octal_value_snoc: "octal_value (s @ [c]) = octal_value s * 8 + (of_char c - 48)"
  by (simp add: octal_value_def)

lemma octal_digit: "d < 8 \<Longrightarrow> of_char (digit_char d) = 48 + d"
  by (simp add: digit_char_def)

lemma octal_value_octal [simp]: "n < 8 ^ k \<Longrightarrow> octal_value (octal k n) = n"
proof (induction k arbitrary: n)
  case 0
  then show ?case by (simp add: octal_value_def)
next
  case (Suc k)
  then have "n div 8 < 8 ^ k" by (simp add: less_mult_imp_div_less mult.commute)
  with Suc.IH have "octal_value (octal k (n div 8)) = n div 8" by simp
  then show ?case by (simp add: octal_value_snoc octal_digit)
qed

lemma tar_sum_bound: "tar_sum s \<le> 256 + length s * 255"
proof (induction s)
  case (Cons c s)
  have "(of_char c :: nat) < 256" by (rule nat_of_char_less_256)
  moreover have "tar_sum (c # s) = of_char c + tar_sum s" by (simp add: tar_sum_def)
  moreover have "length (c # s) * 255 = length s * 255 + 255" by simp
  ultimately show ?case using Cons by linarith
qed (simp add: tar_sum_def)

lemma length_str_nat_small: "n < 100 \<Longrightarrow> length (str_nat n) = (if n < 10 then 1 else 2)"
  using str_nat.simps [of n] str_nat.simps [of "n div 10"] by auto

lemma pax_length_fixed:
  assumes "l \<le> 90"
  shows "pax_length 3 l 0 = l + length (str_nat (pax_length 3 l 0))"
proof -
  consider "l < 9" | "l = 9" | "10 \<le> l" by linarith
  then show ?thesis
    by cases (use assms in \<open>simp_all add: numeral_3_eq_3 Let_def length_str_nat_small\<close>)
qed

lemma octal_checksum: "octal_value (octal 6 (tar_sum (tar_front name mode len @ tar_rear type))) = tar_sum (tar_front name mode len @ tar_rear type)"
proof (rule octal_value_octal)
  have "tar_sum (tar_front name mode len @ tar_rear type) \<le> 256 + 504 * 255"
    using tar_sum_bound [of "tar_front name mode len @ tar_rear type"] by simp
  then show "tar_sum (tar_front name mode len @ tar_rear type) < 8 ^ 6" by simp
qed

text \<open>What the reader takes out of a header.\<close>

lemma header_fields:
  assumes "name \<noteq> []" "CHR 0x00 \<notin> set name" "length name \<le> 100" "len < 8 ^ 11" and h: "h = tar_header name mode len type"
  shows "octal_value (take 11 (drop 124 h)) = len" "octal_value (take 6 (drop 148 h)) = tar_sum (take 148 h @ drop 156 h)"
    "takeWhile (\<lambda>c. c \<noteq> CHR 0x00) (take 100 h) = name" "h \<noteq> zeros 512"
proof -
  define pre where "pre = tar_text 100 name @ tar_number 8 mode @ tar_number 8 0 @ tar_number 8 0"
  define post where "post = [CHR 0x00] @ tar_number 12 0"
  define chk where "chk = octal 6 (tar_sum (tar_front name mode len @ tar_rear type))"
  have front: "tar_front name mode len = pre @ octal 11 len @ post"
    by (simp add: tar_front_def pre_def post_def tar_number_def)
  have len: "length pre = 124" "length post = 13" "length chk = 6" by (simp_all add: pre_def post_def chk_def)
  have h2: "h = tar_front name mode len @ chk @ [CHR 0x00, CHR 0x20] @ tar_rear type"
    by (simp only: h tar_header_def Let_def chk_def)
  then have h1: "h = pre @ octal 11 len @ post @ chk @ [CHR 0x00, CHR 0x20] @ tar_rear type" by (simp add: front)
  have "take 11 (drop 124 h) = octal 11 len" unfolding h1 using len by simp
  then show "octal_value (take 11 (drop 124 h)) = len" using assms(4) by simp
  have "take 6 (drop 148 h) = chk" "take 148 h @ drop 156 h = tar_front name mode len @ tar_rear type"
    unfolding h2 using len by simp_all
  then show "octal_value (take 6 (drop 148 h)) = tar_sum (take 148 h @ drop 156 h)"
    by (simp add: chk_def octal_checksum)
  have "take 100 h = name @ zeros (100 - length name)"
    using assms(3) unfolding h1 pre_def by (simp add: tar_text_def)
  then show "takeWhile (\<lambda>c. c \<noteq> CHR 0x00) (take 100 h) = name"
    using assms(2) by (cases "100 - length name") (auto simp: zeros_def takeWhile_eq_all_conv takeWhile_append)
  from assms(1) obtain c cs where "name = c # cs" by (cases name) auto
  then have "hd h = c" "c \<noteq> CHR 0x00" using assms(2) unfolding h1 pre_def by (auto simp: tar_text_def)
  then show "h \<noteq> zeros 512" by (auto simp: zeros_def numeral_eq_Suc)
qed

lemma untar_member:
  assumes "name \<noteq> []" "CHR 0x00 \<notin> set name" "length name \<le> 100" "length data < 8 ^ 11"
  shows "untar (tar_member (name, data) @ rest) = map_option (Cons (name, data)) (untar rest)"
proof -
  define h where "h = tar_header name 384 (length data) (CHR ''0'')"
  note fields = header_fields [OF assms h_def]
  have member: "tar_member (name, data) @ rest = h @ data @ tar_pad (length data) @ rest"
    using assms(4) by (simp add: tar_member_def h_def)
  have take: "length h = 512" "take 512 (h @ t) = h" "drop 512 (h @ t) = t" for t by (simp_all add: h_def)
  have drop: "drop (512 + length data + length (tar_pad (length data))) (h @ data @ tar_pad (length data) @ rest) = rest"
    using take(1) by simp
  show ?thesis
    unfolding member by (subst untar.simps) (simp add: Let_def take fields drop del: drop_append)
qed

lemma untar_zeros: "untar (zeros 512 @ rest) = Some []"
  by (subst untar.simps) (simp add: Let_def)

lemma untar_archive:
  assumes "\<And>name data. (name, data) \<in> set members \<Longrightarrow> name \<noteq> [] \<and> CHR 0x00 \<notin> set name \<and> length name \<le> 100 \<and> length data < 8 ^ 11"
  shows "untar (tar_archive members) = Some members"
proof -
  have body: "untar (concat (map tar_member members) @ zeros 512 @ rest) = Some members" for rest
    using assms
  proof (induction members)
    case Nil
    show ?case using untar_zeros by simp
  next
    case (Cons m members)
    obtain name data where m: "m = (name, data)" by (cases m)
    with Cons.prems [of name data] Cons.IH [OF Cons.prems] untar_member [of name data] show ?case by simp
  qed
  have "zeros 1024 = zeros 512 @ zeros 512" by (simp add: zeros_def flip: replicate_add)
  then show ?thesis using body by (simp add: tar_archive_def Let_def)
qed

end
