(* ===== verification/Sqlite_Backup.thy ===== *)
theory Sqlite_Backup
  imports Tar_Archive Artifact_Tree Capture_System
begin

text \<open>
  \<open>k3s_sqlite_backup.py\<close>: the check of both mounts, the snapshot, the archive that \<open>age\<close> encrypts into
  a partial file, and its publication by a rename.  What the program creates is on the file system of
  \<open>Capture_System\<close>, where every call may fail or be the one at which the process is killed.  The files of the
  running k3s and the mounts, which other processes change, are answers, one for each look.
\<close>

section \<open>Mounts\<close>

definition PERSISTENT_FILESYSTEMS :: "string list" where
  [py_defs]: "PERSISTENT_FILESYSTEMS = [''ext4'', ''xfs'', ''btrfs'', ''zfs'', ''nfs'', ''nfs4'']"

text \<open>An octal escape gives a code point up to 511, hence numbers instead of characters.\<close>

type_synonym codes = "nat list"

definition codes_of :: "string \<Rightarrow> codes" where [py_defs]: "codes_of s = map of_char s"

definition octal_digit :: "char \<Rightarrow> bool" where
  [py_defs]: "octal_digit c \<longleftrightarrow> 48 \<le> ord_of c \<and> ord_of c \<le> 55"

function unescape_mount_field :: "string \<Rightarrow> codes" where
  "unescape_mount_field [] = []"
| "unescape_mount_field (c # s) =
     (if c = CHR 0x5C \<and> 3 \<le> length s \<and> list_all octal_digit (take 3 s)
      then octal_value (take 3 s) # unescape_mount_field (drop 3 s)
      else of_char c # unescape_mount_field s)"
  by pat_completeness auto
termination by (relation "measure length") auto

text \<open>\<open>Path\<close>: the root, which may be two slashes, and the names.\<close>

type_synonym path_codes = "codes \<times> codes list"

definition split_codes :: "codes \<Rightarrow> codes list" where
  [py_defs]: "split_codes s = foldr (\<lambda>c acc. if c = 47 then [] # acc else (case acc of [] \<Rightarrow> [[c]] | a # as \<Rightarrow> (c # a) # as)) s [[]]"

definition code_path :: "codes \<Rightarrow> path_codes" where
  [py_defs]: "code_path s =
     (if take 1 s \<noteq> [47] then [] else if take 2 s = [47, 47] \<and> take 3 s \<noteq> [47, 47, 47] then [47, 47] else [47],
      filter (\<lambda>p. p \<noteq> [] \<and> p \<noteq> [46]) (split_codes s))"

definition real_path :: "path \<Rightarrow> path_codes" where
  [py_defs]: "real_path p = ([47], map codes_of p)"

type_synonym mount = "path_codes \<times> codes \<times> codes"

text \<open>\<open>line.partition(" - ")\<close>.\<close>

fun partition_dash :: "string \<Rightarrow> (string \<times> string) option" where
  "partition_dash [] = None"
| "partition_dash (c # s) =
     (if startswith (c # s) '' - '' then Some ([], drop 2 s)
      else map_option (\<lambda>(a, b). (c # a, b)) (partition_dash s))"

definition mount_line :: "string \<Rightarrow> mount res" where
  [py_defs]: "mount_line line = (case partition_dash line of
       None \<Rightarrow> Inl (RuntimeError ''invalid mountinfo record'')
     | Some (pre, post) \<Rightarrow>
         let parts = split_ws pre; fs = split_ws post in
         if length parts < 5 \<or> length fs < 2 then Inl (RuntimeError ''invalid mountinfo fields'')
         else Inr (code_path (unescape_mount_field (parts ! 4)), unescape_mount_field (fs ! 0), unescape_mount_field (fs ! 1)))"

definition read_mountinfo :: "string res \<Rightarrow> mount list res" where
  [py_defs]: "read_mountinfo source = bindE source (\<lambda>text. bindE (mapE mount_line (py_splitlines text)) (\<lambda>mounts.
     if mounts = [] then Inl (RuntimeError ''mountinfo is empty'') else Inr mounts))"

text \<open>\<open>path == m or m in path.parents\<close>, and \<open>len(m.parts)\<close>.\<close>

definition path_under :: "path_codes \<Rightarrow> path_codes \<Rightarrow> bool" where
  [py_defs]: "path_under p m \<longleftrightarrow> fst p = fst m \<and> take (length (snd m)) (snd p) = snd m"

definition path_depth :: "path_codes \<Rightarrow> nat" where
  [py_defs]: "path_depth m = (if fst m = [] then 0 else 1) + length (snd m)"

text \<open>The maximum by depth and then by position.\<close>

fun deepest :: "mount list \<Rightarrow> mount option" where
  "deepest [] = None"
| "deepest (m # ms) = (case deepest ms of
       None \<Rightarrow> Some m
     | Some n \<Rightarrow> Some (if path_depth (fst n) < path_depth (fst m) then m else n))"

definition effective_mount :: "path_codes \<Rightarrow> mount list \<Rightarrow> mount res" where
  [py_defs]: "effective_mount p table = (case deepest (filter (\<lambda>m. path_under p (fst m)) table) of
       None \<Rightarrow> Inl (RuntimeError ''no mountinfo entry for path'') | Some m \<Rightarrow> Inr m)"

text \<open>What the command line says of the two mounts, and the answers to one check: the four paths resolved, the
  mount table and the two devices.\<close>

record mount_args =
  ma_source_fstype :: string
  ma_source_source :: string
  ma_destination_fstype :: string
  ma_destination_source :: string
  ma_distinct :: bool

record mounts_io =
  mi_source :: "path res"
  mi_expected_source :: "path res"
  mi_destination :: "path res"
  mi_expected_destination :: "path res"
  mi_mountinfo :: "string res"
  mi_source_dev :: "int res"
  mi_destination_dev :: "int res"

definition check_mounts :: "mount_args \<Rightarrow> mounts_io \<Rightarrow> path \<Rightarrow> path \<Rightarrow> path \<Rightarrow> path \<Rightarrow> unit res" where
  [py_defs]: "check_mounts a io source_real expected_source destination_real expected_destination =
     bindE (require (source_real = expected_source) (RuntimeError ''data-dir must equal its expected source mountpoint'')) (\<lambda>_.
     bindE (require (path_under (real_path destination_real) (real_path expected_destination))
       (RuntimeError ''destination must reside under its expected mountpoint'')) (\<lambda>_.
     bindE (require (expected_destination \<noteq> []) (RuntimeError ''root filesystem is not a valid backup destination mount'')) (\<lambda>_.
     bindE (require (ma_source_fstype a \<in> set PERSISTENT_FILESYSTEMS \<and> ma_destination_fstype a \<in> set PERSISTENT_FILESYSTEMS)
       (RuntimeError ''expected filesystem must be persistent'')) (\<lambda>_.
     bindE (require (ma_destination_source a \<noteq> [] \<and> ma_source_source a \<noteq> [])
       (RuntimeError ''both expected mount sources must be specified'')) (\<lambda>_.
     bindE (read_mountinfo (mi_mountinfo io)) (\<lambda>mounts.
     bindE (effective_mount (real_path source_real) mounts) (\<lambda>src.
     bindE (effective_mount (real_path destination_real) mounts) (\<lambda>dst.
     bindE (require (src = (real_path expected_source, codes_of (ma_source_fstype a), codes_of (ma_source_source a)))
       (RuntimeError ''k3s data-dir is not the expected persistent mount'')) (\<lambda>_.
     bindE (require (dst = (real_path expected_destination, codes_of (ma_destination_fstype a), codes_of (ma_destination_source a)))
       (RuntimeError ''backup destination is not the expected mounted filesystem'')) (\<lambda>_.
     if ma_distinct a then
       bindE (mi_source_dev io) (\<lambda>s. bindE (mi_destination_dev io) (\<lambda>d.
         require (s \<noteq> d) (RuntimeError ''destination must be on a different filesystem'')))
     else Inr ()))))))))))"

definition validate_mounts :: "mount_args \<Rightarrow> mounts_io \<Rightarrow> unit res" where
  [py_defs]: "validate_mounts a io =
     bindE (mi_source io) (\<lambda>source_real. bindE (mi_expected_source io) (\<lambda>expected_source.
     bindE (mi_destination io) (\<lambda>destination_real. bindE (mi_expected_destination io) (\<lambda>expected_destination.
     check_mounts a io source_real expected_source destination_real expected_destination))))"

section \<open>The backup\<close>

record backup_args =
  ba_recipient :: string
  ba_data :: path
  ba_destination :: path
  ba_mounts :: mount_args

text \<open>The tests of the two directories and of the database and the token; the mounts at each check; whether \<open>age\<close> is
  found; both readings of the token; the names \<open>tempfile\<close> chooses; what SQLite answers and writes; and \<open>age\<close>: its
  start, what it writes for its input, and its exit code.  A temporary name that is taken is an error here;
  \<open>tempfile\<close> would choose another.\<close>

record backup_io =
  bi_data_dir :: "bool res"
  bi_data_link :: "bool res"
  bi_destination_dir :: "bool res"
  bi_destination_link :: "bool res"
  bi_db_file :: "bool res"
  bi_token_file :: "bool res"
  bi_db_link :: "bool res"
  bi_token_link :: "bool res"
  bi_mounts :: "nat \<Rightarrow> mounts_io"
  bi_age :: bool
  bi_token :: "nat \<Rightarrow> string res"
  bi_staging :: string
  bi_partial :: string
  bi_open :: "unit res"
  bi_snapshot :: string
  bi_backed :: "unit res"
  bi_integrity :: "string list res"
  bi_start :: "unit res"
  bi_cipher :: "string \<Rightarrow> string"
  bi_wait :: "int res"

definition recipient_ok :: "string \<Rightarrow> bool" where
  [py_defs]: "recipient_ok s \<longleftrightarrow> startswith s ''age1'' \<and> \<not> list_ex py_isspace s"

text \<open>\<open>not a or b\<close>.\<close>

definition not_or :: "bool res \<Rightarrow> bool res \<Rightarrow> bool res" where
  [py_defs]: "not_or a b = bindE a (\<lambda>x. if x then b else Inr True)"

definition backup_checks :: "backup_args \<Rightarrow> backup_io \<Rightarrow> string res" where
  [py_defs]: "backup_checks a io =
     bindE (require (recipient_ok (ba_recipient a)) (ValueError ''expected an age X25519 public recipient'')) (\<lambda>_.
     bindE (not_or (bi_data_dir io) (bi_data_link io)) (\<lambda>bad.
     bindE (require (\<not> bad) (RuntimeError ''k3s data directory missing or symlinked'')) (\<lambda>_.
     bindE (not_or (bi_destination_dir io) (bi_destination_link io)) (\<lambda>bad.
     bindE (require (\<not> bad) (RuntimeError ''destination directory must exist and must not be a symlink'')) (\<lambda>_.
     bindE (validate_mounts (ba_mounts a) (bi_mounts io 0)) (\<lambda>_.
     bindE (not_or (bi_db_file io) (not_or (bi_token_file io) (bindE (bi_db_link io) (\<lambda>x. if x then Inr True else bi_token_link io)))) (\<lambda>bad.
     bindE (require (\<not> bad) (RuntimeError ''state.db and server/token must be regular files'')) (\<lambda>_.
     bindE (require (bi_age io) (RuntimeError ''age executable unavailable'')) (\<lambda>_.
     bindE (bi_token io 0) (\<lambda>token.
     bindE (require (token \<noteq> []) (RuntimeError ''server token is empty'')) (\<lambda>_. Inr token)))))))))))"

definition backup_stamp :: "cap_env \<Rightarrow> (string \<times> string) cap" where
  [py_defs]: "backup_stamp env w =
     (let created = filter (\<lambda>c. c \<notin> set ''-:'') (iso_text \<lfloor>snd (ev_clock env (w_step w))\<rfloor>) in
      (Inr (created, ''k3s-sqlite-'' @ created @ ''-'' @ take 12 (ev_uuid env (w_step w)) @ ''.tar.age''), w))"

definition snapshot_sqlite :: "cap_env \<Rightarrow> backup_io \<Rightarrow> path \<Rightarrow> unit cap" where
  [py_defs]: "snapshot_sqlite env io out =
     bindC (liftC (bi_open io)) (\<lambda>_.
     bindC (open_create env out) (\<lambda>_.
     bindC (write_file env out (bi_snapshot io)) (\<lambda>_.
     bindC (liftC (bi_backed io)) (\<lambda>_.
     bindC (liftC (bi_integrity io)) (\<lambda>result.
     liftC (require (result = [''ok'']) (RuntimeError ''SQLite snapshot integrity_check failed'')))))))"

definition backup_metadata :: "cap_env \<Rightarrow> string \<Rightarrow> string \<Rightarrow> string \<Rightarrow> pydict" where
  [py_defs]: "backup_metadata env created db token =
     [(''schema'', PStr ''k3s-sqlite-backup-v1''), (''created_utc'', PStr created), (''database'', PStr ''server/db/state.db''),
      (''sqlite_integrity'', PStr ''ok''), (''state_db_sha256'', PStr (ev_sha env db)), (''server_token_sha256'', PStr (ev_sha env token))]"

definition metadata_text :: "pydict \<Rightarrow> string" where
  [py_defs]: "metadata_text d = json_enc json_default (sorted_value (PDict d)) @ [CHR 0x0A]"

definition snapshot_path :: "path \<Rightarrow> path" where [py_defs]: "snapshot_path staging = staging @ [''state.db'']"

text \<open>From the snapshot to the second check of the mounts.\<close>

definition collect_backup :: "cap_env \<Rightarrow> backup_args \<Rightarrow> backup_io \<Rightarrow> path \<Rightarrow> string \<Rightarrow> string \<Rightarrow> pydict cap" where
  [py_defs]: "collect_backup env a io staging created token =
     bindC (snapshot_sqlite env io (snapshot_path staging)) (\<lambda>_.
     bindC (liftC (bi_token io 1)) (\<lambda>again.
     bindC (liftC (require (again = token) (RuntimeError ''server token changed during snapshot''))) (\<lambda>_.
     bindC (read_bytes env (snapshot_path staging)) (\<lambda>db.
     bindC (liftC (validate_mounts (ba_mounts a) (bi_mounts io 1))) (\<lambda>_.
     returnC (backup_metadata env created db token))))))"

text \<open>An exception while the archive is written leaves a part of what \<open>age\<close> would have written.\<close>

definition encrypt_backup :: "cap_env \<Rightarrow> backup_io \<Rightarrow> path \<Rightarrow> path \<Rightarrow> string \<Rightarrow> pydict \<Rightarrow> unit cap" where
  [py_defs]: "encrypt_backup env io staging partial token metadata =
     bindC (liftC (bi_start io)) (\<lambda>_.
     bindC (quiet env) (\<lambda>_.
     bindC (read_bytes env (snapshot_path staging)) (\<lambda>db.
     bindC (write_file env partial (bi_cipher io (tar_archive
       [(''state.db'', db), (''token'', token), (''manifest.json'', metadata_text metadata)]))) (\<lambda>_.
     bindC (liftC (bi_wait io)) (\<lambda>code.
     bindC (liftC (require (code = 0) (RuntimeError ''age encryption failed''))) (\<lambda>_.
     bindC (quiet env) (\<lambda>_. bindC (quiet env) (\<lambda>_. quiet env))))))))"

definition publish_backup :: "cap_env \<Rightarrow> backup_args \<Rightarrow> backup_io \<Rightarrow> path \<Rightarrow> path \<Rightarrow> path \<Rightarrow> string \<Rightarrow> pydict \<Rightarrow> path cap" where
  [py_defs]: "publish_backup env a io staging partial target token metadata =
     bindC (encrypt_backup env io staging partial token metadata) (\<lambda>_.
     bindC (liftC (validate_mounts (ba_mounts a) (bi_mounts io 2))) (\<lambda>_.
     bindC (rename env partial target) (\<lambda>_. returnC target)))"

text \<open>An exception as a result; a killed process has none.\<close>

definition attemptC :: "'a cap \<Rightarrow> 'a res cap" where
  [py_defs]: "attemptC m = catchC (bindC m (\<lambda>x. returnC (Inr x))) (\<lambda>e. returnC (Inl e))"

definition unlink_missing_ok :: "cap_env \<Rightarrow> path \<Rightarrow> unit cap" where
  [py_defs]: "unlink_missing_ok env p = catchC (unlink env p) (\<lambda>e. if e = FileNotFoundError then returnC () else raiseC e)"

text \<open>The end of \<open>TemporaryDirectory\<close>.\<close>

definition remove_staging :: "cap_env \<Rightarrow> path \<Rightarrow> unit cap" where
  [py_defs]: "remove_staging env staging =
     bindC (iterdir env staging) (\<lambda>names. bindC (eachC (\<lambda>n. unlink_missing_ok env (staging @ [n])) names) (\<lambda>_. rmdir env staging))"

text \<open>Inside \<open>with\<close>: \<open>Inr (Inl e)\<close> is an exception after the partial file was made.\<close>

definition staged_backup :: "cap_env \<Rightarrow> backup_args \<Rightarrow> backup_io \<Rightarrow> path \<Rightarrow> path \<Rightarrow> path \<Rightarrow> string \<Rightarrow> string \<Rightarrow> path res cap" where
  [py_defs]: "staged_backup env a io staging partial target created token =
     bindC (collect_backup env a io staging created token) (\<lambda>metadata.
     bindC (create_new env partial) (\<lambda>_.
     attemptC (publish_backup env a io staging partial target token metadata)))"

text \<open>After \<open>with\<close>: the partial file is removed unless it was renamed; an exception of the cleanup replaces another.\<close>

definition finish_backup :: "cap_env \<Rightarrow> path \<Rightarrow> path res res \<Rightarrow> unit res \<Rightarrow> path cap" where
  [py_defs]: "finish_backup env partial r closing =
     bindC (case r of Inr (Inl e) \<Rightarrow> unlink_missing_ok env partial | _ \<Rightarrow> returnC ()) (\<lambda>_.
     liftC (bindE closing (\<lambda>_. bindE r (\<lambda>q. q))))"

definition staging_path :: "backup_args \<Rightarrow> backup_io \<Rightarrow> path" where
  [py_defs]: "staging_path a io = ba_data a @ [''.sqlite-backup-'' @ bi_staging io]"

definition partial_path :: "backup_args \<Rightarrow> backup_io \<Rightarrow> path" where
  [py_defs]: "partial_path a io = ba_destination a @ [''.k3s-sqlite-'' @ bi_partial io @ ''.partial'']"

definition backup :: "cap_env \<Rightarrow> backup_args \<Rightarrow> backup_io \<Rightarrow> path cap" where
  [py_defs]: "backup env a io =
     bindC (liftC (backup_checks a io)) (\<lambda>token.
     bindC (backup_stamp env) (\<lambda>(created, name).
     let staging = staging_path a io; partial = partial_path a io; target = ba_destination a @ [name] in
     bindC (mkdir env staging False) (\<lambda>_.
     bindC (attemptC (staged_backup env a io staging partial target created token)) (\<lambda>r.
     bindC (attemptC (remove_staging env staging)) (\<lambda>closing.
     finish_backup env partial r closing)))))"

definition backup_error :: "py_exc \<Rightarrow> bool" where
  [py_defs]: "backup_error e \<longleftrightarrow> os_error e \<or> value_error e
     \<or> (case e of RuntimeError m \<Rightarrow> True | ScriptError c m \<Rightarrow> c = ''sqlite3.Error'' | _ \<Rightarrow> False)"

text \<open>What is printed, and the exit code.\<close>

definition backup_main :: "cap_env \<Rightarrow> backup_args \<Rightarrow> backup_io \<Rightarrow> (string \<times> int) cap" where
  [py_defs]: "backup_main env a io =
     catchC (bindC (backup env a io) (\<lambda>p. returnC (''backup created: '' @ root_text p, 0)))
       (\<lambda>e. if backup_error e then returnC (''backup failed: '' @ ev_class env e, 1) else raiseC e)"

end
