(* ===== verification/Backup_Props.thy ===== *)
theory Backup_Props
  imports Sqlite_Backup
begin

text \<open>
  Properties of \<open>k3s_sqlite_backup.py\<close>: the mount that a path is on; whatever fails, all that appears outside the
  working paths is a complete backup, made between two looks at the right mounts; and a run that ends leaves
  its working paths behind only if a removal fails.
\<close>

section \<open>The effective mount\<close>

text \<open>\<open>m\<close> is deepest among the mounts that satisfy \<open>P\<close>, and the last at its depth.\<close>

definition topmost :: "(mount \<Rightarrow> bool) \<Rightarrow> mount list \<Rightarrow> mount \<Rightarrow> bool" where
  "topmost P ms m \<longleftrightarrow> (\<exists>us vs. ms = us @ m # vs \<and> P m
     \<and> (\<forall>u \<in> set us. P u \<longrightarrow> path_depth (fst u) \<le> path_depth (fst m))
     \<and> (\<forall>v \<in> set vs. P v \<longrightarrow> path_depth (fst v) < path_depth (fst m)))"

lemma topmost_Nil [simp]: "\<not> topmost P [] m"
  by (simp add: topmost_def)

lemma topmost_Cons: "topmost P (a # ms) m \<longleftrightarrow>
    (m = a \<and> P a \<and> (\<forall>v \<in> set ms. P v \<longrightarrow> path_depth (fst v) < path_depth (fst m)))
    \<or> (topmost P ms m \<and> (P a \<longrightarrow> path_depth (fst a) \<le> path_depth (fst m)))"
  (is "?l \<longleftrightarrow> ?here \<or> ?later")
proof
  assume ?l
  then obtain us vs where s: "a # ms = us @ m # vs" "P m" "\<forall>u \<in> set us. P u \<longrightarrow> path_depth (fst u) \<le> path_depth (fst m)"
      "\<forall>v \<in> set vs. P v \<longrightarrow> path_depth (fst v) < path_depth (fst m)" unfolding topmost_def by blast
  show "?here \<or> ?later"
  proof (cases us)
    case Nil
    with s show ?thesis by simp
  next
    case (Cons u us')
    with s have "ms = us' @ m # vs" "u = a" by simp_all
    with s Cons show ?thesis unfolding topmost_def by (intro disjI2) auto
  qed
next
  assume "?here \<or> ?later"
  then show ?l
  proof
    assume ?here
    then have m: "m = a" and here: "P a" "\<forall>v \<in> set ms. P v \<longrightarrow> path_depth (fst v) < path_depth (fst a)" by blast+
    show ?l unfolding topmost_def m by (rule exI [of _ "[]"], rule exI [of _ ms]) (simp add: here)
  next
    assume ?later
    then obtain us vs where "ms = us @ m # vs" "P m" "\<forall>u \<in> set us. P u \<longrightarrow> path_depth (fst u) \<le> path_depth (fst m)"
      "\<forall>v \<in> set vs. P v \<longrightarrow> path_depth (fst v) < path_depth (fst m)" "P a \<longrightarrow> path_depth (fst a) \<le> path_depth (fst m)"
      unfolding topmost_def by blast
    then show ?l unfolding topmost_def by (intro exI [of _ "a # us"] exI [of _ vs]) simp
  qed
qed

lemma deepest_None [simp]: "deepest ms = None \<longleftrightarrow> ms = []"
  by (cases ms) (auto split: option.splits)

lemma deepest_bound: "deepest ms = Some n \<Longrightarrow> n \<in> set ms \<and> (\<forall>v \<in> set ms. path_depth (fst v) \<le> path_depth (fst n))"
  by (induction ms arbitrary: n) (fastforce split: option.splits if_splits)+

lemma deepest_filter: "deepest (filter P ms) = Some m \<longleftrightarrow> topmost P ms m"
proof (induction ms arbitrary: m)
  case (Cons a ms)
  show ?case
  proof (cases "P a")
    case False
    then show ?thesis using Cons by (simp add: topmost_Cons)
  next
    case True
    show ?thesis
    proof (cases "deepest (filter P ms)")
      case None
      then have "\<not> topmost P ms m" for m using Cons.IH [of m] by simp
      moreover from None have "\<forall>v \<in> set ms. \<not> P v" by (simp add: filter_empty_conv)
      ultimately show ?thesis using True None by (auto simp: topmost_Cons)
    next
      case (Some n)
      then have top: "topmost P ms m \<longleftrightarrow> m = n" for m using Cons.IH [of m] by auto
      have n: "n \<in> set ms" "P n" "\<And>v. v \<in> set ms \<Longrightarrow> P v \<Longrightarrow> path_depth (fst v) \<le> path_depth (fst n)"
        using deepest_bound [OF Some] unfolding set_filter by blast+
      show ?thesis
      proof (cases "path_depth (fst n) < path_depth (fst a)")
        case less: True
        then have "\<forall>v \<in> set ms. P v \<longrightarrow> path_depth (fst v) < path_depth (fst a)" using n(3) by fastforce
        with True less Some top show ?thesis by (auto simp: topmost_Cons)
      next
        case False
        with True Some top n show ?thesis by (auto simp: topmost_Cons)
      qed
    qed
  qed
qed simp

text \<open>
  The effective mount of a path is the record, among those whose mount point is the path or an ancestor of
  it, with the deepest mount point, and of several at that depth the last, the one mounted on top.
\<close>

lemma effective_mount_is_topmost:
  "effective_mount p table = Inr m \<longleftrightarrow> (\<exists>us vs. table = us @ m # vs \<and> path_under p (fst m)
     \<and> (\<forall>u \<in> set us. path_under p (fst u) \<longrightarrow> path_depth (fst u) \<le> path_depth (fst m))
     \<and> (\<forall>v \<in> set vs. path_under p (fst v) \<longrightarrow> path_depth (fst v) < path_depth (fst m)))"
proof -
  have "effective_mount p table = Inr m \<longleftrightarrow> deepest (filter (\<lambda>m. path_under p (fst m)) table) = Some m"
    by (auto simp: effective_mount_def split: option.splits)
  then show ?thesis unfolding deepest_filter topmost_def .
qed

section \<open>What a run changes\<close>

lemma attemptC_run:
  "attemptC m w = (r, w') \<longleftrightarrow> (\<exists>q. m w = (q, w') \<and> r = (if q = Inl Diverges then Inl Diverges else Inr q))"
  by (cases "m w") (auto simp: attemptC_def catchC_def bindC_def liftC_def split: sum.splits prod.splits)

lemma keeps_attempt [keep_rule]: "keeps I m \<Longrightarrow> keeps I (attemptC m)"
  unfolding attemptC_def by (intro safe_catch keep_rule)

lemma keeps_unlink_missing: "keeps I (unlink env p) \<Longrightarrow> keeps I (unlink_missing_ok env p)"
  unfolding unlink_missing_ok_def by (intro safe_catch keep_rule)

lemma reads_stamp [simp]: "only_reads (backup_stamp env)"
  by (simp add: backup_stamp_def only_reads_def Let_def)

lemma keeps_snapshot:
  assumes "out \<in> P"
  shows "keeps (unchanged_but P fs) (snapshot_sqlite env io out)"
  unfolding snapshot_sqlite_def by (intro keep_rule unchanged_keep) (use assms in simp_all)

lemma keeps_collect:
  assumes "snapshot_path staging \<in> P"
  shows "keeps (unchanged_but P fs) (collect_backup env a io staging created token)"
  unfolding collect_backup_def by (intro keep_rule keeps_snapshot assms)

lemma keeps_encrypt:
  assumes "partial \<in> P"
  shows "keeps (unchanged_but P fs) (encrypt_backup env io staging partial token metadata)"
  unfolding encrypt_backup_def by (intro keep_rule unchanged_keep) (use assms in simp_all)

lemma keeps_remove_staging:
  assumes "staging \<in> P" and "\<And>n. staging @ [n] \<in> P"
  shows "keeps (unchanged_but P fs) (remove_staging env staging)"
  unfolding remove_staging_def by (intro keep_rule keeps_unlink_missing unchanged_keep) (use assms in simp_all)

section \<open>What a run achieves\<close>

definition data_at :: "files \<Rightarrow> path \<Rightarrow> string option" where
  "data_at fs p = map_option nd_data (map_of fs p)"

lemma write_file_Inr: "write_file env p s w = (Inr u, w') \<Longrightarrow> map_of (w_files w) p \<noteq> None \<Longrightarrow> data_at (w_files w') p = Some s"
  by (auto simp: write_file_def set_data_def data_at_def Let_def split: option.splits)

lemma write_file_at: "write_file env p s w = (Inr u, w') \<Longrightarrow> data_at (w_files w') p = Some t \<Longrightarrow> t = s"
  by (auto simp: write_file_def set_data_def data_at_def Let_def split: option.splits)

lemma open_create_Inr: "open_create env p w = (Inr u, w') \<Longrightarrow> map_of (w_files w') p \<noteq> None"
  by (auto simp: open_create_def sys_def split: option.splits if_splits)

lemma reads_data: "only_reads m \<Longrightarrow> m w = (r, w') \<Longrightarrow> data_at (w_files w') p = data_at (w_files w) p"
  using reads_files by metis

definition snapshot_good :: "backup_io \<Rightarrow> bool" where
  "snapshot_good io \<longleftrightarrow> bi_backed io = Inr () \<and> bi_integrity io = Inr [''ok'']"

lemma require_Inr_eq: "require b e = Inr u \<longleftrightarrow> b"
  by (simp add: require_def)

lemma snapshot_Inr:
  assumes "snapshot_sqlite env io out w = (Inr u, w')"
  shows "data_at (w_files w') out = Some (bi_snapshot io) \<and> snapshot_good io"
proof -
  obtain w1 w2 u1 u2 where run: "open_create env out w1 = (Inr u1, w2)" "write_file env out (bi_snapshot io) w2 = (Inr u2, w')"
      "bi_backed io = Inr ()" "bi_integrity io = Inr [''ok'']"
    using assms unfolding snapshot_sqlite_def by (auto simp: require_Inr_eq)
  from write_file_Inr [OF run(2) open_create_Inr [OF run(1)]] run(3,4) show ?thesis by (simp add: snapshot_good_def)
qed

lemma collect_Inr:
  assumes "collect_backup env a io staging created token w = (Inr metadata, w')"
  shows "data_at (w_files w') (snapshot_path staging) = Some (bi_snapshot io) \<and> snapshot_good io \<and> bi_token io 1 = Inr token
    \<and> metadata = backup_metadata env created (bi_snapshot io) token \<and> validate_mounts (ba_mounts a) (bi_mounts io 1) = Inr ()"
proof -
  obtain w1 db u where run: "snapshot_sqlite env io (snapshot_path staging) w = (Inr u, w1)" "bi_token io 1 = Inr token"
      "read_bytes env (snapshot_path staging) w1 = (Inr db, w')" "validate_mounts (ba_mounts a) (bi_mounts io 1) = Inr ()"
      "metadata = backup_metadata env created db token"
    using assms unfolding collect_backup_def by (auto simp: require_Inr_eq)
  from read_bytes_Inr [OF run(3)] snapshot_Inr [OF run(1)] run(2,4,5) show ?thesis by (auto simp: data_at_def)
qed

lemma encrypt_Inr:
  assumes "encrypt_backup env io staging partial token metadata w = (Inr u, w')"
    and "data_at (w_files w) (snapshot_path staging) = Some db" and "data_at (w_files w') partial = Some data"
  shows "bi_wait io = Inr 0 \<and> data = bi_cipher io (tar_archive
    [(''state.db'', db), (''token'', token), (''manifest.json'', metadata_text metadata)])"
proof -
  obtain w1 db' w2 w3 w4 w5 u1 u2 u3 u4 u5 where run: "quiet env w = (Inr u1, w1)" "read_bytes env (snapshot_path staging) w1 = (Inr db', w2)"
      "write_file env partial (bi_cipher io (tar_archive
         [(''state.db'', db'), (''token'', token), (''manifest.json'', metadata_text metadata)])) w2 = (Inr u2, w3)"
      "bi_wait io = Inr 0" "quiet env w3 = (Inr u3, w4)" "quiet env w4 = (Inr u4, w5)" "quiet env w5 = (Inr u5, w')"
    using assms(1) unfolding encrypt_backup_def by (auto simp: require_Inr_eq)
  have "data_at (w_files w1) (snapshot_path staging) = Some db'" using read_bytes_Inr [OF run(2)] by (simp add: data_at_def)
  then have "db' = db" using reads_data [OF reads_calls(7) run(1)] assms(2) by simp
  moreover have "data_at (w_files w3) partial = Some data"
    using reads_data [OF reads_calls(7) run(5)] reads_data [OF reads_calls(7) run(6)] reads_data [OF reads_calls(7) run(7)] assms(3) by simp
  ultimately show ?thesis using write_file_at [OF run(3)] run(4) by simp
qed

text \<open>The members of the archive, and what is known when a file holds what \<open>age\<close> made of them.\<close>

definition backup_members :: "cap_env \<Rightarrow> backup_io \<Rightarrow> string \<Rightarrow> string \<Rightarrow> (string \<times> string) list" where
  "backup_members env io created token = [(''state.db'', bi_snapshot io), (''token'', token),
     (''manifest.json'', metadata_text (backup_metadata env created (bi_snapshot io) token))]"

definition complete_backup :: "cap_env \<Rightarrow> backup_args \<Rightarrow> backup_io \<Rightarrow> string \<Rightarrow> string \<Rightarrow> string \<Rightarrow> bool" where
  "complete_backup env a io created token data \<longleftrightarrow> data = bi_cipher io (tar_archive (backup_members env io created token))
     \<and> bi_wait io = Inr 0 \<and> snapshot_good io \<and> bi_token io 1 = Inr token
     \<and> (\<forall>i \<in> {1, 2}. validate_mounts (ba_mounts a) (bi_mounts io i) = Inr ())"

lemma rename_run:
  "rename env p q w = (r, w') \<Longrightarrow> (case r of Inl e \<Rightarrow> w_files w' = w_files w
     | Inr u \<Rightarrow> \<exists>n. map_of (w_files w) p = Some n \<and> w_files w' = put q n (AList.delete p (w_files w)))"
  by (auto simp: rename_def sys_def split: option.splits if_splits)

lemma bindC_cases:
  assumes "bindC m f w = (r, w')"
  obtains (first) e where "m w = (Inl e, w')" "r = Inl e"
    | (second) x w1 where "m w = (Inr x, w1)" "f x w1 = (r, w')"
  using assms by (auto simp: bindC_def split: prod.splits sum.splits)

lemma publish_run:
  assumes run: "publish_backup env a io staging partial target token (backup_metadata env created (bi_snapshot io) token) w = (r, w')"
    and data: "data_at (w_files w) (snapshot_path staging) = Some (bi_snapshot io)" and collected: "snapshot_good io" "bi_token io 1 = Inr token"
      "validate_mounts (ba_mounts a) (bi_mounts io 1) = Inr ()"
  shows "case r of
      Inl e \<Rightarrow> unchanged_but {partial} (w_files w) (w_files w')
    | Inr p \<Rightarrow> p = target \<and> unchanged_but {partial, target} (w_files w) (w_files w') \<and> (partial \<noteq> target \<longrightarrow> map_of (w_files w') partial = None)
        \<and> (\<exists>n. map_of (w_files w') target = Some n \<and> complete_backup env a io created token (nd_data n))"
proof -
  let ?m = "backup_metadata env created (bi_snapshot io) token"
  have keep: "unchanged_but {partial} (w_files w) (w_files w1)" if "encrypt_backup env io staging partial token ?m w = (r1, w1)" for r1 w1
    using unchanged_run [OF keeps_encrypt that] by blast
  from run [unfolded publish_backup_def] show ?thesis
  proof (cases rule: bindC_cases)
    case (first e)
    with keep show ?thesis by simp
  next
    case (second u w1)
    note enc = keep [OF second(1)]
    from second(2) show ?thesis
    proof (cases rule: bindC_cases)
      case (first e)
      with enc show ?thesis by simp
    next
      case (second v w2)
      then have w2: "w2 = w1" "validate_mounts (ba_mounts a) (bi_mounts io 2) = Inr ()" by auto
      from second(2) show ?thesis
      proof (cases rule: bindC_cases)
        case (first e)
        with rename_run [OF first(1)] enc w2 show ?thesis by simp
      next
        case (second x w3)
        with rename_run [OF second(1)] w2 obtain n where n: "map_of (w_files w1) partial = Some n"
            "w_files w' = put target n (AList.delete partial (w_files w1))" "r = Inr target" by auto
        have "bi_wait io = Inr 0 \<and> nd_data n = bi_cipher io (tar_archive (backup_members env io created token))"
          using encrypt_Inr [OF \<open>encrypt_backup env io staging partial token ?m w = (Inr u, w1)\<close> data] n(1)
          by (simp add: data_at_def backup_members_def)
        with n enc w2(2) collected show ?thesis
          by (auto simp: complete_backup_def unchanged_but_def delete_conv')
      qed
    qed
  qed
qed

lemma create_new_Inl: "create_new env p w = (Inl e, w') \<Longrightarrow> w_files w' = w_files w"
  by (auto simp: create_new_def sys_def split: option.splits if_splits)

lemma staged_run:
  assumes run: "staged_backup env a io staging partial target created token w = (r, w')"
    and apart: "partial \<noteq> snapshot_path staging"
  shows "case r of
      Inl e \<Rightarrow> e = Diverges \<and> unchanged_but {snapshot_path staging, partial} (w_files w) (w_files w')
        \<or> unchanged_but {snapshot_path staging} (w_files w) (w_files w')
    | Inr (Inl e) \<Rightarrow> unchanged_but {snapshot_path staging, partial} (w_files w) (w_files w')
    | Inr (Inr p) \<Rightarrow> p = target \<and> unchanged_but {snapshot_path staging, partial, target} (w_files w) (w_files w')
        \<and> (partial \<noteq> target \<longrightarrow> map_of (w_files w') partial = None)
        \<and> (\<exists>n. map_of (w_files w') target = Some n \<and> complete_backup env a io created token (nd_data n))"
proof -
  have collect: "unchanged_but {snapshot_path staging} (w_files w) (w_files w1)"
    if "collect_backup env a io staging created token w = (r1, w1)" for r1 w1
    using unchanged_run [OF keeps_collect that] by blast
  from run [unfolded staged_backup_def] show ?thesis
  proof (cases rule: bindC_cases)
    case (first e)
    with collect show ?thesis by simp
  next
    case (second metadata w1)
    note c = collect [OF second(1)] and got = collect_Inr [OF second(1)]
    from second(2) show ?thesis
    proof (cases rule: bindC_cases)
      case (first e)
      with c create_new_Inl [OF first(1)] show ?thesis by simp
    next
      case (second u w2)
      have new: "unchanged_but {partial} (w_files w1) (w_files w2)"
        using unchanged_run [OF unchanged_keep(2) second(1)] by blast
      then have data: "data_at (w_files w2) (snapshot_path staging) = Some (bi_snapshot io)"
        using got apart by (simp add: data_at_def unchanged_but_def)
      from second(2) obtain q where q: "publish_backup env a io staging partial target token metadata w2 = (q, w')"
          "r = (if q = Inl Diverges then Inl Diverges else Inr q)" unfolding attemptC_run by blast
      have meta: "metadata = backup_metadata env created (bi_snapshot io) token" using got by simp
      note p = publish_run [OF q(1) [unfolded meta] data] 
      have both: "unchanged_but Q (w_files w) (w_files w')"
        if "unchanged_but P (w_files w2) (w_files w')" "{snapshot_path staging, partial} \<subseteq> Q" "P \<subseteq> Q" for P Q
      proof -
        have "unchanged_but Q (w_files w) (w_files w1)" "unchanged_but Q (w_files w1) (w_files w2)"
          by (rule unchanged_mono [OF c], use that(2) in simp) (rule unchanged_mono [OF new], use that(2) in simp)
        from unchanged_trans [OF unchanged_trans [OF this] unchanged_mono [OF that(1,3)]] show ?thesis .
      qed
      show ?thesis
      proof (cases q)
        case (Inl e)
        with p got have "unchanged_but {partial} (w_files w2) (w_files w')" by simp
        from both [OF this, of "{snapshot_path staging, partial}"] Inl q(2) show ?thesis by auto
      next
        case (Inr x)
        with p got have "unchanged_but {partial, target} (w_files w2) (w_files w')" by simp
        from both [OF this, of "{snapshot_path staging, partial, target}"] Inr q(2) p got show ?thesis by auto
      qed
    qed
  qed
qed

section \<open>A whole run\<close>

text \<open>The paths a run works with: the staging directory with what is in it, and the partial file.\<close>

definition working :: "backup_args \<Rightarrow> backup_io \<Rightarrow> path set" where
  "working a io = {p. p = staging_path a io \<or> butlast p = staging_path a io \<or> p = partial_path a io}"

lemma in_working [simp]: "staging_path a io \<in> working a io" "staging_path a io @ [n] \<in> working a io" "partial_path a io \<in> working a io"
    "snapshot_path (staging_path a io) \<in> working a io"
  by (simp_all add: working_def snapshot_path_def)

lemma partial_apart: "partial_path a io \<noteq> snapshot_path staging" "partial_path a io \<noteq> staging_path a io"
  by (simp_all add: partial_path_def snapshot_path_def staging_path_def)

lemma startswith_split: "startswith s p \<longleftrightarrow> (\<exists>t. s = p @ t)"
  by (auto simp: startswith_def intro: exI [of _ "drop (length p) s"]) (metis append_take_drop_id)

lemma mkdir_run: "mkdir env p False w = (r, w') \<Longrightarrow> (case r of Inl e \<Rightarrow> w_files w' = w_files w
    | Inr u \<Rightarrow> map_of (w_files w) p = None \<and> w_files w' = put p (fresh env Directory) (w_files w))"
  by (auto simp: mkdir_def sys_def split: option.splits if_splits)

lemma checks_Inr:
  assumes "backup_checks a io = Inr token"
  shows "recipient_ok (ba_recipient a) \<and> bi_token io 0 = Inr token \<and> token \<noteq> [] \<and> validate_mounts (ba_mounts a) (bi_mounts io 0) = Inr ()"
  using assms by (auto simp: backup_checks_def require_Inr_eq)

lemma stamp_Inr:
  assumes "backup_stamp env w = (r, w')"
  shows "w' = w \<and> (\<exists>created name. r = Inr (created, name) \<and> startswith name ''k3s-sqlite-'')"
  using assms by (auto simp: backup_stamp_def Let_def startswith_def)

text \<open>The stages of a run: it ends before the staging directory is made, or \<open>w1\<close>, \<open>w2\<close> and \<open>w3\<close> are the worlds after
  that, after the work in it, and after its removal.\<close>

lemma backup_run:
  assumes "backup env a io w = (r, w')"
  obtains (early) e where "r = Inl e" "w_files w' = w_files w"
  | (work) token created name w1 q w2 where "backup_checks a io = Inr token" "startswith name ''k3s-sqlite-''"
      "map_of (w_files w) (staging_path a io) = None" "w_files w1 = put (staging_path a io) (fresh env Directory) (w_files w)"
      "staged_backup env a io (staging_path a io) (partial_path a io) (ba_destination a @ [name]) created token w1 = (q, w2)"
      "q = Inl Diverges \<and> w' = w2 \<and> r = Inl Diverges
       \<or> q \<noteq> Inl Diverges \<and> (\<exists>c w3. remove_staging env (staging_path a io) w2 = (c, w3)
           \<and> (c = Inl Diverges \<and> w' = w3 \<and> r = Inl Diverges
              \<or> c \<noteq> Inl Diverges \<and> finish_backup env (partial_path a io) q c w3 = (r, w')))"
  using assms [unfolded backup_def]
proof (cases rule: bindC_cases)
  case (first e)
  then show ?thesis using early by simp
next
  case (second token w0)
  then have token: "backup_checks a io = Inr token" "w0 = w" by simp_all
  from second(2) show ?thesis
  proof (cases rule: bindC_cases)
    case (first e)
    with stamp_Inr show ?thesis by blast
  next
    case (second st w1)
    with stamp_Inr token(2) obtain created name where st: "st = (created, name)" "startswith name ''k3s-sqlite-''" "w1 = w" by blast
    from second(2) [unfolded st prod.case Let_def] show ?thesis
    proof (cases rule: bindC_cases)
      case (first e)
      with mkdir_run [OF first(1)] st(3) early show ?thesis by simp
    next
      case (second u w2)
      note dir = mkdir_run [OF second(1), unfolded st(3), simplified]
      from second(2) show ?thesis
      proof (cases rule: bindC_cases)
        case (first e)
        with work [OF token(1) st(2) _ _ _] dir show ?thesis unfolding attemptC_run by (auto split: if_splits)
      next
        case (second q w3)
        then have q: "staged_backup env a io (staging_path a io) (partial_path a io) (ba_destination a @ [name]) created token w2 = (q, w3)"
            "q \<noteq> Inl Diverges" unfolding attemptC_run by (auto split: if_splits)
        from second(2) show ?thesis
        proof (cases rule: bindC_cases)
          case (first e)
          with work [OF token(1) st(2) _ _ q(1)] dir q(2) show ?thesis unfolding attemptC_run by (auto split: if_splits)
        next
          case (second c w4)
          with work [OF token(1) st(2) _ _ q(1)] dir q(2) show ?thesis unfolding attemptC_run by (auto split: if_splits)
        qed
      qed
    qed
  qed
qed

lemma remove_unchanged:
  assumes "remove_staging env staging w = (r, w')"
  shows "unchanged_but {p. p = staging \<or> butlast p = staging} (w_files w) (w_files w')"
  by (rule unchanged_run [OF keeps_remove_staging assms]) simp_all

lemma finish_unchanged:
  assumes "finish_backup env partial q c w = (r, w')"
  shows "unchanged_but {partial} (w_files w) (w_files w')"
proof -
  have "keeps (unchanged_but {partial} fs) (unlink_missing_ok env partial)" for fs
    by (intro keeps_unlink_missing unchanged_keep) simp
  then have "keeps (unchanged_but {partial} fs) (finish_backup env partial q c)" for fs
    unfolding finish_backup_def by (intro keep_rule) (auto simp: keeps_simple split: sum.split)
  from unchanged_run [where m = "finish_backup env partial q c", OF this assms] show ?thesis .
qed

lemma after_staged:
  assumes "q = Inl Diverges \<and> w' = w2 \<and> r = Inl Diverges
     \<or> q \<noteq> Inl Diverges \<and> (\<exists>c w3. remove_staging env (staging_path a io) w2 = (c, w3)
         \<and> (c = Inl Diverges \<and> w' = w3 \<and> r = Inl Diverges
            \<or> c \<noteq> Inl Diverges \<and> finish_backup env (partial_path a io) q c w3 = (r, w')))"
  shows "unchanged_but (working a io) (w_files w2) (w_files w')"
proof -
  have sub: "{p. p = staging_path a io \<or> butlast p = staging_path a io} \<subseteq> working a io" "{partial_path a io} \<subseteq> working a io"
    by (auto simp: working_def)
  from assms show ?thesis
    using unchanged_mono [OF remove_unchanged sub(1)] unchanged_mono [OF finish_unchanged sub(2)] unchanged_trans by (metis unchanged_refl)
qed

lemma main_run:
  assumes "backup_main env a io w = (r, w')"
  shows "\<exists>q. backup env a io w = (q, w') \<and> (case q of
      Inr p \<Rightarrow> r = Inr (''backup created: '' @ root_text p, 0)
    | Inl e \<Rightarrow> r = Inl e \<or> e \<noteq> Diverges \<and> (\<exists>m. r = Inr (m, 1)))"
  using assms
  by (cases "backup env a io w") (auto simp: backup_main_def catchC_def bindC_def liftC_def split: sum.splits if_splits)

lemma main_ok: "backup_main env a io w = (Inr (m, 0), w') \<Longrightarrow> \<exists>p. backup env a io w = (Inr p, w') \<and> m = ''backup created: '' @ root_text p"
  by (drule main_run, elim exE conjE) (case_tac q; simp del: append_Cons; blast)

lemma main_failed: "backup_main env a io w = (Inr (m, 1), w') \<Longrightarrow> \<exists>e. backup env a io w = (Inl e, w') \<and> e \<noteq> Diverges"
  by (drule main_run, elim exE conjE) (case_tac q; simp del: append_Cons; blast)

text \<open>What is known of a file that appeared.\<close>

definition published :: "cap_env \<Rightarrow> backup_args \<Rightarrow> backup_io \<Rightarrow> files \<Rightarrow> path \<Rightarrow> bool" where
  "published env a io fs p \<longleftrightarrow> (\<exists>name. p = ba_destination a @ [''k3s-sqlite-'' @ name])
     \<and> (\<exists>created token n. map_of fs p = Some n \<and> backup_checks a io = Inr token \<and> complete_backup env a io created token (nd_data n))"

lemma staged_effect:
  assumes run: "staged_backup env a io (staging_path a io) (partial_path a io) (ba_destination a @ [name]) created token w = (q, w')"
    and token: "backup_checks a io = Inr token" and name: "startswith name ''k3s-sqlite-''"
  shows "(case q of Inr (Inr p) \<Rightarrow> p = ba_destination a @ [name] \<and> unchanged_but (insert p (working a io)) (w_files w) (w_files w')
        \<and> map_of (w_files w') (partial_path a io) = None \<and> published env a io (w_files w') p
    | _ \<Rightarrow> unchanged_but (working a io) (w_files w) (w_files w'))"
proof -
  have sub: "{snapshot_path (staging_path a io)} \<subseteq> working a io" "{snapshot_path (staging_path a io), partial_path a io} \<subseteq> working a io"
      "{snapshot_path (staging_path a io), partial_path a io, p} \<subseteq> insert p (working a io)" for p by auto
  have neq: "partial_path a io \<noteq> ba_destination a @ [name]" using name by (auto simp: partial_path_def startswith_def)
  from staged_run [OF run partial_apart(1)] show ?thesis
    using unchanged_mono [OF _ sub(1)] unchanged_mono [OF _ sub(2)] unchanged_mono [OF _ sub(3)] neq token
      name [unfolded startswith_split]
    by (auto simp: published_def split: sum.splits)
qed

lemma changed_is_published:
  assumes run: "backup env a io w = (r, w')" and p: "p \<notin> working a io" "map_of (w_files w') p \<noteq> map_of (w_files w) p"
  shows "published env a io (w_files w') p"
  using run
proof (cases rule: backup_run)
  case (early e)
  with p show ?thesis by simp
next
  case (work token created name w1 q w2)
  have "map_of (w_files w1) p = map_of (w_files w) p" using work(4) p(1) by auto
  moreover have after: "map_of (w_files w') p = map_of (w_files w2) p" using after_staged [OF work(6)] p(1) by (simp add: unchanged_but_def)
  ultimately have "map_of (w_files w2) p \<noteq> map_of (w_files w1) p" using p(2) by simp
  with staged_effect [OF work(5,1,2)] p(1) have "published env a io (w_files w2) p"
    by (cases "p = ba_destination a @ [name]") (auto simp: unchanged_but_def split: sum.splits)
  with after show ?thesis by (simp add: published_def)
qed

text \<open>
  Property C12.  Only complete backups are published: wherever a run fails or is killed, a file that appeared or changed
  outside the staging directory and the partial file is in the destination and holds what \<open>age\<close> made, with exit
  code 0 and for a valid recipient, of an archive of the snapshot that SQLite found intact, of the token, which was
  not empty and the same after the snapshot, and of their manifest; the mounts were right at all three looks; and the archive
  unpacks to exactly these three members, if they are smaller than 8 GiB.
\<close>

theorem published_backup_is_complete:
  assumes "backup_main env a io w = (r, w')" and "p \<notin> working a io" and "map_of (w_files w') p \<noteq> map_of (w_files w) p"
  shows "\<exists>name created token n. p = ba_destination a @ [''k3s-sqlite-'' @ name] \<and> map_of (w_files w') p = Some n
    \<and> nd_data n = bi_cipher io (tar_archive (backup_members env io created token)) \<and> bi_wait io = Inr 0 \<and> recipient_ok (ba_recipient a)
    \<and> bi_backed io = Inr () \<and> bi_integrity io = Inr [''ok''] \<and> token \<noteq> [] \<and> (\<forall>i \<in> {0, 1}. bi_token io i = Inr token)
    \<and> (\<forall>i \<in> {0, 1, 2}. validate_mounts (ba_mounts a) (bi_mounts io i) = Inr ())
    \<and> ((\<forall>m \<in> set (backup_members env io created token). length (snd m) < 8 ^ 11) \<longrightarrow>
         untar (tar_archive (backup_members env io created token)) = Some (backup_members env io created token))"
proof -
  obtain q where "backup env a io w = (q, w')" using main_run [OF assms(1)] by blast
  from changed_is_published [OF this assms(2,3)] obtain name created token n where n: "p = ba_destination a @ [''k3s-sqlite-'' @ name]"
      "map_of (w_files w') p = Some n" "backup_checks a io = Inr token" "complete_backup env a io created token (nd_data n)"
    unfolding published_def by blast
  have "untar (tar_archive (backup_members env io created token)) = Some (backup_members env io created token)"
    if "\<forall>m \<in> set (backup_members env io created token). length (snd m) < 8 ^ 11"
    using that by (intro untar_archive) (auto simp: backup_members_def)
  then show ?thesis using n checks_Inr [OF n(3)] unfolding complete_backup_def snapshot_good_def
    by (intro exI [of _ name] exI [of _ created] exI [of _ token] exI [of _ n]) auto
qed

section \<open>What a run leaves behind\<close>

lemma children_members: "set (children fs d) = {n. map_of fs (d @ [n]) \<noteq> None}"
proof -
  have "n \<in> set (children fs d) \<longleftrightarrow> d @ [n] \<in> fst ` set fs" for n
    by (auto simp: children_def image_iff) (metis append_butlast_last_id fst_conv, force)
  then show ?thesis by (auto simp: map_of_eq_None_iff)
qed

lemma children_empty: "children fs d = [] \<longleftrightarrow> (\<forall>n. map_of fs (d @ [n]) = None)"
  using children_members [of fs d] by (auto simp flip: set_empty)

lemma rmdir_Inr: "rmdir env p w = (Inr u, w') \<Longrightarrow> children (w_files w) p = [] \<and> w_files w' = AList.delete p (w_files w)"
  by (auto simp: rmdir_def sys_def split: option.splits if_splits)

lemma remove_Inr:
  assumes "remove_staging env staging w = (Inr u, w')"
  shows "map_of (w_files w') staging = None \<and> (\<forall>n. map_of (w_files w') (staging @ [n]) = None)"
proof -
  obtain w1 u1 where "rmdir env staging w1 = (Inr u1, w')" using assms unfolding remove_staging_def by auto
  from rmdir_Inr [OF this] show ?thesis by (auto simp: children_empty delete_conv')
qed

lemma target_apart: "staging_path a io \<noteq> ba_destination a \<Longrightarrow> p = ba_destination a @ [''k3s-sqlite-'' @ name]
    \<Longrightarrow> p \<notin> working a io"
  by (auto simp: working_def staging_path_def partial_path_def)

text \<open>
  Property C17.  A run that reports success prints the path of a complete backup and leaves nothing else: the staging directory
  with all it held and the partial file are gone, and every other path is as it was.
\<close>

theorem finished_backup_is_alone:
  assumes run: "backup_main env a io w = (Inr (m, 0), w')" and there: "map_of (w_files w) (ba_destination a) \<noteq> None"
  shows "\<exists>p. m = ''backup created: '' @ root_text p \<and> published env a io (w_files w') p
    \<and> unchanged_but (insert p (working a io)) (w_files w) (w_files w') \<and> (\<forall>q \<in> working a io. map_of (w_files w') q = None)"
proof -
  obtain p where p: "backup env a io w = (Inr p, w')" "m = ''backup created: '' @ root_text p"
    using main_ok [OF run] by blast
  from p(1) show ?thesis
  proof (cases rule: backup_run)
    case (work token created name w1 q w2)
    from work(6) obtain c where c: "remove_staging env (staging_path a io) w2 = (Inr c, w')" "q = Inr (Inr p)"
      by (auto simp: finish_backup_def split: sum.splits)
    have apart: "staging_path a io \<noteq> ba_destination a" using there work(3) by auto
    from staged_effect [OF work(5,1,2)] c(2) have e: "p = ba_destination a @ [name]" "published env a io (w_files w2) p"
        "unchanged_but (insert p (working a io)) (w_files w1) (w_files w2)" "map_of (w_files w2) (partial_path a io) = None" by auto
    note kept = remove_unchanged [OF c(1)] and gone = remove_Inr [OF c(1)]
    obtain rest where "p = ba_destination a @ [''k3s-sqlite-'' @ rest]" using e(2) unfolding published_def by blast
    with apart have "p \<notin> working a io" by (intro target_apart) simp_all
    then have "map_of (w_files w') p = map_of (w_files w2) p" using kept by (auto simp: unchanged_but_def working_def)
    with e(2) have published: "published env a io (w_files w') p" by (simp add: published_def)
    have "partial_path a io \<noteq> staging_path a io" "butlast (partial_path a io) \<noteq> staging_path a io"
      using apart by (simp_all add: partial_apart) (simp add: partial_path_def)
    with kept e(4) have partial: "map_of (w_files w') (partial_path a io) = None" by (simp add: unchanged_but_def)
    have none: "map_of (w_files w') q = None" if "q \<in> working a io" for q
    proof (cases "butlast q = staging_path a io")
      case True
      then have "q \<noteq> []" by (auto simp: staging_path_def)
      with True have "q = staging_path a io @ [last q]" by (metis append_butlast_last_id)
      with gone show ?thesis by metis
    next
      case False
      with that gone partial show ?thesis by (auto simp: working_def)
    qed
    have "unchanged_but (insert p (working a io)) (w_files w) (w_files w1)" using work(4) by (simp add: unchanged_but_def)
    moreover have "unchanged_but (insert p (working a io)) (w_files w2) (w_files w')"
      using kept by (rule unchanged_mono) (auto simp: working_def)
    ultimately have "unchanged_but (insert p (working a io)) (w_files w) (w_files w')" using e(3) unchanged_trans by metis
    with p(2) published none show ?thesis by blast
  qed simp
qed

text \<open>Every file among \<open>S\<close> is regular.\<close>

definition regular :: "path set \<Rightarrow> files \<Rightarrow> bool" where
  "regular S fs \<longleftrightarrow> (\<forall>p n. p \<in> S \<longrightarrow> map_of fs p = Some n \<longrightarrow> nd_kind n = Regular)"

lemma keeps_regular:
  "keeps (regular S) (open_create env p)" "keeps (regular S) (create_new env p)" "keeps (regular S) (write_file env p s)"
  "q \<notin> S \<Longrightarrow> keeps (regular S) (rename env p q)"
proof -
  show "keeps (regular S) (open_create env p)" "keeps (regular S) (create_new env p)"
    unfolding open_create_def create_new_def
    by (rule safe_sys; auto simp: regular_def fresh_def split: option.splits if_splits)+
  show "keeps (regular S) (write_file env p s)"
    by (auto simp: safe_def write_file_def set_data_def regular_def Let_def split: option.splits)
  show "keeps (regular S) (rename env p q)" if "q \<notin> S"
    unfolding rename_def by (rule safe_sys) (use that in \<open>auto simp: regular_def delete_conv' split: option.splits if_splits\<close>)
qed

lemma staged_regular:
  assumes "target \<notin> S"
  shows "keeps (regular S) (staged_backup env a io staging partial target created token)"
  unfolding staged_backup_def collect_backup_def snapshot_sqlite_def publish_backup_def encrypt_backup_def
  by (intro keep_rule keeps_regular assms)

lemma remove_quiet:
  assumes calm: "\<And>n. ev_fault env n = None" and dir: "map_of (w_files w) staging = Some d" "nd_kind d = Directory"
    and only: "\<And>n. map_of (w_files w) (staging @ [n]) \<noteq> None \<Longrightarrow> n = ''state.db''" and reg: "regular {snapshot_path staging} (w_files w)"
  shows "\<exists>w'. remove_staging env staging w = (Inr (), w')"
proof -
  obtain fs k where w: "w = \<lparr>w_files = fs, w_step = k\<rparr>" by (cases w)
  have list: "iterdir env staging w = (Inr (children fs staging), \<lparr>w_files = fs, w_step = Suc k\<rparr>)"
    using calm dir by (simp add: iterdir_def sys_def kind_at_def followed_def w)
  have "set (children fs staging) \<subseteq> {''state.db''}" using only by (auto simp: children_members w)
  moreover have "distinct (children fs staging)" by (simp add: children_def)
  ultimately consider "children fs staging = []" | "children fs staging = [''state.db'']"
    by (cases "children fs staging"; cases "tl (children fs staging)") auto
  then show ?thesis
  proof cases
    case 1
    then have "rmdir env staging \<lparr>w_files = fs, w_step = Suc k\<rparr> = (Inr (), \<lparr>w_files = AList.delete staging fs, w_step = Suc (Suc k)\<rparr>)"
      using calm dir by (simp add: rmdir_def sys_def w)
    with 1 list show ?thesis unfolding remove_staging_def by (simp add: bindC_def liftC_def del: bindC_Inr liftC_eq)
  next
    case 2
    have "''state.db'' \<in> set (children fs staging)" unfolding 2 by simp
    then obtain n where n: "map_of fs (snapshot_path staging) = Some n" unfolding children_members snapshot_path_def by blast
    define fs' where "fs' = AList.delete (snapshot_path staging) fs"
    have "nd_kind n = Regular" using reg n by (simp add: regular_def w)
    then have "unlink env (snapshot_path staging) \<lparr>w_files = fs, w_step = Suc k\<rparr> = (Inr (), \<lparr>w_files = fs', w_step = Suc (Suc k)\<rparr>)"
      using calm n by (simp add: unlink_def sys_def fs'_def)
    then have one: "unlink_missing_ok env (staging @ [''state.db'']) \<lparr>w_files = fs, w_step = Suc k\<rparr>
        = (Inr (), \<lparr>w_files = fs', w_step = Suc (Suc k)\<rparr>)"
      by (simp add: unlink_missing_ok_def catchC_def snapshot_path_def)
    have "children fs' staging = []"
    proof -
      have "map_of fs (staging @ [n]) = None" if "n \<noteq> ''state.db''" for n
        using only [of n] that by (cases "map_of fs (staging @ [n])") (simp_all add: w)
      then show ?thesis by (auto simp: children_empty fs'_def delete_conv' snapshot_path_def)
    qed
    moreover have "map_of fs' staging = Some d" using dir by (simp add: fs'_def delete_conv' snapshot_path_def w)
    ultimately have "rmdir env staging \<lparr>w_files = fs', w_step = Suc (Suc k)\<rparr> = (Inr (), \<lparr>w_files = AList.delete staging fs', w_step = Suc (Suc (Suc k))\<rparr>)"
      using calm dir by (simp add: rmdir_def sys_def)
    with 2 list one show ?thesis unfolding remove_staging_def by (simp add: bindC_def liftC_def del: bindC_Inr liftC_eq)
  qed
qed

lemma unlink_missing_quiet:
  assumes "\<And>n. ev_fault env n = None" and "regular {p} (w_files w)"
  shows "\<exists>w'. unlink_missing_ok env p w = (Inr (), w') \<and> map_of (w_files w') = (map_of (w_files w))(p := None)"
proof (cases "map_of (w_files w) p")
  case None
  then show ?thesis using assms(1) by (auto simp: unlink_missing_ok_def unlink_def sys_def catchC_def liftC_def)
next
  case (Some n)
  then show ?thesis using assms
    by (auto simp: unlink_missing_ok_def unlink_def sys_def catchC_def liftC_def regular_def delete_conv')
qed

text \<open>
  Property C16.  A run that reports a failure, because of an answer it got and not because a call on its own files failed,
  leaves no trace: every path is as it was before.
\<close>

theorem failed_backup_leaves_no_trace:
  assumes run: "backup_main env a io w = (Inr (m, 1), w')" and calm: "\<And>n. ev_fault env n = None"
    and there: "map_of (w_files w) (ba_destination a) \<noteq> None" and new: "\<And>p. p \<in> working a io \<Longrightarrow> map_of (w_files w) p = None"
  shows "map_of (w_files w') p = map_of (w_files w) p"
proof -
  obtain e where e: "backup env a io w = (Inl e, w')" "e \<noteq> Diverges" using main_failed [OF run] by blast
  from e(1) show ?thesis
  proof (cases rule: backup_run)
    case (work token created name w1 q w2)
    define staging where "staging = staging_path a io"
    define partial where "partial = partial_path a io"
    define target where "target = ba_destination a @ [name]"
    note run2 = work(5) [folded staging_def partial_def target_def]
    have apart: "staging \<noteq> ba_destination a" using there work(3) by (auto simp: staging_def)
    have names: "partial \<noteq> snapshot_path staging" "partial \<noteq> staging" "butlast partial \<noteq> staging" "staging \<noteq> snapshot_path staging"
        "target \<noteq> snapshot_path staging" "target \<noteq> partial" "target \<noteq> staging" "butlast target \<noteq> staging"
      using apart work(2) by (auto simp: partial_def staging_def target_def partial_apart partial_path_def staging_path_def snapshot_path_def startswith_split)
    have w1: "map_of (w_files w1) = (map_of (w_files w))(staging \<mapsto> fresh env Directory)" using work(4) by (simp add: staging_def)
    have q: "q \<noteq> Inl Diverges" using work(6) e by auto
    have "regular {snapshot_path staging, partial} (w_files w1)"
      using w1 names new by (auto simp: regular_def staging_def partial_def)
    then have reg: "regular {snapshot_path staging, partial} (w_files w2)"
      using staged_regular [of target "{snapshot_path staging, partial}"] run2 names unfolding safe_def by blast
    have changed: "unchanged_but {snapshot_path staging, partial, target} (w_files w1) (w_files w2)"
      using staged_run [OF run2 names(1)] unchanged_mono [of _ "w_files w1" "w_files w2" "{snapshot_path staging, partial, target}"]
      by (auto split: sum.splits)
    have dir: "map_of (w_files w2) staging = Some (fresh env Directory)"
      using changed w1 names by (simp add: unchanged_but_def)
    have only: "n = ''state.db''" if "map_of (w_files w2) (staging @ [n]) \<noteq> None" for n
    proof (rule ccontr)
      assume "n \<noteq> ''state.db''"
      then have "staging @ [n] \<notin> {snapshot_path staging, partial, target}" using names by (auto simp: snapshot_path_def)
      with changed have "map_of (w_files w2) (staging @ [n]) = map_of (w_files w1) (staging @ [n])" unfolding unchanged_but_def by blast
      also have "\<dots> = None" using w1 new [of "staging @ [n]"] by (simp add: staging_def)
      finally show False using that by simp
    qed
    obtain w3 where rm: "remove_staging env staging w2 = (Inr (), w3)"
      using remove_quiet [OF calm dir _ only] reg by (auto simp: fresh_def regular_def)
    with work(6) q e(2) have fin: "finish_backup env partial q (Inr ()) w3 = (Inl e, w')"
      by (auto simp: staging_def partial_def)
    note gone = remove_Inr [OF rm] and kept = remove_unchanged [OF rm]
    have kept_at: "map_of (w_files w3) p = map_of (w_files w2) p" if "p \<noteq> staging" "butlast p \<noteq> staging" for p
      using kept that by (simp add: unchanged_but_def)
    have none: "map_of (w_files w) staging = None" "map_of (w_files w) (snapshot_path staging) = None" "map_of (w_files w) partial = None"
      using new by (simp_all add: staging_def partial_def)
    have same: "map_of (w_files w3) p = map_of (w_files w) p" if "unchanged_but {snapshot_path staging, partial} (w_files w1) (w_files w2)"
        "p \<noteq> partial" for p
    proof (cases "p = staging \<or> butlast p = staging")
      case True
      then have "p = staging \<or> p = staging @ [last p]" using names(4) by (metis append_butlast_last_id butlast.simps(1) snapshot_path_def self_append_conv2 append_Nil)
      with gone have "map_of (w_files w3) p = None" by metis
      moreover have "map_of (w_files w) p = None" using True new [of p] by (auto simp: working_def staging_def)
      ultimately show ?thesis by simp
    next
      case False
      then have "p \<noteq> snapshot_path staging" by (auto simp: snapshot_path_def)
      with False that kept_at [of p] w1 show ?thesis by (auto simp: unchanged_but_def)
    qed
    show ?thesis
    proof (cases q)
      case (Inl x)
      with fin have "w' = w3" by (auto simp: finish_backup_def bindC_def liftC_def)
      moreover have "unchanged_but {snapshot_path staging} (w_files w1) (w_files w2)" using staged_run [OF run2 names(1)] Inl q by auto
      moreover from this have "unchanged_but {snapshot_path staging, partial} (w_files w1) (w_files w2)" by (auto simp: unchanged_but_def)
      moreover have "map_of (w_files w3) partial = map_of (w_files w) partial" if "unchanged_but {snapshot_path staging} (w_files w1) (w_files w2)"
        using kept_at [OF names(2,3)] that names w1 by (simp add: unchanged_but_def)
      ultimately show ?thesis using same by (cases "p = partial") auto
    next
      case (Inr y)
      show ?thesis
      proof (cases y)
        case (Inl e')
        have "regular {partial} (w_files w3)" using reg kept_at [OF names(2,3)] by (simp add: regular_def)
        then obtain w4 where "unlink_missing_ok env partial w3 = (Inr (), w4)" "map_of (w_files w4) = (map_of (w_files w3))(partial := None)"
          using unlink_missing_quiet [OF calm] by blast
        with fin Inr Inl have "map_of (w_files w') = (map_of (w_files w3))(partial := None)"
          by (auto simp: finish_backup_def bindC_def liftC_def)
        moreover have "unchanged_but {snapshot_path staging, partial} (w_files w1) (w_files w2)"
          using staged_run [OF run2 names(1)] Inr Inl by auto
        ultimately show ?thesis using same none by (cases "p = partial") auto
      next
        case (Inr p')
        with fin \<open>q = Inr y\<close> show ?thesis by (auto simp: finish_backup_def bindC_def liftC_def)
      qed
    qed
  qed simp
qed

section \<open>Examples\<close>

definition sample_mounts :: mounts_io where
  "sample_mounts = \<lparr>mi_source = Inr [''data''], mi_expected_source = Inr [''data''], mi_destination = Inr [''dest''],
     mi_expected_destination = Inr [''dest''],
     mi_mountinfo = Inr (''1 0 8:1 / / rw - ext4 /dev/r rw'' @ [CHR 0x0A] @ ''2 1 8:1 / /data rw - ext4 /dev/a rw'' @ [CHR 0x0A]
       @ ''3 1 0:5 / /dest rw - nfs4 b:/c rw''),
     mi_source_dev = Inr 1, mi_destination_dev = Inr 2\<rparr>"

definition sample_args :: backup_args where
  "sample_args = \<lparr>ba_recipient = ''age1x'', ba_data = [''data''], ba_destination = [''dest''],
     ba_mounts = \<lparr>ma_source_fstype = ''ext4'', ma_source_source = ''/dev/a'', ma_destination_fstype = ''nfs4'',
       ma_destination_source = ''b:/c'', ma_distinct = True\<rparr>\<rparr>"

text \<open>\<open>age\<close> ends with the exit code.\<close>

definition sample_io :: "int \<Rightarrow> backup_io" where
  "sample_io code = \<lparr>bi_data_dir = Inr True, bi_data_link = Inr False, bi_destination_dir = Inr True, bi_destination_link = Inr False,
     bi_db_file = Inr True, bi_token_file = Inr True, bi_db_link = Inr False, bi_token_link = Inr False, bi_mounts = (\<lambda>_. sample_mounts),
     bi_age = True, bi_token = (\<lambda>_. Inr ''t''), bi_staging = ''s'', bi_partial = ''p'', bi_open = Inr (), bi_snapshot = ''db'',
     bi_backed = Inr (), bi_integrity = Inr [''ok''], bi_start = Inr (), bi_cipher = (\<lambda>s. s), bi_wait = Inr code\<rparr>"

definition sample_env :: cap_env where
  "sample_env = \<lparr>ev_fault = (\<lambda>_. None), ev_torn = (\<lambda>_. 0), ev_clock = (\<lambda>_. ([], 0)), ev_mtime = (\<lambda>_. 0), ev_uuid = (\<lambda>_. ''0''),
     ev_uid = 0, ev_sha = (\<lambda>s. s), ev_float = (\<lambda>_. FNaN), ev_class = (\<lambda>_. ''RuntimeError'')\<rparr>"

definition sample_files :: files where
  "sample_files = [([''data''], fresh sample_env Directory), ([''dest''], fresh sample_env Directory)]"

lemma sample_valid: "validate_mounts (ba_mounts sample_args) sample_mounts = Inr ()"
  by code_simp

lemma sample_checks: "backup_checks sample_args (sample_io code) = Inr ''t''"
proof -
  have "recipient_ok ''age1x''" by code_simp
  with sample_valid show ?thesis
    by (simp add: backup_checks_def not_or_def sample_io_def) (simp add: sample_args_def)
qed

lemma sample_paths: "staging_path sample_args (sample_io code) = [''data'', ''.sqlite-backup-s'']"
    "partial_path sample_args (sample_io code) = [''dest'', ''.k3s-sqlite-p.partial'']" "ba_destination sample_args = [''dest'']"
    "snapshot_path [''data'', ''.sqlite-backup-s''] = [''data'', ''.sqlite-backup-s'', ''state.db'']"
  by (simp_all add: staging_path_def partial_path_def snapshot_path_def sample_args_def sample_io_def)

lemma sample_answers: "bi_mounts (sample_io code) i = sample_mounts" "bi_token (sample_io code) i = Inr ''t''" "bi_open (sample_io code) = Inr ()"
    "bi_snapshot (sample_io code) = ''db''" "bi_backed (sample_io code) = Inr ()" "bi_integrity (sample_io code) = Inr [''ok'']"
    "bi_start (sample_io code) = Inr ()" "bi_wait (sample_io code) = Inr code" "bi_cipher (sample_io code) s = s"
  by (simp_all add: sample_io_def)

lemma sample_calm: "ev_fault sample_env n = None"
  by (simp add: sample_env_def)

lemmas calls = bindC_def liftC_def catchC_def sys_def mkdir_def open_create_def write_file_def set_data_def read_bytes_def look_def
  quiet_def create_new_def rename_def iterdir_def unlink_def rmdir_def in_directory_def kind_at_def followed_def

lemma sample_run:
  "\<exists>name w'. backup_main sample_env sample_args (sample_io code) \<lparr>w_files = sample_files, w_step = 0\<rparr>
      = (Inr (if code = 0 then (''backup created: '' @ root_text [''dest'', ''k3s-sqlite-'' @ name], 0) else (''backup failed: RuntimeError'', 1)), w')
    \<and> (code = 0 \<longrightarrow> map_of (w_files w') [''dest'', ''k3s-sqlite-'' @ name] \<noteq> None)"
proof -
  define d where "d = fresh sample_env Directory"
  define f where "f = fresh sample_env Regular"
  have kind: "nd_kind d = Directory" "nd_kind f = Regular" by (simp_all add: d_def f_def fresh_def)
  define created where "created = filter (\<lambda>c. c \<notin> set ''-:'') (iso_text 0)"
  define name where "name = created @ ''-'' @ take 12 ''0'' @ ''.tar.age''"
  define target where "target = ''k3s-sqlite-'' @ name"
  have stamp: "backup_stamp sample_env w = (Inr (created, target), w)" for w
    by (simp add: backup_stamp_def created_def name_def target_def sample_env_def Let_def)
  define snap where "snap = f\<lparr>nd_data := ''db''\<rparr>"
  define base where "base = [([''data''], d), ([''dest''], d)]"
  define fs1 where "fs1 = base @ [([''data'', ''.sqlite-backup-s''], d)]"
  define fs2 where "fs2 = fs1 @ [([''data'', ''.sqlite-backup-s'', ''state.db''], snap)]"
  define full where "full = f\<lparr>nd_data := tar_archive [(''state.db'', ''db''), (''token'', ''t''),
      (''manifest.json'', metadata_text (backup_metadata sample_env created ''db'' ''t''))]\<rparr>"
  have start: "sample_files = base" by (simp add: sample_files_def base_def d_def)
  have mk: "mkdir sample_env [''data'', ''.sqlite-backup-s''] False \<lparr>w_files = base, w_step = 0\<rparr> = (Inr (), \<lparr>w_files = fs1, w_step = Suc 0\<rparr>)"
    using kind by (simp add: calls sample_calm base_def fs1_def put_def flip: d_def)
  have collect: "collect_backup sample_env sample_args (sample_io code) [''data'', ''.sqlite-backup-s''] created ''t'' \<lparr>w_files = fs1, w_step = Suc 0\<rparr>
      = (Inr (backup_metadata sample_env created ''db'' ''t''), \<lparr>w_files = fs2, w_step = 4\<rparr>)"
    using kind
    by (simp add: collect_backup_def snapshot_sqlite_def calls sample_calm sample_paths sample_answers sample_valid base_def fs1_def fs2_def snap_def
        Let_def require_def put_def flip: d_def f_def del: bindC_Inr liftC_eq)
  have new: "create_new sample_env [''dest'', ''.k3s-sqlite-p.partial''] \<lparr>w_files = fs2, w_step = 4\<rparr>
      = (Inr (), \<lparr>w_files = fs2 @ [([''dest'', ''.k3s-sqlite-p.partial''], f)], w_step = 5\<rparr>)"
    using kind by (simp add: calls sample_calm base_def fs1_def fs2_def put_def flip: f_def)
  have encrypt: "encrypt_backup sample_env (sample_io code) [''data'', ''.sqlite-backup-s''] [''dest'', ''.k3s-sqlite-p.partial''] ''t''
        (backup_metadata sample_env created ''db'' ''t'') \<lparr>w_files = fs2 @ [([''dest'', ''.k3s-sqlite-p.partial''], f)], w_step = 5\<rparr>
      = (if code = 0 then Inr () else Inl (RuntimeError ''age encryption failed''),
         \<lparr>w_files = fs2 @ [([''dest'', ''.k3s-sqlite-p.partial''], full)], w_step = (if code = 0 then 11 else 8)\<rparr>)"
    using kind
    by (simp add: encrypt_backup_def calls sample_calm sample_paths sample_answers base_def fs1_def fs2_def snap_def full_def Let_def require_def put_def
        del: bindC_Inr liftC_eq)
  have rename: "rename sample_env [''dest'', ''.k3s-sqlite-p.partial''] [''dest'', target]
        \<lparr>w_files = fs2 @ [([''dest'', ''.k3s-sqlite-p.partial''], full)], w_step = 11\<rparr>
      = (Inr (), \<lparr>w_files = fs2 @ [([''dest'', target], full)], w_step = 12\<rparr>)"
    using kind by (simp add: calls sample_calm base_def fs1_def fs2_def put_def target_def)
  have remove: "remove_staging sample_env [''data'', ''.sqlite-backup-s''] \<lparr>w_files = fs2 @ [([''dest'', x], n)], w_step = k\<rparr>
      = (Inr (), \<lparr>w_files = base @ [([''dest'', x], n)], w_step = Suc (Suc (Suc k))\<rparr>)" for x n k
    using kind
    by (simp add: remove_staging_def unlink_missing_ok_def children_def calls sample_calm base_def fs1_def fs2_def snap_def del: bindC_Inr liftC_eq)
  have drop: "unlink_missing_ok sample_env [''dest'', x] \<lparr>w_files = base @ [([''dest'', x], full)], w_step = k\<rparr>
      = (Inr (), \<lparr>w_files = base, w_step = Suc k\<rparr>)" for x k
    using kind by (simp add: unlink_missing_ok_def calls sample_calm base_def full_def)
  note [simp del] = bindC_Inr liftC_eq
  note monad = bindC_def liftC_def catchC_def attemptC_def
  define failure where "failure = RuntimeError ''age encryption failed''"
  have publish: "publish_backup sample_env sample_args (sample_io code) [''data'', ''.sqlite-backup-s''] [''dest'', ''.k3s-sqlite-p.partial'']
        [''dest'', target] ''t'' (backup_metadata sample_env created ''db'' ''t'')
        \<lparr>w_files = fs2 @ [([''dest'', ''.k3s-sqlite-p.partial''], f)], w_step = 5\<rparr>
      = (if code = 0 then (Inr [''dest'', target], \<lparr>w_files = fs2 @ [([''dest'', target], full)], w_step = 12\<rparr>)
         else (Inl failure, \<lparr>w_files = fs2 @ [([''dest'', ''.k3s-sqlite-p.partial''], full)], w_step = 8\<rparr>))"
    by (simp add: publish_backup_def monad encrypt rename sample_answers sample_valid failure_def)
  have staged: "attemptC (staged_backup sample_env sample_args (sample_io code) [''data'', ''.sqlite-backup-s''] [''dest'', ''.k3s-sqlite-p.partial'']
        [''dest'', target] created ''t'') \<lparr>w_files = fs1, w_step = Suc 0\<rparr>
      = (if code = 0 then (Inr (Inr (Inr [''dest'', target])), \<lparr>w_files = fs2 @ [([''dest'', target], full)], w_step = 12\<rparr>)
         else (Inr (Inr (Inl failure)), \<lparr>w_files = fs2 @ [([''dest'', ''.k3s-sqlite-p.partial''], full)], w_step = 8\<rparr>))"
    by (simp add: staged_backup_def monad collect new publish) (simp add: failure_def)
  have backup: "backup sample_env sample_args (sample_io code) \<lparr>w_files = base, w_step = 0\<rparr>
      = (if code = 0 then (Inr [''dest'', target], \<lparr>w_files = base @ [([''dest'', target], full)], w_step = 15\<rparr>)
         else (Inl failure, \<lparr>w_files = base, w_step = 12\<rparr>))"
    unfolding backup_def bindC_def liftC_def sample_checks stamp sample_paths Let_def sum.case prod.case append_Cons append_Nil mk staged
    by (simp add: attemptC_def catchC_def bindC_def liftC_def remove finish_backup_def drop)
  have error: "backup_error failure" "failure \<noteq> Diverges" "ev_class sample_env failure = ''RuntimeError''"
    by (simp_all add: failure_def backup_error_def sample_env_def)
  have main: "backup_main sample_env sample_args (sample_io code) \<lparr>w_files = sample_files, w_step = 0\<rparr>
      = (if code = 0 then (Inr (''backup created: '' @ root_text [''dest'', target], 0), \<lparr>w_files = base @ [([''dest'', target], full)], w_step = 15\<rparr>)
         else (Inr (''backup failed: RuntimeError'', 1), \<lparr>w_files = base, w_step = 12\<rparr>))"
    unfolding backup_main_def start bindC_def liftC_def catchC_def backup by (simp add: error)
  show ?thesis
    by (rule exI [of _ name], unfold main target_def [symmetric]) (simp add: base_def)
qed

abbreviation sample_world :: world where "sample_world \<equiv> \<lparr>w_files = sample_files, w_step = 0\<rparr>"

lemma sample_there: "map_of (w_files sample_world) (ba_destination sample_args) \<noteq> None"
  by (simp add: sample_files_def sample_paths)

lemma sample_new: "p \<in> working sample_args (sample_io code) \<Longrightarrow> map_of (w_files sample_world) p = None"
  by (auto simp: working_def sample_paths sample_files_def)

theorem published_backup_is_complete_witness:
  "\<exists>m w' p n created. backup_main sample_env sample_args (sample_io 0) sample_world = (Inr (m, 0), w') \<and> map_of (w_files w') p = Some n
     \<and> nd_data n = tar_archive (backup_members sample_env (sample_io 0) created ''t'')"
proof -
  obtain name w' m where run: "backup_main sample_env sample_args (sample_io 0) sample_world = (Inr (m, 0), w')"
      "map_of (w_files w') [''dest'', ''k3s-sqlite-'' @ name] \<noteq> None" using sample_run [of 0] by auto
  define p where "p = [''dest'', ''k3s-sqlite-'' @ name]"
  have "p \<notin> working sample_args (sample_io 0)"
    by (rule target_apart) (simp_all add: sample_paths p_def)
  moreover have "map_of (w_files w') p \<noteq> map_of (w_files sample_world) p"
    using run(2) by (simp add: p_def sample_files_def)
  ultimately obtain created token n where "map_of (w_files w') p = Some n" "bi_token (sample_io 0) 0 = Inr token"
      "nd_data n = bi_cipher (sample_io 0) (tar_archive (backup_members sample_env (sample_io 0) created token))"
    using published_backup_is_complete [OF run(1), of p] by blast
  with run(1) show ?thesis unfolding sample_answers sum.inject by blast
qed

theorem finished_backup_is_alone_witness:
  "\<exists>m w' p. backup_main sample_env sample_args (sample_io 0) sample_world = (Inr (m, 0), w') \<and> m = ''backup created: '' @ root_text p
     \<and> published sample_env sample_args (sample_io 0) (w_files w') p
     \<and> unchanged_but (insert p (working sample_args (sample_io 0))) sample_files (w_files w')
     \<and> (\<forall>q \<in> working sample_args (sample_io 0). map_of (w_files w') q = None)"
proof -
  obtain w' m where run: "backup_main sample_env sample_args (sample_io 0) sample_world = (Inr (m, 0), w')"
    using sample_run [of 0] by auto
  from finished_backup_is_alone [OF run sample_there] run show ?thesis by (simp only: world.select_convs) blast
qed

theorem failed_backup_leaves_no_trace_witness:
  "\<exists>m w'. backup_main sample_env sample_args (sample_io 1) sample_world = (Inr (m, 1), w') \<and> map_of (w_files w') = map_of sample_files"
proof -
  obtain w' m where run: "backup_main sample_env sample_args (sample_io 1) sample_world = (Inr (m, 1), w')"
    using sample_run [of 1] by auto
  have "map_of (w_files w') p = map_of sample_files p" for p
    using failed_backup_leaves_no_trace [OF run sample_calm sample_there sample_new] by simp
  with run show ?thesis by blast
qed

end
